(* ===== verification/Prelude.thy ===== *)
theory Prelude
  imports Complex_Main "HOL-Library.AList" "HOL-Library.Monad_Syntax" "HOL-Library.Sublist"
begin

text \<open>
  Shared vocabulary of the development: the collections of rewrite rules the component
  theories fill (\<open>dict_simps\<close>, \<open>state_simps\<close>, \<open>lift_simps\<close>), ordered dictionaries as
  association lists with the update behaviour of a Python \<open>dict\<close> (a new key goes to the
  end, an old one keeps its place), and the facts about lists, options and maps that
  several components use. The locale \<open>keyed_store\<close> is the contract every component
  relies on when it reads a dictionary after writing it.
\<close>

named_theorems dict_simps "reading an ordered dictionary after an operation on it"
named_theorems state_simps "reading a section of the runtime state after an operation on it"
named_theorems lift_simps "results of computations that may raise"

section \<open>Ordered dictionaries\<close>

type_synonym 'v odict = "(string \<times> 'v) list"

text \<open>\<open>d[k] = v\<close>, \<open>d.pop(k, None)\<close> and \<open>k in d\<close>.\<close>

abbreviation dset :: "string \<Rightarrow> 'v \<Rightarrow> 'v odict \<Rightarrow> 'v odict" where
  "dset k v d \<equiv> AList.update k v d"

abbreviation dpop :: "string \<Rightarrow> 'v odict \<Rightarrow> 'v odict" where
  "dpop k d \<equiv> AList.delete k d"

definition dhas :: "string \<Rightarrow> 'v odict \<Rightarrow> bool" where
  "dhas k d \<longleftrightarrow> map_of d k \<noteq> None"

abbreviation dkeys :: "'v odict \<Rightarrow> string list" where
  "dkeys d \<equiv> map fst d"

text \<open>A dictionary has each key once.\<close>

abbreviation wf_dict :: "'v odict \<Rightarrow> bool" where
  "wf_dict d \<equiv> distinct (map fst d)"

lemma map_of_dset [dict_simps, simp]:
  "map_of (dset k v d) k' = (if k' = k then Some v else map_of d k')"
  by (simp add: update_conv)

lemma map_of_dpop [dict_simps, simp]:
  "map_of (dpop k d) k' = (if k' = k then None else map_of d k')"
  by (simp add: AList.delete_conv)

lemma wf_dset [simp, intro]: "wf_dict d \<Longrightarrow> wf_dict (dset k v d)"
  by (rule distinct_update)

lemma wf_dpop [simp, intro]: "wf_dict d \<Longrightarrow> wf_dict (dpop k d)"
  by (rule distinct_delete)

lemma dkeys_dset_new: "\<not> dhas k d \<Longrightarrow> dkeys (dset k v d) = dkeys d @ [k]"
  by (simp add: update_keys dhas_def map_of_eq_None_iff)

lemma dkeys_dset_old: "dhas k d \<Longrightarrow> dkeys (dset k v d) = dkeys d"
  by (simp add: update_keys dhas_def map_of_eq_None_iff)

lemma set_dset: "wf_dict d \<Longrightarrow> (x, y) \<in> set (dset k v d) \<longleftrightarrow> (if x = k then y = v else (x, y) \<in> set d)"
  by (metis map_of_dset map_of_eq_Some_iff wf_dset option.inject)

lemma wf_dict_filter [simp, intro]: "wf_dict d \<Longrightarrow> wf_dict (filter P d)"
  by (rule distinct_map_filter)

lemma map_of_filter_key:
  "map_of (filter (\<lambda>(k, v). P k) d) k = (if P k then map_of d k else None)"
  by (induction d) auto

lemma map_of_filter_wf:
  assumes "wf_dict d"
  shows "map_of (filter (\<lambda>(k, v). P k v) d) k
    = (case map_of d k of None \<Rightarrow> None | Some v \<Rightarrow> if P k v then Some v else None)"
  using assms by (induction d) (auto split: option.splits simp: map_of_eq_None_iff image_iff)

lemma map_of_map_snd:
  "map_of (map (\<lambda>(k, v). (k, f k v)) d) k = map_option (f k) (map_of d k)"
  by (induction d) auto

section \<open>The contract of a keyed store\<close>

text \<open>
  What a component relies on when it writes a row and later reads it: \<open>put\<close> is seen by
  \<open>get\<close> at its own key only, \<open>del\<close> removes its own key only.
\<close>

locale keyed_store =
  fixes get :: "'s \<Rightarrow> 'k \<Rightarrow> 'v option"
    and put :: "'k \<Rightarrow> 'v \<Rightarrow> 's \<Rightarrow> 's"
    and del :: "'k \<Rightarrow> 's \<Rightarrow> 's"
  assumes get_put: "get (put k v s) k' = (if k' = k then Some v else get s k')"
    and get_del: "get (del k s) k' = (if k' = k then None else get s k')"
begin

lemma put_put: "get (put k v (put k w s)) = get (put k v s)"
  by (rule ext) (simp add: get_put)

lemma put_swap: "k \<noteq> k' \<Longrightarrow> get (put k v (put k' w s)) = get (put k' w (put k v s))"
  by (rule ext) (simp add: get_put)

lemma del_after_put: "get (del k (put k v s)) = get (del k s)"
  by (rule ext) (simp add: get_put get_del)

lemma dels_frame: "k' \<notin> set ks \<Longrightarrow> get (fold del ks s) k' = get s k'"
  by (induction ks arbitrary: s) (auto simp: get_del)

lemma dels_gone: "k' \<in> set ks \<Longrightarrow> get (fold del ks s) k' = None"
proof (induction ks arbitrary: s)
  case (Cons k ks)
  show ?case
  proof (cases "k' \<in> set ks")
    case True
    then show ?thesis by (simp add: Cons.IH)
  next
    case False
    with Cons.prems have "k' = k" by simp
    with False show ?thesis by (simp add: dels_frame get_del)
  qed
qed simp

end

interpretation odict: keyed_store map_of dset dpop
  by unfold_locales simp_all

section \<open>Lists and options\<close>

lemma list_ex_mono: "list_ex P xs \<Longrightarrow> (\<And>x. P x \<Longrightarrow> Q x) \<Longrightarrow> list_ex Q xs"
  by (auto simp: list_ex_iff)

lemma bind_eq_Some [lift_simps]:
  "(m \<bind> f) = Some y \<longleftrightarrow> (\<exists>x. m = Some x \<and> f x = Some y)"
  by (cases m) auto

lemma bind_SomeE:
  assumes "(m \<bind> f) = Some y"
  obtains x where "m = Some x" "f x = Some y"
  using assms by (cases m) auto

lemma case_prod_SomeE:
  assumes "(case x of (a, b) \<Rightarrow> f a b) = Some y"
  obtains a b where "x = (a, b)" "f a b = Some y"
  using assms by (cases x) auto

lemma map_option_eq_SomeI [lift_simps]:
  "map_option f m = Some y \<longleftrightarrow> (\<exists>x. m = Some x \<and> f x = y)"
  by (cases m) auto

lemma sum_list_map_nonneg:
  fixes f :: "'a \<Rightarrow> real"
  shows "(\<And>x. x \<in> set xs \<Longrightarrow> 0 \<le> f x) \<Longrightarrow> 0 \<le> sum_list (map f xs)"
  by (induction xs) auto

lemma sum_list_map_mono_on:
  fixes f g :: "'a \<Rightarrow> real"
  shows "(\<And>x. x \<in> set xs \<Longrightarrow> f x \<le> g x) \<Longrightarrow> sum_list (map f xs) \<le> sum_list (map g xs)"
  by (induction xs) (auto intro: add_mono)

lemma sum_list_filter_le:
  fixes f :: "'a \<Rightarrow> real"
  shows "(\<And>x. x \<in> set xs \<Longrightarrow> 0 \<le> f x) \<Longrightarrow> sum_list (map f (filter P xs)) \<le> sum_list (map f xs)"
  by (induction xs) (auto intro: add_increasing)

end
