(* ===== verification/ExceptionChain.thy ===== *)
theory ExceptionChain
  imports Prelude
begin

text \<open>
  What \<open>failures.py\<close> recovers from a raised exception: the breadth-first walk over everything
  it wraps, the first errno on that walk, and the two transport readings (a TLS failure, a
  network that cannot be reached). Exceptions are objects with identity, so they live in a
  heap, a list indexed by address; a link to something that is no exception is \<open>None\<close>.
\<close>

section \<open>Exceptions on the heap\<close>

text \<open>An errno attribute can be absent, a plain integer, or something else (a flag, a text).\<close>

datatype errno_attr = NoErrno | IntErrno int | OtherErrno

record exc_obj =
  ex_errno :: errno_attr
  ex_mro :: "string list"
  ex_cause :: "nat option"
  ex_context :: "nat option"
  ex_args :: "nat option list"

type_synonym exc_heap = "exc_obj list"

text \<open>\<open>(current.__cause__, current.__context__, *args)\<close>, those that are exceptions.\<close>

definition linked :: "exc_heap \<Rightarrow> nat \<Rightarrow> nat list" where
  "linked h a =
     (if a < length h
      then filter (\<lambda>b. b < length h)
             (List.map_filter id (ex_cause (h ! a) # ex_context (h ! a) # ex_args (h ! a)))
      else [])"

lemma unseen_shrinks:
  assumes "a < length h" "a \<notin> set seen"
  shows "card ({..<length h} - insert a (set seen)) < card ({..<length h} - set seen)"
  using assms by (intro psubset_card_mono) auto

text \<open>
  The loop of the walk: \<open>pending\<close> is the deque, \<open>seen\<close> the identities already yielded. Every
  round either yields an address for the first time or shortens the deque.
\<close>

function walk_from :: "exc_heap \<Rightarrow> nat list \<Rightarrow> nat list \<Rightarrow> nat list" where
  "walk_from h [] seen = []"
| "walk_from h (a # pending) seen =
     (if a \<in> set seen \<or> \<not> a < length h then walk_from h pending seen
      else a # walk_from h (pending @ linked h a) (a # seen))"
  by pat_completeness auto

termination
proof (relation "(\<lambda>(h, pending, seen). card ({..<length h} - set seen)) <*mlex*>
    measure (\<lambda>(h, pending, seen). length pending)")
  show "wf ((\<lambda>(h, pending, seen). card ({..<length h} - set seen)) <*mlex*>
    measure (\<lambda>(h, pending, seen). length pending))"
    by (intro wf_mlex) simp
next
  fix h :: exc_heap and a :: nat and pending seen :: "nat list"
  show "((h, pending, seen), (h, a # pending, seen)) \<in>
     (\<lambda>(h, pending, seen). card ({..<length h} - set seen)) <*mlex*>
       measure (\<lambda>(h, pending, seen). length pending)"
    by (simp add: mlex_iff)
next
  fix h :: exc_heap and a :: nat and pending seen :: "nat list"
  assume "\<not> (a \<in> set seen \<or> \<not> a < length h)"
  then show "((h, pending @ linked h a, a # seen), (h, a # pending, seen)) \<in>
     (\<lambda>(h, pending, seen). card ({..<length h} - set seen)) <*mlex*>
       measure (\<lambda>(h, pending, seen). length pending)"
    using unseen_shrinks[of a h seen] by (simp add: mlex_iff del: card_Diff_insert)
qed

declare walk_from.simps [simp del]

definition walk_exception_chain :: "exc_heap \<Rightarrow> nat \<Rightarrow> nat list" where
  "walk_exception_chain h exc = walk_from h [exc] []"

section \<open>Readings\<close>

text \<open>The first errno that is a true integer and not zero.\<close>

definition usable_errno :: "exc_obj \<Rightarrow> int option" where
  "usable_errno e = (case ex_errno e of IntErrno n \<Rightarrow> if n \<noteq> 0 then Some n else None | _ \<Rightarrow> None)"

definition first_exception_errno :: "exc_heap \<Rightarrow> nat \<Rightarrow> int option" where
  "first_exception_errno h exc =
     (case List.map_filter (\<lambda>a. usable_errno (h ! a)) (walk_exception_chain h exc) of
        [] \<Rightarrow> None | n # _ \<Rightarrow> Some n)"

definition exception_is_tls_failure :: "exc_heap \<Rightarrow> nat \<Rightarrow> bool" where
  "exception_is_tls_failure h exc \<longleftrightarrow>
     list_ex (\<lambda>a. list_ex (\<lambda>name. prefix ''SSL'' name) (ex_mro (h ! a))) (walk_exception_chain h exc)"

text \<open>\<open>ENETUNREACH\<close> and \<open>ENETDOWN\<close>, with their Linux values.\<close>

definition LOCAL_NETWORK_ERRNOS :: "int list" where
  "LOCAL_NETWORK_ERRNOS = [101, 100]"

definition exception_is_network_unreachable :: "exc_heap \<Rightarrow> nat \<Rightarrow> bool" where
  "exception_is_network_unreachable h exc \<longleftrightarrow>
     list_ex (\<lambda>a.
         (case ex_errno (h ! a) of IntErrno n \<Rightarrow> n \<in> set LOCAL_NETWORK_ERRNOS | _ \<Rightarrow> False) \<or>
         list_ex (\<lambda>name. name \<in> set [''gaierror'', ''NameResolutionError'']) (ex_mro (h ! a)))
       (walk_exception_chain h exc)"

section \<open>The walk visits what the exception wraps, once each\<close>

inductive wraps :: "exc_heap \<Rightarrow> nat \<Rightarrow> nat \<Rightarrow> bool" for h where
  here: "a < length h \<Longrightarrow> wraps h a a"
| link: "wraps h a b \<Longrightarrow> c \<in> set (linked h b) \<Longrightarrow> wraps h a c"

inductive_cases wrapsE: "wraps h a b"

lemma linked_in_heap: "c \<in> set (linked h b) \<Longrightarrow> b < length h \<and> c < length h"
  by (auto simp: linked_def split: if_splits)

lemma wraps_in_heap: "wraps h a b \<Longrightarrow> a < length h \<and> b < length h"
  by (induction rule: wraps.induct) (auto dest: linked_in_heap)

lemma wraps_trans: "wraps h b c \<Longrightarrow> wraps h a b \<Longrightarrow> wraps h a c"
  by (induction rule: wraps.induct) (auto intro: wraps.link)

lemma walk_from_fresh: "b \<in> set (walk_from h pending seen) \<Longrightarrow> b \<notin> set seen \<and> b < length h"
  by (induction h pending seen rule: walk_from.induct)
     (subst (asm) walk_from.simps; auto split: if_splits simp: walk_from.simps)+

lemma walk_from_distinct: "distinct (walk_from h pending seen)"
proof (induction h pending seen rule: walk_from.induct)
  case (2 h a pending seen)
  then show ?case
    using walk_from_fresh[of a h "pending @ linked h a" "a # seen"]
    by (auto simp: walk_from.simps)
qed (simp add: walk_from.simps)

text \<open>What has been seen and is not pending has its links seen or pending.\<close>

lemma walk_from_sound:
  "b \<in> set (walk_from h pending seen) \<Longrightarrow> \<exists>a \<in> set pending. wraps h a b"
proof (induction h pending seen rule: walk_from.induct)
  case (2 h a pending seen)
  show ?case
  proof (cases "a \<in> set seen \<or> \<not> a < length h")
    case True
    with 2 show ?thesis by (auto simp: walk_from.simps)
  next
    case False
    with 2(3) consider "b = a" | "b \<in> set (walk_from h (pending @ linked h a) (a # seen))"
      by (auto simp: walk_from.simps split: if_splits)
    then show ?thesis
    proof cases
      case 1
      with False show ?thesis by (auto intro: wraps.here)
    next
      case 2
      from "2.IH"(2)[OF False 2] obtain c where c: "c \<in> set pending \<union> set (linked h a)" "wraps h c b"
        by auto
      show ?thesis
      proof (cases "c \<in> set pending")
        case True
        with c show ?thesis by auto
      next
        case c_linked: False
        with c False have "wraps h a c" by (auto intro: wraps.intros)
        with c show ?thesis by (auto intro: wraps_trans)
      qed
    qed
  qed
qed (simp add: walk_from.simps)

lemma walk_from_closed:
  assumes "\<forall>b \<in> set seen. set (linked h b) \<subseteq> set seen \<union> set pending"
  shows "(\<forall>b \<in> set seen \<union> set (walk_from h pending seen).
            set (linked h b) \<subseteq> set seen \<union> set (walk_from h pending seen))
       \<and> (\<forall>a \<in> set pending. a < length h \<longrightarrow> a \<in> set seen \<union> set (walk_from h pending seen))"
  using assms
proof (induction h pending seen rule: walk_from.induct)
  case (1 h seen)
  then show ?case by (simp add: walk_from.simps)
next
  case (2 h a pending seen)
  show ?case
  proof (cases "a \<in> set seen \<or> \<not> a < length h")
    case True
    have "\<forall>b \<in> set seen. set (linked h b) \<subseteq> set seen \<union> set pending"
      using "2.prems" True linked_in_heap by fastforce
    from "2.IH"(1)[OF True this] True show ?thesis by (auto simp: walk_from.simps)
  next
    case False
    have "\<forall>b \<in> set (a # seen). set (linked h b) \<subseteq> set (a # seen) \<union> set (pending @ linked h a)"
      using "2.prems" by auto
    from "2.IH"(2)[OF False this] False show ?thesis by (auto simp: walk_from.simps)
  qed
qed

lemma walk_from_complete:
  assumes "wraps h a b" "a \<in> set (walk_from h [exc] [])"
  shows "b \<in> set (walk_from h [exc] [])"
  using assms by (induction rule: wraps.induct) (use walk_from_closed[of "[]" h "[exc]"] in auto)

lemma walk_exception_chain_members:
  "b \<in> set (walk_exception_chain h exc) \<longleftrightarrow> wraps h exc b"
proof
  assume "b \<in> set (walk_exception_chain h exc)"
  then show "wraps h exc b"
    using walk_from_sound[of b h "[exc]" "[]"] by (simp add: walk_exception_chain_def)
next
  assume "wraps h exc b"
  moreover from this have "exc \<in> set (walk_from h [exc] [])"
    using walk_from_closed[of "[]" h "[exc]"] wraps_in_heap by auto
  ultimately show "b \<in> set (walk_exception_chain h exc)"
    unfolding walk_exception_chain_def by (rule walk_from_complete)
qed

text \<open>The walk ends on any heap, cyclic ones included, and yields the exception and everything
  it wraps, directly or not, each exactly once.\<close>

theorem walk_visits_each_wrapped_exception_once:
  "distinct (walk_exception_chain h exc) \<and> set (walk_exception_chain h exc) = {b. wraps h exc b}"
  using walk_from_distinct walk_exception_chain_members by (auto simp: walk_exception_chain_def)

end
