(* ===== verification/PyValue.thy ===== *)
theory PyValue
  imports Prelude
begin

text \<open>
  The Python values the program computes with: JSON-shaped data (\<open>None\<close>, booleans,
  unbounded integers, floats, strings, lists and ordered dictionaries), truth testing, the
  conversions \<open>str()\<close>, \<open>int()\<close> and \<open>float()\<close>, and the dictionary idioms the code is
  written in (\<open>d.get\<close>, \<open>setdefault\<close>, \<open>x if isinstance(x, dict) else {}\<close>). A computation
  that may raise returns an option; \<open>None\<close> is the raised exception.

  A float is an exact real, an infinity or a NaN: rounding of finite results to 53 bits is
  not modelled. A string is a list of characters with code points below 256, on which the
  character classes and case mappings are those of Python.
\<close>

section \<open>Values\<close>

datatype pyfloat = Fin real | PosInf | NegInf | NotANum

datatype pv =
    PNone
  | PBool bool
  | PInt int
  | PFloat pyfloat
  | PStr string
  | PList "pv list"
  | PDict "(string \<times> pv) list"

type_synonym pydict = "pv odict"

fun truthy :: "pv \<Rightarrow> bool" where
  "truthy PNone = False"
| "truthy (PBool b) = b"
| "truthy (PInt i) = (i \<noteq> 0)"
| "truthy (PFloat f) = (f \<noteq> Fin 0)"
| "truthy (PStr s) = (s \<noteq> [])"
| "truthy (PList xs) = (xs \<noteq> [])"
| "truthy (PDict d) = (d \<noteq> [])"

text \<open>\<open>a or b\<close>.\<close>

definition por :: "pv \<Rightarrow> pv \<Rightarrow> pv" where
  "por a b = (if truthy a then a else b)"

text \<open>\<open>d.get(k)\<close> and \<open>d.get(k, v)\<close> on a dictionary.\<close>

definition dget :: "pydict \<Rightarrow> string \<Rightarrow> pv" where
  "dget d k = (case map_of d k of None \<Rightarrow> PNone | Some v \<Rightarrow> v)"

definition dget_or :: "pydict \<Rightarrow> string \<Rightarrow> pv \<Rightarrow> pv" where
  "dget_or d k v = (case map_of d k of None \<Rightarrow> v | Some w \<Rightarrow> w)"

fun is_dict :: "pv \<Rightarrow> bool" where
  "is_dict (PDict d) = True"
| "is_dict _ = False"

fun is_str :: "pv \<Rightarrow> bool" where
  "is_str (PStr s) = True"
| "is_str _ = False"

text \<open>\<open>x if isinstance(x, dict) else {}\<close>, and the same for a list.\<close>

fun as_dict :: "pv \<Rightarrow> pydict" where
  "as_dict (PDict d) = d"
| "as_dict _ = []"

fun as_list :: "pv \<Rightarrow> pv list" where
  "as_list (PList xs) = xs"
| "as_list _ = []"

text \<open>\<open>v.get(...)\<close> and item assignment on a value that must be a dictionary: anything else raises.\<close>

fun dict_or_raise :: "pv \<Rightarrow> pydict option" where
  "dict_or_raise (PDict d) = Some d"
| "dict_or_raise _ = None"

text \<open>
  \<open>sub = st.setdefault(k, {})\<close> followed by a mutation of \<open>sub\<close>: the mutated section is
  stored back. It raises when the section exists and is no dictionary, as the item
  assignment of the code would.
\<close>

definition with_sub :: "string \<Rightarrow> (pydict \<Rightarrow> pydict option) \<Rightarrow> pydict \<Rightarrow> pydict option" where
  "with_sub k f st =
     (case map_of st k of
        None \<Rightarrow> map_option (\<lambda>d. dset k (PDict d) st) (f [])
      | Some v \<Rightarrow> do { d \<leftarrow> dict_or_raise v; d' \<leftarrow> f d; Some (dset k (PDict d') st) })"

text \<open>\<open>sub = st.setdefault(k, {})\<close>, mutated only \<open>if isinstance(sub, dict)\<close>.\<close>

definition with_sub_if :: "string \<Rightarrow> (pydict \<Rightarrow> pydict) \<Rightarrow> pydict \<Rightarrow> pydict" where
  "with_sub_if k f st =
     (case map_of st k of
        None \<Rightarrow> dset k (PDict (f [])) st
      | Some (PDict d) \<Rightarrow> dset k (PDict (f d)) st
      | Some _ \<Rightarrow> st)"

text \<open>\<open>sub = st.get(k)\<close>, mutated only \<open>if isinstance(sub, dict)\<close>.\<close>

definition on_sub :: "string \<Rightarrow> (pydict \<Rightarrow> pydict) \<Rightarrow> pydict \<Rightarrow> pydict" where
  "on_sub k f st = (case map_of st k of Some (PDict d) \<Rightarrow> dset k (PDict (f d)) st | _ \<Rightarrow> st)"

text \<open>The section \<open>k\<close> of a state as a dictionary: \<open>st.get(k) if isinstance(st.get(k), dict) else {}\<close>.\<close>

definition section_of :: "pydict \<Rightarrow> string \<Rightarrow> pydict" where
  "section_of st k = as_dict (dget st k)"

text \<open>A section that \<open>with_sub\<close> can write: absent, or a dictionary.\<close>

definition section_ok :: "pydict \<Rightarrow> string \<Rightarrow> bool" where
  "section_ok st k \<longleftrightarrow> (case map_of st k of None \<Rightarrow> True | Some v \<Rightarrow> is_dict v)"

section \<open>Characters and text\<close>

abbreviation cpoint :: "char \<Rightarrow> int" where
  "cpoint c \<equiv> of_char c"

definition is_digit :: "char \<Rightarrow> bool" where
  "is_digit c \<longleftrightarrow> 48 \<le> cpoint c \<and> cpoint c \<le> 57"

definition is_upper :: "char \<Rightarrow> bool" where
  "is_upper c \<longleftrightarrow> 65 \<le> cpoint c \<and> cpoint c \<le> 90"

definition is_lower :: "char \<Rightarrow> bool" where
  "is_lower c \<longleftrightarrow> 97 \<le> cpoint c \<and> cpoint c \<le> 122"

text \<open>\<open>\w\<close> of a Unicode pattern and \<open>\s\<close>, on code points below 256.\<close>

definition is_word :: "char \<Rightarrow> bool" where
  "is_word c \<longleftrightarrow> is_digit c \<or> is_upper c \<or> is_lower c \<or> cpoint c = 95
     \<or> cpoint c \<in> {170, 178, 179, 181, 185, 186, 188, 189, 190}
     \<or> (192 \<le> cpoint c \<and> cpoint c \<noteq> 215 \<and> cpoint c \<noteq> 247)"

definition is_space :: "char \<Rightarrow> bool" where
  "is_space c \<longleftrightarrow> (9 \<le> cpoint c \<and> cpoint c \<le> 13) \<or> (28 \<le> cpoint c \<and> cpoint c \<le> 32)
     \<or> cpoint c = 133 \<or> cpoint c = 160"

definition lower_char :: "char \<Rightarrow> char" where
  "lower_char c =
     (if is_upper c \<or> (192 \<le> cpoint c \<and> cpoint c \<le> 222 \<and> cpoint c \<noteq> 215)
      then char_of (cpoint c + 32) else c)"

definition lower :: "string \<Rightarrow> string" where
  "lower s = map lower_char s"

definition lstrip :: "string \<Rightarrow> string" where
  "lstrip s = dropWhile is_space s"

definition strip :: "string \<Rightarrow> string" where
  "strip s = rev (lstrip (rev (lstrip s)))"

text \<open>\<open>p in s\<close> for strings.\<close>

definition contains :: "string \<Rightarrow> string \<Rightarrow> bool" where
  "contains p s \<longleftrightarrow> sublist p s"

definition starts_with :: "string \<Rightarrow> string \<Rightarrow> bool" where
  "starts_with p s \<longleftrightarrow> prefix p s"

definition ends_with :: "string \<Rightarrow> string \<Rightarrow> bool" where
  "ends_with p s \<longleftrightarrow> suffix p s"

text \<open>\<open>s.replace(a, b)\<close> for single characters.\<close>

definition replace_char :: "char \<Rightarrow> string \<Rightarrow> string \<Rightarrow> string" where
  "replace_char a b s = concat (map (\<lambda>c. if c = a then b else [c]) s)"

text \<open>\<open>s.split(c)\<close>; the code's \<open>s.split(c, 1)[0]\<close> is its head.\<close>

fun split_char :: "char \<Rightarrow> string \<Rightarrow> string list" where
  "split_char c [] = [[]]"
| "split_char c (x # xs) =
     (if x = c then [] # split_char c xs
      else (case split_char c xs of [] \<Rightarrow> [[x]] | w # ws \<Rightarrow> (x # w) # ws))"

definition join :: "string \<Rightarrow> string list \<Rightarrow> string" where
  "join sep ws = (case ws of [] \<Rightarrow> [] | w # rest \<Rightarrow> w @ concat (map (\<lambda>x. sep @ x) rest))"

text \<open>The order of strings that \<open>sorted\<close> uses: lexicographic by code point.\<close>

fun str_le :: "string \<Rightarrow> string \<Rightarrow> bool" where
  "str_le [] _ = True"
| "str_le (_ # _) [] = False"
| "str_le (a # as) (b # bs) = (cpoint a < cpoint b \<or> (a = b \<and> str_le as bs))"

section \<open>str()\<close>

function show_nat :: "int \<Rightarrow> string" where
  "show_nat n = (if n < 10 then [char_of (48 + n)] else show_nat (n div 10) @ [char_of (48 + n mod 10)])"
  by pat_completeness auto
termination
  by (relation "measure nat") auto

declare show_nat.simps [simp del]

definition show_int :: "int \<Rightarrow> string" where
  "show_int i = (if i < 0 then ''-'' @ show_nat (- i) else show_nat i)"

text \<open>
  \<open>repr\<close> of a float in positional notation, with at most 17 decimals (the exponent
  notation Python uses below 1e-4 and from 1e16 on is not modelled).
\<close>

definition pad17 :: "string \<Rightarrow> string" where
  "pad17 s = replicate (17 - length s) (CHR ''0'') @ s"

definition show_float :: "pyfloat \<Rightarrow> string" where
  "show_float f =
     (case f of
        PosInf \<Rightarrow> ''inf''
      | NegInf \<Rightarrow> ''-inf''
      | NotANum \<Rightarrow> ''nan''
      | Fin r \<Rightarrow>
          (let n = \<lfloor>\<bar>r\<bar> * 10 ^ 17 + 1 / 2\<rfloor>;
               whole = show_nat (n div 10 ^ 17);
               decimals = rev (dropWhile (\<lambda>c. c = CHR ''0'') (rev (pad17 (show_nat (n mod 10 ^ 17)))))
           in (if r < 0 then ''-'' else []) @ whole @ ''.'' @ (if decimals = [] then ''0'' else decimals)))"

text \<open>\<open>repr\<close> of a string: single quotes unless the text holds one and no double quote.\<close>

definition repr_str :: "string \<Rightarrow> string" where
  "repr_str s =
     (let q = (if CHR 0x27 \<in> set s \<and> CHR 0x22 \<notin> set s then CHR 0x22 else CHR 0x27)
      in [q] @ concat (map (\<lambda>c. if c = q \<or> c = CHR 0x5C then [CHR 0x5C, c]
                               else if c = CHR 0x0A then [CHR 0x5C, CHR ''n'']
                               else if c = CHR 0x0D then [CHR 0x5C, CHR ''r'']
                               else if c = CHR 0x09 then [CHR 0x5C, CHR ''t'']
                               else [c]) s) @ [q])"

fun py_repr :: "pv \<Rightarrow> string" where
  "py_repr PNone = ''None''"
| "py_repr (PBool b) = (if b then ''True'' else ''False'')"
| "py_repr (PInt i) = show_int i"
| "py_repr (PFloat f) = show_float f"
| "py_repr (PStr s) = repr_str s"
| "py_repr (PList xs) = ''['' @ join '', '' (map py_repr xs) @ '']''"
| "py_repr (PDict d) = ''{'' @ join '', '' (map (\<lambda>(k, v). repr_str k @ '': '' @ py_repr v) d) @ ''}''"

definition py_str :: "pv \<Rightarrow> string" where
  "py_str v = (case v of PStr s \<Rightarrow> s | _ \<Rightarrow> py_repr v)"

section \<open>int() and float()\<close>

definition digit_val :: "char \<Rightarrow> int" where
  "digit_val c = cpoint c - 48"

definition digits_val :: "string \<Rightarrow> int" where
  "digits_val s = foldl (\<lambda>n c. 10 * n + digit_val c) 0 s"

text \<open>Digits with single underscores between them; the digits without the underscores.\<close>

fun digit_part :: "string \<Rightarrow> string option" where
  "digit_part [] = None"
| "digit_part [c] = (if is_digit c then Some [c] else None)"
| "digit_part (c # d # s) =
     (if \<not> is_digit c then None
      else if d = CHR ''_'' then map_option ((#) c) (digit_part s)
      else map_option ((#) c) (digit_part (d # s)))"

definition split_sign :: "string \<Rightarrow> bool \<times> string" where
  "split_sign s = (case s of
     c # r \<Rightarrow> (if c = CHR ''-'' then (True, r) else if c = CHR ''+'' then (False, r) else (False, s))
   | [] \<Rightarrow> (False, []))"

definition parse_int :: "string \<Rightarrow> int option" where
  "parse_int s =
     (let (neg, r) = split_sign (strip s)
      in map_option (\<lambda>ds. if neg then - digits_val ds else digits_val ds) (digit_part r))"

text \<open>\<open>d.d\<close>, \<open>d.\<close>, \<open>.d\<close> or \<open>d\<close>: the value of a mantissa.\<close>

definition parse_mantissa :: "string \<Rightarrow> real option" where
  "parse_mantissa s =
     (case split_char (CHR ''.'') s of
        [w] \<Rightarrow> map_option (\<lambda>ds. real_of_int (digits_val ds)) (digit_part w)
      | [w, f] \<Rightarrow>
          (if w = [] \<and> f = [] then None
           else do {
             ds \<leftarrow> (if w = [] then Some [] else digit_part w);
             fs \<leftarrow> (if f = [] then Some [] else digit_part f);
             Some (real_of_int (digits_val ds) + real_of_int (digits_val fs) / 10 ^ length fs)
           })
      | _ \<Rightarrow> None)"

definition parse_ufloat :: "string \<Rightarrow> pyfloat option" where
  "parse_ufloat s =
     (let l = lower s in
      if l = ''inf'' \<or> l = ''infinity'' then Some PosInf
      else if l = ''nan'' then Some NotANum
      else (case split_char (CHR ''e'') l of
              [m] \<Rightarrow> map_option Fin (parse_mantissa m)
            | [m, e] \<Rightarrow>
                (let (neg, r) = split_sign e in
                 do {
                   x \<leftarrow> parse_mantissa m;
                   ds \<leftarrow> digit_part r;
                   Some (Fin (if neg then x / 10 ^ nat (digits_val ds) else x * 10 ^ nat (digits_val ds)))
                 })
            | _ \<Rightarrow> None))"

definition neg_float :: "pyfloat \<Rightarrow> pyfloat" where
  "neg_float f = (case f of Fin r \<Rightarrow> Fin (- r) | PosInf \<Rightarrow> NegInf | NegInf \<Rightarrow> PosInf | NotANum \<Rightarrow> NotANum)"

definition parse_float :: "string \<Rightarrow> pyfloat option" where
  "parse_float s =
     (let (neg, r) = split_sign (strip s)
      in map_option (\<lambda>f. if neg then neg_float f else f) (parse_ufloat r))"

text \<open>\<open>int(v)\<close> and \<open>float(v)\<close>; \<open>None\<close> is a TypeError, ValueError or OverflowError.\<close>

definition trunc :: "real \<Rightarrow> int" where
  "trunc r = (if 0 \<le> r then \<lfloor>r\<rfloor> else \<lceil>r\<rceil>)"

fun py_int :: "pv \<Rightarrow> int option" where
  "py_int (PInt i) = Some i"
| "py_int (PBool b) = Some (if b then 1 else 0)"
| "py_int (PFloat (Fin r)) = Some (trunc r)"
| "py_int (PStr s) = parse_int s"
| "py_int _ = None"

fun py_float :: "pv \<Rightarrow> pyfloat option" where
  "py_float (PInt i) = Some (Fin (real_of_int i))"
| "py_float (PBool b) = Some (Fin (if b then 1 else 0))"
| "py_float (PFloat f) = Some f"
| "py_float (PStr s) = parse_float s"
| "py_float _ = None"

text \<open>A float known to be finite, as a value.\<close>

abbreviation PReal :: "real \<Rightarrow> pv" where
  "PReal r \<equiv> PFloat (Fin r)"

text \<open>\<open>round(x, n)\<close>: to the nearest multiple of 10^-n, a tie to the even neighbour.\<close>

definition round_half_even :: "real \<Rightarrow> int" where
  "round_half_even x =
     (let n = \<lfloor>x\<rfloor>; d = x - of_int n
      in if d < 1 / 2 then n else if 1 / 2 < d then n + 1 else if even n then n else n + 1)"

definition py_round :: "nat \<Rightarrow> real \<Rightarrow> real" where
  "py_round n x = of_int (round_half_even (x * 10 ^ n)) / 10 ^ n"

text \<open>\<open>==\<close> between a JSON value and an integer constant, where \<open>True == 1 == 1.0\<close>.\<close>

fun num_of :: "pv \<Rightarrow> pyfloat option" where
  "num_of (PInt i) = Some (Fin (real_of_int i))"
| "num_of (PBool b) = Some (Fin (if b then 1 else 0))"
| "num_of (PFloat f) = Some f"
| "num_of _ = None"

definition eq_int :: "pv \<Rightarrow> int \<Rightarrow> bool" where
  "eq_int v i \<longleftrightarrow> num_of v = Some (Fin (real_of_int i))"

section \<open>Reading values after writing them\<close>

lemma dget_dset [dict_simps, simp]: "dget (dset k v d) k' = (if k' = k then v else dget d k')"
  by (simp add: dget_def)

lemma dget_dpop [dict_simps, simp]: "dget (dpop k d) k' = (if k' = k then PNone else dget d k')"
  by (simp add: dget_def)

lemma dget_empty [simp]: "dget [] k = PNone"
  by (simp add: dget_def)

lemma dget_Cons [simp]: "dget ((k, v) # d) k' = (if k' = k then v else dget d k')"
  by (simp add: dget_def)

lemma dget_Some: "map_of d k = Some v \<Longrightarrow> dget d k = v"
  by (simp add: dget_def)

lemma section_of_dset [state_simps, simp]:
  "section_of (dset k v st) k' = (if k' = k then as_dict v else section_of st k')"
  by (simp add: section_of_def)

lemma section_of_dpop [state_simps, simp]:
  "section_of (dpop k st) k' = (if k' = k then [] else section_of st k')"
  by (simp add: section_of_def)

lemma section_ok_dset [simp]:
  "section_ok (dset k v st) k' = (if k' = k then is_dict v else section_ok st k')"
  by (simp add: section_ok_def)

lemma section_ok_empty [simp]: "section_ok [] k"
  by (simp add: section_ok_def)

lemma with_sub_eq:
  "with_sub k f st =
     (if section_ok st k then map_option (\<lambda>d. dset k (PDict d) st) (f (section_of st k)) else None)"
proof (cases "map_of st k")
  case None
  then show ?thesis by (simp add: with_sub_def section_ok_def section_of_def dget_def)
next
  case (Some v)
  then show ?thesis
    by (cases v) (auto simp: with_sub_def section_ok_def section_of_def dget_def map_option_bind
        map_conv_bind_option comp_def)
qed

lemma with_sub_SomeE:
  assumes "with_sub k f st = Some st'"
  obtains d where "section_ok st k" "f (section_of st k) = Some d" "st' = dset k (PDict d) st"
  using assms by (auto simp: with_sub_eq split: if_splits)

lemma with_sub_if_eq:
  "with_sub_if k f st = (if section_ok st k then dset k (PDict (f (section_of st k))) st else st)"
  by (auto simp: with_sub_if_def section_ok_def section_of_def dget_def split: option.splits pv.splits)

lemma on_sub_eq:
  "on_sub k f st = (case map_of st k of Some (PDict d) \<Rightarrow> dset k (PDict (f (section_of st k))) st | _ \<Rightarrow> st)"
  by (auto simp: on_sub_def section_of_def dget_def split: option.splits pv.splits)

lemma section_of_on_sub [state_simps]:
  "section_of (on_sub k f st) k' =
     (if k' = k \<and> is_dict (dget st k) then f (section_of st k) else section_of st k')"
  by (auto simp: on_sub_def section_of_def dget_def split: option.splits pv.splits)

lemma section_ok_on_sub [simp]: "section_ok (on_sub k f st) k' = section_ok st k'"
  by (auto simp: on_sub_def section_ok_def split: option.splits pv.splits)

lemma dget_on_sub_other [simp]: "k' \<noteq> k \<Longrightarrow> dget (on_sub k f st) k' = dget st k'"
  by (auto simp: on_sub_def split: option.splits pv.splits)

lemma as_dict_not_dict: "\<not> is_dict v \<Longrightarrow> as_dict v = []"
  by (cases v) auto

lemma dict_or_raise_iff [lift_simps]: "dict_or_raise v = Some d \<longleftrightarrow> v = PDict d"
  by (cases v) auto

lemma is_dict_iff: "is_dict v \<longleftrightarrow> (\<exists>d. v = PDict d)"
  by (cases v) auto

lemma truthy_por: "truthy (por a b) \<longleftrightarrow> truthy a \<or> truthy b"
  by (simp add: por_def)

lemma py_str_PStr [simp]: "py_str (PStr s) = s"
  by (simp add: py_str_def)

lemma lstrip_eq_self: "lstrip s = s \<longleftrightarrow> s = [] \<or> \<not> is_space (hd s)"
  by (simp add: lstrip_def dropWhile_eq_self_iff)

lemma lstrip_strip: "lstrip (strip s) = strip s"
proof (cases "strip s = []")
  case False
  let ?t = "lstrip s"
  have "?t = strip s @ rev (takeWhile is_space (rev ?t))"
    by (metis lstrip_def rev_append rev_rev_ident strip_def takeWhile_dropWhile_id)
  with False have "hd (strip s) = hd ?t" "?t \<noteq> []" by (metis hd_append2, auto)
  with hd_dropWhile[of is_space s] show ?thesis unfolding lstrip_eq_self by (simp add: lstrip_def)
qed (simp add: lstrip_def)

lemma strip_idem [simp]: "strip (strip s) = strip s"
proof -
  have "lstrip (lstrip x) = lstrip x" for x by (simp add: lstrip_def)
  then show ?thesis by (simp add: strip_def[of "strip s"] lstrip_strip) (simp add: strip_def)
qed

section \<open>Numbers\<close>

lemma round_half_even_bounds:
  "of_int (round_half_even x) \<le> x + 1 / 2" "x - 1 / 2 \<le> of_int (round_half_even x)"
  by (simp_all add: round_half_even_def Let_def; linarith)+

lemma round_half_even_of_int [simp]: "round_half_even (of_int n) = n"
  by (simp add: round_half_even_def)

lemma round_half_even_mono:
  assumes "x \<le> y"
  shows "round_half_even x \<le> round_half_even y"
proof (cases "\<lfloor>x\<rfloor> = \<lfloor>y\<rfloor>")
  case True
  with assms show ?thesis by (auto simp: round_half_even_def Let_def)
next
  case False
  with assms floor_mono[OF assms] have "\<lfloor>x\<rfloor> + 1 \<le> \<lfloor>y\<rfloor>" by linarith
  then show ?thesis by (auto simp: round_half_even_def Let_def)
qed

lemma round_half_even_nonneg: "0 \<le> x \<Longrightarrow> 0 \<le> round_half_even x"
  using round_half_even_mono[of 0 x] round_half_even_of_int[of 0] by simp

lemma py_round_nonneg [intro]: "0 \<le> x \<Longrightarrow> 0 \<le> py_round n x"
  by (simp add: py_round_def round_half_even_nonneg)

lemma py_round_mono: "x \<le> y \<Longrightarrow> py_round n x \<le> py_round n y"
  by (simp add: py_round_def divide_right_mono round_half_even_mono mult_right_mono)

lemma py_round_error: "\<bar>py_round n x - x\<bar> \<le> 1 / (2 * 10 ^ n)"
proof -
  let ?r = "of_int (round_half_even (x * 10 ^ n)) :: real"
  have "\<bar>?r - x * 10 ^ n\<bar> \<le> 1 / 2"
    using round_half_even_bounds[of "x * 10 ^ n"] by linarith
  then have "\<bar>?r - x * 10 ^ n\<bar> / 10 ^ n \<le> 1 / 2 / 10 ^ n"
    by (rule divide_right_mono) simp
  moreover have "\<bar>py_round n x - x\<bar> = \<bar>?r - x * 10 ^ n\<bar> / 10 ^ n"
    by (simp add: py_round_def field_simps flip: abs_mult)
  ultimately show ?thesis by (simp add: field_simps)
qed

lemma py_round_of_int [simp]: "py_round n (of_int i) = of_int i"
proof -
  have "(of_int i :: real) * 10 ^ n = of_int (i * 10 ^ n)" by simp
  then show ?thesis by (simp only: py_round_def round_half_even_of_int) simp
qed

lemma trunc_nonneg: "0 \<le> r \<Longrightarrow> 0 \<le> trunc r"
  by (simp add: trunc_def)

lemma trunc_of_int [simp]: "trunc (of_int i) = i"
  by (simp add: trunc_def)

end
