(* ===== verification/PyRegex.thy ===== *)
theory PyRegex
  imports PyValue
begin

text \<open>
  The part of Python's \<open>re\<close> module the program uses: a backtracking matcher whose results
  come in priority order (greedy repetition first), with one kind of capture group and
  assertions on the text before and after a position (lookbehind, lookahead, word
  boundary). \<open>re_search\<close>, \<open>re_fullmatch\<close>, \<open>re_sub\<close> and \<open>re_findall\<close> scan from the
  left as the module's functions do. No pattern of the program matches the empty text in
  \<open>re_sub\<close> or \<open>re_findall\<close>; an empty match is skipped there.
\<close>

section \<open>Patterns and matching\<close>

text \<open>A position: the text before it, reversed, the text after it, the captures so far, latest first.\<close>

type_synonym pos = "string \<times> string \<times> string list"

datatype re =
    Chr "char \<Rightarrow> bool"
  | Lit string
  | Eps
  | Fail
  | Cat re re
  | Alt re re
  | Opt re
  | Star re
  | Upto nat re
  | Cap re
  | Assert "string \<Rightarrow> string \<Rightarrow> bool"

fun eat :: "(char \<Rightarrow> bool) \<Rightarrow> pos \<Rightarrow> pos list" where
  "eat p (b, c # r, k) = (if p c then [(c # b, r, k)] else [])"
| "eat p (b, [], k) = []"

fun eat_lit :: "string \<Rightarrow> pos \<Rightarrow> pos list" where
  "eat_lit l (b, r, k) =
     (if take (length l) r = l then [(rev l @ b, drop (length l) r, k)] else [])"

definition rest_of :: "pos \<Rightarrow> string" where
  "rest_of s = fst (snd s)"

text \<open>
  Greedy repetition: every result that consumed something is tried again first, then the
  position itself. A round consumes at least one character, so the length of the rest
  bounds the rounds.
\<close>

primrec star_from :: "nat \<Rightarrow> (pos \<Rightarrow> pos list) \<Rightarrow> pos \<Rightarrow> pos list" where
  "star_from 0 f s = [s]"
| "star_from (Suc n) f s =
     concat (map (\<lambda>t. if length (rest_of t) < length (rest_of s) then star_from n f t else []) (f s)) @ [s]"

primrec upto_from :: "nat \<Rightarrow> (pos \<Rightarrow> pos list) \<Rightarrow> pos \<Rightarrow> pos list" where
  "upto_from 0 f s = [s]"
| "upto_from (Suc n) f s = concat (map (upto_from n f) (f s)) @ [s]"

definition captured :: "pos \<Rightarrow> pos \<Rightarrow> pos" where
  "captured s t =
     (case t of (b, r, k) \<Rightarrow>
        (b, r, take (length (rest_of s) - length r) (rest_of s) # k))"

primrec matches :: "re \<Rightarrow> pos \<Rightarrow> pos list" where
  "matches (Chr p) = eat p"
| "matches (Lit l) = eat_lit l"
| "matches Eps = (\<lambda>s. [s])"
| "matches Fail = (\<lambda>s. [])"
| "matches (Cat a c) = (\<lambda>s. concat (map (matches c) (matches a s)))"
| "matches (Alt a c) = (\<lambda>s. matches a s @ matches c s)"
| "matches (Opt a) = (\<lambda>s. matches a s @ [s])"
| "matches (Star a) = (\<lambda>s. star_from (length (rest_of s)) (matches a) s)"
| "matches (Upto n a) = upto_from n (matches a)"
| "matches (Cap a) = (\<lambda>s. map (captured s) (matches a s))"
| "matches (Assert p) = (\<lambda>s. case s of (b, r, k) \<Rightarrow> if p b r then [s] else [])"

definition match_at :: "re \<Rightarrow> string \<Rightarrow> string \<Rightarrow> pos option" where
  "match_at r b s = (case matches r (b, s, []) of [] \<Rightarrow> None | t # _ \<Rightarrow> Some t)"

section \<open>Scanning\<close>

text \<open>\<open>pattern.search(s)\<close>: the captures of the leftmost match, in group order.\<close>

fun search_from :: "re \<Rightarrow> string \<Rightarrow> string \<Rightarrow> string list option" where
  "search_from r b s =
     (case match_at r b s of
        Some (_, _, k) \<Rightarrow> Some (rev k)
      | None \<Rightarrow> (case s of [] \<Rightarrow> None | c # cs \<Rightarrow> search_from r (c # b) cs))"

declare search_from.simps [simp del]

definition re_search :: "re \<Rightarrow> string \<Rightarrow> string list option" where
  "re_search r s = search_from r [] s"

text \<open>\<open>pattern.fullmatch(s)\<close>.\<close>

definition re_fullmatch :: "re \<Rightarrow> string \<Rightarrow> string list option" where
  "re_fullmatch r s =
     (case filter (\<lambda>t. rest_of t = []) (matches r ([], s, [])) of
        [] \<Rightarrow> None | (_, _, k) # _ \<Rightarrow> Some (rev k))"

text \<open>
  The leftmost match from a position that consumes something: the skipped text, the matched
  text, the captures and the position after it.
\<close>

fun next_match :: "re \<Rightarrow> string \<Rightarrow> string \<Rightarrow> (string \<times> string \<times> string list \<times> string \<times> string) option" where
  "next_match r b s =
     (case match_at r b s of
        Some (b', s', k) \<Rightarrow>
          if length s' < length s
          then Some ([], take (length s - length s') s, rev k, b', s')
          else (case s of [] \<Rightarrow> None
                | c # cs \<Rightarrow> map_option (\<lambda>(skip, rest). (c # skip, rest)) (next_match r (c # b) cs))
      | None \<Rightarrow> (case s of [] \<Rightarrow> None
                | c # cs \<Rightarrow> map_option (\<lambda>(skip, rest). (c # skip, rest)) (next_match r (c # b) cs)))"

declare next_match.simps [simp del]

text \<open>All matches of a scan, with the text between them; \<open>Suc (length s)\<close> rounds are enough.\<close>

fun scan_from :: "nat \<Rightarrow> re \<Rightarrow> string \<Rightarrow> string \<Rightarrow> (string \<times> string \<times> string list) list \<times> string" where
  "scan_from 0 r b s = ([], s)"
| "scan_from (Suc n) r b s =
     (case next_match r b s of
        None \<Rightarrow> ([], s)
      | Some (skip, m, k, b', s') \<Rightarrow>
          (let (ms, tail) = scan_from n r b' s' in ((skip, m, k) # ms, tail)))"

definition re_scan :: "re \<Rightarrow> string \<Rightarrow> (string \<times> string \<times> string list) list \<times> string" where
  "re_scan r s = scan_from (Suc (length s)) r [] s"

text \<open>\<open>pattern.sub(text, s)\<close>.\<close>

definition re_sub :: "re \<Rightarrow> string \<Rightarrow> string \<Rightarrow> string" where
  "re_sub r text s =
     (let (ms, tail) = re_scan r s in concat (map (\<lambda>(skip, _, _). skip @ text) ms) @ tail)"

text \<open>\<open>pattern.findall(s)\<close>: the groups of each match, in order.\<close>

definition re_findall :: "re \<Rightarrow> string \<Rightarrow> string list list" where
  "re_findall r s = map (\<lambda>(_, _, k). k) (fst (re_scan r s))"

section \<open>Pattern vocabulary\<close>

definition any_of :: "string \<Rightarrow> re" where
  "any_of cs = Chr (\<lambda>c. c \<in> set cs)"

definition none_of :: "string \<Rightarrow> re" where
  "none_of cs = Chr (\<lambda>c. c \<notin> set cs)"

abbreviation digit_re :: re where
  "digit_re \<equiv> Chr is_digit"

abbreviation space_re :: re where
  "space_re \<equiv> Chr is_space"

definition Plus :: "re \<Rightarrow> re" where
  "Plus a = Cat a (Star a)"

definition Seq :: "re list \<Rightarrow> re" where
  "Seq rs = foldr Cat rs Eps"

definition Alts :: "re list \<Rightarrow> re" where
  "Alts rs = (case rs of [] \<Rightarrow> Fail | r # rest \<Rightarrow> foldl Alt r rest)"

text \<open>A literal under \<open>re.IGNORECASE\<close>; the text of the literal is written in lower case.\<close>

definition LitI :: "string \<Rightarrow> re" where
  "LitI s = Seq (map (\<lambda>c. Chr (\<lambda>d. lower_char d = c)) s)"

definition not_behind :: "(char \<Rightarrow> bool) \<Rightarrow> re" where
  "not_behind p = Assert (\<lambda>b r. case b of [] \<Rightarrow> True | c # _ \<Rightarrow> \<not> p c)"

definition behind :: "(char \<Rightarrow> bool) \<Rightarrow> re" where
  "behind p = Assert (\<lambda>b r. case b of [] \<Rightarrow> False | c # _ \<Rightarrow> p c)"

definition ahead :: "(char \<Rightarrow> bool) \<Rightarrow> re" where
  "ahead p = Assert (\<lambda>b r. case r of [] \<Rightarrow> False | c # _ \<Rightarrow> p c)"

definition not_ahead :: "(char \<Rightarrow> bool) \<Rightarrow> re" where
  "not_ahead p = Assert (\<lambda>b r. case r of [] \<Rightarrow> True | c # _ \<Rightarrow> \<not> p c)"

definition word_boundary :: re where
  "word_boundary = Assert (\<lambda>b r.
     (case b of [] \<Rightarrow> False | c # _ \<Rightarrow> is_word c) \<noteq> (case r of [] \<Rightarrow> False | c # _ \<Rightarrow> is_word c))"

section \<open>What a scan returns\<close>

definition pos_text :: "pos \<Rightarrow> string" where
  "pos_text s = rev (fst s) @ rest_of s"

lemma pos_text_simp [simp]: "pos_text (b, r, k) = rev b @ r"
  by (simp add: pos_text_def rest_of_def)

lemma rest_of_simp [simp]: "rest_of (b, r, k) = r"
  by (simp add: rest_of_def)

text \<open>A match only moves the position inside the same text, and never backwards.\<close>

lemma star_from_text:
  assumes "\<And>s t. t \<in> set (f s) \<Longrightarrow> pos_text t = pos_text s \<and> length (rest_of t) \<le> length (rest_of s)"
  shows "t \<in> set (star_from n f s) \<Longrightarrow> pos_text t = pos_text s \<and> length (rest_of t) \<le> length (rest_of s)"
proof (induction n arbitrary: s)
  case (Suc n)
  show ?case
  proof (cases "t = s")
    case False
    with Suc.prems obtain u where u: "u \<in> set (f s)" "t \<in> set (star_from n f u)"
      by (auto split: if_splits)
    with Suc.IH[OF u(2)] assms[OF u(1)] show ?thesis by simp
  qed simp
qed simp

lemma upto_from_text:
  assumes "\<And>s t. t \<in> set (f s) \<Longrightarrow> pos_text t = pos_text s \<and> length (rest_of t) \<le> length (rest_of s)"
  shows "t \<in> set (upto_from n f s) \<Longrightarrow> pos_text t = pos_text s \<and> length (rest_of t) \<le> length (rest_of s)"
proof (induction n arbitrary: s)
  case (Suc n)
  show ?case
  proof (cases "t = s")
    case False
    with Suc.prems obtain u where u: "u \<in> set (f s)" "t \<in> set (upto_from n f u)"
      by auto
    with Suc.IH[OF u(2)] assms[OF u(1)] show ?thesis by simp
  qed simp
qed simp

lemma matches_text:
  "t \<in> set (matches r s) \<Longrightarrow> pos_text t = pos_text s \<and> length (rest_of t) \<le> length (rest_of s)"
proof (induction r arbitrary: s t)
  case (Chr p)
  then show ?case by (cases "(p, s)" rule: eat.cases) (auto split: if_splits)
next
  case (Lit l)
  obtain b r k where s: "s = (b, r, k)" by (cases s)
  from Lit have "t = (rev l @ b, drop (length l) r, k)" "take (length l) r = l"
    by (auto simp: s split: if_splits)
  moreover from this(2) have "l @ drop (length l) r = r"
    by (metis append_take_drop_id)
  ultimately show ?case by (simp add: s)
next
  case (Cat a c)
  from Cat.prems obtain u where u: "u \<in> set (matches a s)" "t \<in> set (matches c u)"
    by auto
  from Cat.IH(1)[OF u(1)] Cat.IH(2)[OF u(2)] show ?case by simp
next
  case (Star a)
  then show ?case using star_from_text[of "matches a" t] by auto
next
  case (Upto n a)
  then show ?case using upto_from_text[of "matches a" t] by auto
next
  case (Cap a)
  from Cap.prems obtain u where u: "u \<in> set (matches a s)" "t = captured s u"
    by auto
  from Cap.IH[OF u(1)] show ?case by (cases u) (simp add: u(2) captured_def)
next
  case (Assert p)
  then show ?case by (cases s) (auto split: if_splits)
qed auto

lemma match_at_text:
  "match_at r b s = Some (b', s', k) \<Longrightarrow> rev b' @ s' = rev b @ s \<and> length s' \<le> length s"
  using matches_text[of "(b', s', k)" r "(b, s, [])"]
  by (cases "matches r (b, s, [])") (auto simp: match_at_def)

text \<open>\<open>Suc (length s)\<close> rounds reach the end of every scan: more change nothing.\<close>

lemma next_match_shrinks:
  "next_match r b s = Some (skip, m, k, b', s') \<Longrightarrow> length s' < length s"
proof (induction s arbitrary: b skip)
  case Nil
  then show ?case
    by (auto simp: next_match.simps[of r b "[]"] split: option.splits)
next
  case (Cons c cs)
  have step: "length s' < length (c # cs)"
    if "map_option (\<lambda>(sk, rest). (c # sk, rest)) (next_match r (c # b) cs) = Some (skip, m, k, b', s')"
    using that Cons.IH[of "c # b"] by (auto simp: less_Suc_eq)
  show ?case
    using Cons.prems step
    by (auto simp: next_match.simps[of r b "c # cs"] simp del: map_option_eq_Some
        split: option.splits if_splits)
qed

lemma scan_from_enough:
  "length s < n \<Longrightarrow> length s < n' \<Longrightarrow> scan_from n r b s = scan_from n' r b s"
proof (induction n arbitrary: n' b s)
  case (Suc n)
  then obtain n1 where n1: "n' = Suc n1" by (cases n') auto
  show ?case
  proof (cases "next_match r b s")
    case (Some x)
    obtain skip m k b1 s1 where x: "x = (skip, m, k, b1, s1)" by (cases x)
    have "length s1 < length s" using next_match_shrinks Some x by blast
    with Suc.prems n1 have "scan_from n r b1 s1 = scan_from n1 r b1 s1"
      by (intro Suc.IH) auto
    with n1 Some x show ?thesis by simp
  qed (simp add: n1)
qed simp

end
