(* ===== verification/PyJson.thy ===== *)
theory PyJson
  imports PyRegex
begin

text \<open>
  Two parsers of the standard library on which decisions of the program rest:
  \<open>json.loads\<close> (numbers, strings with escapes, arrays, objects whose last duplicate key wins,
  \<open>NaN\<close> and the infinities) and \<open>datetime.fromisoformat\<close> followed by \<open>timestamp()\<close> for the
  extended formats, a naive value read as UTC. An escaped code point from 256 on is read as
  a question mark, since strings hold code points below 256; the recursion limit of the
  interpreter is not modelled.
\<close>

section \<open>JSON\<close>

text \<open>The text after a character that must come next.\<close>

definition expect :: "char \<Rightarrow> string \<Rightarrow> string option" where
  "expect c s = (case s of x # r \<Rightarrow> if x = c then Some r else None | [] \<Rightarrow> None)"

definition json_ws :: "string \<Rightarrow> string" where
  "json_ws s = dropWhile (\<lambda>c. c \<in> set [CHR '' '', CHR 0x09, CHR 0x0A, CHR 0x0D]) s"

definition json_number_re :: re where
  "json_number_re = Seq [
     Opt (Lit ''-''),
     Alt (Lit ''0'') (Cat (Chr (\<lambda>c. is_digit c \<and> c \<noteq> CHR ''0'')) (Star digit_re)),
     Opt (Cat (Lit ''.'') (Plus digit_re)),
     Opt (Seq [any_of ''eE'', Opt (any_of ''-+''), Plus digit_re])]"

definition json_number :: "string \<Rightarrow> (pv \<times> string) option" where
  "json_number s =
     (case match_at json_number_re [] s of
        None \<Rightarrow> None
      | Some (_, r, _) \<Rightarrow>
          (let t = take (length s - length r) s in
           if length s \<le> length r then None
           else if list_ex (\<lambda>c. c \<in> set ''.eE'') t
           then map_option (\<lambda>f. (PFloat f, r)) (parse_float t)
           else map_option (\<lambda>i. (PInt i, r)) (parse_int t)))"

definition hex_val :: "char \<Rightarrow> int option" where
  "hex_val c =
     (if is_digit c then Some (digit_val c)
      else let l = cpoint (lower_char c) in if 97 \<le> l \<and> l \<le> 102 then Some (l - 87) else None)"

definition char_of_point :: "int \<Rightarrow> char" where
  "char_of_point n = (if n < 256 then char_of n else CHR ''?'')"

definition simple_escape :: "char \<Rightarrow> char option" where
  "simple_escape c = map_of
     [(CHR 0x22, CHR 0x22), (CHR 0x5C, CHR 0x5C), (CHR ''/'', CHR ''/''), (CHR ''b'', CHR 0x08),
      (CHR ''f'', CHR 0x0C), (CHR ''n'', CHR 0x0A), (CHR ''r'', CHR 0x0D), (CHR ''t'', CHR 0x09)] c"

text \<open>The text of a string literal after its opening quote.\<close>

definition hex4 :: "string \<Rightarrow> (int \<times> string) option" where
  "hex4 s = (case s of
     h1 # h2 # h3 # h4 # r \<Rightarrow>
       do { a \<leftarrow> hex_val h1; b \<leftarrow> hex_val h2; d \<leftarrow> hex_val h3; e \<leftarrow> hex_val h4;
            Some (4096 * a + 256 * b + 16 * d + e, r) }
   | _ \<Rightarrow> None)"

text \<open>What follows a backslash: the character it stands for and the text after it.\<close>

definition json_escape :: "string \<Rightarrow> (char \<times> string) option" where
  "json_escape s = (case s of
     [] \<Rightarrow> None
   | c # r \<Rightarrow>
       if c = CHR ''u'' then map_option (\<lambda>(n, r'). (char_of_point n, r')) (hex4 r)
       else map_option (\<lambda>x. (x, r)) (simple_escape c))"

lemma json_escape_shorter: "json_escape s = Some (x, r) \<Longrightarrow> length r < length s"
  by (auto simp: json_escape_def hex4_def lift_simps split: list.splits if_splits)

function json_string :: "string \<Rightarrow> (string \<times> string) option" where
  "json_string s =
     (case s of
        [] \<Rightarrow> None
      | c # r \<Rightarrow>
          if c = CHR 0x22 then Some ([], r)
          else if c = CHR 0x5C then
            (case json_escape r of
               None \<Rightarrow> None
             | Some (x, r') \<Rightarrow> map_option (\<lambda>(t, r''). (x # t, r'')) (json_string r'))
          else if cpoint c < 32 then None
          else map_option (\<lambda>(t, r'). (c # t, r')) (json_string r))"
  by pat_completeness auto
termination
  by (relation "measure length") (auto dest!: json_escape_shorter[OF sym] json_escape_shorter)

declare json_string.simps [simp del]

definition json_keyword :: "string \<Rightarrow> (pv \<times> string) option" where
  "json_keyword s =
     (if starts_with ''null'' s then Some (PNone, drop 4 s)
      else if starts_with ''true'' s then Some (PBool True, drop 4 s)
      else if starts_with ''false'' s then Some (PBool False, drop 5 s)
      else if starts_with ''NaN'' s then Some (PFloat NotANum, drop 3 s)
      else if starts_with ''Infinity'' s then Some (PFloat PosInf, drop 8 s)
      else if starts_with ''-Infinity'' s then Some (PFloat NegInf, drop 9 s)
      else None)"

text \<open>
  A value, the rest of an array after an element must follow, the rest of an object after a
  member must follow. Each round of the recursion spends one unit of fuel.
\<close>

fun json_value :: "nat \<Rightarrow> string \<Rightarrow> (pv \<times> string) option"
and json_elements :: "nat \<Rightarrow> string \<Rightarrow> (pv list \<times> string) option"
and json_members :: "nat \<Rightarrow> pydict \<Rightarrow> string \<Rightarrow> (pydict \<times> string) option" where
  "json_value 0 s = None"
| "json_value (Suc n) s =
     (case expect (CHR 0x22) s of
        Some r \<Rightarrow> map_option (\<lambda>(t, r'). (PStr t, r')) (json_string r)
      | None \<Rightarrow>
     (case expect (CHR ''['') s of
        Some r \<Rightarrow>
          (case expect (CHR '']'') (json_ws r) of
             Some r' \<Rightarrow> Some (PList [], r')
           | None \<Rightarrow> map_option (\<lambda>(xs, r'). (PList xs, r')) (json_elements n (json_ws r)))
      | None \<Rightarrow>
     (case expect (CHR ''{'') s of
        Some r \<Rightarrow>
          (case expect (CHR ''}'') (json_ws r) of
             Some r' \<Rightarrow> Some (PDict [], r')
           | None \<Rightarrow> map_option (\<lambda>(d, r'). (PDict d, r')) (json_members n [] (json_ws r)))
      | None \<Rightarrow>
     (case json_keyword s of Some res \<Rightarrow> Some res | None \<Rightarrow> json_number s))))"
| "json_elements 0 s = None"
| "json_elements (Suc n) s =
     (case json_value n s of
        None \<Rightarrow> None
      | Some (v, r) \<Rightarrow>
          (case expect (CHR '']'') (json_ws r) of
             Some r' \<Rightarrow> Some ([v], r')
           | None \<Rightarrow>
               (case expect (CHR '','') (json_ws r) of
                  Some r' \<Rightarrow> map_option (\<lambda>(vs, r''). (v # vs, r'')) (json_elements n (json_ws r'))
                | None \<Rightarrow> None)))"
| "json_members 0 d s = None"
| "json_members (Suc n) d s =
     (case Option.bind (expect (CHR 0x22) s) json_string of
        None \<Rightarrow> None
      | Some (k, r1) \<Rightarrow>
          (case expect (CHR '':'') (json_ws r1) of
             None \<Rightarrow> None
           | Some r2 \<Rightarrow>
               (case json_value n (json_ws r2) of
                  None \<Rightarrow> None
                | Some (v, r3) \<Rightarrow>
                    (case expect (CHR ''}'') (json_ws r3) of
                       Some r4 \<Rightarrow> Some (dset k v d, r4)
                     | None \<Rightarrow>
                         (case expect (CHR '','') (json_ws r3) of
                            Some r4 \<Rightarrow> json_members n (dset k v d) (json_ws r4)
                          | None \<Rightarrow> None)))))"

text \<open>\<open>json.loads(s)\<close>; \<open>None\<close> is the ValueError. Twice the length bounds the depth of the recursion.\<close>

definition json_loads :: "string \<Rightarrow> pv option" where
  "json_loads s =
     (case json_value (2 * length s + 2) (json_ws s) of
        Some (v, r) \<Rightarrow> if json_ws r = [] then Some v else None
      | None \<Rightarrow> None)"

text \<open>
  The fuel of \<open>json_loads\<close> is enough: every parser consumes text, and from twice the length
  on more fuel changes no result, so \<open>None\<close> always means that the text is no JSON.
\<close>

lemma expect_Some [simp]: "expect c s = Some r \<longleftrightarrow> s = c # r"
  by (auto simp: expect_def split: list.splits if_splits)

lemma expect_simps [simp]:
  "expect c [] = None" "expect c (x # r) = (if x = c then Some r else None)"
  by (simp_all add: expect_def)

lemma json_ws_le: "length (json_ws s) \<le> length s"
  by (simp add: json_ws_def length_dropWhile_le)

lemma json_ws_Cons: "json_ws s = c # r \<Longrightarrow> Suc (length r) \<le> length s"
  using json_ws_le[of s] by simp

lemma json_string_shorter: "json_string s = Some (t, r) \<Longrightarrow> length r < length s"
proof (induction s arbitrary: t rule: length_induct)
  case (1 s)
  then have IH: "length r < length u" if "length u < length s" "json_string u = Some (x, r)" for u x
    using that by blast
  from "1.prems" show ?case
    by (subst (asm) json_string.simps)
      (auto split: list.splits if_splits option.splits
        dest!: json_escape_shorter IH[rotated])
qed

lemma json_keyword_shorter: "json_keyword s = Some (v, r) \<Longrightarrow> length r < length s"
  by (auto simp: json_keyword_def starts_with_def prefix_def split: if_splits)

lemma json_number_shorter: "json_number s = Some (v, r) \<Longrightarrow> length r < length s"
  by (auto simp: json_number_def Let_def split: option.splits if_splits)

lemma json_shorter:
  "json_value n s = Some (v, r) \<Longrightarrow> length r < length s"
  "json_elements n s = Some (vs, r) \<Longrightarrow> length r < length s"
  "json_members n d s = Some (d', r) \<Longrightarrow> length r < length s"
proof (induction n arbitrary: s v vs d d' r)
  case 0
  { case 1 then show ?case by simp }
  { case 2 then show ?case by simp }
  { case 3 then show ?case by simp }
next
  case (Suc n)
  have ws: "length r < length s" if "length r < length (json_ws s)" for r s :: string
    using that json_ws_le[of s] by simp
  { case 1
    then show ?case
      by (auto split: option.splits
          dest!: Suc.IH[THEN ws] json_string_shorter json_keyword_shorter json_number_shorter json_ws_Cons) }
  { case 2
    then show ?case
      by (auto split: option.splits dest!: Suc.IH(1) Suc.IH(2)[THEN ws] json_ws_Cons) }
  { case 3
    then show ?case
      by (auto split: option.splits bind_splits
          dest!: Suc.IH(1)[THEN ws] Suc.IH(3)[THEN ws] json_string_shorter json_ws_Cons) }
qed

lemma json_fuel:
  "2 * length s < n \<Longrightarrow> 2 * length s < n' \<Longrightarrow> json_value n s = json_value n' s"
  "2 * length s + 1 < n \<Longrightarrow> 2 * length s + 1 < n' \<Longrightarrow> json_elements n s = json_elements n' s"
  "2 * length s < n \<Longrightarrow> 2 * length s < n' \<Longrightarrow> json_members n d s = json_members n' d s"
proof (induction n arbitrary: s n' d)
  case 0
  { case 1 then show ?case by simp }
  { case 2 then show ?case by simp }
  { case 3 then show ?case by simp }
next
  case (Suc n)
  { case 1
    then obtain m where m: "n' = Suc m" by (cases n') auto
    show ?case
    proof (cases s)
      case Nil
      with m show ?thesis by (simp add: expect_def)
    next
      case (Cons c r)
      have "json_elements n (json_ws r) = json_elements m (json_ws r)"
        using 1 m Cons json_ws_le[of r] by (intro Suc.IH(2)) auto
      moreover have "json_members n [] (json_ws r) = json_members m [] (json_ws r)"
        using 1 m Cons json_ws_le[of r] by (intro Suc.IH(3)) auto
      ultimately show ?thesis using m Cons by (simp add: expect_def cong: option.case_cong)
    qed }
  { case 2
    then obtain m where m: "n' = Suc m" by (cases n') auto
    have v: "json_value n s = json_value m s"
      using 2 m by (intro Suc.IH(1)) auto
    have "json_elements n (json_ws r') = json_elements m (json_ws r')"
      if "json_value m s = Some (x, r)" "json_ws r = c # r'" for x r c r'
      using 2 m json_shorter(1)[OF that(1)] json_ws_Cons[OF that(2)] json_ws_le[of r']
      by (intro Suc.IH(2)) auto
    then show ?case using m v by (auto split: option.splits) }
  { case 3
    then obtain m where m: "n' = Suc m" by (cases n') auto
    have v: "json_value n (json_ws r2) = json_value m (json_ws r2)"
      if "s = CHR 0x22 # r" "json_string r = Some (k, r1)" "json_ws r1 = CHR '':'' # r2" for r k r1 r2
      using 3 m that(1) json_string_shorter[OF that(2)] json_ws_Cons[OF that(3)] json_ws_le[of r2]
      by (intro Suc.IH(1)) auto
    have e: "json_members n d (json_ws r4) = json_members m d (json_ws r4)"
      if "s = CHR 0x22 # r" "json_string r = Some (k, r1)" "json_ws r1 = CHR '':'' # r2"
        "json_value m (json_ws r2) = Some (x, r3)" "json_ws r3 = CHR '','' # r4" for r k r1 r2 x r3 r4 d
      using 3 m that(1) json_string_shorter[OF that(2)] json_ws_Cons[OF that(3)]
        json_shorter(1)[OF that(4)] json_ws_le[of r2] json_ws_Cons[OF that(5)] json_ws_le[of r4]
      by (intro Suc.IH(3)) auto
    show ?case using m v e by (auto split: option.splits bind_splits) }
qed

section \<open>Timestamps\<close>

definition two_digits :: "string \<Rightarrow> (int \<times> string) option" where
  "two_digits s = (case s of a # b # r \<Rightarrow>
     if is_digit a \<and> is_digit b then Some (digits_val [a, b], r) else None | _ \<Rightarrow> None)"

text \<open>Days from 1970-01-01 to a date of the proleptic Gregorian calendar.\<close>

definition days_from_civil :: "int \<Rightarrow> int \<Rightarrow> int \<Rightarrow> int" where
  "days_from_civil y m d =
     (let y' = (if m \<le> 2 then y - 1 else y);
          era = y' div 400;
          yoe = y' - era * 400;
          doy = (153 * (if 2 < m then m - 3 else m + 9) + 2) div 5 + d - 1;
          doe = yoe * 365 + yoe div 4 - yoe div 100 + doy
      in era * 146097 + doe - 719468)"

definition leap_year :: "int \<Rightarrow> bool" where
  "leap_year y \<longleftrightarrow> 4 dvd y \<and> (100 dvd y \<longrightarrow> 400 dvd y)"

definition days_in_month :: "int \<Rightarrow> int \<Rightarrow> int" where
  "days_in_month y m =
     (if m = 2 then if leap_year y then 29 else 28 else if m \<in> {4, 6, 9, 11} then 30 else 31)"

definition iso_date :: "string \<Rightarrow> (int \<times> string) option" where
  "iso_date s = do {
     (c, s1) \<leftarrow> two_digits s;
     (yy, s2) \<leftarrow> two_digits s1;
     s3 \<leftarrow> expect (CHR ''-'') s2;
     (m, s4) \<leftarrow> two_digits s3;
     s5 \<leftarrow> expect (CHR ''-'') s4;
     (d, s6) \<leftarrow> two_digits s5;
     let y = 100 * c + yy;
     if 1 \<le> y \<and> 1 \<le> m \<and> m \<le> 12 \<and> 1 \<le> d \<and> d \<le> days_in_month y m
     then Some (days_from_civil y m d, s6) else None }"

text \<open>\<open>HH[:MM[:SS[.f]]]\<close> as seconds; digits after the sixth decimal are dropped.\<close>

definition colon_two :: "string \<Rightarrow> (int \<times> string \<times> bool) option" where
  "colon_two s = (case expect (CHR '':'') s of
     Some r \<Rightarrow> map_option (\<lambda>(x, r'). (x, r', True)) (two_digits r)
   | None \<Rightarrow> Some (0, s, False))"

definition iso_fraction :: "string \<Rightarrow> (real \<times> string) option" where
  "iso_fraction s = (case s of
     c # r \<Rightarrow>
       if c \<in> set ''.,'' then
         (let ds = takeWhile is_digit r; six = take 6 ds in
          if ds = [] then None
          else Some (real_of_int (digits_val six) / 10 ^ length six, dropWhile is_digit r))
       else Some (0, s)
   | [] \<Rightarrow> Some (0, []))"

definition iso_clock :: "string \<Rightarrow> (real \<times> string) option" where
  "iso_clock s = do {
     (h, s1) \<leftarrow> two_digits s;
     (mi, s2, more) \<leftarrow> colon_two s1;
     (sec, s3, more') \<leftarrow> (if more then colon_two s2 else Some (0, s2, False));
     (frac, s4) \<leftarrow> (if more' then iso_fraction s3 else Some (0, s3));
     if h < 24 \<and> mi < 60 \<and> sec < 60
     then Some (real_of_int (3600 * h + 60 * mi + sec) + frac, s4) else None }"

text \<open>The offset of a zone suffix in seconds; no suffix is UTC.\<close>

definition iso_zone :: "string \<Rightarrow> real option" where
  "iso_zone s =
     (case s of
        [] \<Rightarrow> Some 0
      | c # r \<Rightarrow>
          if c = CHR ''Z'' then (if r = [] then Some 0 else None)
          else if c = CHR ''+'' \<or> c = CHR ''-'' then
            (case iso_clock r of
               Some (x, []) \<Rightarrow> Some (if c = CHR ''-'' then - x else x)
             | _ \<Rightarrow> None)
          else None)"

definition iso_timestamp :: "string \<Rightarrow> real option" where
  "iso_timestamp s = do {
     (days, s1) \<leftarrow> iso_date s;
     case s1 of
       [] \<Rightarrow> Some (86400 * real_of_int days)
     | _ # [] \<Rightarrow> Some (86400 * real_of_int days)
     | _ # r \<Rightarrow> do {
         (t, z) \<leftarrow> iso_clock r;
         off \<leftarrow> iso_zone z;
         Some (86400 * real_of_int days + t - off) } }"

text \<open>\<open>parse_iso_timestamp\<close> of \<open>state_store.py\<close>.\<close>

definition parse_iso_timestamp :: "pv \<Rightarrow> real option" where
  "parse_iso_timestamp v =
     (case v of PStr s \<Rightarrow> if s = [] then None else iso_timestamp s | _ \<Rightarrow> None)"

end
