(* ===== verification/FailureText.thy ===== *)
theory FailureText
  imports PyJson
begin

text \<open>
  What \<open>failures.py\<close> reads out of an upstream rejection: the marker vocabularies, the
  patterns, the provider's own error codes, and the narrow readings (a missing or forbidden
  request field, an option one model disables, a context overflow, the sizes and limits a
  message states). Markers are lower-case text; a body is scanned in lower case over its
  first thousand characters. The dash of the not-serveable note is written as a hyphen.
\<close>

section \<open>Marker vocabularies\<close>

definition FALSE_FREE_ERROR_CODE_MARKERS :: "string list" where
  "FALSE_FREE_ERROR_CODE_MARKERS =
     [''billing_error'', ''billing_hard_limit_reached'', ''buycreditsurl'', ''insufficient_credits'']"

definition FALSE_FREE_TEXT_MARKERS :: "string list" where
  "FALSE_FREE_TEXT_MARKERS =
     [''payment required'', ''requires payment'', ''billing'', ''credit'', ''credits'',
      ''insufficient balance'', ''quota exceeded'', ''not enough balance'',
      ''free promotion has ended''] @ FALSE_FREE_ERROR_CODE_MARKERS"

definition SINGLE_TOKEN_FALSE_FREE_MARKERS :: "string list" where
  "SINGLE_TOKEN_FALSE_FREE_MARKERS = [''billing'', ''credit'', ''credits''] @ FALSE_FREE_ERROR_CODE_MARKERS"

definition FALSE_FREE_PAYMENT_DEMAND_MARKERS :: "string list" where
  "FALSE_FREE_PAYMENT_DEMAND_MARKERS =
     filter (\<lambda>m. m \<notin> set SINGLE_TOKEN_FALSE_FREE_MARKERS) FALSE_FREE_TEXT_MARKERS @
     [''insufficient credit'', ''requires more credits'', ''add credits'', ''buy credits'',
      ''purchase credits'', ''out of credits'', ''credits have run out'', ''credits remaining'',
      ''credit balance'', ''credit limit'', ''billing account'', ''billing issue'',
      ''billing required'', ''enable billing'']"

definition QUOTA_EXHAUSTED_TEXT_MARKERS :: "string list" where
  "QUOTA_EXHAUSTED_TEXT_MARKERS =
     [''quota exceeded'', ''quota exhausted'', ''credit exhausted'', ''credits exhausted'',
      ''free tier exhausted'', ''free-tier exhausted'', ''free tier quota'', ''free-tier quota'',
      ''trial quota'', ''usage limit exceeded'', ''monthly usage limit'']"

definition FREE_TIER_ZERO_ALLOCATION_MARKERS :: "string list" where
  "FREE_TIER_ZERO_ALLOCATION_MARKERS = [''limit: 0'', ''limit:0'']"

definition UPSTREAM_RATE_LIMIT_TEXT_MARKERS :: "string list" where
  "UPSTREAM_RATE_LIMIT_TEXT_MARKERS = [''rate-limited upstream'', ''rate limited upstream'']"

definition ACCOUNT_RATE_LIMIT_TEXT_MARKERS :: "string list" where
  "ACCOUNT_RATE_LIMIT_TEXT_MARKERS = [''account'', ''organization'', ''api key'']"

definition MODEL_NOT_FOUND_TEXT_MARKERS :: "string list" where
  "MODEL_NOT_FOUND_TEXT_MARKERS =
     [''not found'', ''does not exist'', ''no longer available'', ''decommissioned'',
      ''unknown model'', ''model_not_found'', ''gone'']"

definition ACCOUNT_SCOPE_403_MARKERS :: "string list" where
  "ACCOUNT_SCOPE_403_MARKERS =
     [''region'', ''country'', ''billing'', ''revoked'', ''suspended'', ''api key'', ''sso'',
      ''two-factor'', ''2fa'', ''mfa'', ''workspace'', ''integration'']"

definition MODEL_NOT_ENTITLED_TEXT_MARKERS :: "string list" where
  "MODEL_NOT_ENTITLED_TEXT_MARKERS = [''must enable'', ''request access'']"

definition MODEL_NOT_SERVEABLE_NOTE :: string where
  "MODEL_NOT_SERVEABLE_NOTE =
     ''the provider will not serve this model id to this account '' @ [CHR ''-''] @
     '' a 404/410 (listed in its catalog but not deployed), or a 403 naming it as a tier an admin has to switch on''"

definition ERROR_CODE_STATUSES :: "(string \<times> int) list" where
  "ERROR_CODE_STATUSES =
     [(''api_error'', 500), (''authentication_error'', 401), (''insufficient_quota'', 429),
      (''invalid_api_key'', 401), (''invalid_request_error'', 400), (''model_not_found'', 404),
      (''not_found_error'', 404), (''overloaded_error'', 503), (''permission_error'', 403),
      (''rate_limit_error'', 429)]"

definition PAYMENT_CODE_WORDS :: "string list" where
  "PAYMENT_CODE_WORDS = [''billing'', ''credit'', ''credits'', ''payment'', ''balance'', ''funds'']"

definition PROSE_SCAN_LIMIT :: nat where "PROSE_SCAN_LIMIT = 1000"

definition ERROR_BODY_PARSE_LIMIT :: nat where "ERROR_BODY_PARSE_LIMIT = 64000"

text \<open>\<open>any(marker in text for marker in markers)\<close>.\<close>

definition mentions :: "string list \<Rightarrow> string \<Rightarrow> bool" where
  "mentions markers s \<longleftrightarrow> list_ex (\<lambda>m. contains m s) markers"

section \<open>Patterns\<close>

definition URL_PATTERN :: re where
  "URL_PATTERN = Seq [Lit ''http'', Opt (Lit ''s''), Lit ''://'',
     Plus (Chr (\<lambda>c. \<not> is_space c \<and> c \<notin> set ([CHR 0x22, CHR 0x27] @ ''<>)]},;'')))]"

text \<open>\<open>[\w./-]\<close>, the characters an identifier is built from.\<close>

definition IDENTIFIER_CHARS :: "char \<Rightarrow> bool" where
  "IDENTIFIER_CHARS c \<longleftrightarrow> is_word c \<or> c \<in> set ''./-''"

definition false_free_part :: "string \<Rightarrow> re" where
  "false_free_part m =
     (if CHR '' '' \<in> set m then Lit m
      else Seq [not_behind IDENTIFIER_CHARS, Lit m, not_ahead IDENTIFIER_CHARS])"

definition false_free_pattern :: "string list \<Rightarrow> re" where
  "false_free_pattern markers = Alts (map false_free_part markers)"

definition is_ascii_alnum :: "char \<Rightarrow> bool" where
  "is_ascii_alnum c \<longleftrightarrow> is_digit c \<or> is_upper c \<or> is_lower c"

text \<open>
  \<open>_CODE_WORD_BOUNDARY.split\<close>: the pieces between runs of other characters, cut again
  before a capital that follows a small letter or a digit. The first argument is the piece
  being read, reversed.
\<close>

fun code_pieces :: "string \<Rightarrow> string \<Rightarrow> string list" where
  "code_pieces cur [] = [rev cur]"
| "code_pieces cur (c # cs) =
     (if \<not> is_ascii_alnum c then rev cur # code_pieces [] cs
      else if is_upper c \<and> cur \<noteq> [] \<and> (is_lower (hd cur) \<or> is_digit (hd cur))
      then rev cur # code_pieces [c] cs
      else code_pieces (c # cur) cs)"

definition error_code_words :: "string \<Rightarrow> string list" where
  "error_code_words s = map lower (filter (\<lambda>w. w \<noteq> []) (code_pieces [] s))"

section \<open>The provider's own codes\<close>

definition error_object_codes :: "pydict \<Rightarrow> string list" where
  "error_object_codes error =
     concat (map (\<lambda>key. case dget error key of PStr s \<Rightarrow> [s] | _ \<Rightarrow> []) [''code'', ''type''])"

definition provider_error_codes :: "string \<Rightarrow> string list" where
  "provider_error_codes s =
     (if length s > ERROR_BODY_PARSE_LIMIT then []
      else (case json_loads s of
              Some (PDict payload) \<Rightarrow>
                (case dget payload ''error'' of
                   PDict nested \<Rightarrow> error_object_codes nested
                 | _ \<Rightarrow> error_object_codes payload)
            | _ \<Rightarrow> []))"

text \<open>Canonical names first, over all fields; a payment word only when none is canonical.\<close>

definition status_for_error_codes :: "string list \<Rightarrow> int option" where
  "status_for_error_codes values =
     (let codes = map strip values in
      case List.find (\<lambda>code. map_of ERROR_CODE_STATUSES (lower code) \<noteq> None) codes of
        Some code \<Rightarrow> map_of ERROR_CODE_STATUSES (lower code)
      | None \<Rightarrow>
          if list_ex (\<lambda>code. list_ex (\<lambda>w. w \<in> set PAYMENT_CODE_WORDS) (error_code_words code)) codes
          then Some 402 else None)"

section \<open>Sizes and limits a message states\<close>

definition non_word :: "char \<Rightarrow> bool" where
  "non_word c \<longleftrightarrow> \<not> is_word c"

definition REQUEST_TOKEN_LIMIT_PATTERN :: re where
  "REQUEST_TOKEN_LIMIT_PATTERN =
     Seq [LitI ''limit'', Plus (Chr non_word), Cap (Plus digit_re), Plus (Chr non_word),
          LitI ''requested'', Plus (Chr non_word), Cap (Plus digit_re)]"

definition request_token_limit_from_detail :: "pv \<Rightarrow> int option" where
  "request_token_limit_from_detail detail =
     (case re_search REQUEST_TOKEN_LIMIT_PATTERN (py_str (por detail (PStr []))) of
        Some [a, b] \<Rightarrow>
          (case (parse_int a, parse_int b) of
             (Some limit, Some requested) \<Rightarrow>
               if 0 < limit \<and> limit < requested then Some limit else None
           | _ \<Rightarrow> None)
      | _ \<Rightarrow> None)"

text \<open>An infinite float raises an OverflowError, which the code does not catch.\<close>

definition estimated_tokens_for_chars :: "pv \<Rightarrow> int option" where
  "estimated_tokens_for_chars char_count =
     (if char_count = PFloat PosInf \<or> char_count = PFloat NegInf then None
      else (case py_int char_count of
              None \<Rightarrow> Some 0
            | Some chars \<Rightarrow> Some (if chars \<le> 0 then 0 else max 1 \<lceil>real_of_int chars / 4\<rceil>)))"

definition CONTEXT_LENGTH_EXCEEDED_MARKERS :: "string list" where
  "CONTEXT_LENGTH_EXCEEDED_MARKERS =
     [''context length'', ''context window'', ''maximum context'', ''context_length_exceeded'',
      ''too many tokens'', ''exceeds the model'' @ [CHR 0x27] @ ''s maximum'',
      ''prompt is too long'', ''input is too long'']"

definition mentions_context_length_exceeded :: "string \<Rightarrow> bool" where
  "mentions_context_length_exceeded low = mentions CONTEXT_LENGTH_EXCEEDED_MARKERS low"

definition REJECTED_REQUEST_TOKENS_PATTERN :: re where
  "REJECTED_REQUEST_TOKENS_PATTERN =
     Seq [Cap (Cat digit_re (Star (Chr (\<lambda>c. is_digit c \<or> c = CHR '','')))), Star space_re,
          LitI ''token'', Opt (LitI ''s''), word_boundary]"

definition rejected_request_tokens :: "string \<Rightarrow> int option" where
  "rejected_request_tokens s =
     (let sizes = List.map_filter (\<lambda>groups. case groups of
            [figure] \<Rightarrow> parse_int (replace_char (CHR '','') [] figure) | _ \<Rightarrow> None)
          (re_findall REJECTED_REQUEST_TOKENS_PATTERN (take PROSE_SCAN_LIMIT s))
      in if sizes = [] then None else Some (foldr max (tl sizes) (hd sizes)))"

section \<open>Narrow readings of a rejected request\<close>

definition NON_STANDARD_REQUEST_FIELDS :: "string list" where
  "NON_STANDARD_REQUEST_FIELDS = [''reasoning_content'', ''reasoning_details'', ''thinking_blocks'']"

definition CLIENT_MESSAGE_METADATA_FIELDS :: "string list" where
  "CLIENT_MESSAGE_METADATA_FIELDS = [''message_id'']"

definition MISSING_FIELD_MARKERS :: "string list" where
  "MISSING_FIELD_MARKERS =
     [''passed back'', ''must be provided'', ''is required'', ''are required'', ''required field'',
      ''missing'', ''not provided'', ''must be present'', ''must be included'']"

text \<open>\<open>re.compile(r"[;.,\n]").split\<close>.\<close>

fun clauses :: "string \<Rightarrow> string list" where
  "clauses [] = [[]]"
| "clauses (c # cs) =
     (if c \<in> set (CHR 0x0A # '';.,'') then [] # clauses cs
      else (case clauses cs of [] \<Rightarrow> [[c]] | w # ws \<Rightarrow> (c # w) # ws))"

definition demands_missing_field :: "string \<Rightarrow> bool" where
  "demands_missing_field low \<longleftrightarrow>
     list_ex (\<lambda>clause. mentions NON_STANDARD_REQUEST_FIELDS clause \<and> mentions MISSING_FIELD_MARKERS clause)
       (clauses low)"

fun index_of :: "pv \<Rightarrow> pv list \<Rightarrow> nat option" where
  "index_of x [] = None"
| "index_of x (y # ys) = (if y = x then Some 0 else map_option Suc (index_of x ys))"

fun is_int :: "pv \<Rightarrow> bool" where
  "is_int (PInt i) = True"
| "is_int _ = False"

text \<open>One entry of a schema rejection: an extra field at a message, named by its typed location.\<close>

definition forbids_field_at :: "pv list \<Rightarrow> bool" where
  "forbids_field_at location =
     (if length location < 4 then False
      else
        (let field = last location;
             role = last (butlast location);
             is_assistant_only_field =
               role = PStr ''assistant'' \<and> field \<in> set (map PStr NON_STANDARD_REQUEST_FIELDS);
             is_any_role_metadata_field = field \<in> set (map PStr CLIENT_MESSAGE_METADATA_FIELDS)
         in if \<not> (is_assistant_only_field \<or> is_any_role_metadata_field) then False
            else (case index_of (PStr ''messages'') location of
                    None \<Rightarrow> False
                  | Some i \<Rightarrow>
                      (let upto = (if is_assistant_only_field then length location - 2 else length location - 1)
                       in list_ex is_int (drop (Suc i) (take upto location))))))"

definition forbids_nonstandard_message_field :: "string \<Rightarrow> bool" where
  "forbids_nonstandard_message_field s =
     (if length s > ERROR_BODY_PARSE_LIMIT then False
      else (case json_loads s of
              Some (PDict payload) \<Rightarrow>
                (case dget payload ''detail'' of
                   PList details \<Rightarrow>
                     list_ex (\<lambda>detail. case detail of
                         PDict d \<Rightarrow>
                           dget d ''type'' = PStr ''extra_forbidden'' \<and>
                           (case dget d ''loc'' of PList location \<Rightarrow> forbids_field_at location | _ \<Rightarrow> False)
                       | _ \<Rightarrow> False) details
                 | _ \<Rightarrow> False)
            | _ \<Rightarrow> False))"

definition MODEL_SPECIFIC_OPTION_REJECTION_MARKERS :: "string list" where
  "MODEL_SPECIFIC_OPTION_REJECTION_MARKERS =
     [''not enabled for this model'', ''not supported by this model'', ''not supported for this model'']"

definition MODEL_SPECIFIC_REQUEST_OPTIONS :: "string list" where
  "MODEL_SPECIFIC_REQUEST_OPTIONS = [''top_k'']"

definition MANDATORY_REASONING_REJECTION_MARKERS :: "string list" where
  "MANDATORY_REASONING_REJECTION_MARKERS = [''reasoning is mandatory'', ''cannot be disabled'']"

definition DROPPABLE_SAMPLING_PARAMETERS :: "string list" where
  "DROPPABLE_SAMPLING_PARAMETERS =
     [''top_k'', ''top_p'', ''min_p'', ''top_a'', ''repetition_penalty'', ''presence_penalty'',
      ''frequency_penalty'', ''logit_bias'', ''seed'']"

definition rejects_model_specific_request_option :: "string \<Rightarrow> bool" where
  "rejects_model_specific_request_option low \<longleftrightarrow>
     mentions MODEL_SPECIFIC_REQUEST_OPTIONS low \<and> mentions MODEL_SPECIFIC_OPTION_REJECTION_MARKERS low"

definition UNKNOWN_MESSAGE_PROPERTY_PATTERN :: re where
  "UNKNOWN_MESSAGE_PROPERTY_PATTERN =
     Seq [Lit ''messages'',
          Alt (Cat (Lit ''.'') (Plus digit_re)) (Seq [Lit ''['', Plus digit_re, Lit '']'']),
          Upto 256 (none_of [CHR 0x0A]),
          Lit (''property '' @ [CHR 0x27] @ ''message_id'' @ [CHR 0x27] @ '' is unsupported'')]"

definition rejects_disabled_reasoning :: "string \<Rightarrow> bool" where
  "rejects_disabled_reasoning low \<longleftrightarrow> list_all (\<lambda>m. contains m low) MANDATORY_REASONING_REJECTION_MARKERS"

definition contract_rejection_is_model_scoped :: "pv \<Rightarrow> bool" where
  "contract_rejection_is_model_scoped detail =
     rejects_disabled_reasoning (lower (py_str (por detail (PStr []))))"

definition rejects_unknown_message_property :: "string \<Rightarrow> bool" where
  "rejects_unknown_message_property low \<longleftrightarrow> re_search UNKNOWN_MESSAGE_PROPERTY_PATTERN low \<noteq> None"

text \<open>The knobs a rejection names; with a body, only those it carries.\<close>

definition rejected_sampling_parameters :: "string \<Rightarrow> pydict \<Rightarrow> string list" where
  "rejected_sampling_parameters s body =
     (let low = lower (take PROSE_SCAN_LIMIT s) in
      if \<not> mentions MODEL_SPECIFIC_OPTION_REJECTION_MARKERS low then []
      else filter (\<lambda>p. contains p low \<and> (body = [] \<or> dhas p body)) DROPPABLE_SAMPLING_PARAMETERS)"

section \<open>Adapter markers\<close>

record failure_markers =
  fm_false_free :: "string list"
  fm_false_free_payment_demand :: "string list"
  fm_quota_exhausted :: "string list"
  fm_free_tier_zero_allocation :: "string list"
  fm_model_not_found :: "string list"
  fm_model_not_entitled :: "string list"
  fm_model_not_entitled_request_rejection :: "string list"
  fm_upstream_rate_limit :: "string list"
  fm_upstream_rate_limit_error_codes :: "(string \<times> string) list"

definition DEFAULT_FAILURE_MARKERS :: failure_markers where
  "DEFAULT_FAILURE_MARKERS =
     \<lparr>fm_false_free = FALSE_FREE_TEXT_MARKERS,
      fm_false_free_payment_demand = FALSE_FREE_PAYMENT_DEMAND_MARKERS,
      fm_quota_exhausted = QUOTA_EXHAUSTED_TEXT_MARKERS,
      fm_free_tier_zero_allocation = FREE_TIER_ZERO_ALLOCATION_MARKERS,
      fm_model_not_found = MODEL_NOT_FOUND_TEXT_MARKERS,
      fm_model_not_entitled = MODEL_NOT_ENTITLED_TEXT_MARKERS,
      fm_model_not_entitled_request_rejection = [],
      fm_upstream_rate_limit = UPSTREAM_RATE_LIMIT_TEXT_MARKERS,
      fm_upstream_rate_limit_error_codes = []\<rparr>"

text \<open>
  \<open>with_extra\<close>: the extra markers come as a marker record whose payment-demand field is
  not read, since the extra false-free markers extend both false-free lists.
\<close>

definition with_extra :: "failure_markers \<Rightarrow> failure_markers \<Rightarrow> failure_markers" where
  "with_extra m x =
     \<lparr>fm_false_free = fm_false_free m @ fm_false_free x,
      fm_false_free_payment_demand = fm_false_free_payment_demand m @ fm_false_free x,
      fm_quota_exhausted = fm_quota_exhausted m @ fm_quota_exhausted x,
      fm_free_tier_zero_allocation = fm_free_tier_zero_allocation m @ fm_free_tier_zero_allocation x,
      fm_model_not_found = fm_model_not_found m @ fm_model_not_found x,
      fm_model_not_entitled = fm_model_not_entitled m @ fm_model_not_entitled x,
      fm_model_not_entitled_request_rejection =
        fm_model_not_entitled_request_rejection m @ fm_model_not_entitled_request_rejection x,
      fm_upstream_rate_limit = fm_upstream_rate_limit m @ fm_upstream_rate_limit x,
      fm_upstream_rate_limit_error_codes =
        fm_upstream_rate_limit_error_codes m @ fm_upstream_rate_limit_error_codes x\<rparr>"

end
