(* ===== verification/FailureClassify.thy ===== *)
theory FailureClassify
  imports FailureText
begin

text \<open>
  \<open>classify_failure\<close> of \<open>failures.py\<close>: one upstream rejection (its status, its body, the
  codes already parsed from it, the free-access metadata of the route, the adapter's markers
  and the model id that was asked for) becomes one failure reason. The code is one function
  with early returns; here the readings it computes are a record, each block that can return
  is a stage, and the stages are tried in the order of the code.
\<close>

section \<open>Readings of a rejection\<close>

definition REQUEST_REJECTION_STATUSES :: "int list" where
  "REQUEST_REJECTION_STATUSES = [400, 422]"

record failure_reading =
  r_unknown_status :: bool
  r_status :: int
  r_body :: string
  r_codes :: "string list"
  r_named :: "int option"
  r_quota_free :: bool
  r_low :: string
  r_bare :: string
  r_model :: string
  r_markers :: failure_markers

definition quota_free_access :: "pv \<Rightarrow> bool" where
  "quota_free_access normalized_free_access =
     (let access = as_dict normalized_free_access
      in dget access ''eligible'' = PBool True \<and> dget access ''mode'' = PStr ''quota_free'')"

definition read_failure ::
  "int option \<Rightarrow> string \<Rightarrow> string list \<Rightarrow> pv \<Rightarrow> failure_markers option \<Rightarrow> string \<Rightarrow> failure_reading" where
  "read_failure status_code body error_codes normalized_free_access markers upstream_model_id =
     (let codes = (if error_codes = [] then provider_error_codes body else error_codes);
          low = lower (take PROSE_SCAN_LIMIT body)
      in \<lparr>r_unknown_status = (status_code = None),
          r_status = (case status_code of None \<Rightarrow> 200 | Some s \<Rightarrow> s),
          r_body = body,
          r_codes = codes,
          r_named = status_for_error_codes codes,
          r_quota_free = quota_free_access normalized_free_access,
          r_low = low,
          r_bare = re_sub URL_PATTERN '' '' low,
          r_model = upstream_model_id,
          r_markers = (case markers of None \<Rightarrow> DEFAULT_FAILURE_MARKERS | Some m \<Rightarrow> m)\<rparr>)"

definition body_names_our_model :: "string \<Rightarrow> string \<Rightarrow> bool" where
  "body_names_our_model low_without_urls upstream_model_id =
     (let normalized = lower (strip upstream_model_id)
      in 4 \<le> length normalized \<and> contains normalized low_without_urls)"

definition matches_structured_error_code :: "string list \<Rightarrow> (string \<times> string) list \<Rightarrow> bool" where
  "matches_structured_error_code error_codes configured_pairs =
     (if length error_codes < 2 then False
      else (error_codes ! 0, error_codes ! 1) \<in> set configured_pairs)"

section \<open>Stages\<close>

abbreviation quota_verdict :: "failure_reading \<Rightarrow> string" where
  "quota_verdict r \<equiv>
     (if mentions (fm_free_tier_zero_allocation (r_markers r)) (r_low r)
      then ''no_free_quota'' else ''quota_exhausted'')"

definition quota_code_stage :: "failure_reading \<Rightarrow> string option" where
  "quota_code_stage r =
     (if ''insufficient_quota'' \<in> set (r_codes r) \<and> r_named r = Some 429 \<and> r_quota_free r
      then Some (quota_verdict r) else None)"

definition free_quota_code_stage :: "failure_reading \<Rightarrow> string option" where
  "free_quota_code_stage r =
     (if r_status r = 403 \<and> ''free_quota_exhausted'' \<in> set (r_codes r)
      then Some ''quota_exhausted'' else None)"

definition forbidden_field_stage :: "failure_reading \<Rightarrow> string option" where
  "forbidden_field_stage r =
     (if r_status r \<in> set REQUEST_REJECTION_STATUSES
         \<and> (case r_named r of None \<Rightarrow> True | Some n \<Rightarrow> n \<in> set REQUEST_REJECTION_STATUSES)
         \<and> forbids_nonstandard_message_field (r_body r)
      then Some ''bad_upstream_contract'' else None)"

definition request_entitlement_stage :: "failure_reading \<Rightarrow> string option" where
  "request_entitlement_stage r =
     (if r_status r \<in> set REQUEST_REJECTION_STATUSES
         \<and> mentions (fm_model_not_entitled_request_rejection (r_markers r)) (r_bare r)
      then Some ''model_not_found'' else None)"

definition quota_marker_stage :: "failure_reading \<Rightarrow> string option" where
  "quota_marker_stage r =
     (if mentions (fm_quota_exhausted (r_markers r)) (r_low r) \<and> r_quota_free r
      then Some
        (if r_status r \<in> {402, 429} then quota_verdict r
         else if r_status r \<in> {401, 403} then ''auth_or_credit''
         else if 500 \<le> r_status r then ''server_error''
         else ''unavailable'')
      else None)"

definition rate_limit_stage :: "failure_reading \<Rightarrow> string option" where
  "rate_limit_stage r =
     (if r_status r \<noteq> 429 then None
      else
        (let names_account_scope = mentions ACCOUNT_RATE_LIMIT_TEXT_MARKERS (r_bare r) in
         if \<not> names_account_scope \<and>
            matches_structured_error_code (r_codes r) (fm_upstream_rate_limit_error_codes (r_markers r))
         then Some ''rate_limited_upstream''
         else if body_names_our_model (r_bare r) (r_model r) \<and> \<not> names_account_scope \<and>
                 mentions (fm_upstream_rate_limit (r_markers r)) (r_bare r)
         then Some ''rate_limited_upstream''
         else Some ''rate_limited''))"

definition too_large_stage :: "failure_reading \<Rightarrow> string option" where
  "too_large_stage r =
     (if r_status r = 413
      then Some (if mentions_context_length_exceeded (r_low r)
                 then ''context_length_exceeded'' else ''request_too_large'')
      else None)"

definition quotes_caller_request :: "failure_reading \<Rightarrow> bool" where
  "quotes_caller_request r \<longleftrightarrow>
     r_unknown_status r \<or> r_status r \<in> {400, 422} \<or> r_named r \<in> {Some 400, Some 422}"

definition payment_stage :: "failure_reading \<Rightarrow> string option" where
  "payment_stage r =
     (let false_free = (if quotes_caller_request r then fm_false_free_payment_demand (r_markers r)
                        else fm_false_free (r_markers r))
      in if r_status r = 402 \<or> r_named r = Some 402 \<or>
            re_search (false_free_pattern false_free) (r_bare r) \<noteq> None
         then Some ''billing_or_paid'' else None)"

definition entitlement_stage :: "failure_reading \<Rightarrow> string option" where
  "entitlement_stage r =
     (if r_status r = 403 \<and> body_names_our_model (r_bare r) (r_model r)
         \<and> \<not> mentions ACCOUNT_SCOPE_403_MARKERS (r_bare r)
         \<and> mentions (fm_model_not_entitled (r_markers r)) (r_bare r)
      then Some ''model_not_found'' else None)"

definition auth_stage :: "failure_reading \<Rightarrow> string option" where
  "auth_stage r = (if r_status r \<in> {401, 403} then Some ''auth_or_credit'' else None)"

definition not_found_stage :: "failure_reading \<Rightarrow> string option" where
  "not_found_stage r =
     (if r_status r \<in> {404, 410} \<and> mentions (fm_model_not_found (r_markers r)) (r_low r)
      then Some ''model_not_found'' else None)"

definition server_stage :: "failure_reading \<Rightarrow> string option" where
  "server_stage r = (if 500 \<le> r_status r then Some ''server_error'' else None)"

definition request_stage :: "failure_reading \<Rightarrow> string option" where
  "request_stage r =
     (if r_status r \<in> set REQUEST_REJECTION_STATUSES
      then Some
        (if demands_missing_field (r_low r) \<or> rejects_model_specific_request_option (r_low r)
            \<or> rejects_disabled_reasoning (r_low r) \<or> rejects_unknown_message_property (r_low r)
         then ''bad_upstream_contract''
         else if mentions_context_length_exceeded (r_low r) then ''context_length_exceeded''
         else ''bad_upstream_request'')
      else None)"

fun first_verdict :: "('a \<Rightarrow> 'b option) list \<Rightarrow> 'b \<Rightarrow> 'a \<Rightarrow> 'b" where
  "first_verdict [] d r = d"
| "first_verdict (f # fs) d r = (case f r of Some v \<Rightarrow> v | None \<Rightarrow> first_verdict fs d r)"

definition failure_stages :: "(failure_reading \<Rightarrow> string option) list" where
  "failure_stages =
     [quota_code_stage, free_quota_code_stage, forbidden_field_stage, request_entitlement_stage,
      quota_marker_stage, rate_limit_stage, too_large_stage, payment_stage, entitlement_stage,
      auth_stage, not_found_stage, server_stage, request_stage]"

definition classify_failure ::
  "int option \<Rightarrow> string \<Rightarrow> string list \<Rightarrow> pv \<Rightarrow> failure_markers option \<Rightarrow> string \<Rightarrow> string" where
  "classify_failure status_code body error_codes normalized_free_access markers upstream_model_id =
     first_verdict failure_stages ''unavailable''
       (read_failure status_code body error_codes normalized_free_access markers upstream_model_id)"

section \<open>Which readings a verdict rests on\<close>

lemmas failure_stage_defs =
  quota_code_stage_def free_quota_code_stage_def forbidden_field_stage_def
  request_entitlement_stage_def quota_marker_stage_def rate_limit_stage_def too_large_stage_def
  payment_stage_def entitlement_stage_def auth_stage_def not_found_stage_def server_stage_def
  request_stage_def

text \<open>A verdict is the default or comes from one of the stages.\<close>

lemma first_verdict_cases:
  "first_verdict fs d r = v \<Longrightarrow> v = d \<or> (\<exists>f \<in> set fs. f r = Some v)"
  by (induction fs) (auto split: option.splits)

lemma first_verdict_stage:
  assumes "classify_failure s b c a m u = v" "v \<noteq> ''unavailable''"
  obtains f where "f \<in> set failure_stages" "f (read_failure s b c a m u) = Some v"
  using first_verdict_cases[of failure_stages "''unavailable''" "read_failure s b c a m u" v] assms
  unfolding classify_failure_def by blast

lemma read_failure_sel [simp]:
  "r_unknown_status (read_failure s b c a m u) \<longleftrightarrow> s = None"
  "r_status (read_failure s b c a m u) = (case s of None \<Rightarrow> 200 | Some n \<Rightarrow> n)"
  "r_body (read_failure s b c a m u) = b"
  "r_codes (read_failure s b c a m u) = (if c = [] then provider_error_codes b else c)"
  "r_quota_free (read_failure s b c a m u) = quota_free_access a"
  "r_low (read_failure s b c a m u) = lower (take PROSE_SCAN_LIMIT b)"
  "r_bare (read_failure s b c a m u) = re_sub URL_PATTERN '' '' (lower (take PROSE_SCAN_LIMIT b))"
  "r_model (read_failure s b c a m u) = u"
  "r_markers (read_failure s b c a m u) = (case m of None \<Rightarrow> DEFAULT_FAILURE_MARKERS | Some x \<Rightarrow> x)"
  by (simp_all add: read_failure_def Let_def)

text \<open>One of the stages answered.\<close>

lemma stage_cases:
  assumes "f \<in> set failure_stages" "f r = Some v"
    and "quota_code_stage r = Some v \<Longrightarrow> P"
    and "free_quota_code_stage r = Some v \<Longrightarrow> P"
    and "forbidden_field_stage r = Some v \<Longrightarrow> P"
    and "request_entitlement_stage r = Some v \<Longrightarrow> P"
    and "quota_marker_stage r = Some v \<Longrightarrow> P"
    and "rate_limit_stage r = Some v \<Longrightarrow> P"
    and "too_large_stage r = Some v \<Longrightarrow> P"
    and "payment_stage r = Some v \<Longrightarrow> P"
    and "entitlement_stage r = Some v \<Longrightarrow> P"
    and "auth_stage r = Some v \<Longrightarrow> P"
    and "not_found_stage r = Some v \<Longrightarrow> P"
    and "server_stage r = Some v \<Longrightarrow> P"
    and "request_stage r = Some v \<Longrightarrow> P"
  shows P
  using assms(1,2) unfolding failure_stages_def by (auto intro: assms(3-))

text \<open>What each stage answers, and on which readings.\<close>

lemma quota_code_range: "quota_code_stage r = Some v \<Longrightarrow>
   r_quota_free r \<and> (v = ''no_free_quota'' \<or> v = ''quota_exhausted'')"
  unfolding quota_code_stage_def by (simp split: if_splits)

lemma free_quota_code_range: "free_quota_code_stage r = Some v \<Longrightarrow>
   r_status r = 403 \<and> ''free_quota_exhausted'' \<in> set (r_codes r) \<and> v = ''quota_exhausted''"
  unfolding free_quota_code_stage_def by (simp split: if_splits)

lemma forbidden_field_range: "forbidden_field_stage r = Some v \<Longrightarrow>
   r_status r \<in> {400, 422} \<and> v = ''bad_upstream_contract''"
  unfolding forbidden_field_stage_def REQUEST_REJECTION_STATUSES_def by (simp split: if_splits)

lemma request_entitlement_range: "request_entitlement_stage r = Some v \<Longrightarrow>
   r_status r \<in> {400, 422} \<and> mentions (fm_model_not_entitled_request_rejection (r_markers r)) (r_bare r) \<and> v = ''model_not_found''"
  unfolding request_entitlement_stage_def REQUEST_REJECTION_STATUSES_def by (simp split: if_splits)

lemma quota_marker_range: "quota_marker_stage r = Some v \<Longrightarrow>
   r_quota_free r \<and> (v = ''no_free_quota'' \<or> v = ''quota_exhausted'' \<or> v = ''auth_or_credit'' \<or> v = ''server_error'' \<or> v = ''unavailable'')"
  unfolding quota_marker_stage_def by (simp split: if_splits)

lemma rate_limit_range: "rate_limit_stage r = Some v \<Longrightarrow> r_status r = 429 \<and>
  (v = ''rate_limited'' \<or> v = ''rate_limited_upstream'' \<and> \<not> mentions ACCOUNT_RATE_LIMIT_TEXT_MARKERS (r_bare r) \<and>
    (matches_structured_error_code (r_codes r) (fm_upstream_rate_limit_error_codes (r_markers r)) \<or>
     body_names_our_model (r_bare r) (r_model r) \<and>
       mentions (fm_upstream_rate_limit (r_markers r)) (r_bare r)))"
  unfolding rate_limit_stage_def Let_def by (auto split: if_splits)

lemma too_large_range: "too_large_stage r = Some v \<Longrightarrow> r_status r = 413 \<and>
  (v = ''context_length_exceeded'' \<or> v = ''request_too_large'')"
  unfolding too_large_stage_def by (simp split: if_splits)

lemma payment_range: "payment_stage r = Some v \<Longrightarrow> v = ''billing_or_paid''"
  unfolding payment_stage_def Let_def by (simp split: if_splits)

lemma entitlement_range: "entitlement_stage r = Some v \<Longrightarrow> r_status r = 403 \<and> body_names_our_model (r_bare r) (r_model r)
   \<and> \<not> mentions ACCOUNT_SCOPE_403_MARKERS (r_bare r) \<and> v = ''model_not_found''"
  unfolding entitlement_stage_def by (simp split: if_splits)

lemma auth_range: "auth_stage r = Some v \<Longrightarrow> r_status r \<in> {401, 403} \<and> v = ''auth_or_credit''"
  unfolding auth_stage_def by (simp split: if_splits)

lemma not_found_range: "not_found_stage r = Some v \<Longrightarrow> r_status r \<in> {404, 410} \<and> mentions (fm_model_not_found (r_markers r)) (r_low r) \<and> v = ''model_not_found''"
  unfolding not_found_stage_def by (simp split: if_splits)

lemma server_range: "server_stage r = Some v \<Longrightarrow> 500 \<le> r_status r \<and> v = ''server_error''"
  unfolding server_stage_def by (simp split: if_splits)

lemma request_range: "request_stage r = Some v \<Longrightarrow> r_status r \<in> {400, 422} \<and>
  (v = ''bad_upstream_contract'' \<or> v = ''context_length_exceeded'' \<or> v = ''bad_upstream_request'')"
  unfolding request_stage_def REQUEST_REJECTION_STATUSES_def by (simp split: if_splits)

lemmas stage_ranges =
  quota_code_range free_quota_code_range forbidden_field_range request_entitlement_range
  quota_marker_range rate_limit_range too_large_range payment_range entitlement_range auth_range
  not_found_range server_range request_range

text \<open>The verdicts that decide how far a failure reaches, with the evidence each one needs.\<close>

lemma upstream_verdict_stage:
  assumes "f \<in> set failure_stages" "f r = Some ''rate_limited_upstream''"
  shows "r_status r = 429 \<and> \<not> mentions ACCOUNT_RATE_LIMIT_TEXT_MARKERS (r_bare r) \<and>
    (matches_structured_error_code (r_codes r) (fm_upstream_rate_limit_error_codes (r_markers r)) \<or>
     body_names_our_model (r_bare r) (r_model r) \<and>
       mentions (fm_upstream_rate_limit (r_markers r)) (r_bare r))"
  by (rule stage_cases[OF assms]; drule stage_ranges; simp; blast)

lemma not_found_verdict_stage:
  assumes "f \<in> set failure_stages" "f r = Some ''model_not_found''"
  shows "r_status r \<in> {400, 422} \<and>
           mentions (fm_model_not_entitled_request_rejection (r_markers r)) (r_bare r) \<or>
         r_status r = 403 \<and> body_names_our_model (r_bare r) (r_model r) \<and>
           \<not> mentions ACCOUNT_SCOPE_403_MARKERS (r_bare r) \<or>
         r_status r \<in> {404, 410} \<and> mentions (fm_model_not_found (r_markers r)) (r_low r)"
  by (rule stage_cases[OF assms]; drule stage_ranges; simp)

lemma bad_request_verdict_stage:
  assumes "f \<in> set failure_stages" "f r = Some ''bad_upstream_request''"
  shows "r_status r \<in> {400, 422}"
  by (rule stage_cases[OF assms]; drule stage_ranges; simp)

lemma quota_verdict_stage:
  assumes "f \<in> set failure_stages" "f r = Some v" "v = ''no_free_quota'' \<or> v = ''quota_exhausted''"
  shows "r_quota_free r \<or> (r_status r = 403 \<and> ''free_quota_exhausted'' \<in> set (r_codes r) \<and> v = ''quota_exhausted'')"
  by (rule stage_cases[OF assms(1,2)]; drule stage_ranges; insert assms(3); auto)

text \<open>The reasons an answered request can fail with.\<close>

definition CLASSIFIED_REASONS :: "string list" where
  "CLASSIFIED_REASONS =
     [''auth_or_credit'', ''bad_upstream_contract'', ''bad_upstream_request'', ''billing_or_paid'',
      ''context_length_exceeded'', ''model_not_found'', ''no_free_quota'', ''quota_exhausted'',
      ''rate_limited'', ''rate_limited_upstream'', ''request_too_large'', ''server_error'', ''unavailable'']"

lemma stage_range:
  assumes "f \<in> set failure_stages" "f r = Some v"
  shows "v \<in> set CLASSIFIED_REASONS"
  unfolding CLASSIFIED_REASONS_def
  by (rule stage_cases[OF assms]; drule stage_ranges; auto)

lemma classify_failure_in_range: "classify_failure s b c a m u \<in> set CLASSIFIED_REASONS"
proof (cases "classify_failure s b c a m u = ''unavailable''")
  case True
  then show ?thesis by (simp add: CLASSIFIED_REASONS_def)
next
  case False
  with first_verdict_stage[OF refl False] stage_range show ?thesis by metis
qed

section \<open>Properties\<close>

lemma re_search_Fail [simp]: "re_search Fail s = None"
proof -
  have "search_from Fail b s = None" for b
    by (induction s arbitrary: b) (simp_all add: search_from.simps match_at_def)
  then show ?thesis by (simp add: re_search_def)
qed

lemma re_sub_empty_text [simp]: "re_sub r x [] = []"
proof -
  have "next_match r [] [] = None"
    by (auto simp: next_match.simps split: option.splits)
  then show ?thesis by (simp add: re_sub_def re_scan_def)
qed

lemma mentions_empty_text: "[] \<notin> set ms \<Longrightarrow> \<not> mentions ms []"
  by (auto simp: mentions_def contains_def list_ex_iff)

lemma empty_text_readings:
  "\<not> forbids_nonstandard_message_field []" "\<not> demands_missing_field []"
  "\<not> rejects_model_specific_request_option []" "\<not> rejects_disabled_reasoning []"
  "\<not> rejects_unknown_message_property []" "\<not> mentions_context_length_exceeded []"
proof -
  have "json_number [] = None"
    by (simp add: json_number_def Let_def split: option.split)
  then have "json_loads [] = None"
    by (simp add: json_loads_def json_ws_def expect_def json_keyword_def starts_with_def)
  then show "\<not> forbids_nonstandard_message_field []"
    by (simp add: forbids_nonstandard_message_field_def)
  show "\<not> demands_missing_field []"
    by (simp add: demands_missing_field_def mentions_empty_text NON_STANDARD_REQUEST_FIELDS_def)
  show "\<not> rejects_model_specific_request_option []"
    by (simp add: rejects_model_specific_request_option_def mentions_empty_text MODEL_SPECIFIC_REQUEST_OPTIONS_def)
  show "\<not> rejects_disabled_reasoning []"
    by (simp add: rejects_disabled_reasoning_def MANDATORY_REASONING_REJECTION_MARKERS_def contains_def)
  show "\<not> rejects_unknown_message_property []"
    by (simp add: rejects_unknown_message_property_def re_search_def search_from.simps match_at_def
        UNKNOWN_MESSAGE_PROPERTY_PATTERN_def Seq_def)
  show "\<not> mentions_context_length_exceeded []"
    by (simp add: mentions_context_length_exceeded_def mentions_empty_text CONTEXT_LENGTH_EXCEEDED_MARKERS_def)
qed

text \<open>Markers of an adapter that cleared the built-in ones.\<close>

definition example_markers :: failure_markers where
  "example_markers =
     \<lparr>fm_false_free = [], fm_false_free_payment_demand = [], fm_quota_exhausted = [],
      fm_free_tier_zero_allocation = [], fm_model_not_found = [''gone''], fm_model_not_entitled = [],
      fm_model_not_entitled_request_rejection = [], fm_upstream_rate_limit = [],
      fm_upstream_rate_limit_error_codes = [(''3505'', ''capacity'')]\<rparr>"

text \<open>Fail closed on scope: a rate limit is blamed on one model's upstream pool, and so spares
  the provider, only for a 429 whose text names no account-level scope and that either carries
  the adapter's exact code pair or names the requested model together with an upstream marker.\<close>

theorem upstream_rate_limit_needs_evidence:
  assumes "classify_failure s body codes access markers model_id = ''rate_limited_upstream''"
    and "r = read_failure s body codes access markers model_id"
  shows "s = Some 429 \<and> \<not> mentions ACCOUNT_RATE_LIMIT_TEXT_MARKERS (r_bare r)
       \<and> (matches_structured_error_code (r_codes r) (fm_upstream_rate_limit_error_codes (r_markers r))
          \<or> body_names_our_model (r_bare r) model_id \<and> mentions (fm_upstream_rate_limit (r_markers r)) (r_bare r))"
proof -
  obtain f where "f \<in> set failure_stages" "f r = Some ''rate_limited_upstream''"
    using first_verdict_stage[OF assms(1)] assms(2) by auto
  from upstream_verdict_stage[OF this] show ?thesis
    by (cases s) (simp_all add: assms(2))
qed

lemma upstream_rate_limit_needs_evidence_witness:
  "matches_structured_error_code
     (r_codes (read_failure (Some 429) [] [''3505'', ''capacity''] PNone (Some example_markers) ''m''))
     (fm_upstream_rate_limit_error_codes example_markers)"
proof -
  have "classify_failure (Some 429) [] [''3505'', ''capacity''] PNone (Some example_markers) ''m'' = ''rate_limited_upstream''"
    by (simp add: classify_failure_def failure_stages_def failure_stage_defs REQUEST_REJECTION_STATUSES_def
        quota_free_access_def Let_def mentions_empty_text ACCOUNT_RATE_LIMIT_TEXT_MARKERS_def
        matches_structured_error_code_def example_markers_def lower_def)
  from upstream_rate_limit_needs_evidence[OF this refl] show ?thesis
    by (auto simp: body_names_our_model_def example_markers_def strip_def lstrip_def is_space_def lower_def)
qed

text \<open>A quarantine of a model id needs evidence about that id: a 404 or 410 that says so, a
  403 that names the requested model and no account-level gate, or a 400/422 with the phrase
  an adapter registered.\<close>

theorem model_quarantine_needs_evidence:
  assumes "classify_failure s body codes access markers model_id = ''model_not_found''"
    and "r = read_failure s body codes access markers model_id"
  shows "s \<in> {Some 404, Some 410} \<and> mentions (fm_model_not_found (r_markers r)) (r_low r)
       \<or> s = Some 403 \<and> body_names_our_model (r_bare r) model_id \<and> \<not> mentions ACCOUNT_SCOPE_403_MARKERS (r_bare r)
       \<or> s \<in> {Some 400, Some 422} \<and>
           mentions (fm_model_not_entitled_request_rejection (r_markers r)) (r_bare r)"
proof -
  obtain f where "f \<in> set failure_stages" "f r = Some ''model_not_found''"
    using first_verdict_stage[OF assms(1)] assms(2) by auto
  from not_found_verdict_stage[OF this] show ?thesis
    by (cases s) (auto simp: assms(2))
qed

lemma model_quarantine_needs_evidence_witness:
  "mentions (fm_model_not_found example_markers) ''gone''"
proof -
  have "classify_failure (Some 404) ''gone'' [''x''] PNone (Some example_markers) ''m'' = ''model_not_found''"
    by (simp add: classify_failure_def failure_stages_def failure_stage_defs REQUEST_REJECTION_STATUSES_def
        quota_free_access_def Let_def example_markers_def mentions_def contains_def read_failure_def
        status_for_error_codes_def ERROR_CODE_STATUSES_def error_code_words_def is_ascii_alnum_def
        is_digit_def is_upper_def is_lower_def PAYMENT_CODE_WORDS_def lower_def lower_char_def strip_def
        lstrip_def is_space_def false_free_pattern_def Alts_def PROSE_SCAN_LIMIT_def)
  from model_quarantine_needs_evidence[OF this refl] show ?thesis
    by (simp add: PROSE_SCAN_LIMIT_def lower_def lower_char_def is_upper_def)
qed

text \<open>Only the status of a request rejection ends a run: the one reason that is never retried
  on another candidate is given for a 400 or a 422, never for an answer without a status.\<close>

theorem terminal_reason_needs_rejection_status:
  assumes "classify_failure s body codes access markers model_id = ''bad_upstream_request''"
  shows "s \<in> {Some 400, Some 422}"
proof -
  obtain f where "f \<in> set failure_stages"
    "f (read_failure s body codes access markers model_id) = Some ''bad_upstream_request''"
    using first_verdict_stage[OF assms] by auto
  from bad_request_verdict_stage[OF this] show ?thesis
    by (cases s) auto
qed

lemma terminal_reason_needs_rejection_status_witness:
  "classify_failure (Some 400) [] [''x''] PNone (Some example_markers) [] = ''bad_upstream_request''
   \<and> Some (400::int) \<in> {Some 400, Some 422}"
proof -
  have "classify_failure (Some 400) [] [''x''] PNone (Some example_markers) [] = ''bad_upstream_request''"
    by (simp add: classify_failure_def failure_stages_def failure_stage_defs REQUEST_REJECTION_STATUSES_def
        quota_free_access_def Let_def example_markers_def mentions_def contains_def read_failure_def
        status_for_error_codes_def ERROR_CODE_STATUSES_def error_code_words_def is_ascii_alnum_def
        is_digit_def is_upper_def is_lower_def PAYMENT_CODE_WORDS_def lower_def lower_char_def strip_def
        lstrip_def is_space_def false_free_pattern_def Alts_def empty_text_readings quotes_caller_request_def)
  with terminal_reason_needs_rejection_status[OF this] show ?thesis by blast
qed

text \<open>What a status means when the route is not quota-free: 402 is a payment demand, 429 a
  rate limit, 413 a size limit, 401 a credential or payment problem and a server status a
  server error unless the body demands payment; every verdict is one of thirteen reasons, and
  a quota verdict needs the provider's own code on a 403.\<close>

theorem status_decides_the_family:
  assumes "\<not> quota_free_access access"
  shows "classify_failure (Some 402) body codes access markers model_id = ''billing_or_paid''
       \<and> classify_failure (Some 429) body codes access markers model_id \<in> {''rate_limited'', ''rate_limited_upstream''}
       \<and> classify_failure (Some 413) body codes access markers model_id \<in> {''request_too_large'', ''context_length_exceeded''}
       \<and> classify_failure (Some 401) body codes access markers model_id \<in> {''auth_or_credit'', ''billing_or_paid''}
       \<and> (500 \<le> n \<longrightarrow> classify_failure (Some n) body codes access markers model_id \<in> {''server_error'', ''billing_or_paid''})
       \<and> (classify_failure s body codes access markers model_id \<in> {''quota_exhausted'', ''no_free_quota''} \<longrightarrow>
            s = Some 403 \<and> ''free_quota_exhausted'' \<in> set (r_codes (read_failure s body codes access markers model_id)))
       \<and> classify_failure s body codes access markers model_id \<in> set CLASSIFIED_REASONS"
proof (intro conjI impI)
  note defs = classify_failure_def failure_stages_def failure_stage_defs REQUEST_REJECTION_STATUSES_def Let_def
  show "classify_failure (Some 402) body codes access markers model_id = ''billing_or_paid''"
    using assms by (simp add: defs)
  show "classify_failure (Some 429) body codes access markers model_id \<in> {''rate_limited'', ''rate_limited_upstream''}"
    using assms by (simp add: defs split: if_splits)
  show "classify_failure (Some 413) body codes access markers model_id \<in> {''request_too_large'', ''context_length_exceeded''}"
    using assms by (simp add: defs split: if_splits)
  show "classify_failure (Some 401) body codes access markers model_id \<in> {''auth_or_credit'', ''billing_or_paid''}"
    using assms by (simp add: defs)
  show "classify_failure (Some n) body codes access markers model_id \<in> {''server_error'', ''billing_or_paid''}" if "500 \<le> n"
    using assms that by (simp add: defs)
  show "classify_failure s body codes access markers model_id \<in> set CLASSIFIED_REASONS"
    by (rule classify_failure_in_range)
  assume q: "classify_failure s body codes access markers model_id \<in> {''quota_exhausted'', ''no_free_quota''}"
  then have "classify_failure s body codes access markers model_id \<noteq> ''unavailable''" by auto
  from first_verdict_stage[OF refl this] obtain f where f: "f \<in> set failure_stages"
    "f (read_failure s body codes access markers model_id) = Some (classify_failure s body codes access markers model_id)" .
  from q have "classify_failure s body codes access markers model_id = ''no_free_quota'' \<or>
      classify_failure s body codes access markers model_id = ''quota_exhausted''" by auto
  from quota_verdict_stage[OF f this] assms
  show "s = Some 403" "''free_quota_exhausted'' \<in> set (r_codes (read_failure s body codes access markers model_id))"
    by (auto split: option.splits)
qed

lemma status_decides_the_family_witness:
  "\<not> quota_free_access (PDict [(''mode'', PStr ''paid'')])
   \<and> classify_failure (Some 402) ''quota exceeded'' [] (PDict [(''mode'', PStr ''paid'')]) None ''m'' = ''billing_or_paid''"
proof -
  have "\<not> quota_free_access (PDict [(''mode'', PStr ''paid'')])" by (simp add: quota_free_access_def)
  with status_decides_the_family[OF this] show ?thesis by blast
qed

end
