(* ===== verification/Redaction.thy ===== *)
theory Redaction
  imports PyRegex
begin

text \<open>
  The last line of defence before an untrusted text is stored or shown (\<open>redaction.py\<close>): the
  seven patterns a secret travels under, the redaction of a text and of a JSON document, and
  the bounded form every error detail goes through.
\<close>

section \<open>Patterns\<close>

definition quote_re :: re where
  "quote_re = any_of [CHR 0x22, CHR 0x27]"

definition key_char :: "char \<Rightarrow> bool" where
  "key_char c \<longleftrightarrow> is_upper c \<or> is_lower c \<or> is_digit c \<or> c = CHR ''_''"

definition token_char :: "char \<Rightarrow> bool" where
  "token_char c \<longleftrightarrow> is_upper c \<or> is_lower c \<or> is_digit c \<or> c \<in> set ''_./+=-''"

definition at_least :: "nat \<Rightarrow> re \<Rightarrow> re" where
  "at_least n a = Cat (Seq (replicate n a)) (Star a)"

text \<open>\<open>\s*[:=]\s*\<close>, between a key and its value.\<close>

definition assign_re :: re where
  "assign_re = Seq [Star space_re, any_of '':='', Star space_re]"

abbreviation nonspace_re :: re where
  "nonspace_re \<equiv> Chr (\<lambda>c. \<not> is_space c)"

definition SENSITIVE_ERROR_PATTERNS :: "re list" where
  "SENSITIVE_ERROR_PATTERNS =
     [Seq [quote_re, word_boundary, LitI ''authorization'', quote_re, assign_re, Opt quote_re,
           Plus (none_of [CHR 0x22, CHR 0x27, CHR ''}''])],
      Seq [word_boundary, LitI ''authorization'', assign_re,
           Opt (Cat (Plus nonspace_re) (Plus space_re)), Plus nonspace_re],
      Seq [word_boundary, LitI ''bearer'', Plus space_re, Plus nonspace_re],
      Seq [Alts
             [Seq [Opt quote_re, word_boundary, Star (Chr key_char), LitI ''api'', Opt (any_of ''_-''),
                   LitI ''key'', Opt quote_re],
              Seq [Opt quote_re, word_boundary, LitI ''access'', Opt (any_of ''_-''), LitI ''token'',
                   Opt quote_re],
              Seq [Opt quote_re, word_boundary, LitI ''refresh'', Opt (any_of ''_-''), LitI ''token'',
                   Opt quote_re]],
           assign_re, Opt quote_re,
           Plus (Chr (\<lambda>c. \<not> is_space c \<and> c \<notin> set [CHR 0x22, CHR 0x27, CHR '','', CHR ''}'']))],
      Seq [quote_re, word_boundary, LitI ''token'', quote_re, assign_re, Opt quote_re,
           at_least 8 (Chr token_char)],
      Seq [Assert (\<lambda>b r. lower (take 11 b) \<noteq> rev ''plain text ''), not_behind key_char, LitI ''token'',
           assign_re, at_least 8 (Chr token_char)],
      Seq [word_boundary, Lit ''sk-'', at_least 8 (Chr (\<lambda>c. key_char c \<or> c = CHR ''-'')), word_boundary]]"

definition SENSITIVE_JSON_KEYS :: "string list" where
  "SENSITIVE_JSON_KEYS =
     [''api_key'', ''apikey'', ''authorization'', ''access_token'', ''refresh_token'', ''token'']"

definition is_sensitive_json_key :: "string \<Rightarrow> bool" where
  "is_sensitive_json_key key =
     (let normalized = replace_char (CHR ''-'') ''_'' (lower key)
      in normalized \<in> set SENSITIVE_JSON_KEYS \<or> ends_with ''_api_key'' normalized
         \<or> ends_with ''_access_token'' normalized \<or> ends_with ''_refresh_token'' normalized)"

definition REDACTION_INPUT_LIMIT :: nat where "REDACTION_INPUT_LIMIT = 4096"

section \<open>Redaction\<close>

text \<open>\<open>s.split()\<close>: the words between runs of white space; the first argument is the word being read, reversed.\<close>

fun words_from :: "string \<Rightarrow> string \<Rightarrow> string list" where
  "words_from w [] = (if w = [] then [] else [rev w])"
| "words_from w (c # cs) =
     (if is_space c then (if w = [] then words_from [] cs else rev w # words_from [] cs)
      else words_from (c # w) cs)"

definition collapse_space :: "string \<Rightarrow> string" where
  "collapse_space s = join '' '' (words_from [] s)"

definition redact_patterns :: "string \<Rightarrow> string" where
  "redact_patterns s = fold (\<lambda>pat t. re_sub pat ''[redacted]'' t) SENSITIVE_ERROR_PATTERNS s"

definition redact_sensitive_text :: "pv \<Rightarrow> nat option \<Rightarrow> bool \<Rightarrow> string option" where
  "redact_sensitive_text v limit collapse =
     (let s = py_str (por v (PStr []));
          s = (case limit of None \<Rightarrow> s | Some _ \<Rightarrow> take REDACTION_INPUT_LIMIT s);
          s = (if collapse then collapse_space s else s)
      in if s = [] then None
         else (let s = redact_patterns s
               in Some (case limit of None \<Rightarrow> s | Some n \<Rightarrow> take n s)))"

definition text_or :: "string \<Rightarrow> string option \<Rightarrow> string" where
  "text_or d s = (case s of None \<Rightarrow> d | Some t \<Rightarrow> if t = [] then d else t)"

fun redact_sensitive_json :: "pv \<Rightarrow> pv" where
  "redact_sensitive_json (PStr s) = PStr (text_or [] (redact_sensitive_text (PStr s) None False))"
| "redact_sensitive_json (PList xs) = PList (map redact_sensitive_json xs)"
| "redact_sensitive_json (PDict d) =
     PDict (fold (\<lambda>(k, v) safe. dset k v safe)
       (map (\<lambda>(key, item).
          (text_or key (redact_sensitive_text (PStr key) None False),
           if is_sensitive_json_key key \<and> item \<noteq> PNone \<and> item \<noteq> PStr []
           then PStr ''[redacted]'' else redact_sensitive_json item)) d) [])"
| "redact_sensitive_json PNone = PNone"
| "redact_sensitive_json (PBool b) = PBool b"
| "redact_sensitive_json (PInt i) = PInt i"
| "redact_sensitive_json (PFloat f) = PFloat f"

definition sanitize_error_detail :: "pv \<Rightarrow> nat \<Rightarrow> string option" where
  "sanitize_error_detail v limit = redact_sensitive_text v (Some limit) True"

section \<open>Bounds\<close>

lemma sanitize_error_detail_length:
  "sanitize_error_detail v limit = Some s \<Longrightarrow> length s \<le> limit"
  by (auto simp: sanitize_error_detail_def redact_sensitive_text_def Let_def split: if_splits)

lemma sanitize_error_detail_empty [simp]:
  "sanitize_error_detail PNone limit = None" "sanitize_error_detail (PStr []) limit = None"
  by (simp_all add: sanitize_error_detail_def redact_sensitive_text_def por_def collapse_space_def join_def)

section \<open>What a redacted document still shows\<close>

lemma set_fold_dset: "set (fold (\<lambda>(k, v) safe. dset k v safe) xs d) \<subseteq> set d \<union> set xs"
proof (induction xs arbitrary: d)
  case (Cons x xs)
  obtain k v where x: "x = (k, v)" by (cases x)
  have "set (dset k v d) \<subseteq> insert (k, v) (set d)"
    by (induction d) auto
  with Cons.IH[of "dset k v d"] show ?case by (auto simp: x)
qed simp

definition redacted_entry :: "string \<times> pv \<Rightarrow> string \<times> pv" where
  "redacted_entry = (\<lambda>(key, item).
     (text_or key (redact_sensitive_text (PStr key) None False),
      if is_sensitive_json_key key \<and> item \<noteq> PNone \<and> item \<noteq> PStr []
      then PStr ''[redacted]'' else redact_sensitive_json item))"

lemma redact_sensitive_json_PDict:
  "redact_sensitive_json (PDict d) = PDict (fold (\<lambda>(k, v) safe. dset k v safe) (map redacted_entry d) [])"
  by (simp add: redacted_entry_def)

lemma redacted_value_origin:
  assumes "redact_sensitive_json (PDict d) = PDict d'" and "(shown, v) \<in> set d'"
  shows "v = PStr ''[redacted]'' \<or>
    (\<exists>key item. (key, item) \<in> set d \<and> v = redact_sensitive_json item \<and>
       (is_sensitive_json_key key \<longrightarrow> item \<in> {PNone, PStr []}))"
proof -
  from assms(1) have "d' = fold (\<lambda>(k, v) safe. dset k v safe) (map redacted_entry d) []"
    by (simp only: redact_sensitive_json_PDict pv.inject)
  with assms(2) set_fold_dset[of "map redacted_entry d" "[]"]
  have "(shown, v) \<in> set (map redacted_entry d)" by auto
  then obtain key item where e: "(key, item) \<in> set d" "(shown, v) = redacted_entry (key, item)"
    by (auto simp del: split_paired_Ex)
  show ?thesis
  proof (cases "is_sensitive_json_key key \<and> item \<noteq> PNone \<and> item \<noteq> PStr []")
    case True
    with e(2) show ?thesis by (simp add: redacted_entry_def)
  next
    case False
    with e(2) have "v = redact_sensitive_json item" by (simp add: redacted_entry_def)
    with e(1) False show ?thesis by blast
  qed
qed

text \<open>A redacted document shows nothing under a sensitive key: each value of a redacted
  dictionary is the redaction marker, or the redaction of a value whose key is not sensitive or
  that was empty to begin with.\<close>

theorem redacted_json_hides_sensitive_values:
  assumes "redact_sensitive_json (PDict d) = PDict d'" and "(shown, v) \<in> set d'"
  shows "v = PStr ''[redacted]'' \<or>
    (\<exists>key item. (key, item) \<in> set d \<and> v = redact_sensitive_json item \<and>
       (is_sensitive_json_key key \<longrightarrow> item = PNone \<or> item = PStr []))"
  using redacted_value_origin[OF assms] by blast

lemma redacted_json_hides_sensitive_values_witness:
  "\<exists>shown. redact_sensitive_json (PDict [(''token'', PInt 7)]) = PDict [(shown, PStr ''[redacted]'')] \<and>
     is_sensitive_json_key ''token''"
proof -
  have sens: "is_sensitive_json_key ''token''"
    by (simp add: is_sensitive_json_key_def SENSITIVE_JSON_KEYS_def lower_def lower_char_def is_upper_def
        replace_char_def)
  obtain shown where eq: "redact_sensitive_json (PDict [(''token'', PInt 7)]) = PDict [(shown, PStr ''[redacted]'')]"
    using sens by simp
  from redacted_json_hides_sensitive_values[OF eq, of shown "PStr ''[redacted]''"] eq sens show ?thesis by blast
qed

end
