(* ===== verification/FailurePolicy.thy ===== *)
theory FailurePolicy
  imports FailureClassify Redaction "HOL-Library.List_Lexorder" "HOL-Library.Char_ord"
begin

text \<open>
  What follows from a failure reason (\<open>failures.py\<close>): the sets of reasons the rest of the
  program consults, the state-write policy of a reason, what the endings Ficelle itself
  produces mean for the answer, and the answer a run gets when no candidate delivered: its
  HTTP status, the status its log row shows, the delay it may be retried after and the error
  payload. A terminal reason that is absent is the empty text. Dashes of the texts for
  operators are written as hyphens.
\<close>

section \<open>Sets of reasons\<close>

definition NO_MODEL_FAULT_FAILURE_REASONS :: "string list" where
  "NO_MODEL_FAULT_FAILURE_REASONS =
     [''truncated_before_content'', ''bad_upstream_request'', ''bad_upstream_contract'',
      ''client_disconnected'', ''request_deadline_exceeded'', ''context_length_exceeded'']"

definition UNSCORED_FAILURE_REASONS :: "string list" where
  "UNSCORED_FAILURE_REASONS = NO_MODEL_FAULT_FAILURE_REASONS @ [''network_unreachable'']"

definition NON_RETRYABLE_FAILURE_REASONS :: "string list" where
  "NON_RETRYABLE_FAILURE_REASONS = [''bad_upstream_request'']"

definition SOURCE_DIVERTING_FAILURE_REASONS :: "string list" where
  "SOURCE_DIVERTING_FAILURE_REASONS = [''bad_upstream_contract'']"

definition CONTEXT_DIVERTING_FAILURE_REASONS :: "string list" where
  "CONTEXT_DIVERTING_FAILURE_REASONS = [''context_length_exceeded'']"

definition UPSTREAM_MODEL_DIVERTING_FAILURE_REASONS :: "string list" where
  "UPSTREAM_MODEL_DIVERTING_FAILURE_REASONS =
     [''truncated_before_content'', ''empty_assistant_message'', ''runaway_output'']"

definition CAPACITY_FAILURE_REASONS :: "string list" where
  "CAPACITY_FAILURE_REASONS = [''rate_limited'', ''rate_limited_upstream'', ''server_error'']"

definition PRODUCTION_PROFILE_FAILURE_REASONS :: "string list" where
  "PRODUCTION_PROFILE_FAILURE_REASONS =
     filter (\<lambda>r. r \<notin> set NO_MODEL_FAULT_FAILURE_REASONS)
       [''empty_assistant_message'', ''upstream_finish_error'', ''runaway_output'']"

definition PROVIDER_SCOPED_COOLDOWN_REASONS :: "string list" where
  "PROVIDER_SCOPED_COOLDOWN_REASONS =
     [''rate_limited'', ''auth_or_credit'', ''tls_error'', ''network_unreachable'']"

definition PROVIDER_ERROR_REASONS :: "string list" where
  "PROVIDER_ERROR_REASONS = PROVIDER_SCOPED_COOLDOWN_REASONS @ [''quota_exhausted'', ''no_free_quota'']"

definition BENCHMARK_ROUTE_BLOCKING_REASONS :: "string list" where
  "BENCHMARK_ROUTE_BLOCKING_REASONS =
     [''billing_or_paid'', ''no_free_quota'', ''quota_exhausted'', ''auth_or_credit'', ''model_not_found'']"

definition UPSTREAM_DETAIL_LIMIT :: nat where "UPSTREAM_DETAIL_LIMIT = 400"

section \<open>The state-write policy of a reason\<close>

record quarantine_policy =
  qp_reason :: string
  qp_source :: string
  qp_fallback_note :: string

record cooldown_policy =
  cp_record_provider_error :: bool
  cp_provider_cooldown :: bool
  cp_provider_cooldown_source :: string
  cp_quota_cooldown :: bool
  cp_quarantine :: "quarantine_policy option"
  cp_model_cooldown :: bool

text \<open>\<open>CooldownPolicy(record_provider_error=b)\<close>: the other fields at their defaults.\<close>

definition base_policy :: "bool \<Rightarrow> cooldown_policy" where
  "base_policy b =
     \<lparr>cp_record_provider_error = b, cp_provider_cooldown = False, cp_provider_cooldown_source = [],
      cp_quota_cooldown = False, cp_quarantine = None, cp_model_cooldown = True\<rparr>"

definition cooldown_policy_for_reason :: "string \<Rightarrow> string \<Rightarrow> cooldown_policy" where
  "cooldown_policy_for_reason reason source =
     (let provider_source = strip source in
      if reason = ''no_free_quota'' then
        (base_policy True)
          \<lparr>cp_quarantine := Some
             \<lparr>qp_reason = ''no_free_quota'', qp_source = ''no_free_quota_guard'',
              qp_fallback_note = ''runtime reported a zero free-tier allocation for a quota-free model''\<rparr>,
           cp_model_cooldown := False\<rparr>
      else if reason = ''model_not_found'' then
        (base_policy False)
          \<lparr>cp_quarantine := Some
             \<lparr>qp_reason = ''model_not_found'', qp_source = ''model_not_found_guard'',
              qp_fallback_note = ''runtime reported that '' @ MODEL_NOT_SERVEABLE_NOTE\<rparr>,
           cp_model_cooldown := False\<rparr>
      else if reason \<in> set NO_MODEL_FAULT_FAILURE_REASONS then
        (base_policy False)\<lparr>cp_model_cooldown := False\<rparr>
      else if reason = ''quota_exhausted'' then
        (base_policy True)\<lparr>cp_quota_cooldown := True, cp_model_cooldown := False\<rparr>
      else if reason \<in> set PROVIDER_SCOPED_COOLDOWN_REASONS then
        (base_policy True)
          \<lparr>cp_provider_cooldown := True, cp_provider_cooldown_source := provider_source,
           cp_model_cooldown := False\<rparr>
      else if reason = ''billing_or_paid'' then
        (base_policy False)
          \<lparr>cp_quarantine := Some
             \<lparr>qp_reason = ''billing_or_paid'', qp_source = ''anti_false_free_guard'',
              qp_fallback_note = ''runtime reported billing/payment/credit for a catalog-free model''\<rparr>\<rparr>
      else base_policy False)"

section \<open>Endings Ficelle produces itself\<close>

record terminal_ending =
  te_http_status :: "int option"
  te_error_type :: "string option"
  te_writes_body :: bool
  te_route_log_status :: "int option"

definition TERMINAL_ENDINGS :: "(string \<times> terminal_ending) list" where
  "TERMINAL_ENDINGS =
     [(''client_disconnected'',
       \<lparr>te_http_status = None, te_error_type = Some ''client_disconnected'', te_writes_body = False,
        te_route_log_status = Some 499\<rparr>),
      (''service_restarting'',
       \<lparr>te_http_status = Some 503, te_error_type = Some ''service_restarting'', te_writes_body = True,
        te_route_log_status = None\<rparr>),
      (''request_deadline_exceeded'',
       \<lparr>te_http_status = None, te_error_type = None, te_writes_body = True, te_route_log_status = None\<rparr>)]"

section \<open>Verdicts on a run that failed\<close>

type_synonym error_row = pydict

definition every_attempt_failed_with :: "error_row list \<Rightarrow> string \<Rightarrow> bool" where
  "every_attempt_failed_with errors reason \<longleftrightarrow>
     errors \<noteq> [] \<and> list_all (\<lambda>row. dget row ''reason'' = PStr reason) errors"

definition caller_rejected_request :: "error_row list \<Rightarrow> bool" where
  "caller_rejected_request errors \<longleftrightarrow> every_attempt_failed_with errors ''bad_upstream_request''"

definition request_feature_incompatible :: "error_row list \<Rightarrow> bool" where
  "request_feature_incompatible errors \<longleftrightarrow> every_attempt_failed_with errors ''unsupported_tool_schema''"

definition request_exceeds_context :: "error_row list \<Rightarrow> bool" where
  "request_exceeds_context errors \<longleftrightarrow> every_attempt_failed_with errors ''context_length_exceeded''"

text \<open>The rows that were actually sent.\<close>

definition was_attempted :: "error_row \<Rightarrow> bool" where
  "was_attempted error \<longleftrightarrow> dget error ''attempted'' \<noteq> PBool False"

definition attempted_rows :: "error_row list \<Rightarrow> error_row list" where
  "attempted_rows errors = filter was_attempted errors"

definition row_reason :: "error_row \<Rightarrow> string" where
  "row_reason error = py_str (por (dget error ''reason'') (PStr []))"

definition upstream_failure_status :: "error_row list \<Rightarrow> string \<Rightarrow> int" where
  "upstream_failure_status errors terminal_reason =
     (let attempted_errors = attempted_rows errors in
      if request_feature_incompatible attempted_errors then 422
      else if caller_rejected_request attempted_errors \<or> request_exceeds_context attempted_errors then 400
      else
        (case Option.bind (map_of TERMINAL_ENDINGS terminal_reason) te_http_status of
           Some status \<Rightarrow> status
         | None \<Rightarrow>
             (let reasons = map row_reason attempted_errors in
              if reasons \<noteq> [] \<and>
                 set reasons \<subseteq> set [''rate_limited'', ''rate_limited_upstream'', ''quota_exhausted'']
              then 429
              else if reasons \<noteq> [] \<and> set reasons \<subseteq> set [''timeout'', ''request_deadline_exceeded'']
              then 504
              else 502)))"

definition route_log_failure_status :: "error_row list \<Rightarrow> string \<Rightarrow> int" where
  "route_log_failure_status errors terminal_reason =
     (case Option.bind (map_of TERMINAL_ENDINGS terminal_reason) te_route_log_status of
        Some status \<Rightarrow> status
      | None \<Rightarrow> upstream_failure_status errors terminal_reason)"

text \<open>
  The delays of the rows that were sent and state a positive number; \<open>int()\<close> of an infinite
  one raises. The outer option is the raise, the inner one the absence of a delay.
\<close>

definition row_delay :: "error_row \<Rightarrow> int option list" where
  "row_delay error =
     (if \<not> was_attempted error then []
      else (case dget error ''retry_after_seconds'' of
              PInt i \<Rightarrow> if 0 < i then [Some i] else []
            | PFloat (Fin x) \<Rightarrow> if 0 < x then [Some (trunc x)] else []
            | PFloat PosInf \<Rightarrow> [None]
            | _ \<Rightarrow> []))"

definition upstream_retry_after_seconds :: "error_row list \<Rightarrow> int \<Rightarrow> int option option" where
  "upstream_retry_after_seconds errors status =
     (if status \<noteq> 429 then Some None
      else (let delays = concat (map row_delay errors) in
            if None \<in> set delays then None
            else (case map the delays of
                    [] \<Rightarrow> Some None
                  | d # ds \<Rightarrow> Some (Some (foldl min d ds)))))"

section \<open>Capacity dimensions\<close>

definition CAPACITY_DIMENSION_MARKERS :: "(string \<times> string list) list" where
  "CAPACITY_DIMENSION_MARKERS =
     [(''tpm'', [''tokens per minute'', ''tpm'']),
      (''rpm'', [''requests per minute'', ''rpm'']),
      (''tpd'', [''tokens per day'', ''tpd'']),
      (''rpd'', [''requests per day'', ''rpd'', ''daily request'']),
      (''concurrent'', [''concurrent request'', ''concurrent session'', ''simultaneous request'']),
      (''free_quota'', [''free quota'', ''free tier'', ''free-tier'', ''trial quota'']),
      (''context_or_body'',
       [''context length'', ''maximum context'', ''request entity too large'', ''request too large'',
        ''body too large''])]"

definition capacity_dimension :: "int option \<Rightarrow> string \<Rightarrow> string option" where
  "capacity_dimension status_code body =
     (if status_code \<noteq> Some 413 \<and> status_code \<noteq> Some 429 then None
      else (let low = lower (re_sub URL_PATTERN '' '' body) in
            case List.find (\<lambda>(dimension, markers). mentions markers low) CAPACITY_DIMENSION_MARKERS of
              Some (dimension, _) \<Rightarrow> Some (''capacity.'' @ dimension)
            | None \<Rightarrow> Some ''capacity.unknown''))"

section \<open>The error payload\<close>

type_synonym reason_counts = "int odict"

definition counted :: "reason_counts \<Rightarrow> string \<Rightarrow> bool" where
  "counted counts reason \<longleftrightarrow> (case map_of counts reason of None \<Rightarrow> False | Some n \<Rightarrow> n \<noteq> 0)"

text \<open>The hint for each reason, in the order they are given.\<close>

definition FAILURE_ACTIONS :: "(string list \<times> string) list" where
  "FAILURE_ACTIONS =
     [([''auth_or_credit''],
       ''Check provider credentials/credits, then clear the provider cooldown after fixing it. Ficelle cooled that provider and sent the rest of this request's attempts to another one when the pool had another to offer, so a single failed attempt here is expected rather than a truncated failover.''),
      ([''rate_limited''],
       ''Wait for the provider cooldown or switch this virtual model to another healthy provider. Ficelle cooled that provider and sent the rest of this request's attempts to another one when the pool had another to offer, so a single failed attempt here is expected rather than a truncated failover.''),
      ([''rate_limited_upstream''],
       ''The shared upstream pool behind this model id is saturated, not your account: the model is cooled briefly and its provider keeps serving. Nothing to fix; add your own upstream key if you need dedicated limits.''),
      ([''billing_or_paid''],
       ''Inspect the anti false-free guard result; refresh the catalog before re-enabling the model.''),
      ([''no_free_quota''],
       ''Provider reported a zero free-tier allocation (limit: 0) for this model; it is quarantined and will stop being proposed. Use a free-tier model or upgrade the account.''),
      ([''model_not_found''],
       ''Not serveable: '' @ MODEL_NOT_SERVEABLE_NOTE @ ''. It is quarantined and will stop being benchmarked. Clear the quarantine to retry once the provider deploys it, or once an admin enables the tier.''),
      ([''server_error''],
       ''Retry after the short model cooldown or quarantine the unstable upstream.''),
      ([''timeout''],
       ''Ficelle timed out a slow upstream and tried the next candidate; reduce this virtual model's timeout or quarantine repeat offenders.''),
      ([''bad_upstream_request''],
       ''The upstream rejected the request body itself (HTTP 400/422) - inspect the payload the client sent, typically a malformed tool_call or an unsupported field. No model was cooled and no other candidate was tried: every one of them would reject the same body.''),
      ([''bad_upstream_contract''],
       ''One upstream rejected a request option or provider-private field that another candidate may handle. Ficelle kept the request unchanged and preferred a different provider for the next attempt when one was available. No model was cooled.''),
      ([''context_length_exceeded''],
       ''The request does not fit this candidate's context window. Ficelle raises the required context from the upstream's own stated size and retries on a larger-context candidate automatically; no model was cooled. If every attempt shows this reason, no candidate in the pool has a large enough context for this request - add one or shorten the request.''),
      ([''client_disconnected''],
       ''The client closed the connection while the answer was streaming; the upstream was healthy and was not cooled. Look at the client's timeout or cancel behaviour, not at the model.''),
      ([''service_restarting''],
       ''Ficelle was stopping (service restart or update) and did not start further fallback attempts for this request. No model was cooled: nothing upstream failed. Retry once the service is back up.''),
      ([''truncated_before_content''],
       ''The completion token budget ran out before the model emitted any content; reasoning models spend it on reasoning tokens first. Raise max_tokens on the request. No model was cooled: this is a request-side limit, not an upstream failure.''),
      ([''empty_assistant_message'', ''invalid_success_json''],
       ''Inspect route logs and verified capabilities; this upstream returned HTTP 200 without a usable assistant message.''),
      ([''runaway_output''],
       ''The model generated past the profile's completion character budget, so Ficelle stopped the answer and cooled the model. A buffered response can fail over to another candidate; an already-committed stream ends with a terminal error because fallback is no longer safe. If this is a legitimate answer shape for the profile, raise its entry in max_completion_chars_by_profile.'')]"

definition DEFAULT_FAILURE_ACTION :: string where
  "DEFAULT_FAILURE_ACTION =
     ''Inspect ~/.ficelle/logs/routes.jsonl with the request_id, then clear cooldowns only after the upstream issue is understood.''"

definition upstream_failure_actions :: "reason_counts \<Rightarrow> string list" where
  "upstream_failure_actions counts =
     (let actions = map snd (filter (\<lambda>(reasons, _). list_ex (counted counts) reasons) FAILURE_ACTIONS)
      in if actions = [] then [DEFAULT_FAILURE_ACTION] else actions)"

definition error_body :: "string option \<Rightarrow> string \<Rightarrow> string \<Rightarrow> string \<Rightarrow> pydict" where
  "error_body sanitized error_type fallback_message request_id =
     (let error = [(''message'', PStr (text_or fallback_message sanitized)), (''type'', PStr error_type)]
      in [(''error'', PDict (if request_id = [] then error
                             else dset ''request_id'' (PStr request_id) error))])"

definition model_not_found_body :: "string \<Rightarrow> pydict" where
  "model_not_found_body safe_id =
     [(''error'', PDict [(''message'', PStr (''model '' @ safe_id @ '' is not served by this Ficelle'')),
                         (''type'', PStr ''model_not_found'')])]"

definition counted_reason :: "error_row \<Rightarrow> string" where
  "counted_reason row =
     (if truthy (dget row ''reason'') then py_str (dget row ''reason'')
      else if truthy (dget row ''error'') then ''exception''
      else ''unknown'')"

definition count_reason :: "string \<Rightarrow> reason_counts \<Rightarrow> reason_counts" where
  "count_reason reason counts =
     dset reason ((case map_of counts reason of None \<Rightarrow> 0 | Some n \<Rightarrow> n) + 1) counts"

definition reason_counts_of :: "error_row list \<Rightarrow> reason_counts" where
  "reason_counts_of errors = fold (\<lambda>row. count_reason (counted_reason row)) errors []"

text \<open>What of an error row may leave the process; fields that are \<open>None\<close> are dropped.\<close>

definition safe_detail_row :: "error_row \<Rightarrow> pydict" where
  "safe_detail_row row =
     (let detail = sanitize_error_detail (por (dget row ''detail'') (dget row ''error'')) UPSTREAM_DETAIL_LIMIT
      in filter (\<lambda>(_, v). v \<noteq> PNone)
           ([(''model'', dget row ''model''), (''source'', dget row ''source''),
             (''upstream'', dget row ''upstream''), (''status'', dget row ''status''),
             (''reason'', PStr (counted_reason row))]
            @ (case detail of None \<Rightarrow> [] | Some s \<Rightarrow> if s = [] then [] else [(''detail'', PStr s)])
            @ (if dhas ''stream_started'' row
               then [(''stream_started'', PBool (truthy (dget row ''stream_started'')))] else [])))"

definition reason_summary :: "reason_counts \<Rightarrow> string" where
  "reason_summary counts =
     text_or ''unknown''
       (Some (join '', '' (map (\<lambda>(reason, n). reason @ ''='' @ show_int n) (sort_key fst counts))))"

definition last_detail :: "pydict list \<Rightarrow> pv" where
  "last_detail details = (if details = [] then PStr [] else dget (last details) ''detail'')"

definition quoting :: "string \<Rightarrow> pv \<Rightarrow> string" where
  "quoting message detail = message @ (if truthy detail then '': '' @ py_str detail else [])"

definition build_upstream_failure_error ::
  "string \<Rightarrow> string \<Rightarrow> int \<Rightarrow> 'a list \<Rightarrow> error_row list \<Rightarrow> string \<Rightarrow> pydict" where
  "build_upstream_failure_error requested_model request_id candidate_count attempts errors terminal_reason =
     (let counts = reason_counts_of errors;
          safe_details = map safe_detail_row errors;
          summary = reason_summary counts;
          safe_requested_model =
            text_or ''[redacted]'' (sanitize_error_detail (PStr requested_model) 250);
          attempted_errors = attempted_rows errors;
          attempted_details = map safe_detail_row attempted_errors;
          progress = show_int (int (length attempts)) @ ''/'' @ show_int candidate_count @ '' attempted; '' @ summary @ '')'';
          (message, error_type) =
            (if request_feature_incompatible attempted_errors then
               (quoting ''the requested model does not support a tool-schema feature in this request''
                  (last_detail attempted_details), ''invalid_request_error'')
             else if caller_rejected_request attempted_errors then
               (quoting ''upstream rejected this request as invalid'' (last_detail attempted_details),
                ''invalid_request_error'')
             else if request_exceeds_context attempted_errors then
               (quoting (''this request does not fit any available model'' @ [CHR 0x27] @ ''s context window'')
                  (last_detail attempted_details), ''invalid_request_error'')
             else (case Option.bind (map_of TERMINAL_ENDINGS terminal_reason) te_error_type of
                     Some ending_type \<Rightarrow>
                       (''Ficelle stopped taking new fallback attempts for '' @ safe_requested_model @ '' ('' @
                        ending_type @ ''; '' @ progress, ending_type)
                   | None \<Rightarrow>
                       (''all Ficelle candidates failed for '' @ safe_requested_model @ '' ('' @ progress,
                        ''upstream_failure'')))
      in [(''error'', PDict
            [(''message'', PStr message),
             (''type'', PStr error_type),
             (''request_id'', PStr request_id),
             (''requested_model'', PStr safe_requested_model),
             (''candidate_count'', PInt candidate_count),
             (''attempt_count'', PInt (int (length attempts))),
             (''reasons'', PDict (map (\<lambda>(k, n). (k, PInt n)) counts)),
             (''last_error'', if safe_details = [] then PNone else PDict (last safe_details)),
             (''details'', PList (map PDict safe_details)),
             (''actions'', PList (map PStr (upstream_failure_actions counts)))])])"

section \<open>Properties\<close>

text \<open>A reason blocks at one scope at most: a provider cooldown, a quota cooldown and a model
  cooldown exclude one another, a provider or quota cooldown comes without a quarantine, and
  only a payment demand is both quarantined and cooled. A provider cooldown names the source it
  was given, and a reason no model is answerable for asks for no block at all.\<close>

theorem policy_blocks_one_scope:
  assumes "pol = cooldown_policy_for_reason reason source"
  shows "\<not> (cp_provider_cooldown pol \<and> cp_quota_cooldown pol)
       \<and> (cp_provider_cooldown pol \<or> cp_quota_cooldown pol \<longrightarrow>
            \<not> cp_model_cooldown pol \<and> cp_quarantine pol = None \<and> cp_record_provider_error pol)
       \<and> (cp_quarantine pol \<noteq> None \<and> cp_model_cooldown pol \<longleftrightarrow> reason = ''billing_or_paid'')
       \<and> (cp_provider_cooldown pol \<longrightarrow> cp_provider_cooldown_source pol = strip source)
       \<and> (cp_provider_cooldown pol \<longleftrightarrow> reason \<in> set PROVIDER_SCOPED_COOLDOWN_REASONS)
       \<and> (reason \<in> set NO_MODEL_FAULT_FAILURE_REASONS \<longrightarrow>
            \<not> cp_provider_cooldown pol \<and> \<not> cp_quota_cooldown pol \<and> \<not> cp_model_cooldown pol \<and> cp_quarantine pol = None)"
  unfolding assms
  by (auto simp: cooldown_policy_for_reason_def Let_def base_policy_def NO_MODEL_FAULT_FAILURE_REASONS_def
      PROVIDER_SCOPED_COOLDOWN_REASONS_def)

lemma policy_blocks_one_scope_witness:
  "cp_provider_cooldown (cooldown_policy_for_reason ''rate_limited'' ''groq'') \<and>
   \<not> cp_model_cooldown (cooldown_policy_for_reason ''rate_limited'' ''groq'')"
proof -
  have "cp_provider_cooldown (cooldown_policy_for_reason ''rate_limited'' ''groq'')"
    by (simp add: cooldown_policy_for_reason_def Let_def base_policy_def NO_MODEL_FAULT_FAILURE_REASONS_def
        PROVIDER_SCOPED_COOLDOWN_REASONS_def)
  with policy_blocks_one_scope[OF refl, of "''rate_limited''" "''groq''"] show ?thesis by blast
qed

text \<open>The type a payload carries.\<close>

definition payload_error_type :: "pydict \<Rightarrow> pv" where
  "payload_error_type payload = dget (as_dict (dget payload ''error'')) ''type''"

lemma payload_error_type_of_build:
  "payload_error_type (build_upstream_failure_error m rid n attempts errors terminal) =
     PStr (if request_feature_incompatible (attempted_rows errors) \<or> caller_rejected_request (attempted_rows errors)
              \<or> request_exceeds_context (attempted_rows errors) then ''invalid_request_error''
           else (case Option.bind (map_of TERMINAL_ENDINGS terminal) te_error_type of
                   Some t \<Rightarrow> t | None \<Rightarrow> ''upstream_failure''))"
  by (simp add: payload_error_type_def build_upstream_failure_error_def Let_def split: option.split)

lemma upstream_failure_status_cases:
  "upstream_failure_status errors terminal \<in> {422, 400, 503, 429, 504, 502}"
  by (auto simp: upstream_failure_status_def Let_def TERMINAL_ENDINGS_def split: option.splits)

text \<open>The status and the payload are one verdict written twice, and they agree: the payload
  says the request is invalid exactly for a 400 or a 422, it says Ficelle is restarting exactly
  for a 503, and every other status carries the client's disconnection or an upstream failure.
  The log row differs from the status only for a client that hung up, which it shows as 499.\<close>

theorem status_and_payload_agree:
  assumes "status = upstream_failure_status errors terminal"
    and "payload = build_upstream_failure_error requested_model request_id n attempts errors terminal"
  shows "(payload_error_type payload = PStr ''invalid_request_error'' \<longleftrightarrow> status \<in> {400, 422})
       \<and> (payload_error_type payload = PStr ''service_restarting'' \<longleftrightarrow> status = 503)
       \<and> (payload_error_type payload \<in> {PStr ''client_disconnected'', PStr ''upstream_failure''}
            \<longleftrightarrow> status \<in> {429, 502, 504})
       \<and> route_log_failure_status errors terminal = (if terminal = ''client_disconnected'' then 499 else status)"
proof -
  let ?rejected = "request_feature_incompatible (attempted_rows errors) \<or> caller_rejected_request (attempted_rows errors)
      \<or> request_exceeds_context (attempted_rows errors)"
  have log: "route_log_failure_status errors terminal = (if terminal = ''client_disconnected'' then 499 else status)"
    by (auto simp: route_log_failure_status_def TERMINAL_ENDINGS_def assms(1))
  show ?thesis
  proof (cases ?rejected)
    case True
    then have "status \<in> {400, 422}" by (auto simp: assms(1) upstream_failure_status_def Let_def)
    moreover have "payload_error_type payload = PStr ''invalid_request_error''"
      using True by (simp add: assms(2) payload_error_type_of_build)
    ultimately show ?thesis using log by auto
  next
    case False
    then have p: "payload_error_type payload =
        PStr (case Option.bind (map_of TERMINAL_ENDINGS terminal) te_error_type of Some t \<Rightarrow> t | None \<Rightarrow> ''upstream_failure'')"
      by (simp add: assms(2) payload_error_type_of_build)
    show ?thesis
    proof (cases "terminal = ''service_restarting''")
      case True
      with False have "status = 503"
        by (simp add: assms(1) upstream_failure_status_def Let_def TERMINAL_ENDINGS_def)
      moreover have "payload_error_type payload = PStr ''service_restarting''"
        using True by (simp add: p TERMINAL_ENDINGS_def)
      ultimately show ?thesis using log by auto
    next
      case other: False
      with False have "status \<in> {429, 502, 504}"
        by (auto simp: assms(1) upstream_failure_status_def Let_def TERMINAL_ENDINGS_def)
      moreover have "payload_error_type payload \<in> {PStr ''client_disconnected'', PStr ''upstream_failure''}"
        using other by (auto simp: p TERMINAL_ENDINGS_def)
      ultimately show ?thesis using log by auto
    qed
  qed
qed

lemma status_and_payload_agree_witness:
  "upstream_failure_status [[(''reason'', PStr ''bad_upstream_request'')]] [] = 400
   \<and> payload_error_type (build_upstream_failure_error ''m'' ''r'' 1 [()] [[(''reason'', PStr ''bad_upstream_request'')]] [])
       = PStr ''invalid_request_error''"
proof -
  have "upstream_failure_status [[(''reason'', PStr ''bad_upstream_request'')]] [] = 400"
    by (simp add: upstream_failure_status_def attempted_rows_def was_attempted_def Let_def
        request_feature_incompatible_def caller_rejected_request_def every_attempt_failed_with_def)
  with status_and_payload_agree[where errors = "[[(''reason'', PStr ''bad_upstream_request'')]]" and terminal = "[]"
      and requested_model = "''m''" and request_id = "''r''" and n = 1 and attempts = "[()]", OF refl refl]
  show ?thesis by simp
qed

text \<open>Only what was sent is judged: rows of attempts that never left the process change neither
  the status nor the type of the payload.\<close>

theorem abandoned_rows_do_not_decide:
  fixes errors :: "error_row list" and terminal :: string
  shows "upstream_failure_status errors terminal = upstream_failure_status (filter was_attempted errors) terminal
       \<and> payload_error_type (build_upstream_failure_error m rid n attempts errors terminal)
         = payload_error_type (build_upstream_failure_error m rid n attempts (filter was_attempted errors) terminal)"
  by (simp add: upstream_failure_status_def payload_error_type_of_build attempted_rows_def)

lemma foldl_min_le: "foldl min (d::int) ds \<le> d \<and> (\<forall>x \<in> set ds. foldl min d ds \<le> x)"
proof (induction ds arbitrary: d)
  case (Cons a ds)
  from Cons.IH[of "min d a"] show ?case by (auto intro: order_trans)
qed simp

lemma foldl_min_mem: "foldl min (d::int) ds \<in> insert d (set ds)"
proof (induction ds arbitrary: d)
  case (Cons a ds)
  from Cons.IH[of "min d a"] show ?case by (auto simp: min_def split: if_splits)
qed simp

lemma set_map_the: "None \<notin> set xs \<Longrightarrow> set (map the xs) = {y. Some y \<in> set xs}"
  by (induction xs) auto

text \<open>A retry delay is only given with a 429, is one the attempted rows stated, and is the
  smallest of them.\<close>

theorem retry_delay_is_the_smallest_stated:
  assumes "upstream_retry_after_seconds errors status = Some (Some d)"
  shows "status = 429 \<and> (\<exists>row \<in> set errors. was_attempted row \<and> Some d \<in> set (row_delay row))
       \<and> (\<forall>row \<in> set errors. \<forall>x. Some x \<in> set (row_delay row) \<longrightarrow> d \<le> x)"
proof -
  let ?delays = "concat (map row_delay errors)"
  from assms have st: "status = 429" and none: "None \<notin> set ?delays"
    by (auto simp: upstream_retry_after_seconds_def Let_def split: if_splits)
  from assms st none have "(case map the ?delays of [] \<Rightarrow> Some None | d # ds \<Rightarrow> Some (Some (foldl min d ds))) = Some (Some d)"
    by (simp only: upstream_retry_after_seconds_def Let_def) simp
  then obtain x xs where xs: "map the ?delays = x # xs" "d = foldl min x xs"
    by (cases "map the ?delays") auto
  have all: "set (map the ?delays) = {y. Some y \<in> set ?delays}"
    using none by (rule set_map_the)
  have "d \<in> set (map the ?delays)" using foldl_min_mem[of x xs] unfolding xs(1) xs(2) by simp
  then have "Some d \<in> set ?delays" unfolding all by simp
  then obtain row where row: "row \<in> set errors" "Some d \<in> set (row_delay row)" by auto
  moreover from row(2) have "was_attempted row" by (auto simp: row_delay_def split: if_splits)
  moreover have "d \<le> y" if "Some y \<in> set ?delays" for y
  proof -
    from that have "y \<in> set (map the ?delays)" unfolding all by simp
    then show ?thesis using foldl_min_le[of x xs] unfolding xs(1) xs(2) by auto
  qed
  ultimately show ?thesis using st by auto
qed

lemma retry_delay_is_the_smallest_stated_witness:
  "upstream_retry_after_seconds
     [[(''retry_after_seconds'', PInt 30)], [(''retry_after_seconds'', PInt 7), (''attempted'', PBool False)],
      [(''retry_after_seconds'', PInt 12)]] 429 = Some (Some 12)
   \<and> (429::int) = 429"
proof -
  have "upstream_retry_after_seconds
     [[(''retry_after_seconds'', PInt 30)], [(''retry_after_seconds'', PInt 7), (''attempted'', PBool False)],
      [(''retry_after_seconds'', PInt 12)]] 429 = Some (Some 12)"
    by (simp add: upstream_retry_after_seconds_def row_delay_def was_attempted_def)
  with retry_delay_is_the_smallest_stated[OF this] show ?thesis by blast
qed

end
