(* ===== verification/CooldownBase.thy ===== *)
theory CooldownBase
  imports FailurePolicy PyJson
begin

text \<open>
  The runtime state as the cooldown code reads it (\<open>use_cases/cooldowns.py\<close>): the keys under
  which models, providers and quota pools are blocked, whether a model or a provider is
  blocked now, and the quarantine rows. The state is the dictionary the program persists;
  the ports of the use cases become one record holding what they are wired to in
  \<open>router.py\<close> that is not code of these components: the clock, the redaction bound and the
  free-access reading. The clock is one value per operation.
\<close>

section \<open>Ports\<close>

record ports =
  now_seconds :: real
  now_iso :: string
  normalized_free_access :: "pydict \<Rightarrow> pydict"

text \<open>\<open>safe_detail\<close>, \<open>safe_int\<close>, \<open>safe_float\<close> and \<open>canonical_virtual_model_id\<close> of \<open>router.py\<close>.\<close>

definition opt_str :: "string option \<Rightarrow> pv" where
  "opt_str s = (case s of None \<Rightarrow> PNone | Some t \<Rightarrow> PStr t)"

definition safe_detail :: "pv \<Rightarrow> string option" where
  "safe_detail v = sanitize_error_detail v 250"

definition safe_int :: "pv \<Rightarrow> int \<Rightarrow> int" where
  "safe_int v d = (case py_int v of None \<Rightarrow> d | Some i \<Rightarrow> i)"

definition safe_float :: "pv \<Rightarrow> real \<Rightarrow> real" where
  "safe_float v d = (case py_float v of Some (Fin r) \<Rightarrow> r | _ \<Rightarrow> d)"

definition canonical_virtual_model_id :: "pv \<Rightarrow> string" where
  "canonical_virtual_model_id v = strip (py_str (por v (PStr [])))"

definition FREE_ACCESS_SCOPES :: "string list" where
  "FREE_ACCESS_SCOPES = [''model'', ''provider'', ''account'', ''shared_account'']"

section \<open>Keys\<close>

text \<open>\<open>str(d.get(k) or "")\<close>, a field read as text.\<close>

definition text_of :: "pydict \<Rightarrow> string \<Rightarrow> string" where
  "text_of d k = py_str (por (dget d k) (PStr []))"

abbreviation source_of :: "pydict \<Rightarrow> string" where
  "source_of model \<equiv> strip (text_of model ''source'')"

definition cooldown_key :: "pydict \<Rightarrow> string" where
  "cooldown_key model = py_str (dget model ''source'') @ ''::'' @ py_str (dget model ''upstream_id'')"

definition known_scope :: "string \<Rightarrow> string" where
  "known_scope scope = (if scope \<in> set FREE_ACCESS_SCOPES then scope else ''provider'')"

definition quota_cooldown_scope :: "ports \<Rightarrow> pydict \<Rightarrow> string" where
  "quota_cooldown_scope p model =
     known_scope (py_str (por (dget (normalized_free_access p model) ''scope'') (PStr ''provider'')))"

definition quota_cooldown_key_for_scope :: "pydict \<Rightarrow> string \<Rightarrow> string" where
  "quota_cooldown_key_for_scope model scope =
     (let source = source_of model;
          upstream_id = strip (text_of model ''upstream_id'');
          account_id = text_or source (safe_detail (dget model ''provider_account_id''))
      in if scope = ''model'' then ''model:'' @ source @ ''::'' @ upstream_id
         else if scope = ''account'' then ''account:'' @ source @ ''::'' @ account_id
         else if scope = ''shared_account'' then ''shared_account:'' @ account_id
         else ''provider:'' @ source)"

definition quota_cooldown_key :: "ports \<Rightarrow> pydict \<Rightarrow> string" where
  "quota_cooldown_key p model = quota_cooldown_key_for_scope model (quota_cooldown_scope p model)"

definition quota_cooldown_scope_from_key :: "string \<Rightarrow> string" where
  "quota_cooldown_scope_from_key key = known_scope (hd (split_char (CHR '':'') key))"

definition quota_cooldown_matches_model :: "string \<Rightarrow> pydict \<Rightarrow> bool" where
  "quota_cooldown_matches_model key model \<longleftrightarrow>
     key = quota_cooldown_key_for_scope model (quota_cooldown_scope_from_key key)"

section \<open>Is it blocked?\<close>

text \<open>\<open>x or {}\<close> used as a dictionary: a true value of another type raises.\<close>

definition or_empty :: "pv \<Rightarrow> pydict option" where
  "or_empty v = (if truthy v then dict_or_raise v else Some [])"

text \<open>\<open>True, reason\<close> is \<open>Some reason\<close>, \<open>False, None\<close> is \<open>None\<close>; the outer option is a raise.\<close>

definition provider_on_cooldown :: "ports \<Rightarrow> string \<Rightarrow> pydict \<Rightarrow> string option option" where
  "provider_on_cooldown p source state = do {
     cd \<leftarrow> or_empty (dget (section_of state ''provider_cooldowns'') source);
     Some (if now_seconds p < safe_float (dget cd ''until'') 0
           then Some (py_str (por (dget cd ''reason'') (PStr ''provider_cooldown'')))
           else None)
   }"

definition cooldown_block_scope :: "string \<Rightarrow> string" where
  "cooldown_block_scope reason =
     (if starts_with ''provider:'' reason then ''provider''
      else if starts_with ''quota:'' reason then ''quota''
      else ''model'')"

definition quota_row_blocks :: "pydict \<Rightarrow> string \<times> pv \<Rightarrow> bool" where
  "quota_row_blocks model kv =
     (case kv of (key, raw) \<Rightarrow>
        is_dict raw \<and> quota_cooldown_matches_model key model \<and>
        0 < safe_float (dget (as_dict raw) ''until'') 0)"

definition model_on_cooldown :: "ports \<Rightarrow> pydict \<Rightarrow> pydict \<Rightarrow> string option option" where
  "model_on_cooldown p model state = do {
     provider \<leftarrow> provider_on_cooldown p (text_of model ''source'') state;
     case provider of
       Some reason \<Rightarrow> Some (Some (''provider:'' @ (if reason = [] then ''cooldown'' else reason)))
     | None \<Rightarrow>
         if list_ex (quota_row_blocks model) (section_of state ''quota_cooldowns'')
         then Some (Some ''quota:quota_exhausted'')
         else do {
           cooldowns \<leftarrow> or_empty (dget state ''cooldowns'');
           cd \<leftarrow> or_empty (dget cooldowns (cooldown_key model));
           Some (if now_seconds p < safe_float (dget cd ''until'') 0
                 then Some (py_str (por (dget cd ''reason'') (PStr ''cooldown'')))
                 else None)
         }
   }"

definition model_quarantine :: "pydict \<Rightarrow> pydict \<Rightarrow> pydict option option" where
  "model_quarantine model state = do {
     quarantine \<leftarrow> or_empty (dget state ''quarantine'');
     Some (case dget quarantine (cooldown_key model) of
             PDict row \<Rightarrow> if row = [] then None else Some row
           | _ \<Rightarrow> None)
   }"

definition model_is_quarantined :: "pydict \<Rightarrow> pydict \<Rightarrow> bool option" where
  "model_is_quarantined model state = map_option (\<lambda>row. row \<noteq> None) (model_quarantine model state)"

section \<open>Quarantine\<close>

definition quarantine_row :: "ports \<Rightarrow> pydict \<Rightarrow> string \<Rightarrow> pv \<Rightarrow> string \<Rightarrow> bool \<Rightarrow> pydict" where
  "quarantine_row p model reason note source manual =
     [(''reason'', PStr reason),
      (''note'', opt_str (safe_detail note)),
      (''set_at'', PStr (now_iso p)),
      (''set_at_ts'', PReal (now_seconds p)),
      (''source'', PStr source),
      (''manual'', PBool manual),
      (''model_id'', dget model ''id''),
      (''upstream_id'', dget model ''upstream_id'')]"

definition set_quarantine_in_state ::
  "ports \<Rightarrow> pydict \<Rightarrow> string \<Rightarrow> pv \<Rightarrow> string \<Rightarrow> string \<Rightarrow> pydict \<Rightarrow> pydict option" where
  "set_quarantine_in_state p model reason detail source fallback_note =
     with_sub ''quarantine'' (\<lambda>q. Some (dset (cooldown_key model)
       (PDict (quarantine_row p model reason (por detail (PStr fallback_note)) source False)) q))"

definition set_billing_quarantine_in_state ::
  "ports \<Rightarrow> pydict \<Rightarrow> pv \<Rightarrow> string \<Rightarrow> string \<Rightarrow> pydict \<Rightarrow> pydict option" where
  "set_billing_quarantine_in_state p model detail source fallback_note =
     set_quarantine_in_state p model ''billing_or_paid'' detail source fallback_note"

definition or_text :: "string \<Rightarrow> string \<Rightarrow> string" where
  "or_text a b = (if a = [] then b else a)"

definition set_no_free_quota_quarantine_in_state ::
  "ports \<Rightarrow> pydict \<Rightarrow> pv \<Rightarrow> string \<Rightarrow> string \<Rightarrow> pydict \<Rightarrow> pydict option" where
  "set_no_free_quota_quarantine_in_state p model detail source fallback_note =
     set_quarantine_in_state p model ''no_free_quota'' detail source
       (or_text fallback_note ''provider reports a zero free-tier allocation for this model'')"

definition set_model_not_found_quarantine_in_state ::
  "ports \<Rightarrow> pydict \<Rightarrow> pv \<Rightarrow> string \<Rightarrow> string \<Rightarrow> pydict \<Rightarrow> pydict option" where
  "set_model_not_found_quarantine_in_state p model detail source fallback_note =
     set_quarantine_in_state p model ''model_not_found'' detail source
       (or_text fallback_note MODEL_NOT_SERVEABLE_NOTE)"

text \<open>The operator's quarantine: a section that is no dictionary is replaced.\<close>

definition set_quarantine ::
  "ports \<Rightarrow> pydict \<Rightarrow> string \<Rightarrow> pv \<Rightarrow> string \<Rightarrow> bool \<Rightarrow> pydict \<Rightarrow> pydict" where
  "set_quarantine p model reason note source manual state =
     dset ''quarantine''
       (PDict (dset (cooldown_key model) (PDict (quarantine_row p model reason note source manual))
          (section_of state ''quarantine''))) state"

section \<open>Reading blocks back\<close>

lemma or_empty_PDict [simp]: "or_empty (PDict d) = Some d"
  by (simp add: or_empty_def)

lemma or_empty_PNone [simp]: "or_empty PNone = Some []"
  by (simp add: or_empty_def)

lemma or_empty_section:
  "section_ok state k \<Longrightarrow> or_empty (dget state k) = Some (section_of state k)"
  by (cases "map_of state k") (auto simp: section_ok_def section_of_def dget_def is_dict_iff)

lemma safe_float_PReal [simp]: "safe_float (PReal r) d = r"
  by (simp add: safe_float_def)

lemma safe_float_PNone [simp]: "safe_float PNone d = d"
  by (simp add: safe_float_def)

lemma known_scope_idem [simp]: "known_scope (known_scope s) = known_scope s"
  by (simp add: known_scope_def FREE_ACCESS_SCOPES_def)

lemma split_char_nonempty [simp]: "split_char c s \<noteq> []"
  by (cases s) (auto split: list.splits)

lemma hd_split_char: "hd (split_char c s) = takeWhile (\<lambda>x. x \<noteq> c) s"
proof (induction s)
  case (Cons x s)
  then show ?case using split_char_nonempty[of c s] by (cases "split_char c s") auto
qed simp

lemma quota_key_scope:
  assumes "scope \<in> set FREE_ACCESS_SCOPES"
  shows "quota_cooldown_scope_from_key (quota_cooldown_key_for_scope model scope) = scope"
  using assms
  by (auto simp: quota_cooldown_scope_from_key_def quota_cooldown_key_for_scope_def hd_split_char
      FREE_ACCESS_SCOPES_def Let_def known_scope_def)

lemma known_scope_in: "known_scope s \<in> set FREE_ACCESS_SCOPES"
  by (simp add: known_scope_def FREE_ACCESS_SCOPES_def)

lemma quota_key_matches_own_model:
  "quota_cooldown_matches_model (quota_cooldown_key p model) model"
  by (simp add: quota_cooldown_matches_model_def quota_cooldown_key_def quota_key_scope
      quota_cooldown_scope_def known_scope_in)

lemma model_on_cooldown_provider_first:
  "provider_on_cooldown p (text_of model ''source'') state = Some (Some reason) \<Longrightarrow>
   model_on_cooldown p model state =
     Some (Some (''provider:'' @ (if reason = [] then ''cooldown'' else reason)))"
  by (simp add: model_on_cooldown_def)

end
