(* ===== verification/FailureLedger.thy ===== *)
theory FailureLedger
  imports CooldownBase "HOL-Library.Product_Lexorder"
begin

text \<open>
  The memory of a model's failures (\<open>use_cases/cooldowns.py\<close>): the half-life of the scored
  counters, the failure ledger with its rows per attempt reason, the migration of older
  records, the penalty and the episode count derived from it, the escalation of a cooldown,
  and the statistics record of one model or provider. A ledger row is a record here; the
  persisted form is a dictionary, and \<open>failure_ledger\<close> reads it back.
\<close>

section \<open>Numbers read from persisted state\<close>

definition SCORE_DECAY_HALF_LIFE_SECONDS :: real where
  "SCORE_DECAY_HALF_LIFE_SECONDS = 7 * 86400"

definition score_decay_factor :: "real \<Rightarrow> real" where
  "score_decay_factor elapsed =
     (if elapsed \<le> 0 then 1 else (1 / 2) powr (elapsed / SCORE_DECAY_HALF_LIFE_SECONDS))"

definition safe_number :: "pv \<Rightarrow> real" where
  "safe_number v = (case py_float v of Some (Fin r) \<Rightarrow> if 0 < r then r else 0 | _ \<Rightarrow> 0)"

definition safe_timestamp :: "pv \<Rightarrow> real option" where
  "safe_timestamp v = (case py_float v of Some (Fin r) \<Rightarrow> if 0 \<le> r then Some r else None | _ \<Rightarrow> None)"

text \<open>
  The factor the counters are aged by: a timestamp that cannot be read counts as no time
  passed, one infinitely long ago leaves nothing.
\<close>

definition aging_factor :: "real \<Rightarrow> pv \<Rightarrow> real" where
  "aging_factor now previous =
     (case py_float previous of
        Some (Fin t) \<Rightarrow> score_decay_factor (now - t)
      | Some NegInf \<Rightarrow> 0
      | _ \<Rightarrow> 1)"

definition decay_scored_counters :: "real \<Rightarrow> pydict \<Rightarrow> pydict" where
  "decay_scored_counters now record =
     (let successes = safe_number (dget record ''scored_successes'');
          failures = safe_number (dget record ''scored_failures'');
          factor = (if dget record ''scored_at'' \<noteq> PNone \<and> (successes \<noteq> 0 \<or> failures \<noteq> 0)
                    then aging_factor now (dget record ''scored_at'') else 1)
      in dset ''scored_at'' (PReal now)
           (dset ''scored_failures'' (PReal (py_round 6 (failures * factor)))
             (dset ''scored_successes'' (PReal (py_round 6 (successes * factor))) record)))"

section \<open>Ledger rows\<close>

definition COOLDOWN_BACKOFF_WINDOW_SECONDS :: real where
  "COOLDOWN_BACKOFF_WINDOW_SECONDS = 6 * 3600"

definition COOLDOWN_BACKOFF_MAX_SECONDS :: int where "COOLDOWN_BACKOFF_MAX_SECONDS = 3600"

definition FAILURE_LEDGER_KEY :: string where "FAILURE_LEDGER_KEY = ''failure_ledger''"
definition FAILURE_ORIGIN_REQUEST :: string where "FAILURE_ORIGIN_REQUEST = ''request''"
definition FAILURE_ORIGIN_PROBE :: string where "FAILURE_ORIGIN_PROBE = ''probe''"
definition LEDGER_STATUS_OPEN :: string where "LEDGER_STATUS_OPEN = ''open''"
definition LEDGER_STATUS_RETEST_DUE :: string where "LEDGER_STATUS_RETEST_DUE = ''retest_due''"
definition LEDGER_STATUS_REBUTTED :: string where "LEDGER_STATUS_REBUTTED = ''rebutted''"

definition LEDGER_STATUSES :: "string list" where
  "LEDGER_STATUSES = [LEDGER_STATUS_OPEN, LEDGER_STATUS_RETEST_DUE, LEDGER_STATUS_REBUTTED]"

definition FAILURE_LEDGER_MAX_ROWS :: nat where "FAILURE_LEDGER_MAX_ROWS = 12"
definition FAILURE_LEDGER_MIN_WEIGHT :: real where "FAILURE_LEDGER_MIN_WEIGHT = 5 / 100"
definition FAILURE_PENALTY_POINTS :: real where "FAILURE_PENALTY_POINTS = 12"

lemmas ledger_words = FAILURE_ORIGIN_REQUEST_def FAILURE_ORIGIN_PROBE_def LEDGER_STATUS_OPEN_def
  LEDGER_STATUS_RETEST_DUE_def LEDGER_STATUS_REBUTTED_def LEDGER_STATUSES_def

record ledger_row =
  lr_origin :: string
  lr_status :: string
  lr_weight :: real
  lr_last_at :: real
  lr_episode :: int

type_synonym ledger = "ledger_row odict"

definition mk_ledger_row :: "string \<Rightarrow> string \<Rightarrow> real \<Rightarrow> real \<Rightarrow> int \<Rightarrow> ledger_row" where
  "mk_ledger_row origin status weight last_at episode =
     \<lparr>lr_origin = (if origin = FAILURE_ORIGIN_PROBE then FAILURE_ORIGIN_PROBE else FAILURE_ORIGIN_REQUEST),
      lr_status = (if status \<in> set LEDGER_STATUSES then status else LEDGER_STATUS_OPEN),
      lr_weight = py_round 6 (if 0 < weight then weight else 0),
      lr_last_at = last_at,
      lr_episode = max 1 episode\<rparr>"

definition row_to_pv :: "ledger_row \<Rightarrow> pv" where
  "row_to_pv r =
     PDict [(''origin'', PStr (lr_origin r)), (''status'', PStr (lr_status r)),
            (''weight'', PReal (lr_weight r)), (''last_at'', PReal (lr_last_at r)),
            (''episode'', PInt (lr_episode r))]"

text \<open>\<open>_safe_number\<close> of a row's own fields: a time or a weight that is not positive counts as zero.\<close>

definition decayed_weight :: "ledger_row \<Rightarrow> real \<Rightarrow> real" where
  "decayed_weight r now = max 0 (lr_weight r) * score_decay_factor (now - max 0 (lr_last_at r))"

section \<open>Reading the ledger\<close>

definition window_row :: "string \<times> pv \<Rightarrow> (string \<times> ledger_row) option" where
  "window_row kv =
     (case kv of (name, raw) \<Rightarrow>
        if \<not> is_dict raw then None
        else (let count = safe_number (dget (as_dict raw) ''count'') in
              case safe_timestamp (dget (as_dict raw) ''last_at'') of
                None \<Rightarrow> None
              | Some last_at \<Rightarrow>
                  if count \<le> 0 then None
                  else Some (name, mk_ledger_row FAILURE_ORIGIN_REQUEST LEDGER_STATUS_REBUTTED count
                                     last_at (trunc count))))"

definition legacy_ledger_rows :: "pydict \<Rightarrow> real \<Rightarrow> ledger" where
  "legacy_ledger_rows record now =
     (let rows = List.map_filter window_row (as_dict (dget record ''recent_failure_reasons''));
          streak = trunc (safe_number (dget record ''consecutive_failures''))
      in if streak \<le> 0 then rows
         else
           (let reason = or_text (strip (text_of record ''last_failure_reason'')) ''unknown'';
                last_at = (case parse_iso_timestamp (dget record ''last_failure_at'') of
                             None \<Rightarrow> now | Some t \<Rightarrow> t);
                previous = map_of rows reason;
                weight = max (real_of_int streak) (case previous of None \<Rightarrow> 0 | Some r \<Rightarrow> lr_weight r)
            in dset reason (mk_ledger_row FAILURE_ORIGIN_REQUEST LEDGER_STATUS_OPEN weight last_at
                 (case previous of None \<Rightarrow> 1 | Some r \<Rightarrow> lr_episode r)) rows))"

definition stored_row :: "string \<times> pv \<Rightarrow> (string \<times> ledger_row) option" where
  "stored_row kv =
     (case kv of (reason, raw) \<Rightarrow>
        if \<not> is_dict raw then None
        else (let row = as_dict raw; weight = safe_number (dget row ''weight'') in
              case safe_timestamp (dget row ''last_at'') of
                None \<Rightarrow> None
              | Some last_at \<Rightarrow>
                  if weight \<le> 0 then None
                  else Some (reason, mk_ledger_row (text_of row ''origin'') (text_of row ''status'')
                                       weight last_at (trunc (safe_number (dget row ''episode''))))))"

text \<open>A record that is no dictionary has an empty ledger.\<close>

definition failure_ledger :: "pv \<Rightarrow> real \<Rightarrow> ledger" where
  "failure_ledger record now =
     (case record of
        PDict r \<Rightarrow>
          (case dget r FAILURE_LEDGER_KEY of
             PDict stored \<Rightarrow> List.map_filter stored_row stored
           | _ \<Rightarrow> legacy_ledger_rows r now)
      | _ \<Rightarrow> [])"

section \<open>Writing the ledger\<close>

definition ledger_keeps :: "real \<Rightarrow> ledger_row \<Rightarrow> bool" where
  "ledger_keeps now r \<longleftrightarrow>
     \<not> decayed_weight r now < FAILURE_LEDGER_MIN_WEIGHT \<and>
     \<not> (lr_status r = LEDGER_STATUS_REBUTTED \<and> COOLDOWN_BACKOFF_WINDOW_SECONDS < now - lr_last_at r)"

definition ledger_rank :: "real \<Rightarrow> string \<times> ledger_row \<Rightarrow> bool \<times> real" where
  "ledger_rank now kv = (lr_status (snd kv) \<noteq> LEDGER_STATUS_REBUTTED, decayed_weight (snd kv) now)"

definition ledger_kept :: "ledger \<Rightarrow> real \<Rightarrow> ledger" where
  "ledger_kept rows now =
     (let kept = filter (\<lambda>(_, r). ledger_keeps now r) rows in
      if length kept > FAILURE_LEDGER_MAX_ROWS
      then (let ranked = sort_key (ledger_rank now) kept
            in fold (\<lambda>(reason, _). dpop reason) (take (length kept - FAILURE_LEDGER_MAX_ROWS) ranked) kept)
      else kept)"

definition write_ledger :: "ledger \<Rightarrow> real \<Rightarrow> pydict \<Rightarrow> pydict" where
  "write_ledger rows now record =
     (let kept = ledger_kept rows now;
          record = (if kept = [] then dpop FAILURE_LEDGER_KEY record
                    else dset FAILURE_LEDGER_KEY (PDict (map (\<lambda>(k, r). (k, row_to_pv r)) kept)) record)
      in dpop ''recent_failure_reasons'' (dpop ''consecutive_failures'' record))"

definition ledger_after_failure :: "ledger \<Rightarrow> string \<Rightarrow> string \<Rightarrow> real \<Rightarrow> ledger" where
  "ledger_after_failure rows reason origin now =
     (case map_of rows reason of
        None \<Rightarrow> dset reason (mk_ledger_row origin LEDGER_STATUS_OPEN 1 now 1) rows
      | Some previous \<Rightarrow>
          (let rebutted = (lr_status previous = LEDGER_STATUS_REBUTTED);
               merged_origin = (if rebutted \<or> origin = FAILURE_ORIGIN_REQUEST then origin
                                else lr_origin previous);
               same_episode = (now - lr_last_at previous \<le> COOLDOWN_BACKOFF_WINDOW_SECONDS)
           in dset reason
                (mk_ledger_row merged_origin LEDGER_STATUS_OPEN
                   ((if rebutted then 0 else decayed_weight previous now) + 1) now
                   (if same_episode then lr_episode previous + 1 else 1)) rows))"

definition record_ledger_failure :: "string \<Rightarrow> string \<Rightarrow> real \<Rightarrow> pydict \<Rightarrow> pydict" where
  "record_ledger_failure reason origin now record =
     write_ledger (ledger_after_failure (failure_ledger (PDict record) now) reason origin now) now record"

definition settled_row :: "string \<Rightarrow> ledger_row \<Rightarrow> ledger_row" where
  "settled_row origin r =
     (if lr_status r = LEDGER_STATUS_REBUTTED then r
      else if origin = FAILURE_ORIGIN_REQUEST \<or> lr_origin r = FAILURE_ORIGIN_PROBE
      then r\<lparr>lr_status := LEDGER_STATUS_REBUTTED\<rparr>
      else r\<lparr>lr_status := LEDGER_STATUS_RETEST_DUE\<rparr>)"

definition settle_ledger_on_success :: "string \<Rightarrow> real \<Rightarrow> pydict \<Rightarrow> pydict" where
  "settle_ledger_on_success origin now record =
     write_ledger (map (\<lambda>(k, r). (k, settled_row origin r)) (failure_ledger (PDict record) now)) now record"

section \<open>What the ledger says\<close>

definition row_penalty_weight :: "ledger_row \<Rightarrow> real \<Rightarrow> real" where
  "row_penalty_weight r now =
     (if lr_status r = LEDGER_STATUS_REBUTTED then 0
      else if lr_status r = LEDGER_STATUS_RETEST_DUE then min (decayed_weight r now) 1
      else decayed_weight r now)"

definition failure_penalty_weight :: "pv \<Rightarrow> real \<Rightarrow> real" where
  "failure_penalty_weight record now =
     sum_list (map (\<lambda>(_, r). row_penalty_weight r now) (failure_ledger record now))"

definition failure_ledger_summary :: "pv \<Rightarrow> real \<Rightarrow> pydict" where
  "failure_ledger_summary record now =
     (let live = filter (\<lambda>(_, r). lr_status r \<noteq> LEDGER_STATUS_REBUTTED) (failure_ledger record now)
      in [(''failure_penalty_weight'',
            PReal (py_round 2 (sum_list (map (\<lambda>(_, r). row_penalty_weight r now) live)))),
          (''open_failure_reasons'',
            PDict (map (\<lambda>(k, r). (k, PReal (py_round 2 (decayed_weight r now)))) live)),
          (''failure_retest_due'',
            PBool (list_ex (\<lambda>(_, r). lr_status r = LEDGER_STATUS_RETEST_DUE) live))])"

definition recent_failure_reason_count :: "pv \<Rightarrow> string \<Rightarrow> real \<Rightarrow> int" where
  "recent_failure_reason_count record reason now =
     (case map_of (failure_ledger record now) reason of
        None \<Rightarrow> 0
      | Some r \<Rightarrow> if COOLDOWN_BACKOFF_WINDOW_SECONDS < now - lr_last_at r then 0 else lr_episode r)"

definition escalated_cooldown_seconds :: "int \<Rightarrow> int \<Rightarrow> int" where
  "escalated_cooldown_seconds base_seconds repeats =
     (let base = max 0 base_seconds in
      if repeats \<le> 1 \<or> COOLDOWN_BACKOFF_MAX_SECONDS \<le> base then base
      else min (base * 2 ^ nat (min (repeats - 1) 2)) COOLDOWN_BACKOFF_MAX_SECONDS)"

section \<open>The statistics record\<close>

text \<open>\<open>_record_failure\<close>; \<open>attempt_reason\<close> is empty when the caller observed none.\<close>

definition bump :: "string \<Rightarrow> pydict \<Rightarrow> pydict" where
  "bump k record = dset k (PInt (safe_int (dget record k) 0 + 1)) record"

definition score_failure :: "pydict \<Rightarrow> pydict" where
  "score_failure record =
     dset ''scored_failures'' (PReal (py_round 6 (safe_number (dget record ''scored_failures'') + 1))) record"

definition note_failure :: "ports \<Rightarrow> string \<Rightarrow> pydict \<Rightarrow> pydict" where
  "note_failure p reason record =
     with_sub_if ''failure_reasons'' (bump reason)
       (dset ''last_failure_reason'' (PStr reason) (dset ''last_failure_at'' (PStr (now_iso p)) record))"

definition record_failure :: "ports \<Rightarrow> string \<Rightarrow> string \<Rightarrow> string \<Rightarrow> pydict \<Rightarrow> pydict" where
  "record_failure p reason attempt_reason origin record =
     (let counted = decay_scored_counters (now_seconds p) (bump ''failures'' (bump ''requests'' record))
      in note_failure p reason
           (if reason \<in> set UNSCORED_FAILURE_REASONS then counted
            else record_ledger_failure (or_text attempt_reason reason) origin (now_seconds p)
                   (score_failure counted)))"

definition latency_ewma :: "pv \<Rightarrow> real option \<Rightarrow> pv" where
  "latency_ewma previous latency =
     (case latency of
        None \<Rightarrow> PNone
      | Some l \<Rightarrow>
          (case py_float previous of
             None \<Rightarrow> PReal l
           | Some (Fin x) \<Rightarrow> PReal (x * (7 / 10) + l * (3 / 10))
           | Some f \<Rightarrow> PFloat f))"

definition score_success :: "pydict \<Rightarrow> pydict" where
  "score_success record =
     dset ''scored_successes'' (PReal (py_round 6 (safe_number (dget record ''scored_successes'') + 1))) record"

definition fold_latency :: "string \<Rightarrow> real option \<Rightarrow> pydict \<Rightarrow> pydict" where
  "fold_latency k latency record = dset k (latency_ewma (dget record k) latency) record"

definition success_timing :: "real option \<Rightarrow> string \<Rightarrow> pv \<Rightarrow> pydict \<Rightarrow> pydict" where
  "success_timing latency origin first_delta_seconds record =
     (if origin = FAILURE_ORIGIN_REQUEST
      then
        (case safe_timestamp
           (if first_delta_seconds = PNone
            then (case latency of None \<Rightarrow> PNone | Some l \<Rightarrow> PReal l) else first_delta_seconds) of
           None \<Rightarrow> fold_latency ''latency_ewma'' latency record
         | Some d \<Rightarrow> fold_latency ''first_delta_ewma'' (Some d) (fold_latency ''latency_ewma'' latency record))
      else fold_latency ''probe_latency_ewma'' latency record)"

definition record_success ::
  "ports \<Rightarrow> real option \<Rightarrow> string \<Rightarrow> pv \<Rightarrow> pydict \<Rightarrow> pydict" where
  "record_success p latency origin first_delta_seconds record =
     dset ''last_success_at'' (PStr (now_iso p))
       (success_timing latency origin first_delta_seconds
          (score_success
             (decay_scored_counters (now_seconds p)
                (settle_ledger_on_success origin (now_seconds p) (bump ''successes'' (bump ''requests'' record))))))"

definition completion_tokens_per_second :: "pv \<Rightarrow> pv \<Rightarrow> pv \<Rightarrow> real option" where
  "completion_tokens_per_second completion_tokens latency_seconds first_byte_seconds =
     (let tokens = safe_number completion_tokens; latency = safe_number latency_seconds in
      if tokens \<le> 0 \<or> latency \<le> 0 then None
      else (let first_byte = safe_number first_byte_seconds;
                generation = (if 0 < first_byte \<and> first_byte < latency then latency - first_byte else latency)
            in if generation \<le> 0 then None else Some (py_round 4 (tokens / generation))))"

section \<open>Decay\<close>

lemma half_life_pos [simp]: "0 < SCORE_DECAY_HALF_LIFE_SECONDS"
  by (simp add: SCORE_DECAY_HALF_LIFE_SECONDS_def)

lemma score_decay_factor_pos [simp]: "0 < score_decay_factor t"
  by (simp add: score_decay_factor_def)

lemma score_decay_factor_nonneg [simp]: "0 \<le> score_decay_factor t"
  by (simp add: less_imp_le)

lemma score_decay_factor_le_1 [simp]: "score_decay_factor t \<le> 1"
  by (auto simp: score_decay_factor_def intro!: powr_le1 divide_nonneg_pos)

lemma score_decay_factor_add:
  "0 \<le> s \<Longrightarrow> 0 \<le> t \<Longrightarrow> score_decay_factor (s + t) = score_decay_factor s * score_decay_factor t"
  by (auto simp: score_decay_factor_def add_divide_distrib powr_add)

lemma score_decay_factor_antimono: "s \<le> t \<Longrightarrow> score_decay_factor t \<le> score_decay_factor s"
proof (cases "0 < s")
  case True
  assume "s \<le> t"
  with True have "score_decay_factor t = score_decay_factor s * score_decay_factor (t - s)"
    using score_decay_factor_add[of s "t - s"] by simp
  also have "\<dots> \<le> score_decay_factor s"
    by (simp add: mult_left_le)
  finally show ?thesis .
next
  case False
  then have "score_decay_factor s = 1" by (simp add: score_decay_factor_def)
  then show ?thesis by simp
qed

lemma score_decay_half_life: "score_decay_factor SCORE_DECAY_HALF_LIFE_SECONDS = 1 / 2"
  by (simp add: score_decay_factor_def SCORE_DECAY_HALF_LIFE_SECONDS_def)

lemma decayed_weight_nonneg [simp]: "0 \<le> decayed_weight r now"
  by (simp add: decayed_weight_def)

lemma decayed_weight_antimono: "s \<le> t \<Longrightarrow> decayed_weight r t \<le> decayed_weight r s"
  by (simp add: decayed_weight_def mult_left_mono score_decay_factor_antimono)

section \<open>Rows are well formed\<close>

lemma py_round_idem [simp]: "py_round n (py_round n x) = py_round n x"
proof -
  have "py_round n x * 10 ^ n = of_int (round_half_even (x * 10 ^ n))"
    by (simp add: py_round_def)
  then show ?thesis
    by (simp only: py_round_def[of n "py_round n x"] round_half_even_of_int) (simp add: py_round_def)
qed

definition row_ok :: "ledger_row \<Rightarrow> bool" where
  "row_ok r \<longleftrightarrow> lr_origin r \<in> {FAILURE_ORIGIN_REQUEST, FAILURE_ORIGIN_PROBE}
     \<and> lr_status r \<in> set LEDGER_STATUSES \<and> 0 \<le> lr_weight r \<and> py_round 6 (lr_weight r) = lr_weight r
     \<and> 0 \<le> lr_last_at r \<and> 1 \<le> lr_episode r"

definition ledger_ok :: "ledger \<Rightarrow> bool" where
  "ledger_ok rows \<longleftrightarrow> wf_dict rows \<and> (\<forall>r \<in> snd ` set rows. row_ok r)"

lemma mk_ledger_row_ok: "0 \<le> last_at \<Longrightarrow> row_ok (mk_ledger_row origin status weight last_at episode)"
  by (auto simp: row_ok_def mk_ledger_row_def ledger_words)

lemma safe_number_nonneg [simp]: "0 \<le> safe_number v"
  by (auto simp: safe_number_def split: option.splits pyfloat.splits)

lemma safe_timestamp_nonneg: "safe_timestamp v = Some t \<Longrightarrow> 0 \<le> t"
  by (auto simp: safe_timestamp_def split: option.splits pyfloat.splits if_splits)

lemma safe_number_PReal [simp]: "safe_number (PReal x) = max 0 x"
  by (simp add: safe_number_def)

lemma safe_timestamp_PReal [simp]: "safe_timestamp (PReal x) = (if 0 \<le> x then Some x else None)"
  by (simp add: safe_timestamp_def)

lemma window_row_SomeD: "window_row (k, v) = Some (k', r) \<Longrightarrow> k' = k \<and> row_ok r"
  by (auto simp: window_row_def Let_def mk_ledger_row_ok dest: safe_timestamp_nonneg
      split: if_splits option.splits)

lemma stored_row_SomeD: "stored_row (k, v) = Some (k', r) \<Longrightarrow> k' = k \<and> row_ok r"
  by (auto simp: stored_row_def Let_def mk_ledger_row_ok dest: safe_timestamp_nonneg
      split: if_splits option.splits)

lemma set_map_filter_iff: "x \<in> set (List.map_filter f xs) \<longleftrightarrow> (\<exists>y \<in> set xs. f y = Some x)"
  by (force simp: map_filter_def)

lemma wf_dict_map_filter:
  assumes "\<And>k v k' r. f (k, v) = Some (k', r) \<Longrightarrow> k' = k" "wf_dict d"
  shows "wf_dict (List.map_filter f d)"
  using assms(2)
proof (induction d)
  case (Cons kv d)
  obtain k v where kv: "kv = (k, v)" by (cases kv)
  show ?case
  proof (cases "f kv")
    case None
    with Cons show ?thesis by (simp add: List.map_filter_def)
  next
    case (Some kr)
    obtain k' r where kr: "kr = (k', r)" by (cases kr)
    with Some kv assms(1) have "k' = k" by blast
    moreover have "k \<notin> fst ` set (List.map_filter f d)"
      using Cons.prems assms(1) by (force simp: kv set_map_filter_iff)
    moreover have "List.map_filter f (kv # d) = kr # List.map_filter f d"
      using Some by (simp add: List.map_filter_def)
    ultimately show ?thesis using Cons kr by simp
  qed
qed (simp add: List.map_filter_def)

lemma ledger_ok_map_filter:
  assumes "\<And>k v k' r. f (k, v) = Some (k', r) \<Longrightarrow> k' = k \<and> row_ok r" "wf_dict d"
  shows "ledger_ok (List.map_filter f d)"
  using assms wf_dict_map_filter[of f d] by (force simp: ledger_ok_def set_map_filter_iff)

lemma ledger_ok_dset: "ledger_ok rows \<Longrightarrow> row_ok r \<Longrightarrow> ledger_ok (dset k r rows)"
  by (auto simp: ledger_ok_def set_dset split: if_splits)

text \<open>
  The dictionaries the ledger is stored in have each key once, and a date the migration
  reads is not before the epoch.
\<close>

definition record_ok :: "pydict \<Rightarrow> bool" where
  "record_ok record \<longleftrightarrow> wf_dict (as_dict (dget record FAILURE_LEDGER_KEY))
     \<and> wf_dict (as_dict (dget record ''recent_failure_reasons''))
     \<and> (case parse_iso_timestamp (dget record ''last_failure_at'') of None \<Rightarrow> True | Some t \<Rightarrow> 0 \<le> t)"

lemma legacy_ledger_ok:
  assumes "record_ok record" "0 \<le> now"
  shows "ledger_ok (legacy_ledger_rows record now)"
proof -
  have "ledger_ok (List.map_filter window_row (as_dict (dget record ''recent_failure_reasons'')))"
    using assms(1) window_row_SomeD by (intro ledger_ok_map_filter) (auto simp: record_ok_def)
  with assms show ?thesis
    by (auto simp: record_ok_def legacy_ledger_rows_def Let_def intro!: ledger_ok_dset mk_ledger_row_ok split: option.splits)
qed
lemma failure_ledger_ok:
  assumes "record_ok record" "0 \<le> now"
  shows "ledger_ok (failure_ledger (PDict record) now)"
proof (cases "dget record FAILURE_LEDGER_KEY")
  case (PDict stored)
  with assms(1) have "wf_dict stored" by (simp add: record_ok_def)
  then have "ledger_ok (List.map_filter stored_row stored)"
    by (intro ledger_ok_map_filter) (auto dest: stored_row_SomeD)
  with PDict show ?thesis by (simp add: failure_ledger_def)
qed (use legacy_ledger_ok[OF assms] in \<open>simp_all add: failure_ledger_def\<close>)

lemma ledger_after_failure_ok:
  assumes "ledger_ok rows" "0 \<le> now"
  shows "ledger_ok (ledger_after_failure rows reason origin now)"
  using assms by (auto simp: ledger_after_failure_def Let_def intro!: ledger_ok_dset mk_ledger_row_ok
      split: option.splits)

lemma settled_row_ok: "row_ok r \<Longrightarrow> row_ok (settled_row origin r)"
  by (auto simp: row_ok_def settled_row_def LEDGER_STATUSES_def)

lemma settled_ledger_ok:
  "ledger_ok rows \<Longrightarrow> ledger_ok (map (\<lambda>(k, r). (k, settled_row origin r)) rows)"
  by (auto simp: ledger_ok_def settled_row_ok comp_def case_prod_beta)

section \<open>The cap\<close>

lemma filter_keys_notin: "set ks \<inter> fst ` set d = {} \<Longrightarrow> fold dpop ks d = d"
  by (induction ks) (auto simp: delete_id)

lemma fold_dpop_eq: "fold dpop ks d = filter (\<lambda>(k, _). k \<notin> set ks) d"
proof (induction ks arbitrary: d)
  case (Cons k ks)
  have "dpop k d = filter (\<lambda>(k', _). k' \<noteq> k) d"
    by (auto simp: AList.delete_eq case_prod_beta intro: filter_cong)
  with Cons show ?case by (simp add: case_prod_beta conj_commute)
qed simp

lemma length_filter_notin:
  assumes "wf_dict d" "distinct ks" "set ks \<subseteq> fst ` set d"
  shows "length (filter (\<lambda>(k, _). k \<notin> set ks) d) = length d - length ks"
proof -
  have "length (filter (\<lambda>(k, _). k \<notin> set ks) d) = card (fst ` set (filter (\<lambda>(k, _). k \<notin> set ks) d))"
    using distinct_card[of "map fst (filter (\<lambda>(k, _). k \<notin> set ks) d)"] wf_dict_filter[OF assms(1)]
    by simp
  also have "fst ` set (filter (\<lambda>(k, _). k \<notin> set ks) d) = fst ` set d - set ks"
    by force
  also have "card \<dots> = card (fst ` set d) - card (set ks)"
    using assms(3) by (simp add: card_Diff_subset)
  also have "card (fst ` set d) = length d"
    using assms(1) distinct_card[of "map fst d"] by simp
  finally show ?thesis using assms(2) by (simp add: distinct_card)
qed

lemma fold_dpop_fst: "fold (\<lambda>(k, _). dpop k) xs d = fold dpop (map fst xs) d"
  by (induction xs arbitrary: d) auto

lemma ledger_kept_cases:
  obtains ks where "ledger_kept rows now
      = filter (\<lambda>(k, _). k \<notin> set ks) (filter (\<lambda>(_, r). ledger_keeps now r) rows)"
    "length (filter (\<lambda>(_, r). ledger_keeps now r) rows) \<le> FAILURE_LEDGER_MAX_ROWS \<Longrightarrow> ks = []"
    "wf_dict rows \<Longrightarrow> distinct ks"
    "set ks \<subseteq> fst ` set (filter (\<lambda>(_, r). ledger_keeps now r) rows)"
    "length ks = length (filter (\<lambda>(_, r). ledger_keeps now r) rows) - FAILURE_LEDGER_MAX_ROWS"
proof -
  define kept where "kept = filter (\<lambda>(_, r). ledger_keeps now r) rows"
  define ks where "ks = map fst (take (length kept - FAILURE_LEDGER_MAX_ROWS) (sort_key (ledger_rank now) kept))"
  have "ledger_kept rows now = filter (\<lambda>(k, _). k \<notin> set ks) kept"
    by (simp add: ledger_kept_def Let_def fold_dpop_fst fold_dpop_eq flip: kept_def ks_def) (simp add: ks_def)
  moreover have "wf_dict rows \<Longrightarrow> distinct ks"
  proof -
    assume "wf_dict rows"
    then have "wf_dict kept" by (auto simp: kept_def)
    then have "distinct (map fst (sort_key (ledger_rank now) kept))"
      by (simp add: distinct_map)
    then have "distinct (take n (map fst (sort_key (ledger_rank now) kept)))" for n
      by (rule distinct_take)
    then show "distinct ks" by (simp add: ks_def take_map)
  qed
  moreover have "set ks \<subseteq> fst ` set kept"
    using set_take_subset[of _ "sort_key (ledger_rank now) kept"] by (fastforce simp: ks_def)
  moreover have "length ks = length kept - FAILURE_LEDGER_MAX_ROWS" by (simp add: ks_def)
  ultimately show thesis by (intro that[of ks]) (simp_all add: kept_def)
qed

lemma ledger_kept_length:
  assumes "wf_dict rows"
  shows "length (ledger_kept rows now) \<le> FAILURE_LEDGER_MAX_ROWS"
proof -
  let ?kept = "filter (\<lambda>(_, r). ledger_keeps now r) rows"
  obtain ks where ks: "ledger_kept rows now = filter (\<lambda>(k, _). k \<notin> set ks) ?kept" "distinct ks"
    "set ks \<subseteq> fst ` set ?kept" "length ks = length ?kept - FAILURE_LEDGER_MAX_ROWS"
    using ledger_kept_cases assms by metis
  have "wf_dict ?kept" using assms by auto
  from length_filter_notin[OF this ks(2,3)] ks(1,4) show ?thesis by simp
qed

lemma ledger_kept_subset: "set (ledger_kept rows now) \<subseteq> set rows"
  by (rule ledger_kept_cases[of rows now]) auto

lemma ledger_kept_keeps: "(k, r) \<in> set (ledger_kept rows now) \<Longrightarrow> ledger_keeps now r"
  by (rule ledger_kept_cases[of rows now]) auto

lemma ledger_kept_wf: "wf_dict rows \<Longrightarrow> wf_dict (ledger_kept rows now)"
  by (rule ledger_kept_cases[of rows now]) (simp add: wf_dict_filter)

lemma ledger_kept_ok: "ledger_ok rows \<Longrightarrow> ledger_ok (ledger_kept rows now)"
  using ledger_kept_subset[of rows now] ledger_kept_wf[of rows now] by (auto simp: ledger_ok_def)

section \<open>Writing and reading back\<close>

lemma stored_row_of_row:
  assumes "row_ok r" "0 < lr_weight r"
  shows "stored_row (k, row_to_pv r) = Some (k, r)"
  using assms
  by (cases r) (auto simp: stored_row_def row_to_pv_def Let_def row_ok_def mk_ledger_row_def text_of_def por_def
      safe_number_def ledger_words)

lemma kept_weight_pos: "ledger_keeps now r \<Longrightarrow> 0 < lr_weight r"
  by (rule ccontr) (simp add: ledger_keeps_def decayed_weight_def FAILURE_LEDGER_MIN_WEIGHT_def)

lemma map_filter_all_Some: "(\<And>x. x \<in> set xs \<Longrightarrow> f (g x) = Some x) \<Longrightarrow> List.map_filter f (map g xs) = xs"
  by (induction xs) (auto simp: List.map_filter_simps)

lemma failure_ledger_write:
  assumes "ledger_ok rows"
  shows "failure_ledger (PDict (write_ledger rows now record)) now' = ledger_kept rows now"
proof (cases "ledger_kept rows now = []")
  case True
  then show ?thesis
    by (simp add: failure_ledger_def write_ledger_def legacy_ledger_rows_def FAILURE_LEDGER_KEY_def
        List.map_filter_simps safe_number_def trunc_def)
next
  case False
  have "stored_row (k, row_to_pv r) = Some (k, r)" if "(k, r) \<in> set (ledger_kept rows now)" for k r
    using that assms ledger_kept_keeps kept_weight_pos ledger_kept_subset[of rows now]
    by (intro stored_row_of_row) (force simp: ledger_ok_def)+
  then have "List.map_filter stored_row (map (\<lambda>(k, r). (k, row_to_pv r)) (ledger_kept rows now))
      = ledger_kept rows now"
    by (intro map_filter_all_Some) auto
  with False show ?thesis
    by (simp add: failure_ledger_def write_ledger_def FAILURE_LEDGER_KEY_def)
qed

lemma write_ledger_other:
  "k \<notin> {FAILURE_LEDGER_KEY, ''recent_failure_reasons'', ''consecutive_failures''} \<Longrightarrow>
   dget (write_ledger rows now record) k = dget record k"
  by (auto simp: write_ledger_def Let_def)

section \<open>The penalty after a success or a failure\<close>

text \<open>A record whose pre-ledger fields are gone: only the ledger key is read.\<close>

definition migrated :: "pydict \<Rightarrow> bool" where
  "migrated record \<longleftrightarrow> dget record ''recent_failure_reasons'' = PNone \<and> dget record ''consecutive_failures'' = PNone"

lemma migrated_write_ledger [simp]: "migrated (write_ledger rows now record)"
  by (auto simp: migrated_def write_ledger_def Let_def)

lemma failure_ledger_migrated:
  "migrated record \<Longrightarrow> failure_ledger (PDict record) now =
     List.map_filter stored_row (as_dict (dget record FAILURE_LEDGER_KEY))"
  by (cases "dget record FAILURE_LEDGER_KEY")
     (auto simp: failure_ledger_def migrated_def legacy_ledger_rows_def List.map_filter_simps
       safe_number_def trunc_def)

lemma failure_ledger_same_key:
  assumes "migrated r" "migrated r'" "dget r' FAILURE_LEDGER_KEY = dget r FAILURE_LEDGER_KEY"
  shows "failure_ledger (PDict r') now = failure_ledger (PDict r) now'"
  using assms by (simp add: failure_ledger_migrated)

lemma dget_bump: "dget (bump k record) k' = (if k' = k then PInt (safe_int (dget record k) 0 + 1) else dget record k')"
  by (simp add: bump_def)

lemma dget_decay_other:
  "k \<notin> {''scored_at'', ''scored_failures'', ''scored_successes''} \<Longrightarrow>
   dget (decay_scored_counters now record) k = dget record k"
  by (auto simp: decay_scored_counters_def Let_def)

lemma dget_with_sub_if_other: "k' \<noteq> k \<Longrightarrow> dget (with_sub_if k f st) k' = dget st k'"
  by (simp add: with_sub_if_eq)

lemma dget_score_success_other: "k \<noteq> ''scored_successes'' \<Longrightarrow> dget (score_success record) k = dget record k"
  by (simp add: score_success_def)

lemma dget_score_failure_other: "k \<noteq> ''scored_failures'' \<Longrightarrow> dget (score_failure record) k = dget record k"
  by (simp add: score_failure_def)

lemma dget_success_timing_other:
  "k \<notin> {''latency_ewma'', ''first_delta_ewma'', ''probe_latency_ewma''} \<Longrightarrow>
   dget (success_timing latency origin fd record) k = dget record k"
  by (auto simp: success_timing_def fold_latency_def split: option.splits)

lemma dget_note_failure_other:
  "k \<notin> {''failure_reasons'', ''last_failure_reason'', ''last_failure_at''} \<Longrightarrow>
   dget (note_failure p reason record) k = dget record k"
  by (auto simp: note_failure_def dget_with_sub_if_other)

lemmas dget_record_other = dget_score_success_other dget_score_failure_other
  dget_success_timing_other dget_note_failure_other dget_decay_other dget_bump

lemma row_penalty_nonneg [simp]: "0 \<le> row_penalty_weight r now"
  by (simp add: row_penalty_weight_def)

lemma failure_penalty_nonneg [simp]: "0 \<le> failure_penalty_weight record now"
  unfolding failure_penalty_weight_def by (intro sum_list_map_nonneg) auto

lemma row_penalty_rebutted [simp]: "lr_status r = LEDGER_STATUS_REBUTTED \<Longrightarrow> row_penalty_weight r now = 0"
  by (simp add: row_penalty_weight_def)

lemma settled_row_request [simp]: "lr_status (settled_row FAILURE_ORIGIN_REQUEST r) = LEDGER_STATUS_REBUTTED"
  by (simp add: settled_row_def)

lemma decayed_weight_settled [simp]: "decayed_weight (settled_row origin r) now = decayed_weight r now"
  by (simp add: settled_row_def decayed_weight_def)

lemma settled_row_penalty_le: "row_penalty_weight (settled_row origin r) now \<le> row_penalty_weight r now"
  by (auto simp: row_penalty_weight_def settled_row_def decayed_weight_def)

lemma settled_row_penalty_le_1: "row_penalty_weight (settled_row origin r) now \<le> 1"
  by (auto simp: row_penalty_weight_def settled_row_def ledger_words)

lemma sum_kept_le:
  fixes f :: "ledger_row \<Rightarrow> real"
  assumes "\<And>r. 0 \<le> f r"
  shows "sum_list (map (\<lambda>(_, r). f r) (ledger_kept rows now)) \<le> sum_list (map (\<lambda>(_, r). f r) rows)"
proof (rule ledger_kept_cases[of rows now])
  fix ks
  assume "ledger_kept rows now
      = filter (\<lambda>(k, _). k \<notin> set ks) (filter (\<lambda>(_, r). ledger_keeps now r) rows)"
  then have "ledger_kept rows now = filter (\<lambda>(k, r). k \<notin> set ks \<and> ledger_keeps now r) rows"
    by (auto simp: filter_filter intro: filter_cong)
  then show ?thesis
    using sum_list_filter_le[of rows "\<lambda>(_, r). f r"] assms by (simp add: case_prod_beta)
qed

lemma settle_penalty_le:
  assumes "record_ok record" "0 \<le> now"
  shows "failure_penalty_weight (PDict (settle_ledger_on_success origin now record)) now
       \<le> failure_penalty_weight (PDict record) now"
proof -
  let ?rows = "failure_ledger (PDict record) now"
  let ?settled = "map (\<lambda>(k, r). (k, settled_row origin r)) ?rows"
  have "ledger_ok ?settled" by (intro settled_ledger_ok failure_ledger_ok assms)
  then have "failure_ledger (PDict (settle_ledger_on_success origin now record)) now = ledger_kept ?settled now"
    by (simp add: settle_ledger_on_success_def failure_ledger_write)
  then have "failure_penalty_weight (PDict (settle_ledger_on_success origin now record)) now
      \<le> sum_list (map (\<lambda>(_, r). row_penalty_weight r now) ?settled)"
    using sum_kept_le[of "\<lambda>r. row_penalty_weight r now" ?settled now]
    by (simp only: failure_penalty_weight_def row_penalty_nonneg simp_thms)
  also have "\<dots> \<le> sum_list (map (\<lambda>(_, r). row_penalty_weight r now) ?rows)"
    by (auto simp: comp_def case_prod_beta intro!: sum_list_map_mono_on settled_row_penalty_le)
  finally show ?thesis by (simp add: failure_penalty_weight_def)
qed

lemma settle_penalty_cap:
  assumes "record_ok record" "0 \<le> now"
  shows "failure_penalty_weight (PDict (settle_ledger_on_success origin now record)) now'
       \<le> real FAILURE_LEDGER_MAX_ROWS"
proof -
  let ?settled = "map (\<lambda>(k, r). (k, settled_row origin r)) (failure_ledger (PDict record) now)"
  have ok: "ledger_ok ?settled" by (intro settled_ledger_ok failure_ledger_ok assms)
  then have "failure_penalty_weight (PDict (settle_ledger_on_success origin now record)) now'
      = sum_list (map (\<lambda>(_, r). row_penalty_weight r now') (ledger_kept ?settled now))"
    by (simp add: settle_ledger_on_success_def failure_ledger_write failure_penalty_weight_def)
  also have "\<dots> \<le> sum_list (map (\<lambda>_. 1) (ledger_kept ?settled now))"
    using ledger_kept_subset[of ?settled now] settled_row_penalty_le_1
    by (intro sum_list_map_mono_on) fastforce
  also have "\<dots> \<le> real FAILURE_LEDGER_MAX_ROWS"
    using ok ledger_kept_length[of ?settled now] by (simp add: ledger_ok_def sum_list_triv)
  finally show ?thesis .
qed

lemma settle_request_penalty:
  assumes "record_ok record" "0 \<le> now"
  shows "failure_penalty_weight (PDict (settle_ledger_on_success FAILURE_ORIGIN_REQUEST now record)) now' = 0"
proof -
  let ?settled = "map (\<lambda>(k, r). (k, settled_row FAILURE_ORIGIN_REQUEST r)) (failure_ledger (PDict record) now)"
  have "ledger_ok ?settled" by (intro settled_ledger_ok failure_ledger_ok assms)
  then have eq: "failure_penalty_weight (PDict (settle_ledger_on_success FAILURE_ORIGIN_REQUEST now record)) now'
      = sum_list (map (\<lambda>(_, r). row_penalty_weight r now') (ledger_kept ?settled now))"
    by (simp add: settle_ledger_on_success_def failure_ledger_write failure_penalty_weight_def)
  have "row_penalty_weight (snd kr) now' = 0" if "kr \<in> set (ledger_kept ?settled now)" for kr
    using that ledger_kept_subset[of ?settled now] by auto
  then have "map (\<lambda>(_, r). row_penalty_weight r now') (ledger_kept ?settled now)
      = map (\<lambda>_. 0) (ledger_kept ?settled now)"
    by (auto simp: case_prod_beta)
  with eq show ?thesis by (simp add: sum_list_triv)
qed

text \<open>The fields of a record the ledger is read from.\<close>

definition LEDGER_FIELDS :: "string list" where
  "LEDGER_FIELDS = [FAILURE_LEDGER_KEY, ''recent_failure_reasons'', ''consecutive_failures'',
     ''last_failure_reason'', ''last_failure_at'']"

lemma failure_ledger_cong:
  assumes "\<forall>k \<in> set LEDGER_FIELDS. dget r' k = dget r k"
  shows "failure_ledger (PDict r') now = failure_ledger (PDict r) now" and "record_ok r' = record_ok r"
proof -
  from assms have "dget r' FAILURE_LEDGER_KEY = dget r FAILURE_LEDGER_KEY"
    "dget r' ''recent_failure_reasons'' = dget r ''recent_failure_reasons''"
    "dget r' ''consecutive_failures'' = dget r ''consecutive_failures''"
    "dget r' ''last_failure_reason'' = dget r ''last_failure_reason''"
    "dget r' ''last_failure_at'' = dget r ''last_failure_at''"
    by (simp_all add: LEDGER_FIELDS_def)
  note eqs = this
  show "failure_ledger (PDict r') now = failure_ledger (PDict r) now"
    unfolding failure_ledger_def legacy_ledger_rows_def text_of_def pv.case eqs ..
  show "record_ok r' = record_ok r"
    unfolding record_ok_def eqs ..
qed

lemma counters_keep_ledger_fields:
  "\<forall>k \<in> set LEDGER_FIELDS. dget (bump ''requests'' record) k = dget record k"
  "\<forall>k \<in> set LEDGER_FIELDS. dget (bump ''failures'' record) k = dget record k"
  "\<forall>k \<in> set LEDGER_FIELDS. dget (bump ''successes'' record) k = dget record k"
  "\<forall>k \<in> set LEDGER_FIELDS. dget (score_failure record) k = dget record k"
  "\<forall>k \<in> set LEDGER_FIELDS. dget (decay_scored_counters now record) k = dget record k"
  by (simp_all add: LEDGER_FIELDS_def FAILURE_LEDGER_KEY_def dget_record_other)

lemmas failure_ledger_counters = counters_keep_ledger_fields[THEN failure_ledger_cong(1)]
lemmas record_ok_counters = counters_keep_ledger_fields[THEN failure_ledger_cong(2)]

text \<open>What a success does to the ledger is what settling it does.\<close>

lemma record_success_ledger:
  "failure_ledger (PDict (record_success p latency origin fd record)) now' =
   failure_ledger (PDict (settle_ledger_on_success origin (now_seconds p) (bump ''successes'' (bump ''requests'' record)))) now'"
  (is "failure_ledger (PDict ?r) now' = failure_ledger (PDict ?s) now'")
proof (rule failure_ledger_same_key)
  show "migrated ?s" by (simp add: settle_ledger_on_success_def)
  have other: "dget ?r k = dget ?s k"
    if "k \<in> {FAILURE_LEDGER_KEY, ''recent_failure_reasons'', ''consecutive_failures''}" for k
    using that by (auto simp: record_success_def dget_record_other FAILURE_LEDGER_KEY_def)
  then show "dget ?r FAILURE_LEDGER_KEY = dget ?s FAILURE_LEDGER_KEY" by simp
  from other \<open>migrated ?s\<close> show "migrated ?r" by (auto simp: migrated_def)
qed

lemma record_success_request_penalty:
  assumes "record_ok record" "0 \<le> now_seconds p"
  shows "failure_penalty_weight (PDict (record_success p latency FAILURE_ORIGIN_REQUEST fd record)) now' = 0"
proof -
  have "record_ok (bump ''successes'' (bump ''requests'' record))"
    using assms(1) by (simp add: record_ok_counters)
  then show ?thesis
    using settle_request_penalty[OF _ assms(2)] record_success_ledger
    by (simp add: failure_penalty_weight_def)
qed

lemma record_success_penalty:
  assumes "record_ok record" "0 \<le> now_seconds p"
  shows "failure_penalty_weight (PDict (record_success p latency origin fd record)) (now_seconds p)
      \<le> failure_penalty_weight (PDict record) (now_seconds p)"
    and "failure_penalty_weight (PDict (record_success p latency origin fd record)) now'
      \<le> real FAILURE_LEDGER_MAX_ROWS"
proof -
  let ?r = "bump ''successes'' (bump ''requests'' record)"
  have ok: "record_ok ?r" using assms(1) by (simp add: record_ok_counters)
  have pen: "failure_penalty_weight (PDict (record_success p latency origin fd record)) t
      = failure_penalty_weight (PDict (settle_ledger_on_success origin (now_seconds p) ?r)) t" for t
    by (simp add: failure_penalty_weight_def record_success_ledger)
  show "failure_penalty_weight (PDict (record_success p latency origin fd record)) now'
      \<le> real FAILURE_LEDGER_MAX_ROWS"
    unfolding pen by (rule settle_penalty_cap[OF ok assms(2)])
  have "failure_penalty_weight (PDict ?r) (now_seconds p) = failure_penalty_weight (PDict record) (now_seconds p)"
    by (simp add: failure_penalty_weight_def failure_ledger_counters)
  with settle_penalty_le[OF ok assms(2), of origin]
  show "failure_penalty_weight (PDict (record_success p latency origin fd record)) (now_seconds p)
      \<le> failure_penalty_weight (PDict record) (now_seconds p)"
    unfolding pen by simp
qed

text \<open>A failure the model answers for enters the ledger under its attempt reason.\<close>

lemma record_failure_ledger:
  assumes "reason \<notin> set UNSCORED_FAILURE_REASONS" "record_ok record" "0 \<le> now_seconds p"
  shows "failure_ledger (PDict (record_failure p reason attempt_reason origin record)) now'
      = ledger_kept (ledger_after_failure (failure_ledger (PDict record) (now_seconds p))
          (or_text attempt_reason reason) origin (now_seconds p)) (now_seconds p)"
proof -
  let ?now = "now_seconds p"
  let ?e = "score_failure (decay_scored_counters ?now (bump ''failures'' (bump ''requests'' record)))"
  let ?w = "record_ledger_failure (or_text attempt_reason reason) origin ?now ?e"
  let ?r = "record_failure p reason attempt_reason origin record"
  have same: "failure_ledger (PDict ?e) ?now = failure_ledger (PDict record) ?now"
    by (simp only: failure_ledger_counters)
  have r: "?r = note_failure p reason ?w"
    using assms(1) by (simp add: record_failure_def)
  have other: "dget ?r k = dget ?w k"
    if "k \<in> {FAILURE_LEDGER_KEY, ''recent_failure_reasons'', ''consecutive_failures''}" for k
    using that by (auto simp: r dget_record_other FAILURE_LEDGER_KEY_def)
  have m: "migrated ?w" by (simp add: record_ledger_failure_def)
  with other have "migrated ?r" by (auto simp: migrated_def)
  with m other have "failure_ledger (PDict ?r) now' = failure_ledger (PDict ?w) now'"
    by (intro failure_ledger_same_key) auto
  also have "\<dots> = ledger_kept (ledger_after_failure (failure_ledger (PDict record) ?now)
          (or_text attempt_reason reason) origin ?now) ?now"
    using assms(2,3) unfolding record_ledger_failure_def same
    by (intro failure_ledger_write ledger_after_failure_ok failure_ledger_ok)
  finally show ?thesis .
qed

lemma record_failure_unscored_ledger:
  assumes "reason \<in> set UNSCORED_FAILURE_REASONS" "migrated record"
  shows "failure_ledger (PDict (record_failure p reason attempt_reason origin record)) now'
      = failure_ledger (PDict record) now"
proof (rule failure_ledger_same_key[OF assms(2)])
  have other: "dget (record_failure p reason attempt_reason origin record) k = dget record k"
    if "k \<in> {FAILURE_LEDGER_KEY, ''recent_failure_reasons'', ''consecutive_failures''}" for k
    using that assms(1) by (auto simp: record_failure_def dget_record_other FAILURE_LEDGER_KEY_def)
  then show "dget (record_failure p reason attempt_reason origin record) FAILURE_LEDGER_KEY
      = dget record FAILURE_LEDGER_KEY" by simp
  from other assms(2) show "migrated (record_failure p reason attempt_reason origin record)"
    by (auto simp: migrated_def)
qed

text \<open>The row a failure writes weighs at least one, so it is kept unless the cap bites.\<close>

lemma ledger_after_failure_row:
  "\<exists>r. map_of (ledger_after_failure rows reason origin now) reason = Some r \<and>
     lr_status r = LEDGER_STATUS_OPEN \<and> lr_last_at r = now \<and> 1 \<le> lr_weight r"
proof -
  have "1 \<le> py_round 6 x" if "1 \<le> x" for x
    using py_round_mono[OF that, of 6] py_round_of_int[of 6 1] by simp
  then show ?thesis
    by (auto simp: ledger_after_failure_def mk_ledger_row_def LEDGER_STATUSES_def Let_def
        add_nonneg_pos split: option.splits)
qed

lemma length_dset_le: "length (dset k v d) \<le> Suc (length d)"
  by (induction d) auto

text \<open>Below the cap nothing is dropped but what is no longer worth keeping.\<close>

lemma ledger_after_failure_small:
  assumes "length rows < FAILURE_LEDGER_MAX_ROWS"
  shows "ledger_kept (ledger_after_failure rows reason origin now) now
      = filter (\<lambda>(_, r). ledger_keeps now r) (ledger_after_failure rows reason origin now)"
proof -
  have "length (ledger_after_failure rows reason origin now) \<le> Suc (length rows)"
    by (auto simp: ledger_after_failure_def Let_def length_dset_le split: option.splits)
  with assms have "length (filter (\<lambda>(_, r). ledger_keeps now r) (ledger_after_failure rows reason origin now))
      \<le> FAILURE_LEDGER_MAX_ROWS"
    by (meson Suc_leI le_trans length_filter_le)
  then show ?thesis by (simp add: ledger_kept_def Let_def)
qed

lemma member_le_sum_list_real:
  fixes f :: "'a \<Rightarrow> real"
  assumes "x \<in> set xs" "\<And>y. y \<in> set xs \<Longrightarrow> 0 \<le> f y"
  shows "f x \<le> sum_list (map f xs)"
  using assms by (induction xs) (auto intro: add_increasing add_increasing2 sum_list_map_nonneg)

section \<open>Properties\<close>

text \<open>A clock and a record to evaluate the properties on.\<close>

definition example_ports :: ports where
  "example_ports = \<lparr>now_seconds = 1000000, now_iso = ''2026-01-01T00:00:00+00:00'', normalized_free_access = (\<lambda>m. m)\<rparr>"

definition example_record :: pydict where
  "example_record =
     [(''failure_ledger'', PDict [(''timeout'', PDict
         [(''origin'', PStr ''request''), (''status'', PStr ''open''), (''weight'', PReal 3),
          (''last_at'', PReal 1000000), (''episode'', PInt 3)])])]"

lemma example_record_ok: "record_ok example_record" "0 \<le> now_seconds example_ports"
  by (simp_all add: record_ok_def example_record_def example_ports_def FAILURE_LEDGER_KEY_def
      parse_iso_timestamp_def)

lemma example_record_ledger:
  "failure_ledger (PDict example_record) now =
     [(''timeout'', \<lparr>lr_origin = ''request'', lr_status = ''open'', lr_weight = 3, lr_last_at = 1000000, lr_episode = 3\<rparr>)]"
  using py_round_of_int[of 6 3] trunc_of_int[of 3]
  by (simp add: failure_ledger_def example_record_def FAILURE_LEDGER_KEY_def List.map_filter_simps
      stored_row_def safe_number_def mk_ledger_row_def text_of_def por_def ledger_words)

text \<open>A request success answers for every failure: whatever the ledger held, the penalty
  the score reads is zero at every later reading.\<close>

theorem request_success_clears_penalty:
  assumes "record_ok record" "0 \<le> now_seconds p"
  shows "failure_penalty_weight (PDict (record_success p latency FAILURE_ORIGIN_REQUEST fd record)) now' = 0"
  using assms by (rule record_success_request_penalty)

lemma request_success_clears_penalty_witness:
  "failure_penalty_weight (PDict example_record) 1000000 = 3 \<and>
   failure_penalty_weight (PDict (record_success example_ports (Some 2) FAILURE_ORIGIN_REQUEST PNone example_record)) 1000000 = 0"
  using request_success_clears_penalty[OF example_record_ok]
  by (simp add: failure_penalty_weight_def example_record_ledger row_penalty_weight_def ledger_words
      decayed_weight_def score_decay_factor_def)

text \<open>A probe success never raises the penalty, and whatever the record answered for before,
  what is left weighs at most one failure per ledger row, twelve in all.\<close>

theorem probe_success_bounds_penalty:
  assumes "record_ok record" "0 \<le> now_seconds p"
  shows "failure_penalty_weight (PDict (record_success p latency FAILURE_ORIGIN_PROBE fd record)) (now_seconds p)
           \<le> min (failure_penalty_weight (PDict record) (now_seconds p)) (real FAILURE_LEDGER_MAX_ROWS)"
  using record_success_penalty[OF assms] by simp

lemma probe_success_bounds_penalty_witness:
  "failure_penalty_weight (PDict (record_success example_ports (Some 2) FAILURE_ORIGIN_PROBE PNone example_record)) 1000000
     \<le> min 3 12"
proof -
  have "failure_penalty_weight (PDict example_record) (now_seconds example_ports) = 3"
    by (simp add: failure_penalty_weight_def example_record_ledger row_penalty_weight_def ledger_words
        decayed_weight_def score_decay_factor_def example_ports_def)
  with probe_success_bounds_penalty[OF example_record_ok, of "Some 2" PNone]
  show ?thesis by (simp add: FAILURE_LEDGER_MAX_ROWS_def example_ports_def)
qed

text \<open>A failure the model answers for is remembered: while the ledger has a free row, the
  next reading counts it in the episode of its attempt reason and charges at least one
  failure's weight.\<close>

theorem scored_failure_is_charged:
  assumes "record_ok record" "0 \<le> now_seconds p" "reason \<notin> set UNSCORED_FAILURE_REASONS"
    and "length (failure_ledger (PDict record) (now_seconds p)) < FAILURE_LEDGER_MAX_ROWS"
  shows "1 \<le> recent_failure_reason_count
              (PDict (record_failure p reason attempt_reason origin record))
              (or_text attempt_reason reason) (now_seconds p)
       \<and> 1 \<le> failure_penalty_weight
              (PDict (record_failure p reason attempt_reason origin record)) (now_seconds p)"
proof -
  let ?now = "now_seconds p" and ?k = "or_text attempt_reason reason"
  let ?rows = "ledger_after_failure (failure_ledger (PDict record) ?now) ?k origin ?now"
  let ?rec = "PDict (record_failure p reason attempt_reason origin record)"
  have led: "failure_ledger ?rec ?now = filter (\<lambda>(_, r). ledger_keeps ?now r) ?rows"
    using record_failure_ledger[OF assms(3,1,2)] ledger_after_failure_small[OF assms(4)] by simp
  have ok: "ledger_ok ?rows" by (intro ledger_after_failure_ok failure_ledger_ok assms)
  obtain r where r: "map_of ?rows ?k = Some r" "lr_status r = LEDGER_STATUS_OPEN" "lr_last_at r = ?now"
    "1 \<le> lr_weight r"
    using ledger_after_failure_row by blast
  have w: "decayed_weight r ?now = lr_weight r"
    using r assms(2) by (simp add: decayed_weight_def score_decay_factor_def)
  have keeps: "ledger_keeps ?now r"
    using r w by (simp add: ledger_keeps_def FAILURE_LEDGER_MIN_WEIGHT_def COOLDOWN_BACKOFF_WINDOW_SECONDS_def)
  have "(?k, r) \<in> set ?rows" using r(1) by (rule map_of_SomeD)
  with keeps have mem: "(?k, r) \<in> set (failure_ledger ?rec ?now)" by (simp add: led)
  have wf: "wf_dict (failure_ledger ?rec ?now)" using ok by (auto simp: led ledger_ok_def)
  with mem have "map_of (failure_ledger ?rec ?now) ?k = Some r" by simp
  moreover have "1 \<le> lr_episode r" using ok \<open>(?k, r) \<in> set ?rows\<close> by (force simp: ledger_ok_def row_ok_def)
  ultimately have c: "1 \<le> recent_failure_reason_count ?rec ?k ?now"
    using r(3) by (simp add: recent_failure_reason_count_def COOLDOWN_BACKOFF_WINDOW_SECONDS_def)
  have "1 \<le> row_penalty_weight r ?now"
    using r w by (simp add: row_penalty_weight_def ledger_words)
  also have "\<dots> \<le> failure_penalty_weight ?rec ?now"
    using mem member_le_sum_list_real[of "(?k, r)" "failure_ledger ?rec ?now" "\<lambda>(_, r). row_penalty_weight r ?now"]
    by (auto simp: failure_penalty_weight_def)
  finally show ?thesis using c by simp
qed

lemma scored_failure_is_charged_witness:
  "1 \<le> recent_failure_reason_count (PDict (record_failure example_ports ''timeout'' [] ''probe'' example_record)) ''timeout'' 1000000
   \<and> 1 \<le> failure_penalty_weight (PDict (record_failure example_ports ''timeout'' [] ''probe'' example_record)) 1000000"
  using scored_failure_is_charged[OF example_record_ok, of "''timeout''" "[]" "''probe''"]
  by (simp add: example_record_ledger FAILURE_LEDGER_MAX_ROWS_def UNSCORED_FAILURE_REASONS_def
      NO_MODEL_FAULT_FAILURE_REASONS_def or_text_def example_ports_def)

text \<open>The ledger that is written is the ledger that is read back, at any later time: at most
  twelve rows, each still worth keeping and well formed.\<close>

theorem ledger_round_trip:
  assumes "ledger_ok rows"
  shows "failure_ledger (PDict (write_ledger rows now record)) now' = ledger_kept rows now
       \<and> length (ledger_kept rows now) \<le> 12
       \<and> (\<forall>(reason, r) \<in> set (ledger_kept rows now). (reason, r) \<in> set rows \<and> row_ok r \<and> ledger_keeps now r)"
  using failure_ledger_write[OF assms] ledger_kept_length[of rows now] ledger_kept_subset[of rows now]
    ledger_kept_keeps assms
  by (fastforce simp: ledger_ok_def FAILURE_LEDGER_MAX_ROWS_def)

lemma ledger_round_trip_witness:
  "failure_ledger (PDict (write_ledger [(''timeout'', mk_ledger_row ''probe'' ''open'' 2 50 1)] 60 [])) 70
     = ledger_kept [(''timeout'', mk_ledger_row ''probe'' ''open'' 2 50 1)] 60"
proof -
  have "ledger_ok [(''timeout'', mk_ledger_row ''probe'' ''open'' 2 50 1)]"
    by (simp add: ledger_ok_def mk_ledger_row_ok)
  from ledger_round_trip[OF this, of 60 "[]" 70] show ?thesis by blast
qed

text \<open>The escalation of a cooldown stays between the base and the larger of the base and an
  hour, never more than four times the base, and never falls as the failures repeat.\<close>

theorem escalation_bounds:
  "max 0 base \<le> escalated_cooldown_seconds base repeats
   \<and> escalated_cooldown_seconds base repeats \<le> min (4 * max 0 base) (max base 3600)
   \<and> (repeats \<le> repeats' \<longrightarrow> escalated_cooldown_seconds base repeats \<le> escalated_cooldown_seconds base repeats')"
proof -
  have pow: "(2::int) ^ nat (min (n - 1) 2) \<in> {1, 2, 4}" for n :: int
  proof -
    have "(2::int) ^ k \<in> {1, 2, 4}" if "k \<le> 2" for k :: nat
      using that by (cases k; cases "k - 1") auto
    then show ?thesis by (simp add: nat_le_iff)
  qed
  have mono: "(2::int) ^ nat (min (n - 1) 2) \<le> 2 ^ nat (min (m - 1) 2)" if "n \<le> m" for n m :: int
    using that by (intro power_increasing) auto
  define a b :: int where "a = 2 ^ nat (min (repeats - 1) 2)" and "b = 2 ^ nat (min (repeats' - 1) 2)"
  have ab: "a \<in> {1, 2, 4}" "b \<in> {1, 2, 4}" "repeats \<le> repeats' \<Longrightarrow> a \<le> b"
    using pow[of repeats] pow[of repeats'] mono[of repeats repeats'] by (simp_all add: a_def b_def)
  show ?thesis
    unfolding escalated_cooldown_seconds_def Let_def COOLDOWN_BACKOFF_MAX_SECONDS_def
      a_def[symmetric] b_def[symmetric]
    using ab by (auto simp: min_def max_def)
qed

lemma escalation_bounds_witness:
  "escalated_cooldown_seconds 300 2 \<le> escalated_cooldown_seconds 300 3
   \<and> escalated_cooldown_seconds 300 3 = 1200 \<and> escalated_cooldown_seconds 1800 5 = 3600"
  using escalation_bounds[of 300 2 3] by (simp add: escalated_cooldown_seconds_def COOLDOWN_BACKOFF_MAX_SECONDS_def Let_def)

text \<open>Ageing is one curve: a weight in (0, 1], halved every half-life, falling with age, and
  the same whether an interval is crossed at once or in two steps.\<close>

theorem score_decay_curve:
  "0 < score_decay_factor t \<and> score_decay_factor t \<le> 1
   \<and> score_decay_factor SCORE_DECAY_HALF_LIFE_SECONDS = 1 / 2
   \<and> (s \<le> t \<longrightarrow> score_decay_factor t \<le> score_decay_factor s)
   \<and> (0 \<le> s \<longrightarrow> 0 \<le> t \<longrightarrow> score_decay_factor (s + t) = score_decay_factor s * score_decay_factor t)"
  by (simp add: score_decay_half_life score_decay_factor_antimono score_decay_factor_add)

lemma score_decay_curve_witness:
  "score_decay_factor (604800 + 604800) = score_decay_factor 604800 * score_decay_factor 604800
   \<and> score_decay_factor 604800 = 1 / 2"
  using score_decay_curve[of 604800 604800] by (simp add: SCORE_DECAY_HALF_LIFE_SECONDS_def)

end
