(* ===== verification/CooldownState.thy ===== *)
theory CooldownState
  imports FailureLedger
begin

text \<open>
  Every write of the cooldown component to the runtime state (\<open>use_cases/cooldowns.py\<close>): the
  statistics of models and providers, the error rows, the provider, quota and model
  cooldowns, the learned token limits, the operator's clears, and the two operations the
  router calls after every attempt, \<open>set_cooldown_in_state\<close> and \<open>record_success_in_state\<close>.
  An operation returns the new state, or \<open>None\<close> where the code would raise because a section
  of a hand-edited state is no dictionary.
\<close>

section \<open>Statistics\<close>

text \<open>\<open>record = state.setdefault(section, {}).setdefault(key, {})\<close>, then a mutation of the record.\<close>

definition on_record :: "string \<Rightarrow> string \<Rightarrow> (pydict \<Rightarrow> pydict) \<Rightarrow> pydict \<Rightarrow> pydict option" where
  "on_record sec key f state = with_sub sec (with_sub key (\<lambda>record. Some (f record))) state"

definition update_failure_stats ::
  "ports \<Rightarrow> pydict \<Rightarrow> string \<Rightarrow> string \<Rightarrow> string \<Rightarrow> pydict \<Rightarrow> pydict option" where
  "update_failure_stats p model reason attempt_reason origin =
     on_record ''stats'' (cooldown_key model) (record_failure p reason attempt_reason origin)"

definition update_success_stats ::
  "ports \<Rightarrow> pydict \<Rightarrow> real option \<Rightarrow> string \<Rightarrow> pv \<Rightarrow> pydict \<Rightarrow> pydict option" where
  "update_success_stats p model latency origin first_delta_seconds =
     on_record ''stats'' (cooldown_key model) (record_success p latency origin first_delta_seconds)"

definition round_pv :: "nat \<Rightarrow> pv \<Rightarrow> pv" where
  "round_pv n v = (case v of PFloat (Fin x) \<Rightarrow> PReal (py_round n x) | _ \<Rightarrow> v)"

definition update_throughput_stats :: "pydict \<Rightarrow> real option \<Rightarrow> pydict \<Rightarrow> pydict option" where
  "update_throughput_stats model tokens_per_second state =
     (case tokens_per_second of
        None \<Rightarrow> Some state
      | Some t \<Rightarrow>
          if t \<le> 0 then Some state
          else on_record ''stats'' (cooldown_key model) (\<lambda>record.
                 dset ''completion_tokens_per_second''
                   (round_pv 4 (latency_ewma (dget record ''completion_tokens_per_second'') (Some t)))
                   record) state)"

definition update_provider_failure_stats :: "ports \<Rightarrow> string \<Rightarrow> string \<Rightarrow> pydict \<Rightarrow> pydict option" where
  "update_provider_failure_stats p source reason =
     on_record ''provider_stats'' source (record_failure p reason [] FAILURE_ORIGIN_REQUEST)"

definition update_provider_success_stats :: "ports \<Rightarrow> string \<Rightarrow> real option \<Rightarrow> pydict \<Rightarrow> pydict option" where
  "update_provider_success_stats p source latency =
     on_record ''provider_stats'' source (record_success p latency FAILURE_ORIGIN_REQUEST PNone)"

section \<open>Error rows\<close>

text \<open>\<open>state.setdefault(section, {})[key] = row\<close>.\<close>

definition put_row :: "string \<Rightarrow> string \<Rightarrow> pydict \<Rightarrow> pydict \<Rightarrow> pydict option" where
  "put_row sec key row = with_sub sec (\<lambda>d. Some (dset key (PDict row) d))"

definition record_model_error_in_state ::
  "ports \<Rightarrow> pydict \<Rightarrow> string \<Rightarrow> pv \<Rightarrow> pv \<Rightarrow> pv \<Rightarrow> pv \<Rightarrow> pydict \<Rightarrow> pydict option" where
  "record_model_error_in_state p model reason detail status request_id profile_id =
     put_row ''model_errors'' (cooldown_key model)
       [(''reason'', PStr reason),
        (''detail'', opt_str (safe_detail detail)),
        (''status'', status),
        (''model_id'', dget model ''id''),
        (''upstream_id'', dget model ''upstream_id''),
        (''source'', dget model ''source''),
        (''profile_id'', if truthy profile_id then PStr (canonical_virtual_model_id profile_id) else PNone),
        (''request_id'', request_id),
        (''seen_at'', PStr (now_iso p))]"

definition clear_model_error_in_state :: "pydict \<Rightarrow> pydict \<Rightarrow> pydict" where
  "clear_model_error_in_state model = on_sub ''model_errors'' (dpop (cooldown_key model))"

definition record_provider_error_in_state ::
  "ports \<Rightarrow> pydict \<Rightarrow> string \<Rightarrow> pv \<Rightarrow> pv \<Rightarrow> pv \<Rightarrow> pydict \<Rightarrow> pydict option" where
  "record_provider_error_in_state p model reason detail status request_id state =
     (if source_of model = [] then Some state
      else put_row ''provider_errors'' (source_of model)
        [(''reason'', PStr reason),
         (''detail'', opt_str (safe_detail detail)),
         (''status'', status),
         (''model_id'', dget model ''id''),
         (''upstream_id'', dget model ''upstream_id''),
         (''request_id'', request_id),
         (''seen_at'', PStr (now_iso p))] state)"

definition clear_provider_error_in_state :: "string \<Rightarrow> pydict \<Rightarrow> pydict" where
  "clear_provider_error_in_state source state =
     (if source = [] then state else on_sub ''provider_errors'' (dpop source) state)"

section \<open>Provider and quota cooldowns\<close>

text \<open>\<open>int(seconds_map.get(reason) or seconds_map.get("unavailable") or 600)\<close>.\<close>

definition configured_seconds :: "pydict \<Rightarrow> string \<Rightarrow> int option" where
  "configured_seconds config reason = do {
     seconds_map \<leftarrow> or_empty (dget config ''cooldown_seconds'');
     py_int (por (dget seconds_map reason) (por (dget seconds_map ''unavailable'') (PInt 600)))
   }"

definition provider_cooldown_row :: "ports \<Rightarrow> string \<Rightarrow> int \<Rightarrow> pv \<Rightarrow> pydict" where
  "provider_cooldown_row p reason seconds detail =
     [(''until'', PReal (now_seconds p + real_of_int seconds)),
      (''reason'', PStr reason),
      (''detail'', opt_str (safe_detail detail)),
      (''set_at'', PStr (now_iso p)),
      (''set_at_ts'', PReal (now_seconds p))]"

text \<open>The state and the key that now blocks the provider, empty without a source.\<close>

definition set_provider_cooldown_in_state ::
  "ports \<Rightarrow> string \<Rightarrow> string \<Rightarrow> pydict \<Rightarrow> pv \<Rightarrow> pydict \<Rightarrow> (pydict \<times> string) option" where
  "set_provider_cooldown_in_state p source reason config detail state =
     (let source = strip source in
      if source = [] then Some (state, [])
      else do {
        state \<leftarrow> update_provider_failure_stats p source reason state;
        seconds \<leftarrow> configured_seconds config reason;
        state \<leftarrow> put_row ''provider_cooldowns'' source (provider_cooldown_row p reason seconds detail) state;
        Some (state, source)
      })"

definition TRANSIENT_QUOTA_PROBE_BACKOFF_SECONDS :: "int list" where
  "TRANSIENT_QUOTA_PROBE_BACKOFF_SECONDS = [60, 300, 900]"

definition DEFAULT_QUOTA_PROBE_BACKOFF_SECONDS :: "int list" where
  "DEFAULT_QUOTA_PROBE_BACKOFF_SECONDS = [3600, 21600, 86400]"

definition quota_probe_backoff_seconds :: "pydict \<Rightarrow> int \<Rightarrow> int" where
  "quota_probe_backoff_seconds config consecutive_failures =
     (let configured = filter (\<lambda>v. 0 < v)
            (map (\<lambda>v. safe_int v 0) (as_list (dget config ''quota_probe_backoff_seconds'')));
          values = (if configured = [] then DEFAULT_QUOTA_PROBE_BACKOFF_SECONDS else configured)
      in values ! nat (max 0 (min (int (length values) - 1) consecutive_failures)))"

record quota_write =
  qw_probe_failed :: bool
  qw_probe_ambiguous :: bool
  qw_retry_after_seconds :: "int option"
  qw_retry_after_source :: pv
  qw_key_override :: string

definition plain_quota_write :: quota_write where
  "plain_quota_write =
     \<lparr>qw_probe_failed = False, qw_probe_ambiguous = False, qw_retry_after_seconds = None,
      qw_retry_after_source = PNone, qw_key_override = []\<rparr>"

text \<open>The next probe: the provider's own delay, the ambiguous steps, or the configured ones.\<close>

definition quota_interval :: "pydict \<Rightarrow> quota_write \<Rightarrow> int \<Rightarrow> int \<Rightarrow> int" where
  "quota_interval config w failures ambiguous =
     (case qw_retry_after_seconds w of
        Some s \<Rightarrow> max 1 (min 86400 s)
      | None \<Rightarrow>
          if qw_probe_ambiguous w
          then TRANSIENT_QUOTA_PROBE_BACKOFF_SECONDS !
                 nat (min (int (length TRANSIENT_QUOTA_PROBE_BACKOFF_SECONDS) - 1) (max 0 (ambiguous - 1)))
          else quota_probe_backoff_seconds config failures)"

definition retry_detail :: "int \<Rightarrow> pv \<Rightarrow> pv \<Rightarrow> pv" where
  "retry_detail seconds source note =
     PStr (''retry after '' @ show_int seconds @ ''s via '' @ py_str (por source (PStr ''provider'')) @
           ''; '' @ py_str note)"

definition quota_cooldown_row ::
  "ports \<Rightarrow> pydict \<Rightarrow> pydict \<Rightarrow> quota_write \<Rightarrow> string \<Rightarrow> pv \<Rightarrow> pydict \<Rightarrow> pydict" where
  "quota_cooldown_row p model config w key detail previous =
     (let previous_failures = safe_int (dget previous ''consecutive_probe_failures'') 0;
          failures = (if qw_probe_failed w then previous_failures + 1 else previous_failures);
          ambiguous = (if qw_probe_ambiguous w
                       then safe_int (dget previous ''consecutive_ambiguous_probes'') 0 + 1 else 0);
          interval = quota_interval config w failures ambiguous;
          stored_detail = (if qw_retry_after_seconds w = None then detail
                           else retry_detail interval (qw_retry_after_source w) (por detail (PStr ''quota probe'')))
      in [(''scope'', PStr (if qw_key_override w = [] then quota_cooldown_scope p model
                            else quota_cooldown_scope_from_key key)),
          (''source'', PStr (source_of model)),
          (''model_id'', dget model ''id''),
          (''upstream_id'', dget model ''upstream_id''),
          (''reason'', PStr ''quota_exhausted''),
          (''until'', PReal (now_seconds p + real_of_int interval)),
          (''set_at'', PStr (now_iso p)),
          (''set_at_ts'', PReal (now_seconds p)),
          (''last_probe_at'', if qw_probe_failed w \<or> qw_probe_ambiguous w then PStr (now_iso p)
                              else dget previous ''last_probe_at''),
          (''next_probe_at'', PReal (now_seconds p + real_of_int interval)),
          (''probe_interval_seconds'', PInt interval),
          (''consecutive_probe_failures'', PInt failures),
          (''consecutive_ambiguous_probes'', PInt ambiguous),
          (''probe_outcome'', PStr (if qw_probe_ambiguous w then ''ambiguous''
                                    else if qw_probe_failed w then ''confirmed'' else ''initial'')),
          (''detail'', opt_str (safe_detail stored_detail))])"

definition set_quota_cooldown_in_state ::
  "ports \<Rightarrow> pydict \<Rightarrow> pydict \<Rightarrow> pv \<Rightarrow> quota_write \<Rightarrow> pydict \<Rightarrow> (pydict \<times> string) option" where
  "set_quota_cooldown_in_state p model config detail w state = do {
     let source = source_of model;
     let key = or_text (qw_key_override w) (quota_cooldown_key p model);
     state \<leftarrow> (if source \<noteq> [] \<and> \<not> qw_probe_ambiguous w
               then update_provider_failure_stats p source ''quota_exhausted'' state else Some state);
     state \<leftarrow> with_sub ''quota_cooldowns'' (\<lambda>cooldowns. Some (dset key
                (PDict (quota_cooldown_row p model config w key detail (as_dict (dget cooldowns key))))
                cooldowns)) state;
     Some (state, key)
   }"

section \<open>Clears\<close>

text \<open>A section that is no dictionary is replaced by an empty one.\<close>

definition clear_key :: "string \<Rightarrow> string \<Rightarrow> pydict \<Rightarrow> pydict \<times> bool" where
  "clear_key sec key state =
     (dset sec (PDict (dpop key (section_of state sec))) state, dhas key (section_of state sec))"

definition clear_model_cooldown_in_state :: "string \<Rightarrow> pydict \<Rightarrow> pydict \<times> bool" where
  "clear_model_cooldown_in_state key = clear_key ''cooldowns'' key"

definition clear_provider_cooldown_in_state :: "pv \<Rightarrow> pydict \<Rightarrow> pydict \<times> bool" where
  "clear_provider_cooldown_in_state source =
     clear_key ''provider_cooldowns'' (strip (py_str (por source (PStr []))))"

definition clear_section :: "string \<Rightarrow> pydict \<times> nat \<Rightarrow> pydict \<times> nat" where
  "clear_section sec sc = (dset sec (PDict []) (fst sc), snd sc + length (section_of (fst sc) sec))"

definition clear_all_cooldowns_in_state :: "string \<Rightarrow> pydict \<Rightarrow> pydict \<times> nat" where
  "clear_all_cooldowns_in_state scope state =
     (let s0 = (state, 0);
          s1 = (if scope \<in> set [''all'', ''model'', ''models''] then clear_section ''cooldowns'' s0 else s0);
          s2 = (if scope \<in> set [''all'', ''provider'', ''providers'']
                then clear_section ''provider_cooldowns'' s1 else s1)
      in if scope \<in> set [''all'', ''quota'', ''quotas''] then clear_section ''quota_cooldowns'' s2 else s2)"

section \<open>Success\<close>

definition source_has_active_quota_cooldown :: "ports \<Rightarrow> string \<Rightarrow> pydict \<Rightarrow> bool" where
  "source_has_active_quota_cooldown p source state \<longleftrightarrow>
     list_ex (\<lambda>(_, raw). is_dict raw \<and> text_of (as_dict raw) ''source'' = source \<and>
                now_seconds p < safe_float (dget (as_dict raw) ''until'') 0)
       (section_of state ''quota_cooldowns'')"

text \<open>The moment a row was written, by its numeric stamp or else by its date; 0 when unknown.\<close>

definition written_at :: "pydict \<Rightarrow> real" where
  "written_at row =
     (let ts = safe_float (dget row ''set_at_ts'') 0 in
      if 0 < ts then ts
      else (case parse_iso_timestamp (dget row ''set_at'') of None \<Rightarrow> 0 | Some t \<Rightarrow> t))"

definition cooldown_predates_request :: "pv \<Rightarrow> real option \<Rightarrow> bool" where
  "cooldown_predates_request row started_at =
     (case (started_at, row) of
        (Some start, PDict r) \<Rightarrow> (let w = written_at r in w \<le> 0 \<or> w \<le> start)
      | _ \<Rightarrow> True)"

text \<open>\<open>lift_if_predates(container, key, started_at)\<close> on a dictionary.\<close>

definition lift_if_predates :: "string \<Rightarrow> real option \<Rightarrow> pydict \<Rightarrow> pydict" where
  "lift_if_predates key started_at container =
     (if cooldown_predates_request (dget container key) started_at then dpop key container else container)"

definition diagnostic_predates_request :: "pv \<Rightarrow> real option \<Rightarrow> bool" where
  "diagnostic_predates_request row started_at =
     (case (started_at, row) of
        (Some start, PDict r) \<Rightarrow>
          (let w = (case parse_iso_timestamp (dget r ''seen_at'') of None \<Rightarrow> 0 | Some t \<Rightarrow> t)
           in w \<le> 0 \<or> w \<le> start)
      | _ \<Rightarrow> True)"

definition success_started_at :: "ports \<Rightarrow> real option \<Rightarrow> real option \<Rightarrow> real option" where
  "success_started_at p started_at latency =
     (case (started_at, latency) of
        (None, Some l) \<Rightarrow> Some (now_seconds p - max 0 l)
      | _ \<Rightarrow> started_at)"

definition lift_quota_blocks :: "pydict \<Rightarrow> real option \<Rightarrow> pydict \<Rightarrow> pydict" where
  "lift_quota_blocks model started_at cooldowns =
     filter (\<lambda>(key, raw). \<not> (is_dict raw \<and> quota_cooldown_matches_model key model
                             \<and> cooldown_predates_request raw started_at)) cooldowns"

definition self_heal_quarantine :: "string \<Rightarrow> real option \<Rightarrow> pydict \<Rightarrow> pydict" where
  "self_heal_quarantine key started_at quarantine =
     (case dget quarantine key of
        PDict row \<Rightarrow>
          if text_of row ''reason'' = ''model_not_found'' \<and> cooldown_predates_request (PDict row) started_at
          then dpop key quarantine else quarantine
      | _ \<Rightarrow> quarantine)"

definition lift_model_block :: "pydict \<Rightarrow> string \<Rightarrow> real option \<Rightarrow> pydict \<Rightarrow> pydict" where
  "lift_model_block model origin started state =
     (if origin = FAILURE_ORIGIN_REQUEST
      then on_sub ''cooldowns'' (lift_if_predates (cooldown_key model) started) state else state)"

definition lift_provider_block :: "pydict \<Rightarrow> string \<Rightarrow> real option \<Rightarrow> pydict \<Rightarrow> pydict" where
  "lift_provider_block model origin started state =
     (if origin = FAILURE_ORIGIN_REQUEST \<and> source_of model \<noteq> []
      then on_sub ''provider_cooldowns'' (lift_if_predates (source_of model) started) state else state)"

definition heal_provider_error :: "ports \<Rightarrow> pydict \<Rightarrow> real option \<Rightarrow> pydict \<Rightarrow> pydict" where
  "heal_provider_error p model started state =
     (let source = source_of model in
      if \<not> source_has_active_quota_cooldown p source state \<and>
         diagnostic_predates_request (dget (section_of state ''provider_errors'') source) started
      then clear_provider_error_in_state source state else state)"

definition heal_model_error :: "pydict \<Rightarrow> real option \<Rightarrow> pydict \<Rightarrow> pydict" where
  "heal_model_error model started state =
     (if diagnostic_predates_request (dget (section_of state ''model_errors'') (cooldown_key model)) started
      then clear_model_error_in_state model state else state)"

text \<open>Everything a success lifts, in the order of the code.\<close>

definition lift_on_success :: "ports \<Rightarrow> pydict \<Rightarrow> string \<Rightarrow> real option \<Rightarrow> pydict \<Rightarrow> pydict" where
  "lift_on_success p model origin started state =
     heal_model_error model started
       (on_sub ''quarantine'' (self_heal_quarantine (cooldown_key model) started)
          (heal_provider_error p model started
             (on_sub ''quota_cooldowns'' (lift_quota_blocks model started)
                (lift_provider_block model origin started
                   (lift_model_block model origin started state)))))"

definition record_success_in_state ::
  "ports \<Rightarrow> pydict \<Rightarrow> real option \<Rightarrow> string \<Rightarrow> pv \<Rightarrow> real option \<Rightarrow> pydict \<Rightarrow> pydict option" where
  "record_success_in_state p model latency origin first_delta_seconds started_at state = do {
     state \<leftarrow> put_row ''successes'' (cooldown_key model)
               [(''last_success_at'', PStr (now_iso p)),
                (''latency_seconds'', case latency of None \<Rightarrow> PNone | Some l \<Rightarrow> PReal l)] state;
     state \<leftarrow> update_success_stats p model latency origin first_delta_seconds
               (lift_on_success p model origin (success_started_at p started_at latency) state);
     (if source_of model = [] then Some state
      else update_provider_success_stats p (source_of model) latency state)
   }"

definition clear_quota_model_errors_for_source_in_state :: "string \<Rightarrow> pydict \<Rightarrow> pydict" where
  "clear_quota_model_errors_for_source_in_state source =
     on_sub ''model_errors'' (filter (\<lambda>(_, row).
        \<not> (is_dict row \<and> dget (as_dict row) ''reason'' = PStr ''quota_exhausted''
            \<and> text_of (as_dict row) ''source'' = source)))"

definition clear_quota_cooldown_in_state :: "ports \<Rightarrow> string \<Rightarrow> pydict \<Rightarrow> pydict \<Rightarrow> pydict" where
  "clear_quota_cooldown_in_state p key model state =
     (let state = on_sub ''quota_cooldowns'' (dpop key) state;
          source = text_of model ''source'';
          state = (if source_has_active_quota_cooldown p source state then state
                   else clear_quota_model_errors_for_source_in_state source
                     (if dget (as_dict (dget (section_of state ''provider_errors'') source)) ''reason''
                           = PStr ''quota_exhausted''
                      then clear_provider_error_in_state source state else state))
      in clear_model_error_in_state model state)"

section \<open>Failure\<close>

definition prune_provider_scoped_model_cooldowns_in_state :: "pydict \<Rightarrow> pydict" where
  "prune_provider_scoped_model_cooldowns_in_state =
     on_sub ''cooldowns'' (filter (\<lambda>(_, row).
        \<not> (is_dict row \<and> text_of (as_dict row) ''reason'' \<in> set PROVIDER_SCOPED_COOLDOWN_REASONS)))"

definition REQUEST_TOKEN_LIMIT_TTL_SECONDS :: real where
  "REQUEST_TOKEN_LIMIT_TTL_SECONDS = 7 * 86400"

definition record_request_token_limit_in_state :: "ports \<Rightarrow> pydict \<Rightarrow> pv \<Rightarrow> pydict \<Rightarrow> pydict option" where
  "record_request_token_limit_in_state p model detail state =
     (case request_token_limit_from_detail detail of
        None \<Rightarrow> Some state
      | Some limit \<Rightarrow>
          put_row ''request_token_limits'' (cooldown_key model)
            [(''limit'', PInt limit), (''set_at'', PStr (now_iso p)), (''set_at_ts'', PReal (now_seconds p))] state)"

definition learned_request_token_limit :: "pydict \<Rightarrow> pydict \<Rightarrow> real \<Rightarrow> int option" where
  "learned_request_token_limit state model now_ts =
     (case dget (section_of state ''request_token_limits'') (cooldown_key model) of
        PDict row \<Rightarrow>
          (case safe_timestamp (dget row ''set_at_ts'') of
             None \<Rightarrow> None
           | Some set_at \<Rightarrow>
               if REQUEST_TOKEN_LIMIT_TTL_SECONDS < now_ts - set_at then None
               else (let limit = safe_number (dget row ''limit'')
                     in if 0 < limit then Some (trunc limit) else None))
      | _ \<Rightarrow> None)"

record failure_event =
  fe_reason :: string
  fe_detail :: pv
  fe_status :: pv
  fe_request_id :: pv
  fe_profile_id :: pv
  fe_retry_after_seconds :: "int option"
  fe_retry_after_source :: pv
  fe_attempt_reason :: string
  fe_origin :: string

definition explicit_retry :: "failure_event \<Rightarrow> int option" where
  "explicit_retry e =
     (case fe_retry_after_seconds e of
        None \<Rightarrow> None
      | Some s \<Rightarrow> if 0 < s then Some (max 1 (min 86400 s)) else None)"

text \<open>A delay the provider named replaces the configured ones for this write.\<close>

definition effective_config :: "pydict \<Rightarrow> failure_event \<Rightarrow> pydict option" where
  "effective_config config e =
     (case explicit_retry e of
        None \<Rightarrow> Some config
      | Some s \<Rightarrow> do {
          seconds_map \<leftarrow> or_empty (dget config ''cooldown_seconds'');
          Some (dset ''quota_probe_backoff_seconds'' (PList [PInt s])
                 (dset ''cooldown_seconds'' (PDict (dset (fe_reason e) (PInt s) seconds_map)) config))
        })"

definition event_detail :: "failure_event \<Rightarrow> pv" where
  "event_detail e =
     (case explicit_retry e of
        None \<Rightarrow> fe_detail e
      | Some s \<Rightarrow> retry_detail s (fe_retry_after_source e) (por (fe_detail e) (PStr (fe_reason e))))"

record applied_cooldown =
  ac_provider_source :: string
  ac_quota_key :: string

definition apply_quarantine ::
  "ports \<Rightarrow> pydict \<Rightarrow> pv \<Rightarrow> quarantine_policy option \<Rightarrow> pydict \<Rightarrow> pydict option" where
  "apply_quarantine p model detail quarantine state =
     (case quarantine of
        None \<Rightarrow> Some state
      | Some q \<Rightarrow>
          if qp_reason q = ''billing_or_paid''
          then set_billing_quarantine_in_state p model detail (qp_source q) (qp_fallback_note q) state
          else if qp_reason q = ''no_free_quota''
          then set_no_free_quota_quarantine_in_state p model detail (qp_source q) (qp_fallback_note q) state
          else if qp_reason q = ''model_not_found''
          then set_model_not_found_quarantine_in_state p model detail (qp_source q) (qp_fallback_note q) state
          else Some state)"

definition model_cooldown_row :: "ports \<Rightarrow> failure_event \<Rightarrow> pv \<Rightarrow> int \<Rightarrow> int \<Rightarrow> pydict" where
  "model_cooldown_row p e detail base_seconds repeats =
     (let seconds = escalated_cooldown_seconds base_seconds repeats
      in [(''until'', PReal (now_seconds p + real_of_int seconds)),
          (''reason'', PStr (fe_reason e)),
          (''detail'', opt_str (safe_detail detail)),
          (''set_at'', PStr (now_iso p)),
          (''set_at_ts'', PReal (now_seconds p))]
         @ (if seconds = base_seconds then []
            else [(''base_seconds'', PInt base_seconds), (''reason_repeats'', PInt repeats)]))"

text \<open>The last block of \<open>set_cooldown_in_state\<close>: the model's own cooldown, escalated by its episode.\<close>

definition write_model_cooldown ::
  "ports \<Rightarrow> pydict \<Rightarrow> failure_event \<Rightarrow> pydict \<Rightarrow> pydict \<Rightarrow> pydict option" where
  "write_model_cooldown p model e config state = do {
     base_seconds \<leftarrow> configured_seconds config (fe_reason e);
     let repeats = (if explicit_retry e \<noteq> None then 0
                    else recent_failure_reason_count (dget (section_of state ''stats'') (cooldown_key model))
                           (or_text (fe_attempt_reason e) (fe_reason e)) (now_seconds p));
     put_row ''cooldowns'' (cooldown_key model)
       (model_cooldown_row p e (event_detail e) base_seconds repeats) state
   }"

definition set_cooldown_in_state ::
  "ports \<Rightarrow> pydict \<Rightarrow> failure_event \<Rightarrow> pydict \<Rightarrow> pydict \<Rightarrow> (pydict \<times> applied_cooldown) option" where
  "set_cooldown_in_state p model e config state = do {
     config \<leftarrow> effective_config config e;
     let detail = event_detail e;
     let reason = fe_reason e;
     let policy = cooldown_policy_for_reason reason (source_of model);
     state \<leftarrow> update_failure_stats p model reason (fe_attempt_reason e) (fe_origin e)
               (prune_provider_scoped_model_cooldowns_in_state state);
     state \<leftarrow> record_model_error_in_state p model reason detail (fe_status e) (fe_request_id e) (fe_profile_id e) state;
     state \<leftarrow> (if cp_record_provider_error policy
               then record_provider_error_in_state p model reason detail (fe_status e) (fe_request_id e) state
               else Some state);
     (state, quota_key) \<leftarrow> (if cp_quota_cooldown policy
               then set_quota_cooldown_in_state p model config detail plain_quota_write state
               else Some (state, []));
     (state, provider_source) \<leftarrow> (if cp_provider_cooldown policy
               then set_provider_cooldown_in_state p (cp_provider_cooldown_source policy) reason config detail state
               else Some (state, []));
     state \<leftarrow> apply_quarantine p model detail (cp_quarantine policy) state;
     state \<leftarrow> (if reason = ''request_too_large''
               then record_request_token_limit_in_state p model detail state else Some state);
     state \<leftarrow> (if cp_model_cooldown policy then write_model_cooldown p model e config state else Some state);
     Some (state, \<lparr>ac_provider_source = provider_source, ac_quota_key = quota_key\<rparr>)
   }"

section \<open>Operations on one section\<close>

lemma put_row_eq:
  "put_row sec key row st =
     (if section_ok st sec then Some (dset sec (PDict (dset key (PDict row) (section_of st sec))) st) else None)"
  by (simp add: put_row_def with_sub_eq)

lemma on_record_eq:
  "on_record sec key f st =
     (if section_ok st sec \<and> section_ok (section_of st sec) key
      then Some (dset sec (PDict (dset key (PDict (f (section_of (section_of st sec) key))) (section_of st sec))) st)
      else None)"
  by (simp add: on_record_def with_sub_eq)

text \<open>The sections the component writes, and the two whose entries are records.\<close>

definition STATE_SECTIONS :: "string list" where
  "STATE_SECTIONS =
     [''stats'', ''provider_stats'', ''model_errors'', ''provider_errors'', ''cooldowns'',
      ''provider_cooldowns'', ''quota_cooldowns'', ''quarantine'', ''request_token_limits'', ''successes'']"

definition state_ok :: "pydict \<Rightarrow> bool" where
  "state_ok st \<longleftrightarrow> (\<forall>sec \<in> set STATE_SECTIONS. section_ok st sec)
     \<and> (\<forall>key. section_ok (section_of st ''stats'') key)
     \<and> (\<forall>key. section_ok (section_of st ''provider_stats'') key)"

lemma state_ok_empty: "state_ok []"
  by (simp add: state_ok_def section_of_def)

lemma state_ok_section: "state_ok st \<Longrightarrow> sec \<in> set STATE_SECTIONS \<Longrightarrow> section_ok st sec"
  by (simp add: state_ok_def)

lemma state_ok_rows:
  "state_ok st \<Longrightarrow> section_ok (section_of st ''stats'') key"
  "state_ok st \<Longrightarrow> section_ok (section_of st ''provider_stats'') key"
  by (simp_all add: state_ok_def)

lemma state_ok_dset_section:
  "state_ok st \<Longrightarrow> sec \<notin> {''stats'', ''provider_stats''} \<Longrightarrow> state_ok (dset sec (PDict d) st)"
  by (auto simp: state_ok_def)

lemma state_ok_dset_record:
  "state_ok st \<Longrightarrow> state_ok (dset sec (PDict (dset key (PDict r) (section_of st sec))) st)"
  by (auto simp: state_ok_def)

lemma section_of_same: "dget st' k = dget st k \<Longrightarrow> section_of st' k = section_of st k"
  by (simp add: section_of_def)

text \<open>
  The contract of an operation of the component that writes one section: it touches nothing
  else, it does not raise on a well-formed state, and it leaves a well-formed state.
\<close>

locale section_op =
  fixes op :: "pydict \<Rightarrow> pydict option" and sec :: string
  assumes frame: "op st = Some st' \<Longrightarrow> k \<noteq> sec \<Longrightarrow> dget st' k = dget st k"
    and runs: "state_ok st \<Longrightarrow> \<exists>st'. op st = Some st' \<and> state_ok st'"
begin

lemma keeps_ok: "state_ok st \<Longrightarrow> op st = Some st' \<Longrightarrow> state_ok st'"
  using runs by fastforce

lemma section_frame: "op st = Some st' \<Longrightarrow> k \<noteq> sec \<Longrightarrow> section_of st' k = section_of st k"
  using frame section_of_same by blast

lemma then_runs:
  assumes "state_ok st" "\<And>st'. state_ok st' \<Longrightarrow> \<exists>y. f st' = Some y \<and> Q y"
  shows "\<exists>y. (op st \<bind> f) = Some y \<and> Q y"
  using runs[OF assms(1)] assms(2) by fastforce

end

lemma put_row_section_op:
  assumes "sec \<in> set STATE_SECTIONS" "sec \<notin> {''stats'', ''provider_stats''}"
  shows "section_op (put_row sec key row) sec"
  by unfold_locales
     (use assms in \<open>auto simp: put_row_eq state_ok_section state_ok_dset_section split: if_splits\<close>)

lemma on_record_section_op:
  assumes "sec \<in> {''stats'', ''provider_stats''}"
  shows "section_op (on_record sec key f) sec"
proof unfold_locales
  fix st st' k
  assume "on_record sec key f st = Some st'" "k \<noteq> sec"
  then show "dget st' k = dget st k" by (auto simp: on_record_eq split: if_splits)
next
  fix st assume ok: "state_ok st"
  with assms have "section_ok st sec" "section_ok (section_of st sec) key"
    by (auto simp: state_ok_def STATE_SECTIONS_def)
  with ok show "\<exists>st'. on_record sec key f st = Some st' \<and> state_ok st'"
    by (simp add: on_record_eq state_ok_dset_record)
qed

lemma skip_section_op: "section_op Some sec"
  by unfold_locales auto

lemma cond_section_op:
  "section_op f sec \<Longrightarrow> section_op g sec \<Longrightarrow> section_op (\<lambda>st. if b then f st else g st) sec"
  by (cases b) simp_all

interpretation failure_stats:
  section_op "update_failure_stats p model reason attempt_reason origin" "''stats''"
  for p model reason attempt_reason origin
  unfolding update_failure_stats_def by (rule on_record_section_op) simp

interpretation success_stats:
  section_op "update_success_stats p model latency origin fd" "''stats''"
  for p model latency origin fd
  unfolding update_success_stats_def by (rule on_record_section_op) simp

interpretation provider_failure_stats:
  section_op "update_provider_failure_stats p source reason" "''provider_stats''"
  for p source reason
  unfolding update_provider_failure_stats_def by (rule on_record_section_op) simp

interpretation provider_success_stats:
  section_op "update_provider_success_stats p source latency" "''provider_stats''"
  for p source latency
  unfolding update_provider_success_stats_def by (rule on_record_section_op) simp

interpretation model_error_row:
  section_op "record_model_error_in_state p model reason detail status request_id profile_id" "''model_errors''"
  for p model reason detail status request_id profile_id
  unfolding record_model_error_in_state_def by (rule put_row_section_op) (simp_all add: STATE_SECTIONS_def)

interpretation provider_error_row:
  section_op "record_provider_error_in_state p model reason detail status request_id" "''provider_errors''"
  for p model reason detail status request_id
proof -
  let ?row = "[(''reason'', PStr reason), (''detail'', opt_str (safe_detail detail)), (''status'', status),
         (''model_id'', dget model ''id''), (''upstream_id'', dget model ''upstream_id''),
         (''request_id'', request_id), (''seen_at'', PStr (now_iso p))]"
  have "record_provider_error_in_state p model reason detail status request_id = (\<lambda>st.
      if source_of model = [] then Some st
      else put_row ''provider_errors'' (source_of model) ?row st)"
    by (rule ext) (simp add: record_provider_error_in_state_def)
  moreover have "section_op (put_row ''provider_errors'' (source_of model) ?row) ''provider_errors''"
    by (rule put_row_section_op) (simp_all add: STATE_SECTIONS_def)
  ultimately show "section_op (record_provider_error_in_state p model reason detail status request_id) ''provider_errors''"
    by (simp only: cond_section_op skip_section_op)
qed

interpretation quarantine_write:
  section_op "apply_quarantine p model detail quarantine" "''quarantine''"
  for p model detail quarantine
proof -
  have put: "section_op (set_quarantine_in_state p model reason d source fnote) ''quarantine''"
    for reason d source fnote
    unfolding set_quarantine_in_state_def
    by (fold put_row_def) (rule put_row_section_op; simp add: STATE_SECTIONS_def)
  show "section_op (apply_quarantine p model detail quarantine) ''quarantine''"
    unfolding apply_quarantine_def set_billing_quarantine_in_state_def
      set_no_free_quota_quarantine_in_state_def set_model_not_found_quarantine_in_state_def
    by (cases quarantine) (auto intro!: cond_section_op skip_section_op put)
qed

interpretation token_limit_row:
  section_op "record_request_token_limit_in_state p model detail" "''request_token_limits''"
  for p model detail
  unfolding record_request_token_limit_in_state_def
  by (cases "request_token_limit_from_detail detail")
     (auto intro!: skip_section_op put_row_section_op simp: STATE_SECTIONS_def)

interpretation success_row:
  section_op "put_row ''successes'' key row" "''successes''" for key row
  by (rule put_row_section_op) (simp_all add: STATE_SECTIONS_def)

section \<open>What a failure writes\<close>

lemma set_quota_cooldown_frame:
  assumes "set_quota_cooldown_in_state p model config detail w st = Some (st', key)"
    and "k \<notin> {''provider_stats'', ''quota_cooldowns''}"
  shows "dget st' k = dget st k"
  using assms provider_failure_stats.frame[of p "source_of model" "''quota_exhausted''" st _ k]
  by (auto simp: set_quota_cooldown_in_state_def bind_eq_Some with_sub_eq Let_def split: if_splits)

lemma set_quota_cooldown_runs:
  assumes "state_ok st"
  shows "\<exists>st'. set_quota_cooldown_in_state p model config detail w st
      = Some (st', or_text (qw_key_override w) (quota_cooldown_key p model)) \<and> state_ok st'"
proof -
  obtain s1 where s1: "(if source_of model \<noteq> [] \<and> \<not> qw_probe_ambiguous w
               then update_provider_failure_stats p (source_of model) ''quota_exhausted'' st else Some st) = Some s1"
    "state_ok s1"
    using provider_failure_stats.runs[OF assms] assms by (metis (no_types))
  from s1(2) have "section_ok s1 ''quota_cooldowns''" by (rule state_ok_section) (simp add: STATE_SECTIONS_def)
  with s1 state_ok_dset_section[OF s1(2), of "''quota_cooldowns''"] show ?thesis
    by (simp add: set_quota_cooldown_in_state_def Let_def with_sub_eq)
qed

lemma set_quota_cooldown_row:
  assumes "set_quota_cooldown_in_state p model config detail w st = Some (st', key)"
  shows "key = or_text (qw_key_override w) (quota_cooldown_key p model)"
    and "dget (section_of st' ''quota_cooldowns'') key
      = PDict (quota_cooldown_row p model config w key detail
          (as_dict (dget (section_of st ''quota_cooldowns'') key)))"
    and "k \<noteq> key \<Longrightarrow> dget (section_of st' ''quota_cooldowns'') k = dget (section_of st ''quota_cooldowns'') k"
proof -
  obtain s1 where s1: "(if source_of model \<noteq> [] \<and> \<not> qw_probe_ambiguous w
               then update_provider_failure_stats p (source_of model) ''quota_exhausted'' st else Some st) = Some s1"
    and s2: "with_sub ''quota_cooldowns'' (\<lambda>cooldowns. Some (dset key
                (PDict (quota_cooldown_row p model config w key detail (as_dict (dget cooldowns key))))
                cooldowns)) s1 = Some st'"
    and key: "key = or_text (qw_key_override w) (quota_cooldown_key p model)"
    using assms by (auto simp: set_quota_cooldown_in_state_def bind_eq_Some Let_def)
  have "section_of s1 ''quota_cooldowns'' = section_of st ''quota_cooldowns''"
    using s1 provider_failure_stats.section_frame[of p "source_of model" "''quota_exhausted''" st s1 "''quota_cooldowns''"]
    by (auto split: if_splits)
  with s2 show "dget (section_of st' ''quota_cooldowns'') key
      = PDict (quota_cooldown_row p model config w key detail
          (as_dict (dget (section_of st ''quota_cooldowns'') key)))"
    and "k \<noteq> key \<Longrightarrow> dget (section_of st' ''quota_cooldowns'') k = dget (section_of st ''quota_cooldowns'') k"
    by (auto simp: with_sub_eq split: if_splits)
  show "key = or_text (qw_key_override w) (quota_cooldown_key p model)" by (rule key)
qed

lemma set_provider_cooldown_frame:
  assumes "set_provider_cooldown_in_state p source reason config detail st = Some (st', key)"
    and "k \<notin> {''provider_stats'', ''provider_cooldowns''}"
  shows "dget st' k = dget st k"
  using assms provider_failure_stats.frame[of p "strip source" reason st _ k]
  by (auto simp: set_provider_cooldown_in_state_def bind_eq_Some put_row_eq Let_def split: if_splits)

lemma set_provider_cooldown_runs:
  assumes "state_ok st" "configured_seconds config reason = Some seconds"
  shows "\<exists>st'. set_provider_cooldown_in_state p source reason config detail st
      = Some (st', strip source) \<and> state_ok st'"
proof (cases "strip source = []")
  case True
  with assms(1) show ?thesis by (simp add: set_provider_cooldown_in_state_def)
next
  case False
  obtain s1 where s1: "update_provider_failure_stats p (strip source) reason st = Some s1" "state_ok s1"
    using provider_failure_stats.runs[OF assms(1)] by blast
  from s1(2) have "section_ok s1 ''provider_cooldowns''" by (rule state_ok_section) (simp add: STATE_SECTIONS_def)
  with s1 False assms(2) state_ok_dset_section[OF s1(2), of "''provider_cooldowns''"] show ?thesis
    by (simp add: set_provider_cooldown_in_state_def Let_def put_row_eq)
qed

lemma set_provider_cooldown_row:
  assumes "set_provider_cooldown_in_state p source reason config detail st = Some (st', key)" "strip source \<noteq> []"
  shows "key = strip source"
    and "\<exists>seconds. configured_seconds config reason = Some seconds \<and>
           dget (section_of st' ''provider_cooldowns'') (strip source)
             = PDict (provider_cooldown_row p reason seconds detail)"
  using assms by (auto simp: set_provider_cooldown_in_state_def bind_eq_Some put_row_eq Let_def split: if_splits)

lemma applied_SomeE:
  assumes "Some (s, \<lparr>ac_provider_source = x, ac_quota_key = y\<rparr>) = Some (t, a)"
  obtains "s = t" "x = ac_provider_source a" "y = ac_quota_key a"
  using assms by auto

text \<open>The steps of a cooldown write.\<close>

lemma set_cooldown_steps:
  assumes "set_cooldown_in_state p model e config st = Some (st', a)"
  obtains c s1 s2 s3 s4 s5 s6 s7 where
    "effective_config config e = Some c"
    "update_failure_stats p model (fe_reason e) (fe_attempt_reason e) (fe_origin e)
       (prune_provider_scoped_model_cooldowns_in_state st) = Some s1"
    "record_model_error_in_state p model (fe_reason e) (event_detail e) (fe_status e) (fe_request_id e)
       (fe_profile_id e) s1 = Some s2"
    "(if cp_record_provider_error (cooldown_policy_for_reason (fe_reason e) (source_of model))
      then record_provider_error_in_state p model (fe_reason e) (event_detail e) (fe_status e) (fe_request_id e) s2
      else Some s2) = Some s3"
    "(if cp_quota_cooldown (cooldown_policy_for_reason (fe_reason e) (source_of model))
      then set_quota_cooldown_in_state p model c (event_detail e) plain_quota_write s3
      else Some (s3, [])) = Some (s4, ac_quota_key a)"
    "(if cp_provider_cooldown (cooldown_policy_for_reason (fe_reason e) (source_of model))
      then set_provider_cooldown_in_state p
             (cp_provider_cooldown_source (cooldown_policy_for_reason (fe_reason e) (source_of model)))
             (fe_reason e) c (event_detail e) s4
      else Some (s4, [])) = Some (s5, ac_provider_source a)"
    "apply_quarantine p model (event_detail e)
       (cp_quarantine (cooldown_policy_for_reason (fe_reason e) (source_of model))) s5 = Some s6"
    "(if fe_reason e = ''request_too_large''
      then record_request_token_limit_in_state p model (event_detail e) s6 else Some s6) = Some s7"
    "(if cp_model_cooldown (cooldown_policy_for_reason (fe_reason e) (source_of model))
      then write_model_cooldown p model e c s7 else Some s7) = Some st'"
  using assms unfolding set_cooldown_in_state_def Let_def
  by (elim bind_SomeE case_prod_SomeE applied_SomeE) (hypsubst, rule that; assumption)

lemma write_model_cooldown_frame:
  "write_model_cooldown p model e c st = Some st' \<Longrightarrow> k \<noteq> ''cooldowns'' \<Longrightarrow> dget st' k = dget st k"
  by (auto simp: write_model_cooldown_def bind_eq_Some put_row_eq Let_def split: if_splits)

lemma quarantine_none [simp]: "apply_quarantine p model detail None st = Some st"
  by (simp add: apply_quarantine_def)

text \<open>
  What the four blocking sections hold after a cooldown write, by the policy of the reason: a
  scope the policy does not name is left as it was, apart from the legacy rows every write
  prunes.
\<close>

lemma set_cooldown_scopes:
  assumes run: "set_cooldown_in_state p model e config st = Some (st', a)"
    and pol: "policy = cooldown_policy_for_reason (fe_reason e) (source_of model)"
  shows "\<not> cp_model_cooldown policy \<Longrightarrow> section_of st' ''cooldowns''
           = section_of (prune_provider_scoped_model_cooldowns_in_state st) ''cooldowns''"
    and "cp_quarantine policy = None \<Longrightarrow> section_of st' ''quarantine'' = section_of st ''quarantine''"
    and "\<not> cp_quota_cooldown policy \<Longrightarrow>
           section_of st' ''quota_cooldowns'' = section_of st ''quota_cooldowns'' \<and> ac_quota_key a = []"
    and "\<not> cp_provider_cooldown policy \<Longrightarrow>
           section_of st' ''provider_cooldowns'' = section_of st ''provider_cooldowns'' \<and> ac_provider_source a = []"
proof -
  obtain c s1 s2 s3 s4 s5 s6 s7 where
    s1: "update_failure_stats p model (fe_reason e) (fe_attempt_reason e) (fe_origin e)
       (prune_provider_scoped_model_cooldowns_in_state st) = Some s1"
    and s2: "record_model_error_in_state p model (fe_reason e) (event_detail e) (fe_status e) (fe_request_id e)
       (fe_profile_id e) s1 = Some s2"
    and s3: "(if cp_record_provider_error policy
      then record_provider_error_in_state p model (fe_reason e) (event_detail e) (fe_status e) (fe_request_id e) s2
      else Some s2) = Some s3"
    and s4: "(if cp_quota_cooldown policy
      then set_quota_cooldown_in_state p model c (event_detail e) plain_quota_write s3
      else Some (s3, [])) = Some (s4, ac_quota_key a)"
    and s5: "(if cp_provider_cooldown policy
      then set_provider_cooldown_in_state p (cp_provider_cooldown_source policy)
             (fe_reason e) c (event_detail e) s4
      else Some (s4, [])) = Some (s5, ac_provider_source a)"
    and s6: "apply_quarantine p model (event_detail e) (cp_quarantine policy) s5 = Some s6"
    and s7: "(if fe_reason e = ''request_too_large''
      then record_request_token_limit_in_state p model (event_detail e) s6 else Some s6) = Some s7"
    and s8: "(if cp_model_cooldown policy then write_model_cooldown p model e c s7 else Some s7) = Some st'"
    by (rule set_cooldown_steps[OF run, folded pol]) (rule that)
  have f1: "dget s1 k = dget (prune_provider_scoped_model_cooldowns_in_state st) k" if "k \<noteq> ''stats''" for k
    using failure_stats.frame[OF s1 that] .
  have f2: "dget s2 k = dget s1 k" if "k \<noteq> ''model_errors''" for k
    using model_error_row.frame[OF s2 that] .
  have f3: "dget s3 k = dget s2 k" if "k \<noteq> ''provider_errors''" for k
    using s3 provider_error_row.frame[OF _ that] by (auto split: if_splits)
  have f4: "dget s4 k = dget s3 k" if "k \<notin> {''provider_stats'', ''quota_cooldowns''}" for k
    using s4 set_quota_cooldown_frame[OF _ that] by (auto split: if_splits)
  have f5: "dget s5 k = dget s4 k" if "k \<notin> {''provider_stats'', ''provider_cooldowns''}" for k
    using s5 set_provider_cooldown_frame[OF _ that] by (auto split: if_splits)
  have f6: "dget s6 k = dget s5 k" if "k \<noteq> ''quarantine''" for k
    using quarantine_write.frame[OF s6 that] .
  have f7: "dget s7 k = dget s6 k" if "k \<noteq> ''request_token_limits''" for k
    using s7 token_limit_row.frame[OF _ that] by (auto split: if_splits)
  have f8: "dget st' k = dget s7 k" if "k \<noteq> ''cooldowns''" for k
    using s8 write_model_cooldown_frame[OF _ that] by (auto split: if_splits)
  have pr: "dget (prune_provider_scoped_model_cooldowns_in_state st) k = dget st k" if "k \<noteq> ''cooldowns''" for k
    using that by (simp add: prune_provider_scoped_model_cooldowns_in_state_def)
  show "section_of st' ''cooldowns''
           = section_of (prune_provider_scoped_model_cooldowns_in_state st) ''cooldowns''"
    if "\<not> cp_model_cooldown policy"
  proof (rule section_of_same)
    have "st' = s7" using that s8 by simp
    then show "dget st' ''cooldowns'' = dget (prune_provider_scoped_model_cooldowns_in_state st) ''cooldowns''"
      by (simp add: f1 f2 f3 f4 f5 f6 f7)
  qed
  show "section_of st' ''quarantine'' = section_of st ''quarantine''" if "cp_quarantine policy = None"
  proof (rule section_of_same)
    have "s6 = s5" using that s6 by simp
    then show "dget st' ''quarantine'' = dget st ''quarantine''" by (simp add: f1 f2 f3 f4 f5 f7 f8 pr)
  qed
  show "section_of st' ''quota_cooldowns'' = section_of st ''quota_cooldowns'' \<and> ac_quota_key a = []"
    if "\<not> cp_quota_cooldown policy"
  proof (intro conjI section_of_same)
    have e: "s4 = s3" "ac_quota_key a = []" using that s4 by simp_all
    then show "dget st' ''quota_cooldowns'' = dget st ''quota_cooldowns''" by (simp add: f1 f2 f3 f5 f6 f7 f8 pr)
    from e show "ac_quota_key a = []" by simp
  qed
  show "section_of st' ''provider_cooldowns'' = section_of st ''provider_cooldowns'' \<and> ac_provider_source a = []"
    if "\<not> cp_provider_cooldown policy"
  proof (intro conjI section_of_same)
    have e: "s5 = s4" "ac_provider_source a = []" using that s5 by simp_all
    then show "dget st' ''provider_cooldowns'' = dget st ''provider_cooldowns''" by (simp add: f1 f2 f3 f4 f6 f7 f8 pr)
    from e show "ac_provider_source a = []" by simp
  qed
qed

section \<open>A provider-scoped failure\<close>

lemma configured_seconds_explicit:
  assumes "explicit_retry e = Some s" "effective_config config e = Some c"
  shows "configured_seconds c (fe_reason e) = Some s"
  using assms
  by (auto simp: effective_config_def configured_seconds_def explicit_retry_def bind_eq_Some por_def
      split: option.splits if_splits)

text \<open>The configuration gives every cooldown a number: what the operations need not to raise.\<close>

definition config_ok :: "pydict \<Rightarrow> string \<Rightarrow> bool" where
  "config_ok config reason \<longleftrightarrow> configured_seconds config reason \<noteq> None"

lemma effective_config_ok:
  assumes "config_ok config (fe_reason e)"
  shows "\<exists>c. effective_config config e = Some c \<and> config_ok c (fe_reason e)"
proof (cases "explicit_retry e")
  case None
  with assms show ?thesis by (simp add: effective_config_def)
next
  case (Some s)
  from assms obtain m where m: "or_empty (dget config ''cooldown_seconds'') = Some m"
    by (auto simp: config_ok_def configured_seconds_def elim: bind_SomeE)
  with Some obtain c where c: "effective_config config e = Some c" by (simp add: effective_config_def)
  with configured_seconds_explicit[OF Some c] show ?thesis by (simp add: config_ok_def)
qed

lemma prune_keeps_ok: "state_ok st \<Longrightarrow> state_ok (prune_provider_scoped_model_cooldowns_in_state st)"
  by (simp add: state_ok_def prune_provider_scoped_model_cooldowns_in_state_def section_of_on_sub)

lemma write_model_cooldown_runs:
  assumes "state_ok st" "config_ok c (fe_reason e)"
  shows "\<exists>st'. write_model_cooldown p model e c st = Some st' \<and> state_ok st'"
proof -
  have "section_ok st ''cooldowns''" by (rule state_ok_section[OF assms(1)]) (simp add: STATE_SECTIONS_def)
  with assms state_ok_dset_section[OF assms(1), of "''cooldowns''"] show ?thesis
    by (auto simp: write_model_cooldown_def config_ok_def put_row_eq Let_def)
qed

lemma cond_runs:
  assumes "b \<Longrightarrow> \<exists>y. f = Some y \<and> Q y" "\<not> b \<Longrightarrow> \<exists>y. g = Some y \<and> Q y"
  shows "\<exists>y. (if b then f else g) = Some y \<and> Q y"
  using assms by auto

lemma bind_runs:
  assumes "\<exists>x. m = Some x \<and> P x" "\<And>x. P x \<Longrightarrow> \<exists>y. f x = Some y \<and> Q y"
  shows "\<exists>y. (m \<bind> f) = Some y \<and> Q y"
  using assms by fastforce

lemma bind_pair_runs:
  assumes "\<exists>x. m = Some x \<and> P (fst x)" "\<And>a b. P a \<Longrightarrow> \<exists>y. f a b = Some y \<and> Q y"
  shows "\<exists>y. (m \<bind> (\<lambda>(a, b). f a b)) = Some y \<and> Q y"
  using assms by fastforce

lemma set_cooldown_runs:
  assumes ok: "state_ok st" and cfg: "config_ok config (fe_reason e)"
  shows "\<exists>sa. set_cooldown_in_state p model e config st = Some sa \<and> state_ok (fst sa)"
proof -
  obtain c where c: "effective_config config e = Some c" "config_ok c (fe_reason e)"
    using effective_config_ok[OF cfg] by blast
  have quota: "state_ok s \<Longrightarrow> \<exists>x. set_quota_cooldown_in_state p model c d w s = Some x \<and> state_ok (fst x)" for s d w
    using set_quota_cooldown_runs by fastforce
  have provider: "state_ok s \<Longrightarrow>
      \<exists>x. set_provider_cooldown_in_state p src (fe_reason e) c d s = Some x \<and> state_ok (fst x)" for s d src
    using set_provider_cooldown_runs c(2) unfolding config_ok_def by fastforce
  have skip: "state_ok s \<Longrightarrow> \<exists>x. Some (s, k) = Some x \<and> state_ok (fst x)" for s and k :: string
    by simp
  show ?thesis
    unfolding set_cooldown_in_state_def Let_def c(1) Option.bind.bind_lunit
    apply (rule bind_runs[where P = state_ok], rule failure_stats.runs, rule prune_keeps_ok, rule ok)
    apply (rule bind_runs[where P = state_ok], erule model_error_row.runs)
    apply (rule bind_runs[where P = state_ok], rule cond_runs, erule provider_error_row.runs, simp)
    apply (rule bind_pair_runs[where P = state_ok], rule cond_runs, erule quota, erule skip)
    apply (rule bind_pair_runs[where P = state_ok], rule cond_runs, erule provider, erule skip)
    apply (rule bind_runs[where P = state_ok], erule quarantine_write.runs)
    apply (rule bind_runs[where P = state_ok], rule cond_runs, erule token_limit_row.runs, simp)
    apply (rule bind_runs[where P = state_ok], rule cond_runs, erule write_model_cooldown_runs, rule c(2), simp)
    apply simp
    done
qed

lemma provider_scoped_policy:
  assumes "reason \<in> set PROVIDER_SCOPED_COOLDOWN_REASONS"
  shows "cooldown_policy_for_reason reason source =
    \<lparr>cp_record_provider_error = True, cp_provider_cooldown = True, cp_provider_cooldown_source = strip source,
     cp_quota_cooldown = False, cp_quarantine = None, cp_model_cooldown = False\<rparr>"
  using assms
  by (auto simp: PROVIDER_SCOPED_COOLDOWN_REASONS_def cooldown_policy_for_reason_def Let_def base_policy_def
      NO_MODEL_FAULT_FAILURE_REASONS_def)

lemma no_fault_policy:
  assumes "reason \<in> set NO_MODEL_FAULT_FAILURE_REASONS"
  shows "cooldown_policy_for_reason reason source =
    \<lparr>cp_record_provider_error = False, cp_provider_cooldown = False, cp_provider_cooldown_source = [],
     cp_quota_cooldown = False, cp_quarantine = None, cp_model_cooldown = False\<rparr>"
  using assms
  by (auto simp: NO_MODEL_FAULT_FAILURE_REASONS_def cooldown_policy_for_reason_def Let_def base_policy_def)

text \<open>The row a provider-scoped failure leaves.\<close>

lemma provider_scoped_row:
  assumes run: "set_cooldown_in_state p model e config st = Some (st', a)"
    and reason: "fe_reason e \<in> set PROVIDER_SCOPED_COOLDOWN_REASONS"
    and source: "source_of model \<noteq> []"
  shows "\<exists>c seconds. effective_config config e = Some c \<and> configured_seconds c (fe_reason e) = Some seconds \<and>
      dget (section_of st' ''provider_cooldowns'') (source_of model)
        = PDict (provider_cooldown_row p (fe_reason e) seconds (event_detail e))"
    and "ac_provider_source a = source_of model"
proof -
  note pol = provider_scoped_policy[OF reason, of "source_of model"]
  from run obtain c s4 s5 where
    c: "effective_config config e = Some c"
    and s5: "set_provider_cooldown_in_state p (source_of model) (fe_reason e) c (event_detail e) s4
        = Some (s5, ac_provider_source a)"
    and st': "st' = s5 \<or> fe_reason e = ''request_too_large''"
    by (rule set_cooldown_steps) (auto simp: pol split: if_splits)
  have "st' = s5"
    using st' reason by (auto simp: PROVIDER_SCOPED_COOLDOWN_REASONS_def)
  moreover have "strip (source_of model) \<noteq> []" using source by simp
  ultimately show "\<exists>c seconds. effective_config config e = Some c \<and> configured_seconds c (fe_reason e) = Some seconds \<and>
      dget (section_of st' ''provider_cooldowns'') (source_of model)
        = PDict (provider_cooldown_row p (fe_reason e) seconds (event_detail e))"
    and "ac_provider_source a = source_of model"
    using set_provider_cooldown_row[OF s5] c by auto
qed

lemma provider_row_blocks:
  assumes "dget (section_of st ''provider_cooldowns'') source
      = PDict (provider_cooldown_row p reason seconds detail)"
    and "0 < seconds" "reason \<noteq> []"
  shows "provider_on_cooldown p source st = Some (Some reason)"
  using assms by (simp add: provider_on_cooldown_def provider_cooldown_row_def por_def)

section \<open>What a success lifts\<close>

lemma dget_filter_pairs:
  assumes "wf_dict d"
  shows "dget (filter (\<lambda>(k, v). P k v) d) k = (if P k (dget d k) then dget d k else PNone)"
  using map_of_filter_wf[OF assms, of P k] by (auto simp: dget_def split: option.splits)

lemma dget_lift_if_predates:
  "dget (lift_if_predates key started d) k =
     (if k = key \<and> cooldown_predates_request (dget d key) started then PNone else dget d k)"
  by (auto simp: lift_if_predates_def)

lemma dget_self_heal:
  "dget (self_heal_quarantine key started q) k =
     (if k = key \<and> is_dict (dget q key) \<and> text_of (as_dict (dget q key)) ''reason'' = ''model_not_found''
         \<and> cooldown_predates_request (dget q key) started
      then PNone else dget q k)"
  by (cases "dget q key") (auto simp: self_heal_quarantine_def)

lemma section_of_on_sub_eq:
  "section_of (on_sub sec f st) k =
     (if k = sec then (if is_dict (dget st sec) then f (section_of st sec) else []) else section_of st k)"
  by (auto simp: section_of_on_sub) (auto simp: section_of_def as_dict_not_dict)

lemma dget_section_on_sub:
  assumes "f [] = []"
  shows "section_of (on_sub sec f st) sec = f (section_of st sec)"
  using assms by (auto simp: section_of_on_sub_eq) (auto simp: section_of_def as_dict_not_dict)

lemma lift_if_predates_empty [simp]: "lift_if_predates key started [] = []"
  by (simp add: lift_if_predates_def)

lemma lift_quota_empty [simp]: "lift_quota_blocks model started [] = []"
  by (simp add: lift_quota_blocks_def)

lemma self_heal_empty [simp]: "self_heal_quarantine key started [] = []"
  by (simp add: self_heal_quarantine_def)

lemma section_of_clear_provider_error:
  "k \<noteq> ''provider_errors'' \<Longrightarrow> section_of (clear_provider_error_in_state source st) k = section_of st k"
  by (simp add: clear_provider_error_in_state_def section_of_on_sub_eq)

lemma section_of_clear_model_error:
  "k \<noteq> ''model_errors'' \<Longrightarrow> section_of (clear_model_error_in_state model st) k = section_of st k"
  by (simp add: clear_model_error_in_state_def section_of_on_sub_eq)

lemma section_of_on_sub_total:
  "f [] = [] \<Longrightarrow> section_of (on_sub sec f st) k = (if k = sec then f (section_of st sec) else section_of st k)"
  using dget_section_on_sub[of f sec st] section_of_on_sub_eq[of sec f st k] by auto

lemma section_of_lift_model_block:
  "section_of (lift_model_block model origin started st) k =
     (if origin = FAILURE_ORIGIN_REQUEST \<and> k = ''cooldowns''
      then lift_if_predates (cooldown_key model) started (section_of st k) else section_of st k)"
  by (auto simp: lift_model_block_def section_of_on_sub_total)

lemma section_of_lift_provider_block:
  "section_of (lift_provider_block model origin started st) k =
     (if origin = FAILURE_ORIGIN_REQUEST \<and> source_of model \<noteq> [] \<and> k = ''provider_cooldowns''
      then lift_if_predates (source_of model) started (section_of st k) else section_of st k)"
  by (auto simp: lift_provider_block_def section_of_on_sub_total)

lemma section_of_heal_provider_error:
  "k \<noteq> ''provider_errors'' \<Longrightarrow> section_of (heal_provider_error p model started st) k = section_of st k"
  by (simp add: heal_provider_error_def Let_def section_of_clear_provider_error)

lemma section_of_heal_model_error:
  "k \<noteq> ''model_errors'' \<Longrightarrow> section_of (heal_model_error model started st) k = section_of st k"
  by (simp add: heal_model_error_def section_of_clear_model_error)

lemmas lift_sections = section_of_lift_model_block section_of_lift_provider_block
  section_of_heal_provider_error section_of_heal_model_error section_of_on_sub_total

lemma lift_on_success_sections:
  "section_of (lift_on_success p model origin started st) ''cooldowns'' =
     (if origin = FAILURE_ORIGIN_REQUEST
      then lift_if_predates (cooldown_key model) started (section_of st ''cooldowns'')
      else section_of st ''cooldowns'')"
  "section_of (lift_on_success p model origin started st) ''provider_cooldowns'' =
     (if origin = FAILURE_ORIGIN_REQUEST \<and> source_of model \<noteq> []
      then lift_if_predates (source_of model) started (section_of st ''provider_cooldowns'')
      else section_of st ''provider_cooldowns'')"
  "section_of (lift_on_success p model origin started st) ''quota_cooldowns'' =
     lift_quota_blocks model started (section_of st ''quota_cooldowns'')"
  "section_of (lift_on_success p model origin started st) ''quarantine'' =
     self_heal_quarantine (cooldown_key model) started (section_of st ''quarantine'')"
  unfolding lift_on_success_def by (simp_all add: lift_sections)

lemma lift_on_success_ok:
  assumes "state_ok st"
  shows "state_ok (lift_on_success p model origin started st)"
proof -
  have ok: "state_ok (on_sub sec f s)" if "state_ok s" "sec \<notin> {''stats'', ''provider_stats''}" for s sec f
    using that by (auto simp: state_ok_def section_of_on_sub_eq)
  have "state_ok (heal_provider_error p model started s)" "state_ok (heal_model_error model started s)"
    "state_ok (lift_model_block model origin started s)" "state_ok (lift_provider_block model origin started s)"
    if "state_ok s" for s
    using that
    by (simp_all add: heal_provider_error_def heal_model_error_def clear_provider_error_in_state_def
        clear_model_error_in_state_def lift_model_block_def lift_provider_block_def Let_def ok)
  with assms show ?thesis by (simp add: lift_on_success_def ok)
qed

lemma record_success_steps:
  assumes "record_success_in_state p model latency origin fd started st = Some st'"
  obtains s1 s2 where
    "put_row ''successes'' (cooldown_key model)
       [(''last_success_at'', PStr (now_iso p)),
        (''latency_seconds'', case latency of None \<Rightarrow> PNone | Some l \<Rightarrow> PReal l)] st = Some s1"
    "update_success_stats p model latency origin fd
       (lift_on_success p model origin (success_started_at p started latency) s1) = Some s2"
    "(if source_of model = [] then Some s2
      else update_provider_success_stats p (source_of model) latency s2) = Some st'"
  using assms unfolding record_success_in_state_def by (elim bind_SomeE) (rule that; assumption)

lemma record_success_runs:
  assumes "state_ok st"
  shows "\<exists>st'. record_success_in_state p model latency origin fd started st = Some st' \<and> state_ok st'"
  unfolding record_success_in_state_def
  apply (rule bind_runs[where P = state_ok], rule success_row.runs, rule assms)
  apply (rule bind_runs[where P = state_ok], rule success_stats.runs, erule lift_on_success_ok)
  apply (rule cond_runs, simp, erule provider_success_stats.runs)
  done

text \<open>A success writes nothing into the four blocking sections; it only lifts.\<close>

lemma record_success_sections:
  assumes "record_success_in_state p model latency origin fd started st = Some st'"
    and "k \<in> {''cooldowns'', ''provider_cooldowns'', ''quota_cooldowns'', ''quarantine''}"
  shows "section_of st' k
    = section_of (lift_on_success p model origin (success_started_at p started latency) st) k"
proof -
  let ?started = "success_started_at p started latency"
  obtain s1 s2 where
    s1: "put_row ''successes'' (cooldown_key model)
       [(''last_success_at'', PStr (now_iso p)),
        (''latency_seconds'', case latency of None \<Rightarrow> PNone | Some l \<Rightarrow> PReal l)] st = Some s1"
    and s2: "update_success_stats p model latency origin fd (lift_on_success p model origin ?started s1) = Some s2"
    and s3: "(if source_of model = [] then Some s2
      else update_provider_success_stats p (source_of model) latency s2) = Some st'"
    by (rule record_success_steps[OF assms(1)]) (rule that)
  have a: "section_of s1 j = section_of st j" if "j \<noteq> ''successes''" for j
    using success_row.section_frame[OF s1 that] .
  have b: "section_of s2 j = section_of (lift_on_success p model origin ?started s1) j" if "j \<noteq> ''stats''" for j
    using success_stats.section_frame[OF s2 that] .
  have c: "section_of st' j = section_of s2 j" if "j \<noteq> ''provider_stats''" for j
    using s3 provider_success_stats.section_frame[OF _ that] by (auto split: if_splits)
  have "section_of st' k = section_of (lift_on_success p model origin ?started s1) k"
    using assms(2) by (auto simp: b c)
  also have "\<dots> = section_of (lift_on_success p model origin ?started st) k"
    using assms(2) by (auto simp: lift_on_success_sections a)
  finally show ?thesis .
qed

lemma dget_heal_error_other:
  "k \<noteq> ''provider_errors'' \<Longrightarrow> dget (heal_provider_error p model started st) k = dget st k"
  "k \<noteq> ''model_errors'' \<Longrightarrow> dget (heal_model_error model started st) k = dget st k"
  by (simp_all add: heal_provider_error_def heal_model_error_def clear_provider_error_in_state_def
      clear_model_error_in_state_def Let_def)

lemma section_ok_lift: "section_ok st k \<Longrightarrow> section_ok (lift_on_success p model origin started st) k"
  by (simp add: lift_on_success_def heal_provider_error_def heal_model_error_def Let_def
      clear_provider_error_in_state_def clear_model_error_in_state_def lift_model_block_def lift_provider_block_def)

lemma section_ok_put_row: "put_row sec key row st = Some st' \<Longrightarrow> section_ok st k \<Longrightarrow> section_ok st' k"
  by (auto simp: put_row_eq split: if_splits)

lemma section_ok_on_record: "on_record sec key f st = Some st' \<Longrightarrow> section_ok st k \<Longrightarrow> section_ok st' k"
  by (auto simp: on_record_eq split: if_splits)

lemma record_success_keeps_section:
  assumes "record_success_in_state p model latency origin fd started st = Some st'" "section_ok st k"
  shows "section_ok st' k"
  by (rule record_success_steps[OF assms(1)])
     (use assms(2) in \<open>auto simp: update_success_stats_def update_provider_success_stats_def
        dest!: section_ok_put_row section_ok_on_record intro: section_ok_lift split: if_splits\<close>)

section \<open>Properties\<close>

definition example_model :: pydict where
  "example_model = [(''id'', PStr ''m1''), (''source'', PStr ''groq''), (''upstream_id'', PStr ''llama'')]"

definition example_config :: pydict where
  "example_config = [(''cooldown_seconds'', PDict [(''rate_limited'', PInt 900)])]"

definition example_failure :: "string \<Rightarrow> failure_event" where
  "example_failure reason =
     \<lparr>fe_reason = reason, fe_detail = PNone, fe_status = PInt 429, fe_request_id = PNone, fe_profile_id = PNone,
      fe_retry_after_seconds = None, fe_retry_after_source = PNone, fe_attempt_reason = [],
      fe_origin = FAILURE_ORIGIN_REQUEST\<rparr>"

definition example_sibling :: pydict where
  "example_sibling = [(''id'', PStr ''m2''), (''source'', PStr ''groq'')]"

lemma example_sibling_source [simp]: "text_of example_sibling ''source'' = ''groq''"
  by (simp add: example_sibling_def text_of_def por_def)

lemma example_strip [simp]: "strip ''groq'' = ''groq''"
  by (simp add: strip_def lstrip_def is_space_def)

lemma example_source [simp]: "text_of example_model ''source'' = ''groq''" "source_of example_model = ''groq''"
  by (simp_all add: example_model_def text_of_def por_def strip_def lstrip_def is_space_def)

lemma example_config_ok: "config_ok example_config ''rate_limited''" "config_ok example_config ''bad_upstream_request''"
  by (simp_all add: config_ok_def example_config_def configured_seconds_def por_def)



text \<open>C22. One blocking scope: a provider-scoped failure (a rate limit, a rejected key, a TLS or
  network failure) blocks the provider and nothing else. The model cooldowns are those left by
  the legacy prune, quota pools and quarantine are untouched, the write reports the source it
  blocked, and every model of that source now reads as blocked by its provider.\<close>

theorem provider_failure_blocks_the_provider_only:
  assumes "set_cooldown_in_state p model e config st = Some (st', a)"
    and "fe_reason e \<in> set PROVIDER_SCOPED_COOLDOWN_REASONS"
    and "effective_config config e = Some c" "configured_seconds c (fe_reason e) = Some n" "0 < n"
    and "source_of model \<noteq> []" "text_of sibling ''source'' = source_of model"
  shows "model_on_cooldown p sibling st' = Some (Some (''provider:'' @ fe_reason e))
       \<and> cooldown_block_scope (''provider:'' @ fe_reason e) = ''provider''
       \<and> a = \<lparr>ac_provider_source = source_of model, ac_quota_key = []\<rparr>
       \<and> section_of st' ''cooldowns''
           = section_of (prune_provider_scoped_model_cooldowns_in_state st) ''cooldowns''
       \<and> section_of st' ''quota_cooldowns'' = section_of st ''quota_cooldowns''
       \<and> section_of st' ''quarantine'' = section_of st ''quarantine''"
proof -
  note pol = provider_scoped_policy[OF assms(2), of "source_of model"]
  note scopes = set_cooldown_scopes[OF assms(1) refl, unfolded pol, simplified]
  have reason: "fe_reason e \<noteq> []" using assms(2) by (auto simp: PROVIDER_SCOPED_COOLDOWN_REASONS_def)
  from provider_scoped_row(1)[OF assms(1,2,6)] assms(3,4)
  have "dget (section_of st' ''provider_cooldowns'') (text_of sibling ''source'')
      = PDict (provider_cooldown_row p (fe_reason e) n (event_detail e))"
    by (auto simp: assms(7))
  from model_on_cooldown_provider_first[OF provider_row_blocks[OF this assms(5) reason]] reason
  have "model_on_cooldown p sibling st' = Some (Some (''provider:'' @ fe_reason e))" by simp
  moreover have "a = \<lparr>ac_provider_source = source_of model, ac_quota_key = []\<rparr>"
    using scopes provider_scoped_row(2)[OF assms(1,2,6)] by (cases a) simp
  ultimately show ?thesis using scopes by (simp add: cooldown_block_scope_def starts_with_def)
qed

lemma provider_failure_blocks_the_provider_only_witness:
  "\<exists>st' a. set_cooldown_in_state example_ports example_model (example_failure ''rate_limited'') example_config [] = Some (st', a)
     \<and> model_on_cooldown example_ports example_sibling st'
         = Some (Some ''provider:rate_limited'')
     \<and> section_of st' ''cooldowns'' = []"
proof -
  let ?e = "example_failure ''rate_limited''"
  obtain st' a where run: "set_cooldown_in_state example_ports example_model ?e example_config [] = Some (st', a)"
    using set_cooldown_runs[OF state_ok_empty, of example_config ?e] example_config_ok
    by (fastforce simp: example_failure_def)
  have eff: "effective_config example_config ?e = Some example_config"
    by (simp add: effective_config_def explicit_retry_def example_failure_def)
  have "configured_seconds example_config (fe_reason ?e) = Some 900" "(0::int) < 900"
    "fe_reason ?e \<in> set PROVIDER_SCOPED_COOLDOWN_REASONS" "source_of example_model \<noteq> []"
    "text_of example_sibling ''source'' = source_of example_model"
    by (simp_all only: example_source example_sibling_source example_strip)
       (simp_all add: configured_seconds_def example_config_def example_failure_def por_def
        PROVIDER_SCOPED_COOLDOWN_REASONS_def)
  from provider_failure_blocks_the_provider_only[OF run this(3) eff this(1,2,4,5)] run show ?thesis
    by (auto simp: example_failure_def prune_provider_scoped_model_cooldowns_in_state_def section_of_on_sub_eq)
qed

text \<open>A failure the model is not answerable for blocks nothing: no provider, no quota pool,
  no quarantine, no model, and the write reports that it blocked nothing.\<close>

theorem no_fault_failure_blocks_nothing:
  assumes "set_cooldown_in_state p model e config st = Some (st', a)"
    and "fe_reason e \<in> set NO_MODEL_FAULT_FAILURE_REASONS"
  shows "section_of st' ''cooldowns''
           = section_of (prune_provider_scoped_model_cooldowns_in_state st) ''cooldowns''
       \<and> section_of st' ''provider_cooldowns'' = section_of st ''provider_cooldowns''
       \<and> section_of st' ''quota_cooldowns'' = section_of st ''quota_cooldowns''
       \<and> section_of st' ''quarantine'' = section_of st ''quarantine''
       \<and> a = \<lparr>ac_provider_source = [], ac_quota_key = []\<rparr>"
proof -
  note pol = no_fault_policy[OF assms(2), of "source_of model"]
  from set_cooldown_scopes[OF assms(1) refl, unfolded pol] show ?thesis by (cases a) simp
qed

lemma no_fault_failure_blocks_nothing_witness:
  "\<exists>st' a. set_cooldown_in_state example_ports example_model (example_failure ''bad_upstream_request'') example_config [] = Some (st', a)
     \<and> section_of st' ''cooldowns'' = [] \<and> a = \<lparr>ac_provider_source = [], ac_quota_key = []\<rparr>"
proof -
  let ?e = "example_failure ''bad_upstream_request''"
  obtain st' a where run: "set_cooldown_in_state example_ports example_model ?e example_config [] = Some (st', a)"
    using set_cooldown_runs[OF state_ok_empty, of example_config ?e] example_config_ok
    by (fastforce simp: example_failure_def)
  have "fe_reason ?e \<in> set NO_MODEL_FAULT_FAILURE_REASONS"
    by (simp add: example_failure_def NO_MODEL_FAULT_FAILURE_REASONS_def)
  from no_fault_failure_blocks_nothing[OF run this] run show ?thesis
    by (auto simp: prune_provider_scoped_model_cooldowns_in_state_def section_of_on_sub_eq)
qed



text \<open>C25. A request that succeeds puts its model back in the pool: when the blocks on it were
  all written before the request started, nothing blocks the model afterwards.\<close>

theorem success_reopens_the_model:
  assumes "record_success_in_state p model latency FAILURE_ORIGIN_REQUEST fd started st = Some st'"
    and "began = success_started_at p started latency"
    and "0 \<le> now_seconds p" "section_ok st ''cooldowns''" "source_of model \<noteq> []" "text_of model ''source'' = source_of model"
    and "cooldown_predates_request (dget (section_of st ''cooldowns'') (cooldown_key model)) began"
    and "cooldown_predates_request (dget (section_of st ''provider_cooldowns'') (source_of model)) began"
    and "\<forall>(key, raw) \<in> set (section_of st ''quota_cooldowns'').
           quota_cooldown_matches_model key model \<longrightarrow> cooldown_predates_request raw began"
  shows "model_on_cooldown p model st' = Some None"
proof -
  note sec = record_success_sections[OF assms(1), folded assms(2)]
  have prov: "provider_on_cooldown p (text_of model ''source'') st' = Some None"
    using assms(3,5,6,8) by (simp add: provider_on_cooldown_def sec lift_on_success_sections dget_lift_if_predates)
  have "section_of st' ''quota_cooldowns'' = lift_quota_blocks model began (section_of st ''quota_cooldowns'')"
    by (simp add: sec lift_on_success_sections)
  then have quota: "\<not> list_ex (quota_row_blocks model) (section_of st' ''quota_cooldowns'')"
    using assms(9) by (fastforce simp: list_ex_iff lift_quota_blocks_def quota_row_blocks_def)
  have cd: "section_of st' ''cooldowns'' = lift_if_predates (cooldown_key model) began (section_of st ''cooldowns'')"
    by (simp add: sec lift_on_success_sections)
  have "section_ok st' ''cooldowns''"
    using record_success_keeps_section[OF assms(1,4)] .
  from or_empty_section[OF this] cd assms(3,7) show ?thesis
    by (simp add: model_on_cooldown_def prov quota dget_lift_if_predates)
qed

lemma success_reopens_the_model_witness:
  "\<exists>st'. record_success_in_state example_ports example_model (Some 5) FAILURE_ORIGIN_REQUEST PNone None
       [(''cooldowns'', PDict [(''groq::llama'', PDict [(''until'', PReal 2000000), (''set_at_ts'', PReal 10)])])] = Some st'
     \<and> model_on_cooldown example_ports example_model st' = Some None"
proof -
  let ?st = "[(''cooldowns'', PDict [(''groq::llama'', PDict [(''until'', PReal 2000000), (''set_at_ts'', PReal 10)])])]"
  have ok: "state_ok ?st" by (simp add: state_ok_def STATE_SECTIONS_def section_ok_def section_of_def)
  then obtain st' where run:
    "record_success_in_state example_ports example_model (Some 5) FAILURE_ORIGIN_REQUEST PNone None ?st = Some st'"
    using record_success_runs by blast
  have "cooldown_key example_model = ''groq::llama''" by (simp add: cooldown_key_def example_model_def)
  then have "cooldown_predates_request (dget (section_of ?st ''cooldowns'') (cooldown_key example_model))
      (success_started_at example_ports None (Some 5))"
    by (simp add: section_of_def cooldown_predates_request_def success_started_at_def written_at_def
        example_ports_def)
  moreover have "cooldown_predates_request (dget (section_of ?st ''provider_cooldowns'') k) t" for k t
    by (simp add: section_of_def cooldown_predates_request_def split: option.splits)
  moreover have "section_ok ?st ''cooldowns''" "section_of ?st ''quota_cooldowns'' = []"
    "0 \<le> now_seconds example_ports"
    by (simp_all add: section_ok_def section_of_def example_ports_def)
  ultimately have "model_on_cooldown example_ports example_model st' = Some None"
    by (intro success_reopens_the_model[OF run refl]) (simp_all only: example_source example_strip list.set ball_empty simp_thms list.distinct not_False_eq_True)
  with run show ?thesis by blast
qed

end
