(* ===== verification/RoutingPolicy.thy ===== *)
theory RoutingPolicy
  imports CooldownBase
begin

text \<open>
  Which models a virtual model may route to (\<open>routing_policy.py\<close>): the hard requirements of a
  profile, the two early denials capability discovery uses so as not to probe what routing
  would refuse, what a profile publishes about itself, and the competence gate with its
  anti-empty fallback. \<open>safe_int\<close> is the function of the same body in \<open>CooldownBase\<close>; the
  free-access test and the gate's predicates are ports. Iterating a value that is no
  collection raises.
\<close>

section \<open>Fields of a catalog row\<close>

fun iter_items :: "pv \<Rightarrow> pv list option" where
  "iter_items (PList xs) = Some xs"
| "iter_items (PStr s) = Some (map (\<lambda>c. PStr [c]) s)"
| "iter_items (PDict d) = Some (map (PStr \<circ> fst) d)"
| "iter_items _ = None"

definition safe_string_list :: "pv \<Rightarrow> string list" where
  "safe_string_list v = filter (\<lambda>t. t \<noteq> []) (map (\<lambda>item. strip (py_str item)) (as_list v))"

text \<open>\<open>{str(item) for item in model.get(field, []) if str(item)}\<close>.\<close>

definition field_values :: "pydict \<Rightarrow> string \<Rightarrow> string list option" where
  "field_values model fld =
     map_option (\<lambda>items. filter (\<lambda>t. t \<noteq> []) (map py_str items)) (iter_items (dget_or model fld (PList [])))"

definition model_has_any :: "pydict \<Rightarrow> string \<Rightarrow> string list \<Rightarrow> bool option" where
  "model_has_any model fld values =
     map_option (\<lambda>current. list_ex (\<lambda>v. v \<in> set current) values) (field_values model fld)"

definition model_has_all :: "pydict \<Rightarrow> string \<Rightarrow> string list \<Rightarrow> bool option" where
  "model_has_all model fld values =
     map_option (\<lambda>current. list_all (\<lambda>v. v \<in> set current) values) (field_values model fld)"

section \<open>Early denials\<close>

definition catalog_denies_input_modality :: "pydict \<Rightarrow> pydict \<Rightarrow> bool \<Rightarrow> bool option" where
  "catalog_denies_input_modality model requirements may_come_from_defaults =
     (let required_all = safe_string_list (dget requirements ''input_modalities'');
          required_any = safe_string_list (dget requirements ''input_modalities_any'')
      in if required_all = [] \<and> required_any = [] then Some False
         else if may_come_from_defaults \<or> safe_string_list (dget model ''input_modalities'') = [] then Some False
         else do {
           all \<leftarrow> (if required_all = [] then Some True
                  else model_has_all model ''input_modalities'' required_all);
           if \<not> all then Some True
           else if required_any = [] then Some False
           else map_option Not (model_has_any model ''input_modalities'' required_any)
         })"

definition catalog_denies_structured_output :: "pydict \<Rightarrow> pydict \<Rightarrow> bool \<Rightarrow> bool" where
  "catalog_denies_structured_output model requirements may_come_from_defaults \<longleftrightarrow>
     dget requirements ''structured'' = PBool True \<and> \<not> may_come_from_defaults \<and>
     dget model ''supports_structured_outputs'' = PBool False"

section \<open>The requirements of a profile\<close>

definition profile_excluded_model_ids :: "pydict \<Rightarrow> string list option" where
  "profile_excluded_model_ids profile =
     map_option (map py_str) (iter_items (por (dget profile ''excluded_models'') (PList [])))"

definition model_excluded_from_profile :: "pydict \<Rightarrow> pydict \<Rightarrow> bool option" where
  "model_excluded_from_profile model profile =
     (let model_id = text_of model ''id'' in
      if model_id = [] then Some False
      else map_option (\<lambda>ids. model_id \<in> set ids) (profile_excluded_model_ids profile))"

definition requirements_of :: "pydict \<Rightarrow> pydict" where
  "requirements_of profile = as_dict (dget profile ''requirements'')"

definition required_list :: "pydict \<Rightarrow> string \<Rightarrow> string list" where
  "required_list requirements fld = safe_string_list (dget requirements fld)"

text \<open>One pair of list requirements: every value of the first, and one of the second when it is not empty.\<close>

definition lists_match :: "pydict \<Rightarrow> pydict \<Rightarrow> string \<Rightarrow> string \<Rightarrow> bool option" where
  "lists_match model requirements fld any_fld = do {
     all \<leftarrow> model_has_all model fld (required_list requirements fld);
     if \<not> all then Some False
     else if required_list requirements any_fld = [] then Some True
     else model_has_any model fld (required_list requirements any_fld)
   }"

definition flags_match :: "pydict \<Rightarrow> pydict \<Rightarrow> (pydict \<Rightarrow> bool) \<Rightarrow> bool" where
  "flags_match model requirements free_access_eligible \<longleftrightarrow>
     (truthy (dget_or requirements ''free'' (PBool True)) \<longrightarrow> free_access_eligible model) \<and>
     (truthy (dget_or requirements ''tools'' (PBool True)) \<longrightarrow> truthy (dget model ''supports_tools'')) \<and>
     (\<forall>b. dget requirements ''structured'' = PBool b \<longrightarrow> truthy (dget model ''supports_structured_outputs'') = b)"

lemma flags_match_code [code]:
  "flags_match model requirements free_access_eligible \<longleftrightarrow>
     (truthy (dget_or requirements ''free'' (PBool True)) \<longrightarrow> free_access_eligible model) \<and>
     (truthy (dget_or requirements ''tools'' (PBool True)) \<longrightarrow> truthy (dget model ''supports_tools'')) \<and>
     (case dget requirements ''structured'' of
        PBool b \<Rightarrow> truthy (dget model ''supports_structured_outputs'') = b | _ \<Rightarrow> True)"
  by (auto simp: flags_match_def split: pv.splits)

definition sizes_match :: "pydict \<Rightarrow> pydict \<Rightarrow> int \<Rightarrow> bool" where
  "sizes_match model requirements default_min_context \<longleftrightarrow>
     safe_int (dget requirements ''min_context'') default_min_context \<le> safe_int (dget model ''context_length'') 0 \<and>
     max 0 (safe_int (dget requirements ''min_completion_tokens'') 0)
       \<le> safe_int (dget model ''max_completion_tokens'') 0"

definition model_matches_profile_requirements ::
  "pydict \<Rightarrow> pydict \<Rightarrow> int \<Rightarrow> (pydict \<Rightarrow> bool) \<Rightarrow> bool option" where
  "model_matches_profile_requirements model profile default_min_context free_access_eligible = do {
     excluded \<leftarrow> model_excluded_from_profile model profile;
     let requirements = requirements_of profile;
     if excluded \<or> \<not> flags_match model requirements free_access_eligible then Some False
     else do {
       inputs \<leftarrow> lists_match model requirements ''input_modalities'' ''input_modalities_any'';
       if \<not> inputs then Some False
       else do {
         outputs \<leftarrow> lists_match model requirements ''output_modalities'' ''output_modalities_any'';
         if \<not> outputs then Some False
         else do {
           params \<leftarrow> lists_match model requirements ''supported_parameters'' ''supported_parameters_any'';
           Some (params \<and> sizes_match model requirements default_min_context)
         }
       }
     }
   }"

section \<open>What a profile publishes\<close>

definition profile_capabilities :: "bool \<Rightarrow> bool \<Rightarrow> string list \<Rightarrow> string list" where
  "profile_capabilities tools structured input_modalities =
     [''completion''] @ (if tools then [''tools''] else []) @ (if structured then [''structured''] else [])
     @ (if ''image'' \<in> set input_modalities then [''vision''] else [])
     @ filter (\<lambda>m. m \<in> set input_modalities) [''audio'', ''video'']"

definition profile_capability_metadata :: "pydict \<Rightarrow> pydict" where
  "profile_capability_metadata requirements =
     (let input_modalities = sort (remdups (required_list requirements ''input_modalities''
                                            @ required_list requirements ''input_modalities_any''));
          supported_parameters = sort (remdups (required_list requirements ''supported_parameters''
                                            @ required_list requirements ''supported_parameters_any''));
          tools = truthy (dget_or requirements ''tools'' (PBool True));
          structured = (dget requirements ''structured'' = PBool True);
          min_completion_tokens = max 0 (safe_int (dget requirements ''min_completion_tokens'') 0)
      in [(''context_length'', PInt (safe_int (dget requirements ''min_context'') 0)),
          (''supports_tools'', PBool tools),
          (''supports_streaming'', PBool True),
          (''capabilities'', PList (map PStr (profile_capabilities tools structured input_modalities)))]
         @ (if min_completion_tokens \<noteq> 0 then [(''max_completion_tokens'', PInt min_completion_tokens)] else [])
         @ (if structured then [(''supports_structured_outputs'', PBool True)] else [])
         @ (if input_modalities \<noteq> [] then [(''input_modalities'', PList (map PStr input_modalities))] else [])
         @ (if supported_parameters \<noteq> [] then [(''supported_parameters'', PList (map PStr supported_parameters))] else []))"

section \<open>The competence gate\<close>

text \<open>The predicate the gate applies to a profile, if it is gated at all.\<close>

definition gate_predicate ::
  "string \<Rightarrow> (string \<Rightarrow> bool) \<Rightarrow> (string \<Rightarrow> bool) \<Rightarrow> ('m \<Rightarrow> bool) \<Rightarrow> ('m \<Rightarrow> bool) \<Rightarrow> ('m \<Rightarrow> bool) option" where
  "gate_predicate profile_id is_multimodal is_specialized multimodal_eligible profile_eligible =
     (if is_multimodal profile_id then Some multimodal_eligible
      else if is_specialized profile_id then Some profile_eligible
      else None)"

definition competence_gate_result ::
  "string \<Rightarrow> 'm list \<Rightarrow> (string \<Rightarrow> bool) \<Rightarrow> (string \<Rightarrow> bool) \<Rightarrow> ('m \<Rightarrow> bool) \<Rightarrow> ('m \<Rightarrow> bool) \<Rightarrow> 'm list \<times> bool" where
  "competence_gate_result profile_id candidates is_multimodal is_specialized multimodal_eligible profile_eligible =
     (case gate_predicate profile_id is_multimodal is_specialized multimodal_eligible profile_eligible of
        None \<Rightarrow> (candidates, False)
      | Some is_eligible \<Rightarrow>
          (let eligible = filter is_eligible candidates
           in if eligible \<noteq> [] then (eligible, False) else (candidates, candidates \<noteq> [])))"

record 'm competence_ports =
  is_multimodal_profile :: "string \<Rightarrow> bool"
  is_specialized_profile :: "string \<Rightarrow> bool"
  multimodal_route_eligible :: "'m \<Rightarrow> bool"
  multimodal_claimed_profiles :: "'m \<Rightarrow> string list"
  profile_verified :: "string \<Rightarrow> 'm \<Rightarrow> bool"
  profile_failed :: "string \<Rightarrow> 'm \<Rightarrow> bool"
  capability_is_default_claimed :: "string \<Rightarrow> 'm \<Rightarrow> bool"
  capability_reference_routable :: "string \<Rightarrow> 'm \<Rightarrow> bool"

definition competence_label :: "'m competence_ports \<Rightarrow> string \<Rightarrow> 'm \<Rightarrow> string" where
  "competence_label p profile_id model =
     (if is_multimodal_profile p profile_id then
        (if \<not> multimodal_route_eligible p model then ''failed''
         else if list_ex (\<lambda>profile. profile_verified p profile model) (multimodal_claimed_profiles p model)
         then ''verified'' else ''claimed_catalog'')
      else if \<not> is_specialized_profile p profile_id then ''n/a''
      else if profile_failed p profile_id model then ''failed''
      else if profile_verified p profile_id model then ''verified''
      else if \<not> capability_is_default_claimed p profile_id model then ''claimed_catalog''
      else if capability_reference_routable p profile_id model then ''claimed_reference''
      else ''claimed_default'')"

section \<open>What a match guarantees\<close>

lemma matches_SomeTrueD:
  assumes "model_matches_profile_requirements model profile dmc elig = Some True"
  shows "flags_match model (requirements_of profile) elig"
    and "lists_match model (requirements_of profile) ''input_modalities'' ''input_modalities_any'' = Some True"
    and "lists_match model (requirements_of profile) ''output_modalities'' ''output_modalities_any'' = Some True"
    and "lists_match model (requirements_of profile) ''supported_parameters'' ''supported_parameters_any'' = Some True"
    and "sizes_match model (requirements_of profile) dmc"
    and "model_excluded_from_profile model profile = Some False"
  using assms unfolding model_matches_profile_requirements_def Let_def
  by (auto elim!: bind_SomeE split: if_splits)

lemma lists_match_SomeTrueD:
  assumes "lists_match model req fld any_fld = Some True"
  shows "model_has_all model fld (required_list req fld) = Some True"
    and "required_list req any_fld \<noteq> [] \<Longrightarrow> model_has_any model fld (required_list req any_fld) = Some True"
  using assms unfolding lists_match_def by (auto elim!: bind_SomeE split: if_splits)

lemma model_has_all_mem:
  "model_has_all model fld vs = Some True \<Longrightarrow> v \<in> set vs \<Longrightarrow> \<exists>cur. field_values model fld = Some cur \<and> v \<in> set cur"
  by (auto simp: model_has_all_def list_all_iff)

text \<open>Discovery never probes what routing would refuse: a model denied for its declared
  input modalities, or for declaring no structured output, matches no profile with those
  requirements, whatever else the profile asks and whatever its free access.\<close>

theorem denied_models_are_never_routed:
  assumes "catalog_denies_input_modality model (requirements_of profile) defaults = Some True
         \<or> catalog_denies_structured_output model (requirements_of profile) defaults"
  shows "model_matches_profile_requirements model profile default_min_context elig \<noteq> Some True"
proof
  assume m: "model_matches_profile_requirements model profile default_min_context elig = Some True"
  note lists = lists_match_SomeTrueD[OF matches_SomeTrueD(2)[OF m]]
  show False
    using assms
  proof
    assume "catalog_denies_input_modality model (requirements_of profile) defaults = Some True"
    then show False
      using lists unfolding catalog_denies_input_modality_def Let_def required_list_def
      by (auto elim!: bind_SomeE split: if_splits)
  next
    assume "catalog_denies_structured_output model (requirements_of profile) defaults"
    with matches_SomeTrueD(1)[OF m] show False
      by (auto simp: catalog_denies_structured_output_def flags_match_def)
  qed
qed

definition example_image_profile :: pydict where
  "example_image_profile =
     [(''requirements'', PDict [(''input_modalities'', PList [PStr ''image'']), (''min_context'', PInt 0)])]"

lemma denied_models_are_never_routed_witness:
  "model_matches_profile_requirements [(''input_modalities'', PList [PStr ''text''])] example_image_profile 0 (\<lambda>_. True) \<noteq> Some True"
  by (rule denied_models_are_never_routed[where defaults = False])
     (simp add: example_image_profile_def requirements_of_def catalog_denies_input_modality_def
      safe_string_list_def strip_def lstrip_def is_space_def model_has_all_def field_values_def dget_or_def)

text \<open>What a profile publishes is kept by every model it routes to: its context floor, its
  tool and structured-output support, its completion floor, and each modality it requires
  outright.\<close>

theorem routed_models_keep_the_promises:
  assumes "model_matches_profile_requirements model profile default_min_context elig = Some True"
    and "0 \<le> default_min_context"
    and "published = profile_capability_metadata (requirements_of profile)"
  shows "(\<exists>n. dget published ''context_length'' = PInt n \<and> n \<le> safe_int (dget model ''context_length'') 0)
       \<and> (dget published ''supports_tools'' = PBool True \<longrightarrow> truthy (dget model ''supports_tools''))
       \<and> (dget published ''supports_structured_outputs'' = PBool True \<longrightarrow>
            truthy (dget model ''supports_structured_outputs''))
       \<and> (\<forall>n. dget published ''max_completion_tokens'' = PInt n \<longrightarrow> n \<le> safe_int (dget model ''max_completion_tokens'') 0)
       \<and> (\<forall>m \<in> set (required_list (requirements_of profile) ''input_modalities'').
            \<exists>cur. field_values model ''input_modalities'' = Some cur \<and> m \<in> set cur)"
proof -
  let ?req = "requirements_of profile"
  note facts = matches_SomeTrueD[OF assms(1)]
  have sizes: "safe_int (dget ?req ''min_context'') 0 \<le> safe_int (dget model ''context_length'') 0"
    "max 0 (safe_int (dget ?req ''min_completion_tokens'') 0) \<le> safe_int (dget model ''max_completion_tokens'') 0"
    using facts(5) assms(2) by (auto simp: sizes_match_def safe_int_def split: option.splits)
  have dget_append: "dget (xs @ ys) k = (if map_of xs k = None then dget ys k else dget xs k)" for xs ys :: pydict and k
    by (auto simp: dget_def map_add_def split: option.splits)
  have pub: "dget published ''context_length'' = PInt (safe_int (dget ?req ''min_context'') 0)"
    "dget published ''supports_tools'' = PBool (truthy (dget_or ?req ''tools'' (PBool True)))"
    "dget published ''supports_structured_outputs'' = (if dget ?req ''structured'' = PBool True then PBool True else PNone)"
    "dget published ''max_completion_tokens'' =
       (if max 0 (safe_int (dget ?req ''min_completion_tokens'') 0) \<noteq> 0
        then PInt (max 0 (safe_int (dget ?req ''min_completion_tokens'') 0)) else PNone)"
    by (simp_all add: assms(3) profile_capability_metadata_def Let_def dget_append)
  have "\<forall>m \<in> set (required_list ?req ''input_modalities'').
      \<exists>cur. field_values model ''input_modalities'' = Some cur \<and> m \<in> set cur"
    using model_has_all_mem[OF lists_match_SomeTrueD(1)[OF facts(2)]] by blast
  moreover have "\<forall>n. dget published ''max_completion_tokens'' = PInt n \<longrightarrow> n \<le> safe_int (dget model ''max_completion_tokens'') 0"
    using sizes(2) by (simp add: pub)
  moreover have "dget published ''supports_tools'' = PBool True \<longrightarrow> truthy (dget model ''supports_tools'')"
    "dget published ''supports_structured_outputs'' = PBool True \<longrightarrow> truthy (dget model ''supports_structured_outputs'')"
    using facts(1) by (simp_all add: pub flags_match_def)
  ultimately show ?thesis using sizes(1) pub(1) by blast
qed

definition example_image_model :: pydict where
  "example_image_model =
     [(''input_modalities'', PList [PStr ''image'']), (''supports_tools'', PBool True), (''context_length'', PInt 4096)]"

lemma example_image_match:
  "model_matches_profile_requirements example_image_model example_image_profile 0 (\<lambda>_. True) = Some True"
  by (simp add: model_matches_profile_requirements_def example_image_model_def example_image_profile_def
      requirements_of_def model_excluded_from_profile_def text_of_def por_def flags_match_def dget_or_def
      lists_match_def required_list_def safe_string_list_def strip_def lstrip_def is_space_def
      model_has_all_def field_values_def sizes_match_def safe_int_def)

lemma routed_models_keep_the_promises_witness:
  "\<exists>cur. field_values example_image_model ''input_modalities'' = Some cur \<and> ''image'' \<in> set cur"
  using routed_models_keep_the_promises[OF example_image_match _ refl]
  by (simp add: example_image_profile_def requirements_of_def required_list_def safe_string_list_def
      strip_def lstrip_def is_space_def)

text \<open>C40. What is published under "capabilities" is not always kept: a profile that asks for any
  of two modalities publishes both of them, and a model with only one of the two is routed, so
  "vision" can be promised for a model that reads no image.\<close>

theorem any_of_modalities_are_overpromised:
  "\<exists>profile model caps.
     model_matches_profile_requirements model profile 0 (\<lambda>_. True) = Some True
   \<and> dget (profile_capability_metadata (requirements_of profile)) ''capabilities'' = PList caps
   \<and> PStr ''vision'' \<in> set caps
   \<and> model_has_any model ''input_modalities'' [''image''] = Some False"
proof (intro exI conjI)
  let ?profile = "[(''requirements'', PDict [(''input_modalities_any'', PList [PStr ''image'', PStr ''audio'']), (''min_context'', PInt 0)])]"
  let ?model = "[(''input_modalities'', PList [PStr ''audio'']), (''supports_tools'', PBool True)]"
  show "model_matches_profile_requirements ?model ?profile 0 (\<lambda>_. True) = Some True"
    by (simp add: model_matches_profile_requirements_def requirements_of_def model_excluded_from_profile_def
        text_of_def por_def flags_match_def dget_or_def lists_match_def required_list_def safe_string_list_def
        strip_def lstrip_def is_space_def model_has_all_def model_has_any_def field_values_def sizes_match_def safe_int_def)
  show "model_has_any ?model ''input_modalities'' [''image''] = Some False"
    by (simp add: model_has_any_def field_values_def dget_or_def)
  show "dget (profile_capability_metadata (requirements_of ?profile)) ''capabilities''
      = PList (map PStr (profile_capabilities True False (sort [''image'', ''audio''])))"
    by (simp add: profile_capability_metadata_def requirements_of_def required_list_def safe_string_list_def
        strip_def lstrip_def is_space_def dget_or_def Let_def)
  show "PStr ''vision'' \<in> set (map PStr (profile_capabilities True False (sort [''image'', ''audio''])))"
    by (simp add: profile_capabilities_def)
qed

text \<open>The gate never empties a pool: what it returns is taken from the candidates in their
  order, it is empty only when there were none, and the fallback flag says exactly that the
  profile is gated and no candidate passed; without the flag every routed model passed.\<close>

theorem competence_gate_never_empties_the_pool:
  assumes "competence_gate_result profile_id candidates is_multi is_special multi_ok profile_ok = (routed, fallback)"
    and "gate = gate_predicate profile_id is_multi is_special multi_ok profile_ok"
  shows "subseq routed candidates \<and> (routed = [] \<longleftrightarrow> candidates = [])
       \<and> (fallback \<longleftrightarrow> (\<exists>ok. gate = Some ok \<and> candidates \<noteq> [] \<and> (\<forall>m \<in> set candidates. \<not> ok m)))
       \<and> (\<forall>ok. gate = Some ok \<longrightarrow> \<not> fallback \<longrightarrow> (\<forall>m \<in> set routed. ok m))"
proof (cases gate)
  case None
  with assms show ?thesis by (auto simp: competence_gate_result_def)
next
  case (Some ok)
  note res = assms(1)[unfolded competence_gate_result_def assms(2)[symmetric] Some option.case Let_def]
  show ?thesis
  proof (cases "filter ok candidates = []")
    case True
    with res have "routed = candidates" "fallback = (candidates \<noteq> [])" by auto
    with Some True show ?thesis by (auto simp: filter_empty_conv)
  next
    case False
    with res have "routed = filter ok candidates" "\<not> fallback"
      by simp_all
    with Some False show ?thesis by (auto simp: filter_empty_conv)
  qed
qed

lemma competence_gate_never_empties_the_pool_witness:
  "competence_gate_result ''p'' [1::nat, 2] (\<lambda>_. False) (\<lambda>_. True) (\<lambda>_. True) (\<lambda>m. m = 3) = ([1, 2], True)
   \<and> subseq [1::nat, 2] [1, 2]"
proof -
  have eq: "competence_gate_result ''p'' [1::nat, 2] (\<lambda>_. False) (\<lambda>_. True) (\<lambda>_. True) (\<lambda>m. m = 3) = ([1, 2], True)"
    by (simp add: competence_gate_result_def gate_predicate_def)
  with competence_gate_never_empties_the_pool[OF eq refl] show ?thesis by blast
qed

end
