(* ===== verification/StateMerge.thy ===== *)
theory StateMerge
  imports PyJson "HOL-Library.Option_ord"
begin

text \<open>
  The merge of a runtime state with the one on disk before it is written
  (\<open>state_store.py\<close>): the evidence history of benchmarks and verified capabilities, where
  the newest row wins, and the quality-feedback ledger, where the highest revision of an
  unexpired slot wins. A copy is the value itself. The two row choices are instances of one
  contract (\<open>newest_wins\<close>), from which what a whole sequence of writers leaves is derived
  once. The key sets the code iterates in an unspecified order are taken in the order of the
  stored dictionary, new keys last.
\<close>

section \<open>The date of an evidence row\<close>

definition runtime_evidence_timestamp_value :: "pv \<Rightarrow> string option" where
  "runtime_evidence_timestamp_value row =
     (case row of
        PDict d \<Rightarrow>
          (let value = por (por (por (dget d ''verified_at'') (dget d ''failed_at'')) (dget d ''ran_at''))
                         (dget d ''recorded_at'')
           in if truthy value then Some (py_str value) else None)
      | _ \<Rightarrow> None)"

definition runtime_row_timestamp :: "pv \<Rightarrow> real option" where
  "runtime_row_timestamp row =
     (case runtime_evidence_timestamp_value row of None \<Rightarrow> None | Some s \<Rightarrow> parse_iso_timestamp (PStr s))"

section \<open>Merging two levels of history\<close>

text \<open>Which of two dated rows is kept: the incoming one unless the stored one is newer.\<close>

definition newest_evidence :: "pv \<Rightarrow> pv \<Rightarrow> pv" where
  "newest_evidence current incoming =
     (let current_stamp = runtime_row_timestamp current; incoming_stamp = runtime_row_timestamp incoming
      in if incoming_stamp \<noteq> None \<and> (current_stamp = None \<or> the current_stamp \<le> the incoming_stamp)
         then incoming else current)"

function merge_runtime_history_rows :: "pv \<Rightarrow> pv \<Rightarrow> pv" where
  "merge_runtime_history_rows current incoming =
     (case (current, incoming) of
        (PDict c, PDict i) \<Rightarrow>
          PDict (map (\<lambda>(key, v).
                   (key,
                    case map_of i key of
                      None \<Rightarrow> v
                    | Some w \<Rightarrow>
                        (if is_dict v \<and> is_dict w then
                           (if runtime_row_timestamp v \<noteq> None \<or> runtime_row_timestamp w \<noteq> None
                            then newest_evidence v w
                            else merge_runtime_history_rows v w)
                         else if is_dict v then v
                         else w))) c
                 @ filter (\<lambda>(key, _). \<not> dhas key c) i)
      | _ \<Rightarrow> incoming)"
  by pat_completeness auto
termination
  by (relation "measure (size \<circ> fst)")
     (auto dest!: size_list_estimation'[where f = "size_prod (\<lambda>x. 0) size", OF _ order_refl] simp: less_Suc_eq_le)

declare merge_runtime_history_rows.simps [simp del]

section \<open>The quality-feedback ledger\<close>

definition active_slot :: "real \<Rightarrow> pv \<Rightarrow> bool" where
  "active_slot now row =
     (case row of
        PDict d \<Rightarrow> (case parse_iso_timestamp (dget d ''expires_at'') of None \<Rightarrow> False | Some t \<Rightarrow> now < t)
      | _ \<Rightarrow> False)"

definition quality_feedback_slots :: "pv \<Rightarrow> real \<Rightarrow> pydict" where
  "quality_feedback_slots ledger now =
     filter (\<lambda>(_, row). active_slot now row) (section_of (as_dict ledger) ''event_slots'')"

definition quality_feedback_revision :: "pv \<Rightarrow> int option" where
  "quality_feedback_revision row =
     (case dget (as_dict row) ''revision'' of PInt i \<Rightarrow> if 1 \<le> i then Some i else None | _ \<Rightarrow> None)"

text \<open>Which of two active rows of a slot is kept.\<close>

definition newest_revision :: "pv \<Rightarrow> pv \<Rightarrow> pv" where
  "newest_revision current incoming =
     (let current_revision = quality_feedback_revision current;
          incoming_revision = quality_feedback_revision incoming
      in if incoming_revision \<noteq> None \<and> (current_revision = None \<or> the current_revision < the incoming_revision)
         then incoming else current)"

text \<open>The keys of two dictionaries, each once.\<close>

definition joint_keys :: "pydict \<Rightarrow> pydict \<Rightarrow> string list" where
  "joint_keys c i = dkeys c @ filter (\<lambda>k. \<not> dhas k c) (dkeys i)"

definition merge_slots :: "pydict \<Rightarrow> pydict \<Rightarrow> pydict" where
  "merge_slots c i =
     map (\<lambda>key. (key, case (map_of c key, map_of i key) of
                        (None, w) \<Rightarrow> (case w of None \<Rightarrow> PNone | Some r \<Rightarrow> r)
                      | (Some v, None) \<Rightarrow> v
                      | (Some v, Some w) \<Rightarrow> newest_revision v w)) (joint_keys c i)"

definition merge_feedback_profiles :: "real \<Rightarrow> pydict \<Rightarrow> pydict \<Rightarrow> pydict" where
  "merge_feedback_profiles now c i =
     concat (map (\<lambda>profile_id.
       let slots = merge_slots (quality_feedback_slots (dget c profile_id) now)
                               (quality_feedback_slots (dget i profile_id) now)
       in if slots = [] then [] else [(profile_id, PDict [(''event_slots'', PDict slots)])]) (joint_keys c i))"

definition merge_quality_feedback_history :: "pv \<Rightarrow> pv \<Rightarrow> real \<Rightarrow> pydict" where
  "merge_quality_feedback_history current incoming now =
     (let c = as_dict current; i = as_dict incoming in
      concat (map (\<lambda>model_key.
        let profiles = merge_feedback_profiles now (section_of c model_key) (section_of i model_key)
        in if profiles = [] then [] else [(model_key, PDict profiles)]) (joint_keys c i)))"

section \<open>Merging a state for a write\<close>

definition RUNTIME_STATE_HISTORY_KEYS :: "string list" where
  "RUNTIME_STATE_HISTORY_KEYS = [''benchmark_results'', ''verified_capabilities'', ''quality_feedback'']"

definition merge_history_key :: "real \<Rightarrow> pydict \<Rightarrow> pydict \<Rightarrow> string \<Rightarrow> pydict \<Rightarrow> pydict" where
  "merge_history_key now current incoming key merged =
     (let current_value = dget current key; incoming_value = dget incoming key in
      if key = ''quality_feedback'' then
        (let combined = merge_quality_feedback_history current_value incoming_value now
         in if combined \<noteq> [] then dset key (PDict combined) merged else dpop key merged)
      else if is_dict current_value then
        dset key (if is_dict incoming_value then merge_runtime_history_rows current_value incoming_value
                  else current_value) merged
      else merged)"

definition merge_runtime_state_for_write :: "real \<Rightarrow> pv \<Rightarrow> pydict \<Rightarrow> pydict" where
  "merge_runtime_state_for_write now current incoming =
     (case current of
        PDict c \<Rightarrow> fold (merge_history_key now c incoming) RUNTIME_STATE_HISTORY_KEYS incoming
      | _ \<Rightarrow> incoming)"

text \<open>\<open>StateStore.merge_for_write\<close>: a store may protect more keys than the three.\<close>

definition keep_extra_key :: "pydict \<Rightarrow> pydict \<Rightarrow> string \<Rightarrow> pydict \<Rightarrow> pydict" where
  "keep_extra_key current incoming key merged =
     (if key \<in> set RUNTIME_STATE_HISTORY_KEYS then merged
      else if is_dict (dget current key) then
        dset key (if is_dict (dget incoming key) then dget incoming key else dget current key) merged
      else merged)"

definition merge_for_write :: "string list \<Rightarrow> real \<Rightarrow> pv \<Rightarrow> pydict \<Rightarrow> pydict" where
  "merge_for_write history_keys now current incoming =
     (let merged = merge_runtime_state_for_write now current incoming in
      if history_keys = RUNTIME_STATE_HISTORY_KEYS then merged
      else (case current of
              PDict c \<Rightarrow> fold (keep_extra_key c incoming) history_keys merged
            | _ \<Rightarrow> merged))"

section \<open>What the evidence history holds\<close>

text \<open>The counts of \<open>runtime_state_history_counts\<close>: the latest date wins, the first of equals.\<close>

definition later_evidence :: "(real \<times> string) option \<Rightarrow> pv \<Rightarrow> (real \<times> string) option" where
  "later_evidence latest row =
     (case runtime_evidence_timestamp_value row of
        None \<Rightarrow> latest
      | Some stated \<Rightarrow>
          (case parse_iso_timestamp (PStr stated) of
             None \<Rightarrow> latest
           | Some stamp \<Rightarrow>
               (case latest of
                  None \<Rightarrow> Some (stamp, stated)
                | Some (t, _) \<Rightarrow> if t < stamp then Some (stamp, stated) else latest)))"

definition runtime_state_history_counts :: "pv \<Rightarrow> string \<Rightarrow> pydict" where
  "runtime_state_history_counts state key =
     (case (case state of PDict st \<Rightarrow> dget st key | _ \<Rightarrow> PDict []) of
        PDict history \<Rightarrow>
          (let rows = concat (map (\<lambda>(_, raw_profiles). as_dict raw_profiles) history)
           in [(''model_count'', PInt (int (length history))),
               (''unique_profile_count'', PInt (int (length (remdups (map fst rows))))),
               (''evidence_row_count'', PInt (int (length rows))),
               (''latest_evidence_at'',
                  case foldl later_evidence None (map snd rows) of None \<Rightarrow> PNone | Some (_, stated) \<Rightarrow> PStr stated)])
      | _ \<Rightarrow> [(''model_count'', PInt 0), (''unique_profile_count'', PInt 0), (''evidence_row_count'', PInt 0),
             (''latest_evidence_at'', PNone)])"

section \<open>Newest wins, whatever the sequence of writers\<close>

text \<open>
  The contract of a row choice: it returns one of the two rows, and its rank is the greater of
  their ranks (no rank is below every rank). Whatever rows a sequence of writers brings, one of
  them is left, and none of them outranks it.
\<close>

locale newest_wins =
  fixes pick :: "'r \<Rightarrow> 'r \<Rightarrow> 'r"
    and rank :: "'r \<Rightarrow> 'k::linorder option"
  assumes pick_cases: "pick c i = c \<or> pick c i = i"
    and pick_rank: "rank (pick c i) = max (rank c) (rank i)"
begin

lemma pick_ge: "rank c \<le> rank (pick c i)" "rank i \<le> rank (pick c i)"
  by (simp_all add: pick_rank)

lemma pick_self: "pick c c = c"
  using pick_cases[of c c] by simp

lemma fold_pick_mem: "fold (\<lambda>i c. pick c i) ws c \<in> set (c # ws)"
proof (induction ws arbitrary: c)
  case (Cons w ws)
  have "fold (\<lambda>i c. pick c i) ws (pick c w) \<in> set (pick c w # ws)" by (rule Cons.IH)
  then show ?case using pick_cases[of c w] by (elim disjE) auto
qed simp

lemma fold_pick_ge_start: "rank c \<le> rank (fold (\<lambda>i c. pick c i) ws c)"
proof (induction ws arbitrary: c)
  case (Cons w ws)
  show ?case using pick_ge(1)[of c w] Cons.IH[of "pick c w"] by simp
qed simp

lemma fold_pick_ge: "w \<in> set ws \<Longrightarrow> rank w \<le> rank (fold (\<lambda>i c. pick c i) ws c)"
proof (induction ws arbitrary: c)
  case (Cons x ws)
  show ?case
  proof (cases "w = x")
    case True
    with pick_ge(2)[of x c] fold_pick_ge_start[of "pick c x" ws] show ?thesis by simp
  next
    case False
    with Cons show ?thesis by simp
  qed
qed simp

text \<open>The order in which the writers came does not change the rank that is left.\<close>

lemma fold_pick_rank: "rank (fold (\<lambda>i c. pick c i) ws c) = fold max (map rank ws) (rank c)"
  by (induction ws arbitrary: c) (simp_all add: pick_rank max.commute)

end

lemma newest_evidence_rank:
  "runtime_row_timestamp (newest_evidence c i) = max (runtime_row_timestamp c) (runtime_row_timestamp i)"
  by (cases "runtime_row_timestamp c"; cases "runtime_row_timestamp i")
     (auto simp: newest_evidence_def Let_def max_def)

lemma newest_revision_rank:
  "quality_feedback_revision (newest_revision c i) = max (quality_feedback_revision c) (quality_feedback_revision i)"
  by (cases "quality_feedback_revision c"; cases "quality_feedback_revision i")
     (auto simp: newest_revision_def Let_def max_def)

interpretation evidence: newest_wins newest_evidence runtime_row_timestamp
  by unfold_locales (auto simp: newest_evidence_rank, auto simp: newest_evidence_def Let_def)

interpretation feedback: newest_wins newest_revision quality_feedback_revision
  by unfold_locales (auto simp: newest_revision_rank, auto simp: newest_revision_def Let_def)

section \<open>Reading a merged history\<close>

definition merged_entry :: "pv \<Rightarrow> pv \<Rightarrow> pv" where
  "merged_entry v w =
     (if is_dict v \<and> is_dict w then
        (if runtime_row_timestamp v \<noteq> None \<or> runtime_row_timestamp w \<noteq> None
         then newest_evidence v w else merge_runtime_history_rows v w)
      else if is_dict v then v else w)"

lemma merge_rows_PDict:
  "merge_runtime_history_rows (PDict c) (PDict i) =
     PDict (map (\<lambda>(key, v). (key, case map_of i key of None \<Rightarrow> v | Some w \<Rightarrow> merged_entry v w)) c
            @ filter (\<lambda>(key, _). \<not> dhas key c) i)"
  by (subst merge_runtime_history_rows.simps)
     (auto simp: merged_entry_def split: option.splits intro!: map_cong)

lemma merge_rows_non_dict:
  "\<not> is_dict c \<or> \<not> is_dict i \<Longrightarrow> merge_runtime_history_rows c i = i"
  by (subst merge_runtime_history_rows.simps) (auto split: pv.splits)

text \<open>One key of a merged level: no key is lost, none is invented.\<close>

lemma merged_lookup:
  "map_of (as_dict (merge_runtime_history_rows (PDict c) (PDict i))) key =
     (case (map_of c key, map_of i key) of
        (None, w) \<Rightarrow> w | (Some v, None) \<Rightarrow> Some v | (Some v, Some w) \<Rightarrow> Some (merged_entry v w))"
proof -
  have "map_of (filter (\<lambda>(key, _). \<not> dhas key c) i) key = (if dhas key c then None else map_of i key)"
    using map_of_filter_key[of "\<lambda>k. \<not> dhas k c" i key] by simp
  moreover have "map_of (map (\<lambda>(key, v). (key, case map_of i key of None \<Rightarrow> v | Some w \<Rightarrow> merged_entry v w)) c) key
      = map_option (\<lambda>v. case map_of i key of None \<Rightarrow> v | Some w \<Rightarrow> merged_entry v w) (map_of c key)"
    by (rule map_of_map_snd)
  ultimately show ?thesis
    by (cases "map_of c key"; cases "map_of i key") (auto simp: merge_rows_PDict map_add_def dhas_def)
qed

section \<open>Evidence under any sequence of writers\<close>

text \<open>The row of a model and profile in a history section.\<close>

definition evidence_at :: "pydict \<Rightarrow> string \<Rightarrow> string \<Rightarrow> string \<Rightarrow> pv option" where
  "evidence_at state key model_key profile_id =
     map_of (section_of (section_of state key) model_key) profile_id"

text \<open>A model level holds profile rows and no date of its own.\<close>

definition undated :: "pydict \<Rightarrow> bool" where
  "undated d \<longleftrightarrow> list_all (\<lambda>k. \<not> dhas k d) [''verified_at'', ''failed_at'', ''ran_at'', ''recorded_at'']"

definition history_shape :: "pydict \<Rightarrow> string \<Rightarrow> bool" where
  "history_shape state key \<longleftrightarrow> list_all (\<lambda>(_, v). undated (as_dict v)) (section_of state key)"

lemma undated_timestamp: "undated d \<Longrightarrow> runtime_row_timestamp (PDict d) = None"
  by (simp add: undated_def dhas_def runtime_row_timestamp_def runtime_evidence_timestamp_value_def dget_def por_def)

lemma non_dict_timestamp: "\<not> is_dict v \<Longrightarrow> runtime_row_timestamp v = None"
  by (cases v) (simp_all add: runtime_row_timestamp_def runtime_evidence_timestamp_value_def)

lemma history_shape_lookup:
  "history_shape state key \<Longrightarrow> map_of (section_of state key) m = Some v \<Longrightarrow> undated (as_dict v)"
  by (auto simp: history_shape_def list_all_iff dest: map_of_SomeD)

lemma history_key_other: "k \<noteq> key \<Longrightarrow> dget (merge_history_key now c i k merged) key = dget merged key"
  by (auto simp: merge_history_key_def Let_def)

lemma history_key_self:
  "key \<noteq> ''quality_feedback'' \<Longrightarrow> dget merged key = dget i key \<Longrightarrow>
   dget (merge_history_key now c i key merged) key =
     (if is_dict (dget c key)
      then (if is_dict (dget i key) then merge_runtime_history_rows (dget c key) (dget i key) else dget c key)
      else dget i key)"
  by (auto simp: merge_history_key_def Let_def)

lemma state_history_lookup:
  assumes "key \<in> {''benchmark_results'', ''verified_capabilities''}"
  shows "dget (merge_runtime_state_for_write now (PDict c) i) key =
           (if is_dict (dget c key)
            then (if is_dict (dget i key) then merge_runtime_history_rows (dget c key) (dget i key) else dget c key)
            else dget i key)"
proof -
  have "merge_runtime_state_for_write now (PDict c) i =
      merge_history_key now c i ''quality_feedback'' (merge_history_key now c i ''verified_capabilities''
        (merge_history_key now c i ''benchmark_results'' i))"
    by (simp add: merge_runtime_state_for_write_def RUNTIME_STATE_HISTORY_KEYS_def)
  with assms show ?thesis
    by (elim insertE emptyE) (simp_all add: history_key_other history_key_self)
qed

lemma section_merged_model:
  assumes "history_shape c key" "history_shape i key" "key \<in> {''benchmark_results'', ''verified_capabilities''}"
  shows "map_of (section_of (merge_runtime_state_for_write now (PDict c) i) key) m =
     (case (map_of (section_of c key) m, map_of (section_of i key) m) of
        (None, w) \<Rightarrow> w
      | (Some v, None) \<Rightarrow> Some v
      | (Some v, Some w) \<Rightarrow> Some (if is_dict v then (if is_dict w then merge_runtime_history_rows v w else v) else w))"
proof (cases "is_dict (dget c key)")
  case True
  then obtain cd where c: "dget c key = PDict cd" by (cases "dget c key") auto
  show ?thesis
  proof (cases "is_dict (dget i key)")
    case True
    then obtain idd where i: "dget i key = PDict idd" by (cases "dget i key") auto
    have "merged_entry v w = (if is_dict v then (if is_dict w then merge_runtime_history_rows v w else v) else w)"
      if "map_of cd m = Some v" "map_of idd m = Some w" for v w
      using that history_shape_lookup[OF assms(1), of m v] history_shape_lookup[OF assms(2), of m w]
      by (cases "is_dict v"; cases "is_dict w")
         (auto simp: section_of_def c i merged_entry_def is_dict_iff undated_timestamp)
    then show ?thesis
      by (auto simp: section_of_def state_history_lookup[OF assms(3)] c i merged_lookup split: option.splits)
  next
    case False
    then have "section_of i key = []" by (cases "dget i key") (auto simp: section_of_def)
    with c False show ?thesis
      by (auto simp: section_of_def state_history_lookup[OF assms(3)] split: option.splits)
  qed
next
  case False
  then have "section_of c key = []" by (cases "dget c key") (auto simp: section_of_def)
  with False show ?thesis
    by (auto simp: section_of_def state_history_lookup[OF assms(3)])
qed

lemma evidence_merged:
  assumes "history_shape c key" "history_shape i key" "key \<in> {''benchmark_results'', ''verified_capabilities''}"
    and "\<And>v. evidence_at c key m p = Some v \<Longrightarrow> runtime_row_timestamp v \<noteq> None"
  shows "evidence_at (merge_runtime_state_for_write now (PDict c) i) key m p =
     (case (evidence_at c key m p, evidence_at i key m p) of
        (None, w) \<Rightarrow> w
      | (Some v, None) \<Rightarrow> Some v
      | (Some v, Some w) \<Rightarrow> Some (newest_evidence v w))"
proof -
  have entry: "merged_entry v w = newest_evidence v w" if "runtime_row_timestamp v \<noteq> None" for v w
    using that non_dict_timestamp[of v] non_dict_timestamp[of w]
    by (auto simp: merged_entry_def newest_evidence_def Let_def)
  have at_model: "evidence_at s key m p = (case map_of (section_of s key) m of Some (PDict d) \<Rightarrow> map_of d p | _ \<Rightarrow> None)" for s
    by (auto simp: evidence_at_def section_of_def dget_def split: option.splits pv.splits)
  show ?thesis
  proof (cases "map_of (section_of c key) m")
    case None
    then show ?thesis by (simp add: at_model section_merged_model[OF assms(1-3)])
  next
    case (Some v)
    show ?thesis
    proof (cases "map_of (section_of i key) m")
      case None
      with Some show ?thesis
        by (auto simp: at_model section_merged_model[OF assms(1-3)] split: option.splits pv.splits)
    next
      case (Some w)
      note vw = \<open>map_of (section_of c key) m = Some v\<close> Some
      show ?thesis
      proof (cases "is_dict v \<and> is_dict w")
        case True
        then obtain cd idd where d: "v = PDict cd" "w = PDict idd" by (cases v; cases w) auto
        have "map_of cd p = Some r \<Longrightarrow> runtime_row_timestamp r \<noteq> None" for r
          using assms(4) by (simp add: at_model vw d)
        then show ?thesis
          using merged_lookup[of cd idd p]
          by (auto simp: at_model section_merged_model[OF assms(1-3)] vw d merge_rows_PDict entry split: option.splits)
      next
        case False
        then show ?thesis
          by (cases v; cases w; simp add: at_model section_merged_model[OF assms(1-3)] vw split: option.splits)
      qed
    qed
  qed
qed

section \<open>The state a sequence of writers leaves\<close>

definition run_writes :: "pydict \<Rightarrow> (real \<times> pydict) list \<Rightarrow> pydict" where
  "run_writes state writes = fold (\<lambda>(now, i) c. merge_runtime_state_for_write now (PDict c) i) writes state"

lemma undated_merged:
  assumes "undated (as_dict v)" "undated (as_dict w)" "is_dict v"
  shows "undated (as_dict (merge_runtime_history_rows v w))"
proof (cases "is_dict w")
  case True
  with assms(3) obtain c i where d: "v = PDict c" "w = PDict i" by (cases v; cases w) auto
  from assms have "\<not> dhas k (as_dict (merge_runtime_history_rows (PDict c) (PDict i)))"
    if "k \<in> {''verified_at'', ''failed_at'', ''ran_at'', ''recorded_at''}" for k
    using that merged_lookup[of c i k] by (auto simp: undated_def dhas_def d)
  then show ?thesis by (simp add: undated_def d)
next
  case False
  with assms show ?thesis by (simp add: merge_rows_non_dict)
qed

lemma history_shape_iff:
  "wf_dict (section_of state key) \<Longrightarrow>
   history_shape state key \<longleftrightarrow> (\<forall>m v. map_of (section_of state key) m = Some v \<longrightarrow> undated (as_dict v))"
  by (auto simp: history_shape_def list_all_iff map_of_eq_Some_iff)

lemma wf_dict_merged:
  "wf_dict c \<Longrightarrow> wf_dict i \<Longrightarrow> wf_dict (as_dict (merge_runtime_history_rows (PDict c) (PDict i)))"
  by (auto simp: merge_rows_PDict comp_def case_prod_beta dhas_def map_of_eq_None_iff distinct_map_filter
      image_iff weak_map_of_SomeI)

definition history_ok :: "string \<Rightarrow> pydict \<Rightarrow> bool" where
  "history_ok key state \<longleftrightarrow> history_shape state key \<and> wf_dict (section_of state key)"

lemma history_ok_merged:
  assumes "history_ok key c" "history_ok key i" "key \<in> {''benchmark_results'', ''verified_capabilities''}"
  shows "history_ok key (merge_runtime_state_for_write now (PDict c) i)"
proof -
  let ?m = "merge_runtime_state_for_write now (PDict c) i"
  have "wf_dict (section_of ?m key)"
    using assms wf_dict_merged
    by (auto simp: history_ok_def section_of_def state_history_lookup is_dict_iff)
  moreover have "undated (as_dict u)" if u: "map_of (section_of ?m key) m = Some u" for m u
  proof -
    have c: "undated (as_dict v)" if "map_of (section_of c key) m = Some v" for v
      using that assms(1) by (auto simp: history_ok_def intro: history_shape_lookup)
    have i: "undated (as_dict v)" if "map_of (section_of i key) m = Some v" for v
      using that assms(2) by (auto simp: history_ok_def intro: history_shape_lookup)
    from u c i show ?thesis
      using assms
      by (auto simp: section_merged_model history_ok_def undated_merged split: option.splits if_splits)
  qed
  ultimately show ?thesis by (simp add: history_ok_def history_shape_iff)
qed

definition dated_evidence :: "string \<Rightarrow> string \<Rightarrow> string \<Rightarrow> pydict \<Rightarrow> bool" where
  "dated_evidence key m p state \<longleftrightarrow>
     (case evidence_at state key m p of None \<Rightarrow> True | Some v \<Rightarrow> runtime_row_timestamp v \<noteq> None)"

text \<open>The rows of one model and profile that the writers bring, in their order.\<close>

definition brought :: "string \<Rightarrow> string \<Rightarrow> string \<Rightarrow> pydict list \<Rightarrow> pv list" where
  "brought key m p states = List.map_filter (\<lambda>s. evidence_at s key m p) states"

lemma run_writes_evidence:
  assumes "key \<in> {''benchmark_results'', ''verified_capabilities''}"
    and "history_ok key state" "\<forall>s \<in> snd ` set writes. history_ok key s"
    and "dated_evidence key m p state" "\<forall>s \<in> snd ` set writes. dated_evidence key m p s"
  shows "evidence_at (run_writes state writes) key m p =
     (case brought key m p (state # map snd writes) of
        [] \<Rightarrow> None | v # ws \<Rightarrow> Some (fold (\<lambda>w c. newest_evidence c w) ws v))"
  using assms(2-)
proof (induction writes arbitrary: state)
  case Nil
  then show ?case by (simp add: run_writes_def brought_def map_filter_simps split: option.splits)
next
  case (Cons w writes)
  obtain now i where w: "w = (now, i)" by (cases w)
  let ?next = "merge_runtime_state_for_write now (PDict state) i"
  have i: "history_ok key i" "dated_evidence key m p i" using Cons.prems w by auto
  have ev: "evidence_at ?next key m p =
     (case (evidence_at state key m p, evidence_at i key m p) of
        (None, w) \<Rightarrow> w | (Some v, None) \<Rightarrow> Some v | (Some v, Some w) \<Rightarrow> Some (newest_evidence v w))"
    using Cons.prems(1,3) i by (intro evidence_merged assms(1)) (auto simp: history_ok_def dated_evidence_def)
  have "dated_evidence key m p ?next"
    using Cons.prems(3) i(2) evidence.pick_cases
    by (auto simp: dated_evidence_def ev newest_evidence_rank max_def split: option.splits)
  moreover have "history_ok key ?next" using Cons.prems(1) i(1) assms(1) by (rule history_ok_merged)
  ultimately have "evidence_at (run_writes ?next writes) key m p =
     (case brought key m p (?next # map snd writes) of
        [] \<Rightarrow> None | v # ws \<Rightarrow> Some (fold (\<lambda>w c. newest_evidence c w) ws v))"
    using Cons.prems by (intro Cons.IH) auto
  moreover have "run_writes state (w # writes) = run_writes ?next writes" by (simp add: run_writes_def w)
  ultimately show ?case
    by (auto simp: brought_def map_filter_simps ev w split: option.splits)
qed

text \<open>C31. Stale writers cannot roll evidence back. Whatever states a sequence of processes
  writes, and whenever each read the file, the benchmark or capability row of a model that is
  left on disk is one that was stored or written, and none of those is newer.\<close>

theorem newest_evidence_survives_all_writers:
  assumes "key \<in> {''benchmark_results'', ''verified_capabilities''}"
    and "\<forall>s \<in> set (state # map snd writes). history_ok key s \<and> dated_evidence key model_key profile_id s"
    and "s \<in> set (state # map snd writes)" "evidence_at s key model_key profile_id = Some row"
  shows "\<exists>kept. evidence_at (run_writes state writes) key model_key profile_id = Some kept
       \<and> kept \<in> set (brought key model_key profile_id (state # map snd writes))
       \<and> runtime_row_timestamp row \<le> runtime_row_timestamp kept"
proof -
  have mem: "row \<in> set (brought key model_key profile_id (state # map snd writes))"
    using assms(3,4) by (auto simp: brought_def map_filter_def image_iff intro!: bexI[of _ s])
  then obtain v ws where b: "brought key model_key profile_id (state # map snd writes) = v # ws"
    by (cases "brought key model_key profile_id (state # map snd writes)") auto
  have "evidence_at (run_writes state writes) key model_key profile_id
      = Some (fold (\<lambda>w c. newest_evidence c w) ws v)"
    using run_writes_evidence[of key state writes model_key profile_id] assms(1,2) by (simp add: b)
  moreover have "runtime_row_timestamp row \<le> runtime_row_timestamp (fold (\<lambda>w c. newest_evidence c w) ws v)"
    using mem b evidence.fold_pick_ge evidence.fold_pick_ge_start by auto
  moreover have "fold (\<lambda>w c. newest_evidence c w) ws v \<in> set (v # ws)" by (rule evidence.fold_pick_mem)
  ultimately show ?thesis using b by auto
qed

definition example_verified :: "string \<Rightarrow> pv" where
  "example_verified day = PDict [(''verified_at'', PStr (''2026-01-0'' @ day)), (''ok'', PBool True)]"

definition example_history :: "string \<Rightarrow> pydict" where
  "example_history day = [(''verified_capabilities'', PDict [(''s::m'', PDict [(''fast'', example_verified day)])])]"

lemma example_dates:
  "runtime_row_timestamp (example_verified ''2'') \<noteq> None" "runtime_row_timestamp (example_verified ''3'') \<noteq> None"
  by (code_simp, code_simp)

lemma example_history_at:
  "evidence_at (example_history day) ''verified_capabilities'' ''s::m'' ''fast'' = Some (example_verified day)"
  "history_ok ''verified_capabilities'' (example_history day)"
  by (simp_all add: example_history_def evidence_at_def section_of_def history_ok_def history_shape_def undated_def dhas_def)

lemma newest_evidence_survives_all_writers_witness:
  "\<exists>kept. evidence_at (run_writes (example_history ''3'') [(0, example_history ''2'')])
            ''verified_capabilities'' ''s::m'' ''fast'' = Some kept
     \<and> kept \<in> {example_verified ''3'', example_verified ''2''}
     \<and> runtime_row_timestamp (example_verified ''3'') \<le> runtime_row_timestamp kept"
proof -
  have "brought ''verified_capabilities'' ''s::m'' ''fast'' [example_history ''3'', example_history ''2'']
      = [example_verified ''3'', example_verified ''2'']"
    by (simp add: brought_def map_filter_simps example_history_at)
  then show ?thesis
    using newest_evidence_survives_all_writers[of "''verified_capabilities''" "example_history ''3''"
        "[(0, example_history ''2'')]" "''s::m''" "''fast''" "example_history ''3''"]
    by (simp add: example_history_at dated_evidence_def example_dates)
qed

section \<open>Quality feedback under a write\<close>

text \<open>The unexpired row of a slot, as a reading of the ledger sees it, and the row a merged ledger holds.\<close>

definition active_feedback :: "real \<Rightarrow> pydict \<Rightarrow> string \<Rightarrow> string \<Rightarrow> string \<Rightarrow> pv option" where
  "active_feedback now fb model_key profile_id slot =
     map_of (quality_feedback_slots (dget (section_of fb model_key) profile_id) now) slot"

definition feedback_slot :: "pydict \<Rightarrow> string \<Rightarrow> string \<Rightarrow> string \<Rightarrow> pv option" where
  "feedback_slot fb model_key profile_id slot =
     map_of (section_of (section_of (section_of fb model_key) profile_id) ''event_slots'') slot"

lemma joint_keys_mem: "k \<in> set (joint_keys c i) \<longleftrightarrow> map_of c k \<noteq> None \<or> map_of i k \<noteq> None"
  by (auto simp: joint_keys_def dhas_def map_of_eq_None_iff image_iff)

lemma map_of_keyed: "map_of (map (\<lambda>k. (k, g k)) ks) k = (if k \<in> set ks then Some (g k) else None)"
  by (induction ks) auto

lemma map_of_keyed_nonempty:
  "map_of (concat (map (\<lambda>k. let x = f k in if x = [] then [] else [(k, g x)]) ks)) k
     = (if k \<in> set ks \<and> f k \<noteq> [] then Some (g (f k)) else None)"
  by (induction ks) (auto simp: Let_def)

lemma merge_slots_lookup:
  "map_of (merge_slots c i) s = combine_options newest_revision (map_of c s) (map_of i s)"
  by (auto simp: merge_slots_def map_of_keyed joint_keys_mem split: option.splits)

lemma merge_slots_Nil: "merge_slots [] [] = []"
  by (simp add: merge_slots_def joint_keys_def)

lemma slots_PNone [simp]: "quality_feedback_slots PNone now = []"
  by (simp add: quality_feedback_slots_def section_of_def)

lemma merged_profile_slots:
  "section_of (section_of (merge_feedback_profiles now c i) p) ''event_slots''
     = merge_slots (quality_feedback_slots (dget c p) now) (quality_feedback_slots (dget i p) now)"
proof (cases "p \<in> set (joint_keys c i)")
  case True
  then show ?thesis
    by (simp add: merge_feedback_profiles_def section_of_def dget_def[of "concat _"] map_of_keyed_nonempty)
next
  case False
  then have "dget c p = PNone" "dget i p = PNone" by (auto simp: joint_keys_mem dget_def)
  with False show ?thesis
    by (simp add: merge_feedback_profiles_def section_of_def dget_def[of "concat _"] map_of_keyed_nonempty
        merge_slots_Nil)
qed

lemma merge_profiles_Nil: "merge_feedback_profiles now [] [] = []"
  by (simp add: merge_feedback_profiles_def joint_keys_def)

lemma merged_model_profiles:
  "section_of (merge_quality_feedback_history c i now) m
     = merge_feedback_profiles now (section_of (as_dict c) m) (section_of (as_dict i) m)"
proof (cases "m \<in> set (joint_keys (as_dict c) (as_dict i))")
  case True
  then show ?thesis
    by (simp add: merge_quality_feedback_history_def section_of_def dget_def[of "concat _"] map_of_keyed_nonempty Let_def[of "as_dict _"])
next
  case False
  then have "section_of (as_dict c) m = []" "section_of (as_dict i) m = []"
    by (auto simp: joint_keys_mem section_of_def dget_def)
  with False show ?thesis
    by (simp add: merge_quality_feedback_history_def section_of_def dget_def[of "concat _"] map_of_keyed_nonempty
        Let_def[of "as_dict _"] merge_profiles_Nil)
qed

lemma feedback_section:
  "section_of (merge_runtime_state_for_write now (PDict c) i) ''quality_feedback''
     = merge_quality_feedback_history (dget c ''quality_feedback'') (dget i ''quality_feedback'') now"
proof -
  have "merge_runtime_state_for_write now (PDict c) i =
      merge_history_key now c i ''quality_feedback'' (merge_history_key now c i ''verified_capabilities''
        (merge_history_key now c i ''benchmark_results'' i))"
    by (simp add: merge_runtime_state_for_write_def RUNTIME_STATE_HISTORY_KEYS_def)
  then show ?thesis
    by (simp add: merge_history_key_def[of now c i "''quality_feedback''"] Let_def section_of_def)
qed

lemma active_slots_are_active: "map_of (quality_feedback_slots l now) s = Some r \<Longrightarrow> active_slot now r"
  by (auto simp: quality_feedback_slots_def dest!: map_of_SomeD)

lemma max_None [simp]: "max x None = x" "max None x = x" for x :: "'k::linorder option"
  by (cases x; simp add: max_def)+

lemma combined_active:
  assumes "\<And>r. a = Some r \<Longrightarrow> active_slot now r" "\<And>r. b = Some r \<Longrightarrow> active_slot now r"
  shows "pred_option (active_slot now) (combine_options newest_revision a b)"
proof (cases a)
  case (Some v)
  show ?thesis
  proof (cases b)
    case (Some w)
    with \<open>a = Some v\<close> show ?thesis using feedback.pick_cases[of v w] assms by auto
  qed (use Some assms in simp)
qed (use assms in \<open>cases b; simp\<close>)

text \<open>A write of the whole state neither drops an operator's correction nor brings an
  expired one back: the slot left is the one of the two unexpired rows with the higher
  revision, the only one there is, or none; its revision is the greater of the two.\<close>

theorem feedback_merge_keeps_the_latest_correction:
  "let stored = active_feedback now (section_of current ''quality_feedback'') model_key profile_id slot;
       incoming = active_feedback now (section_of state ''quality_feedback'') model_key profile_id slot;
       kept = feedback_slot (section_of (merge_runtime_state_for_write now (PDict current) state) ''quality_feedback'')
                model_key profile_id slot
   in kept = combine_options newest_revision stored incoming
    \<and> pred_option (active_slot now) kept
    \<and> Option.bind kept quality_feedback_revision
        = max (Option.bind stored quality_feedback_revision) (Option.bind incoming quality_feedback_revision)"
proof -
  let ?c = "active_feedback now (section_of current ''quality_feedback'') model_key profile_id slot"
  let ?i = "active_feedback now (section_of state ''quality_feedback'') model_key profile_id slot"
  have kept: "feedback_slot (section_of (merge_runtime_state_for_write now (PDict current) state) ''quality_feedback'')
      model_key profile_id slot = combine_options newest_revision ?c ?i"
    by (simp add: feedback_slot_def active_feedback_def feedback_section merged_model_profiles merged_profile_slots
        merge_slots_lookup flip: section_of_def)
  have "pred_option (active_slot now) (combine_options newest_revision ?c ?i)"
    by (rule combined_active) (simp_all add: active_feedback_def active_slots_are_active)
  moreover have "Option.bind (combine_options newest_revision ?c ?i) quality_feedback_revision
      = max (Option.bind ?c quality_feedback_revision) (Option.bind ?i quality_feedback_revision)"
    by (cases ?c; cases ?i) (simp_all add: newest_revision_rank max_None)
  ultimately show ?thesis by (simp add: kept)
qed

end
