(* ===== verification/StateStore.thy ===== *)
theory StateStore
  imports StateMerge "HOL-Library.List_Lexorder" "HOL-Library.Char_ord" "HOL-Library.Product_Lexorder"
begin

text \<open>
  The state store (\<open>StateStore\<close> in \<open>state_store.py\<close>): the state file and its backups, the
  recovery of an unreadable state, the rotation of backups, and \<open>write\<close> and \<open>update\<close> (\<open>write_state\<close>, \<open>update_state\<close>). The disk
  is a value: a file is absent, unreadable, or holds a JSON value; a directory is a list of
  files. What the operating system decides is an argument: the clock, the fresh part of a
  backup's name, and for each backup whether it can be examined. A failing write is not
  modelled, and the key order of a written file is not kept.

  The advisory lock serialises the updates of several processes: the last section models it as
  a step relation and shows that what they leave is what they would leave one after another.
\<close>

section \<open>The disk\<close>

record store_config =
  has_fallback_state :: bool
  has_fallback_backups :: bool
  backup_keep :: int
  backup_min_interval_seconds :: int
  history_keys :: "string list"

record backup_file =
  file_name :: string
  modified :: "real option"
  content :: "pv option"

record disk =
  state_file :: "pv option option"
  fallback_state_file :: "pv option option"
  backup_dir :: "backup_file list"
  fallback_backup_dir :: "backup_file list"

section \<open>Backups\<close>

definition is_backup :: "backup_file \<Rightarrow> bool" where
  "is_backup f \<longleftrightarrow>
     starts_with ''state-'' (file_name f) \<and> ends_with ''.json'' (file_name f) \<and> modified f \<noteq> None"

definition backup_rank :: "backup_file \<Rightarrow> real \<times> string" where
  "backup_rank f = (the (modified f), file_name f)"

text \<open>\<open>_backup_files\<close>: oldest first.\<close>

definition backup_files_in :: "backup_file list \<Rightarrow> backup_file list" where
  "backup_files_in directory = sort_key backup_rank (filter is_backup directory)"

definition canonical_backup_files :: "disk \<Rightarrow> backup_file list" where
  "canonical_backup_files dk = backup_files_in (backup_dir dk)"

definition fallback_backup_files :: "store_config \<Rightarrow> disk \<Rightarrow> backup_file list" where
  "fallback_backup_files cfg dk =
     (if has_fallback_backups cfg then backup_files_in (fallback_backup_dir dk) else [])"

definition backup_files :: "store_config \<Rightarrow> disk \<Rightarrow> backup_file list" where
  "backup_files cfg dk =
     (let canonical = canonical_backup_files dk
      in if canonical \<noteq> [] then canonical else fallback_backup_files cfg dk)"

definition rotate_backups :: "int \<Rightarrow> disk \<Rightarrow> disk" where
  "rotate_backups keep dk =
     (let files = canonical_backup_files dk;
          dropped = take (nat (max 0 (int (length files) - keep))) files
      in dk\<lparr>backup_dir := filter (\<lambda>f. file_name f \<notin> file_name ` set dropped) (backup_dir dk)\<rparr>)"

definition backup_name :: "string \<Rightarrow> string" where
  "backup_name fresh = ''state-'' @ fresh @ ''.json''"

definition too_recent :: "store_config \<Rightarrow> real \<Rightarrow> disk \<Rightarrow> bool" where
  "too_recent cfg now dk \<longleftrightarrow>
     (let files = canonical_backup_files dk
      in files \<noteq> [] \<and> now - the (modified (last files)) < of_int (backup_min_interval_seconds cfg))"

definition backup :: "store_config \<Rightarrow> real \<Rightarrow> string \<Rightarrow> disk \<Rightarrow> disk" where
  "backup cfg now fresh dk =
     (case state_file dk of
        None \<Rightarrow> dk
      | Some cont \<Rightarrow>
          if too_recent cfg now dk then dk
          else rotate_backups (backup_keep cfg)
                 (dk\<lparr>backup_dir := backup_dir dk @
                     [\<lparr>file_name = backup_name fresh, modified = Some now, content = cont\<rparr>]\<rparr>))"

section \<open>Reading the state\<close>

definition read_state_path :: "store_config \<Rightarrow> disk \<Rightarrow> pv option option" where
  "read_state_path cfg dk =
     (if state_file dk \<noteq> None \<or> \<not> has_fallback_state cfg then state_file dk
      else if fallback_state_file dk \<noteq> None then fallback_state_file dk
      else state_file dk)"

definition holds_dict :: "backup_file \<Rightarrow> bool" where
  "holds_dict f \<longleftrightarrow> (case content f of Some v \<Rightarrow> is_dict v | None \<Rightarrow> False)"

text \<open>\<open>_restore_from_backup\<close>: the newest backup that holds a dictionary.\<close>

definition restore_from_backup :: "store_config \<Rightarrow> disk \<Rightarrow> pydict option" where
  "restore_from_backup cfg dk =
     (case List.find holds_dict (rev (backup_files cfg dk)) of
        None \<Rightarrow> None
      | Some f \<Rightarrow> Some (as_dict (the (content f))))"

definition load_state :: "store_config \<Rightarrow> disk \<Rightarrow> pv \<Rightarrow> pv" where
  "load_state cfg dk fallback =
     (case read_state_path cfg dk of
        None \<Rightarrow> fallback
      | Some (Some v) \<Rightarrow> v
      | Some None \<Rightarrow> (case restore_from_backup cfg dk of Some d \<Rightarrow> PDict d | None \<Rightarrow> fallback))"

definition snapshot :: "store_config \<Rightarrow> disk \<Rightarrow> pydict" where
  "snapshot cfg dk = as_dict (load_state cfg dk (PDict []))"

section \<open>Writing the state\<close>

definition put_state :: "pydict \<Rightarrow> disk \<Rightarrow> disk" where
  "put_state state dk = dk\<lparr>state_file := Some (Some (PDict state))\<rparr>"

definition write_state :: "store_config \<Rightarrow> real \<Rightarrow> string \<Rightarrow> pydict \<Rightarrow> disk \<Rightarrow> disk" where
  "write_state cfg now fresh state dk =
     (let dk' = backup cfg now fresh dk
      in put_state (merge_for_write (history_keys cfg) now (load_state cfg dk' (PDict [])) state) dk')"

text \<open>
  A mutator changes the state it is handed and may return a dictionary to use instead; \<open>None\<close>
  is an exception, after which nothing but the backup has happened.
\<close>

type_synonym mutator = "pydict \<Rightarrow> (pydict \<times> pydict option) option"

definition next_state :: "mutator \<Rightarrow> pydict \<Rightarrow> pydict option" where
  "next_state f state =
     map_option (\<lambda>(mutated, updated). case updated of Some d \<Rightarrow> d | None \<Rightarrow> mutated) (f state)"

definition merged_update :: "store_config \<Rightarrow> real \<Rightarrow> mutator \<Rightarrow> disk \<Rightarrow> pydict option" where
  "merged_update cfg now f dk =
     (let current = load_state cfg dk (PDict [])
      in map_option (merge_for_write (history_keys cfg) now current) (next_state f (as_dict current)))"

definition update_state :: "store_config \<Rightarrow> real \<Rightarrow> string \<Rightarrow> mutator \<Rightarrow> disk \<Rightarrow> disk \<times> pydict option" where
  "update_state cfg now fresh f dk =
     (let dk' = backup cfg now fresh dk
      in case merged_update cfg now f dk' of
           None \<Rightarrow> (dk', None)
         | Some merged \<Rightarrow> (put_state merged dk', Some merged))"

section \<open>Backups kept and states recovered\<close>

lemma filter_take_drop:
  assumes "distinct (map g xs)"
  shows "filter (\<lambda>x. g x \<notin> g ` set (take n xs)) xs = drop n xs"
proof -
  have "distinct (map g (take n xs @ drop n xs))" using assms by simp
  then have "set (map g (take n xs)) \<inter> set (map g (drop n xs)) = {}"
    unfolding map_append distinct_append by blast
  then have "filter (\<lambda>x. g x \<notin> g ` set (take n xs)) (take n xs @ drop n xs) = drop n xs"
    unfolding filter_append by (auto simp: filter_empty_conv filter_id_conv)
  then show ?thesis by simp
qed

lemma insort_key_snoc:
  "f a < f x \<Longrightarrow> insort_key f a (ys @ [x]) = insort_key f a ys @ [x]" for f :: "'a \<Rightarrow> 'k::linorder"
  by (induction ys) auto

lemma sort_key_snoc:
  "(\<And>a. a \<in> set xs \<Longrightarrow> f a < f x) \<Longrightarrow> sort_key f (xs @ [x]) = sort_key f xs @ [x]" for f :: "'a \<Rightarrow> 'k::linorder"
  by (induction xs) (simp_all add: insort_key_snoc)

abbreviation distinct_names :: "disk \<Rightarrow> bool" where
  "distinct_names dk \<equiv> distinct (map file_name (backup_dir dk))"

lemma distinct_canonical:
  assumes "distinct_names dk"
  shows "distinct (map file_name (canonical_backup_files dk))"
proof -
  have "distinct (map file_name (filter is_backup (backup_dir dk)))"
    using assms by (rule distinct_map_filter)
  then have "inj_on file_name (set (filter is_backup (backup_dir dk)))" "distinct (filter is_backup (backup_dir dk))"
    by (simp_all add: distinct_map)
  then show ?thesis
    unfolding canonical_backup_files_def backup_files_in_def by (simp add: distinct_map)
qed

lemma canonical_after_rotation:
  assumes "distinct_names dk"
  shows "canonical_backup_files (rotate_backups keep dk)
       = drop (nat (max 0 (int (length (canonical_backup_files dk)) - keep))) (canonical_backup_files dk)"
proof -
  let ?files = "canonical_backup_files dk"
  let ?n = "nat (max 0 (int (length ?files) - keep))"
  have "canonical_backup_files (rotate_backups keep dk) = filter (\<lambda>f. file_name f \<notin> file_name ` set (take ?n ?files)) ?files"
    by (simp add: canonical_backup_files_def[of "rotate_backups keep dk"] backup_files_in_def rotate_backups_def Let_def
        filter_sort[symmetric] conj_commute)
       (simp add: canonical_backup_files_def backup_files_in_def filter_sort[symmetric] conj_commute)
  also have "\<dots> = drop ?n ?files" by (rule filter_take_drop) (rule distinct_canonical[OF assms])
  finally show ?thesis .
qed

definition fresh_backup :: "real \<Rightarrow> string \<Rightarrow> pv option \<Rightarrow> backup_file" where
  "fresh_backup now fresh cont = \<lparr>file_name = backup_name fresh, modified = Some now, content = cont\<rparr>"

text \<open>A backup taken now is younger than those there, under a name of its own.\<close>

definition backup_room :: "real \<Rightarrow> string \<Rightarrow> disk \<Rightarrow> bool" where
  "backup_room now fresh dk \<longleftrightarrow>
     distinct_names dk \<and> backup_name fresh \<notin> file_name ` set (backup_dir dk)
     \<and> list_all (\<lambda>f. the (modified f) < now) (canonical_backup_files dk)"

lemma is_backup_fresh [simp]: "is_backup (fresh_backup now fresh cont)"
  by (simp add: is_backup_def fresh_backup_def backup_name_def starts_with_def ends_with_def suffix_def)

lemma backup_taken:
  assumes "backup_room now fresh dk" "state_file dk = Some cont" "\<not> too_recent cfg now dk"
  shows "canonical_backup_files (backup cfg now fresh dk) =
     drop (nat (max 0 (int (length (canonical_backup_files dk)) + 1 - backup_keep cfg)))
       (canonical_backup_files dk @ [fresh_backup now fresh cont])"
proof -
  let ?new = "fresh_backup now fresh cont"
  let ?dk = "dk\<lparr>backup_dir := backup_dir dk @ [?new]\<rparr>"
  have b: "backup cfg now fresh dk = rotate_backups (backup_keep cfg) ?dk"
    using assms(2,3) by (simp add: backup_def fresh_backup_def)
  have "distinct_names ?dk"
    using assms(1) by (auto simp: backup_room_def fresh_backup_def)
  moreover have "canonical_backup_files ?dk = canonical_backup_files dk @ [?new]"
    unfolding canonical_backup_files_def backup_files_in_def
    using assms(1)
    by (simp, intro sort_key_snoc)
       (auto simp: backup_room_def list_all_iff canonical_backup_files_def backup_files_in_def
          backup_rank_def fresh_backup_def less_prod_def)
  ultimately show ?thesis by (simp add: b canonical_after_rotation algebra_simps)
qed

lemma rotation_keeps_foreign:
  assumes "distinct_names dk"
  shows "filter (\<lambda>f. \<not> is_backup f) (backup_dir (rotate_backups keep dk)) = filter (\<lambda>f. \<not> is_backup f) (backup_dir dk)"
proof -
  have "file_name f \<notin> file_name ` set (take n (canonical_backup_files dk))"
    if "f \<in> set (backup_dir dk)" "\<not> is_backup f" for f n
  proof
    assume "file_name f \<in> file_name ` set (take n (canonical_backup_files dk))"
    then obtain g where g: "g \<in> set (canonical_backup_files dk)" "file_name f = file_name g"
      by (auto dest: in_set_takeD)
    then have "g \<in> set (backup_dir dk)" "is_backup g"
      by (auto simp: canonical_backup_files_def backup_files_in_def)
    with assms that g(2) have "f = g" by (auto simp: distinct_map inj_on_def)
    with that \<open>is_backup g\<close> show False by simp
  qed
  then show ?thesis by (auto simp: rotate_backups_def Let_def intro!: filter_cong)
qed

text \<open>Rotation keeps the newest: after a backup, the backups are the youngest of those that
  were there followed by the copy of the state just taken, no more of them than the store
  keeps, and no file that is not a backup was touched.\<close>

theorem backup_rotation_keeps_the_newest:
  assumes "backup_room now fresh dk" "state_file dk = Some cont" "\<not> too_recent cfg now dk" "1 \<le> backup_keep cfg"
    and "kept = canonical_backup_files (backup cfg now fresh dk)"
  shows "suffix kept (canonical_backup_files dk @ [fresh_backup now fresh cont])
       \<and> int (length kept) = min (backup_keep cfg) (int (length (canonical_backup_files dk)) + 1)
       \<and> last kept = fresh_backup now fresh cont
       \<and> filter (\<lambda>f. \<not> is_backup f) (backup_dir (backup cfg now fresh dk)) = filter (\<lambda>f. \<not> is_backup f) (backup_dir dk)"
proof -
  let ?all = "canonical_backup_files dk @ [fresh_backup now fresh cont]"
  let ?n = "nat (max 0 (int (length (canonical_backup_files dk)) + 1 - backup_keep cfg))"
  have k: "kept = drop ?n ?all" using backup_taken[OF assms(1-3)] assms(5) by simp
  have len: "int (length kept) = min (backup_keep cfg) (int (length (canonical_backup_files dk)) + 1)"
    using assms(4) by (simp add: k)
  with assms(4) have "kept \<noteq> []" by auto
  then have "last kept = last ?all" unfolding k by (simp only: last_drop length_drop length_greater_0_conv[symmetric])
  moreover have "filter (\<lambda>f. \<not> is_backup f) (backup_dir (backup cfg now fresh dk)) = filter (\<lambda>f. \<not> is_backup f) (backup_dir dk)"
    using assms(1,2,3) rotation_keeps_foreign[of "dk\<lparr>backup_dir := backup_dir dk @ [fresh_backup now fresh cont]\<rparr>"]
    by (auto simp: backup_def backup_room_def fresh_backup_def is_backup_fresh[unfolded fresh_backup_def])
  moreover have "suffix kept ?all" unfolding k by (rule suffix_drop)
  ultimately show ?thesis using len by (intro conjI) (assumption | simp only: last_snoc)+
qed

definition example_store :: store_config where
  "example_store = \<lparr>has_fallback_state = False, has_fallback_backups = False, backup_keep = 2,
     backup_min_interval_seconds = 600, history_keys = RUNTIME_STATE_HISTORY_KEYS\<rparr>"

definition example_backup :: backup_file where
  "example_backup = \<lparr>file_name = ''state-a.json'', modified = Some 0, content = Some (PDict [(''stats'', PDict [])])\<rparr>"

definition example_disk :: disk where
  "example_disk = \<lparr>state_file = Some None, fallback_state_file = None, backup_dir = [example_backup], fallback_backup_dir = []\<rparr>"

lemma example_disk_facts:
  "canonical_backup_files example_disk = [example_backup]"
  "backup_room 900 ''b'' example_disk" "state_file example_disk = Some None"
  "\<not> too_recent example_store 900 example_disk" "backup_keep example_store = 2"
proof -
  show c: "canonical_backup_files example_disk = [example_backup]"
    by (simp add: canonical_backup_files_def backup_files_in_def is_backup_def example_disk_def example_backup_def
        starts_with_def ends_with_def suffix_def)
  then show "backup_room 900 ''b'' example_disk" "\<not> too_recent example_store 900 example_disk"
    by (simp_all add: backup_room_def too_recent_def example_store_def Let_def)
       (simp_all add: example_disk_def example_backup_def backup_name_def)
qed (simp_all add: example_disk_def example_store_def)

lemma backup_rotation_keeps_the_newest_witness:
  "length (canonical_backup_files (backup example_store 900 ''b'' example_disk)) = 2"
  using backup_rotation_keeps_the_newest[OF example_disk_facts(2,3,4) _ refl]
  by (simp add: example_disk_facts)



section \<open>Several processes and one lock\<close>

text \<open>What a process is about to do: its clock, the fresh part of its backup's name, its change.\<close>

record job =
  job_now :: real
  job_fresh :: string
  job_mutator :: mutator

text \<open>How an update ended: it returned or raised, or the process died before or after the backup.\<close>

datatype ending = Returned | DiedEarly | DiedLate

datatype phase = Waiting | Locked | Loaded pv | Finished ending

record world =
  shared :: disk
  lock_holder :: "nat option"
  phases :: "nat \<Rightarrow> phase"

text \<open>The three stretches of \<open>update\<close> between which another process may run, and the death of
  a process, on which the operating system releases the lock.\<close>

inductive store_step :: "store_config \<Rightarrow> (nat \<Rightarrow> job) \<Rightarrow> world \<Rightarrow> world \<Rightarrow> bool"
  for cfg :: store_config and jobs :: "nat \<Rightarrow> job" where
  acquire: "phases w i = Waiting \<Longrightarrow> lock_holder w = None \<Longrightarrow>
     store_step cfg jobs w (w\<lparr>lock_holder := Some i, phases := (phases w)(i := Locked)\<rparr>)"
| load: "phases w i = Locked \<Longrightarrow> dk = backup cfg (job_now (jobs i)) (job_fresh (jobs i)) (shared w) \<Longrightarrow>
     store_step cfg jobs w
       (w\<lparr>shared := dk, phases := (phases w)(i := Loaded (load_state cfg dk (PDict [])))\<rparr>)"
| commit: "phases w i = Loaded current \<Longrightarrow>
     store_step cfg jobs w
       (w\<lparr>shared := (case next_state (job_mutator (jobs i)) (as_dict current) of
                      None \<Rightarrow> shared w
                    | Some state \<Rightarrow> put_state (merge_for_write (history_keys cfg) (job_now (jobs i)) current state) (shared w)),
          lock_holder := None, phases := (phases w)(i := Finished Returned)\<rparr>)"
| die_early: "phases w i = Locked \<Longrightarrow>
     store_step cfg jobs w (w\<lparr>lock_holder := None, phases := (phases w)(i := Finished DiedEarly)\<rparr>)"
| die_late: "phases w i = Loaded current \<Longrightarrow>
     store_step cfg jobs w (w\<lparr>lock_holder := None, phases := (phases w)(i := Finished DiedLate)\<rparr>)"

inductive reaches :: "store_config \<Rightarrow> (nat \<Rightarrow> job) \<Rightarrow> world \<Rightarrow> world \<Rightarrow> bool"
  for cfg :: store_config and jobs :: "nat \<Rightarrow> job" where
  start: "reaches cfg jobs w w"
| more: "reaches cfg jobs w v \<Longrightarrow> store_step cfg jobs v u \<Longrightarrow> reaches cfg jobs w u"

definition all_waiting :: "disk \<Rightarrow> world" where
  "all_waiting dk = \<lparr>shared = dk, lock_holder = None, phases = (\<lambda>_. Waiting)\<rparr>"

text \<open>One update after another, each run to its ending.\<close>

definition run_job :: "store_config \<Rightarrow> (nat \<Rightarrow> job) \<Rightarrow> nat \<times> ending \<Rightarrow> disk \<Rightarrow> disk" where
  "run_job cfg jobs e dk =
     (let j = jobs (fst e) in
      case snd e of
        Returned \<Rightarrow> fst (update_state cfg (job_now j) (job_fresh j) (job_mutator j) dk)
      | DiedEarly \<Rightarrow> dk
      | DiedLate \<Rightarrow> backup cfg (job_now j) (job_fresh j) dk)"

definition serial_run :: "store_config \<Rightarrow> (nat \<Rightarrow> job) \<Rightarrow> (nat \<times> ending) list \<Rightarrow> disk \<Rightarrow> disk" where
  "serial_run cfg jobs es dk = fold (run_job cfg jobs) es dk"

definition explained :: "store_config \<Rightarrow> (nat \<Rightarrow> job) \<Rightarrow> disk \<Rightarrow> world \<Rightarrow> (nat \<times> ending) list \<Rightarrow> bool" where
  "explained cfg jobs dk w es \<longleftrightarrow>
     distinct (map fst es) \<and> (\<forall>i e. phases w i = Finished e \<longleftrightarrow> (i, e) \<in> set es)
     \<and> (\<forall>i. lock_holder w \<noteq> Some i \<longrightarrow> phases w i = Waiting \<or> (\<exists>e. phases w i = Finished e))
     \<and> (case lock_holder w of
          None \<Rightarrow> shared w = serial_run cfg jobs es dk
        | Some i \<Rightarrow>
            phases w i = Locked \<and> shared w = serial_run cfg jobs es dk
            \<or> shared w = backup cfg (job_now (jobs i)) (job_fresh (jobs i)) (serial_run cfg jobs es dk)
              \<and> phases w i = Loaded (load_state cfg (shared w) (PDict [])))"

lemma explained_holder:
  assumes "explained cfg jobs dk w es" "phases w i = Locked \<or> (\<exists>v. phases w i = Loaded v)"
  shows "lock_holder w = Some i" "i \<notin> fst ` set es"
proof -
  show "lock_holder w = Some i" using assms unfolding explained_def by fastforce
  have "(i, e) \<notin> set es" for e
    using assms unfolding explained_def by (metis phase.distinct(10) phase.distinct(12))
  then show "i \<notin> fst ` set es" by force
qed

lemma serial_run_snoc: "serial_run cfg jobs (es @ [e]) dk = run_job cfg jobs e (serial_run cfg jobs es dk)"
  by (simp add: serial_run_def)

lemma explained_finish:
  assumes "explained cfg jobs dk w es" "phases w i = Locked \<or> (\<exists>v. phases w i = Loaded v)"
    and "after = run_job cfg jobs (i, ending) (serial_run cfg jobs es dk)"
  shows "explained cfg jobs dk
     (w\<lparr>shared := after, lock_holder := None, phases := (phases w)(i := Finished ending)\<rparr>) (es @ [(i, ending)])"
  using assms explained_holder[OF assms(1,2)]
  unfolding explained_def
  by (auto simp: serial_run_snoc image_iff)

lemma step_explained:
  assumes "store_step cfg jobs w u" "explained cfg jobs dk w es"
  shows "\<exists>es'. explained cfg jobs dk u es'"
  using assms(1)
proof cases
  case (acquire i)
  then have "(i, e) \<notin> set es" for e
    using assms(2) unfolding explained_def by (metis phase.distinct(5))
  with acquire show ?thesis using assms(2) by (intro exI[of _ es]) (auto simp: explained_def)
next
  case (load i dk')
  with explained_holder[OF assms(2), of i] have "lock_holder w = Some i" "\<And>e. (i, e) \<notin> set es" by force+
  with load show ?thesis using assms(2) by (intro exI[of _ es]) (auto simp: explained_def)
next
  case (commit i current)
  then have held: "phases w i = Locked \<or> (\<exists>v. phases w i = Loaded v)" by simp
  note holder = explained_holder(1)[OF assms(2) held]
  have "shared w = backup cfg (job_now (jobs i)) (job_fresh (jobs i)) (serial_run cfg jobs es dk)"
    "current = load_state cfg (shared w) (PDict [])"
    using assms(2) holder commit by (auto simp: explained_def)
  then have "shared u = run_job cfg jobs (i, Returned) (serial_run cfg jobs es dk)"
    by (simp add: commit run_job_def update_state_def merged_update_def Let_def split: option.splits)
  from explained_finish[OF assms(2) held this] show ?thesis
    using commit(1) by (intro exI[of _ "es @ [(i, Returned)]"]) (simp add: commit)
next
  case (die_early i)
  then have held: "phases w i = Locked \<or> (\<exists>v. phases w i = Loaded v)" by simp
  have "shared w = run_job cfg jobs (i, DiedEarly) (serial_run cfg jobs es dk)"
    using assms(2) explained_holder(1)[OF assms(2) held] die_early by (auto simp: explained_def run_job_def)
  from explained_finish[OF assms(2) held this] show ?thesis
    by (intro exI[of _ "es @ [(i, DiedEarly)]"]) (simp add: die_early)
next
  case (die_late i current)
  then have held: "phases w i = Locked \<or> (\<exists>v. phases w i = Loaded v)" by simp
  have "shared w = run_job cfg jobs (i, DiedLate) (serial_run cfg jobs es dk)"
    using assms(2) explained_holder(1)[OF assms(2) held] die_late by (auto simp: explained_def run_job_def Let_def)
  from explained_finish[OF assms(2) held this] show ?thesis
    by (intro exI[of _ "es @ [(i, DiedLate)]"]) (simp add: die_late)
qed

lemma reachable_explained:
  assumes "reaches cfg jobs (all_waiting dk) w"
  shows "\<exists>es. explained cfg jobs dk w es"
  using assms
proof (induction "all_waiting dk" w rule: reaches.induct)
  case start
  show ?case by (rule exI[of _ "[]"]) (simp add: explained_def all_waiting_def serial_run_def)
qed (use step_explained in blast)

text \<open>C24. No update is lost: however the updates of several processes interleave, and wherever
  some of them die, when the lock is free the disk is what the updates that ended leave when
  they are run one after another, each of them once.\<close>

theorem updates_are_serial:
  assumes "reaches cfg jobs (all_waiting dk) w" "lock_holder w = None"
  shows "\<exists>es. shared w = serial_run cfg jobs es dk \<and> distinct (map fst es)
            \<and> (\<forall>i e. phases w i = Finished e \<longleftrightarrow> (i, e) \<in> set es)"
  using reachable_explained[OF assms(1)] assms(2) by (auto simp: explained_def)

definition example_jobs :: "nat \<Rightarrow> job" where
  "example_jobs i = \<lparr>job_now = 900, job_fresh = ''b'', job_mutator = (\<lambda>s. Some (s, None))\<rparr>"

lemma updates_are_serial_witness:
  "\<exists>(w :: world) es. lock_holder w = None \<and> phases w 7 = Finished DiedEarly
     \<and> shared w = serial_run example_store example_jobs es example_disk \<and> es = [(7, DiedEarly)]"
proof -
  define w1 where "w1 = (all_waiting example_disk)\<lparr>lock_holder := Some 7, phases := (\<lambda>_. Waiting)(7 := Locked)\<rparr>"
  define w2 where "w2 = w1\<lparr>lock_holder := None, phases := (phases w1)(7 := Finished DiedEarly)\<rparr>"
  have "store_step example_store example_jobs (all_waiting example_disk) w1"
    unfolding w1_def using store_step.acquire[of "all_waiting example_disk" 7] by (simp add: all_waiting_def)
  moreover have "store_step example_store example_jobs w1 w2"
    unfolding w2_def by (rule store_step.die_early) (simp add: w1_def)
  ultimately have "reaches example_store example_jobs (all_waiting example_disk) w2"
    by (meson reaches.start reaches.more)
  then obtain es where es: "shared w2 = serial_run example_store example_jobs es example_disk" "distinct (map fst es)"
    "\<forall>i e. phases w2 i = Finished e \<longleftrightarrow> (i, e) \<in> set es"
    using updates_are_serial[of example_store example_jobs example_disk w2] by (auto simp: w2_def)
  have mem: "(i, e) \<in> set es \<longleftrightarrow> i = 7 \<and> e = DiedEarly" for i e
    using es(3)[rule_format, of i e, symmetric] by (auto simp: w2_def w1_def all_waiting_def)
  then have "set es = {(7, DiedEarly)}" by auto
  moreover have "distinct es" using es(2) by (simp add: distinct_map)
  ultimately have "es = [(7, DiedEarly)]"
    by (metis distinct.simps(2) list.set_cases list.set_intros(1,2) singletonD neq_Nil_conv empty_not_insert list.set(1))
  with es(1) show ?thesis by (intro exI[of _ w2] exI[of _ es]) (simp add: w2_def)
qed

end
