(* ===== verification/CatalogModel.thy ===== *)
theory CatalogModel
  imports CooldownBase
begin

text \<open>
  The typed view of a catalog row (\<open>domain_models.py\<close>): \<open>CatalogModel.from_raw\<close> with its
  field readings and the redaction of the fields it does not know. The names clash with the
  readings of other modules, so they are prefixed \<open>dm_\<close> here. A deep copy is the value.
\<close>

section \<open>Field readings\<close>

definition SENSITIVE_JSON_KEYS_DM :: "string list" where
  "SENSITIVE_JSON_KEYS_DM =
     [''api_key'', ''apikey'', ''authorization'', ''access_token'', ''accesstoken'', ''refresh_token'',
      ''refreshtoken'', ''token'']"

definition SENSITIVE_KEY_PARTS :: "string list" where
  "SENSITIVE_KEY_PARTS = [''authorization'', ''bearer'', ''credential'', ''password'', ''secret'', ''token'']"

definition dm_safe_string :: "pv \<Rightarrow> string" where
  "dm_safe_string v = (if v = PNone then [] else strip (py_str v))"

definition dm_safe_int :: "pv \<Rightarrow> int \<Rightarrow> int" where
  "dm_safe_int v d = (case v of PBool _ \<Rightarrow> d | _ \<Rightarrow> (case py_int v of None \<Rightarrow> d | Some i \<Rightarrow> i))"

definition dm_safe_string_list :: "pv \<Rightarrow> string list" where
  "dm_safe_string_list v = filter (\<lambda>t. t \<noteq> []) (map (\<lambda>item. strip (py_str item)) (as_list v))"

definition is_sensitive_key :: "string \<Rightarrow> bool" where
  "is_sensitive_key key =
     (let normalized = replace_char (CHR ''-'') ''_'' (lower key);
          compact = replace_char (CHR ''_'') [] normalized
      in normalized \<in> set SENSITIVE_JSON_KEYS_DM \<or> compact \<in> set SENSITIVE_JSON_KEYS_DM
         \<or> ends_with ''_api_key'' normalized \<or> ends_with ''_access_token'' normalized
         \<or> ends_with ''_refresh_token'' normalized \<or> ends_with ''apikey'' compact
         \<or> ends_with ''accesstoken'' compact \<or> ends_with ''refreshtoken'' compact
         \<or> list_ex (\<lambda>part. contains part normalized) SENSITIVE_KEY_PARTS)"

fun redact_extra_value :: "pv \<Rightarrow> pv" where
  "redact_extra_value (PDict d) =
     PDict (map (\<lambda>(key, item).
       (key, if is_sensitive_key key \<and> item \<noteq> PNone \<and> item \<noteq> PStr [] then PStr ''[redacted]''
             else redact_extra_value item)) d)"
| "redact_extra_value (PList xs) = PList (map redact_extra_value xs)"
| "redact_extra_value v = v"

definition redact_unknown_fields :: "pydict \<Rightarrow> string list \<Rightarrow> pydict" where
  "redact_unknown_fields raw known =
     map (\<lambda>(key, value). (key, if is_sensitive_key key then PStr ''[redacted]'' else redact_extra_value value))
       (filter (\<lambda>(key, _). key \<notin> set known) raw)"

section \<open>The typed row\<close>

record catalog_model =
  cm_id :: string
  cm_source :: string
  cm_upstream_id :: string
  cm_context_length :: int
  cm_supports_tools :: bool
  cm_supports_structured_outputs :: bool
  cm_invokable :: bool
  cm_pricing :: pydict
  cm_pricing_safety :: pydict
  cm_free_access :: pydict
  cm_supported_parameters :: "string list"
  cm_input_modalities :: "string list"
  cm_output_modalities :: "string list"
  cm_provider_account_id :: "string option"
  cm_name :: "string option"
  cm_extra_fields :: pydict
  cm_raw :: pydict

definition KNOWN_FIELDS :: "string list" where
  "KNOWN_FIELDS =
     [''id'', ''source'', ''upstream_id'', ''context_length'', ''supports_tools'', ''supports_structured_outputs'',
      ''invokable'', ''pricing'', ''pricing_safety'', ''free_access'', ''supported_parameters'',
      ''input_modalities'', ''output_modalities'', ''provider_account_id'', ''name'']"

definition removeprefix :: "string \<Rightarrow> string \<Rightarrow> string" where
  "removeprefix s p = (if starts_with p s then drop (length p) s else s)"

definition or_none :: "string \<Rightarrow> string option" where
  "or_none s = (if s = [] then None else Some s)"

definition upstream_id_of :: "pydict \<Rightarrow> string" where
  "upstream_id_of row =
     (let model_id = dm_safe_string (dget row ''id'');
          source = dm_safe_string (dget row ''source'');
          upstream_id = dm_safe_string (dget row ''upstream_id'');
          source_prefix = (if source = [] then [] else ''ficelle/'' @ source @ ''/'')
      in if upstream_id \<noteq> [] then upstream_id
         else if model_id \<noteq> [] \<and> source_prefix \<noteq> [] then removeprefix model_id source_prefix
         else model_id)"

definition from_raw :: "pv \<Rightarrow> catalog_model option" where
  "from_raw v =
     (case v of
        PDict row \<Rightarrow> Some
          \<lparr>cm_id = dm_safe_string (dget row ''id''),
           cm_source = dm_safe_string (dget row ''source''),
           cm_upstream_id = upstream_id_of row,
           cm_context_length = max 0 (dm_safe_int (dget row ''context_length'') 0),
           cm_supports_tools = truthy (dget row ''supports_tools''),
           cm_supports_structured_outputs = truthy (dget row ''supports_structured_outputs''),
           cm_invokable = truthy (dget row ''invokable''),
           cm_pricing = section_of row ''pricing'',
           cm_pricing_safety = section_of row ''pricing_safety'',
           cm_free_access = section_of row ''free_access'',
           cm_supported_parameters = dm_safe_string_list (dget row ''supported_parameters''),
           cm_input_modalities = dm_safe_string_list (dget row ''input_modalities''),
           cm_output_modalities = dm_safe_string_list (dget row ''output_modalities''),
           cm_provider_account_id = or_none (dm_safe_string (dget row ''provider_account_id'')),
           cm_name = or_none (dm_safe_string (dget row ''name'')),
           cm_extra_fields = redact_unknown_fields row KNOWN_FIELDS,
           cm_raw = row\<rparr>
      | _ \<Rightarrow> None)"

definition as_legacy_dict :: "catalog_model \<Rightarrow> pydict" where
  "as_legacy_dict model = cm_raw model"

section \<open>What a typed row shows\<close>

lemma from_raw_PDict: "\<exists>m. from_raw (PDict row) = Some m \<and> cm_raw m = row"
  by (simp add: from_raw_def)

lemma strip_safe_string [simp]: "strip (dm_safe_string v) = dm_safe_string v"
  by (simp add: dm_safe_string_def) (simp add: strip_def lstrip_def)

lemma from_raw_None: "from_raw v = None \<longleftrightarrow> \<not> is_dict v"
  by (cases v) (simp_all add: from_raw_def)

text \<open>No value below a sensitive key is left, at any depth; \<open>clean\<close> says it of a value.\<close>

fun clean :: "pv \<Rightarrow> bool" where
  "clean (PDict d) = list_all (\<lambda>(key, v).
     if is_sensitive_key key then v = PStr ''[redacted]'' \<or> v = PNone \<or> v = PStr [] else clean v) d"
| "clean (PList xs) = list_all clean xs"
| "clean _ = True"

lemma redact_extra_atomic:
  "v = PNone \<or> v = PStr [] \<Longrightarrow> redact_extra_value v = v"
  by auto

lemma redact_extra_clean: "clean (redact_extra_value v)"
proof (induction v rule: redact_extra_value.induct)
  case (1 d)
  have "if is_sensitive_key key then w = PStr ''[redacted]'' \<or> w = PNone \<or> w = PStr [] else clean w"
    if "(key, item) \<in> set d"
      and w: "w = (if is_sensitive_key key \<and> item \<noteq> PNone \<and> item \<noteq> PStr [] then PStr ''[redacted]''
             else redact_extra_value item)" for key item w
  proof (cases "is_sensitive_key key \<and> item \<noteq> PNone \<and> item \<noteq> PStr []")
    case True
    then show ?thesis by (simp add: w)
  next
    case False
    show ?thesis
    proof (cases "is_sensitive_key key")
      case True
      with False show ?thesis by (auto simp: w)
    next
      case False
      with 1[OF that(1) refl] show ?thesis by (simp add: w)
    qed
  qed
  then show ?case by (fastforce simp: list_all_iff simp del: not_None_eq)
qed (simp_all add: list_all_iff)

text \<open>The typed row of a catalog entry is faithful and shows no secret: the entry itself is
  what \<open>as_legacy_dict\<close> gives back, the identifiers are stripped and the sizes are not negative,
  and among the fields it does not know, those with a sensitive name are redacted whatever they
  hold, and no value below a sensitive key is left at any depth.\<close>

theorem typed_row_is_faithful_and_clean:
  assumes "from_raw (PDict row) = Some model"
  shows "as_legacy_dict model = row
       \<and> strip (cm_id model) = cm_id model \<and> strip (cm_source model) = cm_source model \<and> 0 \<le> cm_context_length model
       \<and> (\<forall>(key, v) \<in> set (cm_extra_fields model).
            key \<notin> set KNOWN_FIELDS \<and> (if is_sensitive_key key then v = PStr ''[redacted]'' else clean v))"
  using assms
  by (auto simp: from_raw_def as_legacy_dict_def strip_safe_string redact_unknown_fields_def redact_extra_clean)

definition example_row :: pydict where
  "example_row = [(''id'', PStr ''m''), (''api_key'', PStr ''k''), (''extra'', PDict [(''token'', PStr ''t'')])]"

lemma typed_row_is_faithful_and_clean_witness:
  "\<exists>model. from_raw (PDict example_row) = Some model \<and> as_legacy_dict model = example_row
     \<and> (\<forall>(key, v) \<in> set (cm_extra_fields model). key \<notin> set KNOWN_FIELDS
         \<and> (if is_sensitive_key key then v = PStr ''[redacted]'' else clean v))"
proof -
  obtain model where m: "from_raw (PDict example_row) = Some model" using from_raw_PDict by blast
  show ?thesis
    using typed_row_is_faithful_and_clean[OF m] m by (intro exI[of _ model]) (elim conjE, intro conjI)
qed

end
