(* ===== verification/QualityFeedback.thy ===== *)
theory QualityFeedback
  imports StateMerge
begin

text \<open>
  Operator quality evidence (\<open>use_cases/quality_feedback.py\<close>): the closed body of a feedback
  request, the ledger of event slots with its compare-and-set revisions, the pruning of
  expired slots, and the recency-weighted summary the scoring reads. The digest that names a
  slot and the rendering of a time are functions of the standard library and are passed in
  (\<open>qf_ports\<close>). An error carries its code and HTTP status; a failed write leaves the state as it
  was, since the code works on a copy.
\<close>

section \<open>Constants and errors\<close>

definition QUALITY_FEEDBACK_MAX_SLOTS :: nat where "QUALITY_FEEDBACK_MAX_SLOTS = 256"

definition QUALITY_HALF_LIFE_SECONDS :: real where "QUALITY_HALF_LIFE_SECONDS = 7 * 86400"

definition MAX_AGE_SECONDS :: real where "MAX_AGE_SECONDS = 30 * 86400"

definition ALLOWED_BODY_KEYS :: "string list" where
  "ALLOWED_BODY_KEYS = [''request_id'', ''outcome'', ''severity'', ''reason'', ''validator'', ''expected_revision'']"

definition FAIL_SEVERITIES :: "string list" where
  "FAIL_SEVERITIES = [''minor'', ''major'', ''critical'']"

definition FEEDBACK_REASONS :: "string list" where
  "FEEDBACK_REASONS =
     [''empty_output'', ''invalid_json'', ''tool_loop'', ''unit_mismatch'', ''internal_contradiction'',
      ''critical_omission'', ''language_contamination'', ''unsafe_action'', ''manual_rejection'']"

definition failure_weight :: "string \<Rightarrow> real" where
  "failure_weight severity =
     (if severity = ''minor'' then 1 / 3 else if severity = ''major'' then 1 else 2)"

record quality_error =
  qe_code :: string
  qe_http_status :: int

definition quality_fail :: "string \<Rightarrow> int \<Rightarrow> quality_error + 'a" where
  "quality_fail c status = Inl \<lparr>qe_code = c, qe_http_status = status\<rparr>"

record quality_input =
  qf_request_id :: string
  qf_outcome :: string
  qf_severity :: string
  qf_reason :: string
  qf_validator :: string
  qf_expected_revision :: int

section \<open>The body of a request\<close>

text \<open>\<open>^[A-Za-z0-9_-]{1,128}$\<close> and \<open>^[a-z][a-z0-9_.-]{0,63}$\<close>, matched in full.\<close>

definition is_request_id :: "string \<Rightarrow> bool" where
  "is_request_id s \<longleftrightarrow>
     s \<noteq> [] \<and> length s \<le> 128 \<and>
     list_all (\<lambda>c. is_upper c \<or> is_lower c \<or> is_digit c \<or> c = CHR ''_'' \<or> c = CHR ''-'') s"

definition is_validator :: "string \<Rightarrow> bool" where
  "is_validator s \<longleftrightarrow>
     (case s of
        [] \<Rightarrow> False
      | c # r \<Rightarrow> is_lower c \<and> length r \<le> 63 \<and>
          list_all (\<lambda>c. is_lower c \<or> is_digit c \<or> c = CHR ''_'' \<or> c = CHR ''.'' \<or> c = CHR ''-'') r)"

definition severity_fits :: "string \<Rightarrow> string \<Rightarrow> bool" where
  "severity_fits oc sev \<longleftrightarrow>
     (oc = ''pass'' \<and> sev = ''none'') \<or> (oc = ''fail'' \<and> sev \<in> set FAIL_SEVERITIES)"

definition parse_quality_feedback_payload :: "pv \<Rightarrow> quality_error + quality_input" where
  "parse_quality_feedback_payload payload =
     (let bad = quality_fail ''invalid_quality_feedback'' 400 in
      case payload of
        PDict d \<Rightarrow>
          if set (dkeys d) \<noteq> set ALLOWED_BODY_KEYS then bad
          else
            (case (dget d ''request_id'', dget d ''outcome'', dget d ''severity'', dget d ''reason'',
                   dget d ''validator'', dget d ''expected_revision'') of
               (PStr rid, PStr oc, PStr sev, PStr rsn, PStr val, PInt rv) \<Rightarrow>
                 if is_request_id rid \<and> severity_fits oc sev \<and> rsn \<in> set FEEDBACK_REASONS
                    \<and> is_validator val \<and> 0 \<le> rv \<and> rv \<le> 1000000
                 then Inr \<lparr>qf_request_id = rid, qf_outcome = oc, qf_severity = sev, qf_reason = rsn,
                           qf_validator = val, qf_expected_revision = rv\<rparr>
                 else bad
             | _ \<Rightarrow> bad)
      | _ \<Rightarrow> bad)"

section \<open>The ledger\<close>

definition slots_for :: "pydict \<Rightarrow> string \<Rightarrow> string \<Rightarrow> pydict" where
  "slots_for state model_key profile_id =
     section_of (section_of (section_of (section_of state ''quality_feedback'') model_key) profile_id) ''event_slots''"

text \<open>\<open>_ledger_for_write\<close> creates every missing level; here with the slots it is about to hold.\<close>

definition put_slots :: "string \<Rightarrow> string \<Rightarrow> pydict \<Rightarrow> pydict \<Rightarrow> pydict" where
  "put_slots model_key profile_id slots state =
     (let feedback = section_of state ''quality_feedback'';
          models = section_of feedback model_key;
          ledger = section_of models profile_id
      in dset ''quality_feedback''
           (PDict (dset model_key
             (PDict (dset profile_id (PDict (dset ''event_slots'' (PDict slots) ledger)) models)) feedback)) state)"

definition prune_profile :: "real \<Rightarrow> string \<times> pv \<Rightarrow> pydict" where
  "prune_profile now entry =
     (case entry of (profile_id, ledger) \<Rightarrow>
        (case dget (as_dict ledger) ''event_slots'' of
           PDict slots \<Rightarrow>
             (let active = filter (\<lambda>(_, row). active_slot now row) slots
              in if active \<noteq> [] then [(profile_id, PDict (dset ''event_slots'' (PDict active) (as_dict ledger)))] else [])
         | _ \<Rightarrow> []))"

definition prune_model :: "real \<Rightarrow> string \<times> pv \<Rightarrow> pydict" where
  "prune_model now entry =
     (case entry of (model_key, profiles) \<Rightarrow>
        (let kept = concat (map (prune_profile now) (as_dict profiles))
         in if kept \<noteq> [] then [(model_key, PDict kept)] else []))"

definition prune_expired_slots :: "real \<Rightarrow> pydict \<Rightarrow> pydict" where
  "prune_expired_slots now state =
     (case dget state ''quality_feedback'' of
        PDict feedback \<Rightarrow>
          (let kept = concat (map (prune_model now) feedback)
           in if kept \<noteq> [] then dset ''quality_feedback'' (PDict kept) state else dpop ''quality_feedback'' state)
      | _ \<Rightarrow> state)"

section \<open>The summary\<close>

definition empty_summary :: pydict where
  "empty_summary =
     [(''sample_count'', PInt 0), (''quality_adjustment'', PReal 0), (''last_reason'', PNone),
      (''last_severity'', PNone), (''last_recorded_at'', PNone), (''status'', PStr ''none'')]"

text \<open>A row that counts: its date, whether it is a pass, and its weight before ageing.\<close>

definition counted_row :: "real \<Rightarrow> pv \<Rightarrow> (real \<times> bool \<times> real) option" where
  "counted_row now row =
     (case row of
        PDict d \<Rightarrow>
          (case (parse_iso_timestamp (dget d ''expires_at''), parse_iso_timestamp (dget d ''recorded_at''),
                 dget d ''outcome'', dget d ''severity'', dget d ''reason'', dget d ''validator'') of
             (Some expires_at, Some recorded_at, PStr oc, PStr sev, PStr rsn, PStr val) \<Rightarrow>
               if now < expires_at \<and> rsn \<in> set FEEDBACK_REASONS \<and> is_validator val \<and> severity_fits oc sev
               then Some (recorded_at, oc = ''pass'', failure_weight sev) else None
           | _ \<Rightarrow> None)
      | _ \<Rightarrow> None)"

record tally =
  sample_count :: nat
  active_fail_weight :: real
  active_pass_weight :: real
  latest_row :: "(real \<times> pydict) option"

definition quality_decay :: "real \<Rightarrow> real \<Rightarrow> real" where
  "quality_decay now recorded_at = (1 / 2) powr (max 0 (now - recorded_at) / QUALITY_HALF_LIFE_SECONDS)"

definition tally_row :: "real \<Rightarrow> pv \<Rightarrow> tally \<Rightarrow> tally" where
  "tally_row now row t =
     (case counted_row now row of
        None \<Rightarrow> t
      | Some (recorded_at, passed, weight) \<Rightarrow>
          (let decay = quality_decay now recorded_at in
           \<lparr>sample_count = Suc (sample_count t),
            active_fail_weight = (if passed then active_fail_weight t else active_fail_weight t + weight * decay),
            active_pass_weight = (if passed then active_pass_weight t + decay else active_pass_weight t),
            latest_row =
              (case latest_row t of
                 None \<Rightarrow> Some (recorded_at, as_dict row)
               | Some (stamp, kept) \<Rightarrow>
                   if stamp \<le> recorded_at then Some (recorded_at, as_dict row) else Some (stamp, kept))\<rparr>))"

definition tally_slots :: "real \<Rightarrow> pydict \<Rightarrow> tally" where
  "tally_slots now slots =
     fold (tally_row now) (map snd slots) \<lparr>sample_count = 0, active_fail_weight = 0, active_pass_weight = 0, latest_row = None\<rparr>"

definition adjustment_of :: "tally \<Rightarrow> real" where
  "adjustment_of t = max (- 24) (min 4 (min 4 (active_pass_weight t) - min 24 (12 * active_fail_weight t)))"

definition quality_feedback_summary :: "pydict \<Rightarrow> string \<Rightarrow> string \<Rightarrow> real \<Rightarrow> pydict" where
  "quality_feedback_summary state model_key profile_id now =
     (let t = tally_slots now (slots_for state model_key profile_id) in
      case latest_row t of
        None \<Rightarrow> empty_summary
      | Some (_, row) \<Rightarrow>
          [(''sample_count'', PInt (int (sample_count t))), (''quality_adjustment'', PReal (adjustment_of t)),
           (''last_reason'', dget row ''reason''), (''last_severity'', dget row ''severity''),
           (''last_recorded_at'', dget row ''recorded_at''), (''status'', dget row ''outcome'')])"

definition quality_feedback_summary_for_model :: "string \<Rightarrow> pydict \<Rightarrow> pydict \<Rightarrow> real \<Rightarrow> pydict" where
  "quality_feedback_summary_for_model profile_id model state now =
     (case (dget model ''source'', dget model ''upstream_id'') of
        (PStr source, PStr upstream_id) \<Rightarrow>
          if source \<noteq> [] \<and> upstream_id \<noteq> []
          then quality_feedback_summary state (source @ ''::'' @ upstream_id) profile_id now
          else empty_summary
      | _ \<Rightarrow> empty_summary)"

section \<open>Scoring view and status\<close>

definition unique :: "string list \<Rightarrow> string list" where
  "unique xs = rev (remdups (rev xs))"

definition enabled_profiles :: "(string \<Rightarrow> string) \<Rightarrow> pydict \<Rightarrow> string list" where
  "enabled_profiles canonical_profile_id source =
     (let profiles = (case dget source ''enabled_profiles'' of PList xs \<Rightarrow> xs
                      | _ \<Rightarrow> [PStr ''ficelle/auto-orchestrator''])
      in unique (filter (\<lambda>s. s \<noteq> []) (map (\<lambda>v. canonical_profile_id (py_str v)) (filter is_str profiles))))"

definition quality_feedback_scoring_state :: "pydict \<Rightarrow> pydict \<Rightarrow> (string \<Rightarrow> string) \<Rightarrow> pydict" where
  "quality_feedback_scoring_state state config canonical_profile_id =
     (let source = section_of config ''quality_feedback'' in
      dset ''_quality_feedback_config''
        (PDict [(''routing_enabled'', PBool (truthy (dget source ''routing_enabled''))),
                (''enabled_profiles'', PList (map PStr (enabled_profiles canonical_profile_id source)))]) state)"

definition quality_feedback_routing_enabled :: "string \<Rightarrow> pydict \<Rightarrow> bool" where
  "quality_feedback_routing_enabled profile_id state \<longleftrightarrow>
     (let settings = section_of state ''_quality_feedback_config'' in
      truthy (dget settings ''routing_enabled'')
      \<and> PStr profile_id \<in> set (as_list (dget settings ''enabled_profiles'')))"

definition status_profiles :: "pydict \<Rightarrow> string \<Rightarrow> pydict \<Rightarrow> real \<Rightarrow> pydict" where
  "status_profiles state model_key profiles now =
     filter (\<lambda>(_, summary). truthy (dget (as_dict summary) ''sample_count''))
       (map (\<lambda>(profile_id, _). (profile_id, PDict (quality_feedback_summary state model_key profile_id now))) profiles)"

definition quality_feedback_status :: "pydict \<Rightarrow> real \<Rightarrow> pydict" where
  "quality_feedback_status state now =
     concat (map (\<lambda>(model_key, profiles).
       let rows = status_profiles state model_key (as_dict profiles) now
       in if rows \<noteq> [] then [(model_key, PDict rows)] else []) (section_of state ''quality_feedback''))"

section \<open>Writing one event\<close>

record qf_ports =
  sha256_hex :: "string \<Rightarrow> string"
  iso_timestamp_of :: "real \<Rightarrow> string"

definition unattributable :: "quality_error + 'a" where
  "unattributable = quality_fail ''feedback_request_unattributable'' 422"

definition attribution_parts :: "qf_ports \<Rightarrow> pydict \<Rightarrow> real \<Rightarrow> quality_error + (string \<times> string \<times> string)" where
  "attribution_parts p attribution now =
     (case (dget attribution ''profile'', dget attribution ''source'', dget attribution ''upstream_id'',
            dget attribution ''model_id'', dget attribution ''timestamp'') of
        (PStr profile, PStr source, PStr upstream_id, PStr model_id, timestamp) \<Rightarrow>
          if profile = [] \<or> source = [] \<or> upstream_id = [] \<or> model_id = [] then unattributable
          else (case timestamp of
                  PBool _ \<Rightarrow> unattributable
                | _ \<Rightarrow>
                    (case py_float timestamp of
                       Some (Fin t) \<Rightarrow>
                         if now < t \<or> t + MAX_AGE_SECONDS \<le> now then unattributable
                         else Inr (profile, source @ ''::'' @ upstream_id, iso_timestamp_of p (t + MAX_AGE_SECONDS))
                     | _ \<Rightarrow> unattributable))
      | _ \<Rightarrow> unattributable)"

definition same_event :: "pydict \<Rightarrow> quality_input \<Rightarrow> bool" where
  "same_event existing feedback \<longleftrightarrow>
     dget existing ''outcome'' = PStr (qf_outcome feedback) \<and> dget existing ''severity'' = PStr (qf_severity feedback)
     \<and> dget existing ''reason'' = PStr (qf_reason feedback) \<and> dget existing ''validator'' = PStr (qf_validator feedback)"

definition slot_key :: "qf_ports \<Rightarrow> quality_input \<Rightarrow> string" where
  "slot_key p feedback = sha256_hex p (qf_request_id feedback @ ''|'' @ qf_validator feedback)"

definition event_row :: "qf_ports \<Rightarrow> int \<Rightarrow> quality_input \<Rightarrow> real \<Rightarrow> string \<Rightarrow> pydict" where
  "event_row p next_revision feedback now expires_at =
     [(''revision'', PInt next_revision), (''outcome'', PStr (qf_outcome feedback)),
      (''severity'', PStr (qf_severity feedback)), (''reason'', PStr (qf_reason feedback)),
      (''validator'', PStr (qf_validator feedback)), (''recorded_at'', PStr (iso_timestamp_of p now)),
      (''expires_at'', PStr expires_at)]"

text \<open>What the comparison of the revisions decides, with the slots there are.\<close>

datatype decision = Replay int | Store string int

definition revision_conflict :: "quality_error + 'a" where
  "revision_conflict = quality_fail ''feedback_revision_conflict'' 409"

definition decide :: "qf_ports \<Rightarrow> pydict \<Rightarrow> quality_input \<Rightarrow> quality_error + decision" where
  "decide p slots feedback =
     (case dget slots (slot_key p feedback) of
        PDict existing \<Rightarrow>
          (case quality_feedback_revision (PDict existing) of
             None \<Rightarrow> revision_conflict
           | Some revision \<Rightarrow>
               if same_event existing feedback then
                 (if qf_expected_revision feedback \<in> {max 0 (revision - 1), revision}
                  then Inr (Replay revision) else revision_conflict)
               else if qf_expected_revision feedback \<noteq> revision then revision_conflict
               else Inr (Store ''corrected'' (revision + 1)))
      | _ \<Rightarrow>
          if qf_expected_revision feedback \<noteq> 0 then revision_conflict
          else if QUALITY_FEEDBACK_MAX_SLOTS \<le> length slots
          then quality_fail ''feedback_capacity_exhausted'' 409
          else Inr (Store ''created'' 1))"

record write_result =
  wr_status :: string
  wr_revision :: int
  wr_quality :: pydict

definition record_quality_feedback ::
  "qf_ports \<Rightarrow> pydict \<Rightarrow> quality_input \<Rightarrow> pydict \<Rightarrow> real \<Rightarrow> quality_error + (pydict \<times> write_result)" where
  "record_quality_feedback p state feedback attribution now =
     (case attribution_parts p attribution now of
        Inl e \<Rightarrow> Inl e
      | Inr (profile_id, model_key, expires_at) \<Rightarrow>
          (let working = prune_expired_slots now state;
               slots = slots_for working model_key profile_id
           in case decide p slots feedback of
                Inl e \<Rightarrow> Inl e
              | Inr d \<Rightarrow>
                  (let slots' = (case d of
                                   Replay _ \<Rightarrow> slots
                                 | Store _ n \<Rightarrow> dset (slot_key p feedback) (PDict (event_row p n feedback now expires_at)) slots);
                       after = put_slots model_key profile_id slots' working
                   in Inr (after,
                        \<lparr>wr_status = (case d of Replay _ \<Rightarrow> ''replayed'' | Store status _ \<Rightarrow> status),
                         wr_revision = (case d of Replay n \<Rightarrow> n | Store _ n \<Rightarrow> n),
                         wr_quality = quality_feedback_summary after model_key profile_id now\<rparr>))))"

section \<open>Reading slots back\<close>

lemma slots_put [simp]: "slots_for (put_slots m q slots state) m q = slots"
  by (simp add: slots_for_def put_slots_def Let_def section_of_def)

lemma slots_put_other:
  "m' \<noteq> m \<or> q' \<noteq> q \<Longrightarrow> slots_for (put_slots m q slots state) m' q' = slots_for state m' q'"
  by (auto simp: slots_for_def put_slots_def Let_def section_of_def)

lemma map_of_concat_once:
  assumes "\<And>k v. (k, v) \<in> set d \<Longrightarrow> (f (k, v) = [] \<or> (\<exists>w. f (k, v) = [(k, w)]))" "wf_dict d"
  shows "map_of (concat (map f d)) k = (case map_of d k of None \<Rightarrow> None | Some v \<Rightarrow> map_of (f (k, v)) k)"
  using assms
proof (induction d)
  case (Cons e d)
  obtain a v where e: "e = (a, v)" by (cases e)
  have IH: "map_of (concat (map f d)) k = (case map_of d k of None \<Rightarrow> None | Some v \<Rightarrow> map_of (f (k, v)) k)"
    using Cons by auto
  from Cons.prems(1)[of a v] consider "f (a, v) = []" | w where "f (a, v) = [(a, w)]" by (auto simp: e)
  then show ?case
  proof cases
    case 1
    show ?thesis
    proof (cases "k = a")
      case True
      with Cons.prems(2) have "map_of d k = None" by (simp add: e map_of_eq_None_iff)
      with 1 True IH show ?thesis by (simp add: e)
    qed (use 1 IH in \<open>simp add: e\<close>)
  next
    case (2 w)
    then show ?thesis using IH by (simp add: e)
  qed
qed simp

section \<open>Pruning\<close>

definition feedback_wf :: "pydict \<Rightarrow> bool" where
  "feedback_wf state \<longleftrightarrow>
     wf_dict (section_of state ''quality_feedback'')
     \<and> list_all (\<lambda>(_, profiles). wf_dict (as_dict profiles)
          \<and> list_all (\<lambda>(_, ledger). wf_dict (section_of (as_dict ledger) ''event_slots'')) (as_dict profiles))
         (section_of state ''quality_feedback'')"

lemma list_all_pairs: "list_all (\<lambda>(a, b). P a b) xs \<longleftrightarrow> (\<forall>a b. (a, b) \<in> set xs \<longrightarrow> P a b)"
  by (auto simp: list_all_iff)

lemma feedback_wf_section:
  assumes "feedback_wf state"
  shows "wf_dict (section_of (section_of state ''quality_feedback'') m)"
    and "wf_dict (slots_for state m q)"
proof -
  have "wf_dict (section_of (section_of state ''quality_feedback'') m)
      \<and> list_all (\<lambda>(_, ledger). wf_dict (section_of (as_dict ledger) ''event_slots''))
          (section_of (section_of state ''quality_feedback'') m)"
    using assms
    by (cases "map_of (section_of state ''quality_feedback'') m")
       (auto simp: feedback_wf_def list_all_iff section_of_def[of "section_of state _"] dget_def dest!: map_of_SomeD)
  then show "wf_dict (section_of (section_of state ''quality_feedback'') m)" "wf_dict (slots_for state m q)"
    unfolding slots_for_def
    by (cases "map_of (section_of (section_of state ''quality_feedback'') m) q";
        auto simp: list_all_iff section_of_def[of "section_of (section_of _ _) _"] dget_def section_of_def[of "[]"] dest!: map_of_SomeD)+
qed

lemma prune_model_entries:
  "prune_model now (k, v) = [] \<or> (\<exists>w. prune_model now (k, v) = [(k, w)])"
  by (simp add: prune_model_def Let_def)

lemma prune_profile_entries:
  "prune_profile now (k, v) = [] \<or> (\<exists>w. prune_profile now (k, v) = [(k, w)])"
  by (simp add: prune_profile_def Let_def split: pv.splits)

lemma pruned_profiles:
  assumes "wf_dict profiles"
  shows "section_of (section_of (concat (map (prune_profile now) profiles)) q) ''event_slots''
       = filter (\<lambda>(_, row). active_slot now row) (section_of (section_of profiles q) ''event_slots'')"
proof -
  have look: "map_of (concat (map (prune_profile now) profiles)) q =
      (case map_of profiles q of None \<Rightarrow> None | Some v \<Rightarrow> map_of (prune_profile now (q, v)) q)"
    by (rule map_of_concat_once[OF prune_profile_entries assms])
  show ?thesis
  proof (cases "map_of profiles q")
    case None
    with look show ?thesis by (simp add: section_of_def dget_def)
  next
    case (Some ledger)
    then have d: "dget profiles q = ledger" by (simp add: dget_def)
    show ?thesis
    proof (cases "dget (as_dict ledger) ''event_slots''")
      case (PDict slots)
      then show ?thesis
        using look Some
        by (simp add: section_of_def d dget_def[of "concat _"] prune_profile_def Let_def)
    qed (use look Some in \<open>simp_all add: section_of_def d dget_def[of "concat _"] prune_profile_def\<close>)
  qed
qed

lemma pruned_models:
  assumes "wf_dict feedback"
  shows "section_of (concat (map (prune_model now) feedback)) m = concat (map (prune_profile now) (section_of feedback m))"
proof -
  have look: "map_of (concat (map (prune_model now) feedback)) m =
      (case map_of feedback m of None \<Rightarrow> None | Some v \<Rightarrow> map_of (prune_model now (m, v)) m)"
    by (rule map_of_concat_once[OF prune_model_entries assms])
  then show ?thesis
    by (cases "map_of feedback m") (simp_all add: section_of_def dget_def prune_model_def Let_def)
qed

lemma pruned_feedback:
  "section_of (prune_expired_slots now state) ''quality_feedback''
     = concat (map (prune_model now) (section_of state ''quality_feedback''))"
  by (simp add: prune_expired_slots_def section_of_def Let_def split: pv.splits)

text \<open>Pruning keeps exactly the unexpired slots of every ledger.\<close>

lemma pruned_slots:
  assumes "feedback_wf state"
  shows "slots_for (prune_expired_slots now state) m q = filter (\<lambda>(_, row). active_slot now row) (slots_for state m q)"
  using assms feedback_wf_section(1)[OF assms]
  by (simp add: slots_for_def pruned_feedback pruned_models pruned_profiles feedback_wf_def)

lemma wf_concat_once:
  assumes "\<And>k v. (k, v) \<in> set d \<Longrightarrow> (f (k, v) = [] \<or> (\<exists>w. f (k, v) = [(k, w)]))" "wf_dict d"
  shows "wf_dict (concat (map f d))"
  using assms
proof (induction d)
  case (Cons e d)
  obtain a v where e: "e = (a, v)" by (cases e)
  have sub: "set (dkeys (concat (map f d))) \<subseteq> set (dkeys d)"
  proof -
    have "fst x \<in> fst ` set d" if "x \<in> set (f y)" "y \<in> set d" for x y
      using that Cons.prems(1)[of "fst y" "snd y"] by (cases y) (fastforce intro: rev_image_eqI)
    then show ?thesis by auto
  qed
  have "wf_dict (concat (map f d))" using Cons by auto
  moreover have "f (a, v) = [] \<or> (\<exists>w. f (a, v) = [(a, w)])" using Cons.prems(1) by (simp add: e)
  moreover have "a \<notin> set (dkeys (concat (map f d)))" using sub Cons.prems(2) by (auto simp: e)
  ultimately show ?case by (elim disjE exE) (simp_all add: e)
qed simp

lemma feedback_wf_put:
  assumes "feedback_wf state" "wf_dict slots"
  shows "feedback_wf (put_slots m q slots state)"
proof -
  have wf: "wf_dict (section_of state ''quality_feedback'')" using assms(1) by (simp add: feedback_wf_def)
  note models = feedback_wf_section(1)[OF assms(1), of m]
  have "wf_dict (section_of (as_dict ledger) ''event_slots'')"
    if "(k, ledger) \<in> set (section_of (section_of state ''quality_feedback'') m)" for k ledger
    using assms(1) that
    by (cases "map_of (section_of state ''quality_feedback'') m")
       (auto simp: feedback_wf_def list_all_pairs section_of_def[of "section_of state _"] dget_def dest!: map_of_SomeD)
  moreover have "wf_dict (as_dict profiles) \<and> (\<forall>j ledger. (j, ledger) \<in> set (as_dict profiles) \<longrightarrow>
       wf_dict (section_of (as_dict ledger) ''event_slots''))"
    if "(k, profiles) \<in> set (section_of state ''quality_feedback'')" for k profiles
    using assms(1) that by (simp add: feedback_wf_def list_all_pairs)
  ultimately show ?thesis
    using assms wf models
    by (simp add: feedback_wf_def put_slots_def Let_def section_of_def[of "dset _ _ _"] list_all_pairs set_dset)
qed

lemma wf_prune_model:
  assumes "wf_dict (as_dict v)"
    and "\<And>j ledger. (j, ledger) \<in> set (as_dict v) \<Longrightarrow> wf_dict (section_of (as_dict ledger) ''event_slots'')"
    and "(k, w) \<in> set (prune_model now (k', v))"
  shows "wf_dict (as_dict w) \<and> (\<forall>j ledger. (j, ledger) \<in> set (as_dict w) \<longrightarrow>
     wf_dict (section_of (as_dict ledger) ''event_slots''))"
proof -
  have w: "w = PDict (concat (map (prune_profile now) (as_dict v)))"
    using assms(3) by (auto simp: prune_model_def Let_def split: if_splits)
  have "wf_dict (section_of (as_dict ledger') ''event_slots'')"
    if "(j, ledger) \<in> set (as_dict v)" "(j', ledger') \<in> set (prune_profile now (j, ledger))" for j j' ledger ledger'
    using assms(2)[OF that(1)] that(2)
    by (cases "dget (as_dict ledger) ''event_slots''")
       (auto simp: prune_profile_def Let_def section_of_def split: if_splits)
  then show ?thesis
    using wf_concat_once[where f = "prune_profile now", OF prune_profile_entries assms(1)] by (auto simp: w)
qed

lemma feedback_wf_prune:
  assumes "feedback_wf state"
  shows "feedback_wf (prune_expired_slots now state)"
proof -
  have wf: "wf_dict (section_of state ''quality_feedback'')" using assms by (simp add: feedback_wf_def)
  have "wf_dict (as_dict w) \<and> (\<forall>j ledger. (j, ledger) \<in> set (as_dict w) \<longrightarrow>
       wf_dict (section_of (as_dict ledger) ''event_slots''))"
    if "(k', v) \<in> set (section_of state ''quality_feedback'')" "(k, w) \<in> set (prune_model now (k', v))" for k k' v w
    using assms that by (intro wf_prune_model[OF _ _ that(2)]) (auto simp: feedback_wf_def list_all_pairs)
  then show ?thesis
    using wf_concat_once[where f = "prune_model now", OF prune_model_entries wf]
    by (auto simp: feedback_wf_def pruned_feedback list_all_pairs)
qed

section \<open>One event, one slot\<close>

lemma event_row_active:
  assumes "parse_iso_timestamp (PStr expires_at) = Some e"
  shows "active_slot now (PDict (event_row p n feedback now' expires_at)) \<longleftrightarrow> now < e"
  using assms by (simp add: active_slot_def event_row_def)

lemma event_row_revision [simp]:
  "quality_feedback_revision (PDict (event_row p n feedback now expires_at)) = (if 1 \<le> n then Some n else None)"
  by (simp add: quality_feedback_revision_def event_row_def)

lemma event_row_same [simp]:
  "same_event (event_row p n feedback now expires_at) feedback' \<longleftrightarrow>
     qf_outcome feedback = qf_outcome feedback' \<and> qf_severity feedback = qf_severity feedback'
     \<and> qf_reason feedback = qf_reason feedback' \<and> qf_validator feedback = qf_validator feedback'"
  by (simp add: same_event_def event_row_def)

lemma decide_Store:
  assumes "decide p slots feedback = Inr (Store status n)"
  shows "n = qf_expected_revision feedback + 1" "1 \<le> n" "status \<noteq> ''replayed''"
  using assms
  by (auto simp: decide_def quality_fail_def revision_conflict_def quality_feedback_revision_def
      split: pv.splits option.splits if_splits)

lemma attribution_parts_Inr:
  assumes "attribution_parts p a now = Inr (q, m, expires_at)" "py_float (dget a ''timestamp'') = Some (Fin t)"
  shows "expires_at = iso_timestamp_of p (t + MAX_AGE_SECONDS)"
    and "attribution_parts p a now' =
           (if now' < t \<or> t + MAX_AGE_SECONDS \<le> now' then unattributable else Inr (q, m, expires_at))"
  using assms
  by (auto simp: attribution_parts_def unattributable_def quality_fail_def split: pv.splits if_splits)

lemma record_feedback_Inr:
  assumes "record_quality_feedback p state feedback a now = Inr (after, res)"
  obtains q m expires_at d where
    "attribution_parts p a now = Inr (q, m, expires_at)"
    "decide p (slots_for (prune_expired_slots now state) m q) feedback = Inr d"
    "after = put_slots m q
       (case d of
          Replay _ \<Rightarrow> slots_for (prune_expired_slots now state) m q
        | Store _ n \<Rightarrow> dset (slot_key p feedback) (PDict (event_row p n feedback now expires_at))
                        (slots_for (prune_expired_slots now state) m q)) (prune_expired_slots now state)"
    "wr_status res = (case d of Replay _ \<Rightarrow> ''replayed'' | Store status _ \<Rightarrow> status)"
    "wr_revision res = (case d of Replay n \<Rightarrow> n | Store _ n \<Rightarrow> n)"
  using assms
  by (auto simp: record_quality_feedback_def Let_def split: sum.splits)

text \<open>After a write that stored its event, the slot of that event as a later reader finds it.\<close>

lemma stored_slot_later:
  assumes "feedback_wf state" "record_quality_feedback p state feedback a now = Inr (after, res)"
    and "wr_status res \<noteq> ''replayed''" "py_float (dget a ''timestamp'') = Some (Fin t)"
    and "parse_iso_timestamp (PStr (iso_timestamp_of p (t + MAX_AGE_SECONDS))) = Some (t + MAX_AGE_SECONDS)"
    and "now \<le> later" "later < t + MAX_AGE_SECONDS"
  obtains q m where
    "attribution_parts p a later = Inr (q, m, iso_timestamp_of p (t + MAX_AGE_SECONDS))"
    "dget (slots_for (prune_expired_slots later after) m q) (slot_key p feedback)
       = PDict (event_row p (qf_expected_revision feedback + 1) feedback now (iso_timestamp_of p (t + MAX_AGE_SECONDS)))"
    "wr_revision res = qf_expected_revision feedback + 1" "0 \<le> qf_expected_revision feedback"
proof -
  from record_feedback_Inr[OF assms(2)] obtain q m x d where
    attr: "attribution_parts p a now = Inr (q, m, x)" and
    dec: "decide p (slots_for (prune_expired_slots now state) m q) feedback = Inr d" and
    after: "after = put_slots m q
       (case d of
          Replay _ \<Rightarrow> slots_for (prune_expired_slots now state) m q
        | Store _ n \<Rightarrow> dset (slot_key p feedback) (PDict (event_row p n feedback now x))
                        (slots_for (prune_expired_slots now state) m q)) (prune_expired_slots now state)" and
    res: "wr_status res = (case d of Replay _ \<Rightarrow> ''replayed'' | Store status _ \<Rightarrow> status)"
      "wr_revision res = (case d of Replay n \<Rightarrow> n | Store _ n \<Rightarrow> n)" .
  note x = attribution_parts_Inr[OF attr assms(4)]
  obtain status n where d: "d = Store status n" using res(1) assms(3) by (cases d) auto
  note n = decide_Store[OF dec[unfolded d]]
  define slots where "slots = dset (slot_key p feedback) (PDict (event_row p n feedback now x))
                        (slots_for (prune_expired_slots now state) m q)"
  have wf: "wf_dict slots" unfolding slots_def
    by (intro wf_dset feedback_wf_section(2) feedback_wf_prune assms(1))
  have a: "after = put_slots m q slots (prune_expired_slots now state)" by (simp add: after d slots_def)
  have "feedback_wf after" unfolding a by (intro feedback_wf_put feedback_wf_prune assms(1) wf)
  then have "slots_for (prune_expired_slots later after) m q = filter (\<lambda>(_, row). active_slot later row) slots"
    by (simp add: pruned_slots) (simp add: a)
  moreover have "map_of (filter (\<lambda>(_, row). active_slot later row) slots) (slot_key p feedback)
      = Some (PDict (event_row p n feedback now x))"
    using map_of_filter_wf[OF wf, of "\<lambda>_. active_slot later" "slot_key p feedback"] assms(5,7)
    by (simp add: slots_def event_row_active x(1))
  ultimately have "dget (slots_for (prune_expired_slots later after) m q) (slot_key p feedback)
      = PDict (event_row p n feedback now x)"
    by (simp add: dget_def)
  moreover have "attribution_parts p a later = Inr (q, m, x)"
    using x(2)[of later] x(2)[of now] attr assms(6,7)
    by (auto simp: unattributable_def quality_fail_def split: if_splits)
  ultimately show ?thesis using that[of q m] n x(1) res(2) by (simp add: d)
qed

section \<open>Compare and set\<close>

text \<open>C38. Two operators cannot both correct the same revision: after a write that stored its event
  at some expected revision, another event for the same request and validator that expects
  the same revision is refused, however much later it comes, and whatever else it claims.\<close>

theorem one_correction_per_revision:
  assumes "feedback_wf state" "record_quality_feedback p state feedback a now = Inr (after, res)"
    and "wr_status res \<noteq> ''replayed''" "py_float (dget a ''timestamp'') = Some (Fin t)"
    and "parse_iso_timestamp (PStr (iso_timestamp_of p (t + MAX_AGE_SECONDS))) = Some (t + MAX_AGE_SECONDS)"
    and "now \<le> later"
    and "slot_key p other = slot_key p feedback" "qf_expected_revision other = qf_expected_revision feedback"
    and "(qf_outcome other, qf_severity other, qf_reason other) \<noteq> (qf_outcome feedback, qf_severity feedback, qf_reason feedback)"
  shows "\<exists>e. record_quality_feedback p after other a later = Inl e"
proof (cases "later < t + MAX_AGE_SECONDS")
  case True
  from stored_slot_later[OF assms(1-6) True] obtain q m where
    s: "attribution_parts p a later = Inr (q, m, iso_timestamp_of p (t + MAX_AGE_SECONDS))"
    "dget (slots_for (prune_expired_slots later after) m q) (slot_key p feedback)
       = PDict (event_row p (qf_expected_revision feedback + 1) feedback now (iso_timestamp_of p (t + MAX_AGE_SECONDS)))"
    "0 \<le> qf_expected_revision feedback" by metis
  have "decide p (slots_for (prune_expired_slots later after) m q) other = revision_conflict"
    using s(2,3) assms(7-9) by (auto simp: decide_def)
  with s(1) show ?thesis by (simp add: record_quality_feedback_def revision_conflict_def quality_fail_def)
next
  case False
  from record_feedback_Inr[OF assms(2)] obtain q m x where "attribution_parts p a now = Inr (q, m, x)" .
  from attribution_parts_Inr(2)[OF this assms(4), of later] False show ?thesis
    by (simp add: record_quality_feedback_def unattributable_def quality_fail_def)
qed

text \<open>A client that retries is not refused and changes nothing: the same event, sent again with
  the revision it was sent with, is answered with the revision it already has, and the ledger
  holds the slots it held, those that expired meanwhile apart.\<close>

theorem feedback_retry_is_idempotent:
  assumes "feedback_wf state" "record_quality_feedback p state feedback a now = Inr (after, res)"
    and "wr_status res \<noteq> ''replayed''" "py_float (dget a ''timestamp'') = Some (Fin t)"
    and "parse_iso_timestamp (PStr (iso_timestamp_of p (t + MAX_AGE_SECONDS))) = Some (t + MAX_AGE_SECONDS)"
    and "now \<le> later" "later < t + MAX_AGE_SECONDS"
  shows "\<exists>again res'. record_quality_feedback p after feedback a later = Inr (again, res')
       \<and> wr_status res' = ''replayed'' \<and> wr_revision res' = wr_revision res
       \<and> (\<forall>m q. slots_for again m q = slots_for (prune_expired_slots later after) m q)"
proof -
  from stored_slot_later[OF assms(1-7)] obtain q m where
    s: "attribution_parts p a later = Inr (q, m, iso_timestamp_of p (t + MAX_AGE_SECONDS))"
    "dget (slots_for (prune_expired_slots later after) m q) (slot_key p feedback)
       = PDict (event_row p (qf_expected_revision feedback + 1) feedback now (iso_timestamp_of p (t + MAX_AGE_SECONDS)))"
    "wr_revision res = qf_expected_revision feedback + 1" "0 \<le> qf_expected_revision feedback" by metis
  let ?pruned = "prune_expired_slots later after"
  have d: "decide p (slots_for ?pruned m q) feedback = Inr (Replay (wr_revision res))"
    using s(2-4) by (simp add: decide_def)
  have "slots_for (put_slots m q (slots_for ?pruned m q) ?pruned) m' q' = slots_for ?pruned m' q'" for m' q'
    by (cases "m' = m \<and> q' = q") (auto simp: slots_put_other)
  with s(1) d show ?thesis by (simp add: record_quality_feedback_def Let_def)
qed

section \<open>Bounds\<close>

definition counted_rows :: "real \<Rightarrow> pydict \<Rightarrow> nat" where
  "counted_rows now slots = length (filter (\<lambda>row. counted_row now row \<noteq> None) (map snd slots))"

lemma tally_count:
  "sample_count (fold (tally_row now) rows t) = sample_count t + length (filter (\<lambda>row. counted_row now row \<noteq> None) rows)"
  by (induction rows arbitrary: t) (auto simp: tally_row_def Let_def split: option.splits)

lemma tally_latest:
  "latest_row (fold (tally_row now) rows t) = None \<longleftrightarrow> latest_row t = None \<and> filter (\<lambda>row. counted_row now row \<noteq> None) rows = []"
  by (induction rows arbitrary: t) (auto simp: tally_row_def Let_def split: option.splits)

lemma tally_weights:
  assumes "0 \<le> active_fail_weight t" "0 \<le> active_pass_weight t"
  shows "0 \<le> active_fail_weight (fold (tally_row now) rows t) \<and> 0 \<le> active_pass_weight (fold (tally_row now) rows t)"
  using assms
proof (induction rows arbitrary: t)
  case (Cons row rows)
  have "0 \<le> quality_decay now r" for r by (simp add: quality_decay_def)
  moreover have "0 \<le> w" if "counted_row now row = Some (r, b, w)" for r b w
    using that by (auto simp: counted_row_def failure_weight_def split: pv.splits option.splits if_splits)
  ultimately have "0 \<le> active_fail_weight (tally_row now row t) \<and> 0 \<le> active_pass_weight (tally_row now row t)"
    using Cons.prems by (auto simp: tally_row_def Let_def split: option.splits)
  then show ?case using Cons.IH[of "tally_row now row t"] by simp
qed simp

lemma tally_slots_facts:
  "sample_count (tally_slots now slots) = counted_rows now slots"
  "latest_row (tally_slots now slots) = None \<longleftrightarrow> counted_rows now slots = 0"
  "0 \<le> active_fail_weight (tally_slots now slots)" "0 \<le> active_pass_weight (tally_slots now slots)"
  using tally_weights[of "\<lparr>sample_count = 0, active_fail_weight = 0, active_pass_weight = 0, latest_row = None\<rparr>" now "map snd slots"]
  by (simp_all add: tally_slots_def counted_rows_def tally_count tally_latest filter_map)

text \<open>Feedback can only move a score within bounds: the summary counts exactly the unexpired
  well-formed slots, its adjustment lies between -24 and 4, and it is zero when nothing counts.\<close>

theorem quality_adjustment_bounds:
  "\<exists>n a. dget (quality_feedback_summary state m q now) ''sample_count'' = PInt n
       \<and> dget (quality_feedback_summary state m q now) ''quality_adjustment'' = PReal a
       \<and> n = int (counted_rows now (slots_for state m q)) \<and> n \<le> int (length (slots_for state m q))
       \<and> - 24 \<le> a \<and> a \<le> 4 \<and> \<not> (n = 0 \<and> a \<noteq> 0)"
proof -
  let ?slots = "slots_for state m q"
  let ?t = "tally_slots now ?slots"
  have le: "counted_rows now ?slots \<le> length ?slots"
    unfolding counted_rows_def by (rule order_trans[OF length_filter_le]) simp
  show ?thesis
  proof (cases "latest_row ?t")
    case None
    then show ?thesis
      using tally_slots_facts(2)[of now ?slots] by (simp add: quality_feedback_summary_def empty_summary_def)
  next
    case (Some kept)
    then show ?thesis
      using tally_slots_facts(1,2)[of now ?slots] le
      by (cases kept) (simp add: quality_feedback_summary_def Let_def adjustment_of_def)
  qed
qed

text \<open>A ledger never holds more than the maximal number of slots once it is within it, and a
  write touches no other model's or profile's ledger, where it only drops expired slots.\<close>

theorem feedback_write_is_bounded_and_local:
  assumes "feedback_wf state" "record_quality_feedback p state feedback a now = Inr (after, res)"
  shows "feedback_wf after
       \<and> (\<exists>m q. \<forall>m' q'.
            length (slots_for after m' q') \<le> max QUALITY_FEEDBACK_MAX_SLOTS (length (slots_for state m' q'))
            \<and> (m' = m \<and> q' = q
               \<or> slots_for after m' q' = filter (\<lambda>(_, row). active_slot now row) (slots_for state m' q')))"
proof -
  from record_feedback_Inr[OF assms(2)] obtain q m x d where
    dec: "decide p (slots_for (prune_expired_slots now state) m q) feedback = Inr d" and
    after: "after = put_slots m q
       (case d of
          Replay _ \<Rightarrow> slots_for (prune_expired_slots now state) m q
        | Store _ n \<Rightarrow> dset (slot_key p feedback) (PDict (event_row p n feedback now x))
                        (slots_for (prune_expired_slots now state) m q)) (prune_expired_slots now state)"
    by metis
  let ?old = "slots_for (prune_expired_slots now state) m q"
  define slots where "slots = (case d of Replay _ \<Rightarrow> ?old
     | Store _ n \<Rightarrow> dset (slot_key p feedback) (PDict (event_row p n feedback now x)) ?old)"
  have wf: "wf_dict slots"
    by (auto simp: slots_def split: decision.splits intro!: feedback_wf_section(2) feedback_wf_prune assms(1) wf_dset)
  have a: "after = put_slots m q slots (prune_expired_slots now state)" by (simp add: after slots_def)
  have pruned: "slots_for (prune_expired_slots now state) m' q' = filter (\<lambda>(_, row). active_slot now row) (slots_for state m' q')" for m' q'
    using assms(1) by (rule pruned_slots)
  have shorter: "length (slots_for (prune_expired_slots now state) m' q') \<le> length (slots_for state m' q')" for m' q'
    by (simp add: pruned)
  have "length slots \<le> max QUALITY_FEEDBACK_MAX_SLOTS (length (slots_for state m q))"
  proof (cases d)
    case (Replay r)
    with shorter[of m q] show ?thesis by (simp add: slots_def)
  next
    case (Store st n)
    show ?thesis
    proof (cases "dhas (slot_key p feedback) ?old")
      case True
      then have "length slots = length ?old"
        using Store arg_cong[OF dkeys_dset_old[OF True], of length] by (simp add: slots_def)
      with shorter[of m q] show ?thesis by simp
    next
      case False
      then have "length slots = Suc (length ?old)"
        using Store arg_cong[OF dkeys_dset_new[OF False], of length] by (simp add: slots_def)
      moreover have "length ?old < QUALITY_FEEDBACK_MAX_SLOTS"
        using dec False Store
        by (auto simp: decide_def dhas_def dget_def quality_fail_def revision_conflict_def split: if_splits)
      ultimately show ?thesis by simp
    qed
  qed
  moreover have "length (slots_for after m' q') \<le> max QUALITY_FEEDBACK_MAX_SLOTS (length (slots_for state m' q'))
      \<and> slots_for after m' q' = filter (\<lambda>(_, row). active_slot now row) (slots_for state m' q')"
    if "\<not> (m' = m \<and> q' = q)" for m' q'
    using that pruned[of m' q'] by (auto simp: a slots_put_other le_max_iff_disj)
  ultimately have "length (slots_for after m' q') \<le> max QUALITY_FEEDBACK_MAX_SLOTS (length (slots_for state m' q'))
      \<and> (m' = m \<and> q' = q
         \<or> slots_for after m' q' = filter (\<lambda>(_, row). active_slot now row) (slots_for state m' q'))" for m' q'
    by (cases "m' = m \<and> q' = q") (auto simp: a le_max_iff_disj slots_put_other)
  moreover have "feedback_wf after" unfolding a by (intro feedback_wf_put feedback_wf_prune assms(1) wf)
  ultimately show ?thesis by blast
qed

section \<open>An example\<close>

definition example_qf_ports :: qf_ports where
  "example_qf_ports = \<lparr>sha256_hex = id, iso_timestamp_of = (\<lambda>_. ''2026-02-01'')\<rparr>"

definition example_feedback :: "string \<Rightarrow> quality_input" where
  "example_feedback sev = \<lparr>qf_request_id = ''r'', qf_outcome = ''fail'', qf_severity = sev,
     qf_reason = ''tool_loop'', qf_validator = ''v'', qf_expected_revision = 0\<rparr>"

definition example_attribution :: pydict where
  "example_attribution = [(''profile'', PStr ''p''), (''source'', PStr ''s''), (''upstream_id'', PStr ''u''),
     (''model_id'', PStr ''m''), (''timestamp'', PReal 1767312000)]"

lemma example_feedback_facts:
  "py_float (dget example_attribution ''timestamp'') = Some (Fin 1767312000)"
  "iso_timestamp_of example_qf_ports t = ''2026-02-01''"
  "parse_iso_timestamp (PStr ''2026-02-01'') = Some (1767312000 + MAX_AGE_SECONDS)"
  "feedback_wf []"
proof -
  have "parse_iso_timestamp (PStr ''2026-02-01'') = Some 1769904000" by code_simp
  then show "parse_iso_timestamp (PStr ''2026-02-01'') = Some (1767312000 + MAX_AGE_SECONDS)"
    by (simp add: MAX_AGE_SECONDS_def)
qed (simp_all add: example_attribution_def example_qf_ports_def feedback_wf_def section_of_def)

lemma example_feedback_created:
  "\<exists>after res. record_quality_feedback example_qf_ports [] (example_feedback ''minor'') example_attribution 1767312000
     = Inr (after, res) \<and> wr_status res = ''created''"
  by (simp add: record_quality_feedback_def attribution_parts_def example_attribution_def MAX_AGE_SECONDS_def
      prune_expired_slots_def slots_for_def section_of_def decide_def example_feedback_def QUALITY_FEEDBACK_MAX_SLOTS_def
      Let_def)

lemma one_correction_per_revision_witness:
  "\<exists>after e. record_quality_feedback example_qf_ports after (example_feedback ''major'') example_attribution 1767312000 = Inl e"
proof -
  from example_feedback_created obtain after res where r:
    "record_quality_feedback example_qf_ports [] (example_feedback ''minor'') example_attribution 1767312000 = Inr (after, res)"
    "wr_status res = ''created''" by blast
  have "\<exists>e. record_quality_feedback example_qf_ports after (example_feedback ''major'') example_attribution 1767312000 = Inl e"
    by (rule one_correction_per_revision[OF _ r(1)])
       (simp_all add: example_feedback_facts r(2), simp_all add: example_feedback_def slot_key_def)
  then show ?thesis by blast
qed

lemma feedback_retry_is_idempotent_witness:
  "\<exists>after again res'. record_quality_feedback example_qf_ports after (example_feedback ''minor'') example_attribution 1767312000
     = Inr (again, res') \<and> wr_status res' = ''replayed''"
proof -
  from example_feedback_created obtain after res where r:
    "record_quality_feedback example_qf_ports [] (example_feedback ''minor'') example_attribution 1767312000 = Inr (after, res)"
    "wr_status res = ''created''" by blast
  have "\<exists>again res'. record_quality_feedback example_qf_ports after (example_feedback ''minor'') example_attribution 1767312000 = Inr (again, res')
       \<and> wr_status res' = ''replayed'' \<and> wr_revision res' = wr_revision res
       \<and> (\<forall>m q. slots_for again m q = slots_for (prune_expired_slots 1767312000 after) m q)"
    by (rule feedback_retry_is_idempotent[OF _ r(1)])
       (simp_all add: example_feedback_facts r(2) MAX_AGE_SECONDS_def[symmetric], simp add: MAX_AGE_SECONDS_def)
  then show ?thesis by blast
qed

lemma feedback_write_is_bounded_and_local_witness:
  "\<exists>after res. record_quality_feedback example_qf_ports [] (example_feedback ''minor'') example_attribution 1767312000
     = Inr (after, res) \<and> feedback_wf after"
  using example_feedback_created feedback_write_is_bounded_and_local[OF example_feedback_facts(4)] by blast

end
