(* ===== verification/Evidence.thy ===== *)
theory Evidence
  imports CooldownState StateMerge RoutingPolicy
begin

text \<open>
  What benchmarks, discovery probes and production failures have proved about a model for a
  profile (\<open>use_cases/benchmark.py\<close>, \<open>use_cases/capability_discovery.py\<close>,
  \<open>use_cases/admin_status.py\<close> and the functions of \<open>router.py\<close> they are wired to): when a
  verdict is still about the current test, how it ages, how it is written, and the route gates
  that read it. The ports hold the clock, the active time to live of a verdict, and the
  operator's opt-in to reference claims, which the program keeps in module variables.
\<close>

section \<open>Values compared with \<open>==\<close>\<close>

fun py_eq :: "pv \<Rightarrow> pv \<Rightarrow> bool" where
  "py_eq (PStr s) w = (w = PStr s)"
| "py_eq PNone w = (w = PNone)"
| "py_eq (PList xs) w = (case w of PList ys \<Rightarrow> list_all2 py_eq xs ys | _ \<Rightarrow> False)"
| "py_eq (PDict d) w =
     (case w of
        PDict e \<Rightarrow> length d = length e
          \<and> list_all (\<lambda>(k, v). case map_of e k of None \<Rightarrow> False | Some u \<Rightarrow> py_eq v u) d
      | _ \<Rightarrow> False)"
| "py_eq v w = (num_of w = num_of v \<and> num_of v \<noteq> Some NotANum)"

section \<open>Constants\<close>

record evidence_ports =
  ev_now :: real
  ev_now_iso :: string
  ev_ttl :: "real option"
  ev_route_on_reference :: bool

definition BENCHMARK_TEST_TYPES_BY_PROFILE :: "(string \<times> string) list" where
  "BENCHMARK_TEST_TYPES_BY_PROFILE =
     [(''ficelle/auto-orchestrator'', ''orchestration''), (''ficelle/auto-tools'', ''tool_call''),
      (''ficelle/auto-json'', ''json''), (''ficelle/auto-compression'', ''compression''),
      (''ficelle/auto-fast'', ''fast''), (''ficelle/auto-long'', ''long_context''),
      (''ficelle/auto-reasoning'', ''reasoning''), (''ficelle/auto-vision'', ''vision''),
      (''ficelle/auto-video'', ''video''), (''ficelle/auto-audio'', ''audio''),
      (''ficelle/auto-coding'', ''coding_compatibility'')]"

definition GATED_PROFILES :: "string list" where
  "GATED_PROFILES =
     [''ficelle/auto-orchestrator'', ''ficelle/auto-tools'', ''ficelle/auto-json'', ''ficelle/auto-compression'',
      ''ficelle/auto-long'', ''ficelle/auto-reasoning'', ''ficelle/auto-vision'', ''ficelle/auto-video'',
      ''ficelle/auto-audio'']"

definition GATE_CAPABILITY_BY_PROFILE :: "(string \<times> string) list" where
  "GATE_CAPABILITY_BY_PROFILE =
     [(''ficelle/auto-tools'', ''tools''), (''ficelle/auto-json'', ''structured''),
      (''ficelle/auto-reasoning'', ''reasoning''), (''ficelle/auto-vision'', ''image''),
      (''ficelle/auto-video'', ''video''), (''ficelle/auto-audio'', ''audio'')]"

definition MULTIMODAL_MODALITY_PROFILES :: "(string \<times> string) list" where
  "MULTIMODAL_MODALITY_PROFILES =
     [(''image'', ''ficelle/auto-vision''), (''video'', ''ficelle/auto-video''), (''audio'', ''ficelle/auto-audio'')]"

definition CAPABILITY_REFERENCE_ROUTE_CONFIDENCES :: "string list" where
  "CAPABILITY_REFERENCE_ROUTE_CONFIDENCES = [''high'']"

definition ROUTE_REJECTION_VERDICT_TTL_SECONDS :: real where "ROUTE_REJECTION_VERDICT_TTL_SECONDS = 3600"

definition MAX_VERDICT_STREAK :: int where "MAX_VERDICT_STREAK = 2 ^ 31 - 1"

definition is_specialized_profile :: "string \<Rightarrow> bool" where
  "is_specialized_profile profile_id \<longleftrightarrow> strip profile_id \<in> set GATED_PROFILES"

definition expected_probe_test_type :: "string \<Rightarrow> string" where
  "expected_probe_test_type profile_id =
     (case map_of BENCHMARK_TEST_TYPES_BY_PROFILE (strip profile_id) of None \<Rightarrow> ''exact_text'' | Some t \<Rightarrow> t)"

section \<open>Is a verdict current?\<close>

definition route_rejection_deserves_a_retry_soon :: "pydict \<Rightarrow> bool" where
  "route_rejection_deserves_a_retry_soon row \<longleftrightarrow>
     dget row ''verdict_basis'' = PStr ''route_rejection''
     \<and> (case dget row ''verdict_basis_streak'' of
          PInt streak \<Rightarrow> \<not> (1 \<le> streak \<and> streak \<le> MAX_VERDICT_STREAK) \<or> streak = 1
        | _ \<Rightarrow> True)"

definition benchmark_result_is_aged :: "evidence_ports \<Rightarrow> pydict \<Rightarrow> bool" where
  "benchmark_result_is_aged p row =
     (case ev_ttl p of
        None \<Rightarrow> False
      | Some active \<Rightarrow>
          (let ttl = (if route_rejection_deserves_a_retry_soon row
                      then min active ROUTE_REJECTION_VERDICT_TTL_SECONDS else active)
           in if ttl \<le> 0 then False
              else (case runtime_row_timestamp (PDict row) of
                      None \<Rightarrow> False | Some stamp \<Rightarrow> ttl < ev_now p - stamp)))"

definition benchmark_result_test_type_matches :: "string \<Rightarrow> pydict \<Rightarrow> bool" where
  "benchmark_result_test_type_matches profile_id row =
     (if row = [] then False
      else (let expected = expected_probe_test_type profile_id in
            if dget row ''test_type'' = PNone then expected = ''exact_text''
            else text_of row ''test_type'' = expected))"

definition benchmark_result_matches_current_test :: "evidence_ports \<Rightarrow> string \<Rightarrow> pydict \<Rightarrow> bool" where
  "benchmark_result_matches_current_test p profile_id row \<longleftrightarrow>
     benchmark_result_test_type_matches profile_id row \<and> \<not> benchmark_result_is_aged p row"

definition stale_score_decay_factor :: "evidence_ports \<Rightarrow> string \<Rightarrow> pydict \<Rightarrow> real" where
  "stale_score_decay_factor p profile_id row =
     (if \<not> benchmark_result_test_type_matches profile_id row then 0
      else (case ev_ttl p of
              None \<Rightarrow> 0
            | Some ttl \<Rightarrow>
                if ttl \<le> 0 then 0
                else (case runtime_row_timestamp (PDict row) of
                        None \<Rightarrow> 0
                      | Some stamp \<Rightarrow>
                          (let age = ev_now p - stamp
                           in if age \<le> ttl then 1 else max 0 (min 1 (1 - (age - ttl) / ttl))))))"

definition mark_stale_benchmark_row :: "evidence_ports \<Rightarrow> string \<Rightarrow> pydict \<Rightarrow> pydict" where
  "mark_stale_benchmark_row p profile_id row =
     (if benchmark_result_matches_current_test p profile_id row then row
      else (let expected = expected_probe_test_type profile_id;
                stale = dset ''expected_test_type'' (PStr expected)
                          (dset ''original_status'' (dget row ''status'') (dset ''status'' (PStr ''stale'') row))
            in dset ''message''
                 (PStr (if benchmark_result_test_type_matches profile_id row
                        then ''stale benchmark result: verdict older than the verified-capability TTL; re-benchmark to refresh''
                        else ''stale benchmark result: expected '' @ expected @ '', stored ''
                             @ py_str (por (dget row ''test_type'') (PStr ''unknown'')))) stale))"

definition redacted_benchmark_row :: "evidence_ports \<Rightarrow> string \<Rightarrow> pydict \<Rightarrow> pydict" where
  "redacted_benchmark_row p profile_id row =
     as_dict (redact_sensitive_json (PDict (mark_stale_benchmark_row p profile_id row)))"

section \<open>Rows of a model and profile\<close>

definition runtime_profile_row :: "string \<Rightarrow> string \<Rightarrow> pydict \<Rightarrow> pydict \<Rightarrow> pydict" where
  "runtime_profile_row sec profile_id model state =
     section_of (section_of (section_of state sec) (cooldown_key model)) (strip profile_id)"

definition raw_benchmark_row :: "string \<Rightarrow> pydict \<Rightarrow> pydict \<Rightarrow> pydict" where
  "raw_benchmark_row profile_id model state = runtime_profile_row ''benchmark_results'' profile_id model state"

definition raw_verified_capability_row :: "string \<Rightarrow> pydict \<Rightarrow> pydict \<Rightarrow> pydict" where
  "raw_verified_capability_row profile_id model state =
     runtime_profile_row ''verified_capabilities'' profile_id model state"

definition verified_capability_row :: "evidence_ports \<Rightarrow> string \<Rightarrow> pydict \<Rightarrow> pydict \<Rightarrow> pydict" where
  "verified_capability_row p profile_id model state =
     (let row = raw_verified_capability_row profile_id model state
      in if benchmark_result_matches_current_test p profile_id row then row else [])"

definition detail_or :: "pv \<Rightarrow> string \<Rightarrow> pv" where
  "detail_or v d = PStr (case safe_detail v of None \<Rightarrow> d | Some s \<Rightarrow> if s = [] then d else s)"

text \<open>The failed evidence the admin shows, from the capability row or from the benchmark row.\<close>

definition failed_evidence ::
  "string \<Rightarrow> pydict \<Rightarrow> string \<Rightarrow> pydict \<Rightarrow> string \<Rightarrow> string \<Rightarrow> string \<Rightarrow> pydict" where
  "failed_evidence profile_id model reason row fallback stamp_field source =
     as_dict (redact_sensitive_json (PDict
       [(''profile_id'', PStr profile_id), (''model_id'', dget model ''id''),
        (''upstream_id'', dget model ''upstream_id''), (''source'', dget model ''source''),
        (''reason'', PStr reason), (''message'', detail_or (dget row ''message'') fallback),
        (''test_type'', dget row ''test_type''), (''failed_at'', dget row stamp_field),
        (''evidence_source'', PStr source), (''verdict_origin'', detail_or (dget row ''verdict_origin'') ''probe'')]))"

definition failed_profile_evidence_row :: "evidence_ports \<Rightarrow> string \<Rightarrow> pydict \<Rightarrow> pydict \<Rightarrow> pydict" where
  "failed_profile_evidence_row p profile_id model state =
     (let profile = strip profile_id; verified = verified_capability_row p profile model state;
          benchmark = raw_benchmark_row profile model state
      in if text_of verified ''status'' = ''failed'' then
           failed_evidence profile model ''failed_capability_check'' verified
             ''model failed this profile capability check'' ''failed_at'' ''verified_capability''
         else if benchmark_result_matches_current_test p profile benchmark \<and> dget benchmark ''status'' = PStr ''fail'' then
           failed_evidence profile model ''failed_benchmark'' (redacted_benchmark_row p profile benchmark)
             ''model failed the last benchmark for this profile'' ''ran_at'' ''benchmark_result''
         else [])"

definition model_failed_profile_evidence :: "evidence_ports \<Rightarrow> string \<Rightarrow> pydict \<Rightarrow> pydict \<Rightarrow> bool" where
  "model_failed_profile_evidence p profile_id model state \<longleftrightarrow>
     failed_profile_evidence_row p profile_id model state \<noteq> []"

definition model_verified :: "evidence_ports \<Rightarrow> string \<Rightarrow> pydict \<Rightarrow> pydict \<Rightarrow> bool" where
  "model_verified p profile_id model state \<longleftrightarrow>
     dget (verified_capability_row p profile_id model state) ''status'' = PStr ''verified''"

section \<open>Writing verdicts\<close>

definition consecutive_verdict_count :: "pv \<Rightarrow> pydict \<Rightarrow> int" where
  "consecutive_verdict_count previous row =
     (case previous of
        PDict prev \<Rightarrow>
          if \<not> py_eq (dget prev ''verdict_basis'') (dget row ''verdict_basis'')
             \<or> \<not> py_eq (dget prev ''test_type'') (dget row ''test_type'') then 1
          else (case dget prev ''verdict_basis_streak'' of
                  PInt streak \<Rightarrow> if 1 \<le> streak \<and> streak \<le> MAX_VERDICT_STREAK
                                 then min (streak + 1) MAX_VERDICT_STREAK else 2
                | _ \<Rightarrow> 2)
      | _ \<Rightarrow> 1)"

text \<open>\<open>state[section][key][profile_id] = row\<close>, levels that are no dictionary being replaced.\<close>

definition put_profile_row :: "string \<Rightarrow> string \<Rightarrow> string \<Rightarrow> pv \<Rightarrow> pydict \<Rightarrow> pydict" where
  "put_profile_row sec key profile_id row state =
     dset sec (PDict (dset key (PDict (dset profile_id row (section_of (section_of state sec) key)))
       (section_of state sec))) state"

definition record_benchmark_result_in_state :: "pydict \<Rightarrow> string \<Rightarrow> pydict \<Rightarrow> pydict \<Rightarrow> pydict" where
  "record_benchmark_result_in_state state profile_id model result =
     put_profile_row ''benchmark_results'' (cooldown_key model) profile_id (redact_sensitive_json (PDict result)) state"

definition capability_for_benchmark :: "string \<Rightarrow> string \<Rightarrow> string" where
  "capability_for_benchmark profile_id test_type =
     (if test_type = ''tool_call'' then ''tool_call''
      else if test_type = ''orchestration'' then ''orchestration''
      else if test_type \<in> {''json'', ''fast''} then ''structured_json''
      else if test_type = ''compression'' then ''compression''
      else if test_type = ''exact_text'' \<and> strip profile_id = ''ficelle/auto-orchestrator'' then ''instruction_following''
      else if test_type \<in> {''vision'', ''reasoning'', ''long_context''} then test_type
      else if test_type \<noteq> [] then test_type else ''benchmark'')"

definition verdict_row :: "string \<Rightarrow> pydict \<Rightarrow> pydict \<Rightarrow> pydict" where
  "verdict_row profile_id model result =
     [(''status'', PStr (if py_str (por (dget result ''status'') (PStr ''unknown'')) = ''pass'' then ''verified'' else ''failed'')),
      (''capability'', PStr (capability_for_benchmark profile_id (text_of result ''test_type''))),
      (''test_type'', dget result ''test_type''),
      (''model_id'', dget model ''id''),
      (''upstream_id'', dget model ''upstream_id''),
      (''message'', opt_str (safe_detail (dget result ''message'')))]"

text \<open>The basis of a verdict travels with it, with the number of times it was repeated.\<close>

definition with_basis :: "pydict \<Rightarrow> pv \<Rightarrow> pydict \<Rightarrow> pydict" where
  "with_basis result previous row =
     (if truthy (dget result ''verdict_basis'') then
        (let row = dset ''verdict_basis'' (dget result ''verdict_basis'') row
         in dset ''verdict_basis_streak'' (PInt (consecutive_verdict_count previous row)) row)
      else row)"

definition with_provenance :: "pydict \<Rightarrow> pydict \<Rightarrow> pydict" where
  "with_provenance result row =
     fold (\<lambda>k row. if truthy (dget result k) then dset k (opt_str (safe_detail (dget result k))) row else row)
       [''verdict_origin'', ''request_id''] row"

definition with_date :: "evidence_ports \<Rightarrow> pydict \<Rightarrow> pydict \<Rightarrow> pydict" where
  "with_date p result row =
     dset (if py_str (por (dget result ''status'') (PStr ''unknown'')) = ''pass'' then ''verified_at'' else ''failed_at'')
       (por (dget result ''ran_at'') (PStr (ev_now_iso p))) row"

text \<open>The benchmark row of the same probe takes the repeat count too.\<close>

definition annotate_benchmark :: "string \<Rightarrow> string \<Rightarrow> pydict \<Rightarrow> pydict \<Rightarrow> pydict \<Rightarrow> pydict" where
  "annotate_benchmark key profile_id result row state =
     (case dget (section_of (section_of state ''benchmark_results'') key) profile_id of
        PDict benchmark_row \<Rightarrow>
          if truthy (dget result ''verdict_basis'') \<and> truthy (dget result ''ran_at'')
             \<and> py_eq (dget benchmark_row ''ran_at'') (dget result ''ran_at'')
             \<and> py_eq (dget benchmark_row ''test_type'') (dget row ''test_type'')
             \<and> py_eq (dget benchmark_row ''verdict_basis'') (dget row ''verdict_basis'')
          then put_profile_row ''benchmark_results'' key profile_id
                 (redact_sensitive_json (PDict (dset ''verdict_basis_streak'' (dget row ''verdict_basis_streak'') benchmark_row)))
                 state
          else state
      | _ \<Rightarrow> state)"

definition record_verified_capability_in_state ::
  "evidence_ports \<Rightarrow> pydict \<Rightarrow> string \<Rightarrow> pydict \<Rightarrow> pydict \<Rightarrow> pydict" where
  "record_verified_capability_in_state p state profile_id model result =
     (let key = cooldown_key model; profile = strip profile_id;
          previous = dget (section_of (section_of state ''verified_capabilities'') key) profile;
          row = with_basis result previous (verdict_row profile_id model result);
          dated = with_date p result (with_provenance result row)
      in put_profile_row ''verified_capabilities'' key profile (redact_sensitive_json (PDict dated))
           (annotate_benchmark key profile result row state))"

definition record_production_profile_failure ::
  "evidence_ports \<Rightarrow> pydict \<Rightarrow> string \<Rightarrow> pydict \<Rightarrow> string \<Rightarrow> pv \<Rightarrow> string option \<Rightarrow> pydict" where
  "record_production_profile_failure p state profile_id model attempt_reason request_id detail =
     (if attempt_reason \<notin> set PRODUCTION_PROFILE_FAILURE_REASONS \<or> \<not> is_specialized_profile (strip profile_id) then state
      else record_verified_capability_in_state p state (strip profile_id) model
             [(''status'', PStr ''fail''), (''test_type'', PStr (expected_probe_test_type (strip profile_id))),
              (''message'', PStr (case detail of
                                    Some d \<Rightarrow> if d \<noteq> [] then attempt_reason @ '': '' @ d else attempt_reason
                                  | None \<Rightarrow> attempt_reason)),
              (''ran_at'', PStr (ev_now_iso p)), (''verdict_origin'', PStr ''production''), (''request_id'', request_id)])"

section \<open>The route gates\<close>

definition model_capability_is_default_claimed :: "string \<Rightarrow> pydict \<Rightarrow> bool" where
  "model_capability_is_default_claimed profile_id model =
     (case map_of GATE_CAPABILITY_BY_PROFILE (strip profile_id) of
        None \<Rightarrow> False
      | Some capability \<Rightarrow> capability \<in> set (safe_string_list (dget model ''capabilities_from_defaults'')))"

definition model_capability_provenance :: "pydict \<Rightarrow> string option \<Rightarrow> string" where
  "model_capability_provenance model capability =
     (case capability of
        None \<Rightarrow> ''n/a''
      | Some c \<Rightarrow>
          if c = [] then ''n/a''
          else if c \<in> set (safe_string_list (dget model ''capabilities_from_reference'')) then ''reference''
          else if c \<in> set (safe_string_list (dget model ''capabilities_from_defaults'')) then ''default''
          else ''catalog'')"

definition model_capability_reference_routable :: "evidence_ports \<Rightarrow> string \<Rightarrow> pydict \<Rightarrow> bool" where
  "model_capability_reference_routable p profile_id model =
     (ev_route_on_reference p \<and>
      (case map_of GATE_CAPABILITY_BY_PROFILE (strip profile_id) of
         None \<Rightarrow> False
       | Some capability \<Rightarrow>
           capability \<in> set (safe_string_list (dget model ''capabilities_from_reference''))
           \<and> text_of model ''reference_confidence'' \<in> set CAPABILITY_REFERENCE_ROUTE_CONFIDENCES))"

definition route_eligible_for_profile :: "evidence_ports \<Rightarrow> string \<Rightarrow> pydict \<Rightarrow> pydict \<Rightarrow> bool" where
  "route_eligible_for_profile p profile_id model state =
     (if model_failed_profile_evidence p profile_id model state then False
      else if model_verified p profile_id model state then True
      else if \<not> model_capability_is_default_claimed profile_id model then True
      else model_capability_reference_routable p profile_id model)"

text \<open>A row whose modalities cannot be iterated raises.\<close>

definition claimed_multimodal_profiles :: "pydict \<Rightarrow> string list option" where
  "claimed_multimodal_profiles model =
     map_option (\<lambda>current. map snd (filter (\<lambda>(modality, _). modality \<in> set current) MULTIMODAL_MODALITY_PROFILES))
       (field_values model ''input_modalities'')"

definition multimodal_route_eligible :: "evidence_ports \<Rightarrow> pydict \<Rightarrow> pydict \<Rightarrow> bool option" where
  "multimodal_route_eligible p model state =
     map_option (\<lambda>claimed.
       claimed = [] \<or> list_ex (\<lambda>profile. model_verified p profile model state) claimed
       \<or> \<not> list_all (\<lambda>profile. model_failed_profile_evidence p profile model state) claimed)
       (claimed_multimodal_profiles model)"

section \<open>Verdicts that survive redaction\<close>

text \<open>The fields of a verdict row, none of which redaction changes or hides.\<close>

definition plain_text :: "string \<Rightarrow> bool" where
  "plain_text s \<longleftrightarrow> s \<noteq> [] \<and> redact_patterns s = s"

lemma redact_plain: "plain_text s \<Longrightarrow> redact_sensitive_json (PStr s) = PStr s"
  by (simp add: plain_text_def text_or_def redact_sensitive_text_def por_def Let_def)

lemma plain_fields:
  "plain_text ''status''" "plain_text ''capability''" "plain_text ''test_type''" "plain_text ''model_id''"
  "plain_text ''upstream_id''" "plain_text ''message''" "plain_text ''verdict_origin''" "plain_text ''request_id''"
  "plain_text ''failed_at''" "plain_text ''verified_at''"
  by code_simp+

lemma plain_verdicts: "plain_text ''failed''" "plain_text ''verified''"
  by code_simp+

lemma plain_test_types:
  "list_all (\<lambda>profile. plain_text (expected_probe_test_type profile)) GATED_PROFILES"
  by code_simp

lemma shown_fields:
  "list_all (\<lambda>k. \<not> is_sensitive_json_key k)
     [''status'', ''capability'', ''test_type'', ''model_id'', ''upstream_id'', ''message'', ''verdict_origin'',
      ''request_id'', ''failed_at'', ''verified_at'']"
  by code_simp

lemma map_of_fold_dset:
  "wf_dict xs \<Longrightarrow> map_of (fold (\<lambda>(k, v) safe. dset k v safe) xs d) k
     = (case map_of xs k of None \<Rightarrow> map_of d k | Some v \<Rightarrow> Some v)"
proof (induction xs arbitrary: d)
  case (Cons x xs)
  obtain a b where x: "x = (a, b)" by (cases x)
  with Cons.prems have "map_of xs a = None" by (simp add: map_of_eq_None_iff)
  with Cons show ?case by (auto simp: x split: option.splits)
qed simp

lemma redacted_lookup:
  assumes "wf_dict d" "list_all (\<lambda>k. plain_text k \<and> \<not> is_sensitive_json_key k) (dkeys d)"
  shows "dget (as_dict (redact_sensitive_json (PDict d))) k = redact_sensitive_json (dget d k)"
proof -
  have "map redacted_entry d = map (\<lambda>(k, v). (k, redact_sensitive_json v)) d"
    using assms(2)
    by (auto simp: redacted_entry_def list_all_iff plain_text_def text_or_def redact_sensitive_text_def por_def Let_def)
  then have "redact_sensitive_json (PDict d) = PDict (fold (\<lambda>(k, v) safe. dset k v safe) (map (\<lambda>(k, v). (k, redact_sensitive_json v)) d) [])"
    by (simp only: redact_sensitive_json_PDict)
  then have "map_of (as_dict (redact_sensitive_json (PDict d))) k = map_option redact_sensitive_json (map_of d k)"
    using assms(1) map_of_map_snd[of "\<lambda>_. redact_sensitive_json" d k]
    by (simp add: map_of_fold_dset comp_def case_prod_beta split: option.splits del: redact_sensitive_json.simps)
  then show ?thesis by (simp add: dget_def split: option.splits)
qed

section \<open>The row a verdict leaves\<close>

lemma put_profile_row_lookup:
  "section_of (section_of (section_of (put_profile_row sec key profile_id row state) sec') key') profile_id'
     = (if sec' = sec \<and> key' = key \<and> profile_id' = profile_id then as_dict row
        else section_of (section_of (section_of state sec') key') profile_id')"
  by (simp add: put_profile_row_def)

lemma annotate_other_section:
  "sec \<noteq> ''benchmark_results'' \<Longrightarrow>
   section_of (annotate_benchmark key profile_id result row state) sec = section_of state sec"
  by (auto simp: annotate_benchmark_def put_profile_row_def split: pv.splits)

text \<open>A verdict with no basis of its own: the row before its redaction.\<close>

definition dated_row :: "evidence_ports \<Rightarrow> string \<Rightarrow> pydict \<Rightarrow> pydict \<Rightarrow> pydict" where
  "dated_row p profile_id model result = with_date p result (with_provenance result (verdict_row profile_id model result))"

lemma dated_row_keys:
  "wf_dict (dated_row p profile_id model result)"
  "set (dkeys (dated_row p profile_id model result)) \<subseteq>
     {''status'', ''capability'', ''test_type'', ''model_id'', ''upstream_id'', ''message'', ''verdict_origin'',
      ''request_id'', ''failed_at'', ''verified_at''}"
  by (simp_all add: dated_row_def with_date_def with_provenance_def verdict_row_def)

lemma dated_row_fields:
  assumes "py_str (por (dget result ''status'') (PStr ''unknown'')) = ''pass'' \<longleftrightarrow> passed"
  shows "dget (dated_row p profile_id model result) ''status'' = PStr (if passed then ''verified'' else ''failed'')"
    "dget (dated_row p profile_id model result) ''test_type'' = dget result ''test_type''"
    "dget (dated_row p profile_id model result) ''verified_at'' = (if passed then por (dget result ''ran_at'') (PStr (ev_now_iso p)) else PNone)"
    "dget (dated_row p profile_id model result) ''failed_at'' = (if passed then PNone else por (dget result ''ran_at'') (PStr (ev_now_iso p)))"
    "dget (dated_row p profile_id model result) ''verdict_basis'' = PNone"
  using assms
  by (simp_all add: dated_row_def with_date_def with_provenance_def verdict_row_def)

lemma dated_row_redacted:
  "dget (as_dict (redact_sensitive_json (PDict (dated_row p profile_id model result)))) k
     = redact_sensitive_json (dget (dated_row p profile_id model result) k)"
proof (rule redacted_lookup[OF dated_row_keys(1)])
  have "plain_text f \<and> \<not> is_sensitive_json_key f"
    if "f \<in> {''status'', ''capability'', ''test_type'', ''model_id'', ''upstream_id'', ''message'', ''verdict_origin'',
      ''request_id'', ''failed_at'', ''verified_at''}" for f
    using that plain_fields shown_fields by (elim insertE emptyE) simp_all
  with dated_row_keys(2) show "list_all (\<lambda>k. plain_text k \<and> \<not> is_sensitive_json_key k) (dkeys (dated_row p profile_id model result))"
    unfolding list_all_iff by blast
qed

text \<open>What a reader finds after a verdict: the section row, its status, its test and its date.\<close>

lemma recorded_verdict:
  assumes "\<not> truthy (dget result ''verdict_basis'')"
    and "py_str (por (dget result ''status'') (PStr ''unknown'')) = ''pass'' \<longleftrightarrow> passed"
    and "dget result ''test_type'' = PStr test_type" "plain_text test_type"
    and "por (dget result ''ran_at'') (PStr (ev_now_iso p)) = PStr ran_at" "plain_text ran_at"
    and "row = raw_verified_capability_row profile_id model (record_verified_capability_in_state p state profile_id model result)"
  shows "dget row ''status'' = PStr (if passed then ''verified'' else ''failed'')"
    "dget row ''test_type'' = PStr test_type"
    "runtime_row_timestamp (PDict row) = parse_iso_timestamp (PStr ran_at)"
    "dget row ''verdict_basis'' = PNone"
proof -
  have row: "row = as_dict (redact_sensitive_json (PDict (dated_row p profile_id model result)))"
    using assms(1)
    by (simp add: assms(7) raw_verified_capability_row_def runtime_profile_row_def record_verified_capability_in_state_def
        put_profile_row_lookup with_basis_def dated_row_def Let_def)
  note fields = dated_row_fields[OF assms(2), of p profile_id model]
  show "dget row ''status'' = PStr (if passed then ''verified'' else ''failed'')"
    unfolding row dated_row_redacted fields using plain_verdicts by (simp add: redact_plain del: redact_sensitive_json.simps)
  show "dget row ''test_type'' = PStr test_type"
    unfolding row dated_row_redacted fields assms(3) by (rule redact_plain[OF assms(4)])
  show "dget row ''verdict_basis'' = PNone"
    unfolding row dated_row_redacted fields by simp
  have "dget row ''verified_at'' = (if passed then PStr ran_at else PNone)"
    "dget row ''failed_at'' = (if passed then PNone else PStr ran_at)"
    unfolding row dated_row_redacted fields assms(5)
    using redact_plain[OF assms(6)] by (simp_all del: redact_sensitive_json.simps(1))
  moreover have "ran_at \<noteq> []" using assms(6) by (simp add: plain_text_def)
  ultimately show "runtime_row_timestamp (PDict row) = parse_iso_timestamp (PStr ran_at)"
    by (simp add: runtime_row_timestamp_def runtime_evidence_timestamp_value_def por_def Let_def)
qed

section \<open>Gates after a verdict\<close>

lemma expected_test_type_strip [simp]: "expected_probe_test_type (strip profile_id) = expected_probe_test_type profile_id"
  by (simp add: expected_probe_test_type_def)

lemma expected_test_type_plain:
  assumes "is_specialized_profile profile_id"
  shows "plain_text (expected_probe_test_type profile_id)"
proof -
  have "plain_text (expected_probe_test_type (strip profile_id))"
    using assms plain_test_types unfolding is_specialized_profile_def list_all_iff by blast
  then show ?thesis by simp
qed

lemma is_specialized_strip [simp]: "is_specialized_profile (strip profile_id) = is_specialized_profile profile_id"
  by (simp add: is_specialized_profile_def)

lemma raw_row_strip [simp]:
  "raw_verified_capability_row (strip profile_id) model state = raw_verified_capability_row profile_id model state"
  "raw_benchmark_row (strip profile_id) model state = raw_benchmark_row profile_id model state"
  by (simp_all add: raw_verified_capability_row_def raw_benchmark_row_def runtime_profile_row_def)

lemma verified_row_strip [simp]:
  "verified_capability_row p (strip profile_id) model state = verified_capability_row p profile_id model state"
  by (simp add: verified_capability_row_def benchmark_result_matches_current_test_def
      benchmark_result_test_type_matches_def Let_def)

text \<open>A row of the right test, dated within the time to live, with no basis of its own, is current.\<close>

lemma row_is_current:
  assumes "dget row ''test_type'' = PStr (expected_probe_test_type profile_id)" "expected_probe_test_type profile_id \<noteq> []"
    and "dget row ''verdict_basis'' = PNone" "runtime_row_timestamp (PDict row) = Some t"
    and "ev_ttl p = Some ttl" "ev_now p - t \<le> ttl"
  shows "benchmark_result_matches_current_test p profile_id row"
proof -
  have "row \<noteq> []" using assms(1) by auto
  with assms show ?thesis
    by (auto simp: benchmark_result_matches_current_test_def benchmark_result_test_type_matches_def text_of_def por_def
        benchmark_result_is_aged_def route_rejection_deserves_a_retry_soon_def)
qed

lemma failed_evidence_nonempty: "failed_evidence profile_id model reason row fallback stamp_field source \<noteq> []"
proof
  assume e: "failed_evidence profile_id model reason row fallback stamp_field source = []"
  have keep: "d \<noteq> [] \<Longrightarrow> fold (\<lambda>(k, v) safe. dset k v safe) xs d \<noteq> []" for xs and d :: pydict
  proof (induction xs arbitrary: d)
    case (Cons x xs)
    have "dset k v d \<noteq> []" for k v by (cases d) auto
    with Cons.IH show ?case by (cases x) auto
  qed simp
  have "as_dict (redact_sensitive_json (PDict (x # d))) \<noteq> []" for x d
    unfolding redact_sensitive_json_PDict by (cases "redacted_entry x") (simp add: keep)
  with e show False unfolding failed_evidence_def by blast
qed

lemma failed_verdict_closes_gate:
  assumes "text_of (verified_capability_row p profile_id model state) ''status'' = ''failed''"
  shows "\<not> route_eligible_for_profile p profile_id model state"
  using assms
  by (simp add: route_eligible_for_profile_def model_failed_profile_evidence_def failed_profile_evidence_row_def
      failed_evidence_nonempty Let_def)

text \<open>One semantic failure of a real request is enough: once it is recorded for a gated profile,
  for a reason the model is answerable for, the route gate of that profile refuses the model
  until the verdict's time to live has passed, and the rows of every other model or profile
  are those they were.\<close>

theorem production_failure_closes_the_gate:
  assumes "reason \<in> set PRODUCTION_PROFILE_FAILURE_REASONS" "is_specialized_profile profile_id"
    and "plain_text (ev_now_iso p)" "parse_iso_timestamp (PStr (ev_now_iso p)) = Some t"
    and "ev_ttl later = Some ttl" "ev_now later - t \<le> ttl"
    and "state' = record_production_profile_failure p state profile_id model reason request detail"
  shows "\<not> route_eligible_for_profile later profile_id model state'
       \<and> (\<forall>other q. cooldown_key other \<noteq> cooldown_key model \<or> strip q \<noteq> strip profile_id \<longrightarrow>
            raw_verified_capability_row q other state' = raw_verified_capability_row q other state)"
proof -
  let ?result = "[(''status'', PStr ''fail''), (''test_type'', PStr (expected_probe_test_type (strip profile_id))),
              (''message'', PStr (case detail of
                                    Some d \<Rightarrow> if d \<noteq> [] then reason @ '': '' @ d else reason
                                  | None \<Rightarrow> reason)),
              (''ran_at'', PStr (ev_now_iso p)), (''verdict_origin'', PStr ''production''), (''request_id'', request)]"
  have state': "state' = record_verified_capability_in_state p state (strip profile_id) model ?result"
    using assms(1,2) by (simp add: assms(7) record_production_profile_failure_def)
  define row where "row = raw_verified_capability_row (strip profile_id) model state'"
  have iso: "ev_now_iso p \<noteq> []" using assms(3) by (simp add: plain_text_def)
  have type: "plain_text (expected_probe_test_type profile_id)" using assms(2) by (rule expected_test_type_plain)
  have "\<not> truthy (dget ?result ''verdict_basis'')" by simp
  moreover have "py_str (por (dget ?result ''status'') (PStr ''unknown'')) = ''pass'' \<longleftrightarrow> False" by (simp add: por_def)
  moreover have "dget ?result ''test_type'' = PStr (expected_probe_test_type profile_id)" by simp
  moreover have "por (dget ?result ''ran_at'') (PStr (ev_now_iso p)) = PStr (ev_now_iso p)" by (simp add: por_def)
  ultimately have r: "dget row ''status'' = PStr ''failed''" "dget row ''test_type'' = PStr (expected_probe_test_type profile_id)"
    "runtime_row_timestamp (PDict row) = parse_iso_timestamp (PStr (ev_now_iso p))" "dget row ''verdict_basis'' = PNone"
    using recorded_verdict[of ?result False "expected_probe_test_type profile_id" p "ev_now_iso p" row "strip profile_id" model state]
      type assms(3) unfolding row_def state' by simp_all
  then have "benchmark_result_matches_current_test later profile_id row"
    using type assms(4-6) by (intro row_is_current) (simp_all add: plain_text_def)
  then have "verified_capability_row later profile_id model state' = row"
    by (simp add: verified_capability_row_def row_def Let_def)
  then have "\<not> route_eligible_for_profile later profile_id model state'"
    using r(1) by (intro failed_verdict_closes_gate) (simp add: text_of_def por_def)
  moreover have "raw_verified_capability_row q other state' = raw_verified_capability_row q other state"
    if "cooldown_key other \<noteq> cooldown_key model \<or> strip q \<noteq> strip profile_id" for other q
    using that
    by (auto simp: state' raw_verified_capability_row_def runtime_profile_row_def record_verified_capability_in_state_def
        put_profile_row_lookup annotate_other_section Let_def)
  ultimately show ?thesis by blast
qed

text \<open>A passing probe reopens it: when it is recorded for the profile's current test, and the last
  benchmark of the pair is not itself a current failure, the gate of the profile lets the model
  through until the time to live has passed, whatever it had failed before.\<close>

theorem passing_probe_reopens_the_gate:
  assumes "dget result ''status'' = PStr ''pass''" "\<not> truthy (dget result ''verdict_basis'')"
    and "dget result ''test_type'' = PStr (expected_probe_test_type profile_id)" "is_specialized_profile profile_id"
    and "dget result ''ran_at'' = PStr ran_at" "plain_text ran_at" "parse_iso_timestamp (PStr ran_at) = Some t"
    and "ev_ttl later = Some ttl" "ev_now later - t \<le> ttl"
    and "state' = record_verified_capability_in_state p state profile_id model result"
    and "\<not> (benchmark_result_matches_current_test later (strip profile_id) (raw_benchmark_row profile_id model state')
             \<and> dget (raw_benchmark_row profile_id model state') ''status'' = PStr ''fail'')"
  shows "route_eligible_for_profile later profile_id model state'"
proof -
  define row where "row = raw_verified_capability_row profile_id model state'"
  have type: "plain_text (expected_probe_test_type profile_id)" using assms(4) by (rule expected_test_type_plain)
  have "ran_at \<noteq> []" using assms(6) by (simp add: plain_text_def)
  then have r: "dget row ''status'' = PStr ''verified''" "dget row ''test_type'' = PStr (expected_probe_test_type profile_id)"
    "runtime_row_timestamp (PDict row) = Some t" "dget row ''verdict_basis'' = PNone"
    using recorded_verdict[of result True "expected_probe_test_type profile_id" p ran_at row profile_id model state]
      assms(1-3,5-7) type unfolding row_def assms(10) by (simp_all add: por_def)
  then have "benchmark_result_matches_current_test later profile_id row"
    using type assms(8,9) by (intro row_is_current) (simp_all add: plain_text_def)
  then have v: "verified_capability_row later profile_id model state' = row"
    by (simp add: verified_capability_row_def row_def Let_def)
  then have "\<not> model_failed_profile_evidence later profile_id model state'"
    using r(1) assms(11)
    by (auto simp: model_failed_profile_evidence_def failed_profile_evidence_row_def text_of_def por_def Let_def)
  then show ?thesis using v r(1) by (simp add: route_eligible_for_profile_def model_verified_def)
qed

definition example_evidence_ports :: evidence_ports where
  "example_evidence_ports = \<lparr>ev_now = 1767312000, ev_now_iso = ''2026-01-02'', ev_ttl = Some 86400, ev_route_on_reference = False\<rparr>"

lemma example_evidence_facts:
  "plain_text ''2026-01-02''" "parse_iso_timestamp (PStr ''2026-01-02'') = Some 1767312000"
  "is_specialized_profile ''ficelle/auto-json''"
  "''empty_assistant_message'' \<in> set PRODUCTION_PROFILE_FAILURE_REASONS"
  by code_simp+

lemma production_failure_closes_the_gate_witness:
  "\<not> route_eligible_for_profile example_evidence_ports ''ficelle/auto-json'' [(''id'', PStr ''m'')]
     (record_production_profile_failure example_evidence_ports [] ''ficelle/auto-json'' [(''id'', PStr ''m'')]
        ''empty_assistant_message'' PNone None)"
  using production_failure_closes_the_gate[OF example_evidence_facts(4,3), of example_evidence_ports 1767312000
      example_evidence_ports 86400 _ "[]" "[(''id'', PStr ''m'')]" PNone None, OF _ _ _ _ refl]
  by (simp add: example_evidence_ports_def example_evidence_facts)

definition example_probe :: pydict where
  "example_probe = [(''status'', PStr ''pass''), (''test_type'', PStr (expected_probe_test_type ''ficelle/auto-json'')),
     (''ran_at'', PStr ''2026-01-02'')]"

lemma passing_probe_reopens_the_gate_witness:
  "route_eligible_for_profile example_evidence_ports ''ficelle/auto-json'' [(''id'', PStr ''m'')]
     (record_verified_capability_in_state example_evidence_ports [] ''ficelle/auto-json'' [(''id'', PStr ''m'')] example_probe)"
proof (rule passing_probe_reopens_the_gate[OF _ _ _ example_evidence_facts(3) _ example_evidence_facts(1,2) _ _ refl])
  show "dget example_probe ''status'' = PStr ''pass''" "\<not> truthy (dget example_probe ''verdict_basis'')"
    "dget example_probe ''test_type'' = PStr (expected_probe_test_type ''ficelle/auto-json'')"
    "dget example_probe ''ran_at'' = PStr ''2026-01-02''"
    by (simp_all add: example_probe_def)
  show "ev_ttl example_evidence_ports = Some 86400" "ev_now example_evidence_ports - 1767312000 \<le> 86400"
    by (simp_all add: example_evidence_ports_def)
  let ?state = "record_verified_capability_in_state example_evidence_ports [] ''ficelle/auto-json'' [(''id'', PStr ''m'')] example_probe"
  have "raw_benchmark_row ''ficelle/auto-json'' [(''id'', PStr ''m'')] ?state = []"
    by (simp add: raw_benchmark_row_def runtime_profile_row_def record_verified_capability_in_state_def
        put_profile_row_lookup annotate_benchmark_def section_of_def[of "[]"] Let_def del: redact_sensitive_json.simps)
  then show "\<not> (benchmark_result_matches_current_test example_evidence_ports (strip ''ficelle/auto-json'')
               (raw_benchmark_row ''ficelle/auto-json'' [(''id'', PStr ''m'')] ?state)
             \<and> dget (raw_benchmark_row ''ficelle/auto-json'' [(''id'', PStr ''m'')] ?state) ''status'' = PStr ''fail'')"
    by simp
qed

section \<open>How a verdict ages\<close>

text \<open>A verdict counts in full for its time to live, then fades linearly to nothing over as long
  again, and never below or above those bounds; later readings never give it more weight, and a
  verdict of another test counts for nothing.\<close>

theorem verdict_ages_linearly:
  assumes "ev_ttl p = Some ttl" "0 < ttl" "runtime_row_timestamp (PDict row) = Some t"
    and "benchmark_result_test_type_matches profile_id row" "ev_now p \<le> ev_now later" "ev_ttl later = ev_ttl p"
  shows "0 \<le> stale_score_decay_factor p profile_id row \<and> stale_score_decay_factor p profile_id row \<le> 1
       \<and> (ev_now p - t \<le> ttl \<longleftrightarrow> stale_score_decay_factor p profile_id row = 1)
       \<and> (stale_score_decay_factor p profile_id row = 0 \<longleftrightarrow> 2 * ttl \<le> ev_now p - t)
       \<and> stale_score_decay_factor later profile_id row \<le> stale_score_decay_factor p profile_id row"
proof -
  have f: "stale_score_decay_factor q profile_id row
      = (if ev_now q - t \<le> ttl then 1 else max 0 (min 1 (1 - (ev_now q - t - ttl) / ttl)))" if "ev_ttl q = Some ttl" for q
    using that assms(2-4) by (simp add: stale_score_decay_factor_def Let_def)
  have pos: "0 < (ev_now p - t - ttl) / ttl \<longleftrightarrow> ttl < ev_now p - t"
    "1 \<le> (ev_now p - t - ttl) / ttl \<longleftrightarrow> 2 * ttl \<le> ev_now p - t"
    using assms(2) by (simp_all add: zero_less_divide_iff le_divide_eq algebra_simps)
  have "(ev_now p - t - ttl) / ttl \<le> (ev_now later - t - ttl) / ttl"
    using assms(2,5) by (simp add: divide_right_mono)
  with pos assms(1,2,5,6) show ?thesis by (auto simp: f max_def min_def)
qed

lemma verdict_ages_linearly_witness:
  "stale_score_decay_factor example_evidence_ports ''ficelle/auto-json''
     [(''test_type'', PStr ''json''), (''ran_at'', PStr ''2026-01-02'')] = 1"
proof -
  let ?row = "[(''test_type'', PStr ''json''), (''ran_at'', PStr ''2026-01-02'')]"
  have "runtime_row_timestamp (PDict ?row) = Some 1767312000"
    by (simp add: runtime_row_timestamp_def runtime_evidence_timestamp_value_def por_def example_evidence_facts)
  moreover have "benchmark_result_test_type_matches ''ficelle/auto-json'' ?row" by code_simp
  ultimately show ?thesis
    using verdict_ages_linearly[of example_evidence_ports 86400 ?row 1767312000 "''ficelle/auto-json''" example_evidence_ports]
    by (simp add: example_evidence_ports_def)
qed

text \<open>A guess never routes: a model whose gated capability is only claimed by provider defaults
  passes the gate exactly when a current verdict says verified, or the operator trusts the
  reference and it confirms the capability with high confidence, and in either case no current
  verdict says failed.\<close>

theorem default_claims_need_proof:
  assumes "model_capability_is_default_claimed profile_id model"
  shows "route_eligible_for_profile p profile_id model state \<longleftrightarrow>
     \<not> model_failed_profile_evidence p profile_id model state
     \<and> (model_verified p profile_id model state
        \<or> ev_route_on_reference p
          \<and> (\<exists>c. map_of GATE_CAPABILITY_BY_PROFILE (strip profile_id) = Some c
               \<and> c \<in> set (safe_string_list (dget model ''capabilities_from_reference''))
               \<and> text_of model ''reference_confidence'' = ''high''))"
  using assms
  by (auto simp: route_eligible_for_profile_def model_capability_reference_routable_def
      CAPABILITY_REFERENCE_ROUTE_CONFIDENCES_def split: option.splits)

lemma default_claims_need_proof_witness:
  "\<not> route_eligible_for_profile example_evidence_ports ''ficelle/auto-json''
     [(''capabilities_from_defaults'', PList [PStr ''structured''])] []"
proof -
  let ?m = "[(''capabilities_from_defaults'', PList [PStr ''structured''])]"
  have "model_capability_is_default_claimed ''ficelle/auto-json'' ?m" by code_simp
  from default_claims_need_proof[OF this, of example_evidence_ports "[]"] show ?thesis
    by (simp add: example_evidence_ports_def model_verified_def verified_capability_row_def raw_verified_capability_row_def
        runtime_profile_row_def section_of_def Let_def)
qed

end
