(* ===== verification/ModelScoring.thy ===== *)
theory ModelScoring
  imports Evidence QualityFeedback
begin

text \<open>
  How a model is scored for a profile (\<open>use_cases/model_scoring.py\<close>): the success rate and the
  latencies of its statistics, the verdicts of benchmarks and probes with their ageing, the
  failure penalty and the quality feedback, and the weights of each profile. A computation
  returns \<open>None\<close> where the code would raise because a section of the state is no dictionary,
  and where a stored counter is infinite, which is outside the model (Python would go on to
  compare a NaN). The clock is the one of the evidence ports.
\<close>

section \<open>Constants\<close>

definition NEUTRAL_SUCCESS_RATE :: real where "NEUTRAL_SUCCESS_RATE = 72 / 100"
definition MIN_SCORED_OBSERVATIONS :: real where "MIN_SCORED_OBSERVATIONS = 1"
definition LATENCY_REFERENCE_SECONDS :: real where "LATENCY_REFERENCE_SECONDS = 15"
definition FIRST_DELTA_REFERENCE_SECONDS :: real where "FIRST_DELTA_REFERENCE_SECONDS = 5"
definition THROUGHPUT_REFERENCE_TOKENS_PER_SECOND :: real where "THROUGHPUT_REFERENCE_TOKENS_PER_SECOND = 20"

section \<open>Statistics of a model\<close>

text \<open>\<open>_safe_float\<close>: a positive number, or zero.\<close>

definition positive_float :: "pv \<Rightarrow> real option" where
  "positive_float v =
     (case py_float v of
        Some (Fin r) \<Rightarrow> Some (if 0 < r then r else 0)
      | Some PosInf \<Rightarrow> None
      | _ \<Rightarrow> Some 0)"

definition latency_score_from_seconds :: "real \<Rightarrow> real \<Rightarrow> real" where
  "latency_score_from_seconds seconds reference_seconds = reference_seconds / (reference_seconds + max 0 seconds)"

text \<open>The same on any float: \<open>max(0.0, nan)\<close> is \<open>0.0\<close>, and a division by infinity is zero.\<close>

definition latency_score_of :: "pyfloat \<Rightarrow> real \<Rightarrow> real" where
  "latency_score_of f reference_seconds =
     (case f of
        Fin s \<Rightarrow> latency_score_from_seconds s reference_seconds
      | PosInf \<Rightarrow> 0
      | _ \<Rightarrow> latency_score_from_seconds 0 reference_seconds)"

definition stats_record :: "pydict \<Rightarrow> pydict \<Rightarrow> pydict option" where
  "stats_record model state = do {
     stats \<leftarrow> or_empty (dget state ''stats'');
     or_empty (dget stats (cooldown_key model))
   }"

definition positive_stat :: "pydict \<Rightarrow> string \<Rightarrow> pyfloat option" where
  "positive_stat record fld =
     (case py_float (dget record fld) of
        Some (Fin r) \<Rightarrow> if 0 < r then Some (Fin r) else None
      | Some PosInf \<Rightarrow> Some PosInf
      | _ \<Rightarrow> None)"

definition smoothed_rate :: "real \<Rightarrow> real \<Rightarrow> real" where
  "smoothed_rate successes failures =
     (if successes + failures < MIN_SCORED_OBSERVATIONS then NEUTRAL_SUCCESS_RATE
      else (successes + 2) / (successes + failures + 4))"

definition success_rate_of :: "real \<Rightarrow> pydict \<Rightarrow> real option" where
  "success_rate_of now record =
     (if dget record ''scored_at'' \<noteq> PNone then do {
        scored_at \<leftarrow> positive_float (dget record ''scored_at'');
        successes \<leftarrow> positive_float (dget record ''scored_successes'');
        failures \<leftarrow> positive_float (dget record ''scored_failures'');
        let factor = score_decay_factor (now - scored_at);
        Some (smoothed_rate (successes * factor) (failures * factor))
      }
      else Some (smoothed_rate (of_int (safe_int (dget record ''successes'') 0)) (of_int (safe_int (dget record ''failures'') 0))))"

definition success_rate_for_model :: "evidence_ports \<Rightarrow> pydict \<Rightarrow> pydict \<Rightarrow> real option" where
  "success_rate_for_model p model state = stats_record model state \<bind> success_rate_of (ev_now p)"

definition latency_score_for_model :: "pydict \<Rightarrow> pydict \<Rightarrow> real option" where
  "latency_score_for_model model state = do {
     record \<leftarrow> stats_record model state;
     latency \<leftarrow> (if dget record ''latency_ewma'' \<noteq> PNone then Some (dget record ''latency_ewma'')
                else do {
                  successes \<leftarrow> or_empty (dget state ''successes'');
                  legacy \<leftarrow> or_empty (dget successes (cooldown_key model));
                  Some (dget legacy ''latency_seconds'')
                });
     Some (case py_float latency of None \<Rightarrow> 1 / 2 | Some f \<Rightarrow> latency_score_of f LATENCY_REFERENCE_SECONDS)
   }"

definition first_delta_score_for_model :: "pydict \<Rightarrow> pydict \<Rightarrow> real option" where
  "first_delta_score_for_model model state =
     map_option (\<lambda>record. case positive_stat record ''first_delta_ewma'' of
         None \<Rightarrow> 1 / 2 | Some f \<Rightarrow> latency_score_of f FIRST_DELTA_REFERENCE_SECONDS) (stats_record model state)"

definition throughput_score_for_model :: "pydict \<Rightarrow> pydict \<Rightarrow> real option" where
  "throughput_score_for_model model state = do {
     record \<leftarrow> stats_record model state;
     case positive_stat record ''completion_tokens_per_second'' of
       None \<Rightarrow> Some (1 / 2)
     | Some (Fin tps) \<Rightarrow> Some (tps / (tps + THROUGHPUT_REFERENCE_TOKENS_PER_SECOND))
     | Some _ \<Rightarrow> None
   }"

section \<open>Evidence\<close>

definition score_row_status :: "evidence_ports \<Rightarrow> string \<Rightarrow> pydict \<Rightarrow> string" where
  "score_row_status p profile_id row =
     (if row = [] then ''missing''
      else if benchmark_result_matches_current_test p profile_id row then ''fresh''
      else ''stale'')"

definition score_row_reason :: "evidence_ports \<Rightarrow> string \<Rightarrow> pydict \<Rightarrow> string option" where
  "score_row_reason p profile_id row =
     (if row = [] \<or> benchmark_result_matches_current_test p profile_id row then None
      else if \<not> benchmark_result_test_type_matches profile_id row then Some ''test_type_mismatch''
      else if benchmark_result_is_aged p row then Some ''ttl_expired''
      else Some ''invalid_evidence'')"

record score_evidence =
  se_verified_row :: pydict
  se_verified_raw :: pydict
  se_verified_status :: string
  se_verified_reason :: "string option"
  se_benchmark_raw :: pydict
  se_benchmark_status :: string
  se_benchmark_reason :: "string option"
  se_status :: string
  se_reason :: "string option"
  se_last_evidence_at :: "string option"
  se_score_decay_factor :: real

text \<open>The latest date of the two rows; a date that cannot be read counts only while none is known.\<close>

definition latest_of :: "pydict \<Rightarrow> string option \<times> real option \<Rightarrow> string option \<times> real option" where
  "latest_of row latest =
     (let value = runtime_evidence_timestamp_value (PDict row); stamp = runtime_row_timestamp (PDict row)
      in if value \<noteq> None \<and> value \<noteq> Some []
            \<and> (snd latest = None \<or> (stamp \<noteq> None \<and> the (snd latest) \<le> the stamp))
         then (value, stamp) else latest)"

definition score_evidence_for_model :: "evidence_ports \<Rightarrow> string \<Rightarrow> pydict \<Rightarrow> pydict \<Rightarrow> score_evidence" where
  "score_evidence_for_model p profile_id model state =
     (let profile = strip profile_id;
          verified = raw_verified_capability_row profile model state;
          benchmark = raw_benchmark_row profile model state;
          verified_status = score_row_status p profile verified;
          benchmark_status = score_row_status p profile benchmark;
          verified_reason = score_row_reason p profile verified;
          benchmark_reason = score_row_reason p profile benchmark
      in \<lparr>se_verified_row = (if verified_status = ''fresh'' then verified else []),
          se_verified_raw = verified, se_verified_status = verified_status, se_verified_reason = verified_reason,
          se_benchmark_raw = benchmark, se_benchmark_status = benchmark_status, se_benchmark_reason = benchmark_reason,
          se_status = (if ''stale'' \<in> {verified_status, benchmark_status} then ''stale''
                       else if ''fresh'' \<in> {verified_status, benchmark_status} then ''fresh'' else ''missing''),
          se_reason = (if verified_reason \<noteq> None then verified_reason else benchmark_reason),
          se_last_evidence_at = fst (latest_of benchmark (latest_of verified (None, None))),
          se_score_decay_factor =
            min (if verified \<noteq> [] then stale_score_decay_factor p profile verified else 1)
                (if benchmark \<noteq> [] then stale_score_decay_factor p profile benchmark else 1)\<rparr>)"

definition failed_verdict_penalty :: "real \<Rightarrow> real \<Rightarrow> bool \<Rightarrow> real" where
  "failed_verdict_penalty full_penalty decay same_test =
     (if same_test then full_penalty else full_penalty * max 0 decay)"

text \<open>One row's part in \<open>stale_failed_profile_evidence\<close>: a fresh pass, an expired failure, or neither.\<close>

definition fresh_pass :: "evidence_ports \<Rightarrow> string \<Rightarrow> pydict \<Rightarrow> string \<Rightarrow> bool" where
  "fresh_pass p profile_id row passed_status \<longleftrightarrow>
     row \<noteq> [] \<and> benchmark_result_matches_current_test p profile_id row \<and> text_of row ''status'' = passed_status"

definition expired_failure :: "evidence_ports \<Rightarrow> string \<Rightarrow> pydict \<Rightarrow> string \<Rightarrow> bool" where
  "expired_failure p profile_id row failed_status \<longleftrightarrow>
     row \<noteq> [] \<and> \<not> benchmark_result_matches_current_test p profile_id row \<and> text_of row ''status'' = failed_status
     \<and> benchmark_result_test_type_matches profile_id row"

definition stale_failed_profile_evidence :: "evidence_ports \<Rightarrow> string \<Rightarrow> pydict \<Rightarrow> pydict \<Rightarrow> bool" where
  "stale_failed_profile_evidence p profile_id model state \<longleftrightarrow>
     (let profile = strip profile_id;
          verified = raw_verified_capability_row profile model state;
          benchmark = raw_benchmark_row profile model state
      in \<not> fresh_pass p profile verified ''verified'' \<and> \<not> fresh_pass p profile benchmark ''pass''
         \<and> (expired_failure p profile verified ''failed'' \<or> expired_failure p profile benchmark ''fail''))"

section \<open>What the evidence adds\<close>

definition verified_bonus_of :: "evidence_ports \<Rightarrow> string \<Rightarrow> score_evidence \<Rightarrow> real" where
  "verified_bonus_of p profile_id ev =
     (let verified_status = text_of (se_verified_row ev) ''status''; raw = se_verified_raw ev in
      if verified_status = ''verified'' then 12
      else if verified_status = ''failed'' then - 24
      else if raw \<noteq> [] then
        (let decay = stale_score_decay_factor p profile_id raw; raw_status = text_of raw ''status'' in
         if raw_status = ''verified'' then 12 * decay
         else if raw_status = ''failed'' then
           - failed_verdict_penalty 24 decay (benchmark_result_test_type_matches profile_id raw)
         else 0)
      else 0)"

definition benchmark_pass_bonus :: "pydict \<Rightarrow> real \<Rightarrow> real" where
  "benchmark_pass_bonus row decay =
     8 * decay + (case py_float (dget row ''latency_seconds'') of
                    None \<Rightarrow> 0 | Some f \<Rightarrow> 6 * latency_score_of f LATENCY_REFERENCE_SECONDS * decay)"

definition benchmark_bonus_of :: "evidence_ports \<Rightarrow> string \<Rightarrow> pydict \<Rightarrow> real" where
  "benchmark_bonus_of p profile_id raw =
     (let current = benchmark_result_matches_current_test p profile_id raw;
          decay = (if current then 1 else stale_score_decay_factor p profile_id raw);
          failed = (dget raw ''status'' = PStr ''fail'');
          row = (if \<not> current \<and> decay \<le> 0 \<and> \<not> failed then [] else raw)
      in if row = [] then 0
         else if dget row ''status'' = PStr ''pass'' then benchmark_pass_bonus row decay
         else if failed then - failed_verdict_penalty 16 decay (benchmark_result_test_type_matches profile_id row)
         else 0)"

record adjustment_parts =
  ap_verified_bonus :: real
  ap_benchmark_bonus :: real
  ap_score_adjustment :: real
  ap_evidence :: score_evidence

definition benchmark_adjustment_parts :: "evidence_ports \<Rightarrow> string \<Rightarrow> pydict \<Rightarrow> pydict \<Rightarrow> adjustment_parts" where
  "benchmark_adjustment_parts p profile_id model state =
     (let profile = strip profile_id;
          ev = score_evidence_for_model p profile model state;
          verified_bonus = verified_bonus_of p profile ev;
          benchmark_bonus = benchmark_bonus_of p profile (se_benchmark_raw ev)
      in \<lparr>ap_verified_bonus = verified_bonus, ap_benchmark_bonus = benchmark_bonus,
          ap_score_adjustment = verified_bonus + benchmark_bonus, ap_evidence = ev\<rparr>)"

section \<open>The score of a profile\<close>

record score_features =
  f_success :: real
  f_speed :: real
  f_context :: real
  f_structured :: real
  f_tools :: real
  f_reasoning :: real
  f_image :: real
  f_video :: real
  f_audio :: real
  f_multimodal :: real

definition base_score :: "string \<Rightarrow> score_features \<Rightarrow> real" where
  "base_score requested_model f =
     (if requested_model = ''ficelle/auto-orchestrator'' then
        f_success f * 42 + f_tools f * 18 + f_structured f * 18 + f_context f * 14 + f_speed f * 8
      else if requested_model = ''ficelle/auto-fast'' then
        f_success f * 45 + f_speed f * 35 + f_tools f * 10 + f_context f * 10
      else if requested_model = ''ficelle/auto-json'' then
        f_success f * 40 + f_structured f * 30 + f_tools f * 15 + f_speed f * 10 + f_context f * 5
      else if requested_model = ''ficelle/auto-compression'' then
        f_success f * 42 + f_speed f * 26 + f_context f * 18 + f_tools f * 4
      else if requested_model = ''ficelle/auto-long'' then
        f_success f * 35 + f_context f * 35 + f_tools f * 15 + f_structured f * 10 + f_speed f * 5
      else if requested_model = ''ficelle/auto-reasoning'' then
        f_success f * 35 + f_reasoning f * 30 + f_tools f * 15 + f_structured f * 10 + f_context f * 10
      else if requested_model = ''ficelle/auto-multimodal'' then
        f_success f * 35 + f_multimodal f * 30 + f_tools f * 15 + f_structured f * 10 + f_context f * 10
      else if requested_model = ''ficelle/auto-vision'' then
        f_success f * 35 + f_image f * 35 + f_tools f * 10 + f_structured f * 10 + f_context f * 10
      else if requested_model = ''ficelle/auto-video'' then
        f_success f * 35 + f_video f * 35 + f_tools f * 10 + f_structured f * 10 + f_context f * 10
      else if requested_model = ''ficelle/auto-audio'' then
        f_success f * 35 + f_audio f * 35 + f_tools f * 10 + f_structured f * 10 + f_context f * 10
      else
        f_success f * 45 + f_tools f * 20 + f_structured f * 15 + f_speed f * 10 + f_context f * 10)"

abbreviation flag :: "bool \<Rightarrow> real" where
  "flag b \<equiv> (if b then 1 else 0)"

definition context_score_of :: "int \<Rightarrow> real" where
  "context_score_of context_length = (if 0 < context_length then min 1 (of_int context_length / 1000000) else 0)"

text \<open>The readings of a model that the score weighs, with the three speeds.\<close>

record score_readings =
  sr_latency_score :: real
  sr_first_delta_score :: real
  sr_throughput_score :: real
  sr_features :: score_features

definition score_readings_of :: "evidence_ports \<Rightarrow> pydict \<Rightarrow> pydict \<Rightarrow> score_readings option" where
  "score_readings_of p model state = do {
     success_rate \<leftarrow> success_rate_for_model p model state;
     latency \<leftarrow> latency_score_for_model model state;
     first_delta \<leftarrow> first_delta_score_for_model model state;
     throughput \<leftarrow> throughput_score_for_model model state;
     reasoning \<leftarrow> model_has_any model ''supported_parameters'' [''reasoning'', ''include_reasoning''];
     image_in \<leftarrow> model_has_any model ''input_modalities'' [''image''];
     video_in \<leftarrow> model_has_any model ''input_modalities'' [''video''];
     audio_in \<leftarrow> model_has_any model ''input_modalities'' [''audio''];
     Some \<lparr>sr_latency_score = latency, sr_first_delta_score = first_delta, sr_throughput_score = throughput,
       sr_features = \<lparr>f_success = success_rate, f_speed = 1 / 2 * latency + 3 / 10 * first_delta + 2 / 10 * throughput,
         f_context = context_score_of (safe_int (dget model ''context_length'') 0),
         f_structured = flag (truthy (dget model ''supports_structured_outputs'')),
         f_tools = flag (truthy (dget model ''supports_tools'')), f_reasoning = flag reasoning,
         f_image = flag image_in, f_video = flag video_in, f_audio = flag audio_in,
         f_multimodal = flag (image_in \<or> video_in \<or> audio_in)\<rparr>\<rparr>
   }"

text \<open>\<open>float(quality.get("quality_adjustment") or 0.0)\<close>, finite or zero.\<close>

definition quality_adjustment_of :: "pydict \<Rightarrow> real" where
  "quality_adjustment_of quality =
     (case py_float (por (dget quality ''quality_adjustment'') (PReal 0)) of Some (Fin r) \<Rightarrow> r | _ \<Rightarrow> 0)"

record score_totals =
  st_score_base :: real
  st_failure_penalty :: real
  st_without_quality :: real
  st_with_quality :: real
  st_quality_routing :: bool
  st_quality_adjustment :: real
  st_total_raw :: real

definition score_totals_of :: "real \<Rightarrow> real \<Rightarrow> real \<Rightarrow> real \<Rightarrow> bool \<Rightarrow> score_totals" where
  "score_totals_of score adjustment failure_penalty quality_adjustment quality_routing =
     (let without = max 0 (score + adjustment - failure_penalty);
          withq = max 0 (without + quality_adjustment)
      in \<lparr>st_score_base = score, st_failure_penalty = failure_penalty, st_without_quality = without,
          st_with_quality = withq, st_quality_routing = quality_routing, st_quality_adjustment = quality_adjustment,
          st_total_raw = (if quality_routing then withq else without)\<rparr>)"

record score_explanation =
  ex_readings :: score_readings
  ex_parts :: adjustment_parts
  ex_totals :: score_totals
  ex_quality :: pydict

definition model_score_explanation :: "evidence_ports \<Rightarrow> string \<Rightarrow> pydict \<Rightarrow> pydict \<Rightarrow> score_explanation option" where
  "model_score_explanation p requested_model model state = do {
     let profile = strip requested_model;
     record \<leftarrow> stats_record model state;
     readings \<leftarrow> score_readings_of p model state;
     let parts = benchmark_adjustment_parts p profile model state;
     let penalty = failure_penalty_weight (PDict record) (ev_now p) * FAILURE_PENALTY_POINTS;
     let quality = quality_feedback_summary_for_model profile model state (ev_now p);
     Some \<lparr>ex_readings = readings, ex_parts = parts,
       ex_totals = score_totals_of (base_score profile (sr_features readings)) (ap_score_adjustment parts) penalty
         (quality_adjustment_of quality) (quality_feedback_routing_enabled profile state),
       ex_quality = quality\<rparr>
   }"

definition model_auto_score :: "evidence_ports \<Rightarrow> string \<Rightarrow> pydict \<Rightarrow> pydict \<Rightarrow> real option" where
  "model_auto_score p requested_model model state =
     map_option (\<lambda>ex. st_total_raw (ex_totals ex)) (model_score_explanation p requested_model model state)"

text \<open>\<open>x or None\<close> and \<open>round(x, n)\<close> of the published explanation.\<close>

definition explanation_dict :: "score_explanation \<Rightarrow> pydict" where
  "explanation_dict ex =
     (let t = ex_totals ex; r = ex_readings ex; f = sr_features r; parts = ex_parts ex; ev = ap_evidence parts; q = ex_quality ex in
      [(''score_base'', PReal (py_round 1 (st_score_base t))),
       (''score_adjustment'', PReal (py_round 1 (ap_score_adjustment parts))),
       (''score_total_raw'', PReal (st_total_raw t)),
       (''score_total'', PReal (py_round 1 (st_total_raw t))),
       (''score_total_without_quality'', PReal (st_without_quality t)),
       (''score_total_with_quality'', PReal (st_with_quality t)),
       (''quality_adjustment'', PReal (st_quality_adjustment t)),
       (''quality_sample_count'', PInt (safe_int (por (dget q ''sample_count'') (PInt 0)) 0)),
       (''quality_last_reason'', dget q ''last_reason''),
       (''quality_last_severity'', dget q ''last_severity''),
       (''quality_last_recorded_at'', dget q ''last_recorded_at''),
       (''quality_status'', por (dget q ''status'') (PStr ''none'')),
       (''quality_routing_enabled'', PBool (st_quality_routing t)),
       (''benchmark_bonus'', PReal (py_round 1 (ap_benchmark_bonus parts))),
       (''verified_bonus'', PReal (py_round 1 (ap_verified_bonus parts))),
       (''score_decay_factor'', PReal (py_round 4 (se_score_decay_factor ev))),
       (''failure_penalty'', PReal (py_round 1 (st_failure_penalty t))),
       (''success_rate'', PReal (py_round 4 (f_success f))),
       (''latency_score'', PReal (py_round 4 (sr_latency_score r))),
       (''first_delta_score'', PReal (py_round 4 (sr_first_delta_score r))),
       (''throughput_score'', PReal (py_round 4 (sr_throughput_score r))),
       (''speed_score'', PReal (py_round 4 (f_speed f))),
       (''context_score'', PReal (py_round 4 (f_context f))),
       (''evidence_status'', PStr (se_status ev)), (''evidence_reason'', opt_str (se_reason ev)),
       (''benchmark_evidence_status'', PStr (se_benchmark_status ev)),
       (''benchmark_evidence_reason'', opt_str (se_benchmark_reason ev)),
       (''verified_evidence_status'', PStr (se_verified_status ev)),
       (''verified_evidence_reason'', opt_str (se_verified_reason ev)),
       (''last_evidence_at'', opt_str (se_last_evidence_at ev))])"

section \<open>Bounds of the parts\<close>

lemma latency_score_bounds:
  "0 < ref \<Longrightarrow> 0 \<le> latency_score_of f ref \<and> latency_score_of f ref \<le> 1"
  by (auto simp: latency_score_of_def latency_score_from_seconds_def divide_le_eq intro!: divide_nonneg_nonneg
      split: pyfloat.splits)

lemma smoothed_rate_bounds:
  "0 \<le> s \<Longrightarrow> 0 \<le> f \<Longrightarrow> 0 < smoothed_rate s f \<and> smoothed_rate s f < 1"
  by (simp add: smoothed_rate_def NEUTRAL_SUCCESS_RATE_def divide_less_eq)

lemma positive_float_nonneg: "positive_float v = Some r \<Longrightarrow> 0 \<le> r"
  by (auto simp: positive_float_def split: option.splits pyfloat.splits if_splits)

text \<open>A record whose success rate is a rate: aged counters, or lifetime counters that are not negative.\<close>

definition counters_ok :: "pydict \<Rightarrow> bool" where
  "counters_ok record \<longleftrightarrow> dget record ''scored_at'' \<noteq> PNone
     \<or> 0 \<le> safe_int (dget record ''successes'') 0 \<and> 0 \<le> safe_int (dget record ''failures'') 0"

lemma success_rate_bounds:
  assumes "success_rate_of now record = Some r" "counters_ok record"
  shows "0 < r" "r < 1"
proof -
  have "0 < r \<and> r < 1"
  proof (cases "dget record ''scored_at'' = PNone")
    case True
    with assms show ?thesis by (auto simp: success_rate_of_def counters_ok_def intro!: smoothed_rate_bounds)
  next
    case False
    with assms(1) obtain t s f where
      "positive_float (dget record ''scored_successes'') = Some s" "positive_float (dget record ''scored_failures'') = Some f"
      "r = smoothed_rate (s * score_decay_factor (now - t)) (f * score_decay_factor (now - t))"
      by (auto simp: success_rate_of_def Let_def elim!: bind_SomeE)
    moreover from this(1,2) have "0 \<le> s" "0 \<le> f" by (simp_all add: positive_float_nonneg)
    ultimately show ?thesis by (simp add: smoothed_rate_bounds)
  qed
  then show "0 < r" "r < 1" by auto
qed

lemma throughput_score_bounds:
  "throughput_score_for_model model state = Some t \<Longrightarrow> 0 \<le> t \<and> t \<le> 1"
  by (auto simp: throughput_score_for_model_def positive_stat_def THROUGHPUT_REFERENCE_TOKENS_PER_SECOND_def divide_le_eq
      elim!: bind_SomeE split: option.splits pyfloat.splits if_splits)

lemma latency_score_model_bounds:
  "latency_score_for_model model state = Some t \<Longrightarrow> 0 \<le> t \<and> t \<le> 1"
  "first_delta_score_for_model model state = Some t' \<Longrightarrow> 0 \<le> t' \<and> t' \<le> 1"
  by (auto simp: latency_score_for_model_def first_delta_score_for_model_def LATENCY_REFERENCE_SECONDS_def
      FIRST_DELTA_REFERENCE_SECONDS_def latency_score_bounds elim!: bind_SomeE split: option.splits)

text \<open>Every feature is a fraction.\<close>

definition features_ok :: "score_features \<Rightarrow> bool" where
  "features_ok f \<longleftrightarrow> list_all (\<lambda>x. 0 \<le> x \<and> x \<le> 1)
     [f_success f, f_speed f, f_context f, f_structured f, f_tools f, f_reasoning f, f_image f, f_video f, f_audio f,
      f_multimodal f]"

lemma score_readings_ok:
  assumes "score_readings_of p model state = Some r" "stats_record model state = Some record" "counters_ok record"
  shows "features_ok (sr_features r)"
proof -
  from assms(1) obtain rate latency first_delta throughput fs where
    parts: "success_rate_for_model p model state = Some rate" "latency_score_for_model model state = Some latency"
      "first_delta_score_for_model model state = Some first_delta" "throughput_score_for_model model state = Some throughput"
    and r: "f_success (sr_features r) = rate" "f_speed (sr_features r) = 1 / 2 * latency + 3 / 10 * first_delta + 2 / 10 * throughput"
      "f_context (sr_features r) = context_score_of (safe_int (dget model ''context_length'') 0)"
      "\<And>g. g \<in> {f_structured, f_tools, f_reasoning, f_image, f_video, f_audio, f_multimodal} \<Longrightarrow> g (sr_features r) \<in> {0, 1}"
    unfolding score_readings_of_def by (elim bind_SomeE) (clarsimp, fastforce)
  have "0 < rate" "rate < 1"
    using parts(1) assms(2,3) success_rate_bounds by (auto simp: success_rate_for_model_def)
  moreover have "0 \<le> f_speed (sr_features r) \<and> f_speed (sr_features r) \<le> 1"
    using latency_score_model_bounds(1)[OF parts(2)] latency_score_model_bounds(2)[OF parts(3)] throughput_score_bounds[OF parts(4)]
    unfolding r by simp
  moreover have "0 \<le> f_context (sr_features r) \<and> f_context (sr_features r) \<le> 1"
    unfolding r by (simp add: context_score_of_def)
  moreover have "0 \<le> g (sr_features r) \<and> g (sr_features r) \<le> 1"
    if "g \<in> {f_structured, f_tools, f_reasoning, f_image, f_video, f_audio, f_multimodal}" for g
    using r(4)[OF that] by auto
  ultimately show ?thesis by (simp add: features_ok_def r(1))
qed

lemma base_score_bounds:
  assumes "features_ok f"
  shows "0 \<le> base_score profile f \<and> base_score profile f \<le> 100"
proof -
  from assms have "0 \<le> f_success f \<and> f_success f \<le> 1" "0 \<le> f_speed f \<and> f_speed f \<le> 1" "0 \<le> f_context f \<and> f_context f \<le> 1"
    "0 \<le> f_structured f \<and> f_structured f \<le> 1" "0 \<le> f_tools f \<and> f_tools f \<le> 1" "0 \<le> f_reasoning f \<and> f_reasoning f \<le> 1"
    "0 \<le> f_image f \<and> f_image f \<le> 1" "0 \<le> f_video f \<and> f_video f \<le> 1" "0 \<le> f_audio f \<and> f_audio f \<le> 1"
    "0 \<le> f_multimodal f \<and> f_multimodal f \<le> 1"
    by (simp_all add: features_ok_def)
  then show ?thesis by (simp add: base_score_def)
qed

section \<open>Bounds of the adjustments\<close>

lemma decay_factor_bounds: "0 \<le> stale_score_decay_factor p profile_id row \<and> stale_score_decay_factor p profile_id row \<le> 1"
  by (auto simp: stale_score_decay_factor_def Let_def split: option.splits)

lemma failed_verdict_penalty_bounds:
  "0 \<le> full \<Longrightarrow> decay \<le> 1 \<Longrightarrow> 0 \<le> failed_verdict_penalty full decay same_test \<and> failed_verdict_penalty full decay same_test \<le> full"
  by (auto simp: failed_verdict_penalty_def mult_left_le)

lemma verified_bonus_bounds: "- 24 \<le> verified_bonus_of p profile_id ev \<and> verified_bonus_of p profile_id ev \<le> 12"
proof -
  let ?d = "stale_score_decay_factor p profile_id (se_verified_raw ev)"
  note decay_factor_bounds[of p profile_id "se_verified_raw ev"]
    failed_verdict_penalty_bounds[of 24 ?d "benchmark_result_test_type_matches profile_id (se_verified_raw ev)"]
  then show ?thesis by (simp add: verified_bonus_of_def Let_def)
qed

lemma pass_bonus_bounds:
  assumes "0 \<le> decay" "decay \<le> 1"
  shows "0 \<le> benchmark_pass_bonus row decay \<and> benchmark_pass_bonus row decay \<le> 14"
proof (cases "py_float (dget row ''latency_seconds'')")
  case (Some f)
  have l: "0 \<le> latency_score_of f LATENCY_REFERENCE_SECONDS" "latency_score_of f LATENCY_REFERENCE_SECONDS \<le> 1"
    using latency_score_bounds[of LATENCY_REFERENCE_SECONDS f] by (simp_all add: LATENCY_REFERENCE_SECONDS_def)
  have "latency_score_of f LATENCY_REFERENCE_SECONDS * decay \<le> 1 * 1" using l assms by (intro mult_mono) auto
  moreover have "0 \<le> latency_score_of f LATENCY_REFERENCE_SECONDS * decay" using l(1) assms(1) by simp
  ultimately show ?thesis using Some assms by (simp add: benchmark_pass_bonus_def)
qed (use assms in \<open>simp add: benchmark_pass_bonus_def\<close>)

lemma benchmark_bonus_bounds: "- 16 \<le> benchmark_bonus_of p profile_id raw \<and> benchmark_bonus_of p profile_id raw \<le> 14"
proof -
  define d where "d = (if benchmark_result_matches_current_test p profile_id raw then 1 else stale_score_decay_factor p profile_id raw)"
  have d: "0 \<le> d" "d \<le> 1" using decay_factor_bounds[of p profile_id raw] by (auto simp: d_def)
  show ?thesis
    using pass_bonus_bounds[OF d, of raw] failed_verdict_penalty_bounds[OF _ d(2), of 16 "benchmark_result_test_type_matches profile_id raw"]
    by (auto simp: benchmark_bonus_of_def Let_def d_def[symmetric])
qed

lemma quality_adjustment_le: "quality_adjustment_of (quality_feedback_summary_for_model profile model state now) \<le> 4"
proof -
  have "quality_adjustment_of (quality_feedback_summary s k q now) \<le> 4" for s k q
    by (auto simp: quality_adjustment_of_def quality_feedback_summary_def empty_summary_def por_def adjustment_of_def Let_def
        split: option.splits)
  moreover have "quality_adjustment_of empty_summary \<le> 4"
    by (simp add: quality_adjustment_of_def empty_summary_def por_def)
  ultimately show ?thesis by (auto simp: quality_feedback_summary_for_model_def split: pv.splits)
qed

section \<open>What a score promises\<close>

lemma model_auto_score_SomeE:
  assumes "model_auto_score p requested model state = Some s"
  obtains recd readings where
    "stats_record model state = Some recd" "score_readings_of p model state = Some readings"
    "s = st_total_raw (score_totals_of (base_score (strip requested) (sr_features readings))
           (ap_score_adjustment (benchmark_adjustment_parts p (strip requested) model state))
           (failure_penalty_weight (PDict recd) (ev_now p) * FAILURE_PENALTY_POINTS)
           (quality_adjustment_of (quality_feedback_summary_for_model (strip requested) model state (ev_now p)))
           (quality_feedback_routing_enabled (strip requested) state))"
  using assms
  by (auto simp: model_auto_score_def model_score_explanation_def Let_def elim!: bind_SomeE)

lemma adjustment_upper: "ap_score_adjustment (benchmark_adjustment_parts p profile model state) \<le> 26"
proof -
  have "ap_score_adjustment (benchmark_adjustment_parts p profile model state)
      = ap_verified_bonus (benchmark_adjustment_parts p profile model state)
        + ap_benchmark_bonus (benchmark_adjustment_parts p profile model state)"
    by (simp add: benchmark_adjustment_parts_def Let_def)
  moreover have "ap_verified_bonus (benchmark_adjustment_parts p profile model state) \<le> 12"
    "ap_benchmark_bonus (benchmark_adjustment_parts p profile model state) \<le> 14"
    using verified_bonus_bounds benchmark_bonus_bounds by (simp_all add: benchmark_adjustment_parts_def Let_def)
  ultimately show ?thesis by simp
qed

lemma totals_bounds:
  assumes "b \<le> 100" "0 \<le> pen" "a \<le> 26" "q \<le> 4"
  shows "0 \<le> st_total_raw (score_totals_of b a pen q routing) \<and> st_total_raw (score_totals_of b a pen q routing) \<le> 130"
  using assms by (auto simp: score_totals_of_def Let_def max_def)

lemma text_of_Nil [simp]: "text_of [] k = []"
  by (simp add: text_of_def por_def)

text \<open>A score is bounded: on a record whose lifetime counters are not negative, it lies between 0
  and 130, the base of 100 raised by at most 26 for evidence and 4 for feedback, whatever the
  ages, the clock and the penalties.\<close>

theorem score_is_bounded:
  assumes "model_auto_score p requested model state = Some s"
    and "\<forall>record. stats_record model state = Some record \<longrightarrow> counters_ok record"
  shows "0 \<le> s \<and> s \<le> 130"
proof -
  from model_auto_score_SomeE[OF assms(1)] obtain recd readings where
    r: "stats_record model state = Some recd" "score_readings_of p model state = Some readings" and
    s: "s = st_total_raw (score_totals_of (base_score (strip requested) (sr_features readings))
           (ap_score_adjustment (benchmark_adjustment_parts p (strip requested) model state))
           (failure_penalty_weight (PDict recd) (ev_now p) * FAILURE_PENALTY_POINTS)
           (quality_adjustment_of (quality_feedback_summary_for_model (strip requested) model state (ev_now p)))
           (quality_feedback_routing_enabled (strip requested) state))" by metis
  have "base_score (strip requested) (sr_features readings) \<le> 100"
    using base_score_bounds[OF score_readings_ok[OF r(2,1)]] r(1) assms(2) by simp
  moreover have "0 \<le> failure_penalty_weight (PDict recd) (ev_now p) * FAILURE_PENALTY_POINTS"
    by (simp add: FAILURE_PENALTY_POINTS_def)
  ultimately show ?thesis
    using adjustment_upper[of p "strip requested" model state]
      quality_adjustment_le[of "strip requested" model state "ev_now p"]
    unfolding s by (intro totals_bounds)
qed

definition example_fast_model :: pydict where
  "example_fast_model = [(''id'', PStr ''m''), (''source'', PStr ''s''), (''upstream_id'', PStr ''u'')]"

lemma example_fast_score: "\<exists>s. model_auto_score example_evidence_ports ''p'' example_fast_model [] = Some s"
  by (simp add: model_auto_score_def model_score_explanation_def stats_record_def score_readings_of_def
      success_rate_for_model_def success_rate_of_def latency_score_for_model_def first_delta_score_for_model_def
      throughput_score_for_model_def positive_stat_def model_has_any_def field_values_def dget_or_def
      example_fast_model_def Let_def)

lemma score_is_bounded_witness:
  "\<exists>s. model_auto_score example_evidence_ports ''p'' example_fast_model [] = Some s \<and> 0 \<le> s \<and> s \<le> 130"
proof -
  obtain s where s: "model_auto_score example_evidence_ports ''p'' example_fast_model [] = Some s"
    using example_fast_score by blast
  have "\<forall>record. stats_record example_fast_model [] = Some record \<longrightarrow> counters_ok record"
    by (simp add: stats_record_def counters_ok_def safe_int_def)
  from score_is_bounded[OF s this] s show ?thesis by blast
qed

text \<open>An expired condemnation is not forgotten: a failed verdict about the current test costs its
  full penalty at any later time, in both sections, so waiting never promotes the model; only
  another row does.\<close>

theorem failed_verdicts_do_not_fade:
  assumes "verified = raw_verified_capability_row profile_id model state"
    and "benchmark = raw_benchmark_row profile_id model state"
  shows "(text_of verified ''status'' = ''failed'' \<and> benchmark_result_test_type_matches profile_id verified \<longrightarrow>
            ap_verified_bonus (benchmark_adjustment_parts p profile_id model state) = - 24)
       \<and> (dget benchmark ''status'' = PStr ''fail'' \<and> benchmark_result_test_type_matches profile_id benchmark \<longrightarrow>
            ap_benchmark_bonus (benchmark_adjustment_parts p profile_id model state) = - 16)"
proof -
  have tt: "benchmark_result_test_type_matches (strip profile_id) row = benchmark_result_test_type_matches profile_id row" for row
    by (simp add: benchmark_result_test_type_matches_def)
  have ne: "row \<noteq> []" if "benchmark_result_test_type_matches profile_id row" for row
    using that by (auto simp: benchmark_result_test_type_matches_def)
  show ?thesis
    using ne
    by (auto simp: benchmark_adjustment_parts_def Let_def score_evidence_for_model_def verified_bonus_of_def
        benchmark_bonus_of_def failed_verdict_penalty_def tt assms)
qed

lemma failed_verdicts_do_not_fade_witness:
  "ap_benchmark_bonus (benchmark_adjustment_parts example_evidence_ports ''ficelle/auto-json'' example_fast_model
     [(''benchmark_results'', PDict [(''s::u'', PDict [(''ficelle/auto-json'',
        PDict [(''status'', PStr ''fail''), (''test_type'', PStr ''json'')])])])]) = - 16"
proof -
  let ?state = "[(''benchmark_results'', PDict [(''s::u'', PDict [(''ficelle/auto-json'',
        PDict [(''status'', PStr ''fail''), (''test_type'', PStr ''json'')])])])]"
  have row: "raw_benchmark_row ''ficelle/auto-json'' example_fast_model ?state = [(''status'', PStr ''fail''), (''test_type'', PStr ''json'')]"
    by code_simp
  have "benchmark_result_test_type_matches ''ficelle/auto-json'' [(''status'', PStr ''fail''), (''test_type'', PStr ''json'')]"
    by code_simp
  with failed_verdicts_do_not_fade[OF refl refl, where profile_id = "''ficelle/auto-json''" and model = example_fast_model
      and state = ?state and p = example_evidence_ports]
  show ?thesis by (simp add: row)
qed

text \<open>Evidence moves the success rate the right way: one more failure always lowers it, and one more
  success raises it as soon as there is an observation to go by.\<close>

theorem rate_moves_with_evidence:
  assumes "0 \<le> s" "0 \<le> f"
  shows "smoothed_rate s (f + 1) < smoothed_rate s f
       \<and> (1 \<le> s + f \<longrightarrow> smoothed_rate s f < smoothed_rate (s + 1) f)"
proof (cases "s + f < 1")
  case True
  have "(s + 2) / (s + f + 5) < 72 / 100" using True assms by (simp add: divide_less_eq)
  with True assms show ?thesis
    by (simp add: smoothed_rate_def MIN_SCORED_OBSERVATIONS_def NEUTRAL_SUCCESS_RATE_def add.assoc)
next
  case False
  have "(s + 2) / (s + f + 5) < (s + 2) / (s + f + 4)" using assms by (intro divide_strict_left_mono) auto
  moreover have "(s + 2) / (s + f + 4) < (s + 3) / (s + f + 5)"
    using assms by (simp add: divide_less_eq less_divide_eq field_simps)
  ultimately show ?thesis
    using False assms by (simp add: smoothed_rate_def MIN_SCORED_OBSERVATIONS_def algebra_simps)
qed

lemma rate_moves_with_evidence_witness: "smoothed_rate 1 0 < smoothed_rate 2 0"
  using rate_moves_with_evidence[of 1 0] by simp

text \<open>C39. Yet a spotless model may rank below one never called: with between 1 and 22/7 aged successes
  and no failure, its rate is below the neutral rate an unknown model is given, so a model that
  only ever succeeded falls below it on its first success, and again while it idles.\<close>

theorem spotless_model_below_unknown:
  "smoothed_rate s 0 < smoothed_rate 0 0 \<longleftrightarrow> 1 \<le> s \<and> s < 22 / 7"
  by (auto simp: smoothed_rate_def MIN_SCORED_OBSERVATIONS_def NEUTRAL_SUCCESS_RATE_def divide_less_eq field_simps)

end
