(* ===== verification/Selection.thy ===== *)
theory Selection
  imports ModelScoring CatalogModel "HOL-Library.Multiset" "HOL-Library.Product_Lexorder"
begin

text \<open>
  Which models a request may be sent to, in which order, and why the others are not
  (\<open>selection.py\<close>, \<open>use_cases/model_selection.py\<close> and the functions of \<open>router.py\<close> they are
  wired to). The injected policy of the code is the record \<open>selection_policy\<close>; what its parts
  promise is the locale \<open>selection_contract\<close>, and \<open>router_policy\<close> is the policy the router
  builds, on which the locale is interpreted. \<open>None\<close> is an exception. Ports stand for the
  coding certifications and for the normalised profiles of the configuration. A row is the
  value it holds: the typed row of a candidate is the one paired with an equal raw row.
\<close>

section \<open>Lists under a computation that may raise\<close>

fun filter_opt :: "('a \<Rightarrow> bool option) \<Rightarrow> 'a list \<Rightarrow> 'a list option" where
  "filter_opt P [] = Some []"
| "filter_opt P (x # xs) = do { b \<leftarrow> P x; ys \<leftarrow> filter_opt P xs; Some (if b then x # ys else ys) }"

text \<open>\<open>sorted(xs, key=f)\<close>: the keys are computed first, the sort is stable.\<close>

definition sort_opt :: "('a \<Rightarrow> ('k::linorder) option) \<Rightarrow> 'a list \<Rightarrow> 'a list option" where
  "sort_opt f xs = map_option (\<lambda>ks. map snd (sort_key fst (zip ks xs))) (those (map f xs))"

section \<open>The ports and the policy\<close>

record selection_policy =
  pol_on_cooldown :: "pydict \<Rightarrow> pydict \<Rightarrow> string option option"
  pol_quarantined :: "pydict \<Rightarrow> pydict \<Rightarrow> bool option"
  pol_profiles :: "pydict \<Rightarrow> pydict odict"
  pol_matches :: "pydict \<Rightarrow> pydict \<Rightarrow> bool option"
  pol_manual :: "string \<Rightarrow> pydict list \<Rightarrow> pydict \<Rightarrow> pydict \<Rightarrow> pydict list option"
  pol_sort :: "string \<Rightarrow> pydict list \<Rightarrow> pydict \<Rightarrow> pydict list option"
  pol_route_gate :: "string \<Rightarrow> pydict list \<Rightarrow> pydict \<Rightarrow> (pydict list \<times> bool) option"
  pol_benchmark_gate :: "(string \<Rightarrow> pydict list \<Rightarrow> pydict \<Rightarrow> (pydict list \<times> bool) option) option"
  pol_stale :: "(pydict \<Rightarrow> pydict \<Rightarrow> pydict \<Rightarrow> string option) option"
  pol_exclusion :: "string \<Rightarrow> string"
  pol_virtual_models :: "string list"

record selection_ports =
  sp_ports :: ports
  sp_evidence :: evidence_ports
  sp_profiles :: "pydict \<Rightarrow> pydict odict"
  sp_certification :: "pydict \<Rightarrow> pydict option"

definition CODING_PROFILE_ID :: string where "CODING_PROFILE_ID = ''ficelle/auto-coding''"

definition VIRTUAL_MODELS :: "string list" where
  "VIRTUAL_MODELS = map (\<lambda>slug. ''ficelle/'' @ slug)
     [''auto-orchestrator'', ''auto-tools'', ''auto-json'', ''auto-compression'', ''auto-long'', ''auto-fast'',
      ''auto-reasoning'', ''auto-multimodal'', ''auto-vision'', ''auto-video'', ''auto-audio'', ''auto-coding'']"

definition DEFAULT_CATALOG_STALE_GRACE_SECONDS :: int where "DEFAULT_CATALOG_STALE_GRACE_SECONDS = 1800"
definition DEFAULT_MIN_CONTEXT :: int where "DEFAULT_MIN_CONTEXT = 64000"

section \<open>Catalog rows\<close>

text \<open>\<open>catalog.get("models", [])\<close>: a value that cannot be iterated raises.\<close>

definition typed_catalog_rows :: "pydict \<Rightarrow> (catalog_model \<times> pydict) list option" where
  "typed_catalog_rows catalog =
     map_option (List.map_filter (\<lambda>raw. map_option (\<lambda>m. (m, as_dict raw)) (from_raw raw)))
       (iter_items (dget_or catalog ''models'' (PList [])))"

definition stale_catalog_block_reason :: "real \<Rightarrow> pydict \<Rightarrow> pydict \<Rightarrow> pydict \<Rightarrow> string option" where
  "stale_catalog_block_reason now model config state =
     (let marked = (if truthy (dget model ''catalog_stale'') then dget model ''stale_since'' else PNone);
          stale_since = (if marked = PNone then dget (section_of state ''catalog_refresh'') ''catalog_stale_since'' else marked);
          grace = safe_int (dget config ''catalog_stale_grace_seconds'') DEFAULT_CATALOG_STALE_GRACE_SECONDS
      in if stale_since = PNone then None
         else (case parse_iso_timestamp stale_since of
                 None \<Rightarrow> Some ''stale_catalog''
               | Some stale_epoch \<Rightarrow> if of_int grace < now - stale_epoch then Some ''stale_catalog'' else None))"

section \<open>Ranking\<close>

definition rank_key :: "selection_ports \<Rightarrow> string \<Rightarrow> pydict \<Rightarrow> pydict \<Rightarrow> (real \<times> real \<times> int \<times> real \<times> string) option" where
  "rank_key p requested_model state model =
     map_option (\<lambda>score.
       (- score,
        failure_penalty_weight (dget (section_of state ''stats'') (cooldown_key model)) (now_seconds (sp_ports p)),
        - safe_int (dget model ''context_length'') 0,
        safe_float (dget model ''burn_weight'') 1,
        text_of model ''id'')) (model_auto_score (sp_evidence p) requested_model model state)"

definition sort_available_policy :: "selection_ports \<Rightarrow> string \<Rightarrow> pydict list \<Rightarrow> pydict \<Rightarrow> pydict list option" where
  "sort_available_policy p requested_model available state = sort_opt (rank_key p requested_model state) available"

definition coding_rank_key :: "selection_ports \<Rightarrow> pydict \<Rightarrow> pydict \<Rightarrow> (nat \<times> real \<times> real \<times> string) option" where
  "coding_rank_key p state model =
     (let certification = (case sp_certification p model of None \<Rightarrow> [] | Some c \<Rightarrow> c) in
      map_option (\<lambda>score.
        (if dget certification ''tier'' = PStr ''verified'' then 0 else 1,
         - safe_float (dget certification ''quality_score'') 0, - score, text_of model ''id''))
        (model_auto_score (sp_evidence p) ''ficelle/auto-tools'' model state))"

definition sort_available_for_virtual_model :: "selection_ports \<Rightarrow> string \<Rightarrow> pydict list \<Rightarrow> pydict \<Rightarrow> pydict list option" where
  "sort_available_for_virtual_model p requested_model available state =
     (if strip requested_model = CODING_PROFILE_ID then sort_opt (coding_rank_key p state) available
      else sort_available_policy p requested_model available state)"

text \<open>The rows an operator ordered, each once, in that order; then the others, ranked.\<close>

definition raw_id :: "pydict \<Rightarrow> string" where
  "raw_id model = py_str (dget model ''id'')"

fun pick_ordered :: "(string \<times> pydict) list \<Rightarrow> pv list \<Rightarrow> string list \<Rightarrow> pydict list" where
  "pick_ordered by_id [] seen = []"
| "pick_ordered by_id (model_id # ids) seen =
     (case map_of by_id (py_str model_id) of
        None \<Rightarrow> pick_ordered by_id ids seen
      | Some model \<Rightarrow>
          if raw_id model \<in> set seen then pick_ordered by_id ids seen
          else model # pick_ordered by_id ids (raw_id model # seen))"

definition manual_order_candidates ::
  "(string \<Rightarrow> pydict list \<Rightarrow> pydict \<Rightarrow> pydict list option) \<Rightarrow>
   string \<Rightarrow> pydict list \<Rightarrow> pydict \<Rightarrow> pydict \<Rightarrow> pydict list option" where
  "manual_order_candidates sort_available requested_model eligible state profile = do {
     let by_id = rev (map (\<lambda>model. (raw_id model, model)) eligible);
     ids \<leftarrow> iter_items (por (dget profile ''models'') (PList []));
     let selected = pick_ordered by_id ids [];
     if truthy (dget_or profile ''auto_tail'' (PBool True)) then do {
       tail \<leftarrow> sort_available requested_model (filter (\<lambda>model. raw_id model \<notin> set (map raw_id selected)) eligible) state;
       Some (selected @ tail)
     }
     else Some selected
   }"

definition policy_profile_id_of :: "pydict \<Rightarrow> string \<Rightarrow> string" where
  "policy_profile_id_of profile canonical =
     (let base_profile = strip (text_of profile ''base_profile'') in if base_profile \<noteq> [] then base_profile else canonical)"

definition candidates_for_profile ::
  "selection_policy \<Rightarrow> string \<Rightarrow> pydict list \<Rightarrow> pydict \<Rightarrow> pydict \<Rightarrow> pydict list option" where
  "candidates_for_profile pol profile_id available state profile = do {
     let policy_profile_id = policy_profile_id_of profile (strip profile_id);
     eligible \<leftarrow> filter_opt (\<lambda>model. pol_matches pol model profile) available;
     if dget profile ''mode'' = PStr ''manual_order'' then pol_manual pol policy_profile_id eligible state profile
     else pol_sort pol policy_profile_id eligible state
   }"

section \<open>Screening the rows\<close>

definition cooldown_exclusion :: "string \<Rightarrow> string" where
  "cooldown_exclusion reason =
     (if cooldown_block_scope reason = ''provider'' then ''provider_cooldown''
      else if cooldown_block_scope reason = ''quota'' then ''quota_cooldown''
      else ''cooldown'')"

text \<open>Why an invokable row cannot be used now: a stale row, a block, a quarantine, in that order.\<close>

definition stale_reason_of :: "selection_policy \<Rightarrow> pydict \<Rightarrow> pydict \<Rightarrow> pydict \<Rightarrow> string" where
  "stale_reason_of pol config state row =
     (case pol_stale pol of
        None \<Rightarrow> []
      | Some stale \<Rightarrow> (case stale row config state of None \<Rightarrow> [] | Some reason \<Rightarrow> reason))"

definition row_block :: "selection_policy \<Rightarrow> pydict \<Rightarrow> pydict \<Rightarrow> pydict \<Rightarrow> string option option" where
  "row_block pol config state row =
     (if stale_reason_of pol config state row \<noteq> [] then Some (Some (stale_reason_of pol config state row))
      else do {
        cooldown \<leftarrow> pol_on_cooldown pol row state;
        case cooldown of
          Some reason \<Rightarrow> Some (Some (cooldown_exclusion reason))
        | None \<Rightarrow> do {
            quarantined \<leftarrow> pol_quarantined pol row state;
            Some (if quarantined then Some ''quarantined'' else None)
          }
      })"

definition put_reason :: "string \<Rightarrow> string \<Rightarrow> string odict \<Rightarrow> string odict" where
  "put_reason model_id reason excluded = (if model_id = [] then excluded else dset model_id reason excluded)"

fun screen_rows ::
  "selection_policy \<Rightarrow> pydict \<Rightarrow> pydict \<Rightarrow> pydict list \<Rightarrow> string odict \<Rightarrow> (pydict list \<times> string odict) option" where
  "screen_rows pol config state [] excluded = Some ([], excluded)"
| "screen_rows pol config state (row # rows) excluded = do {
     block \<leftarrow> row_block pol config state row;
     case block of
       Some reason \<Rightarrow> screen_rows pol config state rows (put_reason (text_of row ''id'') reason excluded)
     | None \<Rightarrow> do {
         (available, excluded') \<leftarrow> screen_rows pol config state rows excluded;
         Some (row # available, excluded')
       }
   }"

text \<open>\<open>for model_id in before - {kept ids}: if model_id: excluded_reasons[model_id] = reason\<close>.\<close>

definition exclude_dropped :: "string \<Rightarrow> pydict list \<Rightarrow> pydict list \<Rightarrow> string odict \<Rightarrow> string odict" where
  "exclude_dropped reason before kept excluded =
     fold (\<lambda>model_id. put_reason model_id reason)
       (filter (\<lambda>model_id. model_id \<notin> set (map (\<lambda>m. text_of m ''id'') kept)) (map (\<lambda>m. text_of m ''id'') before))
       excluded"

definition not_invokable_reasons :: "(catalog_model \<times> pydict) list \<Rightarrow> string odict" where
  "not_invokable_reasons typed_rows =
     fold (\<lambda>(model, raw). if truthy (dget raw ''invokable'') then id else put_reason (cm_id model) ''not_invokable'')
       typed_rows []"

section \<open>Candidates\<close>

fun hashable :: "pv \<Rightarrow> bool" where
  "hashable (PList _) = False"
| "hashable (PDict _) = False"
| "hashable _ = True"

text \<open>A model asked for by its own id: the first available row with that id or upstream id. Building
  the set of the two raises when one of them cannot be hashed.\<close>

fun direct_candidates :: "string \<Rightarrow> pydict list \<Rightarrow> pydict list option" where
  "direct_candidates requested_model [] = Some []"
| "direct_candidates requested_model (model # models) =
     (if \<not> hashable (dget model ''id'') \<or> \<not> hashable (dget model ''upstream_id'') then None
      else if PStr requested_model \<in> {dget model ''id'', dget model ''upstream_id''} then Some [model]
      else direct_candidates requested_model models)"

definition requested_profile :: "pydict odict \<Rightarrow> string \<Rightarrow> pydict" where
  "requested_profile profiles requested_model =
     (case map_of profiles requested_model of
        Some (x # xs) \<Rightarrow> x # xs
      | _ \<Rightarrow> (case map_of profiles (strip requested_model) of None \<Rightarrow> [] | Some profile \<Rightarrow> profile))"

definition selection_profile_id :: "pydict \<Rightarrow> string \<Rightarrow> string" where
  "selection_profile_id profile requested_model =
     (if truthy (dget profile ''base_profile'') then strip (text_of profile ''base_profile'') else strip requested_model)"

text \<open>The pool of the request, in order, before the competence gate, with the reasons known by then.\<close>

definition pool_of ::
  "selection_policy \<Rightarrow> string \<Rightarrow> pydict odict \<Rightarrow> pydict list \<Rightarrow> pydict \<Rightarrow> string odict
   \<Rightarrow> (pydict list \<times> string odict) option" where
  "pool_of pol requested_model profiles available state excluded =
     (let canonical = strip requested_model;
          profile = requested_profile profiles requested_model;
          policy_profile_id = selection_profile_id profile requested_model
      in if profile \<noteq> [] then do {
           eligible \<leftarrow> filter_opt (\<lambda>model. pol_matches pol model profile) available;
           candidates \<leftarrow> (if dget profile ''mode'' = PStr ''manual_order''
                          then pol_manual pol policy_profile_id eligible state profile
                          else pol_sort pol policy_profile_id eligible state);
           Some (candidates, exclude_dropped ''profile_requirements'' available eligible excluded)
         }
         else if canonical \<in> set (pol_virtual_models pol) \<or> requested_model \<in> set (pol_virtual_models pol)
                 \<or> dhas requested_model profiles
         then map_option (\<lambda>candidates. (candidates, excluded)) (pol_sort pol canonical available state)
         else map_option (\<lambda>candidates. (candidates, excluded)) (direct_candidates requested_model available))"

text \<open>A route takes the route gate; another purpose takes the benchmark gate when there is one.\<close>

definition gated ::
  "selection_policy \<Rightarrow> string \<Rightarrow> string \<Rightarrow> pydict list \<Rightarrow> pydict \<Rightarrow> (pydict list \<times> bool) option" where
  "gated pol purpose policy_profile_id candidates state =
     (if purpose = ''route'' then pol_route_gate pol policy_profile_id candidates state
      else (case pol_benchmark_gate pol of
              None \<Rightarrow> Some (candidates, False)
            | Some gate \<Rightarrow> map_option (\<lambda>(kept, _). (kept, False)) (gate policy_profile_id candidates state)))"

record selection_result =
  sel_requested_model :: string
  sel_canonical_model :: string
  sel_purpose :: string
  sel_candidates :: "catalog_model list"
  sel_excluded_reasons :: "string odict"
  sel_anti_empty_fallback :: bool

definition typed_candidate :: "(catalog_model \<times> pydict) list \<Rightarrow> pydict \<Rightarrow> catalog_model option" where
  "typed_candidate typed_rows raw =
     (case map_of (rev (map (\<lambda>(model, row). (row, model)) typed_rows)) raw of
        Some model \<Rightarrow> Some model
      | None \<Rightarrow> from_raw (PDict raw))"

definition select_models_result_from_typed_rows ::
  "string \<Rightarrow> (catalog_model \<times> pydict) list \<Rightarrow> pydict \<Rightarrow> pydict \<Rightarrow> selection_policy \<Rightarrow> string
   \<Rightarrow> selection_result option" where
  "select_models_result_from_typed_rows requested_model typed_rows config state pol purpose = do {
     let invokable_rows = filter (\<lambda>raw. truthy (dget raw ''invokable'')) (map snd typed_rows);
     (available, excluded) \<leftarrow> screen_rows pol config state invokable_rows (not_invokable_reasons typed_rows);
     let profiles = pol_profiles pol config;
     let policy_profile_id = selection_profile_id (requested_profile profiles requested_model) requested_model;
     (pool, excluded') \<leftarrow> pool_of pol requested_model profiles available state excluded;
     (candidates, fallback) \<leftarrow> gated pol purpose policy_profile_id pool state;
     Some \<lparr>sel_requested_model = requested_model,
           sel_canonical_model = strip requested_model,
           sel_purpose = purpose,
           sel_candidates = List.map_filter (typed_candidate typed_rows) candidates,
           sel_excluded_reasons = exclude_dropped (pol_exclusion pol policy_profile_id) pool candidates excluded',
           sel_anti_empty_fallback = fallback\<rparr>
   }"

section \<open>The policy of the router\<close>

definition route_competence_gate_result ::
  "selection_ports \<Rightarrow> string \<Rightarrow> pydict list \<Rightarrow> pydict \<Rightarrow> (pydict list \<times> bool) option" where
  "route_competence_gate_result p profile_id candidates state =
     (let canonical = strip profile_id; ep = sp_evidence p in
      if canonical = CODING_PROFILE_ID
      then Some (filter (\<lambda>m. sp_certification p m \<noteq> None \<and> \<not> model_failed_profile_evidence ep canonical m state) candidates,
                 False)
      else if canonical = ''ficelle/auto-multimodal'' \<and> list_ex (\<lambda>m. multimodal_route_eligible ep m state = None) candidates
      then None
      else Some (competence_gate_result canonical candidates
                   (\<lambda>q. q = ''ficelle/auto-multimodal'') is_specialized_profile
                   (\<lambda>m. multimodal_route_eligible ep m state = Some True)
                   (\<lambda>m. route_eligible_for_profile ep canonical m state)))"

definition benchmark_competence_gate_result ::
  "selection_ports \<Rightarrow> string \<Rightarrow> pydict list \<Rightarrow> pydict \<Rightarrow> (pydict list \<times> bool) option" where
  "benchmark_competence_gate_result p profile_id candidates state =
     Some (if strip profile_id \<noteq> CODING_PROFILE_ID then candidates
           else filter (\<lambda>m. sp_certification p m \<noteq> None) candidates, False)"

definition competence_exclusion_reason :: "string \<Rightarrow> string" where
  "competence_exclusion_reason profile =
     (if strip profile = CODING_PROFILE_ID then ''coding_certification'' else ''competence_gate'')"

definition router_policy :: "selection_ports \<Rightarrow> selection_policy" where
  "router_policy p =
     \<lparr>pol_on_cooldown = model_on_cooldown (sp_ports p),
      pol_quarantined = model_is_quarantined,
      pol_profiles = sp_profiles p,
      pol_matches = (\<lambda>model profile. model_matches_profile_requirements model profile DEFAULT_MIN_CONTEXT
        (\<lambda>row. truthy (dget (normalized_free_access (sp_ports p) row) ''eligible''))),
      pol_manual = manual_order_candidates (sort_available_for_virtual_model p),
      pol_sort = sort_available_for_virtual_model p,
      pol_route_gate = route_competence_gate_result p,
      pol_benchmark_gate = Some (benchmark_competence_gate_result p),
      pol_stale = Some (stale_catalog_block_reason (now_seconds (sp_ports p))),
      pol_exclusion = competence_exclusion_reason,
      pol_virtual_models = VIRTUAL_MODELS\<rparr>"

section \<open>The runner\<close>

text \<open>
  The request first gives due quota probes a chance to reopen a model: the first of them runs
  before the selection, so the state the selection reads is the one the probes left; the
  others go to the background. \<open>rn_policy\<close> is the policy under the configuration whose
  verdict lifetime and reference flag have been applied; the state is the store's.
\<close>

record runner_ports =
  rn_policy :: "pydict \<Rightarrow> selection_policy"
  rn_due_probe_keys :: "string \<Rightarrow> pydict list \<Rightarrow> pydict \<Rightarrow> pydict \<Rightarrow> string list"
  rn_run_probes :: "pydict \<Rightarrow> pydict \<Rightarrow> string list \<Rightarrow> pydict \<Rightarrow> pydict"

definition select_models_result_from_state ::
  "runner_ports \<Rightarrow> string \<Rightarrow> pydict \<Rightarrow> pydict \<Rightarrow> pydict \<Rightarrow> string \<Rightarrow> selection_result option" where
  "select_models_result_from_state rn requested_model catalog config state purpose = do {
     typed_rows \<leftarrow> typed_catalog_rows catalog;
     select_models_result_from_typed_rows requested_model typed_rows config
       (quality_feedback_scoring_state state config strip) (rn_policy rn config) purpose
   }"

definition inline_limit :: "pydict \<Rightarrow> nat" where
  "inline_limit config = nat (max 0 (safe_int (dget config ''quota_inline_probe_limit'') 1))"

text \<open>The result, the state after the inline probes and the keys left to the background.\<close>

definition select_models_result ::
  "runner_ports \<Rightarrow> string \<Rightarrow> pydict \<Rightarrow> pydict \<Rightarrow> pydict \<Rightarrow> string
   \<Rightarrow> (selection_result \<times> pydict \<times> string list) option" where
  "select_models_result rn requested_model catalog config state purpose = do {
     typed_rows \<leftarrow> typed_catalog_rows catalog;
     let models = filter (\<lambda>raw. truthy (dget raw ''invokable'')) (map snd typed_rows);
     let due = rn_due_probe_keys rn requested_model models config state;
     let state' = (if due \<noteq> [] \<and> inline_limit config \<noteq> 0
                   then rn_run_probes rn config catalog (take (inline_limit config) due) state else state);
     result \<leftarrow> select_models_result_from_state rn requested_model catalog config state' purpose;
     Some (result, state', drop (inline_limit config) due)
   }"

section \<open>Lists under a computation that may raise, as lists\<close>

lemma filter_opt_eq:
  "filter_opt P xs = Some ys \<longleftrightarrow> (\<forall>x \<in> set xs. P x \<noteq> None) \<and> ys = filter (\<lambda>x. P x = Some True) xs"
proof (induction xs arbitrary: ys)
  case (Cons x xs)
  have "filter_opt P (x # xs) = Some ys \<longleftrightarrow>
      (\<exists>b zs. P x = Some b \<and> filter_opt P xs = Some zs \<and> (if b then x # zs else zs) = ys)"
    by (simp add: bind_eq_Some)
  also have "\<dots> \<longleftrightarrow> (\<forall>y \<in> set (x # xs). P y \<noteq> None) \<and> ys = filter (\<lambda>y. P y = Some True) (x # xs)"
    unfolding Cons.IH by (cases "P x") auto
  finally show ?case .
qed auto

lemma those_Some: "those xs = Some ys \<longleftrightarrow> xs = map Some ys"
proof (induction xs arbitrary: ys)
  case (Cons x xs)
  then show ?case by (cases x; cases ys) auto
qed auto

lemma sort_optE:
  assumes "sort_opt f xs = Some ys"
  obtains ps where "ys = map snd ps" "sorted (map fst ps)" "\<forall>(k, x) \<in> set ps. f x = Some k"
    "mset ys = mset xs" "stable_sort_key sort_key" "map f ys = map (Some \<circ> fst) ps"
proof -
  from assms obtain ks where ks: "map f xs = map Some ks" and ys: "ys = map snd (sort_key fst (zip ks xs))"
    by (auto simp: sort_opt_def those_Some)
  let ?ps = "sort_key fst (zip ks xs)"
  have len: "length ks = length xs" using ks by (metis length_map)
  have keys: "\<forall>(k, x) \<in> set (zip ks xs). f x = Some k"
  proof (clarsimp simp: set_zip)
    fix i assume "i < length ks" "i < length xs"
    then show "f (xs ! i) = Some (ks ! i)" using ks by (metis nth_map)
  qed
  have "mset ys = mset (map snd (zip ks xs))"
    by (simp only: ys mset_map mset_sort)
  with len have "mset ys = mset xs" by simp
  moreover
  have "map f ys = map (Some \<circ> fst) ?ps"
    using keys by (auto simp: ys)
  moreover have "sorted (map fst ?ps)" by (rule sorted_sort_key)
  moreover have "stable_sort_key sort_key" by (rule stable_sort_key_sort_key)
  ultimately show thesis using that[of ?ps] keys ys by simp
qed

lemma sort_opt_perm: "sort_opt f xs = Some ys \<Longrightarrow> mset ys = mset xs"
  by (erule sort_optE) simp

lemma sort_opt_sorted: "sort_opt f xs = Some ys \<Longrightarrow> \<exists>ks. map f ys = map Some ks \<and> sorted ks"
proof (erule sort_optE)
  fix ps
  assume "map f ys = map (Some \<circ> fst) ps" "sorted (map fst ps)"
  then show ?thesis by (intro exI[of _ "map fst ps"]) simp
qed

text \<open>Two pools of the same rows are ranked the same when no two rows share a key.\<close>

lemma sort_opt_unique:
  assumes "sort_opt f xs = Some ys" "sort_opt f xs' = Some ys'" "mset xs = mset xs'"
    and keys: "\<And>x y k. x \<in> set xs \<Longrightarrow> y \<in> set xs \<Longrightarrow> f x = Some k \<Longrightarrow> f y = Some k \<Longrightarrow> x = y"
  shows "ys = ys'"
proof -
  obtain ks where ks: "map f ys = map Some ks" "sorted ks" using sort_opt_sorted[OF assms(1)] by auto
  obtain ks' where ks': "map f ys' = map Some ks'" "sorted ks'" using sort_opt_sorted[OF assms(2)] by auto
  have m: "mset ys = mset ys'" using sort_opt_perm[OF assms(1)] sort_opt_perm[OF assms(2)] assms(3) by simp
  have "image_mset Some (mset ks) = image_mset Some (mset ks')"
    using ks(1) ks'(1) m by (metis mset_map)
  then have "mset ks = mset ks'" by (auto dest: arg_cong[where f = "image_mset the"] simp: multiset.map_comp comp_def)
  then have "ks = ks'" using ks(2) ks'(2) by (metis properties_for_sort sort_key_id_if_sorted)
  then have "map f ys = map f ys'" using ks(1) ks'(1) by simp
  moreover have "set ys = set xs" "set ys' = set xs"
    using sort_opt_perm[OF assms(1)] m by (metis set_mset_mset)+
  moreover have "inj_on f (set xs)"
  proof (rule inj_onI)
    fix x y assume xy: "x \<in> set xs" "y \<in> set xs" "f x = f y"
    then have "f x \<in> set (map f ys)" using \<open>set ys = set xs\<close> by simp
    then obtain k where "f x = Some k" unfolding ks(1) by auto
    with xy show "x = y" by (intro keys[of x y k]) simp_all
  qed
  ultimately show ?thesis using inj_on_map_eq_map[of f ys ys'] by simp
qed

section \<open>Screening\<close>

lemma dhas_put_reason: "dhas k (put_reason i r d) \<longleftrightarrow> dhas k d \<or> k = i \<and> i \<noteq> []"
  by (auto simp: put_reason_def dhas_def)

lemma dhas_exclude_dropped:
  "dhas k (exclude_dropped reason before kept d) \<longleftrightarrow>
     dhas k d \<or> k \<noteq> [] \<and> k \<in> (\<lambda>m. text_of m ''id'') ` set before \<and> k \<notin> (\<lambda>m. text_of m ''id'') ` set kept"
proof -
  have fold: "dhas k (fold (\<lambda>i. put_reason i reason) ids d) \<longleftrightarrow> dhas k d \<or> k \<noteq> [] \<and> k \<in> set ids" for ids
    by (induction ids arbitrary: d) (auto simp: dhas_put_reason)
  show ?thesis by (auto simp: exclude_dropped_def fold)
qed

lemma screen_rows_spec:
  assumes "screen_rows pol config state rows excluded = Some (available, excluded')"
  shows "available = filter (\<lambda>row. row_block pol config state row = Some None) rows"
    and "\<forall>row \<in> set rows. row \<notin> set available \<longrightarrow> text_of row ''id'' \<noteq> [] \<longrightarrow> dhas (text_of row ''id'') excluded'"
    and "\<forall>k. dhas k excluded \<longrightarrow> dhas k excluded'"
  using assms
proof (induction rows arbitrary: excluded available excluded')
  case (Cons row rows)
  { case 1 with Cons.IH(1) show ?case by (auto elim!: bind_SomeE split: option.splits) }
  { case 2
    then obtain block where b: "row_block pol config state row = Some block" by (auto elim!: bind_SomeE)
    show ?case
    proof (cases block)
      case None
      with 2 b obtain av where av: "screen_rows pol config state rows excluded = Some (av, excluded')" "available = row # av"
        by (auto elim!: bind_SomeE)
      with Cons.IH(2)[OF av(1)] show ?thesis by auto
    next
      case (Some reason)
      with 2 b have s: "screen_rows pol config state rows (put_reason (text_of row ''id'') reason excluded) = Some (available, excluded')"
        by (auto elim!: bind_SomeE)
      from Cons.IH(3)[OF s] Cons.IH(2)[OF s]
      show ?thesis by (auto simp: dhas_put_reason)
    qed }
  { case 3
    then show ?case using Cons.IH(3)
      by (auto elim!: bind_SomeE split: option.splits simp: dhas_put_reason) }
qed auto


section \<open>The contract of a policy\<close>

text \<open>A policy orders and narrows: a ranking is a permutation, nothing it returns was not in the pool.\<close>

locale selection_contract =
  fixes pol :: selection_policy
  assumes sort_perm: "pol_sort pol q xs st = Some ys \<Longrightarrow> mset ys = mset xs"
    and manual_sub: "pol_manual pol q xs st profile = Some ys \<Longrightarrow> set ys \<subseteq> set xs"
    and route_gate_sub: "pol_route_gate pol q xs st = Some (ys, b) \<Longrightarrow> set ys \<subseteq> set xs"
    and benchmark_gate_sub: "pol_benchmark_gate pol = Some g \<Longrightarrow> g q xs st = Some (ys, b) \<Longrightarrow> set ys \<subseteq> set xs"
begin

lemma sort_set: "pol_sort pol q xs st = Some ys \<Longrightarrow> set ys = set xs"
  by (metis sort_perm set_mset_mset)

lemma gated_sub: "gated pol purpose q xs st = Some (ys, b) \<Longrightarrow> set ys \<subseteq> set xs"
  by (auto simp: gated_def split: if_splits option.splits dest!: route_gate_sub benchmark_gate_sub)

lemma direct_sub: "direct_candidates q xs = Some ys \<Longrightarrow> set ys \<subseteq> set xs"
  by (induction q xs rule: direct_candidates.induct) (auto split: if_splits)

lemma pool_sub:
  assumes "pool_of pol requested profiles available st excluded = Some (pool, excluded')" "m \<in> set pool"
  shows "m \<in> set available"
    and "requested_profile profiles requested \<noteq> [] \<Longrightarrow>
         pol_matches pol m (requested_profile profiles requested) = Some True"
  using assms
  by (auto simp: pool_of_def Let_def filter_opt_eq split: if_splits elim!: bind_SomeE
      dest!: sort_set manual_sub direct_sub) (auto dest: subsetD)

text \<open>What an automatic request leaves out, at the profile or at the gate, has a reason.\<close>

lemma left_out_has_reason:
  assumes pool: "pool_of pol requested profiles available st excluded = Some (pool, excluded')"
    and auto: "if requested_profile profiles requested \<noteq> []
               then dget (requested_profile profiles requested) ''mode'' \<noteq> PStr ''manual_order''
               else strip requested \<in> set (pol_virtual_models pol)"
    and m: "m \<in> set available" "text_of m ''id'' \<noteq> []"
    and unused: "text_of m ''id'' \<notin> (\<lambda>c. text_of c ''id'') ` set kept"
  shows "dhas (text_of m ''id'') (exclude_dropped reason pool kept excluded')"
  using assms
  by (auto simp: pool_of_def Let_def filter_opt_eq dhas_exclude_dropped split: if_splits elim!: bind_SomeE
      dest!: sort_set)

lemma pool_keeps_reasons:
  "pool_of pol requested profiles available st excluded = Some (pool, excluded') \<Longrightarrow> dhas k excluded \<Longrightarrow> dhas k excluded'"
  by (auto simp: pool_of_def Let_def dhas_exclude_dropped split: if_splits elim!: bind_SomeE)

end

section \<open>The router's policy keeps the contract\<close>

lemma sort_available_perm:
  "sort_available_for_virtual_model p q xs st = Some ys \<Longrightarrow> mset ys = mset xs"
  by (auto simp: sort_available_for_virtual_model_def sort_available_policy_def split: if_splits dest: sort_opt_perm)

lemma pick_ordered_mem:
  "m \<in> set (pick_ordered by_id ids seen) \<Longrightarrow> \<exists>i. map_of by_id i = Some m"
  by (induction by_id ids seen rule: pick_ordered.induct) (auto split: option.splits if_splits)

lemma pick_ordered_sub:
  "set (pick_ordered (rev (map (\<lambda>m. (raw_id m, m)) xs)) ids seen) \<subseteq> set xs"
  by (auto dest!: pick_ordered_mem map_of_SomeD)

lemma manual_order_sub:
  assumes "\<And>q xs st ys. srt q xs st = Some ys \<Longrightarrow> mset ys = mset (xs :: pydict list)"
    and "manual_order_candidates srt q xs st profile = Some ys"
  shows "set ys \<subseteq> set xs"
proof -
  have srt: "srt q xs st = Some ys \<Longrightarrow> set ys = set xs" for q xs st ys
    by (metis assms(1) set_mset_mset)
  from assms(2) show ?thesis
    using pick_ordered_sub[of xs]
    by (fastforce simp: manual_order_candidates_def Let_def split: if_splits elim!: bind_SomeE dest!: srt)
qed

interpretation router: selection_contract "router_policy p" for p
proof
  fix q xs st ys b profile g
  show "pol_sort (router_policy p) q xs st = Some ys \<Longrightarrow> mset ys = mset xs"
    by (auto simp: router_policy_def dest: sort_available_perm)
  show "pol_manual (router_policy p) q xs st profile = Some ys \<Longrightarrow> set ys \<subseteq> set xs"
    by (simp add: router_policy_def) (rule manual_order_sub[OF sort_available_perm])
  show "pol_route_gate (router_policy p) q xs st = Some (ys, b) \<Longrightarrow> set ys \<subseteq> set xs"
    by (auto simp: router_policy_def route_competence_gate_result_def competence_gate_result_def Let_def
        split: if_splits option.splits)
  show "pol_benchmark_gate (router_policy p) = Some g \<Longrightarrow> g q xs st = Some (ys, b) \<Longrightarrow> set ys \<subseteq> set xs"
    by (auto simp: router_policy_def benchmark_competence_gate_result_def split: if_splits)
qed


section \<open>The candidates of a request\<close>

lemma typed_catalog_rowsD:
  assumes "typed_catalog_rows catalog = Some typed_rows" "(model, raw) \<in> set typed_rows"
  shows "from_raw (PDict raw) = Some model"
proof -
  from assms obtain v where "from_raw v = Some model" "raw = as_dict v"
    by (auto simp: typed_catalog_rows_def List.map_filter_def split: option.splits)
  then show ?thesis by (cases v) (auto simp: from_raw_def)
qed

lemma typed_candidate_row:
  assumes "\<forall>(model, raw) \<in> set typed_rows. from_raw (PDict raw) = Some model"
  shows "typed_candidate typed_rows raw = from_raw (PDict raw)"
  using assms by (fastforce simp: typed_candidate_def dest!: map_of_SomeD split: option.splits)

lemma from_raw_cm_raw: "from_raw (PDict raw) = Some m \<Longrightarrow> cm_raw m = raw"
  by (auto simp: from_raw_def)

lemma from_raw_dict: "\<exists>m. from_raw (PDict raw) = Some m"
  by (simp add: from_raw_def)

lemma candidates_raw:
  assumes "\<forall>(model, raw) \<in> set typed_rows. from_raw (PDict raw) = Some model"
  shows "map cm_raw (List.map_filter (typed_candidate typed_rows) rows) = rows"
proof (induction rows)
  case (Cons row rows)
  obtain m where "from_raw (PDict row) = Some m" using from_raw_dict by blast
  with Cons show ?case
    by (simp add: List.map_filter_simps typed_candidate_row[OF assms] from_raw_cm_raw)
qed (simp add: List.map_filter_simps)

text \<open>The stages of a selection that returned.\<close>

lemma select_resultE:
  assumes "select_models_result_from_typed_rows requested typed_rows config state pol purpose = Some res"
  obtains available excluded pool excluded' kept fallback where
    "screen_rows pol config state (filter (\<lambda>raw. truthy (dget raw ''invokable'')) (map snd typed_rows))
       (not_invokable_reasons typed_rows) = Some (available, excluded)"
    "pool_of pol requested (pol_profiles pol config) available state excluded = Some (pool, excluded')"
    "gated pol purpose (selection_profile_id (requested_profile (pol_profiles pol config) requested) requested) pool state
       = Some (kept, fallback)"
    "sel_candidates res = List.map_filter (typed_candidate typed_rows) kept"
    "sel_excluded_reasons res = exclude_dropped (pol_exclusion pol
       (selection_profile_id (requested_profile (pol_profiles pol config) requested) requested)) pool kept excluded'"
    "sel_anti_empty_fallback res = fallback"
  using assms unfolding select_models_result_from_typed_rows_def Let_def
  by (auto elim!: bind_SomeE case_prod_SomeE)

lemma router_row_open:
  assumes "row_block (router_policy p) config state raw = Some None"
  shows "model_on_cooldown (sp_ports p) raw state = Some None"
    and "model_is_quarantined raw state = Some False"
    and "stale_catalog_block_reason (now_seconds (sp_ports p)) raw config state = None"
  using assms
  by (auto simp: row_block_def stale_reason_of_def router_policy_def stale_catalog_block_reason_def Let_def
      elim!: bind_SomeE split: if_splits option.splits)

lemma selected_admissible:
  assumes "typed_catalog_rows catalog = Some typed_rows"
    and "select_models_result_from_typed_rows requested typed_rows config state (router_policy p) purpose = Some res"
    and "m \<in> set (sel_candidates res)"
  shows "\<exists>raw. (m, raw) \<in> set typed_rows \<and> truthy (dget raw ''invokable'')
    \<and> model_on_cooldown (sp_ports p) raw state = Some None \<and> model_is_quarantined raw state = Some False
    \<and> stale_catalog_block_reason (now_seconds (sp_ports p)) raw config state = None
    \<and> (let profile = requested_profile (sp_profiles p config) requested in
       profile \<noteq> [] \<longrightarrow> pol_matches (router_policy p) raw profile = Some True)"
proof -
  have rows: "\<forall>(model, raw) \<in> set typed_rows. from_raw (PDict raw) = Some model"
    using typed_catalog_rowsD[OF assms(1)] by auto
  from assms(2) obtain available excluded pool excluded' kept fallback where
    s: "screen_rows (router_policy p) config state (filter (\<lambda>raw. truthy (dget raw ''invokable'')) (map snd typed_rows))
       (not_invokable_reasons typed_rows) = Some (available, excluded)"
    and pool: "pool_of (router_policy p) requested (sp_profiles p config) available state excluded = Some (pool, excluded')"
    and gate: "gated (router_policy p) purpose (selection_profile_id (requested_profile (sp_profiles p config) requested) requested)
       pool state = Some (kept, fallback)"
    and c: "sel_candidates res = List.map_filter (typed_candidate typed_rows) kept"
    by (rule select_resultE) (simp add: router_policy_def)
  have "cm_raw m \<in> set kept" "from_raw (PDict (cm_raw m)) = Some m"
    using assms(3) unfolding c
    by (auto simp: List.map_filter_def typed_candidate_row[OF rows] from_raw_cm_raw dest: from_raw_cm_raw)
  moreover from this(1) have inp: "cm_raw m \<in> set pool" using router.gated_sub[OF gate] by auto
  ultimately have "cm_raw m \<in> set available" "from_raw (PDict (cm_raw m)) = Some m"
    using router.pool_sub(1)[OF pool] by auto
  moreover from this(1) obtain model where "(model, cm_raw m) \<in> set typed_rows"
    "truthy (dget (cm_raw m) ''invokable'')" "row_block (router_policy p) config state (cm_raw m) = Some None"
    unfolding screen_rows_spec(1)[OF s] by auto
  ultimately show ?thesis
    using rows router_row_open router.pool_sub(2)[OF pool inp] by (fastforce simp: Let_def)
qed

text \<open>C21. Every candidate of a request is one of the catalog's rows, invokable, blocked at no scope, not
  quarantined, not stale beyond its grace, and meets the requirements of the requested
  profile: no ranking, manual order, direct request or gate brings another model in.\<close>

theorem selected_models_are_admissible:
  assumes "typed_catalog_rows catalog = Some typed_rows"
    and "select_models_result_from_typed_rows requested typed_rows config state (router_policy p) purpose = Some res"
    and "m \<in> set (sel_candidates res)"
  shows "\<exists>raw. (m, raw) \<in> set typed_rows \<and> truthy (dget raw ''invokable'')
    \<and> model_on_cooldown (sp_ports p) raw state = Some None \<and> model_is_quarantined raw state = Some False
    \<and> stale_catalog_block_reason (now_seconds (sp_ports p)) raw config state = None
    \<and> (let profile = requested_profile (sp_profiles p config) requested in
       profile \<noteq> [] \<longrightarrow> pol_matches (router_policy p) raw profile = Some True)"
  by (rule selected_admissible[OF assms])

text \<open>C30. No model disappears without a word: after an automatic request, every invokable row whose id no
  candidate has is listed under that id with the reason it was left out, be it staleness, a
  block, a quarantine, the profile or the competence gate.\<close>

theorem every_unused_model_has_a_reason:
  assumes "typed_catalog_rows catalog = Some typed_rows"
    and "select_models_result_from_typed_rows requested typed_rows config state (router_policy p) purpose = Some res"
    and auto: "if requested_profile (sp_profiles p config) requested \<noteq> []
               then dget (requested_profile (sp_profiles p config) requested) ''mode'' \<noteq> PStr ''manual_order''
               else strip requested \<in> set VIRTUAL_MODELS"
    and raw: "(model, raw) \<in> set typed_rows" "truthy (dget raw ''invokable'')" "text_of raw ''id'' \<noteq> []"
    and unused: "\<forall>m \<in> set (sel_candidates res). text_of (cm_raw m) ''id'' \<noteq> text_of raw ''id''"
  shows "dhas (text_of raw ''id'') (sel_excluded_reasons res)"
proof -
  have rows: "\<forall>(model, raw) \<in> set typed_rows. from_raw (PDict raw) = Some model"
    using typed_catalog_rowsD[OF assms(1)] by auto
  have pol: "pol_profiles (router_policy p) = sp_profiles p" "pol_virtual_models (router_policy p) = VIRTUAL_MODELS"
    by (simp_all add: router_policy_def)
  from assms(2) obtain available excluded pool excluded' kept fallback where
    s: "screen_rows (router_policy p) config state (filter (\<lambda>raw. truthy (dget raw ''invokable'')) (map snd typed_rows))
       (not_invokable_reasons typed_rows) = Some (available, excluded)"
    and pool: "pool_of (router_policy p) requested (sp_profiles p config) available state excluded = Some (pool, excluded')"
    and c: "sel_candidates res = List.map_filter (typed_candidate typed_rows) kept"
    and e: "sel_excluded_reasons res = exclude_dropped (pol_exclusion (router_policy p)
       (selection_profile_id (requested_profile (sp_profiles p config) requested) requested)) pool kept excluded'"
    by (rule select_resultE) (simp add: pol)
  have "set kept = cm_raw ` set (sel_candidates res)"
    using candidates_raw[OF rows, of kept] unfolding c by (metis list.set_map)
  then have un: "text_of raw ''id'' \<notin> (\<lambda>c. text_of c ''id'') ` set kept"
    using unused by fastforce
  show ?thesis
  proof (cases "raw \<in> set available")
    case True
    with router.left_out_has_reason[OF pool _ _ raw(3) un] auto show ?thesis unfolding e by (simp add: pol)
  next
    case False
    have "raw \<in> set (filter (\<lambda>raw. truthy (dget raw ''invokable'')) (map snd typed_rows))"
      using raw(1,2) by force
    with screen_rows_spec(2)[OF s] False raw(3) have "dhas (text_of raw ''id'') excluded" by blast
    with router.pool_keeps_reasons[OF pool] show ?thesis unfolding e dhas_exclude_dropped by blast
  qed
qed


section \<open>Rankings\<close>

lemma rank_key_id: "rank_key p q st m = Some k \<Longrightarrow> snd (snd (snd (snd k))) = text_of m ''id''"
  by (auto simp: rank_key_def)

lemma coding_rank_key_id: "coding_rank_key p st m = Some k \<Longrightarrow> snd (snd (snd k)) = text_of m ''id''"
  by (auto simp: coding_rank_key_def Let_def)

lemma sort_opt_fst_sorted:
  assumes "sort_opt f xs = Some ys"
    and "\<And>x k. f x = Some k \<Longrightarrow> g x = fst k"
  shows "sorted_wrt (\<lambda>a b. g a \<le> (g b :: 'b :: linorder)) ys"
proof -
  obtain ks where ks: "map f ys = map Some ks" "sorted ks" using sort_opt_sorted[OF assms(1)] by auto
  have "map g ys = map fst ks"
  proof (rule nth_equalityI)
    show len: "length (map g ys) = length (map fst ks)" using ks(1) by (metis length_map)
    fix i assume i: "i < length (map g ys)"
    then have "f (ys ! i) = Some (ks ! i)" using ks(1) len by (metis length_map nth_map)
    with assms(2) i len show "map g ys ! i = map fst ks ! i" by simp
  qed
  moreover have "sorted (map fst ks)"
    using ks(2) by (induction ks) (auto simp: less_eq_prod_def)
  ultimately show ?thesis by (metis sorted_wrt_map)
qed

text \<open>C29. A ranking loses and invents nothing, puts the better score first (for the coding profile, the
  verified certification first), and depends on the rows alone: the same rows with distinct
  ids, in any catalog order, are ranked the same.\<close>

theorem ranking_is_a_function_of_the_pool:
  assumes "sort_available_for_virtual_model p q xs st = Some ys"
  shows "mset ys = mset xs
    \<and> (strip q \<noteq> CODING_PROFILE_ID \<longrightarrow>
        sorted_wrt (\<lambda>a b. the (model_auto_score (sp_evidence p) q b st) \<le> the (model_auto_score (sp_evidence p) q a st)) ys)
    \<and> (strip q = CODING_PROFILE_ID \<longrightarrow>
        sorted_wrt (\<lambda>a b. dget (case sp_certification p b of None \<Rightarrow> [] | Some c \<Rightarrow> c) ''tier'' = PStr ''verified'' \<longrightarrow>
          dget (case sp_certification p a of None \<Rightarrow> [] | Some c \<Rightarrow> c) ''tier'' = PStr ''verified'') ys)
    \<and> (\<forall>xs' ys'. mset xs' = mset xs \<longrightarrow> inj_on (\<lambda>m. text_of m ''id'') (set xs) \<longrightarrow>
        sort_available_for_virtual_model p q xs' st = Some ys' \<longrightarrow> ys' = ys)"
proof (intro conjI impI allI)
  show "mset ys = mset xs" by (rule sort_available_perm[OF assms])
next
  assume "strip q \<noteq> CODING_PROFILE_ID"
  with assms have s: "sort_opt (rank_key p q st) xs = Some ys"
    by (simp add: sort_available_for_virtual_model_def sort_available_policy_def)
  have "sorted_wrt (\<lambda>a b. - the (model_auto_score (sp_evidence p) q a st) \<le> - the (model_auto_score (sp_evidence p) q b st)) ys"
    by (rule sort_opt_fst_sorted[OF s]) (auto simp: rank_key_def)
  then show "sorted_wrt (\<lambda>a b. the (model_auto_score (sp_evidence p) q b st) \<le> the (model_auto_score (sp_evidence p) q a st)) ys"
    by simp
next
  let ?tier = "\<lambda>m. dget (case sp_certification p m of None \<Rightarrow> [] | Some c \<Rightarrow> c) ''tier'' = PStr ''verified''"
  assume "strip q = CODING_PROFILE_ID"
  with assms have s: "sort_opt (coding_rank_key p st) xs = Some ys"
    by (simp add: sort_available_for_virtual_model_def)
  have "sorted_wrt (\<lambda>a b. (if ?tier a then 0 else 1 :: nat) \<le> (if ?tier b then 0 else 1)) ys"
    by (rule sort_opt_fst_sorted[OF s]) (auto simp: coding_rank_key_def Let_def)
  then show "sorted_wrt (\<lambda>a b. ?tier b \<longrightarrow> ?tier a) ys"
    by (rule sorted_wrt_mono_rel[rotated]) (auto split: if_splits)
next
  fix xs' ys'
  assume m: "mset xs' = mset xs" and inj: "inj_on (\<lambda>m. text_of m ''id'') (set xs)"
    and s': "sort_available_for_virtual_model p q xs' st = Some ys'"
  show "ys' = ys"
  proof (cases "strip q = CODING_PROFILE_ID")
    case True
    with assms s' have "sort_opt (coding_rank_key p st) xs = Some ys" "sort_opt (coding_rank_key p st) xs' = Some ys'"
      by (simp_all add: sort_available_for_virtual_model_def)
    then show ?thesis
      by (rule sort_opt_unique[OF _ _ m[symmetric], THEN sym])
        (use inj in \<open>auto dest!: coding_rank_key_id dest: inj_onD\<close>)
  next
    case False
    with assms s' have "sort_opt (rank_key p q st) xs = Some ys" "sort_opt (rank_key p q st) xs' = Some ys'"
      by (simp_all add: sort_available_for_virtual_model_def sort_available_policy_def)
    then show ?thesis
      by (rule sort_opt_unique[OF _ _ m[symmetric], THEN sym])
        (use inj in \<open>auto dest!: rank_key_id dest: inj_onD\<close>)
  qed
qed

section \<open>Manual orders\<close>

lemma unique_Nil [simp]: "unique [] = []"
  by (simp add: unique_def)

lemma remdups_snoc: "remdups (xs @ [x]) = filter (\<lambda>y. y \<noteq> x) (remdups xs) @ [x]"
  by (induction xs) auto

lemma unique_Cons: "unique (x # xs) = x # filter (\<lambda>y. y \<noteq> x) (unique xs)"
  by (simp add: unique_def remdups_snoc rev_filter)

lemma set_unique [simp]: "set (unique xs) = set xs"
  by (simp add: unique_def)

lemma distinct_unique [simp]: "distinct (unique xs)"
  by (simp add: unique_def)

lemma pick_ordered_ids:
  assumes "\<And>i m. map_of by_id i = Some m \<Longrightarrow> raw_id m = i"
  shows "map raw_id (pick_ordered by_id ids seen) =
    filter (\<lambda>i. i \<notin> set seen) (unique (filter (\<lambda>i. map_of by_id i \<noteq> None) (map py_str ids)))"
proof (induction ids arbitrary: seen)
  case (Cons i ids)
  show ?case
  proof (cases "map_of by_id (py_str i)")
    case (Some m)
    with assms have "raw_id m = py_str i" by simp
    with Some Cons show ?thesis by (auto simp: unique_Cons conj_commute intro!: filter_cong)
  qed (simp add: Cons)
qed simp

lemma by_id_lookup:
  assumes "distinct (map raw_id xs)"
  shows "map_of (rev (map (\<lambda>m. (raw_id m, m)) xs)) i = Some m \<longleftrightarrow> m \<in> set xs \<and> raw_id m = i"
proof -
  have "distinct (map fst (rev (map (\<lambda>m. (raw_id m, m)) xs)))"
    using assms by (simp add: rev_map[symmetric] comp_def)
  then show ?thesis by (auto simp: map_of_eq_Some_iff)
qed

text \<open>A manual order is kept to the letter: the rows come in the order the operator listed them, each
  once however often it is listed, unknown ids skipped; with the automatic tail the other
  eligible rows follow and none is lost, without it nothing follows.\<close>

theorem manual_order_is_kept:
  assumes "manual_order_candidates (sort_available_for_virtual_model p) q eligible st profile = Some out"
    and "iter_items (por (dget profile ''models'') (PList [])) = Some ids"
    and "distinct (map raw_id eligible)"
  shows "\<exists>picked tail. out = picked @ tail
    \<and> map raw_id picked = unique (filter (\<lambda>i. i \<in> raw_id ` set eligible) (map py_str ids))
    \<and> (if truthy (dget_or profile ''auto_tail'' (PBool True)) then mset out = mset eligible else tail = [])"
proof -
  let ?by = "rev (map (\<lambda>m. (raw_id m, m)) eligible)"
  let ?picked = "pick_ordered ?by ids []"
  note look = by_id_lookup[OF assms(3)]
  have ids: "map raw_id ?picked = unique (filter (\<lambda>i. i \<in> raw_id ` set eligible) (map py_str ids))"
  proof -
    have "map_of ?by i \<noteq> None \<longleftrightarrow> i \<in> raw_id ` set eligible" for i
      using look[of i] by auto
    then show ?thesis by (subst pick_ordered_ids) (auto simp: look)
  qed
  have sub: "set ?picked \<subseteq> set eligible" by (rule pick_ordered_sub)
  have picked: "mset ?picked = mset (filter (\<lambda>m. raw_id m \<in> set (map raw_id ?picked)) eligible)"
  proof (subst set_eq_iff_mset_eq_distinct[symmetric])
    have "distinct (map raw_id ?picked)" by (simp add: ids)
    then show "distinct ?picked" by (simp add: distinct_map)
    show "distinct (filter (\<lambda>m. raw_id m \<in> set (map raw_id ?picked)) eligible)"
      using assms(3) by (simp add: distinct_map)
    show "set ?picked = set (filter (\<lambda>m. raw_id m \<in> set (map raw_id ?picked)) eligible)"
      using sub assms(3) by (auto simp: distinct_map dest: inj_onD subsetD)
  qed
  show ?thesis
  proof (cases "truthy (dget_or profile ''auto_tail'' (PBool True))")
    case True
    with assms(1,2) obtain tail where
      t: "sort_available_for_virtual_model p q (filter (\<lambda>m. raw_id m \<notin> set (map raw_id ?picked)) eligible) st = Some tail"
      and out: "out = ?picked @ tail"
      by (auto simp: manual_order_candidates_def Let_def elim!: bind_SomeE)
    have "mset out = mset eligible"
      unfolding out mset_append picked sort_available_perm[OF t] mset_filter
      by (simp add: multiset_partition[symmetric])
    with True ids out show ?thesis by (intro exI[of _ ?picked] exI[of _ tail]) simp
  next
    case False
    with assms(1,2) ids show ?thesis
      by (intro exI[of _ ?picked] exI[of _ "[]"]) (simp add: manual_order_candidates_def Let_def)
  qed
qed


section \<open>Instances\<close>

definition example_selection_ports :: selection_ports where
  "example_selection_ports = \<lparr>sp_ports = \<lparr>now_seconds = 0, now_iso = [], normalized_free_access = \<lambda>_. []\<rparr>,
     sp_evidence = example_evidence_ports, sp_profiles = \<lambda>_. [], sp_certification = \<lambda>_. None\<rparr>"

definition example_catalog_row :: pydict where
  "example_catalog_row = [(''id'', PStr ''m''), (''source'', PStr ''s''), (''upstream_id'', PStr ''u''), (''invokable'', PBool True)]"

definition example_typed_row :: catalog_model where
  "example_typed_row = the (from_raw (PDict example_catalog_row))"

lemma example_catalog:
  "typed_catalog_rows [(''models'', PList [PDict example_catalog_row])] = Some [(example_typed_row, example_catalog_row)]"
  by (simp add: typed_catalog_rows_def dget_or_def List.map_filter_def example_typed_row_def from_raw_def)

lemma example_open: "row_block (router_policy example_selection_ports) [] [] example_catalog_row = Some None"
  by code_simp

lemma selected_models_are_admissible_witness:
  "\<exists>res. select_models_result_from_typed_rows ''u'' [(example_typed_row, example_catalog_row)] [] []
           (router_policy example_selection_ports) ''benchmark'' = Some res
       \<and> example_typed_row \<in> set (sel_candidates res) \<and> truthy (dget example_catalog_row ''invokable'')"
proof -
  have "truthy (dget example_catalog_row ''invokable'')" by code_simp
  moreover obtain res where res: "select_models_result_from_typed_rows ''u'' [(example_typed_row, example_catalog_row)] [] []
      (router_policy example_selection_ports) ''benchmark'' = Some res" "example_typed_row \<in> set (sel_candidates res)"
  proof -
    have "pool_of (router_policy example_selection_ports) ''u'' [] [example_catalog_row] [] [] = Some ([example_catalog_row], [])"
      "not_invokable_reasons [(example_typed_row, example_catalog_row)] = []"
      "strip ''u'' = ''u''"
      by code_simp+
    then show thesis
      using that
      by (simp add: select_models_result_from_typed_rows_def example_open gated_def benchmark_competence_gate_result_def
          router_policy_def[THEN arg_cong[where f = pol_benchmark_gate]] router_policy_def[THEN arg_cong[where f = pol_profiles]]
          example_selection_ports_def[THEN arg_cong[where f = sp_profiles]] selection_profile_id_def requested_profile_def
          CODING_PROFILE_ID_def typed_candidate_def List.map_filter_def Let_def \<open>truthy _\<close>)
  qed
  moreover note selected_models_are_admissible[OF example_catalog res]
  ultimately show ?thesis by blast
qed


definition example_quarantine :: pydict where
  "example_quarantine = [(''quarantine'', PDict [(''s::u'', PDict [(''reason'', PStr ''r'')])])]"

lemma every_unused_model_has_a_reason_witness:
  "\<exists>res. select_models_result_from_typed_rows ''ficelle/auto-json'' [(example_typed_row, example_catalog_row)] []
           example_quarantine (router_policy example_selection_ports) ''route'' = Some res
       \<and> dhas ''m'' (sel_excluded_reasons res)"
proof -
  let ?run = "select_models_result_from_typed_rows ''ficelle/auto-json'' [(example_typed_row, example_catalog_row)] []
           example_quarantine (router_policy example_selection_ports) ''route''"
  have "map_option sel_candidates ?run = Some []" by code_simp
  then obtain res where res: "?run = Some res" "sel_candidates res = []" by auto
  have "truthy (dget example_catalog_row ''invokable'')" "text_of example_catalog_row ''id'' = ''m''"
    "if requested_profile (sp_profiles example_selection_ports []) ''ficelle/auto-json'' \<noteq> []
     then dget (requested_profile (sp_profiles example_selection_ports []) ''ficelle/auto-json'') ''mode'' \<noteq> PStr ''manual_order''
     else strip ''ficelle/auto-json'' \<in> set VIRTUAL_MODELS"
    by code_simp+
  with every_unused_model_has_a_reason[OF example_catalog res(1), of example_typed_row example_catalog_row] res
  show ?thesis by simp
qed

lemma ranking_is_a_function_of_the_pool_witness:
  "\<exists>ys. sort_available_for_virtual_model example_selection_ports ''p'' [example_fast_model] [] = Some ys
     \<and> mset ys = mset [example_fast_model]"
proof -
  have "sp_evidence example_selection_ports = example_evidence_ports" by (simp add: example_selection_ports_def)
  then obtain k where "rank_key example_selection_ports ''p'' [] example_fast_model = Some k"
    using example_fast_score by (auto simp: rank_key_def)
  moreover have "strip ''p'' \<noteq> CODING_PROFILE_ID" by code_simp
  ultimately obtain ys where ys: "sort_available_for_virtual_model example_selection_ports ''p'' [example_fast_model] [] = Some ys"
    by (simp add: sort_available_for_virtual_model_def sort_available_policy_def sort_opt_def)
  from ranking_is_a_function_of_the_pool[OF ys] ys show ?thesis by blast
qed

lemma manual_order_is_kept_witness:
  "manual_order_candidates (sort_available_for_virtual_model example_selection_ports) ''p'' [example_fast_model] []
     [(''models'', PList [PStr ''x'', PStr ''m'', PStr ''m'']), (''auto_tail'', PBool False)] = Some [example_fast_model]
   \<and> (\<exists>picked tail. [example_fast_model] = picked @ tail \<and> map raw_id picked = [''m''] \<and> tail = [])"
proof -
  let ?profile = "[(''models'', PList [PStr ''x'', PStr ''m'', PStr ''m'']), (''auto_tail'', PBool False)]"
  have run: "manual_order_candidates (sort_available_for_virtual_model example_selection_ports) ''p'' [example_fast_model] []
      ?profile = Some [example_fast_model]"
    by code_simp
  have "iter_items (por (dget ?profile ''models'') (PList [])) = Some [PStr ''x'', PStr ''m'', PStr ''m'']"
    "\<not> truthy (dget_or ?profile ''auto_tail'' (PBool True))"
    "unique (filter (\<lambda>i. i \<in> raw_id ` set [example_fast_model]) (map py_str [PStr ''x'', PStr ''m'', PStr ''m''])) = [''m'']"
    by code_simp+
  with manual_order_is_kept[OF run] run show ?thesis by fastforce
qed

end
