(* ===== verification/AttemptPlan.thy ===== *)
theory AttemptPlan
  imports Selection
begin

text \<open>
  What a chat request is allowed to try before anything is sent (the pre-filters and the attempt
  window of \<open>use_cases/chat_completion.py\<close>): the features of its tool schemas, its size in
  tokens, the candidates it cannot be sent to, those with room to spare, and the window cut
  from the rest with a cap per provider. \<open>json_dumps\<close> is the text of a JSON value, of which
  the size is counted. Sets are lists read by membership; products and quotients of reals are
  exact. The compression planner and the learned token limits are arguments, as in the code.
\<close>

section \<open>The text of a JSON value\<close>

text \<open>\<open>json.dumps(value, ensure_ascii=False)\<close>.\<close>

definition json_char :: "char \<Rightarrow> string" where
  "json_char c =
     (if c = CHR 0x22 \<or> c = CHR 0x5C then [CHR 0x5C, c]
      else if c = CHR 0x0A then [CHR 0x5C, CHR ''n'']
      else if c = CHR 0x0D then [CHR 0x5C, CHR ''r'']
      else if c = CHR 0x09 then [CHR 0x5C, CHR ''t'']
      else if c = CHR 0x08 then [CHR 0x5C, CHR ''b'']
      else if c = CHR 0x0C then [CHR 0x5C, CHR ''f'']
      else if cpoint c < 32
      then [CHR 0x5C] @ ''u00'' @ [if cpoint c < 16 then CHR ''0'' else CHR ''1'', ''0123456789abcdef'' ! nat (cpoint c mod 16)]
      else [c])"

definition json_text :: "string \<Rightarrow> string" where
  "json_text s = [CHR 0x22] @ concat (map json_char s) @ [CHR 0x22]"

definition json_float :: "pyfloat \<Rightarrow> string" where
  "json_float f =
     (case f of PosInf \<Rightarrow> ''Infinity'' | NegInf \<Rightarrow> ''-Infinity'' | NotANum \<Rightarrow> ''NaN'' | Fin r \<Rightarrow> show_float (Fin r))"

fun json_dumps :: "pv \<Rightarrow> string" where
  "json_dumps PNone = ''null''"
| "json_dumps (PBool b) = (if b then ''true'' else ''false'')"
| "json_dumps (PInt i) = show_int i"
| "json_dumps (PFloat f) = json_float f"
| "json_dumps (PStr s) = json_text s"
| "json_dumps (PList xs) = ''['' @ join '', '' (map json_dumps xs) @ '']''"
| "json_dumps (PDict d) = ''{'' @ join '', '' (map (\<lambda>(k, v). json_text k @ '': '' @ json_dumps v) d) @ ''}''"

section \<open>Features of the tool schemas\<close>

definition type_features :: "pydict \<Rightarrow> string list" where
  "type_features schema =
     (case dget schema ''type'' of
        PList xs \<Rightarrow> [if PStr ''null'' \<in> set xs then ''nullable_type_array'' else ''type_array'']
      | _ \<Rightarrow> [])
     @ (if list_ex (\<lambda>alt. is_dict alt \<and> dget (as_dict alt) ''type'' = PStr ''null'') (as_list (dget schema ''anyOf''))
        then [''anyof_nullability''] else [])
     @ (if dget schema ''additionalProperties'' = PBool False then [''additional_properties_false''] else [])
     @ (case dget schema ''enum'' of PList _ \<Rightarrow> [''enums''] | _ \<Rightarrow> [])"

definition nested_object :: "pv \<Rightarrow> bool \<Rightarrow> string list" where
  "nested_object child deep =
     (if dget (as_dict child) ''type'' = PStr ''object'' \<and> deep then [''nested_objects_arrays''] else [])"

lemma size_map_of: "map_of d k = Some v \<Longrightarrow> size v < size (PDict d)"
  by (induction d) (auto split: if_splits)

lemma size_dget: "dget d k = PDict e \<Longrightarrow> size (PDict e) < size (PDict d)"
  by (auto simp: dget_def split: option.splits dest: size_map_of)

lemma size_member: "(k, v) \<in> set d \<Longrightarrow> size v < size (PDict d)"
  by (induction d) auto

text \<open>The schemas one level below: the properties in order, then the items.\<close>

definition child_schemas :: "nat \<Rightarrow> pydict \<Rightarrow> (bool \<times> pv) list" where
  "child_schemas depth schema =
     map (\<lambda>(_, child). (1 \<le> depth, child)) (filter (\<lambda>(_, child). is_dict child) (section_of schema ''properties''))
     @ (case dget schema ''items'' of PDict items \<Rightarrow> [(True, PDict items)] | _ \<Rightarrow> [])"

lemma size_section_member: "(key, child) \<in> set (section_of schema k) \<Longrightarrow> size child < size (PDict schema)"
proof -
  assume "(key, child) \<in> set (section_of schema k)"
  then obtain d where "dget schema k = PDict d" "(key, child) \<in> set d"
    by (cases "dget schema k") (auto simp: section_of_def)
  then show ?thesis using size_dget size_member by (metis order.strict_trans)
qed

lemma child_schema_cases:
  assumes "(deep, child) \<in> set (child_schemas depth schema)"
  shows "is_dict child \<and> size child < size (PDict schema)"
proof -
  from assms consider (fld) key where "(key, child) \<in> set (section_of schema ''properties'')" "is_dict child"
    | (item) d where "dget schema ''items'' = PDict d" "child = PDict d"
    by (cases "dget schema ''items''") (auto simp: child_schemas_def)
  then show ?thesis
    by cases (use size_section_member size_dget in force)+
qed

function walk_schema :: "nat \<Rightarrow> pydict \<Rightarrow> string list" where
  "walk_schema depth schema =
     type_features schema
     @ concat (map (\<lambda>(deep, child). nested_object child deep @ walk_schema (depth + 1) (as_dict child))
         (child_schemas depth schema))"
  by pat_completeness auto
termination
proof (relation "measure (\<lambda>(_, schema). size (PDict schema))", goal_cases)
  case (2 depth schema x deep child)
  then have "is_dict child \<and> size child < size (PDict schema)" by (intro child_schema_cases[of deep child depth]) simp
  then show ?case by (cases child) auto
qed simp

declare walk_schema.simps [simp del]

definition walk_schema_value :: "pv \<Rightarrow> string list" where
  "walk_schema_value v = (case v of PDict schema \<Rightarrow> walk_schema 0 schema | _ \<Rightarrow> [])"

definition detect_tool_schema_features :: "pydict \<Rightarrow> string list" where
  "detect_tool_schema_features body =
     (if is_dict (dget body ''tool_choice'') then [''forced_tool_choice''] else [])
     @ concat (map (\<lambda>tool. walk_schema_value (dget (section_of (as_dict tool) ''function'') ''parameters''))
                 (as_list (dget body ''tools'')))"

section \<open>The size of a request\<close>

definition BASE64_CHARS_PER_TOKEN :: real where "BASE64_CHARS_PER_TOKEN = 5 / 2"
definition DECODED_MEDIA_BYTES_PER_TOKEN :: real where "DECODED_MEDIA_BYTES_PER_TOKEN = 160"

text \<open>The text after the first occurrence of a marker.\<close>

fun after_marker :: "string \<Rightarrow> string \<Rightarrow> string option" where
  "after_marker marker s =
     (if starts_with marker s then Some (drop (length marker) s)
      else (case s of [] \<Rightarrow> None | _ # r \<Rightarrow> after_marker marker r))"

declare after_marker.simps [simp del]

definition image_url_of :: "pydict \<Rightarrow> pv" where
  "image_url_of part =
     (case dget part ''image_url'' of PDict holder \<Rightarrow> dget holder ''url'' | PStr url \<Rightarrow> PStr url | _ \<Rightarrow> PNone)"

definition part_base64_chars :: "pydict \<Rightarrow> nat" where
  "part_base64_chars part =
     (case image_url_of part of
        PStr url \<Rightarrow> (case after_marker '';base64,'' url of None \<Rightarrow> 0 | Some payload \<Rightarrow> length payload)
      | _ \<Rightarrow> 0)
     + (case dget (section_of part ''input_audio'') ''data'' of PStr d \<Rightarrow> length d | _ \<Rightarrow> 0)"

definition dense_base64_chars :: "pv \<Rightarrow> nat" where
  "dense_base64_chars messages =
     sum_list (map (\<lambda>message. sum_list (map (\<lambda>part. part_base64_chars (as_dict part))
                      (as_list (dget (as_dict message) ''content'')))) (as_list messages))"

definition request_chars :: "pydict \<Rightarrow> nat" where
  "request_chars body =
     sum_list (map (\<lambda>k. if dget body k = PNone then 0 else length (json_dumps (dget body k)))
       [''messages'', ''tools'', ''system'', ''response_format''])"

definition text_tokens :: "pydict \<Rightarrow> int" where
  "text_tokens body =
     (case estimated_tokens_for_chars (PInt (int (request_chars body) - int (dense_base64_chars (dget body ''messages'')))) of
        None \<Rightarrow> 0 | Some n \<Rightarrow> n)"

definition estimate_request_tokens :: "pydict \<Rightarrow> int" where
  "estimate_request_tokens body =
     max 1 (text_tokens body + \<lceil>real (dense_base64_chars (dget body ''messages'')) / BASE64_CHARS_PER_TOKEN\<rceil>)"

definition estimate_request_tokens_for_exclusion :: "pydict \<Rightarrow> int" where
  "estimate_request_tokens_for_exclusion body =
     max 1 (text_tokens body
       + \<lceil>(real (dense_base64_chars (dget body ''messages'')) * 3 / 4) / DECODED_MEDIA_BYTES_PER_TOKEN\<rceil>)"

definition requested_completion_tokens :: "pydict \<Rightarrow> int" where
  "requested_completion_tokens body =
     (if dget body ''max_completion_tokens'' \<noteq> PNone then safe_int (dget body ''max_completion_tokens'') 0
      else safe_int (dget body ''max_tokens'') 0)"

definition required_context_tokens :: "pydict \<Rightarrow> int" where
  "required_context_tokens body = estimate_request_tokens body + requested_completion_tokens body"

section \<open>Candidates a request fits\<close>

definition CONTEXT_HEADROOM_FACTOR :: real where "CONTEXT_HEADROOM_FACTOR = 2"
definition DEFAULT_CONTEXT_ESTIMATE_SAFETY_FACTOR :: real where "DEFAULT_CONTEXT_ESTIMATE_SAFETY_FACTOR = 115 / 100"

definition context_fits :: "pydict \<Rightarrow> real \<Rightarrow> bool" where
  "context_fits candidate required_tokens \<longleftrightarrow>
     (let context_length = safe_int (dget candidate ''context_length'') 0
      in context_length = 0 \<or> required_tokens \<le> of_int context_length)"

definition candidate_context_too_small :: "pydict \<Rightarrow> real \<Rightarrow> bool" where
  "candidate_context_too_small candidate required_tokens \<longleftrightarrow> \<not> context_fits candidate required_tokens"

definition headroom :: "int \<Rightarrow> int \<Rightarrow> real \<Rightarrow> real" where
  "headroom required_tokens completion_tokens factor =
     of_int (max 0 (required_tokens - completion_tokens)) * factor + of_int completion_tokens"

definition prefer_context_headroom :: "int \<Rightarrow> pydict list \<Rightarrow> int \<Rightarrow> pydict list \<times> pydict list" where
  "prefer_context_headroom required_tokens candidates completion_tokens =
     partition (\<lambda>c. context_fits c (headroom required_tokens completion_tokens CONTEXT_HEADROOM_FACTOR)) candidates"

definition excluded_candidate_row :: "pydict \<Rightarrow> string \<Rightarrow> string \<Rightarrow> pydict" where
  "excluded_candidate_row candidate reason detail =
     [(''model'', dget candidate ''id''), (''upstream'', dget candidate ''upstream_id''),
      (''source'', dget candidate ''source''), (''reason'', PStr reason), (''detail'', PStr detail)]"

definition exclude_undersized_candidates ::
  "int \<Rightarrow> pydict list \<Rightarrow> real \<Rightarrow> int \<Rightarrow> pydict list \<times> pydict list" where
  "exclude_undersized_candidates required_tokens candidates safety_factor completion_tokens =
     (let small = (\<lambda>c. candidate_context_too_small c (headroom required_tokens completion_tokens safety_factor))
      in (filter (\<lambda>c. \<not> small c) candidates,
          map (\<lambda>c. excluded_candidate_row c ''context_length_exceeded''
                (''request needs ~'' @ show_int required_tokens @ '' tokens, model context is ''
                 @ show_int (safe_int (dget c ''context_length'') 0))) (filter small candidates)))"

definition over_token_limit :: "int \<Rightarrow> (pydict \<Rightarrow> int option) \<Rightarrow> pydict \<Rightarrow> bool" where
  "over_token_limit prompt_tokens request_token_limit c \<longleftrightarrow>
     (case request_token_limit c of None \<Rightarrow> False | Some limit \<Rightarrow> limit < prompt_tokens)"

definition exclude_over_token_limit_candidates ::
  "int \<Rightarrow> pydict list \<Rightarrow> (pydict \<Rightarrow> int option) \<Rightarrow> pydict list \<times> pydict list" where
  "exclude_over_token_limit_candidates prompt_tokens candidates request_token_limit =
     (let over = over_token_limit prompt_tokens request_token_limit
      in (filter (\<lambda>c. \<not> over c) candidates,
          map (\<lambda>c. excluded_candidate_row c ''request_too_large''
                (''request needs ~'' @ show_int prompt_tokens @ '' tokens, provider allows ''
                 @ show_int (the (request_token_limit c)) @ '' per minute'')) (filter over candidates)))"

definition declared_unsupported_schema_features :: "string \<Rightarrow> pydict \<Rightarrow> string list" where
  "declared_unsupported_schema_features source config =
     map py_str (as_list (dget (section_of (section_of config ''providers'') source) ''unsupported_tool_schema_features''))"

definition incompatible_features :: "pydict \<Rightarrow> pydict \<Rightarrow> pydict \<Rightarrow> string list" where
  "incompatible_features body config candidate =
     filter (\<lambda>f. f \<in> set (declared_unsupported_schema_features (text_of candidate ''source'') config))
       (detect_tool_schema_features body)"

definition exclude_incompatible_candidates :: "pydict \<Rightarrow> pydict list \<Rightarrow> pydict \<Rightarrow> pydict list \<times> pydict list" where
  "exclude_incompatible_candidates body candidates config =
     (if list_all (\<lambda>c. declared_unsupported_schema_features (text_of c ''source'') config = []) candidates
      then (candidates, [])
      else (filter (\<lambda>c. incompatible_features body config c = []) candidates,
            map (\<lambda>c. excluded_candidate_row c ''unsupported_tool_schema''
                  (''unsupported tool-schema features: '' @ join '', '' (sort (remdups (incompatible_features body config c)))))
              (filter (\<lambda>c. incompatible_features body config c \<noteq> []) candidates)))"

section \<open>The attempt window\<close>

definition source_cap :: "int \<Rightarrow> pydict \<Rightarrow> int" where
  "source_cap max_attempt_count config =
     (let raw_cap = dget config ''max_attempts_per_source'';
          cap = (if raw_cap = PNone then 0 else safe_int raw_cap 0)
      in if cap \<le> 0 then max 1 (max_attempt_count - 1) else cap)"

text \<open>The candidates taken in order while their provider has room, and those it deferred.\<close>

fun window_pass :: "nat \<Rightarrow> int \<Rightarrow> (string \<Rightarrow> nat) \<Rightarrow> pydict list \<Rightarrow> pydict list \<times> pydict list" where
  "window_pass room cap used [] = ([], [])"
| "window_pass room cap used (c # cs) =
     (if room = 0 then ([], [])
      else let source = text_of c ''source'' in
        if cap \<le> int (used source)
        then (let (selected, deferred) = window_pass room cap used cs in (selected, c # deferred))
        else (let (selected, deferred) = window_pass (room - 1) cap (used(source := used source + 1)) cs
              in (c # selected, deferred)))"

definition attempts_with_source_diversity :: "pydict list \<Rightarrow> int \<Rightarrow> pydict \<Rightarrow> pydict list" where
  "attempts_with_source_diversity candidates max_attempt_count config =
     (if max_attempt_count \<le> 0 \<or> candidates = [] then []
      else let (selected, deferred) = window_pass (nat max_attempt_count) (source_cap max_attempt_count config) (\<lambda>_. 0) candidates
           in selected @ take (nat max_attempt_count - length selected) deferred)"

definition removesuffix :: "string \<Rightarrow> string \<Rightarrow> string" where
  "removesuffix s sfx = (if ends_with sfx s then take (length s - length sfx) s else s)"

definition upstream_model_key :: "pv \<Rightarrow> string" where
  "upstream_model_key upstream_id = removesuffix (lower (strip (py_str (por upstream_id (PStr []))))) '':free''"

definition attempts_after_source_rejection ::
  "pydict list \<Rightarrow> string list \<Rightarrow> (pydict \<Rightarrow> bool) \<Rightarrow> int \<Rightarrow> pydict \<Rightarrow> pydict list" where
  "attempts_after_source_rejection pool considered_ids is_ruled_out remaining_attempts config =
     attempts_with_source_diversity
       (filter (\<lambda>c. \<not> is_ruled_out c \<and> text_of c ''id'' \<notin> set considered_ids) pool) remaining_attempts config"

section \<open>The request\<close>

definition DEFAULT_CHAT_COMPLETION_MODEL :: string where "DEFAULT_CHAT_COMPLETION_MODEL = ''ficelle/auto-tools''"

definition drop_sampling_parameters :: "pydict \<Rightarrow> string list \<Rightarrow> pydict" where
  "drop_sampling_parameters body parameters = filter (\<lambda>(key, _). key \<notin> set parameters) body"

text \<open>\<open>None\<close> is the ValueError for a body that is no object; the two texts are the id asked for
  and the one that may be shown.\<close>

definition normalize_chat_completion_request :: "pv \<Rightarrow> (string \<times> string) option" where
  "normalize_chat_completion_request v =
     (case v of
        PDict body \<Rightarrow>
          (let requested_model = py_str (por (dget body ''model'') (PStr DEFAULT_CHAT_COMPLETION_MODEL))
           in Some (requested_model, text_or ''[redacted]'' (sanitize_error_detail (PStr requested_model) 250)))
      | _ \<Rightarrow> None)"

definition unnamed_call :: "pv \<Rightarrow> bool" where
  "unnamed_call tool_call \<longleftrightarrow>
     (case dget (as_dict tool_call) ''function'' of
        PDict function \<Rightarrow> (case dget function ''name'' of PStr name \<Rightarrow> strip name = [] | _ \<Rightarrow> True)
      | _ \<Rightarrow> False)"

fun first_index :: "('a \<Rightarrow> bool) \<Rightarrow> 'a list \<Rightarrow> nat option" where
  "first_index P [] = None"
| "first_index P (x # xs) = (if P x then Some 0 else map_option Suc (first_index P xs))"

definition malformed_tool_call_detail :: "pv \<Rightarrow> string option" where
  "malformed_tool_call_detail body =
     (let calls = (\<lambda>message. as_list (dget (as_dict message) ''tool_calls''));
          messages = as_list (dget (as_dict body) ''messages'')
      in case first_index (\<lambda>message. list_ex unnamed_call (calls message)) messages of
           None \<Rightarrow> None
         | Some i \<Rightarrow>
             (case first_index unnamed_call (calls (messages ! i)) of
                None \<Rightarrow> None
              | Some j \<Rightarrow> Some (''messages['' @ show_int (int i) @ ''].tool_calls['' @ show_int (int j)
                               @ ''].function.name is empty'')))"

definition request_deadline :: "pydict \<Rightarrow> real \<Rightarrow> real option" where
  "request_deadline config request_started =
     (let raw = dget config ''request_deadline_seconds''; seconds = safe_float raw 0
      in if raw = PNone \<or> seconds \<le> 0 then None else Some (request_started + seconds))"

section \<open>The plan\<close>

record attempt_plan =
  ap_candidates :: "pydict list"
  ap_candidate_count :: nat
  ap_routed_body :: pydict
  ap_compression_metadata :: pv
  ap_is_virtual :: bool
  ap_candidate_pool :: "pydict list"
  ap_excluded_errors :: "pydict list"
  ap_prompt_tokens_estimate :: int
  ap_context_exclusion_tokens_estimate :: int
  ap_excluded_for_context :: nat
  ap_demoted_for_context :: nat

record plan_ports =
  pp_compress :: "pydict \<Rightarrow> pydict \<Rightarrow> pydict \<times> pv"
  pp_request_token_limit :: "pydict \<Rightarrow> int option"
  pp_virtual_ids :: "pydict \<Rightarrow> string list"

definition DEFAULT_MAX_ATTEMPTS_PER_REQUEST :: int where "DEFAULT_MAX_ATTEMPTS_PER_REQUEST = 4"

definition max_attempts_for_request :: "plan_ports \<Rightarrow> string \<Rightarrow> pydict \<Rightarrow> nat \<Rightarrow> int" where
  "max_attempts_for_request p requested_model config candidate_count =
     (if strip requested_model \<notin> set (pp_virtual_ids p config) then int candidate_count
      else min (int candidate_count) (safe_int (dget config ''max_attempts_per_request'') DEFAULT_MAX_ATTEMPTS_PER_REQUEST))"

definition safety_factor_of :: "pydict \<Rightarrow> real" where
  "safety_factor_of config =
     (let configured = safe_float (dget config ''context_estimate_safety_factor'') 0
      in if 1 \<le> configured then configured else DEFAULT_CONTEXT_ESTIMATE_SAFETY_FACTOR)"

definition plan_attempts :: "plan_ports \<Rightarrow> pydict \<Rightarrow> pydict \<Rightarrow> string \<Rightarrow> pydict list \<Rightarrow> attempt_plan" where
  "plan_attempts p config body requested_model candidates =
     (let max_attempt_count = max_attempts_for_request p requested_model config (length candidates);
          (routed, metadata) = pp_compress p body config;
          (compatible, incompatible_excluded) = exclude_incompatible_candidates routed candidates config;
          prompt_tokens = required_context_tokens routed;
          completion_tokens = requested_completion_tokens routed;
          exclusion_tokens = estimate_request_tokens_for_exclusion routed + completion_tokens;
          (sized, undersized_excluded) =
            exclude_undersized_candidates exclusion_tokens compatible (safety_factor_of config) completion_tokens;
          (eligible, over_limit_excluded) =
            exclude_over_token_limit_candidates (exclusion_tokens - completion_tokens) sized (pp_request_token_limit p);
          (comfortable, tight) = prefer_context_headroom prompt_tokens eligible completion_tokens;
          pool = comfortable @ tight
      in \<lparr>ap_candidates = attempts_with_source_diversity pool max_attempt_count config,
          ap_candidate_count = length candidates,
          ap_routed_body = routed,
          ap_compression_metadata = metadata,
          ap_is_virtual = requested_model \<in> set (pp_virtual_ids p config),
          ap_candidate_pool = pool,
          ap_excluded_errors = (if eligible = [] then incompatible_excluded @ undersized_excluded @ over_limit_excluded else []),
          ap_prompt_tokens_estimate = prompt_tokens,
          ap_context_exclusion_tokens_estimate = exclusion_tokens,
          ap_excluded_for_context = length undersized_excluded,
          ap_demoted_for_context = length tight\<rparr>)"

section \<open>The attempt window\<close>

lemma window_pass_parts:
  "window_pass room cap used cs = (sel, deferred) \<Longrightarrow>
     length sel \<le> room \<and> mset sel + mset deferred \<subseteq># mset cs
     \<and> (length sel < room \<longrightarrow> mset sel + mset deferred = mset cs)"
proof (induction room cap used cs arbitrary: sel deferred rule: window_pass.induct)
  case (2 room cap used c cs)
  show ?case
  proof (cases "room = 0")
    case False
    show ?thesis
    proof (cases "cap \<le> int (used (text_of c ''source''))")
      case True
      with 2(3) False obtain d where d: "window_pass room cap used cs = (sel, d)" "deferred = c # d"
        by (auto simp: Let_def split: prod.splits)
      with 2(1)[OF False refl True d(1)] show ?thesis by (auto simp: subset_mset.add_increasing)
    next
      case F: False
      with 2(3) False obtain s where s: "window_pass (room - 1) cap
          (used(text_of c ''source'' := used (text_of c ''source'') + 1)) cs = (s, deferred)" "sel = c # s"
        by (auto simp: Let_def split: prod.splits)
      with 2(2)[OF False refl F s(1)] False show ?thesis by auto
    qed
  qed (use 2 in auto)
qed auto

text \<open>How often a provider occurs among the candidates selected.\<close>

abbreviation from_source :: "string \<Rightarrow> pydict list \<Rightarrow> nat" where
  "from_source src cs \<equiv> length (filter (\<lambda>c. text_of c ''source'' = src) cs)"

lemma window_pass_cap:
  "window_pass room cap used cs = (sel, deferred) \<Longrightarrow> int (used src) \<le> cap \<Longrightarrow>
     int (used src + from_source src sel) \<le> cap"
proof (induction room cap used cs arbitrary: sel deferred rule: window_pass.induct)
  case (2 room cap used c cs)
  show ?case
  proof (cases "room = 0 \<or> cap \<le> int (used (text_of c ''source''))")
    case True
    with 2 show ?thesis by (cases "room = 0") (auto simp: Let_def split: prod.splits)
  next
    case F: False
    with 2(3) obtain s where s: "window_pass (room - 1) cap
        (used(text_of c ''source'' := used (text_of c ''source'') + 1)) cs = (s, deferred)" "sel = c # s"
      by (auto simp: Let_def split: prod.splits)
    with 2(2)[OF _ refl _ s(1)] F 2(4) show ?thesis
      by (cases "text_of c ''source'' = src") (auto split: if_splits)
  qed
qed auto

text \<open>A candidate is deferred only when its provider has used its cap.\<close>

lemma window_pass_deferred:
  "window_pass room cap used cs = (sel, deferred) \<Longrightarrow> c \<in> set deferred \<Longrightarrow>
     cap \<le> int (used (text_of c ''source'') + from_source (text_of c ''source'') sel)"
proof (induction room cap used cs arbitrary: sel deferred rule: window_pass.induct)
  case (2 room cap used x cs)
  show ?case
  proof (cases "room = 0")
    case False
    show ?thesis
    proof (cases "cap \<le> int (used (text_of x ''source''))")
      case True
      with 2(3) False obtain d where d: "window_pass room cap used cs = (sel, d)" "deferred = x # d"
        by (auto simp: Let_def split: prod.splits)
      with 2(1)[OF False refl True d(1)] 2(4) True show ?thesis by auto
    next
      case F: False
      with 2(3) False obtain s where s: "window_pass (room - 1) cap
          (used(text_of x ''source'' := used (text_of x ''source'') + 1)) cs = (s, deferred)" "sel = x # s"
        by (auto simp: Let_def split: prod.splits)
      with 2(2)[OF False refl F s(1)] 2(4) show ?thesis by (auto split: if_splits)
    qed
  qed (use 2 in auto)
qed auto

lemma window_full:
  assumes "0 < n" "ws = attempts_with_source_diversity cands n config"
  shows "length ws = min (nat n) (length cands) \<and> mset ws \<subseteq># mset cands"
proof (cases "cands = []")
  case False
  obtain sel deferred where p: "window_pass (nat n) (source_cap n config) (\<lambda>_. 0) cands = (sel, deferred)" by fastforce
  with False assms have ws: "ws = sel @ take (nat n - length sel) deferred"
    by (simp add: attempts_with_source_diversity_def)
  note parts = window_pass_parts[OF p]
  have "size (mset sel + mset deferred) \<le> size (mset cands)" using parts size_mset_mono by blast
  then have le: "length sel + length deferred \<le> length cands" by simp
  have eq: "length sel < nat n \<Longrightarrow> length sel + length deferred = length cands"
    using parts by (metis size_mset size_union)
  have "mset (take (nat n - length sel) deferred) \<subseteq># mset deferred"
    by (metis append_take_drop_id mset_append mset_subset_eq_add_left)
  then have "mset ws \<subseteq># mset cands"
    unfolding ws mset_append
    by (rule subset_mset.order_trans[OF subset_mset.add_left_mono parts[THEN conjunct2, THEN conjunct1]])
  moreover have "length ws = min (nat n) (length cands)"
    using ws parts le eq by (cases "length sel < nat n") auto
  ultimately show ?thesis by simp
qed (use assms in \<open>simp add: attempts_with_source_diversity_def\<close>)

text \<open>C27. The attempt window is full and spread: it holds as many candidates as it may, each as often as
  the pool does; and by default, when it has room for two and the pool has a second provider,
  it never belongs to one provider alone, however the pool is ordered.\<close>

theorem window_is_full_and_spread:
  assumes "0 < n" "ws = attempts_with_source_diversity cands n config"
  shows "length ws = min (nat n) (length cands) \<and> mset ws \<subseteq># mset cands
    \<and> (dget config ''max_attempts_per_source'' = PNone \<longrightarrow> 2 \<le> n \<longrightarrow>
        (\<exists>a \<in> set cands. \<exists>b \<in> set cands. text_of a ''source'' \<noteq> text_of b ''source'') \<longrightarrow>
        (\<exists>a \<in> set ws. \<exists>b \<in> set ws. text_of a ''source'' \<noteq> text_of b ''source''))"
proof (intro conjI impI)
  note full = window_full[OF assms]
  then show "length ws = min (nat n) (length cands)" "mset ws \<subseteq># mset cands" by simp_all
  assume cfg: "dget config ''max_attempts_per_source'' = PNone" and n: "2 \<le> n"
    and "\<exists>a \<in> set cands. \<exists>b \<in> set cands. text_of a ''source'' \<noteq> text_of b ''source''"
  then obtain a b where ab: "a \<in> set cands" "b \<in> set cands" "text_of a ''source'' \<noteq> text_of b ''source''" by blast
  have cap: "source_cap n config = n - 1" using cfg n by (simp add: source_cap_def Let_def)
  obtain sel deferred where p: "window_pass (nat n) (source_cap n config) (\<lambda>_. 0) cands = (sel, deferred)" by fastforce
  from ab(1) assms have ws: "ws = sel @ take (nat n - length sel) deferred"
    using p by (auto simp: attempts_with_source_diversity_def)
  have at_most: "int (from_source src sel) \<le> n - 1" for src
    using window_pass_cap[OF p, of src] n cap by simp
  show "\<exists>a \<in> set ws. \<exists>b \<in> set ws. text_of a ''source'' \<noteq> text_of b ''source''"
  proof (rule ccontr)
    assume "\<not> ?thesis"
    then have same: "text_of x ''source'' = text_of y ''source''" if "x \<in> set sel" "y \<in> set sel" for x y
      using that ws by auto
    have one: "length sel \<le> nat (n - 1)"
    proof (cases sel)
      case (Cons x xs)
      then have "filter (\<lambda>c. text_of c ''source'' = text_of x ''source'') sel = sel"
        by (intro filter_True ballI same) (simp_all add: Cons)
      with at_most[of "text_of x ''source''"] show ?thesis by simp
    qed simp
    then have "length sel < nat n" using n by simp
    with window_pass_parts[OF p] have all: "mset sel + mset deferred = mset cands" by simp
    have sel_src: "\<exists>y \<in> set sel. text_of x ''source'' = text_of y ''source''" if "x \<in> set cands" for x
    proof (cases "x \<in> set sel")
      case False
      from that all have "x \<in># mset sel + mset deferred" by simp
      with False have "x \<in> set deferred" by simp
      from window_pass_deferred[OF p this] cap n
      have "0 < from_source (text_of x ''source'') sel" by linarith
      then have "filter (\<lambda>c. text_of c ''source'' = text_of x ''source'') sel \<noteq> []" by simp
      then show ?thesis unfolding filter_empty_conv by metis
    qed blast
    obtain x y where "x \<in> set sel" "y \<in> set sel" "text_of a ''source'' = text_of x ''source''"
      "text_of b ''source'' = text_of y ''source''"
      using sel_src[OF ab(1)] sel_src[OF ab(2)] by blast
    with same ab(3) show False by metis
  qed
qed

definition example_pool :: "pydict list" where
  "example_pool = [[(''source'', PStr ''a''), (''id'', PStr ''1'')], [(''source'', PStr ''a''), (''id'', PStr ''2'')],
     [(''source'', PStr ''b''), (''id'', PStr ''3'')]]"

lemma window_is_full_and_spread_witness:
  "length (attempts_with_source_diversity example_pool 2 []) = 2
   \<and> (\<exists>a \<in> set (attempts_with_source_diversity example_pool 2 []).
        \<exists>b \<in> set (attempts_with_source_diversity example_pool 2 []). text_of a ''source'' \<noteq> text_of b ''source'')"
proof -
  have "length example_pool = 3" "dget [] ''max_attempts_per_source'' = PNone"
    "list_ex (\<lambda>a. list_ex (\<lambda>b. text_of a ''source'' \<noteq> text_of b ''source'') example_pool) example_pool"
    by code_simp+
  with window_is_full_and_spread[of 2 "attempts_with_source_diversity example_pool 2 []" example_pool "[]", OF _ refl]
  show ?thesis by (simp add: list_ex_iff)
qed

section \<open>Sizes\<close>

text \<open>The estimate that excludes a candidate is never above the one that only demotes it.\<close>

lemma exclusion_estimate_is_lower:
  "1 \<le> estimate_request_tokens_for_exclusion body \<and> estimate_request_tokens_for_exclusion body \<le> estimate_request_tokens body"
proof -
  let ?m = "real (dense_base64_chars (dget body ''messages''))"
  have "(?m * 3 / 4) / DECODED_MEDIA_BYTES_PER_TOKEN \<le> ?m / BASE64_CHARS_PER_TOKEN"
    by (simp add: DECODED_MEDIA_BYTES_PER_TOKEN_def BASE64_CHARS_PER_TOKEN_def)
  then have "\<lceil>(?m * 3 / 4) / DECODED_MEDIA_BYTES_PER_TOKEN\<rceil> \<le> \<lceil>?m / BASE64_CHARS_PER_TOKEN\<rceil>" by (rule ceiling_mono)
  then show ?thesis
    unfolding estimate_request_tokens_for_exclusion_def estimate_request_tokens_def by linarith
qed

section \<open>The plan\<close>

lemma window_sub: "set (attempts_with_source_diversity cands n config) \<subseteq> set cands"
proof (cases "0 < n")
  case True
  from window_full[OF this refl, of cands config] show ?thesis using set_mset_mono by fastforce
qed (simp add: attempts_with_source_diversity_def)

text \<open>A candidate the request may be sent to: its provider takes the tool schemas, its known context holds
  the request with the safety margin on the prompt, and no learned token cap rules it out.\<close>

definition sendable :: "plan_ports \<Rightarrow> pydict \<Rightarrow> pydict \<Rightarrow> pydict \<Rightarrow> bool" where
  "sendable p config routed c \<longleftrightarrow>
     (let completion = requested_completion_tokens routed;
          prompt = estimate_request_tokens_for_exclusion routed
      in incompatible_features routed config c = []
         \<and> context_fits c (headroom (prompt + completion) completion (safety_factor_of config))
         \<and> \<not> over_token_limit prompt (pp_request_token_limit p) c)"

lemma incompatible_split:
  "exclude_incompatible_candidates routed cands config = (keep, rows) \<Longrightarrow>
     keep = filter (\<lambda>c. incompatible_features routed config c = []) cands \<and> length keep + length rows = length cands"
  by (auto simp: exclude_incompatible_candidates_def incompatible_features_def list_all_iff filter_True
      sum_length_filter_compl split: if_splits)

lemma undersized_split:
  "exclude_undersized_candidates n cands factor completion = (keep, rows) \<Longrightarrow>
     keep = filter (\<lambda>c. context_fits c (headroom n completion factor)) cands \<and> length keep + length rows = length cands"
  by (auto simp: exclude_undersized_candidates_def candidate_context_too_small_def Let_def sum_length_filter_compl)

lemma over_limit_split:
  "exclude_over_token_limit_candidates n cands limit = (keep, rows) \<Longrightarrow>
     keep = filter (\<lambda>c. \<not> over_token_limit n limit c) cands \<and> length keep + length rows = length cands"
  using sum_length_filter_compl[of "over_token_limit n limit" cands]
  by (auto simp: exclude_over_token_limit_candidates_def Let_def)

lemma partition_split: "partition P xs = (ys, zs) \<Longrightarrow> ys = filter P xs \<and> zs = filter (Not \<circ> P) xs"
  by (metis fst_conv snd_conv partition_filter1 partition_filter2)

lemma plan_pool:
  assumes "plan = plan_attempts p config body requested cands"
  obtains comfortable tight where
    "ap_candidate_pool plan = comfortable @ tight"
    "mset (ap_candidate_pool plan) = mset (filter (sendable p config (ap_routed_body plan)) cands)"
    "(comfortable, tight) = partition (\<lambda>c. context_fits c (headroom (ap_prompt_tokens_estimate plan)
        (requested_completion_tokens (ap_routed_body plan)) CONTEXT_HEADROOM_FACTOR)) (filter (sendable p config (ap_routed_body plan)) cands)"
    "ap_candidates plan = attempts_with_source_diversity (ap_candidate_pool plan)
       (max_attempts_for_request p requested config (length cands)) config"
    "length (ap_excluded_errors plan) = (if ap_candidate_pool plan = [] then length cands else 0)"
proof -
  obtain routed metadata where r: "pp_compress p body config = (routed, metadata)" by fastforce
  obtain compat rows1 where i: "exclude_incompatible_candidates routed cands config = (compat, rows1)" by fastforce
  let ?completion = "requested_completion_tokens routed"
  let ?excl = "estimate_request_tokens_for_exclusion routed + ?completion"
  obtain sized rows2 where s: "exclude_undersized_candidates ?excl compat (safety_factor_of config) ?completion = (sized, rows2)"
    by fastforce
  obtain eligible rows3 where e: "exclude_over_token_limit_candidates (?excl - ?completion) sized (pp_request_token_limit p) = (eligible, rows3)"
    by fastforce
  obtain comfortable tight where h: "prefer_context_headroom (required_context_tokens routed) eligible ?completion = (comfortable, tight)"
    by fastforce
  note unfold = assms[unfolded plan_attempts_def Let_def r prod.case i s e h]
  note h' = partition_split[OF h[unfolded prefer_context_headroom_def]]
  have el: "eligible = filter (sendable p config routed) cands"
  proof -
    let ?prompt = "estimate_request_tokens_for_exclusion routed"
    have "eligible = filter (\<lambda>c. \<not> over_token_limit ?prompt (pp_request_token_limit p) c)
        (filter (\<lambda>c. context_fits c (headroom ?excl ?completion (safety_factor_of config)))
          (filter (\<lambda>c. incompatible_features routed config c = []) cands))"
      using incompatible_split[OF i] undersized_split[OF s] over_limit_split[OF e] by simp
    then show ?thesis unfolding filter_filter by (auto simp: sendable_def Let_def intro!: filter_cong)
  qed
  have lens: "length eligible + length rows3 = length sized" "length sized + length rows2 = length compat"
    by (rule over_limit_split[OF e, THEN conjunct2], rule undersized_split[OF s, THEN conjunct2])
  show thesis
  proof (rule that[of comfortable tight])
    show "ap_candidate_pool plan = comfortable @ tight" by (simp add: unfold)
    show "mset (ap_candidate_pool plan) = mset (filter (sendable p config (ap_routed_body plan)) cands)"
      using h' arg_cong[OF el, of mset] by (simp add: unfold comp_def)
    show "(comfortable, tight) = partition (\<lambda>c. context_fits c (headroom (ap_prompt_tokens_estimate plan)
        (requested_completion_tokens (ap_routed_body plan)) CONTEXT_HEADROOM_FACTOR)) (filter (sendable p config (ap_routed_body plan)) cands)"
      using h[unfolded prefer_context_headroom_def] el by (simp add: unfold)
    show "ap_candidates plan = attempts_with_source_diversity (ap_candidate_pool plan)
       (max_attempts_for_request p requested config (length cands)) config" by (simp add: unfold)
    have "ap_candidate_pool plan = [] \<longleftrightarrow> eligible = []" using h' by (auto simp: unfold filter_empty_conv)
    then show "length (ap_excluded_errors plan) = (if ap_candidate_pool plan = [] then length cands else 0)"
      using lens incompatible_split[OF i, THEN conjunct2] by (cases "eligible = []") (auto simp: unfold)
  qed
qed



end
