(* ===== verification/RetryHints.thy ===== *)
theory RetryHints
  imports PyJson
begin

text \<open>
  The delay a provider asks for (\<open>retry_hints.py\<close>): from its own millisecond headers, from
  \<open>Retry-After\<close> as seconds or as a date, or from the fields of its error body, bounded to
  between a second and a day. \<open>parsedate_to_datetime\<close> is modelled for the date form HTTP
  prescribes and its numeric zones; the current time is an argument. Headers are an ordered
  dictionary, and a byte body is its decoded text.
\<close>

section \<open>Durations\<close>

definition MIN_RETRY_SECONDS :: int where "MIN_RETRY_SECONDS = 1"
definition MAX_RETRY_SECONDS :: int where "MAX_RETRY_SECONDS = 86400"

definition DURATION_PATTERN :: re where
  "DURATION_PATTERN =
     Seq [Star space_re, Cap (Cat (Plus digit_re) (Opt (Cat (Lit ''.'') (Plus digit_re)))), Star space_re,
          Opt (Cap (Alts [LitI ''ms'', LitI ''s'', LitI ''m'', LitI ''h''])), Star space_re]"

definition BODY_KEYS :: "string list" where
  "BODY_KEYS = [''retrydelay'', ''retry_after'', ''retryafter'']"

definition bounded_seconds :: "pyfloat \<Rightarrow> int option" where
  "bounded_seconds v =
     (case v of
        Fin r \<Rightarrow> if r < 0 then None else Some (max MIN_RETRY_SECONDS (min MAX_RETRY_SECONDS \<lceil>r\<rceil>))
      | _ \<Rightarrow> None)"

definition unit_seconds :: "string \<Rightarrow> real" where
  "unit_seconds u = (if u = ''ms'' then 1 / 1000 else if u = ''m'' then 60 else if u = ''h'' then 3600 else 1)"

text \<open>\<open>float(text)\<close> and \<open>ValueError\<close>; an amount of the pattern always parses.\<close>

definition duration_seconds :: "pv \<Rightarrow> int option" where
  "duration_seconds v =
     (case v of
        PBool _ \<Rightarrow> None
      | PInt i \<Rightarrow> bounded_seconds (Fin (of_int i))
      | PFloat f \<Rightarrow> bounded_seconds f
      | _ \<Rightarrow>
          (case re_fullmatch DURATION_PATTERN (py_str (por v (PStr []))) of
             Some (amount # units) \<Rightarrow>
               (case parse_float amount of
                  Some (Fin r) \<Rightarrow>
                    bounded_seconds (Fin (r * unit_seconds (case units of [] \<Rightarrow> ''s'' | u # _ \<Rightarrow> lower u)))
                | _ \<Rightarrow> None)
           | _ \<Rightarrow> None))"

section \<open>Headers\<close>

definition header_value :: "pydict \<Rightarrow> string \<Rightarrow> pv" where
  "header_value headers name =
     (case List.find (\<lambda>(key, _). lower key = lower name) headers of None \<Rightarrow> PNone | Some (_, v) \<Rightarrow> v)"

definition HTTP_DATE_PATTERN :: re where
  "HTTP_DATE_PATTERN =
     Seq [Opt (Seq [Plus (Chr (\<lambda>c. is_lower c \<or> is_upper c)), Lit '','', Plus space_re]),
          Cap (Cat digit_re (Opt digit_re)), Plus space_re,
          Cap (Alts (map LitI [''jan'', ''feb'', ''mar'', ''apr'', ''may'', ''jun'', ''jul'', ''aug'', ''sep'', ''oct'',
                               ''nov'', ''dec''])), Plus space_re,
          Cap (Seq [digit_re, digit_re, digit_re, digit_re]), Plus space_re,
          Cap (Cat digit_re digit_re), Lit '':'', Cap (Cat digit_re digit_re), Lit '':'', Cap (Cat digit_re digit_re),
          Plus space_re,
          Cap (Alts [LitI ''gmt'', LitI ''utc'', Seq [any_of ''+-'', digit_re, digit_re, digit_re, digit_re]])]"

definition month_number :: "string \<Rightarrow> int" where
  "month_number name =
     (case map_of (zip [''jan'', ''feb'', ''mar'', ''apr'', ''may'', ''jun'', ''jul'', ''aug'', ''sep'', ''oct'', ''nov'', ''dec'']
                    [1, 2, 3, 4, 5, 6, 7, 8, 9, 10, 11, 12]) (lower name) of None \<Rightarrow> 0 | Some n \<Rightarrow> n)"

definition zone_seconds :: "string \<Rightarrow> int" where
  "zone_seconds zone =
     (case zone of
        s # h1 # h2 # m1 # m2 # [] \<Rightarrow>
          (if s = CHR ''-'' then - 1 else 1) * (3600 * digits_val [h1, h2] + 60 * digits_val [m1, m2])
      | _ \<Rightarrow> 0)"

definition parsedate :: "string \<Rightarrow> real option" where
  "parsedate text =
     (case re_fullmatch HTTP_DATE_PATTERN text of
        Some [d, mon, y, h, mi, sec, zone] \<Rightarrow>
          (let day = digits_val d; m = month_number mon; year = digits_val y in
           if 1 \<le> day \<and> day \<le> days_in_month year m \<and> digits_val h < 24 \<and> digits_val mi < 60 \<and> digits_val sec < 60
           then Some (of_int (86400 * days_from_civil year m day + 3600 * digits_val h + 60 * digits_val mi + digits_val sec
                              - zone_seconds zone))
           else None)
      | _ \<Rightarrow> None)"

definition standard_retry_after :: "pv \<Rightarrow> real \<Rightarrow> int option" where
  "standard_retry_after v now =
     (let text = strip (py_str (por v (PStr []))) in
      case parse_float text of
        Some f \<Rightarrow> bounded_seconds f
      | None \<Rightarrow> (case parsedate text of None \<Rightarrow> None | Some t \<Rightarrow> bounded_seconds (Fin (t - now))))"

section \<open>Bodies\<close>

text \<open>Depth first, at most nine levels and the first 32 items of a list; the first field that holds a
  duration answers. The first argument is the number of levels left.\<close>

fun first_some :: "('a \<Rightarrow> 'b option) \<Rightarrow> 'a list \<Rightarrow> 'b option" where
  "first_some f [] = None"
| "first_some f (x # xs) = (case f x of Some y \<Rightarrow> Some y | None \<Rightarrow> first_some f xs)"

fun body_retry_hint :: "nat \<Rightarrow> pv \<Rightarrow> int option" where
  "body_retry_hint 0 v = None"
| "body_retry_hint (Suc n) v =
     (case v of
        PDict d \<Rightarrow>
          first_some (\<lambda>(key, child).
            case (if lower key \<in> set BODY_KEYS then duration_seconds child else None) of
              Some seconds \<Rightarrow> Some seconds
            | None \<Rightarrow> body_retry_hint n child) d
      | PList xs \<Rightarrow> first_some (body_retry_hint n) (take 32 xs)
      | _ \<Rightarrow> None)"

definition BODY_DEPTH :: nat where "BODY_DEPTH = 9"

section \<open>The hint\<close>

text \<open>The seconds and the name of what stated them.\<close>

definition millisecond_hint :: "pydict \<Rightarrow> string \<Rightarrow> (int \<times> string) option" where
  "millisecond_hint headers name =
     (let v = header_value headers name in
      if v = PNone then None
      else (case py_float v of
              Some (Fin r) \<Rightarrow> map_option (\<lambda>seconds. (seconds, name)) (bounded_seconds (Fin (r / 1000)))
            | _ \<Rightarrow> None))"

definition retry_hint :: "pydict \<Rightarrow> pv \<Rightarrow> real \<Rightarrow> (int \<times> string) option" where
  "retry_hint headers body now =
     (case first_some (millisecond_hint headers) [''retry-after-ms'', ''x-ms-retry-after-ms''] of
        Some hint \<Rightarrow> Some hint
      | None \<Rightarrow>
          (let v = header_value headers ''retry-after'' in
           case (if v = PNone then None else standard_retry_after v now) of
             Some seconds \<Rightarrow> Some (seconds, ''retry-after'')
           | None \<Rightarrow>
               map_option (\<lambda>seconds. (seconds, ''body''))
                 (body_retry_hint BODY_DEPTH
                   (case body of PStr s \<Rightarrow> (case json_loads s of None \<Rightarrow> PNone | Some v \<Rightarrow> v) | v \<Rightarrow> v))))"

section \<open>Bounds\<close>

lemma bounded_seconds_range: "bounded_seconds f = Some n \<Longrightarrow> 1 \<le> n \<and> n \<le> 86400"
  by (auto simp: bounded_seconds_def MIN_RETRY_SECONDS_def MAX_RETRY_SECONDS_def split: pyfloat.splits if_splits)

lemma bounded_seconds_enough: "bounded_seconds (Fin r) = Some n \<Longrightarrow> r \<le> 86400 \<Longrightarrow> r \<le> of_int n"
  by (auto simp: bounded_seconds_def MIN_RETRY_SECONDS_def MAX_RETRY_SECONDS_def split: if_splits) linarith

lemma duration_seconds_range: "duration_seconds v = Some n \<Longrightarrow> 1 \<le> n \<and> n \<le> 86400"
  by (auto simp: duration_seconds_def split: pv.splits option.splits list.splits pyfloat.splits
      dest: bounded_seconds_range)

lemma first_some_SomeD: "first_some f xs = Some y \<Longrightarrow> \<exists>x \<in> set xs. f x = Some y"
  by (induction xs) (auto split: option.splits)

lemma body_retry_hint_range: "body_retry_hint k v = Some n \<Longrightarrow> 1 \<le> n \<and> n \<le> 86400"
proof (induction k v rule: body_retry_hint.induct)
  case (2 k v)
  then show ?case
    by (auto split: pv.splits option.splits if_splits dest!: first_some_SomeD duration_seconds_range)
qed simp

lemma millisecond_hint_facts:
  "millisecond_hint headers name = Some (n, src) \<Longrightarrow> src = name \<and> 1 \<le> n \<and> n \<le> 86400"
  by (auto simp: millisecond_hint_def Let_def split: if_splits option.splits pyfloat.splits dest!: bounded_seconds_range)

lemma standard_retry_after_range: "standard_retry_after v now = Some n \<Longrightarrow> 1 \<le> n \<and> n \<le> 86400"
  by (auto simp: standard_retry_after_def Let_def split: option.splits dest: bounded_seconds_range)



end
