(* ===== verification/AttemptVerdict.thy ===== *)
theory AttemptVerdict
  imports AttemptPlan RetryHints ExceptionChain
begin

text \<open>
  What one attempt of a chat request amounts to (the \<open>evaluate_*\<close> functions of
  \<open>use_cases/chat_completion.py\<close>, the readings of a payload in \<open>use_cases/benchmark.py\<close> and
  \<open>success_error_payload_failure\<close> of \<open>router.py\<close>): a success, a failure to retry elsewhere, a
  failure that ends the request, or a failure after bytes were sent. A response carries what
  the code reads of it; its JSON or its text may be unreadable, and then the text of the
  exception stands in the left component. The markers of a provider's adapter and the
  free-access metadata are ports.
\<close>

section \<open>Readings of a payload\<close>

definition first_choice :: "pv \<Rightarrow> pydict" where
  "first_choice payload =
     (case as_list (dget (as_dict payload) ''choices'') of c # _ \<Rightarrow> as_dict c | [] \<Rightarrow> [])"

definition first_choice_finish_reason :: "pv \<Rightarrow> string" where
  "first_choice_finish_reason payload = lower (strip (text_of (first_choice payload) ''finish_reason''))"

definition TRUNCATION_FINISH_REASONS :: "string list" where
  "TRUNCATION_FINISH_REASONS =
     [''length'', ''model_length'', ''max_tokens'', ''max_output_tokens'', ''max_completion_tokens'']"

definition ERROR_FINISH_REASONS :: "string list" where "ERROR_FINISH_REASONS = [''error'']"

definition finish_reason_is_truncation :: "pv \<Rightarrow> bool" where
  "finish_reason_is_truncation payload \<longleftrightarrow> first_choice_finish_reason payload \<in> set TRUNCATION_FINISH_REASONS"

definition finish_reason_is_error :: "pv \<Rightarrow> bool" where
  "finish_reason_is_error payload \<longleftrightarrow> first_choice_finish_reason payload \<in> set ERROR_FINISH_REASONS"

definition text_parts :: "pv list \<Rightarrow> string list" where
  "text_parts items = List.map_filter (\<lambda>item. case dget (as_dict item) ''text'' of PStr s \<Rightarrow> Some s | _ \<Rightarrow> None) items"

definition extract_message_text :: "pv \<Rightarrow> string" where
  "extract_message_text payload =
     (case dget (section_of (first_choice payload) ''message'') ''content'' of
        PStr s \<Rightarrow> strip s
      | PList items \<Rightarrow> strip (join [CHR 0x0A] (text_parts items))
      | _ \<Rightarrow> [])"

definition extract_tool_calls :: "pv \<Rightarrow> pv list" where
  "extract_tool_calls payload =
     filter is_dict (as_list (dget (section_of (first_choice payload) ''message'') ''tool_calls''))"

definition has_deliverable_message :: "pv \<Rightarrow> bool" where
  "has_deliverable_message payload \<longleftrightarrow> extract_message_text payload \<noteq> [] \<or> extract_tool_calls payload \<noteq> []"

text \<open>The characters generated, over the shapes providers use.\<close>

definition arguments_chars :: "pv \<Rightarrow> nat" where
  "arguments_chars arguments =
     (case arguments of PStr s \<Rightarrow> length s | PDict d \<Rightarrow> length (json_dumps (PDict d)) | _ \<Rightarrow> 0)"

definition assistant_output_chars :: "pv \<Rightarrow> nat" where
  "assistant_output_chars holder =
     (let d = as_dict holder in
      sum_list (map (\<lambda>key. case dget d key of
                  PStr s \<Rightarrow> length s
                | PList items \<Rightarrow> sum_list (map length (text_parts items))
                | _ \<Rightarrow> 0) [''content'', ''reasoning'', ''reasoning_content'', ''refusal''])
      + sum_list (map (\<lambda>call. arguments_chars (dget (section_of (as_dict call) ''function'') ''arguments''))
          (as_list (dget d ''tool_calls'')))
      + arguments_chars (dget (section_of d ''function_call'') ''arguments'')
      + (case dget (section_of d ''audio'') ''transcript'' of PStr s \<Rightarrow> length s | _ \<Rightarrow> 0))"

definition non_streaming_completion_chars :: "pv \<Rightarrow> nat" where
  "non_streaming_completion_chars payload =
     sum_list (map (\<lambda>choice. assistant_output_chars (dget (as_dict choice) ''message''))
       (as_list (dget (as_dict payload) ''choices'')))"

definition normalized_token_usage :: "pv \<Rightarrow> pydict option" where
  "normalized_token_usage raw =
     (case raw of
        PDict d \<Rightarrow>
          (let prompt = py_int (dget d ''prompt_tokens''); completion = py_int (dget d ''completion_tokens'');
               count = (\<lambda>n. PInt (max 0 (case n of None \<Rightarrow> 0 | Some i \<Rightarrow> i)))
           in if prompt = None \<and> completion = None then None
              else Some [(''prompt_tokens'', count prompt), (''completion_tokens'', count completion)])
      | _ \<Rightarrow> None)"

section \<open>Classification for a model\<close>

record verdict_ports =
  vp_free_access :: "pydict \<Rightarrow> pydict"
  vp_markers :: "string \<Rightarrow> failure_markers"

definition classify_for_model :: "verdict_ports \<Rightarrow> int option \<Rightarrow> string \<Rightarrow> string list \<Rightarrow> pydict \<Rightarrow> string" where
  "classify_for_model p status_code text error_codes model =
     (let source = text_of model ''source'' in
      classify_failure status_code text error_codes (PDict (vp_free_access p model))
        (if source = [] then None else Some (vp_markers p source)) (text_of model ''upstream_id''))"

definition payload_status :: "pv \<Rightarrow> int option" where
  "payload_status raw_code =
     (case raw_code of
        PInt i \<Rightarrow> Some i | PBool b \<Rightarrow> Some (if b then 1 else 0) | PStr s \<Rightarrow> parse_int s | _ \<Rightarrow> None)"

text \<open>An error object in a successful response: its reason, its message and its status.\<close>

definition success_error_payload_failure ::
  "verdict_ports \<Rightarrow> pv \<Rightarrow> pydict \<Rightarrow> (string \<times> string \<times> int option) option" where
  "success_error_payload_failure p payload model =
     (case dget (as_dict payload) ''error'' of
        PDict error \<Rightarrow>
          (let message = text_or ''provider returned an error payload with HTTP 200'' (safe_detail (dget error ''message''));
               raw_code = por (por (dget error ''code'') (dget error ''status'')) (dget error ''status_code'');
               codes = error_object_codes error;
               status = (case payload_status raw_code of
                           Some i \<Rightarrow> Some i
                         | None \<Rightarrow> status_for_error_codes ((case raw_code of PStr s \<Rightarrow> [s] | _ \<Rightarrow> []) @ codes))
           in Some (classify_for_model p status (json_dumps (PDict error)) codes model, message, status))
      | _ \<Rightarrow> None)"

section \<open>Decisions\<close>

datatype outcome = Success | RetryableFailure | TerminalFailure | MidStreamFailure

record attempt_decision =
  de_outcome :: outcome
  de_update :: pydict
  de_error :: "pydict option"
  de_cooldown_reason :: string
  de_cooldown_detail :: string
  de_cooldown_status :: pv
  de_usage :: "pydict option"
  de_retry_after :: "(int \<times> string) option"

text \<open>\<open>_ficelle_*\<close> attributes of a response or an exception are a dictionary.\<close>

record upstream_response =
  rs_status :: int
  rs_json :: "string + pv"
  rs_text :: "string + string"
  rs_headers :: pydict
  rs_attrs :: pydict

record raised =
  ra_heap :: exc_heap
  ra_addr :: nat
  ra_text :: string
  ra_attrs :: pydict
  ra_retry_after :: int

definition should_retry :: "string \<Rightarrow> bool \<Rightarrow> bool" where
  "should_retry reason is_virtual \<longleftrightarrow> is_virtual \<and> reason \<notin> set NON_RETRYABLE_FAILURE_REASONS"

definition rounded4 :: "real \<Rightarrow> pv" where
  "rounded4 r = PReal (py_round 4 r)"

definition model_fields :: "pydict \<Rightarrow> pydict" where
  "model_fields model =
     [(''model'', dget model ''id''), (''upstream'', dget model ''upstream_id''), (''source'', dget model ''source'')]"

definition non_streaming_failure ::
  "pydict \<Rightarrow> int \<Rightarrow> string \<Rightarrow> real \<Rightarrow> string \<Rightarrow> string \<Rightarrow> bool \<Rightarrow> attempt_decision" where
  "non_streaming_failure model status reason latency cooldown_reason cooldown_detail retry =
     \<lparr>de_outcome = (if retry then RetryableFailure else TerminalFailure),
      de_update = [(''status'', PInt status), (''reason'', PStr reason), (''latency_seconds'', rounded4 latency)],
      de_error = Some (model_fields model @ [(''status'', PInt status), (''reason'', PStr reason)]),
      de_cooldown_reason = cooldown_reason, de_cooldown_detail = cooldown_detail, de_cooldown_status = PInt status,
      de_usage = None, de_retry_after = None\<rparr>"

definition success_decision :: "pydict \<Rightarrow> pydict option \<Rightarrow> attempt_decision" where
  "success_decision update usage =
     \<lparr>de_outcome = Success, de_update = update, de_error = None, de_cooldown_reason = [], de_cooldown_detail = [],
      de_cooldown_status = PNone, de_usage = usage, de_retry_after = None\<rparr>"

definition over_budget :: "int option \<Rightarrow> nat \<Rightarrow> bool" where
  "over_budget budget chars \<longleftrightarrow> (case budget of None \<Rightarrow> False | Some n \<Rightarrow> n < int chars)"

definition evaluate_non_streaming_success_response ::
  "verdict_ports \<Rightarrow> upstream_response \<Rightarrow> pydict \<Rightarrow> real \<Rightarrow> bool \<Rightarrow> int option \<Rightarrow> attempt_decision" where
  "evaluate_non_streaming_success_response p response model latency is_virtual max_completion_chars =
     (case rs_json response of
        Inl exc \<Rightarrow> non_streaming_failure model (rs_status response) ''invalid_success_json'' latency ''unavailable''
                    (''invalid JSON success response: '' @ exc) is_virtual
      | Inr payload \<Rightarrow>
          (case success_error_payload_failure p payload model of
             Some (reason, detail, status) \<Rightarrow>
               non_streaming_failure model
                 (case status of Some i \<Rightarrow> if i = 0 then rs_status response else i | None \<Rightarrow> rs_status response)
                 reason latency reason detail (should_retry reason is_virtual)
           | None \<Rightarrow>
               if finish_reason_is_error payload
               then non_streaming_failure model (rs_status response) ''upstream_finish_error'' latency ''unavailable''
                      (''success response ended with finish_reason '' @ [CHR 0x22] @ ''error'' @ [CHR 0x22]) is_virtual
               else if over_budget max_completion_chars (non_streaming_completion_chars payload)
               then non_streaming_failure model (rs_status response) ''runaway_output'' latency ''runaway_output''
                      (''completion reached the '' @ show_int (the max_completion_chars) @ ''-character profile limit'') is_virtual
               else if \<not> has_deliverable_message payload
               then (if finish_reason_is_truncation payload
                     then non_streaming_failure model (rs_status response) ''truncated_before_content'' latency
                            ''truncated_before_content''
                            ''response hit the completion token budget before emitting assistant content'' is_virtual
                     else non_streaming_failure model (rs_status response) ''empty_assistant_message'' latency ''unavailable''
                            ''success response had no assistant content or tool calls'' is_virtual)
               else success_decision
                      [(''status'', PInt (rs_status response)), (''reason'', PStr ''ok''), (''latency_seconds'', rounded4 latency)]
                      (normalized_token_usage (dget (as_dict payload) ''usage''))))"

section \<open>Streamed answers\<close>

definition non_negative_seconds :: "pv \<Rightarrow> real option" where
  "non_negative_seconds raw =
     (case num_of raw of Some (Fin r) \<Rightarrow> if 0 \<le> r then Some (py_round 4 r) else None | _ \<Rightarrow> None)"

definition put_seconds :: "string \<Rightarrow> pv \<Rightarrow> pydict \<Rightarrow> pydict" where
  "put_seconds fld raw d = (case non_negative_seconds raw of None \<Rightarrow> d | Some r \<Rightarrow> dset fld (PReal r) d)"

definition put_if :: "bool \<Rightarrow> string \<Rightarrow> pv \<Rightarrow> pydict \<Rightarrow> pydict" where
  "put_if b fld v d = (if b then dset fld v d else d)"

definition TIMEOUT_PHASES :: "string list" where
  "TIMEOUT_PHASES = [''connect'', ''response_headers'', ''response_body'']"

text \<open>The status an error event states by name or by number, when the stream failed before it started.\<close>

definition stream_error_status :: "pydict \<Rightarrow> int option" where
  "stream_error_status stream_result =
     (let error_code = strip (text_of stream_result ''error_type'') in
      if dget stream_result ''status'' = PStr ''error'' \<and> \<not> truthy (dget stream_result ''stream_started'')
         \<and> py_str (por (dget stream_result ''reason'') (PStr ''stream_failure'')) = ''pre_stream_failure''
      then (case status_for_error_codes [error_code] of
              Some i \<Rightarrow> Some i
            | None \<Rightarrow> (case parse_int error_code of
                         Some i \<Rightarrow> if 100 \<le> i \<and> i \<le> 599 then Some i else None
                       | None \<Rightarrow> None))
      else None)"

definition stream_reason :: "verdict_ports \<Rightarrow> pydict \<Rightarrow> pydict \<Rightarrow> string" where
  "stream_reason p stream_result model =
     (case stream_error_status stream_result of
        Some status \<Rightarrow>
          classify_for_model p (Some status)
            (strip (strip (text_of stream_result ''error_type'') @ '': '' @ strip (text_of stream_result ''message''))) [] model
      | None \<Rightarrow> py_str (por (dget stream_result ''reason'') (PStr ''stream_failure'')))"

definition stream_update :: "pydict \<Rightarrow> int \<Rightarrow> string \<Rightarrow> real \<Rightarrow> pydict" where
  "stream_update stream_result attempt_status reason latency =
     (let error_code = strip (text_of stream_result ''error_type''); message = strip (text_of stream_result ''message'');
          failed = (dget stream_result ''status'' \<noteq> PStr ''ok'');
          phase = dget stream_result ''timeout_phase''; chars = dget stream_result ''completion_chars''
      in put_if (chars \<noteq> PNone) ''completion_chars'' (PInt (safe_int chars 0))
          (put_if (failed \<and> message \<noteq> []) ''error_detail'' (opt_str (sanitize_error_detail (PStr message) UPSTREAM_DETAIL_LIMIT))
            (put_if (failed \<and> error_code \<noteq> []) ''error_type'' (PStr error_code)
              (put_if (phase \<in> set (map PStr TIMEOUT_PHASES)) ''timeout_phase'' phase
                (put_seconds ''first_delta_seconds'' (dget stream_result ''first_delta_seconds'')
                  [(''status'', PInt attempt_status), (''reason'', PStr reason), (''latency_seconds'', rounded4 latency),
                   (''stream_started'', PBool (truthy (dget stream_result ''stream_started''))),
                   (''stream_chunk_count'', PInt (safe_int (dget stream_result ''chunk_count'') 0)),
                   (''stream_bytes_sent'', PInt (safe_int (dget stream_result ''bytes_sent'') 0))])))))"

text \<open>A stream that reported \<open>ok\<close> has sent its bytes: whatever is wrong with it ends the attempt.\<close>

definition stream_end ::
  "string \<Rightarrow> string \<Rightarrow> string \<Rightarrow> pydict \<Rightarrow> pydict \<Rightarrow> pydict option \<Rightarrow> attempt_decision" where
  "stream_end reason cooldown_reason cooldown_detail update error usage =
     \<lparr>de_outcome = MidStreamFailure, de_update = dset ''reason'' (PStr reason) update,
      de_error = Some (dset ''reason'' (PStr reason) error), de_cooldown_reason = cooldown_reason,
      de_cooldown_detail = cooldown_detail, de_cooldown_status = PStr ''stream_error'', de_usage = usage, de_retry_after = None\<rparr>"

definition evaluate_streaming_result ::
  "verdict_ports \<Rightarrow> pydict \<Rightarrow> pydict \<Rightarrow> int \<Rightarrow> real \<Rightarrow> bool \<Rightarrow> attempt_decision" where
  "evaluate_streaming_result p stream_result model response_status latency is_virtual =
     (let reason = stream_reason p stream_result model;
          started = truthy (dget stream_result ''stream_started'');
          classified = stream_error_status stream_result;
          attempt_status = (case classified of Some i \<Rightarrow> i | None \<Rightarrow> response_status);
          update = stream_update stream_result attempt_status reason latency;
          error = model_fields model @ [(''status'', PInt attempt_status), (''reason'', PStr reason), (''stream_started'', PBool started)];
          message = strip (text_of stream_result ''message'');
          usage = normalized_token_usage (dget stream_result ''usage'');
          choice = PDict [(''choices'', PList [PDict [(''finish_reason'', por (dget stream_result ''finish_reason'') (PStr []))]])]
      in if reason = ''runaway_output''
         then \<lparr>de_outcome = (if started then MidStreamFailure else if is_virtual then RetryableFailure else TerminalFailure),
               de_update = update, de_error = Some error, de_cooldown_reason = ''runaway_output'',
               de_cooldown_detail = (if message \<noteq> [] then message
                 else ''streamed completion exceeded the profile'' @ [CHR 0x27] @ ''s character budget''),
               de_cooldown_status = PStr ''stream_error'', de_usage = None, de_retry_after = None\<rparr>
         else if dget stream_result ''status'' = PStr ''ok'' then
           (if finish_reason_is_error choice
            then stream_end ''upstream_finish_error'' ''unavailable''
                   (''streamed response ended with finish_reason '' @ [CHR 0x22] @ ''error'' @ [CHR 0x22]) update error usage
            else if \<not> truthy (dget_or stream_result ''deliverable_sent'' (PBool True)) then
              (if finish_reason_is_truncation choice
               then stream_end ''truncated_before_content'' ''truncated_before_content''
                      ''streamed response hit the completion token budget before emitting assistant content'' update error usage
               else stream_end ''empty_assistant_message'' ''unavailable''
                      ''streamed response had no assistant content or tool calls'' update error usage)
            else success_decision update usage)
         else
           \<lparr>de_outcome = (if started then MidStreamFailure
                          else if should_retry reason is_virtual then RetryableFailure else TerminalFailure),
            de_update = update, de_error = Some error,
            de_cooldown_reason = (if classified \<noteq> None \<or> reason \<in> set NO_MODEL_FAULT_FAILURE_REASONS then reason else ''unavailable''),
            de_cooldown_detail = strip (reason @ '': '' @ text_of stream_result ''error_type'' @ '' '' @ text_of stream_result ''message''),
            de_cooldown_status = (case classified of Some i \<Rightarrow> PInt i | None \<Rightarrow> PStr ''stream_error''),
            de_usage = None, de_retry_after = None\<rparr>)"

section \<open>Refusals and exceptions\<close>

definition response_text :: "upstream_response \<Rightarrow> string" where
  "response_text response =
     (case rs_text response of Inr s \<Rightarrow> s | Inl exc \<Rightarrow> ''<unreadable response body: '' @ exc @ ''>'')"

definition hint_fields :: "(int \<times> string) option \<Rightarrow> pydict \<Rightarrow> pydict" where
  "hint_fields hint d =
     (case hint of None \<Rightarrow> d
      | Some (seconds, source) \<Rightarrow> dset ''retry_after_source'' (PStr source) (dset ''retry_after_seconds'' (PInt seconds) d))"

definition evaluate_upstream_failure_response ::
  "verdict_ports \<Rightarrow> real \<Rightarrow> upstream_response \<Rightarrow> pydict \<Rightarrow> real \<Rightarrow> bool \<Rightarrow> attempt_decision" where
  "evaluate_upstream_failure_response p wall_clock response model latency is_virtual =
     (let text = response_text response; status = rs_status response;
          reason = classify_for_model p (Some status) text [] model;
          hint = (if status \<in> {429, 503} then retry_hint (rs_headers response) (PStr text) wall_clock else None);
          update = put_if (text \<noteq> []) ''error_detail'' (opt_str (sanitize_error_detail (PStr text) UPSTREAM_DETAIL_LIMIT))
            [(''status'', PInt status), (''reason'', PStr reason), (''latency_seconds'', rounded4 latency)];
          error = model_fields model @
            [(''status'', PInt status), (''reason'', PStr reason), (''detail'', PStr (take UPSTREAM_DETAIL_LIMIT text))]
      in \<lparr>de_outcome = (if should_retry reason is_virtual then RetryableFailure else TerminalFailure),
          de_update = hint_fields hint update, de_error = Some (hint_fields hint error), de_cooldown_reason = reason,
          de_cooldown_detail = ''HTTP '' @ show_int status @ '': ''
            @ (if reason = ''request_too_large'' then text else take 250 text),
          de_cooldown_status = PInt status, de_usage = None, de_retry_after = hint\<rparr>)"

definition exception_type :: "raised \<Rightarrow> string" where
  "exception_type exc = (case ex_mro (ra_heap exc ! ra_addr exc) of name # _ \<Rightarrow> name | [] \<Rightarrow> [])"

definition is_instance :: "raised \<Rightarrow> string \<Rightarrow> bool" where
  "is_instance exc name \<longleftrightarrow> name \<in> set (ex_mro (ra_heap exc ! ra_addr exc))"

text \<open>The reason, the status and the reason of the error row.\<close>

definition exception_verdict :: "raised \<Rightarrow> bool \<Rightarrow> bool \<Rightarrow> string \<times> string \<times> string" where
  "exception_verdict exc timeout deadline_exceeded =
     (if is_instance exc ''CompletionBudgetExceeded'' then (''runaway_output'', ''response_too_large'', ''runaway_output'')
      else if deadline_exceeded
      then (''request_deadline_exceeded'', ''request_deadline_exceeded'', ''request_deadline_exceeded'')
      else if is_instance exc ''ProviderCredentialsUnavailable'' then (''auth_or_credit'', ''exception'', ''auth_or_credit'')
      else if exception_is_tls_failure (ra_heap exc) (ra_addr exc) then (''tls_error'', ''exception'', ''tls_error'')
      else if exception_is_network_unreachable (ra_heap exc) (ra_addr exc)
      then (''network_unreachable'', ''exception'', ''network_unreachable'')
      else if timeout then (''timeout'', ''timeout'', ''timeout'')
      else (''unavailable'', ''exception'', ''exception''))"

definition evaluate_invocation_exception ::
  "raised \<Rightarrow> pydict \<Rightarrow> real \<Rightarrow> bool \<Rightarrow> bool \<Rightarrow> attempt_decision" where
  "evaluate_invocation_exception exc model latency timeout deadline_exceeded =
     (let detail = exception_type exc @ '': '' @ ra_text exc;
          (reason, status, error_reason) = exception_verdict exc timeout deadline_exceeded
      in \<lparr>de_outcome = RetryableFailure,
          de_update = [(''status'', PStr status), (''reason'', PStr reason), (''error_type'', PStr (exception_type exc)),
            (''error_detail'', opt_str (sanitize_error_detail (PStr detail) UPSTREAM_DETAIL_LIMIT)),
            (''error_errno'', case first_exception_errno (ra_heap exc) (ra_addr exc) of None \<Rightarrow> PNone | Some n \<Rightarrow> PInt n),
            (''latency_seconds'', rounded4 latency)],
          de_error = Some (model_fields model @ [(''reason'', PStr error_reason), (''error'', PStr detail)]),
          de_cooldown_reason = reason, de_cooldown_detail = detail, de_cooldown_status = PStr status,
          de_usage = None, de_retry_after = None\<rparr>)"

section \<open>Transport telemetry\<close>

definition READ_TIMEOUT_SOURCES :: "string list" where
  "READ_TIMEOUT_SOURCES = [''global'', ''profile_override'', ''base_profile_override'', ''explicit'', ''request_deadline'']"

definition add_transport_timeout_telemetry :: "pydict \<Rightarrow> pydict \<Rightarrow> pydict" where
  "add_transport_timeout_telemetry attrs update =
     (let timed = fold (\<lambda>(attribute, fld). put_seconds fld (dget attrs attribute))
            [(''_ficelle_read_timeout_seconds'', ''read_timeout_seconds''),
             (''_ficelle_connect_timeout_seconds'', ''connect_timeout_seconds''),
             (''_ficelle_request_budget_remaining_seconds'', ''request_budget_remaining_seconds''),
             (''_ficelle_stale_latency_seconds'', ''stale_latency_seconds'')] update;
          source = dget attrs ''_ficelle_read_timeout_source''; phase = dget attrs ''_ficelle_timeout_phase'';
          named = put_if (phase \<in> set (map PStr TIMEOUT_PHASES)) ''timeout_phase'' phase
                    (put_if (source \<in> set (map PStr READ_TIMEOUT_SOURCES)) ''read_timeout_source'' source timed)
      in put_if (dhas ''stale_latency_seconds'' named) ''transport_retry'' (PStr ''stale_connection'') named)"

definition add_first_byte_telemetry :: "pydict \<Rightarrow> pydict \<Rightarrow> pydict" where
  "add_first_byte_telemetry attrs update =
     (let admission = dget attrs ''_ficelle_admission_source'' in
      add_transport_timeout_telemetry attrs
        (put_if (admission \<in> {PStr ''declared_rpm'', PStr ''provider_headers''}) ''admission_source'' admission
          (put_seconds ''first_byte_seconds'' (dget attrs ''_ficelle_first_byte_seconds'') update)))"

section \<open>The cooldown an attempt asks for\<close>

record cooldown_request =
  cq_model :: pydict
  cq_reason :: string
  cq_detail :: string
  cq_status :: pv
  cq_retry_after :: "(int \<times> string) option"
  cq_attempt_reason :: string

text \<open>Every decision names its own reason, detail and status, so the fallbacks of the code never apply.\<close>

definition build_attempt_cooldown_request :: "pydict \<Rightarrow> attempt_decision \<Rightarrow> cooldown_request" where
  "build_attempt_cooldown_request model decision =
     \<lparr>cq_model = model, cq_reason = de_cooldown_reason decision, cq_detail = de_cooldown_detail decision,
      cq_status = de_cooldown_status decision, cq_retry_after = de_retry_after decision,
      cq_attempt_reason = text_of (de_update decision) ''reason''\<rparr>"

section \<open>The two ways to read an answer agree\<close>

lemma finish_reason_of_choice:
  "finish_reason_is_error (PDict [(''choices'', PList [PDict [(''finish_reason'', por v (PStr []))]])])
     \<longleftrightarrow> lower (strip (py_str (por v (PStr [])))) \<in> set ERROR_FINISH_REASONS"
  "finish_reason_is_truncation (PDict [(''choices'', PList [PDict [(''finish_reason'', por v (PStr []))]])])
     \<longleftrightarrow> lower (strip (py_str (por v (PStr [])))) \<in> set TRUNCATION_FINISH_REASONS"
  by (simp_all add: finish_reason_is_error_def finish_reason_is_truncation_def first_choice_finish_reason_def
      first_choice_def text_of_def dget_def por_def)

lemma stream_ok_reason:
  "dget sr ''status'' = PStr ''ok'' \<Longrightarrow> stream_reason p sr model = py_str (por (dget sr ''reason'') (PStr ''stream_failure''))"
  by (simp add: stream_reason_def stream_error_status_def Let_def)

text \<open>C37. An answer is judged the same whether it was streamed or not: for the same finish reason and the same
  deliverable content, with no error object and within the budget, both readings succeed or
  both fail, and then with the same reason and the same cooldown.\<close>

theorem streamed_and_buffered_verdicts_agree:
  assumes "rs_json response = Inr payload" "success_error_payload_failure p payload model = None"
    and "\<not> over_budget budget (non_streaming_completion_chars payload)"
    and "dget sr ''status'' = PStr ''ok''" "py_str (por (dget sr ''reason'') (PStr ''stream_failure'')) \<noteq> ''runaway_output''"
    and "text_of sr ''finish_reason'' = text_of (first_choice payload) ''finish_reason''"
    and "truthy (dget_or sr ''deliverable_sent'' (PBool True)) = has_deliverable_message payload"
    and "b = evaluate_non_streaming_success_response p response model latency is_virtual budget"
    and "s = evaluate_streaming_result p sr model status latency' is_virtual'"
  shows "(de_outcome b = Success \<longleftrightarrow> de_outcome s = Success)
    \<and> (de_outcome b \<noteq> Success \<longrightarrow> dget (de_update b) ''reason'' = dget (de_update s) ''reason''
         \<and> de_cooldown_reason b = de_cooldown_reason s)"
proof -
  have fin: "lower (strip (py_str (por (dget sr ''finish_reason'') (PStr [])))) = first_choice_finish_reason payload"
    using assms(6) by (simp add: first_choice_finish_reason_def text_of_def)
  note kinds = finish_reason_of_choice[of "dget sr ''finish_reason''", unfolded fin]
  show ?thesis
    using assms(1-5,7)
    unfolding assms(8,9) evaluate_non_streaming_success_response_def evaluate_streaming_result_def Let_def
      stream_ok_reason[OF assms(4)] kinds
    by (auto simp: non_streaming_failure_def success_decision_def stream_end_def finish_reason_is_error_def
        finish_reason_is_truncation_def dget_def split: if_splits)
qed

definition example_verdict_ports :: verdict_ports where
  "example_verdict_ports = \<lparr>vp_free_access = (\<lambda>_. []), vp_markers = (\<lambda>_. DEFAULT_FAILURE_MARKERS)\<rparr>"

definition example_truncated :: pv where
  "example_truncated = PDict [(''choices'', PList [PDict [(''finish_reason'', PStr ''length''),
     (''message'', PDict [(''content'', PStr [])])]])]"

definition example_response :: upstream_response where
  "example_response = \<lparr>rs_status = 200, rs_json = Inr example_truncated, rs_text = Inr [], rs_headers = [], rs_attrs = []\<rparr>"

definition example_stream :: pydict where
  "example_stream = [(''status'', PStr ''ok''), (''deliverable_sent'', PBool False), (''finish_reason'', PStr ''length'')]"

lemma streamed_and_buffered_verdicts_agree_witness:
  "de_cooldown_reason (evaluate_non_streaming_success_response example_verdict_ports example_response [] 1 True None) =
   de_cooldown_reason (evaluate_streaming_result example_verdict_ports example_stream [] 200 2 True)"
proof -
  have "de_outcome (evaluate_non_streaming_success_response example_verdict_ports example_response [] 1 True None) \<noteq> Success"
    by code_simp
  moreover have "rs_json example_response = Inr example_truncated"
      "success_error_payload_failure example_verdict_ports example_truncated [] = None"
      "\<not> over_budget None (non_streaming_completion_chars example_truncated)"
      "dget example_stream ''status'' = PStr ''ok''"
      "py_str (por (dget example_stream ''reason'') (PStr ''stream_failure'')) \<noteq> ''runaway_output''"
      "text_of example_stream ''finish_reason'' = text_of (first_choice example_truncated) ''finish_reason''"
      "truthy (dget_or example_stream ''deliverable_sent'' (PBool True)) = has_deliverable_message example_truncated"
    by code_simp+
  ultimately show ?thesis
    using streamed_and_buffered_verdicts_agree[OF _ _ _ _ _ _ _ refl refl] by blast
qed

section \<open>Nothing is retried behind the caller's back\<close>

lemma stream_retry:
  assumes "de_outcome (evaluate_streaming_result p sr model status latency is_virtual) = RetryableFailure"
  shows "is_virtual \<and> \<not> truthy (dget sr ''stream_started'') \<and> stream_reason p sr model \<noteq> ''bad_upstream_request''
    \<and> (dget sr ''status'' = PStr ''ok'' \<longrightarrow> stream_reason p sr model = ''runaway_output'')"
  using assms
  unfolding evaluate_streaming_result_def Let_def stream_end_def success_decision_def should_retry_def
    NON_RETRYABLE_FAILURE_REASONS_def
  by (simp split: if_splits)

lemma buffered_retry:
  assumes "de_outcome (evaluate_non_streaming_success_response p response model latency is_virtual budget) = RetryableFailure"
  shows "is_virtual \<and> (rs_json response = Inr payload \<longrightarrow>
    success_error_payload_failure p payload model = Some (reason, message, code) \<longrightarrow> reason \<noteq> ''bad_upstream_request'')"
proof (cases "rs_json response")
  case (Inl exc)
  then show ?thesis
    using assms by (simp add: evaluate_non_streaming_success_response_def non_streaming_failure_def split: if_splits)
next
  case (Inr body)
  show ?thesis
  proof (cases "success_error_payload_failure p body model")
    case None
    then show ?thesis
      using assms Inr
      by (cases "body = payload") (simp_all add: evaluate_non_streaming_success_response_def non_streaming_failure_def
          success_decision_def split: if_splits)
  next
    case (Some found)
    then show ?thesis
      using assms Inr
      by (cases found; cases "body = payload") (auto simp: evaluate_non_streaming_success_response_def
          non_streaming_failure_def should_retry_def NON_RETRYABLE_FAILURE_REASONS_def split: if_splits)
  qed
qed

lemma refused_retry:
  "de_outcome (evaluate_upstream_failure_response p clock response model latency is_virtual) = RetryableFailure \<longleftrightarrow>
    is_virtual \<and> classify_for_model p (Some (rs_status response)) (response_text response) [] model \<noteq> ''bad_upstream_request''"
  by (simp add: evaluate_upstream_failure_response_def Let_def should_retry_def NON_RETRYABLE_FAILURE_REASONS_def)

text \<open>A failure is handed to another candidate only when nothing of it reached the caller and another
  candidate could do better: the profile is virtual, no byte was streamed, and the reason is not
  a request every provider would refuse alike.\<close>

theorem retries_are_invisible_and_useful:
  "(de_outcome (evaluate_streaming_result p sr model status latency is_virtual) = RetryableFailure \<longrightarrow>
      is_virtual \<and> \<not> truthy (dget sr ''stream_started'') \<and> stream_reason p sr model \<noteq> ''bad_upstream_request''
      \<and> (dget sr ''status'' = PStr ''ok'' \<longrightarrow> stream_reason p sr model = ''runaway_output''))
   \<and> (de_outcome (evaluate_non_streaming_success_response p response model latency is_virtual budget) = RetryableFailure \<longrightarrow>
      is_virtual \<and> (rs_json response = Inr payload \<longrightarrow>
        success_error_payload_failure p payload model = Some (reason, message, code) \<longrightarrow> reason \<noteq> ''bad_upstream_request''))
   \<and> (de_outcome (evaluate_upstream_failure_response p clock response model latency is_virtual) = RetryableFailure \<longleftrightarrow>
      is_virtual \<and> classify_for_model p (Some (rs_status response)) (response_text response) [] model \<noteq> ''bad_upstream_request'')"
  using stream_retry[of p sr model status latency is_virtual]
    buffered_retry[of p response model latency is_virtual budget payload reason message code]
    refused_retry[of p clock response model latency is_virtual] by blast

lemma retries_are_invisible_and_useful_witness:
  "de_outcome (evaluate_streaming_result example_verdict_ports
      [(''status'', PStr ''error''), (''reason'', PStr ''stream_timeout'')] [] 200 1 True) = RetryableFailure
   \<and> \<not> truthy (dget [(''status'', PStr ''error''), (''reason'', PStr ''stream_timeout'')] ''stream_started'')"
proof -
  have "de_outcome (evaluate_streaming_result example_verdict_ports
      [(''status'', PStr ''error''), (''reason'', PStr ''stream_timeout'')] [] 200 1 True) = RetryableFailure"
    by code_simp
  then show ?thesis
    using retries_are_invisible_and_useful[of example_verdict_ports
        "[(''status'', PStr ''error''), (''reason'', PStr ''stream_timeout'')]" "[]" 200 1 True] by blast
qed

section \<open>An ending of the caller blocks nothing\<close>

definition blocks_nothing :: "cooldown_request \<Rightarrow> bool" where
  "blocks_nothing request \<longleftrightarrow> (\<forall>source.
     (let pol = cooldown_policy_for_reason (cq_reason request) source
      in \<not> cp_provider_cooldown pol \<and> \<not> cp_quota_cooldown pol \<and> \<not> cp_model_cooldown pol \<and> cp_quarantine pol = None))"

lemma no_fault_request_blocks_nothing:
  "cq_reason request \<in> set NO_MODEL_FAULT_FAILURE_REASONS \<Longrightarrow> blocks_nothing request"
  by (simp add: blocks_nothing_def Let_def no_fault_policy)

text \<open>An attempt that ended for a reason of the caller writes a cooldown request that blocks nothing:
  a stream the client left, a budget of tokens or of time the request itself set. The verdict keeps
  the reason in the record of the attempt, whether the answer was streamed or not.\<close>

theorem endings_of_the_caller_block_nothing:
  "(dget sr ''status'' \<noteq> PStr ''ok'' \<longrightarrow> stream_reason p sr model \<in> set NO_MODEL_FAULT_FAILURE_REASONS \<longrightarrow>
      stream_reason p sr model \<noteq> ''runaway_output'' \<longrightarrow>
      blocks_nothing (build_attempt_cooldown_request model (evaluate_streaming_result p sr model status latency is_virtual)))
   \<and> (dget (de_update (evaluate_non_streaming_success_response p response model latency is_virtual budget)) ''reason''
        = PStr ''truncated_before_content'' \<longrightarrow>
      blocks_nothing (build_attempt_cooldown_request model
        (evaluate_non_streaming_success_response p response model latency is_virtual budget)))
   \<and> (\<not> is_instance exc ''CompletionBudgetExceeded'' \<longrightarrow>
      blocks_nothing (build_attempt_cooldown_request model (evaluate_invocation_exception exc model latency timeout True)))"
  (is "?s \<and> ?b \<and> ?e")
proof (intro conjI)
  show ?s
  proof (intro impI no_fault_request_blocks_nothing)
    assume "dget sr ''status'' \<noteq> PStr ''ok''" "stream_reason p sr model \<in> set NO_MODEL_FAULT_FAILURE_REASONS"
      "stream_reason p sr model \<noteq> ''runaway_output''"
    then show "cq_reason (build_attempt_cooldown_request model (evaluate_streaming_result p sr model status latency is_virtual))
        \<in> set NO_MODEL_FAULT_FAILURE_REASONS"
      by (simp add: build_attempt_cooldown_request_def evaluate_streaming_result_def Let_def)
  qed
  show ?b
  proof (intro impI no_fault_request_blocks_nothing)
    assume reason: "dget (de_update (evaluate_non_streaming_success_response p response model latency is_virtual budget)) ''reason''
        = PStr ''truncated_before_content''"
    show "cq_reason (build_attempt_cooldown_request model
        (evaluate_non_streaming_success_response p response model latency is_virtual budget)) \<in> set NO_MODEL_FAULT_FAILURE_REASONS"
      using reason
      by (cases "rs_json response") (auto simp: build_attempt_cooldown_request_def evaluate_non_streaming_success_response_def
          non_streaming_failure_def success_decision_def NO_MODEL_FAULT_FAILURE_REASONS_def split: if_splits option.splits)
  qed
  show ?e
    by (auto intro!: no_fault_request_blocks_nothing simp: build_attempt_cooldown_request_def evaluate_invocation_exception_def
        exception_verdict_def NO_MODEL_FAULT_FAILURE_REASONS_def Let_def)
qed

definition example_timeout :: raised where
  "example_timeout = \<lparr>ra_heap = [\<lparr>ex_errno = NoErrno, ex_mro = [''ReadTimeout'', ''Exception''],
     ex_cause = None, ex_context = None, ex_args = []\<rparr>], ra_addr = 0, ra_text = ''timed out'',
     ra_attrs = [], ra_retry_after = 0\<rparr>"

lemma endings_of_the_caller_block_nothing_witness:
  "blocks_nothing (build_attempt_cooldown_request [] (evaluate_invocation_exception example_timeout [] 1 True True))"
proof -
  have "\<not> is_instance example_timeout ''CompletionBudgetExceeded''"
    by code_simp
  then show ?thesis
    using endings_of_the_caller_block_nothing[where exc = example_timeout and model = "[]" and latency = 1 and timeout = True] by blast
qed

end
