(* ===== verification/ProviderAdmission.thy ===== *)
theory ProviderAdmission
  imports PyRegex
begin

text \<open>
  The local guard on provider request rates (\<open>provider_admission.py\<close>): a rolling minute per
  provider for the rate its configuration declares, overridden by what the provider's own
  headers last said. The ledger is one record, its two dictionaries maps from the key
  (namespace, source, scope); the monotonic clock is an argument. \<open>None\<close> is an exception.
\<close>

section \<open>Limits\<close>

definition ADMISSION_WINDOW_SECONDS :: real where "ADMISSION_WINDOW_SECONDS = 60"
definition ADMISSION_RATE_HEADROOM :: real where "ADMISSION_RATE_HEADROOM = 9 / 10"

record admission_decision =
  ad_allowed :: bool
  ad_retry_after_seconds :: "int option"
  ad_limit :: "int option"
  ad_remaining :: "int option"
  ad_source :: string

record observed_limit =
  ob_limit :: int
  ob_remaining :: int
  ob_reset_at :: real

type_synonym admission_key = "string \<times> string \<times> string"

record admission_ledger =
  al_requests :: "admission_key \<Rightarrow> real list"
  al_observed :: "admission_key \<Rightarrow> observed_limit option"

definition DURATION_PART :: re where
  "DURATION_PART =
     Cat (Cap (Cat (Plus digit_re) (Opt (Cat (Lit ''.'') (Plus digit_re)))))
         (Cap (Alts [LitI ''ms'', LitI ''s'', LitI ''m'', LitI ''h'']))"

definition unit_factor :: "string \<Rightarrow> real" where
  "unit_factor u = (if u = ''ms'' then 1 / 1000 else if u = ''m'' then 60 else if u = ''h'' then 3600 else 1)"

definition part_seconds :: "string list \<Rightarrow> real" where
  "part_seconds groups =
     (case groups of
        [amount, u] \<Rightarrow> (case parse_float amount of Some (Fin r) \<Rightarrow> r * unit_factor (lower u) | _ \<Rightarrow> 0)
      | _ \<Rightarrow> 0)"

definition reset_seconds :: "pv \<Rightarrow> real option" where
  "reset_seconds v =
     (let text = lower (strip (py_str (por v (PStr []))));
          parts = re_findall DURATION_PART text;
          total = sum_list (map part_seconds parts)
      in if text = [] then None
         else (case parse_float text of
                 Some (Fin r) \<Rightarrow>
                   if 0 < r \<and> r \<le> 86400 then Some r
                   else if parts = [] \<or> total \<le> 0 then None else Some (min total 86400)
               | _ \<Rightarrow> if parts = [] \<or> total \<le> 0 then None else Some (min total 86400)))"

text \<open>The rate of the configuration with its headroom, at least one request.\<close>

definition declared_limit :: "pv \<Rightarrow> int option" where
  "declared_limit provider_cfg =
     (case py_float (dget (as_dict provider_cfg) ''rate_limit_rpm'') of
        Some (Fin rpm) \<Rightarrow> if rpm \<le> 0 then None else Some (max 1 \<lfloor>rpm * ADMISSION_RATE_HEADROOM\<rfloor>)
      | _ \<Rightarrow> None)"

section \<open>Reserving\<close>

definition allow :: "int option \<Rightarrow> int option \<Rightarrow> string \<Rightarrow> admission_decision" where
  "allow limit remaining source =
     \<lparr>ad_allowed = True, ad_retry_after_seconds = None, ad_limit = limit, ad_remaining = remaining, ad_source = source\<rparr>"

definition refuse :: "real \<Rightarrow> int \<Rightarrow> string \<Rightarrow> admission_decision" where
  "refuse wait limit source =
     \<lparr>ad_allowed = False, ad_retry_after_seconds = Some (max 1 \<lceil>wait\<rceil>), ad_limit = Some limit,
      ad_remaining = Some 0, ad_source = source\<rparr>"

text \<open>The part of \<open>reserve\<close> that reads the declared rate.\<close>

definition reserve_declared ::
  "admission_key \<Rightarrow> pv \<Rightarrow> real \<Rightarrow> admission_ledger \<Rightarrow> admission_decision \<times> admission_ledger" where
  "reserve_declared key provider_cfg now ledger =
     (case declared_limit provider_cfg of
        None \<Rightarrow> (allow None None ''unknown_limit'', ledger)
      | Some limit \<Rightarrow>
          (let rows = dropWhile (\<lambda>t. t \<le> now - ADMISSION_WINDOW_SECONDS) (al_requests ledger key);
               put = (\<lambda>rows. ledger\<lparr>al_requests := (al_requests ledger)(key := rows)\<rparr>)
           in if limit \<le> int (length rows)
              then (refuse (hd rows + ADMISSION_WINDOW_SECONDS - now) limit ''declared_rpm'', put rows)
              else (allow (Some limit) (Some (max 0 (limit - int (length rows + 1)))) ''declared_rpm'',
                    put (rows @ [now]))))"

definition reserve ::
  "admission_key \<Rightarrow> pv \<Rightarrow> real \<Rightarrow> admission_ledger \<Rightarrow> admission_decision \<times> admission_ledger" where
  "reserve key provider_cfg now ledger =
     (case al_observed ledger key of
        None \<Rightarrow> reserve_declared key provider_cfg now ledger
      | Some ob \<Rightarrow>
          if ob_reset_at ob \<le> now
          then reserve_declared key provider_cfg now (ledger\<lparr>al_observed := (al_observed ledger)(key := None)\<rparr>)
          else if ob_remaining ob \<le> 0
          then (refuse (ob_reset_at ob - now) (ob_limit ob) ''provider_headers'', ledger)
          else (let ob' = ob\<lparr>ob_remaining := ob_remaining ob - 1\<rparr>
                in (allow (Some (ob_limit ob)) (Some (ob_remaining ob')) ''provider_headers'',
                    ledger\<lparr>al_observed := (al_observed ledger)(key := Some ob')\<rparr>)))"

section \<open>Observing\<close>

text \<open>\<open>int(float(x))\<close>: the outer option is an exception the code does not catch (an infinity), the inner one
  a value that is no number.\<close>

definition header_int :: "pv \<Rightarrow> int option option" where
  "header_int v =
     (case py_float v of
        Some (Fin r) \<Rightarrow> Some (Some (trunc r))
      | Some PosInf \<Rightarrow> None
      | Some NegInf \<Rightarrow> None
      | _ \<Rightarrow> Some None)"

definition normalized_headers :: "pydict \<Rightarrow> pydict" where
  "normalized_headers headers = rev (map (\<lambda>(key, v). (lower key, v)) headers)"

definition observe :: "admission_key \<Rightarrow> pydict \<Rightarrow> real \<Rightarrow> admission_ledger \<Rightarrow> admission_ledger option" where
  "observe key headers now ledger =
     (let h = normalized_headers headers in
      case header_int (dget h ''x-ratelimit-limit-requests'') of
        None \<Rightarrow> None
      | Some None \<Rightarrow> Some ledger
      | Some (Some limit) \<Rightarrow>
          (case header_int (dget h ''x-ratelimit-remaining-requests'') of
             None \<Rightarrow> None
           | Some None \<Rightarrow> Some ledger
           | Some (Some remaining) \<Rightarrow>
               (case reset_seconds (por (dget h ''x-ratelimit-reset-requests'') (dget h ''retry-after'')) of
                  None \<Rightarrow> Some ledger
                | Some reset \<Rightarrow>
                    if limit \<le> 0 \<or> remaining < 0 then Some ledger
                    else Some (ledger\<lparr>al_observed := (al_observed ledger)
                           (key := Some \<lparr>ob_limit = limit, ob_remaining = min limit remaining, ob_reset_at = now + reset\<rparr>)\<rparr>))))"

section \<open>The rolling minute\<close>

text \<open>Those of the requests for one key at the given times that are admitted, under one configuration and
  with no header observed.\<close>

fun admitted_times :: "admission_key \<Rightarrow> pv \<Rightarrow> real list \<Rightarrow> admission_ledger \<Rightarrow> real list" where
  "admitted_times key cfg [] ledger = []"
| "admitted_times key cfg (t # ts) ledger =
     (let (decision, ledger') = reserve key cfg t ledger
      in (if ad_allowed decision then [t] else []) @ admitted_times key cfg ts ledger')"

abbreviation in_minute :: "real \<Rightarrow> real list \<Rightarrow> nat" where
  "in_minute u xs \<equiv> length (filter (\<lambda>x. u - ADMISSION_WINDOW_SECONDS < x \<and> x \<le> u) xs)"

lemma dropWhile_sorted_filter:
  "sorted xs \<Longrightarrow> dropWhile (\<lambda>x. x \<le> c) xs = filter (\<lambda>x. c < x) (xs :: real list)"
  by (induction xs) (auto intro!: filter_True[symmetric])

text \<open>The ledger holds the past admissions of a key from some time before its last minute on.\<close>

definition tracks :: "admission_key \<Rightarrow> admission_ledger \<Rightarrow> real list \<Rightarrow> real \<Rightarrow> bool" where
  "tracks key ledger past now \<longleftrightarrow> sorted past \<and> (\<forall>x \<in> set past. x \<le> now) \<and> al_observed ledger key = None
     \<and> (\<exists>c \<le> now - ADMISSION_WINDOW_SECONDS. al_requests ledger key = filter (\<lambda>x. c < x) past)"

lemma tracks_fresh: "al_observed ledger key = None \<Longrightarrow> al_requests ledger key = [] \<Longrightarrow> tracks key ledger [] now"
  by (auto simp: tracks_def)

lemma tracks_rows:
  assumes "tracks key ledger past now" "now \<le> t"
  shows "dropWhile (\<lambda>x. x \<le> t - ADMISSION_WINDOW_SECONDS) (al_requests ledger key)
    = filter (\<lambda>x. t - ADMISSION_WINDOW_SECONDS < x) past"
proof -
  from assms obtain c where c: "c \<le> now - ADMISSION_WINDOW_SECONDS" "al_requests ledger key = filter (\<lambda>x. c < x) past"
    and "sorted past" by (auto simp: tracks_def)
  then have "sorted (al_requests ledger key)" by (metis sorted_wrt_filter)
  then have "dropWhile (\<lambda>x. x \<le> t - ADMISSION_WINDOW_SECONDS) (al_requests ledger key)
      = filter (\<lambda>x. t - ADMISSION_WINDOW_SECONDS < x) (filter (\<lambda>x. c < x) past)"
    using dropWhile_sorted_filter c(2) by metis
  also have "\<dots> = filter (\<lambda>x. t - ADMISSION_WINDOW_SECONDS < x) past"
    using c(1) assms(2) by (auto simp: conj_commute intro!: filter_cong)
  finally show ?thesis .
qed

lemma reserve_tracks:
  assumes tr: "tracks key ledger past now" and t: "now \<le> t"
    and limit: "declared_limit cfg = Some limit"
    and bound: "\<forall>u. int (in_minute u past) \<le> limit"
    and res: "reserve key cfg t ledger = (decision, ledger')"
    and past': "past' = past @ (if ad_allowed decision then [t] else [])"
  shows "tracks key ledger' past' t \<and> (\<forall>u. int (in_minute u past') \<le> limit)"
proof -
  let ?rows = "filter (\<lambda>x. t - ADMISSION_WINDOW_SECONDS < x) past"
  have none: "al_observed ledger key = None" and past: "sorted past" "\<forall>x \<in> set past. x \<le> t"
    using tr t by (auto simp: tracks_def)
  note res' = res[unfolded reserve_def none option.case reserve_declared_def limit Let_def tracks_rows[OF tr t]]
  show ?thesis
  proof (cases "limit \<le> int (length ?rows)")
    case True
    with res' past' have "past' = past" "al_requests ledger' key = ?rows" "al_observed ledger' key = None"
      using none by (auto simp: refuse_def)
    with past bound show ?thesis by (auto simp: tracks_def)
  next
    case False
    with res' past' have p: "past' = past @ [t]" and l: "al_requests ledger' key = ?rows @ [t]" "al_observed ledger' key = None"
      using none by (auto simp: allow_def)
    have "tracks key ledger' past' t"
      using past l unfolding p tracks_def
      by (auto simp: sorted_append ADMISSION_WINDOW_SECONDS_def intro!: exI[of _ "t - 60"])
    moreover have "int (in_minute u past') \<le> limit" for u
    proof (cases "u < t")
      case True
      then have "in_minute u past' = in_minute u past" by (simp add: p)
      with bound show ?thesis by simp
    next
      case F: False
      let ?P = "\<lambda>x. u - ADMISSION_WINDOW_SECONDS < x \<and> x \<le> u"
      have "filter ?P past = filter ?P ?rows" using F by (auto intro!: filter_cong)
      then have "in_minute u past' \<le> length ?rows + 1"
        using length_filter_le[of ?P ?rows] by (simp add: p)
      with False show ?thesis by linarith
    qed
    ultimately show ?thesis by blast
  qed
qed

lemma admitted_bound:
  assumes "tracks key ledger past now" "sorted (now # ts)" "declared_limit cfg = Some limit"
    and "\<forall>u. int (in_minute u past) \<le> limit"
  shows "int (in_minute u (past @ admitted_times key cfg ts ledger)) \<le> limit"
  using assms
proof (induction ts arbitrary: ledger past now)
  case (Cons t ts)
  obtain decision ledger' where res: "reserve key cfg t ledger = (decision, ledger')" by fastforce
  let ?past = "past @ (if ad_allowed decision then [t] else [])"
  from reserve_tracks[OF Cons.prems(1) _ Cons.prems(3,4) res refl] Cons.prems(2)
  have "tracks key ledger' ?past t" "\<forall>u. int (in_minute u ?past) \<le> limit" by simp_all
  from Cons.IH[OF this(1) _ Cons.prems(3) this(2)] Cons.prems(2)
  have "int (in_minute u (?past @ admitted_times key cfg ts ledger')) \<le> limit" by simp
  then show ?case by (simp add: res)
qed simp


lemma declared_limit_example: "declared_limit (PDict [(''rate_limit_rpm'', PInt 2)]) = Some 1"
  by (simp add: declared_limit_def dget_def ADMISSION_RATE_HEADROOM_def)


text \<open>C34. A refusal says when to come back: a caller refused for the declared rate that returns after the
  delay it was given, nobody else having been admitted in between, is admitted.\<close>

theorem refused_caller_is_admitted_later:
  assumes "reserve key cfg now ledger = (decision, ledger')" "\<not> ad_allowed decision"
    and "ad_source decision = ''declared_rpm''" "ad_retry_after_seconds decision = Some wait"
    and "al_observed ledger key = None" "sorted (al_requests ledger key)"
    and "declared_limit cfg = Some limit" "int (length (al_requests ledger key)) \<le> limit"
    and "now + of_int wait \<le> later"
  shows "ad_allowed (fst (reserve key cfg later ledger'))"
proof -
  let ?rows = "dropWhile (\<lambda>x. x \<le> now - ADMISSION_WINDOW_SECONDS) (al_requests ledger key)"
  have res: "ledger' = ledger\<lparr>al_requests := (al_requests ledger)(key := ?rows)\<rparr>" "limit \<le> int (length ?rows)"
    "wait = max 1 \<lceil>hd ?rows + ADMISSION_WINDOW_SECONDS - now\<rceil>"
    using assms(1-7) by (auto simp: reserve_def reserve_declared_def Let_def refuse_def allow_def split: if_splits)
  have "0 < limit" using assms(7) by (auto simp: declared_limit_def split: option.splits pyfloat.splits if_splits)
  with res(2) obtain x xs where rows: "?rows = x # xs" by (cases ?rows) auto
  have "x + ADMISSION_WINDOW_SECONDS - now \<le> of_int wait"
    using res(3) rows by (simp add: le_of_int_ceiling order.trans[OF le_of_int_ceiling] max_def)
  then have "x \<le> later - ADMISSION_WINDOW_SECONDS" using assms(9) by linarith
  then have "length (dropWhile (\<lambda>x. x \<le> later - ADMISSION_WINDOW_SECONDS) ?rows) \<le> length xs"
    unfolding rows by (simp add: length_dropWhile_le)
  moreover have "length ?rows \<le> length (al_requests ledger key)" by (rule length_dropWhile_le)
  ultimately have "int (length (dropWhile (\<lambda>x. x \<le> later - ADMISSION_WINDOW_SECONDS) ?rows)) < limit"
    using assms(8) rows by simp
  then show ?thesis
    using assms(5,7) res(1) by (simp add: reserve_def reserve_declared_def Let_def allow_def)
qed

lemma refused_caller_is_admitted_later_witness:
  "ad_allowed (fst (reserve ([], ''s'', []) (PDict [(''rate_limit_rpm'', PInt 2)]) 60
     \<lparr>al_requests = (\<lambda>_. []) (([], ''s'', []) := [0]), al_observed = (\<lambda>_. None)\<rparr>))"
proof -
  let ?ledger = "\<lparr>al_requests = (\<lambda>_. []) (([], ''s'', []) := [0]), al_observed = (\<lambda>_. None)\<rparr>"
  have "reserve ([], ''s'', []) (PDict [(''rate_limit_rpm'', PInt 2)]) 10 ?ledger
      = (refuse 50 1 ''declared_rpm'', ?ledger)"
    by (simp add: reserve_def reserve_declared_def declared_limit_example ADMISSION_WINDOW_SECONDS_def fun_upd_def fun_eq_iff Let_def)
  from refused_caller_is_admitted_later[OF this, of 50 1 60] show ?thesis
    by (simp add: refuse_def declared_limit_example)
qed


end
