(* ===== verification/RouteReport.thy ===== *)
theory RouteReport
  imports AttemptVerdict Selection
begin

text \<open>
  What a chat request leaves behind (\<open>use_cases/chat_completion.py\<close>): the rows of the route log,
  the record of the last route, the response that ends a failed run, and the refusals the router
  owns, from the start of a request to the pool its selection gives. Rows are dictionaries. The
  clock reading \<open>duration\<close> is a parameter of the refusals, and a refusal is returned with the row
  it writes to the log. A terminal reason that is absent is the empty text; \<open>None\<close> is an
  exception.
\<close>

section \<open>Route log rows\<close>

record chat_response =
  cr_status :: int
  cr_payload :: pydict
  cr_headers :: "string odict"

record raw_response =
  rr_status :: int
  rr_content_type :: string
  rr_headers :: "string odict"
  rr_content :: "string + string"

record last_route =
  lr_requested :: string
  lr_status :: string
  lr_reason :: string
  lr_request_id :: string
  lr_candidate_count :: nat
  lr_attempt_count :: nat
  lr_duration :: real
  lr_selected :: "pydict option"
  lr_attempts :: "pydict list"
  lr_competence :: "string option"
  lr_compression :: pv

record route_telemetry =
  rt_last_route :: last_route
  rt_route_log :: pydict
  rt_attempt_started_at :: "real option"

text \<open>What every row of one run shares.\<close>

record run_facts =
  rf_request_id :: string
  rf_safe_model :: string
  rf_candidate_count :: nat
  rf_attempts :: "pydict list"
  rf_duration :: real
  rf_compression :: pv
  rf_prompt_tokens :: int
  rf_excluded :: nat
  rf_demoted :: nat

definition selected_attempt :: "pydict list \<Rightarrow> pydict" where
  "selected_attempt attempts = (if attempts = [] then [] else last attempts)"

definition copy_timings :: "pydict \<Rightarrow> pydict \<Rightarrow> pydict" where
  "copy_timings attempt row =
     fold (\<lambda>timing. put_if (num_of (dget attempt timing) \<noteq> None) timing (dget attempt timing))
       [''first_byte_seconds'', ''first_delta_seconds''] row"

definition pint :: "nat \<Rightarrow> pv" where
  "pint n = PInt (int n)"

definition attempt_list :: "pydict list \<Rightarrow> pv" where
  "attempt_list attempts = PList (map PDict attempts)"

definition selected_fields :: "pydict \<Rightarrow> pydict" where
  "selected_fields model =
     [(''selected_model'', dget model ''id''), (''selected_upstream'', dget model ''upstream_id''),
      (''selected_source'', dget model ''source'')]"

definition sizing_fields :: "run_facts \<Rightarrow> pydict" where
  "sizing_fields row =
     [(''compression'', rf_compression row), (''prompt_tokens_estimate'', PInt (rf_prompt_tokens row)),
      (''excluded_for_context'', pint (rf_excluded row)), (''demoted_for_context'', pint (rf_demoted row))]"

definition run_fields :: "run_facts \<Rightarrow> bool \<Rightarrow> pydict" where
  "run_fields row stream =
     [(''candidate_count'', pint (rf_candidate_count row)), (''attempt_count'', pint (length (rf_attempts row))),
      (''attempts'', attempt_list (rf_attempts row)), (''duration_seconds'', rounded4 (rf_duration row)),
      (''stream'', PBool stream)]"

definition request_fields :: "run_facts \<Rightarrow> pydict" where
  "request_fields row = [(''request_id'', PStr (rf_request_id row)), (''requested_model'', PStr (rf_safe_model row))]"

definition usage_fields :: "pydict \<Rightarrow> pydict option \<Rightarrow> pydict \<Rightarrow> pydict" where
  "usage_fields model usage row =
     (case usage of
        None \<Rightarrow> row
      | Some counts \<Rightarrow>
          (case dget model ''reference_pricing'' of
             PDict reference \<Rightarrow>
               dset ''reference_pricing''
                 (PDict [(''prompt'', dget reference ''prompt''), (''completion'', dget reference ''completion'')])
                 (dset ''usage'' (PDict counts) row)
           | _ \<Rightarrow> dset ''usage'' (PDict counts) row))"

definition build_success_route_log ::
  "run_facts \<Rightarrow> pydict \<Rightarrow> string \<Rightarrow> int \<Rightarrow> bool \<Rightarrow> bool option \<Rightarrow> pydict option \<Rightarrow> pydict" where
  "build_success_route_log row model competence final_status stream stream_started usage =
     (let base = request_fields row @ selected_fields model @
            [(''competence'', PStr competence), (''final_status'', PInt final_status), (''final_reason'', PStr ''ok'')]
            @ run_fields row stream @ sizing_fields row;
          started = (case stream_started of None \<Rightarrow> base | Some b \<Rightarrow> dset ''stream_started'' (PBool b) base);
          attempt = selected_attempt (rf_attempts row);
          admission = dget attempt ''admission_source''
      in usage_fields model usage
           (put_if (admission \<in> {PStr ''declared_rpm'', PStr ''provider_headers''}) ''admission_source'' admission
             (copy_timings attempt started)))"

definition last_route_of :: "run_facts \<Rightarrow> string \<Rightarrow> string \<Rightarrow> pydict option \<Rightarrow> string option \<Rightarrow> last_route" where
  "last_route_of row status reason selected competence =
     \<lparr>lr_requested = rf_safe_model row, lr_status = status, lr_reason = reason, lr_request_id = rf_request_id row,
      lr_candidate_count = rf_candidate_count row, lr_attempt_count = length (rf_attempts row),
      lr_duration = rf_duration row, lr_selected = selected, lr_attempts = rf_attempts row,
      lr_competence = competence, lr_compression = rf_compression row\<rparr>"

definition build_success_route_telemetry ::
  "run_facts \<Rightarrow> pydict \<Rightarrow> string \<Rightarrow> int \<Rightarrow> bool \<Rightarrow> bool option \<Rightarrow> pydict option \<Rightarrow> real \<Rightarrow> route_telemetry" where
  "build_success_route_telemetry row model competence final_status stream stream_started usage attempt_started_at =
     \<lparr>rt_last_route = last_route_of row ''ok'' ''ok'' (Some model) (Some competence),
      rt_route_log = build_success_route_log row model competence final_status stream stream_started usage,
      rt_attempt_started_at = Some attempt_started_at\<rparr>"

definition build_no_attempt_route_log :: "string \<Rightarrow> string \<Rightarrow> int \<Rightarrow> string \<Rightarrow> real \<Rightarrow> bool \<Rightarrow> pydict" where
  "build_no_attempt_route_log request_id safe_requested_model status reason duration stream =
     [(''request_id'', PStr request_id), (''requested_model'', PStr safe_requested_model),
      (''final_status'', PInt status), (''final_reason'', PStr reason), (''candidate_count'', PInt 0),
      (''attempts'', PList []), (''duration_seconds'', rounded4 duration), (''stream'', PBool stream)]"

definition failure_route_reason :: "error_row list \<Rightarrow> string \<Rightarrow> string" where
  "failure_route_reason errors terminal_reason =
     (if terminal_reason \<in> set (map fst TERMINAL_ENDINGS) then terminal_reason
      else if caller_rejected_request errors then ''bad_upstream_request''
      else if request_exceeds_context errors then ''context_length_exceeded''
      else ''upstream_failure'')"

definition build_failure_route_log :: "run_facts \<Rightarrow> error_row list \<Rightarrow> string \<Rightarrow> bool \<Rightarrow> pydict" where
  "build_failure_route_log row errors terminal_reason stream =
     request_fields row @
     [(''final_status'', PInt (route_log_failure_status errors terminal_reason)),
      (''final_reason'', PStr (failure_route_reason errors terminal_reason))]
     @ run_fields row stream @ sizing_fields row"

definition build_failure_route_telemetry :: "run_facts \<Rightarrow> error_row list \<Rightarrow> string \<Rightarrow> bool \<Rightarrow> route_telemetry" where
  "build_failure_route_telemetry row errors terminal_reason stream =
     \<lparr>rt_last_route = last_route_of row ''fail'' (failure_route_reason errors terminal_reason) None None,
      rt_route_log = build_failure_route_log row errors terminal_reason stream,
      rt_attempt_started_at = None\<rparr>"

definition build_mid_stream_failure_route_log :: "run_facts \<Rightarrow> pydict \<Rightarrow> int \<Rightarrow> pv \<Rightarrow> pydict" where
  "build_mid_stream_failure_route_log row model final_status reason =
     copy_timings (selected_attempt (rf_attempts row))
       (request_fields row @ selected_fields model @ [(''final_status'', PInt final_status), (''final_reason'', reason)]
        @ run_fields row True @ [(''stream_started'', PBool True), (''compression'', rf_compression row)])"

definition build_mid_stream_failure_route_telemetry :: "run_facts \<Rightarrow> pydict \<Rightarrow> int \<Rightarrow> pv \<Rightarrow> route_telemetry" where
  "build_mid_stream_failure_route_telemetry row model final_status reason =
     \<lparr>rt_last_route = last_route_of row ''fail'' (py_str reason) (Some model) None,
      rt_route_log = build_mid_stream_failure_route_log row model final_status reason,
      rt_attempt_started_at = None\<rparr>"

section \<open>Responses\<close>

text \<open>The response headers a run asks for are a port: the failed run's, and the winner's.\<close>

definition build_upstream_failure_response ::
  "(string \<Rightarrow> string \<Rightarrow> nat \<Rightarrow> pv \<Rightarrow> string odict) \<Rightarrow> string \<Rightarrow> run_facts \<Rightarrow> error_row list \<Rightarrow> string
   \<Rightarrow> chat_response option" where
  "build_upstream_failure_response build_headers requested_model row errors terminal_reason =
     (let headers = build_headers (rf_request_id row) (rf_safe_model row) (length (rf_attempts row)) (rf_compression row);
          status = upstream_failure_status errors terminal_reason
      in case upstream_retry_after_seconds errors status of
           None \<Rightarrow> None
         | Some delay \<Rightarrow>
             Some \<lparr>cr_status = status,
                   cr_payload = build_upstream_failure_error requested_model (rf_request_id row)
                     (int (rf_candidate_count row)) (rf_attempts row) errors terminal_reason,
                   cr_headers = (case delay of None \<Rightarrow> headers
                                 | Some seconds \<Rightarrow> dset ''Retry-After'' (show_int seconds) headers)\<rparr>)"

definition content_type_of :: "pydict \<Rightarrow> string \<Rightarrow> string" where
  "content_type_of headers fallback = py_str (por (dget headers ''Content-Type'') (PStr fallback))"

definition build_non_streaming_success_response ::
  "string odict \<Rightarrow> upstream_response \<Rightarrow> raw_response" where
  "build_non_streaming_success_response headers response =
     \<lparr>rr_status = rs_status response, rr_content_type = content_type_of (rs_headers response) ''application/json'',
      rr_headers = headers, rr_content = rs_text response\<rparr>"

section \<open>Refusals\<close>

text \<open>A refusal and the row it writes to the route log.\<close>

record refusal =
  rf_response :: chat_response
  rf_route_row :: pydict

definition with_details :: "pydict \<Rightarrow> pydict \<Rightarrow> pydict" where
  "with_details details d = fold (\<lambda>(k, v). dset k v) details d"

definition refusal_response ::
  "(string \<Rightarrow> string \<Rightarrow> string odict) \<Rightarrow> pydict \<Rightarrow> string \<Rightarrow> string \<Rightarrow> real
   \<Rightarrow> int \<Rightarrow> string \<Rightarrow> string \<Rightarrow> string \<Rightarrow> pydict \<Rightarrow> int option \<Rightarrow> refusal" where
  "refusal_response response_headers body safe_requested_model request_id duration
       status reason error_type message refusal_details retry_after_seconds =
     (let row = build_no_attempt_route_log request_id safe_requested_model status reason duration (truthy (dget body ''stream''));
          payload = [(''message'', PStr message), (''type'', PStr error_type), (''request_id'', PStr request_id)];
          row' = put_if (refusal_details \<noteq> []) ''refusal'' (PDict refusal_details) row;
          payload' = with_details refusal_details payload;
          headers = response_headers request_id safe_requested_model
      in case retry_after_seconds of
           Some seconds \<Rightarrow>
             (if 0 < seconds
              then \<lparr>rf_response = \<lparr>cr_status = status, cr_payload = [(''error'', PDict payload')],
                                   cr_headers = dset ''Retry-After'' (show_int seconds) headers\<rparr>,
                    rf_route_row = dset ''retry_after_seconds'' (PInt seconds) row'\<rparr>
              else \<lparr>rf_response = \<lparr>cr_status = status, cr_payload = [(''error'', PDict payload')], cr_headers = headers\<rparr>,
                    rf_route_row = row'\<rparr>)
         | None \<Rightarrow> \<lparr>rf_response = \<lparr>cr_status = status, cr_payload = [(''error'', PDict payload')], cr_headers = headers\<rparr>,
                    rf_route_row = row'\<rparr>)"

definition malformed_tool_call_response ::
  "(string \<Rightarrow> string \<Rightarrow> string odict) \<Rightarrow> pydict \<Rightarrow> string \<Rightarrow> string \<Rightarrow> real \<Rightarrow> string \<Rightarrow> refusal" where
  "malformed_tool_call_response response_headers body safe_requested_model request_id duration detail =
     refusal_response response_headers body safe_requested_model request_id duration 400 ''malformed_tool_call''
       ''invalid_request_error''
       (''invalid request body: '' @ detail @ ''. Every tool call replayed in the conversation ''
        @ ''history must name the function it called; fix the client that built this ''
        @ ''history, or start a new conversation. No provider was called: they all reject '' @ ''this body.'')
       [] None"

definition no_available_model_response ::
  "(string \<Rightarrow> string \<Rightarrow> string odict) \<Rightarrow> pydict \<Rightarrow> string \<Rightarrow> string \<Rightarrow> real \<Rightarrow> refusal" where
  "no_available_model_response response_headers body safe_requested_model request_id duration =
     refusal_response response_headers body safe_requested_model request_id duration 503 ''no_available_model''
       ''no_available_model'' (''no invokable free tool-capable model for '' @ safe_requested_model) [] None"

definition REFUSAL_SCOPE_BY_BLOCK_REASON :: "string odict" where
  "REFUSAL_SCOPE_BY_BLOCK_REASON =
     [(''cooldown'', ''model''), (''quarantined'', ''model''), (''provider_cooldown'', ''provider''),
      (''quota_cooldown'', ''quota_pool''), (''not_invokable'', ''credential''), (''stale_catalog'', ''catalog''),
      (''profile_requirements'', ''profile''), (''competence_gate'', ''profile'')]"

text \<open>The first row of the catalog with this id or upstream id. Building the set of the two raises when
  one of them cannot be hashed.\<close>

fun row_serving :: "string \<Rightarrow> pv list \<Rightarrow> pydict option option" where
  "row_serving requested [] = Some None"
| "row_serving requested (PDict model # rows) =
     (if \<not> hashable (dget model ''id'') \<or> \<not> hashable (dget model ''upstream_id'') then None
      else if PStr requested \<in> {dget model ''id'', dget model ''upstream_id''} then Some (Some model)
      else row_serving requested rows)"
| "row_serving requested (_ # rows) = row_serving requested rows"

definition count_values :: "string odict \<Rightarrow> int odict" where
  "count_values reasons = fold (\<lambda>(_, reason). count_reason reason) reasons []"

definition bounded_counts :: "int odict \<Rightarrow> int odict" where
  "bounded_counts counts = take 8 (sort_key (\<lambda>(reason, n). (- n, reason)) counts)"

definition counts_payload :: "int odict \<Rightarrow> pydict" where
  "counts_payload counts = [(''excluded'', PDict (map (\<lambda>(reason, n). (reason, PInt n)) counts))]"

definition block_reason_of :: "selection_result \<Rightarrow> pydict \<Rightarrow> string" where
  "block_reason_of selection row =
     (case map_of (sel_excluded_reasons selection) (text_of row ''id'') of
        Some (c # cs) \<Rightarrow> c # cs | _ \<Rightarrow> ''not_selectable'')"

definition refusal_scope :: "string \<Rightarrow> string" where
  "refusal_scope block_reason =
     (case map_of REFUSAL_SCOPE_BY_BLOCK_REASON block_reason of Some scope \<Rightarrow> scope | None \<Rightarrow> ''model'')"

definition selection_refusal_response ::
  "(string \<Rightarrow> string \<Rightarrow> string odict) \<Rightarrow> bool \<Rightarrow> int option \<Rightarrow> pydict \<Rightarrow> string \<Rightarrow> string \<Rightarrow> string \<Rightarrow> real
   \<Rightarrow> pydict \<Rightarrow> selection_result \<Rightarrow> refusal option" where
  "selection_refusal_response response_headers is_virtual retry_after body requested safe_requested request_id duration
       catalog selection =
     (let refuse = refusal_response response_headers body safe_requested request_id duration in
      if \<not> is_virtual then do {
        rows \<leftarrow> iter_items (dget_or catalog ''models'' (PList []));
        found \<leftarrow> row_serving requested rows;
        Some (case found of
                None \<Rightarrow>
                  (let not_found = as_dict (dget (model_not_found_body safe_requested) ''error'')
                   in refuse 404 ''model_not_found'' (py_str (dget not_found ''type'')) (py_str (dget not_found ''message'')) [] None)
              | Some row \<Rightarrow>
                  (let block_reason = block_reason_of selection row; scope = refusal_scope block_reason
                   in refuse 503 ''model_unavailable'' ''model_unavailable''
                        (''model '' @ safe_requested @ '' is in the active catalog but temporarily ''
                         @ ''not selectable ('' @ block_reason @ '', scope: '' @ scope @ '')'')
                        [(''scope'', PStr scope), (''block_reason'', PStr block_reason)] retry_after))
      }
      else
        (let excluded_counts = count_values (sel_excluded_reasons selection); bounded = bounded_counts excluded_counts in
         Some (if requested = CODING_PROFILE_ID \<and> counted excluded_counts ''coding_certification''
           then refuse 503 ''no_certified_coding_model'' ''no_certified_coding_model''
             (''no free model with a valid Ficelle coding certification is currently '' @ ''available for '' @ safe_requested)
             (counts_payload bounded) retry_after
           else refuse 503 ''no_available_model'' ''no_available_model''
             (''no invokable free '' @ (if truthy (dget body ''tools'') then ''tool-capable model'' else ''model'')
              @ '' available for '' @ safe_requested)
             (if bounded = [] then [] else counts_payload bounded) retry_after)))"

section \<open>The start of a request\<close>

text \<open>The collaborators of the start: the catalog, the two selectors (the router gives both, and the
  typed one is used when it is there), and the recovery time of a selection.\<close>

record start_ports =
  sr_load_catalog :: "pydict \<Rightarrow> pydict"
  sr_select_candidates :: "string \<Rightarrow> pydict \<Rightarrow> pydict \<Rightarrow> pydict list"
  sr_select_result :: "(string \<Rightarrow> pydict \<Rightarrow> pydict \<Rightarrow> selection_result option) option"
  sr_is_fusion :: "string \<Rightarrow> bool"
  sr_is_virtual :: "string \<Rightarrow> bool"
  sr_response_headers :: "string \<Rightarrow> string \<Rightarrow> string odict"
  sr_retry_after :: "(selection_result \<Rightarrow> pydict \<Rightarrow> int option) option"

record chat_start =
  cs_catalog :: pydict
  cs_candidates :: "pydict list"
  cs_is_fusion :: bool
  cs_refusal :: "refusal option"

definition start_selection ::
  "start_ports \<Rightarrow> pydict \<Rightarrow> string \<Rightarrow> pydict \<Rightarrow> (pydict list \<times> selection_result option) option" where
  "start_selection p config requested catalog =
     (case sr_select_result p of
        Some select \<Rightarrow> do {
          selection \<leftarrow> select requested catalog config;
          Some (map as_legacy_dict (sel_candidates selection), Some selection)
        }
      | None \<Rightarrow> Some (sr_select_candidates p requested catalog config, None))"

definition start ::
  "start_ports \<Rightarrow> pydict \<Rightarrow> pv \<Rightarrow> string \<Rightarrow> real \<Rightarrow> chat_start option" where
  "start p config body_value request_id duration = do {
     body \<leftarrow> dict_or_raise body_value;
     (requested, safe_requested) \<leftarrow> normalize_chat_completion_request body_value;
     let headers = sr_response_headers p;
     case malformed_tool_call_detail body_value of
       Some detail \<Rightarrow>
         Some \<lparr>cs_catalog = [], cs_candidates = [], cs_is_fusion = False,
               cs_refusal = Some (malformed_tool_call_response headers body safe_requested request_id duration detail)\<rparr>
     | None \<Rightarrow> do {
         let catalog = sr_load_catalog p config;
         if sr_is_fusion p requested
         then Some \<lparr>cs_catalog = catalog, cs_candidates = [], cs_is_fusion = True, cs_refusal = None\<rparr>
         else do {
           (candidates, selection) \<leftarrow> start_selection p config requested catalog;
           refusal \<leftarrow>
             (if candidates \<noteq> [] then Some None
              else map_option Some
                (case selection of
                   None \<Rightarrow> Some (no_available_model_response headers body safe_requested request_id duration)
                 | Some result \<Rightarrow>
                     selection_refusal_response headers (sr_is_virtual p requested)
                       (case sr_retry_after p of None \<Rightarrow> None | Some f \<Rightarrow> f result catalog)
                       body requested safe_requested request_id duration catalog result));
           Some \<lparr>cs_catalog = catalog, cs_candidates = candidates, cs_is_fusion = False, cs_refusal = refusal\<rparr>
         }
       }
   }"

section \<open>What a refusal says\<close>

lemma refusal_view:
  "cr_status (rf_response (refusal_response hs body safe rid d status reason type message details retry)) = status
   \<and> dget (rf_route_row (refusal_response hs body safe rid d status reason type message details retry)) ''final_status'' = PInt status
   \<and> dget (rf_route_row (refusal_response hs body safe rid d status reason type message details retry)) ''final_reason'' = PStr reason
   \<and> dget (rf_route_row (refusal_response hs body safe rid d status reason type message details retry)) ''attempts'' = PList []"
  by (simp add: refusal_response_def Let_def build_no_attempt_route_log_def put_if_def split: option.splits)

text \<open>C20. A request is refused exactly when nothing can be tried, and the refusal is truthful: a 400 for a body
  whose tool calls every provider would reject, a 404 only for a model the catalog does not
  hold, a 503 for everything that may come back; no attempt was made, and the row of the log
  shows the status the caller got.\<close>

theorem refusals_are_truthful:
  assumes "start p config body_value request_id duration = Some started"
  shows "(cs_refusal started = None \<longleftrightarrow> cs_is_fusion started \<or> cs_candidates started \<noteq> [])
    \<and> (\<forall>r. cs_refusal started = Some r \<longrightarrow>
        dget (rf_route_row r) ''final_status'' = PInt (cr_status (rf_response r)) \<and> dget (rf_route_row r) ''attempts'' = PList []
        \<and> (\<exists>requested safe. normalize_chat_completion_request body_value = Some (requested, safe)
          \<and> cr_status (rf_response r) =
              (if malformed_tool_call_detail body_value \<noteq> None then 400
               else if sr_select_result p \<noteq> None \<and> \<not> sr_is_virtual p requested
                 \<and> Option.bind (iter_items (dget_or (cs_catalog started) ''models'' (PList []))) (row_serving requested) = Some None
               then 404 else 503)))"
proof -
  from assms obtain body requested safe where b: "normalize_chat_completion_request body_value = Some (requested, safe)"
      and s: "start p config body_value request_id duration = Some started" "dict_or_raise body_value = Some body"
    by (auto simp: start_def elim!: bind_SomeE)
  let ?hs = "sr_response_headers p" and ?catalog = "sr_load_catalog p config"
  note run = s(1)[unfolded start_def s(2) b Let_def, simplified]
  show ?thesis
  proof (cases "malformed_tool_call_detail body_value")
    case (Some detail)
    then show ?thesis using run b by (auto simp: malformed_tool_call_response_def refusal_view)
  next
    case None
    then show ?thesis
      using run b
      by (auto simp: start_selection_def no_available_model_response_def selection_refusal_response_def Let_def refusal_view
          split: if_splits option.splits elim!: bind_SomeE)
  qed
qed

definition example_refusing_ports :: start_ports where
  "example_refusing_ports = \<lparr>sr_load_catalog = (\<lambda>_. []), sr_select_candidates = (\<lambda>_ _ _. []),
     sr_select_result = Some (\<lambda>requested _ _. Some \<lparr>sel_requested_model = requested, sel_canonical_model = requested,
       sel_purpose = ''route'', sel_candidates = [], sel_excluded_reasons = [], sel_anti_empty_fallback = False\<rparr>),
     sr_is_fusion = (\<lambda>_. False), sr_is_virtual = (\<lambda>_. False), sr_response_headers = (\<lambda>_ _. []), sr_retry_after = None\<rparr>"

lemma refusals_are_truthful_witness:
  "\<exists>started r. start example_refusing_ports [] (PDict [(''model'', PStr ''u'')]) ''r'' 0 = Some started
     \<and> cs_refusal started = Some r \<and> cr_status (rf_response r) = 404"
proof -
  let ?body = "PDict [(''model'', PStr ''u'')]"
  have "map_option (\<lambda>s. (cs_candidates s, cs_is_fusion s, cs_catalog s)) (start example_refusing_ports [] ?body ''r'' 0) = Some ([], False, [])"
    by code_simp
  then obtain started where s: "start example_refusing_ports [] ?body ''r'' 0 = Some started"
      "cs_candidates started = []" "\<not> cs_is_fusion started" "cs_catalog started = []"
    by auto
  have "malformed_tool_call_detail ?body = None"
    "map_option (sr_is_virtual example_refusing_ports \<circ> fst) (normalize_chat_completion_request ?body) = Some False"
    "sr_select_result example_refusing_ports \<noteq> None"
    "map_option (\<lambda>(requested, _). Option.bind (iter_items (dget_or [] ''models'' (PList []))) (row_serving requested))
       (normalize_chat_completion_request ?body) = Some (Some None)"
    by code_simp+
  with refusals_are_truthful[OF s(1)] s show ?thesis by auto
qed

end
