(* ===== verification/AttemptLoop.thy ===== *)
theory AttemptLoop
  imports RouteReport "HOL-Library.State_Monad"
begin

text \<open>
  The attempt loop of a chat request (\<open>ChatCompletionRouter.run_attempts\<close> and its closures, in
  \<open>use_cases/chat_completion.py\<close>). What the loop observes and does outside itself - the clocks, the
  provider calls, the cooldown writes, the log - are ports that read and change an arbitrary world
  \<open>'w\<close>, so they are computations of the state monad over \<open>'w\<close>. The loop's own variables are the
  record \<open>loop_state\<close>; sets are lists. One iteration is \<open>attempt_step\<close>; \<open>LoopSteps\<close> repeats it. A
  terminal reason that is absent is the empty text.
\<close>

section \<open>Ports and state\<close>

record 'w attempt_ports =
  lp_now :: "('w, real) state"
  lp_wall_clock :: "('w, real) state"
  lp_pause :: "real \<Rightarrow> ('w, unit) state"
  lp_terminal_reason :: "('w, string) state"
  lp_invoke_model :: "pydict \<Rightarrow> pydict \<Rightarrow> real option \<Rightarrow> real option \<Rightarrow> int option \<Rightarrow> ('w, raised + upstream_response) state"
  lp_apply_cooldown :: "cooldown_request \<Rightarrow> ('w, applied_cooldown option) state"
  lp_stream_response :: "upstream_response \<Rightarrow> pydict \<Rightarrow> nat \<Rightarrow> real option \<Rightarrow> ('w, pydict) state"
  lp_unsupported_parameters :: "pydict \<Rightarrow> pydict \<Rightarrow> ('w, string list) state"
  lp_learn_unsupported :: "pydict \<Rightarrow> string list \<Rightarrow> ('w, unit) state"
  lp_resolve_competence :: "string \<Rightarrow> pydict \<Rightarrow> ('w, string) state"
  lp_record_success :: "pydict \<Rightarrow> real \<Rightarrow> route_telemetry \<Rightarrow> ('w, unit) state"
  lp_record_telemetry :: "route_telemetry \<Rightarrow> ('w, unit) state"
  lp_quota_matches :: "string \<Rightarrow> pydict \<Rightarrow> bool"
  lp_char_budget :: "string \<Rightarrow> int option"
  lp_is_timeout :: "raised \<Rightarrow> bool"
  lp_is_deadline :: "raised \<Rightarrow> bool"
  lp_verdicts :: verdict_ports
  lp_success_headers :: "string \<Rightarrow> string \<Rightarrow> pydict \<Rightarrow> nat \<Rightarrow> pv \<Rightarrow> string list \<Rightarrow> string odict"
  lp_failure_headers :: "string \<Rightarrow> string \<Rightarrow> nat \<Rightarrow> pv \<Rightarrow> string odict"

record 'w run_env =
  re_ports :: "'w attempt_ports"
  re_config :: pydict
  re_body :: pydict
  re_requested :: string
  re_safe_requested :: string
  re_request_id :: string
  re_request_started :: real
  re_plan :: attempt_plan

record loop_state =
  ls_errors :: "error_row list"
  ls_attempts :: "pydict list"
  ls_model :: pydict
  ls_attempt_body :: pydict
  ls_dropped :: "string list"
  ls_pending :: "pydict list"
  ls_considered :: nat
  ls_considered_ids :: "string list"
  ls_ruled_out_sources :: "string list"
  ls_ruled_out_quota_keys :: "string list"
  ls_ruled_out_upstreams :: "string list"
  ls_required_context :: int
  ls_divert_pending :: bool
  ls_terminal_reason :: string
  ls_retry_same_model :: "pydict option"
  ls_capacity_retried :: "string list"
  ls_pass_started :: bool

datatype run_outcome =
    NonStreamingSuccess raw_response
  | StreamingComplete
  | JsonFailure "chat_response option"
  | Abandoned

text \<open>How an iteration ends: with the next one, with a \<open>break\<close>, or with a \<open>return\<close>.\<close>

datatype signal = Next | Stop | Return run_outcome

definition run_deadline :: "'w run_env \<Rightarrow> real option" where
  "run_deadline env =
     (if ap_is_virtual (re_plan env) then request_deadline (re_config env) (re_request_started env) else None)"

definition loop_pool :: "'w run_env \<Rightarrow> pydict list" where
  "loop_pool env =
     (if ap_candidate_pool (re_plan env) \<noteq> [] then ap_candidate_pool (re_plan env) else ap_candidates (re_plan env))"

definition loop_start :: "'w run_env \<Rightarrow> loop_state" where
  "loop_start env = (let plan = re_plan env in
     \<lparr>ls_errors = ap_excluded_errors plan, ls_attempts = [], ls_model = [], ls_attempt_body = ap_routed_body plan,
      ls_dropped = [], ls_pending = ap_candidates plan, ls_considered = 0, ls_considered_ids = [],
      ls_ruled_out_sources = [], ls_ruled_out_quota_keys = [], ls_ruled_out_upstreams = [],
      ls_required_context = (if ap_context_exclusion_tokens_estimate plan \<noteq> 0
        then ap_context_exclusion_tokens_estimate plan else ap_prompt_tokens_estimate plan),
      ls_divert_pending = False, ls_terminal_reason = [], ls_retry_same_model = None, ls_capacity_retried = [],
      ls_pass_started = False\<rparr>)"

section \<open>What the run has ruled out\<close>

definition is_ruled_out :: "'w run_env \<Rightarrow> loop_state \<Rightarrow> pydict \<Rightarrow> bool" where
  "is_ruled_out env ls candidate \<longleftrightarrow>
     candidate_context_too_small candidate (real_of_int (ls_required_context ls))
     \<or> upstream_model_key (dget candidate ''upstream_id'') \<in> set (ls_ruled_out_upstreams ls)
     \<or> text_of candidate ''source'' \<in> set (ls_ruled_out_sources ls)
     \<or> list_ex (\<lambda>key. lp_quota_matches (re_ports env) key candidate) (ls_ruled_out_quota_keys ls)"

definition rule_out_source :: "string \<Rightarrow> loop_state \<Rightarrow> loop_state" where
  "rule_out_source source ls =
     (if source \<in> set (ls_ruled_out_sources ls) then ls
      else ls\<lparr>ls_ruled_out_sources := source # ls_ruled_out_sources ls, ls_divert_pending := True\<rparr>)"

definition still_offered :: "'w run_env \<Rightarrow> loop_state \<Rightarrow> (pydict \<Rightarrow> bool) \<Rightarrow> bool" where
  "still_offered env ls P \<longleftrightarrow> list_ex (\<lambda>c. text_of c ''id'' \<notin> set (ls_considered_ids ls) \<and> P c) (loop_pool env)"

definition rule_out_quota_key :: "'w run_env \<Rightarrow> string \<Rightarrow> loop_state \<Rightarrow> loop_state" where
  "rule_out_quota_key env key ls =
     (if key \<in> set (ls_ruled_out_quota_keys ls) then ls
      else ls\<lparr>ls_ruled_out_quota_keys := key # ls_ruled_out_quota_keys ls,
              ls_divert_pending := ls_divert_pending ls \<or> still_offered env ls (lp_quota_matches (re_ports env) key)\<rparr>)"

definition rule_out :: "'w run_env \<Rightarrow> applied_cooldown option \<Rightarrow> loop_state \<Rightarrow> loop_state" where
  "rule_out env applied ls =
     (case applied of
        None \<Rightarrow> ls
      | Some a \<Rightarrow>
          (let ls' = (if ac_provider_source a \<noteq> [] then rule_out_source (ac_provider_source a) ls else ls)
           in if ac_quota_key a \<noteq> [] then rule_out_quota_key env (ac_quota_key a) ls' else ls'))"

definition rule_out_upstream :: "'w run_env \<Rightarrow> string \<Rightarrow> loop_state \<Rightarrow> loop_state" where
  "rule_out_upstream env key ls =
     (if key = [] \<or> key \<in> set (ls_ruled_out_upstreams ls) then ls
      else ls\<lparr>ls_ruled_out_upstreams := key # ls_ruled_out_upstreams ls,
              ls_divert_pending := ls_divert_pending ls
                \<or> still_offered env ls (\<lambda>c. upstream_model_key (dget c ''upstream_id'') = key)\<rparr>)"

definition last_row :: "pydict list \<Rightarrow> pydict" where
  "last_row rows = (if rows = [] then [] else last rows)"

text \<open>The last failure read for what it says of the source, of the upstream model and of the size.\<close>

definition read_last_failure :: "'w run_env \<Rightarrow> loop_state \<Rightarrow> loop_state" where
  "read_last_failure env ls =
     (let last_attempt = last_row (ls_attempts ls); detail = text_of (last_row (ls_errors ls)) ''detail'';
          last_reason = text_of last_attempt ''reason'';
          source_wide = (last_reason \<in> set SOURCE_DIVERTING_FAILURE_REASONS);
          model_scoped = (source_wide \<and> contract_rejection_is_model_scoped (PStr detail));
          ls1 = (if source_wide \<and> \<not> model_scoped then rule_out_source (text_of last_attempt ''source'') ls else ls);
          ls2 = (if last_reason \<in> set UPSTREAM_MODEL_DIVERTING_FAILURE_REASONS \<or> model_scoped
                 then rule_out_upstream env (upstream_model_key (dget last_attempt ''upstream'')) ls1 else ls1)
      in if last_reason \<in> set CONTEXT_DIVERTING_FAILURE_REASONS
         then ls2\<lparr>ls_required_context := max (max (ls_required_context ls2)
                    (case rejected_request_tokens detail of None \<Rightarrow> 0 | Some n \<Rightarrow> n))
                    (safe_int (dget (ls_model ls2) ''context_length'') 0 + 1),
                  ls_divert_pending := True\<rparr>
         else ls2)"

definition replan :: "'w run_env \<Rightarrow> loop_state \<Rightarrow> loop_state" where
  "replan env ls =
     (if \<not> ls_divert_pending ls then ls
      else let replanned = attempts_after_source_rejection (loop_pool env) (ls_considered_ids ls) (is_ruled_out env ls)
             (int (length (ap_candidates (re_plan env))) - int (ls_considered ls)) (re_config env)
           in ls\<lparr>ls_divert_pending := False, ls_pending := (if replanned \<noteq> [] then replanned else ls_pending ls)\<rparr>)"

section \<open>Waiting for capacity\<close>

definition MAX_INLINE_RETRY_AFTER_SECONDS :: int where "MAX_INLINE_RETRY_AFTER_SECONDS = 60"
definition CAPACITY_RETRY_PASS_DEFAULT_WAIT_SECONDS :: int where "CAPACITY_RETRY_PASS_DEFAULT_WAIT_SECONDS = 10"
definition CAPACITY_RETRY_PASS_MIN_WAIT_SECONDS :: int where "CAPACITY_RETRY_PASS_MIN_WAIT_SECONDS = 5"
definition CAPACITY_RETRY_PASS_MAX_WAIT_SECONDS :: int where "CAPACITY_RETRY_PASS_MAX_WAIT_SECONDS = 30"
definition CAPACITY_RETRY_PASS_MAX_MODELS :: nat where "CAPACITY_RETRY_PASS_MAX_MODELS = 2"
definition CAPACITY_RETRY_PASS_MIN_REMAINING_SECONDS :: int where "CAPACITY_RETRY_PASS_MIN_REMAINING_SECONDS = 30"

text \<open>Whether at least so many seconds of the budget are left over, read off the clock when there is one.\<close>

definition budget_leaves :: "'w run_env \<Rightarrow> real \<Rightarrow> ('w, bool) state" where
  "budget_leaves env seconds =
     (case run_deadline env of
        None \<Rightarrow> State_Monad.return True
      | Some deadline \<Rightarrow> do { now \<leftarrow> lp_now (re_ports env); State_Monad.return (seconds < deadline - now) })"

definition inline_capacity_retry_delay ::
  "'w run_env \<Rightarrow> pydict \<Rightarrow> int option \<Rightarrow> loop_state \<Rightarrow> ('w, int option \<times> loop_state) state" where
  "inline_capacity_retry_delay env model seconds ls =
     (case seconds of
        None \<Rightarrow> State_Monad.return (None, ls)
      | Some s \<Rightarrow>
          if \<not> (1 \<le> s \<and> s \<le> MAX_INLINE_RETRY_AFTER_SECONDS) \<or> text_of model ''id'' \<in> set (ls_capacity_retried ls)
             \<or> ap_is_virtual (re_plan env) \<and> ls_pending ls \<noteq> []
          then State_Monad.return (None, ls)
          else do {
            enough \<leftarrow> budget_leaves env (real_of_int s + 1);
            State_Monad.return
              (if enough then (Some s, ls\<lparr>ls_capacity_retried := text_of model ''id'' # ls_capacity_retried ls\<rparr>) else (None, ls))
          })"

definition pass_wait :: "pydict list \<Rightarrow> int" where
  "pass_wait attempts =
     (let hinted = filter (\<lambda>s. 0 < s) (map (\<lambda>row. safe_int (dget row ''retry_after_seconds'') 0) attempts)
      in max (case hinted of [] \<Rightarrow> CAPACITY_RETRY_PASS_DEFAULT_WAIT_SECONDS | s # ss \<Rightarrow> foldl max s ss)
           CAPACITY_RETRY_PASS_MIN_WAIT_SECONDS)"

text \<open>The candidates asked again: those of the attempts, in their order, at most two.\<close>

fun pass_candidates :: "(string \<Rightarrow> pydict option) \<Rightarrow> string list \<Rightarrow> pydict list \<Rightarrow> pydict list \<Rightarrow> pydict list" where
  "pass_candidates by_id retried_ids [] retried = retried"
| "pass_candidates by_id retried_ids (row # rows) retried =
     (case by_id (text_of row ''model'') of
        None \<Rightarrow> pass_candidates by_id retried_ids rows retried
      | Some candidate \<Rightarrow>
          if text_of row ''model'' \<in> set retried_ids \<or> candidate \<in> set retried
          then pass_candidates by_id retried_ids rows retried
          else if CAPACITY_RETRY_PASS_MAX_MODELS \<le> Suc (length retried) then retried @ [candidate]
          else pass_candidates by_id retried_ids rows (retried @ [candidate]))"

definition candidate_by_id :: "'w run_env \<Rightarrow> string \<Rightarrow> pydict option" where
  "candidate_by_id env =
     map_of (rev (map (\<lambda>c. (text_of c ''id'', c)) (ap_candidates (re_plan env) @ loop_pool env)))"

text \<open>The wait, in steps of a second, until it is over or the run has no one left to answer.\<close>

fun wait_seconds :: "'w run_env \<Rightarrow> nat \<Rightarrow> ('w, unit) state" where
  "wait_seconds env 0 = State_Monad.return ()"
| "wait_seconds env (Suc n) = do {
     reason \<leftarrow> lp_terminal_reason (re_ports env);
     if reason \<noteq> [] then State_Monad.return ()
     else do { _ \<leftarrow> lp_pause (re_ports env) 1; wait_seconds env n }
   }"

definition capacity_retry_pass :: "'w run_env \<Rightarrow> loop_state \<Rightarrow> ('w, pydict list \<times> loop_state) state" where
  "capacity_retry_pass env ls =
     (if ls_pass_started ls \<or> \<not> ap_is_virtual (re_plan env) \<or> ls_attempts ls = []
         \<or> \<not> truthy (dget_or (re_config env) ''capacity_retry_pass'' (PBool True))
         \<or> list_ex (\<lambda>row. text_of row ''reason'' \<notin> set CAPACITY_FAILURE_REASONS) (ls_attempts ls)
      then State_Monad.return ([], ls)
      else
        (let ls' = ls\<lparr>ls_pass_started := True\<rparr>; wait = pass_wait (ls_attempts ls) in
         if CAPACITY_RETRY_PASS_MAX_WAIT_SECONDS < wait then State_Monad.return ([], ls')
         else do {
           enough \<leftarrow> budget_leaves env (real_of_int (wait + CAPACITY_RETRY_PASS_MIN_REMAINING_SECONDS));
           if \<not> enough then State_Monad.return ([], ls')
           else do {
             reason \<leftarrow> lp_terminal_reason (re_ports env);
             if reason \<noteq> [] then State_Monad.return ([], ls')
             else do {
               let retried = pass_candidates (candidate_by_id env) (ls_capacity_retried ls) (ls_attempts ls) [];
               _ \<leftarrow> (if retried = [] then State_Monad.return () else wait_seconds env (nat wait));
               State_Monad.return (retried, ls')
             }
           }
         }))"

section \<open>Choosing the next call\<close>

text \<open>The model to ask: the same one again, or the next of the window after the last failure was read.
  The flag says which; a new candidate starts from the caller's body.\<close>

definition next_candidate :: "'w run_env \<Rightarrow> loop_state \<Rightarrow> ('w, loop_state) state" where
  "next_candidate env ls =
     (let ls' = replan env (read_last_failure env ls); model = hd (ls_pending ls'); body = ap_routed_body (re_plan env) in do {
        known \<leftarrow> lp_unsupported_parameters (re_ports env) model body;
        State_Monad.return (ls'\<lparr>ls_pending := tl (ls_pending ls'), ls_model := model, ls_dropped := known,
          ls_attempt_body := (if known \<noteq> [] then drop_sampling_parameters body known else body)\<rparr>)
      })"

definition choose_model :: "'w run_env \<Rightarrow> loop_state \<Rightarrow> ('w, bool \<times> loop_state) state" where
  "choose_model env ls =
     (case ls_retry_same_model ls of
        Some model \<Rightarrow> State_Monad.return (True, ls\<lparr>ls_model := model, ls_retry_same_model := None\<rparr>)
      | None \<Rightarrow> do { ls' \<leftarrow> next_candidate env ls; State_Monad.return (False, ls') })"

definition check_terminal :: "'w run_env \<Rightarrow> loop_state \<Rightarrow> ('w, string) state" where
  "check_terminal env ls =
     (if ls_considered ls = 0 then State_Monad.return (ls_terminal_reason ls)
      else case run_deadline env of
             None \<Rightarrow> lp_terminal_reason (re_ports env)
           | Some deadline \<Rightarrow> do {
               now \<leftarrow> lp_now (re_ports env);
               if deadline \<le> now then State_Monad.return ''request_deadline_exceeded''
               else lp_terminal_reason (re_ports env)
             })"

definition not_attempted_row :: "pydict \<Rightarrow> string \<Rightarrow> error_row" where
  "not_attempted_row model reason = model_fields model @ [(''reason'', PStr reason), (''attempted'', PBool False)]"

definition count_candidate :: "bool \<Rightarrow> loop_state \<Rightarrow> loop_state" where
  "count_candidate is_retry ls =
     (if is_retry then ls
      else ls\<lparr>ls_considered := Suc (ls_considered ls),
              ls_considered_ids := text_of (ls_model ls) ''id'' # ls_considered_ids ls\<rparr>)"

section \<open>One attempt\<close>

definition record_attempt_result :: "pydict \<Rightarrow> pydict \<Rightarrow> loop_state \<Rightarrow> loop_state" where
  "record_attempt_result attempt update ls = ls\<lparr>ls_attempts := ls_attempts ls @ [with_details update attempt]\<rparr>"

definition add_error :: "pydict option \<Rightarrow> loop_state \<Rightarrow> loop_state" where
  "add_error error ls = (case error of None \<Rightarrow> ls | Some row \<Rightarrow> ls\<lparr>ls_errors := ls_errors ls @ [row]\<rparr>)"

definition record_attempt_failure :: "pydict \<Rightarrow> pydict \<Rightarrow> pydict option \<Rightarrow> loop_state \<Rightarrow> loop_state" where
  "record_attempt_failure attempt update error ls = add_error error (record_attempt_result attempt update ls)"

definition attempt_fields :: "loop_state \<Rightarrow> pydict" where
  "attempt_fields ls =
     model_fields (ls_model ls) @ (if ls_pass_started ls then [(''capacity_retry_pass'', PBool True)] else [])"

definition facts_of :: "'w run_env \<Rightarrow> loop_state \<Rightarrow> real \<Rightarrow> run_facts" where
  "facts_of env ls now = (let plan = re_plan env in
     \<lparr>rf_request_id = re_request_id env, rf_safe_model = re_safe_requested env,
      rf_candidate_count = ap_candidate_count plan, rf_attempts = ls_attempts ls,
      rf_duration = now - re_request_started env, rf_compression = ap_compression_metadata plan,
      rf_prompt_tokens = ap_prompt_tokens_estimate plan, rf_excluded = ap_excluded_for_context plan,
      rf_demoted = ap_demoted_for_context plan\<rparr>)"

text \<open>Writing the cooldown of a decision, and what it rules out.\<close>

definition apply_decision :: "'w run_env \<Rightarrow> attempt_decision \<Rightarrow> loop_state \<Rightarrow> ('w, loop_state) state" where
  "apply_decision env decision ls = do {
     applied \<leftarrow> lp_apply_cooldown (re_ports env) (build_attempt_cooldown_request (ls_model ls) decision);
     State_Monad.return (rule_out env applied ls)
   }"

definition ending_of :: "outcome \<Rightarrow> signal" where
  "ending_of result = (if result = TerminalFailure then Stop else Next)"

text \<open>The same model again after its delay.\<close>

definition ask_again :: "'w run_env \<Rightarrow> int \<Rightarrow> loop_state \<Rightarrow> ('w, signal \<times> loop_state) state" where
  "ask_again env delay ls = do {
     _ \<leftarrow> lp_pause (re_ports env) (real_of_int delay);
     State_Monad.return (Next, ls\<lparr>ls_retry_same_model := Some (ls_model ls)\<rparr>)
   }"

definition with_inline_delay :: "int option \<Rightarrow> pydict \<Rightarrow> pydict" where
  "with_inline_delay delay update =
     (case delay of None \<Rightarrow> update | Some s \<Rightarrow> dset ''inline_retry_after_seconds'' (PInt s) update)"

text \<open>The provider's own budget of requests is full: nobody was called.\<close>

definition admission_update :: "raised \<Rightarrow> real \<Rightarrow> pydict" where
  "admission_update exc latency =
     [(''status'', PInt 429), (''reason'', PStr ''rate_limited''), (''latency_seconds'', rounded4 latency),
      (''retry_after_seconds'', PInt (ra_retry_after exc)), (''retry_after_source'', PStr ''local_admission''),
      (''admission'', PStr ''deferred'')]"

definition admission_error :: "raised \<Rightarrow> pydict \<Rightarrow> error_row" where
  "admission_error exc model =
     model_fields model @
     [(''status'', PInt 429), (''reason'', PStr ''rate_limited''),
      (''detail'', PStr ''local provider request budget is temporarily full''),
      (''retry_after_seconds'', PInt (ra_retry_after exc)), (''retry_after_source'', PStr ''local_admission'')]"

definition after_refused_admission ::
  "'w run_env \<Rightarrow> raised \<Rightarrow> real \<Rightarrow> loop_state \<Rightarrow> ('w, signal \<times> loop_state) state" where
  "after_refused_admission env exc latency ls = do {
     (delay, ls1) \<leftarrow> inline_capacity_retry_delay env (ls_model ls) (Some (ra_retry_after exc)) ls;
     let ls2 = record_attempt_failure (attempt_fields ls) (with_inline_delay delay (admission_update exc latency))
                 (Some (admission_error exc (ls_model ls))) ls1;
     case delay of
       Some s \<Rightarrow> ask_again env s ls2
     | None \<Rightarrow> State_Monad.return (Next, rule_out_source (text_of (ls_model ls) ''source'') ls2)
   }"

definition after_exception :: "'w run_env \<Rightarrow> raised \<Rightarrow> real \<Rightarrow> loop_state \<Rightarrow> ('w, signal \<times> loop_state) state" where
  "after_exception env exc latency ls =
     (let decision = evaluate_invocation_exception exc (ls_model ls) latency
            (lp_is_timeout (re_ports env) exc) (lp_is_deadline (re_ports env) exc);
          timed = decision\<lparr>de_update := add_transport_timeout_telemetry (ra_attrs exc) (de_update decision)\<rparr> in do {
        ls' \<leftarrow> apply_decision env timed ls;
        State_Monad.return (Next, record_attempt_failure (attempt_fields ls) (de_update timed) (de_error timed) ls')
      })"

text \<open>A success: its route is recorded with the health it proves.\<close>

definition record_route_success ::
  "'w run_env \<Rightarrow> upstream_response \<Rightarrow> attempt_decision \<Rightarrow> real \<Rightarrow> real \<Rightarrow> bool \<Rightarrow> loop_state \<Rightarrow> ('w, unit) state" where
  "record_route_success env response decision latency attempt_started_at streamed ls = do {
     competence \<leftarrow> lp_resolve_competence (re_ports env) (re_requested env) (ls_model ls);
     now \<leftarrow> lp_now (re_ports env);
     lp_record_success (re_ports env) (ls_model ls) latency
       (build_success_route_telemetry (facts_of env ls now) (ls_model ls) competence (rs_status response) streamed
          (if streamed then Some True else None) (de_usage decision) attempt_started_at)
   }"

definition with_first_byte :: "upstream_response \<Rightarrow> attempt_decision \<Rightarrow> attempt_decision" where
  "with_first_byte response decision =
     decision\<lparr>de_update := add_first_byte_telemetry (rs_attrs response) (de_update decision)\<rparr>"

definition after_buffered ::
  "'w run_env \<Rightarrow> upstream_response \<Rightarrow> real \<Rightarrow> real \<Rightarrow> loop_state \<Rightarrow> ('w, signal \<times> loop_state) state" where
  "after_buffered env response latency attempt_started_at ls =
     (let decision = with_first_byte response
            (evaluate_non_streaming_success_response (lp_verdicts (re_ports env)) response (ls_model ls) latency
               (ap_is_virtual (re_plan env)) (lp_char_budget (re_ports env) (re_requested env)))
      in if de_outcome decision \<noteq> Success then do {
           ls' \<leftarrow> apply_decision env decision ls;
           State_Monad.return (ending_of (de_outcome decision),
             record_attempt_failure (attempt_fields ls) (de_update decision) (de_error decision) ls')
         }
         else (let ls' = record_attempt_result (attempt_fields ls) (de_update decision) ls in do {
           _ \<leftarrow> record_route_success env response decision latency attempt_started_at False ls';
           State_Monad.return
             (Return (NonStreamingSuccess (build_non_streaming_success_response
                (lp_success_headers (re_ports env) (re_request_id env) (re_safe_requested env) (ls_model ls)
                   (length (ls_attempts ls')) (ap_compression_metadata (re_plan env)) (sort (remdups (ls_dropped ls))))
                response)), ls')
         }))"

definition finish_stream ::
  "'w run_env \<Rightarrow> upstream_response \<Rightarrow> attempt_decision \<Rightarrow> real \<Rightarrow> real \<Rightarrow> loop_state \<Rightarrow> ('w, signal \<times> loop_state) state" where
  "finish_stream env response decision latency attempt_started_at ls =
     (if de_outcome decision = Success then do {
        _ \<leftarrow> record_route_success env response decision latency attempt_started_at True ls;
        State_Monad.return (Return StreamingComplete, ls)
      }
      else do {
        ls1 \<leftarrow> apply_decision env decision ls;
        let ls2 = add_error (de_error decision) ls1;
        if de_outcome decision = MidStreamFailure then do {
          ended \<leftarrow> lp_now (re_ports env);
          _ \<leftarrow> lp_record_telemetry (re_ports env)
            (build_mid_stream_failure_route_telemetry (facts_of env ls2 ended) (ls_model ls) (rs_status response)
               (dget (de_update decision) ''reason''));
          State_Monad.return (Return StreamingComplete, ls2)
        }
        else State_Monad.return (ending_of (de_outcome decision), ls2)
      })"

definition after_streamed ::
  "'w run_env \<Rightarrow> upstream_response \<Rightarrow> real \<Rightarrow> real \<Rightarrow> loop_state \<Rightarrow> ('w, signal \<times> loop_state) state" where
  "after_streamed env response started attempt_started_at ls = do {
     stream_result \<leftarrow> lp_stream_response (re_ports env) response (ls_model ls) (Suc (length (ls_attempts ls))) (run_deadline env);
     now \<leftarrow> lp_now (re_ports env);
     let decision = with_first_byte response
           (evaluate_streaming_result (lp_verdicts (re_ports env)) stream_result (ls_model ls) (rs_status response)
              (now - started) (ap_is_virtual (re_plan env)));
     finish_stream env response decision (now - started) attempt_started_at
       (record_attempt_result (attempt_fields ls) (de_update decision) ls)
   }"

text \<open>The sampling knobs a refusal names that are still in the body.\<close>

definition retryable_knobs :: "attempt_decision \<Rightarrow> loop_state \<Rightarrow> string list" where
  "retryable_knobs decision ls =
     filter (\<lambda>knob. knob \<notin> set (ls_dropped ls))
       (rejected_sampling_parameters (text_of (case de_error decision of None \<Rightarrow> [] | Some e \<Rightarrow> e) ''detail'') (ls_attempt_body ls))"

definition drop_knobs :: "string list \<Rightarrow> loop_state \<Rightarrow> loop_state" where
  "drop_knobs knobs ls =
     ls\<lparr>ls_dropped := ls_dropped ls @ knobs, ls_attempt_body := drop_sampling_parameters (ls_attempt_body ls) knobs,
        ls_retry_same_model := Some (ls_model ls)\<rparr>"

definition finish_refusal ::
  "'w run_env \<Rightarrow> attempt_decision \<Rightarrow> loop_state \<Rightarrow> ('w, signal \<times> loop_state) state" where
  "finish_refusal env decision ls =
     (let knobs = retryable_knobs decision ls in
      if knobs \<noteq> [] then do {
        _ \<leftarrow> lp_learn_unsupported (re_ports env) (ls_model ls) knobs;
        State_Monad.return (Next, drop_knobs knobs (record_attempt_result (attempt_fields ls)
          (dset ''retried_without_parameters'' (PList (map PStr knobs)) (de_update decision)) ls))
      }
      else do {
        ls1 \<leftarrow> apply_decision env decision ls;
        (delay, ls2) \<leftarrow> inline_capacity_retry_delay env (ls_model ls)
          (if de_cooldown_reason decision \<in> {''rate_limited'', ''rate_limited_upstream''}
           then map_option fst (de_retry_after decision) else None) ls1;
        let ls3 = record_attempt_failure (attempt_fields ls) (with_inline_delay delay (de_update decision)) (de_error decision) ls2;
        case delay of
          Some s \<Rightarrow> ask_again env s ls3
        | None \<Rightarrow> State_Monad.return (ending_of (de_outcome decision), ls3)
      })"

definition after_refusal ::
  "'w run_env \<Rightarrow> upstream_response \<Rightarrow> real \<Rightarrow> loop_state \<Rightarrow> ('w, signal \<times> loop_state) state" where
  "after_refusal env response latency ls = do {
     clock \<leftarrow> lp_wall_clock (re_ports env);
     finish_refusal env (with_first_byte response
       (evaluate_upstream_failure_response (lp_verdicts (re_ports env)) clock response (ls_model ls) latency
          (ap_is_virtual (re_plan env)))) ls
   }"

definition remaining_budget :: "'w run_env \<Rightarrow> ('w, real option) state" where
  "remaining_budget env =
     (case run_deadline env of
        None \<Rightarrow> State_Monad.return None
      | Some deadline \<Rightarrow> do { now \<leftarrow> lp_now (re_ports env); State_Monad.return (Some (deadline - now)) })"

definition attempt_model :: "'w run_env \<Rightarrow> loop_state \<Rightarrow> ('w, signal \<times> loop_state) state" where
  "attempt_model env ls = do {
     started \<leftarrow> lp_now (re_ports env);
     attempt_started_at \<leftarrow> lp_wall_clock (re_ports env);
     budget \<leftarrow> remaining_budget env;
     answer \<leftarrow> lp_invoke_model (re_ports env) (ls_model ls) (ls_attempt_body ls) budget (run_deadline env)
       (lp_char_budget (re_ports env) (re_requested env));
     now \<leftarrow> lp_now (re_ports env);
     case answer of
       Inl exc \<Rightarrow>
         if is_instance exc ''ProviderAdmissionRefused'' then after_refused_admission env exc (now - started) ls
         else after_exception env exc (now - started) ls
     | Inr response \<Rightarrow>
         if 200 \<le> rs_status response \<and> rs_status response < 300 then
           (if \<not> truthy (dget (re_body env) ''stream'')
            then after_buffered env response (now - started) attempt_started_at ls
            else after_streamed env response started attempt_started_at ls)
         else after_refusal env response (now - started) ls
   }"

section \<open>The loop\<close>

definition ask_next :: "'w run_env \<Rightarrow> loop_state \<Rightarrow> ('w, signal \<times> loop_state) state" where
  "ask_next env ls = do {
     (is_retry, ls1) \<leftarrow> choose_model env ls;
     reason \<leftarrow> check_terminal env ls1;
     if reason \<noteq> [] then
       State_Monad.return (Stop, add_error (Some (not_attempted_row (ls_model ls1) reason)) (ls1\<lparr>ls_terminal_reason := reason\<rparr>))
     else attempt_model env (count_candidate is_retry ls1)
   }"

definition attempt_step :: "'w run_env \<Rightarrow> loop_state \<Rightarrow> ('w, signal \<times> loop_state) state" where
  "attempt_step env ls =
     (if ls_pending ls = [] \<and> ls_retry_same_model ls = None then do {
        (retried, ls') \<leftarrow> capacity_retry_pass env ls;
        if retried = [] then State_Monad.return (Stop, ls') else ask_next env (ls'\<lparr>ls_pending := retried\<rparr>)
      }
      else ask_next env ls)"

end
