(* ===== verification/LoopSteps.thy ===== *)
theory LoopSteps
  imports AttemptLoop
begin

text \<open>
  What one iteration of the attempt loop does, and the loop itself. The port computations may
  return anything, so a fact about an iteration is a fact about all its results (\<open>pred_state\<close>).
  An attempt is summarised by \<open>attempt_post\<close>, what it teaches by \<open>learns\<close>, an iteration by
  \<open>step_post\<close>; the measure of the loop is the pass it may still make, the window it may still
  ask, and the retries it may still spend.
\<close>

section \<open>Facts about any run of a computation\<close>

text \<open>A fact about the results of a computation, whatever the world it starts in. The two rules for a
  bind: through what is known of the first part, or for any of its results.\<close>

lemma pred_return [simp]: "pred_state P (State_Monad.return x) = P x"
proof
  show "P x" if "pred_state P (State_Monad.return x)"
    using pred_state_run_state[OF that, of undefined] by simp
qed (rule pred_stateI, simp)

lemma pred_bind: "pred_state Q m \<Longrightarrow> (\<And>x. Q x \<Longrightarrow> pred_state P (f x)) \<Longrightarrow> pred_state P (State_Monad.bind m f)"
  by (rule bind_predI) (auto intro: state.pred_mono_strong)

lemma pred_bind_any: "(\<And>x. pred_state P (f x)) \<Longrightarrow> pred_state P (State_Monad.bind m f)"
  by (rule pred_bind[where Q = "\<lambda>_. True"]) (auto intro: pred_stateI)

lemma pred_bind_pair:
  "pred_state (\<lambda>(a, b). Q a b) m \<Longrightarrow> (\<And>a b. Q a b \<Longrightarrow> pred_state P (f (a, b))) \<Longrightarrow> pred_state P (State_Monad.bind m f)"
  by (rule pred_bind[where Q = "\<lambda>(a, b). Q a b"]) auto

lemma pred_mono: "pred_state Q m \<Longrightarrow> (\<And>x. Q x \<Longrightarrow> P x) \<Longrightarrow> pred_state P m"
  by (rule state.pred_mono_strong)

section \<open>What ruling out leaves alone\<close>

text \<open>The variables of the window: ruling something out changes none of them.\<close>

definition same_window :: "loop_state \<Rightarrow> loop_state \<Rightarrow> bool" where
  "same_window ls ls' \<longleftrightarrow> ls_pending ls' = ls_pending ls \<and> ls_considered ls' = ls_considered ls
     \<and> ls_considered_ids ls' = ls_considered_ids ls \<and> ls_pass_started ls' = ls_pass_started ls
     \<and> ls_model ls' = ls_model ls \<and> ls_terminal_reason ls' = ls_terminal_reason ls"

definition same_knowledge :: "loop_state \<Rightarrow> loop_state \<Rightarrow> bool" where
  "same_knowledge ls ls' \<longleftrightarrow> same_window ls ls' \<and> ls_retry_same_model ls' = ls_retry_same_model ls
     \<and> ls_dropped ls' = ls_dropped ls \<and> ls_capacity_retried ls' = ls_capacity_retried ls
     \<and> ls_attempts ls' = ls_attempts ls \<and> ls_errors ls' = ls_errors ls"

lemma same_knowledge_refl [simp]: "same_knowledge ls ls"
  by (simp add: same_knowledge_def same_window_def)

lemma frame_source: "same_knowledge ls ls' \<Longrightarrow> same_knowledge ls (rule_out_source source ls')"
  by (simp add: same_knowledge_def same_window_def rule_out_source_def)

lemma frame_quota_key: "same_knowledge ls ls' \<Longrightarrow> same_knowledge ls (rule_out_quota_key env key ls')"
  by (simp add: same_knowledge_def same_window_def rule_out_quota_key_def)

lemma frame_upstream: "same_knowledge ls ls' \<Longrightarrow> same_knowledge ls (rule_out_upstream env key ls')"
  by (simp add: same_knowledge_def same_window_def rule_out_upstream_def)

lemma frame_context:
  "same_knowledge ls ls' \<Longrightarrow> same_knowledge ls (ls'\<lparr>ls_required_context := n, ls_divert_pending := b\<rparr>)"
  by (simp add: same_knowledge_def same_window_def)

lemma frame_if: "same_knowledge ls a \<Longrightarrow> same_knowledge ls b \<Longrightarrow> same_knowledge ls (if c then a else b)"
  by simp

lemmas frames = frame_if frame_source frame_quota_key frame_upstream frame_context same_knowledge_refl

lemma rule_out_frame: "same_knowledge ls (rule_out env applied ls)"
  by (cases applied) (simp_all only: rule_out_def Let_def option.case frames)

lemma read_last_failure_frame: "same_knowledge ls (read_last_failure env ls)"
  unfolding read_last_failure_def Let_def by (intro frames)

lemma apply_decision_frame: "pred_state (same_knowledge ls) (apply_decision env decision ls)"
  unfolding apply_decision_def by (rule pred_bind_any) (simp add: rule_out_frame)

lemma inline_delay_frame:
  "pred_state (\<lambda>(delay, ls'). if delay = None then ls' = ls
      else text_of model ''id'' \<notin> set (ls_capacity_retried ls)
         \<and> ls' = ls\<lparr>ls_capacity_retried := text_of model ''id'' # ls_capacity_retried ls\<rparr>)
    (inline_capacity_retry_delay env model seconds ls)"
  unfolding inline_capacity_retry_delay_def
  by (auto intro!: pred_bind_any split: option.split)

section \<open>What an attempt changes\<close>

text \<open>The knobs a candidate may still lose and the wait it may still be granted.\<close>

definition retries_left :: "loop_state \<Rightarrow> nat" where
  "retries_left ls = card (set DROPPABLE_SAMPLING_PARAMETERS - set (ls_dropped ls))
     + (if text_of (ls_model ls) ''id'' \<in> set (ls_capacity_retried ls) then 0 else 1)"

lemma retryable_knobs_fresh:
  assumes "retryable_knobs decision ls \<noteq> []"
  shows "retries_left (drop_knobs (retryable_knobs decision ls) (record_attempt_result attempt update ls)) < retries_left ls"
proof -
  let ?ks = "retryable_knobs decision ls"
  have ks: "set ?ks \<subseteq> set DROPPABLE_SAMPLING_PARAMETERS - set (ls_dropped ls)"
    by (auto simp: retryable_knobs_def rejected_sampling_parameters_def Let_def split: if_splits)
  have "card (set DROPPABLE_SAMPLING_PARAMETERS - set (ls_dropped ls @ ?ks))
      < card (set DROPPABLE_SAMPLING_PARAMETERS - set (ls_dropped ls))"
    using ks assms by (intro psubset_card_mono) (auto simp: neq_Nil_conv)
  then show ?thesis
    by (simp add: retries_left_def drop_knobs_def record_attempt_result_def)
qed

section \<open>The rows an attempt leaves\<close>

lemma dget_with_details:
  "wf_dict d \<Longrightarrow> dget (with_details d a) k = (if dhas k d then dget d k else dget a k)"
proof (induction d arbitrary: a)
  case (Cons kv d)
  obtain k' v where kv: "kv = (k', v)" by fastforce
  have "map_of d k' = None" using Cons.prems by (simp add: kv map_of_eq_None_iff)
  moreover have "dget (with_details (kv # d) a) k = (if dhas k d then dget d k else dget (dset k' v a) k)"
    using Cons by (simp add: kv with_details_def)
  ultimately show ?case by (auto simp: kv dhas_def dget_def split: option.splits)
qed (simp add: with_details_def dhas_def)

lemma dget_put_if [simp]: "dget (put_if b k v d) k' = (if b \<and> k' = k then v else dget d k')"
  by (simp add: put_if_def)

lemma dhas_put_if [simp]: "dhas k' (put_if b k v d) \<longleftrightarrow> b \<and> k' = k \<or> dhas k' d"
  by (simp add: put_if_def dhas_def)

lemma wf_put_if [simp]: "wf_dict d \<Longrightarrow> wf_dict (put_if b k v d)"
  by (simp add: put_if_def)

lemma dget_put_seconds [simp]: "k' \<noteq> k \<Longrightarrow> dget (put_seconds k raw d) k' = dget d k'"
  by (simp add: put_seconds_def split: option.split)

lemma dhas_put_seconds [simp]: "k' \<noteq> k \<Longrightarrow> dhas k' (put_seconds k raw d) \<longleftrightarrow> dhas k' d"
  by (simp add: put_seconds_def dhas_def split: option.split)

lemma wf_put_seconds [simp]: "wf_dict d \<Longrightarrow> wf_dict (put_seconds k raw d)"
  by (simp add: put_seconds_def split: option.split)

lemma dhas_dset [simp]: "dhas k (dset k' v d) \<longleftrightarrow> k = k' \<or> dhas k d"
  by (simp add: dhas_def)

lemma dhas_Cons [simp]: "dhas k ((k', v) # d) \<longleftrightarrow> k = k' \<or> dhas k d"
  by (simp add: dhas_def)

lemma dhas_Nil [simp]: "\<not> dhas k []"
  by (simp add: dhas_def)

text \<open>The fields of a row that say which model was asked and whether bytes were sent.\<close>

definition row_fields :: "string set" where "row_fields = {''model'', ''stream_started''}"

lemma put_if_weak: "d = d' \<Longrightarrow> put_if b k v d = put_if b k v d'"
  by simp

lemma put_if_other: "k' \<noteq> k \<Longrightarrow> dhas k' (put_if b k v d) \<longleftrightarrow> dhas k' d" "k' \<noteq> k \<Longrightarrow> dget (put_if b k v d) k' = dget d k'"
  by simp_all

lemma transport_fields:
  assumes "k \<in> row_fields"
  shows "dhas k (add_transport_timeout_telemetry attrs d) \<longleftrightarrow> dhas k d"
    and "dget (add_transport_timeout_telemetry attrs d) k = dget d k"
    and "dhas k (add_first_byte_telemetry attrs d) \<longleftrightarrow> dhas k d"
    and "dget (add_first_byte_telemetry attrs d) k = dget d k"
  using assms
  by (auto simp: row_fields_def add_transport_timeout_telemetry_def add_first_byte_telemetry_def Let_def put_if_other
      simp del: dhas_put_if dget_put_if cong: put_if_weak)

lemma wf_transport [simp]:
  "wf_dict d \<Longrightarrow> wf_dict (add_transport_timeout_telemetry attrs d)"
  "wf_dict d \<Longrightarrow> wf_dict (add_first_byte_telemetry attrs d)"
  by (simp_all add: add_transport_timeout_telemetry_def add_first_byte_telemetry_def Let_def cong: put_if_weak)

text \<open>A plain update names neither field; an error row states a delay as an integer or not at all.\<close>

definition plain_update :: "pydict \<Rightarrow> bool" where
  "plain_update d \<longleftrightarrow> wf_dict d \<and> \<not> dhas ''model'' d \<and> \<not> dhas ''stream_started'' d"

definition plain_delay :: "error_row \<Rightarrow> bool" where
  "plain_delay e \<longleftrightarrow> dget e ''retry_after_seconds'' = PNone \<or> (\<exists>n. dget e ''retry_after_seconds'' = PInt n)"

definition plain_error :: "pydict option \<Rightarrow> bool" where
  "plain_error error \<longleftrightarrow> (case error of None \<Rightarrow> True | Some e \<Rightarrow> plain_delay e)"

lemma plain_update_extend:
  "plain_update d \<Longrightarrow> plain_update (add_transport_timeout_telemetry attrs d)"
  "plain_update d \<Longrightarrow> plain_update (add_first_byte_telemetry attrs d)"
  "plain_update d \<Longrightarrow> plain_update (with_inline_delay delay d)"
  "plain_update d \<Longrightarrow> plain_update (dset ''retried_without_parameters'' v d)"
  by (simp_all add: plain_update_def transport_fields row_fields_def with_inline_delay_def split: option.split)

definition plain_decision :: "attempt_decision \<Rightarrow> bool" where
  "plain_decision d \<longleftrightarrow> plain_update (de_update d) \<and> plain_error (de_error d)"

lemma plain_non_streaming_failure: "plain_decision (non_streaming_failure model status reason latency cr cd retry)"
  by (simp add: plain_decision_def plain_update_def plain_error_def plain_delay_def non_streaming_failure_def model_fields_def)

lemma plain_success:
  "plain_decision (success_decision [(''status'', a), (''reason'', b), (''latency_seconds'', c)] usage)"
  by (simp add: plain_decision_def plain_update_def plain_error_def success_decision_def)

lemma plain_buffered: "plain_decision (evaluate_non_streaming_success_response p response model latency is_virtual budget)"
  unfolding evaluate_non_streaming_success_response_def
  by (simp add: plain_non_streaming_failure plain_success split: sum.split option.split prod.split)

lemma plain_refused:
  "plain_decision (evaluate_upstream_failure_response p clock response model latency is_virtual)"
  by (simp add: evaluate_upstream_failure_response_def Let_def plain_decision_def plain_update_def plain_error_def
      plain_delay_def hint_fields_def model_fields_def split: option.split prod.split)

lemma plain_raised:
  "plain_decision (evaluate_invocation_exception exc model latency timeout deadline)"
  by (simp add: evaluate_invocation_exception_def Let_def plain_decision_def plain_update_def plain_error_def
      plain_delay_def model_fields_def
      split: prod.split)

lemma plain_admission: "plain_update (admission_update exc latency)" "plain_delay (admission_error exc model)"
  by (simp_all add: admission_update_def plain_update_def admission_error_def plain_delay_def model_fields_def)

lemma streamed_update:
  "wf_dict (de_update (evaluate_streaming_result p sr model status latency is_virtual))
   \<and> \<not> dhas ''model'' (de_update (evaluate_streaming_result p sr model status latency is_virtual))
   \<and> dget (de_update (evaluate_streaming_result p sr model status latency is_virtual)) ''stream_started''
       = PBool (truthy (dget sr ''stream_started''))
   \<and> dhas ''stream_started'' (de_update (evaluate_streaming_result p sr model status latency is_virtual))"
proof -
  have "wf_dict (stream_update sr s r latency) \<and> \<not> dhas ''model'' (stream_update sr s r latency)
      \<and> dget (stream_update sr s r latency) ''stream_started'' = PBool (truthy (dget sr ''stream_started''))
      \<and> dhas ''stream_started'' (stream_update sr s r latency)" for s r
    by (simp add: stream_update_def Let_def)
  then show ?thesis
    by (simp add: evaluate_streaming_result_def Let_def stream_end_def success_decision_def)
qed

section \<open>One attempt, summarised\<close>

text \<open>One attempt leaves the window alone and adds one row for the model it asked. It asks for the same
  model again only by spending a retry, and only a streamed answer may have sent bytes.\<close>

definition attempt_post :: "loop_state \<Rightarrow> signal \<Rightarrow> loop_state \<Rightarrow> bool" where
  "attempt_post ls sig ls' \<longleftrightarrow> same_window ls ls'
     \<and> (\<exists>row. ls_attempts ls' = ls_attempts ls @ [row] \<and> dget row ''model'' = dget (ls_model ls) ''id''
          \<and> (sig \<noteq> Return StreamingComplete \<longrightarrow> dget row ''stream_started'' \<noteq> PBool True))
     \<and> (\<exists>es. ls_errors ls' = ls_errors ls @ es \<and> list_all plain_delay es)
     \<and> (ls_retry_same_model ls' = None
        \<or> ls_retry_same_model ls' = Some (ls_model ls) \<and> retries_left ls' < retries_left ls)
     \<and> sig \<noteq> Return Abandoned \<and> (\<forall>r. sig \<noteq> Return (JsonFailure r))"

lemma row_of_update:
  assumes "plain_update u"
  shows "dget (with_details u (attempt_fields ls)) ''model'' = dget (ls_model ls) ''id''"
    and "dget (with_details u (attempt_fields ls)) ''stream_started'' \<noteq> PBool True"
  using assms by (simp_all add: plain_update_def dget_with_details attempt_fields_def model_fields_def)

lemma attempt_post_failure:
  assumes frame: "same_knowledge ls ls1 \<or> ls1 = ls\<lparr>ls_capacity_retried := ids\<rparr>"
    and plain: "plain_update u" "plain_error error" and none: "ls_retry_same_model ls = None" and sig: "sig \<in> {Next, Stop}"
  shows "attempt_post ls sig (record_attempt_failure (attempt_fields ls) u error ls1)"
proof -
  have "same_window ls ls1 \<and> ls_attempts ls1 = ls_attempts ls \<and> ls_errors ls1 = ls_errors ls \<and> ls_retry_same_model ls1 = None"
    using frame none by (auto simp: same_knowledge_def same_window_def)
  then show ?thesis
    using plain(2) sig row_of_update[OF plain(1), of ls]
    by (auto simp: attempt_post_def record_attempt_failure_def record_attempt_result_def add_error_def plain_error_def
        same_window_def split: option.split)
qed

lemma ask_again_post:
  assumes "same_window ls ls1" "ls_attempts ls1 = ls_attempts ls @ [row]" "dget row ''model'' = dget (ls_model ls) ''id''"
    and "dget row ''stream_started'' \<noteq> PBool True" "ls_errors ls1 = ls_errors ls @ es" "list_all plain_delay es"
    and "ls_dropped ls1 = ls_dropped ls" "text_of (ls_model ls) ''id'' \<notin> set (ls_capacity_retried ls)"
    and "text_of (ls_model ls) ''id'' \<in> set (ls_capacity_retried ls1)"
  shows "pred_state (\<lambda>(sig, ls'). attempt_post ls sig ls') (ask_again env s ls1)"
  unfolding ask_again_def
  using assms by (intro pred_bind_any) (simp add: attempt_post_def same_window_def retries_left_def)

text \<open>A failure that may be granted a wait: recorded, and the model is asked again if it is.\<close>

lemma delayed_failure_post:
  assumes "same_knowledge ls ls0" "plain_update u" "plain_error error" "ls_retry_same_model ls = None" "sig \<in> {Next, Stop}"
    and cont: "\<And>ls'. attempt_post ls sig ls' \<Longrightarrow> attempt_post ls sig (f ls')"
  shows "pred_state (\<lambda>(sig, ls'). attempt_post ls sig ls')
    (State_Monad.bind (inline_capacity_retry_delay env (ls_model ls) seconds ls0) (\<lambda>(delay, ls1).
       let ls2 = record_attempt_failure (attempt_fields ls) (with_inline_delay delay u) error ls1
       in case delay of Some s \<Rightarrow> ask_again env s ls2 | None \<Rightarrow> State_Monad.return (sig, f ls2)))"
proof (rule pred_bind_pair[OF inline_delay_frame])
  fix delay :: "int option" and ls1
  assume ls1: "if delay = None then ls1 = ls0
      else text_of (ls_model ls) ''id'' \<notin> set (ls_capacity_retried ls0)
         \<and> ls1 = ls0\<lparr>ls_capacity_retried := text_of (ls_model ls) ''id'' # ls_capacity_retried ls0\<rparr>"
  let ?u = "with_inline_delay delay u"
  have row: "dget (with_details ?u (attempt_fields ls)) ''model'' = dget (ls_model ls) ''id''"
      "dget (with_details ?u (attempt_fields ls)) ''stream_started'' \<noteq> PBool True"
    using row_of_update[OF plain_update_extend(3)[OF assms(2)], of delay ls] by auto
  have es: "ls_errors (record_attempt_failure (attempt_fields ls) ?u error ls1)
      = ls_errors ls @ (case error of None \<Rightarrow> [] | Some e \<Rightarrow> [e])"
      "list_all plain_delay (case error of None \<Rightarrow> [] | Some e \<Rightarrow> [e])"
    using assms(1,3) ls1
    by (auto simp: record_attempt_failure_def record_attempt_result_def add_error_def same_knowledge_def plain_error_def
        split: option.splits if_splits)
  show "pred_state (\<lambda>(sig, ls'). attempt_post ls sig ls')
      (case (delay, ls1) of (delay, ls1) \<Rightarrow>
         let ls2 = record_attempt_failure (attempt_fields ls) (with_inline_delay delay u) error ls1
         in case delay of Some s \<Rightarrow> ask_again env s ls2 | None \<Rightarrow> State_Monad.return (sig, f ls2))"
  proof (cases delay)
    case None
    then show ?thesis
      using ls1 assms(1-5) plain_update_extend(3)
      by (simp add: Let_def cont attempt_post_failure)
  next
    case (Some s)
    have "pred_state (\<lambda>(sig, ls'). attempt_post ls sig ls')
        (ask_again env s (record_attempt_failure (attempt_fields ls) ?u error ls1))"
    proof (rule ask_again_post[OF _ _ row es])
      show "ls_attempts (record_attempt_failure (attempt_fields ls) ?u error ls1)
          = ls_attempts ls @ [with_details ?u (attempt_fields ls)]"
        using Some ls1 assms(1)
        by (auto simp: record_attempt_failure_def record_attempt_result_def add_error_def same_knowledge_def
            split: option.split)
    qed (use Some ls1 assms(1) in \<open>auto simp: record_attempt_failure_def record_attempt_result_def add_error_def
        same_knowledge_def same_window_def split: option.splits\<close>)
    then show ?thesis by (simp add: Some Let_def)
  qed
qed

lemma pred_conj: "pred_state P m \<Longrightarrow> pred_state Q m \<Longrightarrow> pred_state (\<lambda>x. P x \<and> Q x) m"
  by (rule pred_stateI) (blast dest: pred_stateD)

lemma pred_if: "(c \<Longrightarrow> pred_state P a) \<Longrightarrow> (\<not> c \<Longrightarrow> pred_state P b) \<Longrightarrow> pred_state P (if c then a else b)"
  by simp

lemma post_rule_out_source:
  "attempt_post ls Next ls' \<Longrightarrow> attempt_post ls Next (rule_out_source source ls')"
  by (auto simp: attempt_post_def same_window_def retries_left_def rule_out_source_def)

lemma after_refused_admission_post:
  assumes "ls_retry_same_model ls = None"
  shows "pred_state (\<lambda>(sig, ls'). attempt_post ls sig ls') (after_refused_admission env exc latency ls)"
  unfolding after_refused_admission_def
  by (rule delayed_failure_post[where sig = Next and f = "rule_out_source (text_of (ls_model ls) ''source'')"])
    (simp_all add: assms plain_admission plain_error_def post_rule_out_source)

lemma after_exception_post:
  assumes "ls_retry_same_model ls = None"
  shows "pred_state (\<lambda>(sig, ls'). attempt_post ls sig ls') (after_exception env exc latency ls)"
  unfolding after_exception_def Let_def
  by (rule pred_bind[OF apply_decision_frame])
    (simp add: attempt_post_failure assms plain_update_extend plain_raised[unfolded plain_decision_def])

lemma ending_of_cases: "ending_of result \<in> {Next, Stop}"
  by (simp add: ending_of_def)

lemma after_buffered_post:
  assumes "ls_retry_same_model ls = None"
  shows "pred_state (\<lambda>(sig, ls'). attempt_post ls sig ls') (after_buffered env response latency began ls)"
proof -
  let ?d = "with_first_byte response (evaluate_non_streaming_success_response (lp_verdicts (re_ports env)) response (ls_model ls)
      latency (ap_is_virtual (re_plan env)) (lp_char_budget (re_ports env) (re_requested env)))"
  have d: "plain_update (de_update ?d)" "plain_error (de_error ?d)"
    using plain_buffered by (simp_all add: with_first_byte_def plain_decision_def plain_update_extend)
  have success: "attempt_post ls (Return (NonStreamingSuccess r)) (record_attempt_result (attempt_fields ls) (de_update ?d) ls)" for r
    using row_of_update[OF d(1), of ls] assms
    by (simp add: attempt_post_def record_attempt_result_def same_window_def)
  show ?thesis
    unfolding after_buffered_def Let_def
  proof (rule pred_if)
    show "pred_state (\<lambda>(sig, ls'). attempt_post ls sig ls') (do {
           ls' \<leftarrow> apply_decision env ?d ls;
           State_Monad.return (ending_of (de_outcome ?d), record_attempt_failure (attempt_fields ls) (de_update ?d) (de_error ?d) ls')
         })"
      by (rule pred_bind[OF apply_decision_frame]) (simp add: attempt_post_failure assms d ending_of_cases del: insert_iff)
  qed (simp add: pred_bind_any success)
qed

lemma streamed_row:
  assumes "d = with_first_byte response (evaluate_streaming_result p sr (ls_model ls) status latency is_virtual)"
  shows "dget (with_details (de_update d) (attempt_fields ls)) ''model'' = dget (ls_model ls) ''id''"
    and "dget (with_details (de_update d) (attempt_fields ls)) ''stream_started'' = PBool (truthy (dget sr ''stream_started''))"
    and "plain_error (de_error d)"
proof -
  have wf: "wf_dict (de_update d)"
    using streamed_update[of p sr "ls_model ls" status latency is_virtual] by (simp add: assms with_first_byte_def)
  show "dget (with_details (de_update d) (attempt_fields ls)) ''model'' = dget (ls_model ls) ''id''"
    and "dget (with_details (de_update d) (attempt_fields ls)) ''stream_started'' = PBool (truthy (dget sr ''stream_started''))"
    using streamed_update[of p sr "ls_model ls" status latency is_virtual] wf
    by (simp_all add: assms with_first_byte_def dget_with_details transport_fields row_fields_def attempt_fields_def model_fields_def)
  show "plain_error (de_error d)"
    by (simp add: assms with_first_byte_def evaluate_streaming_result_def Let_def plain_error_def plain_delay_def
        stream_end_def success_decision_def model_fields_def)
qed

text \<open>A finished stream goes on or stops only when the decision says no byte was sent.\<close>

lemma finish_stream_post:
  assumes kept: "\<And>ls' sig. same_knowledge ls1 ls' \<Longrightarrow> sig = Return StreamingComplete \<or> sig \<in> {Next, Stop} \<and> quiet
      \<Longrightarrow> attempt_post ls sig (add_error (de_error d) ls')"
    and ended: "attempt_post ls (Return StreamingComplete) ls1"
    and quiet: "de_outcome d \<noteq> Success \<Longrightarrow> de_outcome d \<noteq> MidStreamFailure \<Longrightarrow> quiet"
  shows "pred_state (\<lambda>(sig, ls'). attempt_post ls sig ls') (finish_stream env response d latency began ls1)"
  unfolding finish_stream_def Let_def
proof (rule pred_if)
  assume failed: "de_outcome d \<noteq> Success"
  show "pred_state (\<lambda>(sig, ls'). attempt_post ls sig ls') (do {
       ls2 \<leftarrow> apply_decision env d ls1;
       if de_outcome d = MidStreamFailure then do {
         ended \<leftarrow> lp_now (re_ports env);
         _ \<leftarrow> lp_record_telemetry (re_ports env)
           (build_mid_stream_failure_route_telemetry (facts_of env (add_error (de_error d) ls2) ended) (ls_model ls1)
              (rs_status response) (dget (de_update d) ''reason''));
         State_Monad.return (Return StreamingComplete, add_error (de_error d) ls2)
       }
       else State_Monad.return (ending_of (de_outcome d), add_error (de_error d) ls2) })"
    using ending_of_cases[of "de_outcome d"]
    by (intro pred_bind[OF apply_decision_frame] pred_if) (auto intro!: pred_bind_any kept quiet failed)
qed (auto intro!: pred_bind_any ended)

lemma streamed_decision_post:
  assumes none: "ls_retry_same_model ls = None"
    and d: "d = with_first_byte response (evaluate_streaming_result p sr (ls_model ls) status latency is_virtual)"
  shows "pred_state (\<lambda>(sig, ls'). attempt_post ls sig ls')
    (finish_stream env response d latency' began (record_attempt_result (attempt_fields ls) (de_update d) ls))"
proof (rule finish_stream_post[where quiet = "\<not> truthy (dget sr ''stream_started'')"])
  note row = streamed_row[OF d]
  let ?ls1 = "record_attempt_result (attempt_fields ls) (de_update d) ls"
  show "attempt_post ls sig (add_error (de_error d) ls2)"
    if "same_knowledge ?ls1 ls2" "sig = Return StreamingComplete \<or> sig \<in> {Next, Stop} \<and> \<not> truthy (dget sr ''stream_started'')"
    for ls2 sig
    using that row none
    by (auto simp: attempt_post_def record_attempt_result_def same_knowledge_def same_window_def add_error_def plain_error_def
        split: option.splits)
  show "attempt_post ls (Return StreamingComplete) ?ls1"
    using row none by (simp add: attempt_post_def record_attempt_result_def same_window_def)
  show "\<not> truthy (dget sr ''stream_started'')" if "de_outcome d \<noteq> Success" "de_outcome d \<noteq> MidStreamFailure"
    using that
    by (auto simp: d with_first_byte_def evaluate_streaming_result_def Let_def stream_end_def success_decision_def
        split: if_splits)
qed

lemma after_streamed_post:
  assumes "ls_retry_same_model ls = None"
  shows "pred_state (\<lambda>(sig, ls'). attempt_post ls sig ls') (after_streamed env response started began ls)"
  unfolding after_streamed_def Let_def
  by (intro pred_bind_any) (rule streamed_decision_post[OF assms refl])

lemma drop_knobs_post:
  assumes "ls_retry_same_model ls = None" "plain_update u" "retryable_knobs decision ls \<noteq> []"
  shows "attempt_post ls Next (drop_knobs (retryable_knobs decision ls) (record_attempt_result (attempt_fields ls) u ls))"
  using retryable_knobs_fresh[OF assms(3), of "attempt_fields ls" u] row_of_update[OF assms(2), of ls]
  by (simp add: attempt_post_def drop_knobs_def record_attempt_result_def same_window_def)

lemma finish_refusal_post:
  assumes none: "ls_retry_same_model ls = None" and d: "plain_decision d"
  shows "pred_state (\<lambda>(sig, ls'). attempt_post ls sig ls') (finish_refusal env d ls)"
  unfolding finish_refusal_def Let_def
proof (rule pred_if, rule pred_bind_any)
  show "pred_state (\<lambda>(sig, ls'). attempt_post ls sig ls') (State_Monad.return (Next, drop_knobs (retryable_knobs d ls)
      (record_attempt_result (attempt_fields ls)
        (dset ''retried_without_parameters'' (PList (map PStr (retryable_knobs d ls))) (de_update d)) ls)))"
    if "retryable_knobs d ls \<noteq> []"
    using drop_knobs_post[OF none plain_update_extend(4) that] d by (simp add: plain_decision_def)
qed (rule pred_bind[OF apply_decision_frame],
    rule delayed_failure_post[where f = "\<lambda>x. x", unfolded Let_def, OF _ _ _ none ending_of_cases],
    use d in \<open>simp_all add: plain_decision_def\<close>)

lemma after_refusal_post:
  assumes "ls_retry_same_model ls = None"
  shows "pred_state (\<lambda>(sig, ls'). attempt_post ls sig ls') (after_refusal env response latency ls)"
  unfolding after_refusal_def
  by (intro pred_bind_any finish_refusal_post[OF assms])
    (use plain_refused in \<open>simp add: with_first_byte_def plain_decision_def plain_update_extend\<close>)

lemma attempt_model_post:
  assumes "ls_retry_same_model ls = None"
  shows "pred_state (\<lambda>(sig, ls'). attempt_post ls sig ls') (attempt_model env ls)"
  unfolding attempt_model_def
  by (intro pred_bind_any)
    (simp add: assms after_refused_admission_post after_exception_post after_buffered_post after_streamed_post after_refusal_post
      split: sum.split)

section \<open>The choice of the next model\<close>

lemma replan_same [simp]:
  "ls_considered (replan env ls) = ls_considered ls" "ls_considered_ids (replan env ls) = ls_considered_ids ls"
  "ls_pass_started (replan env ls) = ls_pass_started ls" "ls_attempts (replan env ls) = ls_attempts ls"
  "ls_errors (replan env ls) = ls_errors ls" "ls_capacity_retried (replan env ls) = ls_capacity_retried ls"
  "ls_retry_same_model (replan env ls) = ls_retry_same_model ls" "ls_terminal_reason (replan env ls) = ls_terminal_reason ls"
  "\<not> ls_divert_pending (replan env ls)" "is_ruled_out env (replan env ls) = is_ruled_out env ls"
  by (simp_all add: replan_def Let_def is_ruled_out_def fun_eq_iff)

definition room :: "'w run_env \<Rightarrow> loop_state \<Rightarrow> nat" where
  "room env ls = length (ap_candidates (re_plan env)) - ls_considered ls"

definition offered :: "'w run_env \<Rightarrow> loop_state \<Rightarrow> pydict list" where
  "offered env ls = filter (\<lambda>c. \<not> is_ruled_out env ls c \<and> text_of c ''id'' \<notin> set (ls_considered_ids ls)) (loop_pool env)"

lemma attempts_after_offered:
  assumes "r = attempts_after_source_rejection (loop_pool env) (ls_considered_ids ls) (is_ruled_out env ls)
      (int (length (ap_candidates (re_plan env))) - int (ls_considered ls)) (re_config env)"
  shows "length r = min (room env ls) (length (offered env ls)) \<and> mset r \<subseteq># mset (offered env ls)"
proof (cases "ls_considered ls < length (ap_candidates (re_plan env))")
  case True
  have "r = attempts_with_source_diversity (offered env ls)
      (int (length (ap_candidates (re_plan env))) - int (ls_considered ls)) (re_config env)"
    by (simp add: assms attempts_after_source_rejection_def offered_def)
  from window_full[OF _ this] True show ?thesis
    by (simp add: room_def nat_diff_distrib)
next
  case False
  then show ?thesis
    using assms by (simp add: attempts_after_source_rejection_def attempts_with_source_diversity_def room_def)
qed

text \<open>The window after a plan: the one it was, or what the pool still offers.\<close>

lemma replan_window:
  obtains (kept) "ls_pending (replan env ls) = ls_pending ls" "ls_divert_pending ls \<longrightarrow> room env ls = 0 \<or> offered env ls = []"
  | (again) "ls_pending (replan env ls) \<noteq> []" "mset (ls_pending (replan env ls)) \<subseteq># mset (offered env ls)"
      "length (ls_pending (replan env ls)) \<le> room env ls"
proof (cases "ls_divert_pending ls")
  case True
  define r where "r = attempts_after_source_rejection (loop_pool env) (ls_considered_ids ls) (is_ruled_out env ls)
      (int (length (ap_candidates (re_plan env))) - int (ls_considered ls)) (re_config env)"
  note r = attempts_after_offered[OF r_def]
  have pend: "ls_pending (replan env ls) = (if r \<noteq> [] then r else ls_pending ls)"
    using True by (simp add: replan_def r_def Let_def)
  show thesis
  proof (cases "r = []")
    case True
    with r have "room env ls = 0 \<or> offered env ls = []" by (auto simp: min_def split: if_splits)
    with pend True show thesis by (intro kept) simp_all
  next
    case False
    with r pend show thesis by (intro again) simp_all
  qed
next
  case False
  show thesis by (rule kept) (simp_all add: replan_def False)
qed

text \<open>What a choice leaves: the model, and the window without it.\<close>

lemma next_candidate_post:
  "pred_state (\<lambda>ls'. \<exists>known body. ls' = (replan env (read_last_failure env ls))
      \<lparr>ls_pending := tl (ls_pending (replan env (read_last_failure env ls))),
       ls_model := hd (ls_pending (replan env (read_last_failure env ls))), ls_dropped := known, ls_attempt_body := body\<rparr>)
    (next_candidate env ls)"
  unfolding next_candidate_def Let_def by (rule pred_bind_any) auto

definition window_left :: "'w run_env \<Rightarrow> loop_state \<Rightarrow> nat" where
  "window_left env ls = max (length (ls_pending ls)) (room env ls)"

definition retry_left :: "loop_state \<Rightarrow> nat" where
  "retry_left ls = (case ls_retry_same_model ls of None \<Rightarrow> 0
     | Some m \<Rightarrow> Suc (retries_left (ls\<lparr>ls_model := m\<rparr>)))"

text \<open>One step of the loop: the measure that makes it end.\<close>

definition pass_left :: "loop_state \<Rightarrow> nat" where
  "pass_left ls = (if ls_pass_started ls then 0 else 1)"

definition smaller :: "'w run_env \<Rightarrow> loop_state \<Rightarrow> loop_state \<Rightarrow> bool" where
  "smaller env ls' ls \<longleftrightarrow> pass_left ls' < pass_left ls
     \<or> pass_left ls' = pass_left ls \<and> (window_left env ls' < window_left env ls
        \<or> window_left env ls' = window_left env ls \<and> retry_left ls' < retry_left ls)"

lemma window_of_candidate:
  assumes "ls_pending ls \<noteq> []"
    and "ls1 = (replan env (read_last_failure env ls))
      \<lparr>ls_pending := tl (ls_pending (replan env (read_last_failure env ls))), ls_model := m, ls_dropped := known, ls_attempt_body := b\<rparr>"
  shows "window_left env (count_candidate False ls1) < window_left env ls"
proof -
  let ?ls0 = "read_last_failure env ls"
  have f0: "ls_pending ?ls0 = ls_pending ls" "ls_considered ?ls0 = ls_considered ls"
    using read_last_failure_frame[of ls env] by (simp_all add: same_knowledge_def same_window_def)
  have c: "ls_considered ls1 = ls_considered ls" "ls_pending ls1 = tl (ls_pending (replan env ?ls0))"
    using f0 by (simp_all add: assms(2))
  have "length (ls_pending (replan env ?ls0)) \<le> window_left env ls \<and> ls_pending (replan env ?ls0) \<noteq> []"
    by (rule replan_window[of env ?ls0]) (use assms(1) f0 in \<open>simp_all add: window_left_def room_def\<close>)
  then show ?thesis
    using c assms(1) by (auto simp: window_left_def room_def count_candidate_def neq_Nil_conv)
qed

section \<open>What an attempt teaches the run\<close>

text \<open>What a run knows grows, and when a fact touches a candidate the pool still holds, the window is marked
  for a new plan.\<close>

definition fresh_in_pool :: "'w run_env \<Rightarrow> loop_state \<Rightarrow> pydict set" where
  "fresh_in_pool env ls = {c \<in> set (loop_pool env). text_of c ''id'' \<notin> set (ls_considered_ids ls)}"

definition learns :: "'w run_env \<Rightarrow> loop_state \<Rightarrow> loop_state \<Rightarrow> bool" where
  "learns env ls ls' \<longleftrightarrow> ls_considered_ids ls' = ls_considered_ids ls
     \<and> (\<forall>c. is_ruled_out env ls c \<longrightarrow> is_ruled_out env ls' c)
     \<and> (ls_divert_pending ls' \<or> \<not> ls_divert_pending ls
          \<and> (\<forall>c \<in> fresh_in_pool env ls. is_ruled_out env ls' c \<longrightarrow> is_ruled_out env ls c))"

lemma learns_refl [simp]: "learns env ls ls"
  by (auto simp: learns_def)

lemma learns_trans: "learns env a b \<Longrightarrow> learns env b c \<Longrightarrow> learns env a c"
  by (auto simp: learns_def fresh_in_pool_def)

text \<open>The variables that hold what is known.\<close>

definition same_rules :: "loop_state \<Rightarrow> loop_state \<Rightarrow> bool" where
  "same_rules ls ls' \<longleftrightarrow> ls_considered_ids ls' = ls_considered_ids ls \<and> ls_ruled_out_sources ls' = ls_ruled_out_sources ls
     \<and> ls_ruled_out_quota_keys ls' = ls_ruled_out_quota_keys ls \<and> ls_ruled_out_upstreams ls' = ls_ruled_out_upstreams ls
     \<and> ls_required_context ls' = ls_required_context ls \<and> ls_divert_pending ls' = ls_divert_pending ls"

lemma learns_same: "same_rules ls ls' \<Longrightarrow> learns env ls ls'"
  by (auto simp: same_rules_def learns_def is_ruled_out_def)

lemma learns_source: "learns env ls (rule_out_source source ls)"
  by (auto simp: learns_def rule_out_source_def is_ruled_out_def)

lemma learns_quota_key: "learns env ls (rule_out_quota_key env key ls)"
  by (auto simp: learns_def rule_out_quota_key_def is_ruled_out_def fresh_in_pool_def still_offered_def list_ex_iff)

lemma learns_upstream: "learns env ls (rule_out_upstream env key ls)"
  by (auto simp: learns_def rule_out_upstream_def is_ruled_out_def fresh_in_pool_def still_offered_def list_ex_iff)

lemma larger_context: "candidate_context_too_small c r \<Longrightarrow> r \<le> r' \<Longrightarrow> candidate_context_too_small c r'"
  by (auto simp: candidate_context_too_small_def context_fits_def Let_def)

lemma learns_context:
  "learns env ls (ls\<lparr>ls_required_context := max (max (ls_required_context ls) a) b, ls_divert_pending := True\<rparr>)"
  using larger_context by (fastforce simp: learns_def is_ruled_out_def)

lemma learns_rule_out: "learns env ls (rule_out env applied ls)"
  by (auto simp: rule_out_def Let_def learns_source learns_quota_key split: option.split
      intro: learns_trans[OF learns_source learns_quota_key])

lemma learns_read_last_failure: "learns env ls (read_last_failure env ls)"
  unfolding read_last_failure_def Let_def
  by (simp add: learns_source learns_upstream learns_trans[OF learns_source learns_upstream]
      learns_trans[OF _ learns_context] learns_context)

text \<open>Each way an attempt can go only adds to what is known.\<close>

lemma learns_step: "learns env ls a \<Longrightarrow> same_rules a b \<Longrightarrow> learns env ls b"
  by (blast intro: learns_trans learns_same)

lemma same_rules_record: "same_rules ls (record_attempt_failure a u e ls)" "same_rules ls (record_attempt_result a u ls)"
    "same_rules ls (add_error e ls)" "same_rules ls (drop_knobs ks ls)"
  by (simp_all add: same_rules_def record_attempt_failure_def record_attempt_result_def add_error_def drop_knobs_def
      split: option.split)

lemma same_rules_trans: "same_rules a b \<Longrightarrow> same_rules b c \<Longrightarrow> same_rules a c"
  by (simp add: same_rules_def)

lemma learns_records:
  "learns env ls (record_attempt_result a u ls)" "learns env ls b \<Longrightarrow> learns env ls (add_error e b)"
  "learns env ls b \<Longrightarrow> learns env ls (record_attempt_failure a u e b)"
  by (blast intro: learns_same learns_step same_rules_record)+

lemma apply_decision_learns: "pred_state (learns env ls) (apply_decision env decision ls)"
  unfolding apply_decision_def by (rule pred_bind_any) (simp add: learns_rule_out)

lemma inline_delay_same_rules:
  "pred_state (\<lambda>(delay, ls'). same_rules ls ls') (inline_capacity_retry_delay env model seconds ls)"
  by (rule pred_mono[OF inline_delay_frame]) (auto simp: same_rules_def split: if_splits)

lemma ask_again_learns: "learns env ls ls1 \<Longrightarrow> pred_state (\<lambda>(sig, ls'). learns env ls ls') (ask_again env s ls1)"
  unfolding ask_again_def by (intro pred_bind_any) (auto intro: learns_step simp: same_rules_def)

lemma delayed_failure_learns:
  assumes "learns env ls ls0" "\<And>ls'. learns env ls ls' \<Longrightarrow> learns env ls (f ls')"
  shows "pred_state (\<lambda>(sig, ls'). learns env ls ls')
    (State_Monad.bind (inline_capacity_retry_delay env model seconds ls0) (\<lambda>(delay, ls1).
       let ls2 = record_attempt_failure a (with_inline_delay delay u) error ls1
       in case delay of Some s \<Rightarrow> ask_again env s ls2 | None \<Rightarrow> State_Monad.return (sig, f ls2)))"
proof (rule pred_bind_pair[OF inline_delay_same_rules])
  fix delay :: "int option" and ls1
  assume "same_rules ls0 ls1"
  then have l: "learns env ls (record_attempt_failure a v error ls1)" for v
    by (rule learns_step[OF assms(1) same_rules_trans[OF _ same_rules_record(1)]])
  show "pred_state (\<lambda>(sig, ls'). learns env ls ls')
      (case (delay, ls1) of (delay, ls1) \<Rightarrow>
         let ls2 = record_attempt_failure a (with_inline_delay delay u) error ls1
         in case delay of Some s \<Rightarrow> ask_again env s ls2 | None \<Rightarrow> State_Monad.return (sig, f ls2))"
    using ask_again_learns[OF l] assms(2)[OF l] by (simp add: Let_def split: option.split)
qed

lemma after_refused_admission_learns:
  "pred_state (\<lambda>(sig, ls'). learns env ls ls') (after_refused_admission env exc latency ls)"
  unfolding after_refused_admission_def
  by (rule delayed_failure_learns[where f = "rule_out_source (text_of (ls_model ls) ''source'')"])
    (simp_all add: learns_trans[OF _ learns_source])

lemma after_exception_learns: "pred_state (\<lambda>(sig, ls'). learns env ls ls') (after_exception env exc latency ls)"
  unfolding after_exception_def Let_def
  by (rule pred_bind[OF apply_decision_learns]) (auto intro: learns_step same_rules_record)

lemma after_buffered_learns: "pred_state (\<lambda>(sig, ls'). learns env ls ls') (after_buffered env response latency began ls)"
  unfolding after_buffered_def Let_def
  by (rule pred_if, rule pred_bind[OF apply_decision_learns])
    (simp_all add: pred_bind_any learns_records)

lemma finish_stream_learns:
  "learns env ls ls1 \<Longrightarrow> pred_state (\<lambda>(sig, ls'). learns env ls ls') (finish_stream env response d latency began ls1)"
  unfolding finish_stream_def Let_def
  by (rule pred_if, simp add: pred_bind_any, rule pred_bind[OF apply_decision_learns])
    (auto intro!: pred_if pred_bind_any learns_records(2) intro: learns_trans)

lemma after_streamed_learns: "pred_state (\<lambda>(sig, ls'). learns env ls ls') (after_streamed env response started began ls)"
  unfolding after_streamed_def Let_def
  by (intro pred_bind_any finish_stream_learns learns_same same_rules_record)

lemma finish_refusal_learns: "pred_state (\<lambda>(sig, ls'). learns env ls ls') (finish_refusal env d ls)"
  unfolding finish_refusal_def Let_def
  by (rule pred_if, intro pred_bind_any,
      simp add: learns_same[OF same_rules_trans[OF same_rules_record(2) same_rules_record(4)]],
      rule pred_bind[OF apply_decision_learns], rule delayed_failure_learns[where f = "\<lambda>x. x", unfolded Let_def]) simp_all

lemma attempt_model_learns: "pred_state (\<lambda>(sig, ls'). learns env ls ls') (attempt_model env ls)"
  unfolding attempt_model_def after_refusal_def
  by (intro pred_bind_any)
    (simp add: after_refused_admission_learns after_exception_learns after_buffered_learns after_streamed_learns
      pred_bind_any finish_refusal_learns split: sum.split)

section \<open>The loop ends\<close>

definition window_after :: "'w run_env \<Rightarrow> loop_state \<Rightarrow> loop_state" where
  "window_after env ls = replan env (read_last_failure env ls)"

definition chosen :: "'w run_env \<Rightarrow> loop_state \<Rightarrow> loop_state \<Rightarrow> bool" where
  "chosen env ls ls1 \<longleftrightarrow>
     (case ls_retry_same_model ls of
        Some m \<Rightarrow> ls1 = ls\<lparr>ls_model := m, ls_retry_same_model := None\<rparr>
      | None \<Rightarrow> \<exists>known body. ls1 = (window_after env ls)
          \<lparr>ls_pending := tl (ls_pending (window_after env ls)), ls_model := hd (ls_pending (window_after env ls)),
           ls_dropped := known, ls_attempt_body := body\<rparr>)"

lemma choose_model_post:
  "pred_state (\<lambda>(is_retry, ls1). chosen env ls ls1 \<and> is_retry = (ls_retry_same_model ls \<noteq> None)) (choose_model env ls)"
proof (cases "ls_retry_same_model ls")
  case None
  have "pred_state (\<lambda>(is_retry, ls1). chosen env ls ls1 \<and> is_retry = (ls_retry_same_model ls \<noteq> None))
      (State_Monad.bind (next_candidate env ls) (\<lambda>ls'. State_Monad.return (False, ls')))"
    by (rule pred_bind[OF next_candidate_post]) (auto simp: chosen_def window_after_def None)
  then show ?thesis by (simp add: choose_model_def None)
qed (simp add: choose_model_def chosen_def)

text \<open>An iteration asks the chosen model, or stops before it with the row of a model not asked.\<close>

definition asked_or_stopped :: "'w run_env \<Rightarrow> loop_state \<Rightarrow> signal \<Rightarrow> loop_state \<Rightarrow> bool" where
  "asked_or_stopped env ls sig ls' \<longleftrightarrow>
     (\<exists>ls1. chosen env ls ls1 \<and>
        (attempt_post (count_candidate (ls_retry_same_model ls \<noteq> None) ls1) sig ls'
         \<and> learns env (count_candidate (ls_retry_same_model ls \<noteq> None) ls1) ls'
         \<or> sig = Stop \<and> (ls_considered ls1 = 0 \<longrightarrow> ls_terminal_reason ls1 \<noteq> []) \<and>
           (\<exists>reason. ls' = add_error (Some (not_attempted_row (ls_model ls1) reason)) (ls1\<lparr>ls_terminal_reason := reason\<rparr>))))"

lemma chosen_no_retry: "chosen env ls ls1 \<Longrightarrow> ls_retry_same_model ls1 = None"
  using read_last_failure_frame[of ls env]
  by (auto simp: chosen_def window_after_def same_knowledge_def split: option.splits)

lemma check_terminal_post:
  "pred_state (\<lambda>reason. ls_considered ls = 0 \<longrightarrow> reason = ls_terminal_reason ls) (check_terminal env ls)"
  unfolding check_terminal_def by (cases "ls_considered ls = 0") (auto intro: pred_stateI)

lemma ask_next_post: "pred_state (\<lambda>(sig, ls'). asked_or_stopped env ls sig ls') (ask_next env ls)"
  unfolding ask_next_def
proof (rule pred_bind_pair[OF choose_model_post], clarify, rule pred_bind[OF check_terminal_post])
  fix ls1 reason
  assume c: "chosen env ls ls1" and r: "ls_considered ls1 = 0 \<longrightarrow> reason = ls_terminal_reason ls1"
  have none: "ls_retry_same_model (count_candidate b ls1) = None" for b
    using chosen_no_retry[OF c] by (simp add: count_candidate_def)
  show "pred_state (\<lambda>(sig, ls'). asked_or_stopped env ls sig ls')
      (if reason \<noteq> [] then State_Monad.return (Stop, add_error (Some (not_attempted_row (ls_model ls1) reason))
          (ls1\<lparr>ls_terminal_reason := reason\<rparr>))
       else attempt_model env (count_candidate (ls_retry_same_model ls \<noteq> None) ls1))"
  proof (rule pred_if)
    show "pred_state (\<lambda>(sig, ls'). asked_or_stopped env ls sig ls')
        (State_Monad.return (Stop, add_error (Some (not_attempted_row (ls_model ls1) reason)) (ls1\<lparr>ls_terminal_reason := reason\<rparr>)))"
      if "reason \<noteq> []"
      using c r that by (auto simp: asked_or_stopped_def)
    show "pred_state (\<lambda>(sig, ls'). asked_or_stopped env ls sig ls') (attempt_model env (count_candidate (ls_retry_same_model ls \<noteq> None) ls1))"
      by (rule pred_mono[OF pred_conj[OF attempt_model_post[OF none] attempt_model_learns]])
        (use c in \<open>auto simp: asked_or_stopped_def\<close>)
  qed
qed

lemma asked_smaller:
  assumes "ls_pending ls \<noteq> [] \<or> ls_retry_same_model ls \<noteq> None" "asked_or_stopped env ls Next ls'"
  shows "smaller env ls' ls"
proof -
  from assms(2) obtain ls1 where c: "chosen env ls ls1"
    and post: "attempt_post (count_candidate (ls_retry_same_model ls \<noteq> None) ls1) Next ls'"
    by (auto simp: asked_or_stopped_def)
  let ?ls2 = "count_candidate (ls_retry_same_model ls \<noteq> None) ls1"
  have same: "pass_left ls' = pass_left ?ls2" "window_left env ls' = window_left env ?ls2" "ls_model ls' = ls_model ?ls2"
    using post by (auto simp: attempt_post_def same_window_def pass_left_def window_left_def room_def)
  have retry: "ls_retry_same_model ls' = None \<or> ls_retry_same_model ls' = Some (ls_model ls') \<and> retries_left ls' < retries_left ?ls2"
    using post same(3) by (auto simp: attempt_post_def)
  show ?thesis
  proof (cases "ls_retry_same_model ls")
    case None
    have "window_left env ?ls2 < window_left env ls"
      using c assms(1) None by (auto simp: chosen_def window_after_def intro!: window_of_candidate)
    moreover have "pass_left ?ls2 = pass_left ls"
      using c None read_last_failure_frame[of ls env]
      by (auto simp: chosen_def window_after_def pass_left_def count_candidate_def same_knowledge_def same_window_def)
    ultimately show ?thesis by (simp add: smaller_def same)
  next
    case (Some m)
    then have ls2: "?ls2 = ls\<lparr>ls_model := m, ls_retry_same_model := None\<rparr>"
      using c by (simp add: chosen_def count_candidate_def)
    then have "pass_left ?ls2 = pass_left ls" "window_left env ?ls2 = window_left env ls"
        "retries_left ?ls2 = retries_left (ls\<lparr>ls_model := m\<rparr>)"
      by (simp_all add: pass_left_def window_left_def room_def retries_left_def)
    moreover have "retry_left ls' < retry_left ls"
      using retry calculation(3) by (auto simp: retry_left_def Some retries_left_def)
    ultimately show ?thesis by (simp add: smaller_def same)
  qed
qed

lemma pass_candidates_sub:
  "set (pass_candidates by_id ids rows retried) \<subseteq> set retried \<union> {c. \<exists>row \<in> set rows. by_id (text_of row ''model'') = Some c}"
  by (induction by_id ids rows retried rule: pass_candidates.induct) (auto simp: subset_iff split: option.splits if_splits, blast)

lemma pass_candidates_bounded:
  "length retried < CAPACITY_RETRY_PASS_MAX_MODELS \<Longrightarrow>
   length (pass_candidates by_id ids rows retried) \<le> CAPACITY_RETRY_PASS_MAX_MODELS"
  by (induction by_id ids rows retried rule: pass_candidates.induct) (auto split: option.splits)

text \<open>The pass hands back at most two candidates of the run, once, and only when every attempt so far failed
  for capacity.\<close>

definition pass_result :: "'w run_env \<Rightarrow> loop_state \<Rightarrow> pydict list \<Rightarrow> loop_state \<Rightarrow> bool" where
  "pass_result env ls retried ls' \<longleftrightarrow>
     (if retried = [] then ls' = ls \<or> ls' = ls\<lparr>ls_pass_started := True\<rparr>
      else ls' = ls\<lparr>ls_pass_started := True\<rparr> \<and> \<not> ls_pass_started ls \<and> ap_is_virtual (re_plan env)
         \<and> (\<forall>row \<in> set (ls_attempts ls). text_of row ''reason'' \<in> set CAPACITY_FAILURE_REASONS)
         \<and> length retried \<le> CAPACITY_RETRY_PASS_MAX_MODELS
         \<and> set retried \<subseteq> set (ap_candidates (re_plan env)) \<union> set (loop_pool env)
         \<and> (\<forall>c \<in> set retried. \<exists>row \<in> set (ls_attempts ls). text_of row ''model'' = text_of c ''id''))"

lemma candidate_by_id_sub:
  assumes "candidate_by_id env i = Some c"
  shows "c \<in> set (ap_candidates (re_plan env)) \<union> set (loop_pool env) \<and> text_of c ''id'' = i"
  using map_of_SomeD[OF assms[unfolded candidate_by_id_def]] by auto

lemma capacity_retry_pass_post:
  "pred_state (\<lambda>(retried, ls'). pass_result env ls retried ls') (capacity_retry_pass env ls)"
proof -
  let ?retried = "pass_candidates (candidate_by_id env) (ls_capacity_retried ls) (ls_attempts ls) []"
  have "set ?retried \<subseteq> {c. \<exists>row \<in> set (ls_attempts ls). candidate_by_id env (text_of row ''model'') = Some c}"
    using pass_candidates_sub[of "candidate_by_id env" "ls_capacity_retried ls" "ls_attempts ls" "[]"] by simp
  then have "set ?retried \<subseteq> set (ap_candidates (re_plan env)) \<union> set (loop_pool env)
      \<and> (\<forall>c \<in> set ?retried. \<exists>row \<in> set (ls_attempts ls). text_of row ''model'' = text_of c ''id'')"
    using candidate_by_id_sub[of env] by fastforce
  moreover have "length ?retried \<le> CAPACITY_RETRY_PASS_MAX_MODELS"
    by (rule pass_candidates_bounded) (simp add: CAPACITY_RETRY_PASS_MAX_MODELS_def)
  ultimately have "pass_result env ls ?retried (ls\<lparr>ls_pass_started := True\<rparr>)"
      if "\<not> ls_pass_started ls" "ap_is_virtual (re_plan env)"
        "\<not> list_ex (\<lambda>row. text_of row ''reason'' \<notin> set CAPACITY_FAILURE_REASONS) (ls_attempts ls)"
    using that by (auto simp: pass_result_def list_ex_iff)
  moreover have "pass_result env ls [] ls" "pass_result env ls [] (ls\<lparr>ls_pass_started := True\<rparr>)"
    by (simp_all add: pass_result_def)
  ultimately show ?thesis
    unfolding capacity_retry_pass_def Let_def by (auto intro!: pred_if pred_bind_any)
qed

text \<open>One iteration, summarised.\<close>

definition step_post :: "'w run_env \<Rightarrow> loop_state \<Rightarrow> signal \<Rightarrow> loop_state \<Rightarrow> bool" where
  "step_post env ls sig ls' \<longleftrightarrow>
     (if ls_pending ls = [] \<and> ls_retry_same_model ls = None
      then \<exists>retried ls0. pass_result env ls retried ls0 \<and>
             (retried = [] \<and> sig = Stop \<and> ls' = ls0
              \<or> retried \<noteq> [] \<and> asked_or_stopped env (ls0\<lparr>ls_pending := retried\<rparr>) sig ls')
      else asked_or_stopped env ls sig ls')"

lemma attempt_step_post: "pred_state (\<lambda>(sig, ls'). step_post env ls sig ls') (attempt_step env ls)"
proof (cases "ls_pending ls = [] \<and> ls_retry_same_model ls = None")
  case True
  have "pred_state (\<lambda>(sig, ls'). step_post env ls sig ls') (State_Monad.bind (capacity_retry_pass env ls) (\<lambda>(retried, ls').
      if retried = [] then State_Monad.return (Stop, ls') else ask_next env (ls'\<lparr>ls_pending := retried\<rparr>)))"
  proof (rule pred_bind_pair[OF capacity_retry_pass_post], simp only: prod.case, rule pred_if)
    fix retried ls0
    assume post: "pass_result env ls retried ls0"
    show "pred_state (\<lambda>(sig, ls'). step_post env ls sig ls') (State_Monad.return (Stop, ls0))" if "retried = []"
      using post that True by (auto simp: step_post_def)
    show "pred_state (\<lambda>(sig, ls'). step_post env ls sig ls') (ask_next env (ls0\<lparr>ls_pending := retried\<rparr>))" if "retried \<noteq> []"
      by (rule pred_mono[OF ask_next_post]) (use post that True in \<open>auto simp: step_post_def\<close>)
  qed
  then show ?thesis by (simp add: attempt_step_def True)
next
  case False
  then show ?thesis
    using ask_next_post[of env ls] by (auto simp: attempt_step_def step_post_def)
qed

lemma smaller_pass:
  "pass_left ls1 < pass_left ls \<Longrightarrow> smaller env ls' ls1 \<Longrightarrow> smaller env ls' ls"
  by (auto simp: smaller_def)

lemma step_smaller:
  assumes "run_state (attempt_step env ls) w = ((Next, ls'), w')"
  shows "smaller env ls' ls"
proof -
  have post: "step_post env ls Next ls'"
    using pred_stateD[OF attempt_step_post assms] by simp
  show ?thesis
  proof (cases "ls_pending ls = [] \<and> ls_retry_same_model ls = None")
    case False
    with post show ?thesis by (auto simp: step_post_def intro!: asked_smaller)
  next
    case True
    with post obtain retried ls0 where r: "retried \<noteq> []" "pass_result env ls retried ls0"
        and asked: "asked_or_stopped env (ls0\<lparr>ls_pending := retried\<rparr>) Next ls'"
      by (auto simp: step_post_def)
    have "smaller env ls' (ls0\<lparr>ls_pending := retried\<rparr>)"
      using r(1) by (intro asked_smaller[OF _ asked]) simp
    moreover have "pass_left (ls0\<lparr>ls_pending := retried\<rparr>) < pass_left ls"
      using r by (simp add: pass_result_def pass_left_def)
    ultimately show ?thesis by (rule smaller_pass[rotated])
  qed
qed

lemma smaller_measures:
  "smaller env ls' ls \<Longrightarrow> ((env, ls', w'), env, ls, w) \<in> measures
     [\<lambda>(env, ls, w). pass_left ls, \<lambda>(env, ls, w). window_left env ls, \<lambda>(env, ls, w). retry_left ls]"
  by (auto simp: smaller_def)

text \<open>The loop: iterations until one breaks or returns.\<close>

function attempt_loop ::
  "'w run_env \<Rightarrow> loop_state \<Rightarrow> 'w \<Rightarrow> (run_outcome option \<times> loop_state) \<times> 'w" where
  "attempt_loop env ls w =
     (case run_state (attempt_step env ls) w of
        ((sig, ls'), w') \<Rightarrow>
          (case sig of
             Next \<Rightarrow> attempt_loop env ls' w'
           | Stop \<Rightarrow> ((None, ls'), w')
           | Return result \<Rightarrow> ((Some result, ls'), w')))"
  by pat_completeness auto

termination
  by (relation "measures [\<lambda>(env, ls, w). pass_left ls, \<lambda>(env, ls, w). window_left env ls, \<lambda>(env, ls, w). retry_left ls]")
    (simp, rule smaller_measures, metis step_smaller)

declare attempt_loop.simps [simp del]

end
