(* ===== verification/AttemptRun.thy ===== *)
theory AttemptRun
  imports LoopSteps
begin

text \<open>
  A whole run of the attempt loop and the request around it (\<open>run_attempts\<close> and \<open>handle\<close> of
  \<open>use_cases/chat_completion.py\<close>): the states a run reaches in any world, their invariants, and
  the properties of a request that follow.
\<close>

section \<open>What every reached state keeps\<close>

text \<open>The states a run goes through, in any world.\<close>

inductive reached :: "'w run_env \<Rightarrow> loop_state \<Rightarrow> bool" for env where
  start: "reached env (loop_start env)"
| step: "reached env ls \<Longrightarrow> run_state (attempt_step env ls) w = ((Next, ls'), w') \<Longrightarrow> reached env ls'"

text \<open>The window a turn draws from, and the window it leaves.\<close>

definition turn_window :: "'w run_env \<Rightarrow> loop_state \<Rightarrow> pydict list" where
  "turn_window env ls =
     (case ls_retry_same_model ls of Some m \<Rightarrow> m # ls_pending ls | None \<Rightarrow> ls_pending (window_after env ls))"

text \<open>A turn: the first of the window is asked, or, when the run is over, only named.\<close>

definition turn :: "'w run_env \<Rightarrow> loop_state \<Rightarrow> bool \<Rightarrow> loop_state \<Rightarrow> bool" where
  "turn env ls asked ls' \<longleftrightarrow>
     turn_window env ls = hd (turn_window env ls) # ls_pending ls'
     \<and> ls_pass_started ls' = ls_pass_started ls
     \<and> (if asked \<and> ls_retry_same_model ls = None
        then ls_considered ls' = Suc (ls_considered ls)
           \<and> ls_considered_ids ls' = text_of (hd (turn_window env ls)) ''id'' # ls_considered_ids ls
        else ls_considered ls' = ls_considered ls \<and> ls_considered_ids ls' = ls_considered_ids ls)"

definition retry_budget :: "loop_state \<Rightarrow> nat" where
  "retry_budget ls = (case ls_retry_same_model ls of
     None \<Rightarrow> Suc (card (set DROPPABLE_SAMPLING_PARAMETERS)) | Some m \<Rightarrow> retry_left ls - 1)"

definition turn_rows :: "'w run_env \<Rightarrow> loop_state \<Rightarrow> signal \<Rightarrow> loop_state \<Rightarrow> bool" where
  "turn_rows env ls sig ls' \<longleftrightarrow>
     (\<exists>row es. ls_attempts ls' = ls_attempts ls @ [row] \<and> dget row ''model'' = dget (hd (turn_window env ls)) ''id''
        \<and> (sig \<noteq> Return StreamingComplete \<longrightarrow> dget row ''stream_started'' \<noteq> PBool True)
        \<and> ls_errors ls' = ls_errors ls @ es \<and> list_all plain_delay es)
     \<and> ls_terminal_reason ls' = ls_terminal_reason ls
     \<and> (ls_retry_same_model ls' = None \<or> ls_retry_same_model ls' = Some (hd (turn_window env ls)))
     \<and> retry_left ls' \<le> retry_budget ls"

definition halt_rows :: "loop_state \<Rightarrow> loop_state \<Rightarrow> bool" where
  "halt_rows ls ls' \<longleftrightarrow> ls_attempts ls' = ls_attempts ls \<and> (\<exists>e. ls_errors ls' = ls_errors ls @ [e] \<and> plain_delay e)
     \<and> ls_retry_same_model ls' = None \<and> (ls_considered ls = 0 \<longrightarrow> ls_terminal_reason ls \<noteq> [])"

lemma window_after_same:
  "ls_considered (window_after env ls) = ls_considered ls" "ls_considered_ids (window_after env ls) = ls_considered_ids ls"
  "ls_pass_started (window_after env ls) = ls_pass_started ls" "ls_attempts (window_after env ls) = ls_attempts ls"
  "ls_errors (window_after env ls) = ls_errors ls" "ls_terminal_reason (window_after env ls) = ls_terminal_reason ls"
  "ls_retry_same_model (window_after env ls) = ls_retry_same_model ls"
  using read_last_failure_frame[of ls env] by (simp_all add: window_after_def same_knowledge_def same_window_def)

lemma window_after_nonempty: "ls_pending ls \<noteq> [] \<Longrightarrow> ls_pending (window_after env ls) \<noteq> []"
  using read_last_failure_frame[of ls env]
  by (cases rule: replan_window[of env "read_last_failure env ls"]) (auto simp: window_after_def same_knowledge_def same_window_def)

lemma chosen_view:
  assumes "chosen env ls ls1" "ls_pending ls \<noteq> [] \<or> ls_retry_same_model ls \<noteq> None"
  shows "turn env ls False ls1 \<and> ls_model ls1 = hd (turn_window env ls) \<and> ls_attempts ls1 = ls_attempts ls
    \<and> ls_errors ls1 = ls_errors ls \<and> ls_terminal_reason ls1 = ls_terminal_reason ls \<and> ls_retry_same_model ls1 = None
    \<and> turn env ls True (count_candidate (ls_retry_same_model ls \<noteq> None) ls1)"
  using assms window_after_nonempty[of ls env]
  by (cases "ls_retry_same_model ls")
    (auto simp: chosen_def turn_def turn_window_def count_candidate_def window_after_same)

lemma plain_not_attempted: "plain_delay (not_attempted_row model reason)"
  by (simp add: plain_delay_def not_attempted_row_def model_fields_def)

lemma retry_spent:
  assumes "chosen env ls ls1" "attempt_post (count_candidate (ls_retry_same_model ls \<noteq> None) ls1) sig ls'"
  shows "retry_left ls' \<le> retry_budget ls"
proof -
  let ?ls2 = "count_candidate (ls_retry_same_model ls \<noteq> None) ls1"
  have "retry_left ls' \<le> retries_left ?ls2"
    using assms(2) by (auto simp: attempt_post_def same_window_def retry_left_def retries_left_def)
  also have "retries_left ?ls2 \<le> retry_budget ls"
  proof (cases "ls_retry_same_model ls")
    case None
    have "card (set DROPPABLE_SAMPLING_PARAMETERS - set (ls_dropped ?ls2)) \<le> card (set DROPPABLE_SAMPLING_PARAMETERS)"
      by (intro card_mono) auto
    with None show ?thesis by (simp add: retries_left_def retry_budget_def)
  next
    case (Some m)
    with assms(1) show ?thesis
      by (simp add: chosen_def count_candidate_def retry_budget_def retry_left_def retries_left_def)
  qed
  finally show ?thesis .
qed

lemma asked_cases:
  assumes "asked_or_stopped env ls sig ls'" "ls_pending ls \<noteq> [] \<or> ls_retry_same_model ls \<noteq> None"
  obtains (asked) "turn env ls True ls'" "turn_rows env ls sig ls'"
      "sig \<noteq> Return Abandoned" "\<And>r. sig \<noteq> Return (JsonFailure r)"
  | (halted) "turn env ls False ls'" "halt_rows ls ls'" "sig = Stop"
proof -
  from assms(1)[unfolded asked_or_stopped_def] obtain ls1 where both: "chosen env ls ls1 \<and>
      (attempt_post (count_candidate (ls_retry_same_model ls \<noteq> None) ls1) sig ls'
         \<and> learns env (count_candidate (ls_retry_same_model ls \<noteq> None) ls1) ls'
       \<or> sig = Stop \<and> (ls_considered ls1 = 0 \<longrightarrow> ls_terminal_reason ls1 \<noteq> []) \<and>
         (\<exists>reason. ls' = add_error (Some (not_attempted_row (ls_model ls1) reason)) (ls1\<lparr>ls_terminal_reason := reason\<rparr>)))" ..
  note c = conjunct1[OF both]
  note v = chosen_view[OF c assms(2)]
  let ?ls2 = "count_candidate (ls_retry_same_model ls \<noteq> None) ls1"
  have two: "ls_model ?ls2 = ls_model ls1" "ls_attempts ?ls2 = ls_attempts ls1" "ls_errors ?ls2 = ls_errors ls1"
      "ls_terminal_reason ?ls2 = ls_terminal_reason ls1"
    by (simp_all add: count_candidate_def)
  from conjunct2[OF both] show thesis
  proof
    assume both: "attempt_post ?ls2 sig ls' \<and> learns env ?ls2 ls'"
    note post = conjunct1[OF both]
    have "turn env ls True ls'"
      using v post by (auto simp: turn_def attempt_post_def same_window_def)
    moreover have "turn_rows env ls sig ls'"
      using v post two retry_spent[OF c post] by (auto simp: turn_rows_def attempt_post_def same_window_def)
    ultimately show thesis
      using post by (intro asked) (auto simp: attempt_post_def)
  next
    assume h: "sig = Stop \<and> (ls_considered ls1 = 0 \<longrightarrow> ls_terminal_reason ls1 \<noteq> []) \<and>
         (\<exists>reason. ls' = add_error (Some (not_attempted_row (ls_model ls1) reason)) (ls1\<lparr>ls_terminal_reason := reason\<rparr>))"
    then have "turn env ls False ls'" "halt_rows ls ls'"
      using v plain_not_attempted by (auto simp: turn_def halt_rows_def add_error_def)
    then show thesis using h by (intro halted) auto
  qed
qed

text \<open>What holds between two iterations: the candidates counted and waiting fit the window, the calls fit the
  candidates, no row tells of bytes sent, every model comes from the plan, and nothing was asked
  exactly when nothing was counted.\<close>

definition calls_per_candidate :: nat where
  "calls_per_candidate = Suc (Suc (card (set DROPPABLE_SAMPLING_PARAMETERS)))"

definition window_bound :: "'w run_env \<Rightarrow> loop_state \<Rightarrow> nat" where
  "window_bound env ls =
     length (ap_candidates (re_plan env)) + (if ls_pass_started ls then CAPACITY_RETRY_PASS_MAX_MODELS else 0)"

definition planned_models :: "'w run_env \<Rightarrow> pydict set" where
  "planned_models env = set (ap_candidates (re_plan env)) \<union> set (loop_pool env)"

definition rows_planned :: "'w run_env \<Rightarrow> loop_state \<Rightarrow> bool" where
  "rows_planned env ls \<longleftrightarrow> (\<forall>row \<in> set (ls_attempts ls). \<exists>c \<in> planned_models env. dget row ''model'' = dget c ''id'')"

definition rows_silent :: "loop_state \<Rightarrow> bool" where
  "rows_silent ls \<longleftrightarrow> (\<forall>row \<in> set (ls_attempts ls). dget row ''stream_started'' \<noteq> PBool True)"

definition errors_plain :: "'w run_env \<Rightarrow> loop_state \<Rightarrow> bool" where
  "errors_plain env ls \<longleftrightarrow> (list_all plain_delay (ap_excluded_errors (re_plan env)) \<longrightarrow> list_all plain_delay (ls_errors ls))"

definition counts_ok :: "'w run_env \<Rightarrow> loop_state \<Rightarrow> bool" where
  "counts_ok env ls \<longleftrightarrow> ls_considered ls + length (ls_pending ls) \<le> window_bound env ls
     \<and> length (ls_attempts ls) + retry_left ls \<le> ls_considered ls * calls_per_candidate
     \<and> ls_considered ls \<le> length (ls_attempts ls)"

definition loop_inv :: "'w run_env \<Rightarrow> loop_state \<Rightarrow> bool" where
  "loop_inv env ls \<longleftrightarrow> counts_ok env ls \<and> rows_planned env ls \<and> rows_silent ls \<and> errors_plain env ls
     \<and> set (ls_pending ls) \<union> set_option (ls_retry_same_model ls) \<subseteq> planned_models env \<and> ls_terminal_reason ls = []
     \<and> (ls_considered ls = 0 \<longrightarrow> ls_pending ls = ap_candidates (re_plan env))"

lemma window_after_sub: "set (ls_pending (window_after env ls)) \<subseteq> set (ls_pending ls) \<union> set (loop_pool env)"
  using read_last_failure_frame[of ls env]
  by (cases rule: replan_window[of env "read_last_failure env ls"])
    (auto simp: window_after_def same_knowledge_def same_window_def offered_def dest!: set_mset_mono)

lemma window_after_length: "length (ls_pending (window_after env ls)) \<le> max (length (ls_pending ls)) (room env ls)"
  using read_last_failure_frame[of ls env]
  by (cases rule: replan_window[of env "read_last_failure env ls"])
    (auto simp: window_after_def same_knowledge_def same_window_def room_def)

lemma turn_window_sub:
  "set (turn_window env ls) \<subseteq> set (ls_pending ls) \<union> set_option (ls_retry_same_model ls) \<union> planned_models env"
  using window_after_sub[of env ls] by (auto simp: turn_window_def planned_models_def split: option.split)

lemma turn_counts:
  assumes inv: "counts_ok env ls" and turn: "turn env ls True ls'" and rows: "turn_rows env ls sig ls'"
  shows "counts_ok env ls'"
proof -
  have pend: "ls_considered ls' + length (ls_pending ls') \<le> window_bound env ls'"
  proof (cases "ls_retry_same_model ls")
    case None
    have "Suc (length (ls_pending ls')) = length (ls_pending (window_after env ls))"
      using turn None by (metis length_Cons option.simps(4) turn_def turn_window_def)
    then have "Suc (length (ls_pending ls')) \<le> max (length (ls_pending ls)) (room env ls)"
      using window_after_length[of env ls] by simp
    moreover have "ls_considered ls + length (ls_pending ls) \<le> window_bound env ls"
        "ls_considered ls + room env ls \<le> window_bound env ls \<or> room env ls = 0"
      using inv by (auto simp: counts_ok_def room_def window_bound_def)
    ultimately have "Suc (ls_considered ls) + length (ls_pending ls') \<le> window_bound env ls"
      by (auto simp: max_def split: if_splits)
    then show ?thesis using turn None by (simp add: turn_def window_bound_def)
  next
    case (Some m)
    with turn have "turn_window env ls = m # ls_pending ls" by (simp add: turn_window_def)
    with inv turn Some show ?thesis by (simp add: turn_def counts_ok_def window_bound_def)
  qed
  have "length (ls_attempts ls') = Suc (length (ls_attempts ls))" "retry_left ls' \<le> retry_budget ls"
    using rows by (auto simp: turn_rows_def)
  with pend inv turn show ?thesis
    by (cases "ls_retry_same_model ls") (auto simp: counts_ok_def turn_def retry_budget_def calls_per_candidate_def retry_left_def)
qed

lemma turn_models:
  assumes "set (ls_pending ls) \<union> set_option (ls_retry_same_model ls) \<subseteq> planned_models env" "rows_planned env ls"
    and turn: "turn env ls asked ls'"
  shows "hd (turn_window env ls) \<in> planned_models env" "set (ls_pending ls') \<subseteq> planned_models env"
    "turn_rows env ls sig ls' \<Longrightarrow> rows_planned env ls' \<and> set_option (ls_retry_same_model ls') \<subseteq> planned_models env"
proof -
  have "set (turn_window env ls) \<subseteq> planned_models env" using turn_window_sub[of env ls] assms(1) by blast
  moreover have w: "turn_window env ls = hd (turn_window env ls) # ls_pending ls'" using turn by (simp add: turn_def)
  ultimately show hd: "hd (turn_window env ls) \<in> planned_models env" and "set (ls_pending ls') \<subseteq> planned_models env"
    by (metis list.set_intros(1) subsetD, metis set_subset_Cons subset_trans)
  show "rows_planned env ls' \<and> set_option (ls_retry_same_model ls') \<subseteq> planned_models env" if "turn_rows env ls sig ls'"
    using that hd assms(2) by (auto simp: turn_rows_def rows_planned_def)
qed

lemma turn_quiet:
  assumes "turn_rows env ls sig ls'" "rows_silent ls" "errors_plain env ls"
  shows "errors_plain env ls'" "sig \<noteq> Return StreamingComplete \<Longrightarrow> rows_silent ls'"
  using assms by (auto simp: turn_rows_def rows_silent_def errors_plain_def)

lemma counts_attempts: "counts_ok env ls \<Longrightarrow> ls_attempts ls = [] \<longleftrightarrow> ls_considered ls = 0"
  by (cases "ls_considered ls") (auto simp: counts_ok_def)

lemma turn_inv:
  assumes inv: "loop_inv env ls" and turn: "turn env ls True ls'" and rows: "turn_rows env ls Next ls'"
  shows "loop_inv env ls'"
proof -
  have m: "set (ls_pending ls) \<union> set_option (ls_retry_same_model ls) \<subseteq> planned_models env" "rows_planned env ls"
    "counts_ok env ls" "rows_silent ls" "errors_plain env ls"
    using inv by (simp_all add: loop_inv_def)
  have c: "counts_ok env ls'" by (rule turn_counts[OF m(3) turn rows])
  then have "ls_considered ls' \<noteq> 0" using rows counts_attempts by (fastforce simp: turn_rows_def)
  moreover have "ls_terminal_reason ls' = []" using rows inv by (simp add: turn_rows_def loop_inv_def)
  ultimately show ?thesis
    using c turn_models(2)[OF m(1,2) turn] turn_models(3)[OF m(1,2) turn rows] turn_quiet[OF rows m(4,5)]
    by (simp add: loop_inv_def)
qed

text \<open>The pass starts from a state whose window is spent.\<close>

lemma pass_inv:
  assumes "loop_inv env ls" "pass_result env ls retried ls0" "retried \<noteq> []" "ls_pending ls = []" "ls_retry_same_model ls = None"
  shows "loop_inv env (ls0\<lparr>ls_pending := retried\<rparr>)"
proof -
  have "ls0 = ls\<lparr>ls_pass_started := True\<rparr>" "\<not> ls_pass_started ls" "length retried \<le> CAPACITY_RETRY_PASS_MAX_MODELS"
    "set retried \<subseteq> planned_models env"
    using assms(2,3) by (auto simp: pass_result_def planned_models_def)
  moreover have "ls_attempts ls \<noteq> []"
    using assms(2,3) by (cases retried) (auto simp: pass_result_def)
  then have "ls_considered ls \<noteq> 0"
    using assms(1) counts_attempts by (auto simp: loop_inv_def)
  ultimately show ?thesis
    using assms(1,4,5)
    by (simp add: loop_inv_def counts_ok_def window_bound_def rows_planned_def rows_silent_def errors_plain_def retry_left_def)
qed

lemma asked_either:
  assumes "asked_or_stopped env ls sig ls'" "ls_pending ls \<noteq> [] \<or> ls_retry_same_model ls \<noteq> None"
  shows "turn env ls True ls' \<and> turn_rows env ls sig ls' \<and> sig \<noteq> Return Abandoned \<and> (\<forall>r. sig \<noteq> Return (JsonFailure r))
    \<or> turn env ls False ls' \<and> halt_rows ls ls' \<and> sig = Stop"
  by (rule asked_cases[OF assms]) auto

text \<open>Every iteration from a state of the loop is a turn, a halt, or the end of a spent window.\<close>

lemma step_cases:
  assumes inv: "loop_inv env ls" and run: "run_state (attempt_step env ls) w = ((sig, ls'), w')"
  obtains (spent) "sig = Stop" "ls_pending ls = []" "ls' = ls \<or> ls' = ls\<lparr>ls_pass_started := True\<rparr>"
  | (asked) ls0 where "loop_inv env ls0" "turn env ls0 True ls'" "turn_rows env ls0 sig ls'"
      "sig \<noteq> Return Abandoned" "\<forall>r. sig \<noteq> Return (JsonFailure r)" "ls0 = ls \<or> \<not> ls_pass_started ls \<and> ls_pass_started ls0"
  | (halted) ls0 where "loop_inv env ls0" "turn env ls0 False ls'" "halt_rows ls0 ls'" "sig = Stop"
proof -
  have post: "step_post env ls sig ls'"
    using pred_stateD[OF attempt_step_post run] by simp
  show thesis
  proof (cases "ls_pending ls = [] \<and> ls_retry_same_model ls = None")
    case False
    with post have a: "asked_or_stopped env ls sig ls'" by (simp add: step_post_def)
    have "ls_pending ls \<noteq> [] \<or> ls_retry_same_model ls \<noteq> None" using False by auto
    from asked_either[OF a this] show thesis using inv by (metis asked halted)
  next
    case True
    with post obtain retried ls0 where p: "pass_result env ls retried ls0"
        and or: "retried = [] \<and> sig = Stop \<and> ls' = ls0 \<or> retried \<noteq> [] \<and> asked_or_stopped env (ls0\<lparr>ls_pending := retried\<rparr>) sig ls'"
      by (auto simp: step_post_def)
    from or show thesis
    proof
      assume "retried = [] \<and> sig = Stop \<and> ls' = ls0"
      with p True show thesis by (intro spent) (auto simp: pass_result_def)
    next
      assume r: "retried \<noteq> [] \<and> asked_or_stopped env (ls0\<lparr>ls_pending := retried\<rparr>) sig ls'"
      have i: "loop_inv env (ls0\<lparr>ls_pending := retried\<rparr>)" by (rule pass_inv[OF inv p]) (use r True in auto)
      have "\<not> ls_pass_started ls \<and> ls_pass_started (ls0\<lparr>ls_pending := retried\<rparr>)"
        using p r by (simp add: pass_result_def)
      moreover have "ls_pending (ls0\<lparr>ls_pending := retried\<rparr>) \<noteq> [] \<or> ls_retry_same_model (ls0\<lparr>ls_pending := retried\<rparr>) \<noteq> None"
        using r by simp
      ultimately show thesis using asked_either[OF conjunct2[OF r]] i by (metis asked halted)
    qed
  qed
qed

lemma loop_start_inv: "loop_inv env (loop_start env)"
  by (simp add: loop_inv_def counts_ok_def window_bound_def rows_planned_def rows_silent_def errors_plain_def retry_left_def
      loop_start_def Let_def planned_models_def)

lemma reached_inv: "reached env ls \<Longrightarrow> loop_inv env ls"
proof (induction rule: reached.induct)
  case (step ls w ls' w')
  from step.IH step.hyps(2) show ?case
    by (cases rule: step_cases) (auto intro: turn_inv)
qed (rule loop_start_inv)

text \<open>A loop that returns does so from a state it reached.\<close>

lemma loop_returns:
  assumes "attempt_loop env ls w = ((out, ls'), w')" "reached env ls"
  shows "\<exists>ls0 w0. reached env ls0 \<and>
    run_state (attempt_step env ls0) w0 = ((case out of None \<Rightarrow> Stop | Some r \<Rightarrow> Return r, ls'), w')"
  using assms
proof (induction env ls w rule: attempt_loop.induct)
  case (1 env ls w)
  obtain sig ls1 w1 where run: "run_state (attempt_step env ls) w = ((sig, ls1), w1)"
    by (metis surj_pair)
  show ?case
  proof (cases sig)
    case Next
    have "attempt_loop env ls1 w1 = ((out, ls'), w')"
      using 1(2) run Next by (simp add: attempt_loop.simps[of env ls w])
    moreover have "reached env ls1" using 1(3) run Next by (auto intro: reached.step)
    ultimately show ?thesis using 1(1)[OF run[symmetric] refl Next] by simp
  qed (use 1(2,3) run in \<open>auto simp: attempt_loop.simps[of env ls w] intro!: exI[of _ ls] exI[of _ w]\<close>)
qed

section \<open>The run and the request\<close>

text \<open>What follows a \<open>break\<close>: the failed run is recorded, and answered unless its ending has no one to answer.\<close>

definition writes_body :: "string \<Rightarrow> bool" where
  "writes_body terminal_reason \<longleftrightarrow>
     (case map_of TERMINAL_ENDINGS terminal_reason of None \<Rightarrow> True | Some ending \<Rightarrow> te_writes_body ending)"

definition finish_run :: "'w run_env \<Rightarrow> loop_state \<Rightarrow> ('w, run_outcome) state" where
  "finish_run env ls = do {
     now \<leftarrow> lp_now (re_ports env);
     _ \<leftarrow> lp_record_telemetry (re_ports env)
       (build_failure_route_telemetry (facts_of env ls now) (ls_errors ls) (ls_terminal_reason ls)
          (truthy (dget (re_body env) ''stream'')));
     State_Monad.return
       (if \<not> writes_body (ls_terminal_reason ls) then Abandoned
        else JsonFailure (build_upstream_failure_response (lp_failure_headers (re_ports env)) (re_requested env)
               (facts_of env ls now) (ls_errors ls) (ls_terminal_reason ls)))
   }"

definition run_attempts :: "'w run_env \<Rightarrow> 'w \<Rightarrow> (run_outcome \<times> loop_state) \<times> 'w" where
  "run_attempts env w =
     (case attempt_loop env (loop_start env) w of
        ((Some result, ls), w') \<Rightarrow> ((result, ls), w')
      | ((None, ls), w') \<Rightarrow> (case run_state (finish_run env ls) w' of (result, w'') \<Rightarrow> ((result, ls), w'')))"

text \<open>A request from its body on: the start, and unless it already answered, the plan and the run.\<close>

record 'w handle_result =
  hr_start :: chat_start
  hr_plan :: "attempt_plan option"
  hr_run :: "(run_outcome \<times> loop_state) option"

definition handle ::
  "start_ports \<Rightarrow> plan_ports \<Rightarrow> 'w attempt_ports \<Rightarrow> pydict \<Rightarrow> pv \<Rightarrow> string \<Rightarrow> real \<Rightarrow> real \<Rightarrow> 'w
   \<Rightarrow> ('w handle_result \<times> 'w) option" where
  "handle sp pp ports config body_value request_id request_started duration w = do {
     body \<leftarrow> dict_or_raise body_value;
     (requested, safe_requested) \<leftarrow> normalize_chat_completion_request body_value;
     started \<leftarrow> start sp config body_value request_id duration;
     if cs_is_fusion started \<or> cs_refusal started \<noteq> None
     then Some (\<lparr>hr_start = started, hr_plan = None, hr_run = None\<rparr>, w)
     else
       (let plan = plan_attempts pp config body requested (cs_candidates started);
            env = \<lparr>re_ports = ports, re_config = config, re_body = body, re_requested = requested,
                   re_safe_requested = safe_requested, re_request_id = request_id,
                   re_request_started = request_started, re_plan = plan\<rparr>
        in case run_attempts env w of (result, w') \<Rightarrow>
             Some (\<lparr>hr_start = started, hr_plan = Some plan, hr_run = Some result\<rparr>, w'))
   }"

section \<open>Properties of a run\<close>

text \<open>The last iteration of a run, and what the run makes of it.\<close>

lemma run_ends:
  assumes "run_attempts env w = ((out, ls), w')"
  obtains (returned) ls0 w0 w1 where "reached env ls0" "run_state (attempt_step env ls0) w0 = ((Return out, ls), w1)"
  | (broke) ls0 w0 w1 now where "reached env ls0" "run_state (attempt_step env ls0) w0 = ((Stop, ls), w1)"
      "out = (if \<not> writes_body (ls_terminal_reason ls) then Abandoned
        else JsonFailure (build_upstream_failure_response (lp_failure_headers (re_ports env)) (re_requested env)
               (facts_of env ls now) (ls_errors ls) (ls_terminal_reason ls)))"
proof -
  obtain r ls1 w1 where loop: "attempt_loop env (loop_start env) w = ((r, ls1), w1)" by (metis surj_pair)
  obtain ls0 w0 where e: "reached env ls0"
    "run_state (attempt_step env ls0) w0 = ((case r of None \<Rightarrow> Stop | Some r \<Rightarrow> Return r, ls1), w1)"
    using loop_returns[OF loop reached.start] by auto
  show thesis
  proof (cases r)
    case None
    then show thesis
      using assms e loop by (intro broke[of ls0 w0 w1 "fst (run_state (lp_now (re_ports env)) w1)"]) (auto simp: run_attempts_def finish_run_def split: prod.splits)
  next
    case (Some a)
    then show thesis using assms e loop by (intro returned[of ls0 w0 w1]) (auto simp: run_attempts_def)
  qed
qed

lemma halt_counts:
  assumes "loop_inv env ls" "turn env ls asked ls'" "halt_rows ls ls'" "\<not> asked"
  shows "ls_considered ls' \<le> window_bound env ls' \<and> length (ls_attempts ls') \<le> ls_considered ls' * calls_per_candidate
    \<and> rows_planned env ls' \<and> rows_silent ls' \<and> errors_plain env ls' \<and> ls_attempts ls' \<noteq> []"
proof -
  have "ls_attempts ls \<noteq> []"
    using assms(1,3) counts_attempts[of env ls] by (auto simp: halt_rows_def loop_inv_def)
  then show ?thesis
    using assms
    by (auto simp: loop_inv_def counts_ok_def halt_rows_def turn_def window_bound_def rows_planned_def rows_silent_def errors_plain_def)
qed

text \<open>Where a run ends.\<close>

definition run_summary :: "'w run_env \<Rightarrow> run_outcome \<Rightarrow> loop_state \<Rightarrow> bool" where
  "run_summary env out ls \<longleftrightarrow>
     ls_considered ls \<le> window_bound env ls \<and> length (ls_attempts ls) \<le> ls_considered ls * calls_per_candidate
     \<and> rows_planned env ls \<and> (out \<noteq> StreamingComplete \<longrightarrow> rows_silent ls)
     \<and> (\<forall>r. out = JsonFailure r \<longrightarrow> list_all plain_delay (ap_excluded_errors (re_plan env)) \<longrightarrow> list_all plain_delay (ls_errors ls))
     \<and> (ap_candidates (re_plan env) \<noteq> [] \<longrightarrow> ls_attempts ls \<noteq> [])"

lemma run_summarised:
  assumes run: "run_attempts env w = ((out, ls), w')"
  shows "run_summary env out ls"
  using run
proof (cases rule: run_ends)
  case (returned ls0 w0 w1)
  note inv = reached_inv[OF returned(1)]
  from inv returned(2) show ?thesis
  proof (cases rule: step_cases)
    case (asked ls1)
    have m: "set (ls_pending ls1) \<union> set_option (ls_retry_same_model ls1) \<subseteq> planned_models env" "rows_planned env ls1"
      "counts_ok env ls1" "rows_silent ls1" "errors_plain env ls1"
      using asked(1) by (simp_all add: loop_inv_def)
    show ?thesis
      using turn_counts[OF m(3) asked(2,3)] turn_models(3)[OF m(1,2) asked(2,3)] turn_quiet[OF asked(3) m(4,5)] asked(3,5)
      by (auto simp: run_summary_def counts_ok_def turn_rows_def)
  qed simp_all
next
  case (broke ls0 w0 w1 now)
  note inv = reached_inv[OF broke(1)]
  have out: "out \<noteq> StreamingComplete" using broke(3) by (auto split: if_splits)
  from inv broke(2) show ?thesis
  proof (cases rule: step_cases)
    case spent
    have "ls_attempts ls \<noteq> []" if "ap_candidates (re_plan env) \<noteq> []"
      using that spent inv counts_attempts[of env ls0] by (auto simp: loop_inv_def)
    with spent inv out show ?thesis
      by (auto simp: run_summary_def loop_inv_def counts_ok_def window_bound_def rows_planned_def rows_silent_def errors_plain_def
          split: if_splits)
  next
    case (asked ls1)
    then have "loop_inv env ls" using turn_inv[OF asked(1,2)] by (simp add: turn_rows_def)
    moreover have "ls_attempts ls \<noteq> []" using asked(3) by (auto simp: turn_rows_def)
    ultimately show ?thesis using out by (auto simp: run_summary_def loop_inv_def counts_ok_def errors_plain_def)
  next
    case (halted ls1)
    from halt_counts[OF halted(1-3)] out show ?thesis by (auto simp: run_summary_def errors_plain_def)
  qed
qed

section \<open>The window and what was ruled out\<close>

text \<open>Until the capacity pass, the window holds candidates of the pool that were not asked, each once; and when no
  new plan is due, either none of them is ruled out or the pool has nothing better to offer.\<close>

definition nothing_better :: "'w run_env \<Rightarrow> loop_state \<Rightarrow> bool" where
  "nothing_better env ls \<longleftrightarrow> (\<forall>c \<in> fresh_in_pool env ls. is_ruled_out env ls c)"

definition window_clear :: "'w run_env \<Rightarrow> loop_state \<Rightarrow> bool" where
  "window_clear env ls \<longleftrightarrow> (\<forall>c \<in> set (ls_pending ls). \<not> is_ruled_out env ls c) \<or> nothing_better env ls"

definition window_fresh :: "'w run_env \<Rightarrow> loop_state \<Rightarrow> bool" where
  "window_fresh env ls \<longleftrightarrow> set (ls_pending ls) \<subseteq> fresh_in_pool env ls
     \<and> distinct (map (\<lambda>c. text_of c ''id'') (ls_pending ls)) \<and> distinct (ls_considered_ids ls)"

definition window_inv :: "'w run_env \<Rightarrow> loop_state \<Rightarrow> bool" where
  "window_inv env ls \<longleftrightarrow> ls_pass_started ls
     \<or> window_fresh env ls \<and> (ls_divert_pending ls \<or> window_clear env ls)"

lemma window_inv_learns:
  assumes "window_inv env ls" "learns env ls ls'" "ls_pending ls' = ls_pending ls" "ls_pass_started ls' = ls_pass_started ls"
  shows "window_inv env ls'"
proof (cases "ls_pass_started ls")
  case False
  have "fresh_in_pool env ls' = fresh_in_pool env ls"
    using assms(2) by (simp add: learns_def fresh_in_pool_def)
  then show ?thesis
    using False assms
    unfolding window_inv_def window_fresh_def window_clear_def nothing_better_def learns_def by auto
qed (use assms in \<open>simp add: window_inv_def\<close>)

lemma distinct_ids_mset:
  assumes "mset xs \<subseteq># mset ys" "distinct (map f ys)"
  shows "distinct (map f xs)"
proof -
  obtain zs where "mset ys = mset (xs @ zs)"
    using assms(1) by (metis ex_mset mset_append mset_subset_eq_exists_conv)
  then have "mset (map f ys) = mset (map f (xs @ zs))" by (metis mset_map)
  then show ?thesis using assms(2) mset_eq_imp_distinct_iff by fastforce
qed

lemma offered_fresh: "set (offered env ls) = {c \<in> fresh_in_pool env ls. \<not> is_ruled_out env ls c}"
  by (auto simp: offered_def fresh_in_pool_def)

text \<open>After a plan the window is clear.\<close>

lemma window_after_clear:
  assumes "window_inv env ls" "\<not> ls_pass_started ls" "distinct (map (\<lambda>c. text_of c ''id'') (loop_pool env))"
    and room: "ls_considered ls + length (ls_pending ls) \<le> length (ap_candidates (re_plan env))" "ls_pending ls \<noteq> []"
  shows "window_fresh env (window_after env ls) \<and> window_clear env (window_after env ls)"
proof -
  let ?ls0 = "read_last_failure env ls" and ?ls1 = "window_after env ls"
  have same: "same_knowledge ls ?ls0" by (rule read_last_failure_frame)
  have "window_inv env ?ls0"
    using same by (intro window_inv_learns[OF assms(1) learns_read_last_failure]) (simp_all add: same_knowledge_def same_window_def)
  moreover have "\<not> ls_pass_started ?ls0" using same assms(2) by (simp add: same_knowledge_def same_window_def)
  ultimately have inv0: "window_fresh env ?ls0" "ls_divert_pending ?ls0 \<or> window_clear env ?ls0"
    by (auto simp: window_inv_def)
  have views: "is_ruled_out env ?ls1 = is_ruled_out env ?ls0" "fresh_in_pool env ?ls1 = fresh_in_pool env ?ls0"
      "ls_considered_ids ?ls1 = ls_considered_ids ?ls0"
    by (simp_all add: window_after_def fresh_in_pool_def)
  have room0: "room env ?ls0 \<noteq> 0"
    using room same by (cases "ls_pending ls") (auto simp: room_def same_knowledge_def same_window_def)
  show ?thesis
  proof (cases rule: replan_window[of env ?ls0])
    case kept
    have "window_clear env ?ls1"
    proof (cases "ls_divert_pending ?ls0")
      case True
      then have "offered env ?ls0 = []" using kept(2) room0 by blast
      then show ?thesis
        using offered_fresh[of env ?ls0] by (auto simp: window_clear_def nothing_better_def views)
    next
      case False
      moreover have "ls_pending ?ls1 = ls_pending ?ls0" using kept(1) by (simp add: window_after_def)
      ultimately show ?thesis using inv0(2) by (simp add: window_clear_def nothing_better_def views)
    qed
    then show ?thesis using inv0(1) kept(1) views by (simp add: window_fresh_def window_after_def)
  next
    case again
    have "distinct (map (\<lambda>c. text_of c ''id'') (offered env ?ls0))"
      using assms(3) by (simp add: offered_def distinct_map_filter)
    then have "distinct (map (\<lambda>c. text_of c ''id'') (ls_pending ?ls1))"
      using distinct_ids_mset[OF again(2)] by (simp add: window_after_def)
    moreover have "set (ls_pending ?ls1) \<subseteq> set (offered env ?ls0)"
      using set_mset_mono[OF again(2)] by (simp add: window_after_def)
    ultimately show ?thesis
      using inv0(1) views offered_fresh[of env ?ls0] by (auto simp: window_fresh_def window_clear_def)
  qed
qed

lemma chosen_window_inv:
  assumes inv: "window_inv env ls" and c: "chosen env ls ls1" and ids: "distinct (map (\<lambda>c. text_of c ''id'') (loop_pool env))"
    and room: "\<not> ls_pass_started ls \<Longrightarrow> ls_considered ls + length (ls_pending ls) \<le> length (ap_candidates (re_plan env))"
    and any: "ls_pending ls \<noteq> [] \<or> ls_retry_same_model ls \<noteq> None"
  shows "window_inv env (count_candidate (ls_retry_same_model ls \<noteq> None) ls1)"
proof (cases "ls_pass_started ls \<or> ls_retry_same_model ls \<noteq> None")
  case True
  then show ?thesis
  proof (cases "ls_retry_same_model ls")
    case (Some m)
    with c have "count_candidate True ls1 = ls\<lparr>ls_model := m, ls_retry_same_model := None\<rparr>"
      by (simp add: chosen_def count_candidate_def)
    then show ?thesis
      using Some window_inv_learns[OF inv learns_same, of "count_candidate True ls1"] by (simp add: same_rules_def)
  next
    case None
    with True c show ?thesis by (auto simp: window_inv_def chosen_def count_candidate_def window_after_same)
  qed
next
  case False
  then have f: "\<not> ls_pass_started ls" "ls_retry_same_model ls = None" "ls_pending ls \<noteq> []" using any by auto
  let ?w = "window_after env ls" and ?ls2 = "count_candidate False ls1"
  note clear = window_after_clear[OF inv f(1) ids room[OF f(1)] f(3)]
  obtain m rest where w: "ls_pending ?w = m # rest"
    using window_after_nonempty[OF f(3), of env] by (auto simp: neq_Nil_conv)
  have two: "ls_pending ?ls2 = rest" "ls_considered_ids ?ls2 = text_of m ''id'' # ls_considered_ids ?w"
      "is_ruled_out env ?ls2 = is_ruled_out env ?w"
    using c f(2) w by (auto simp: chosen_def count_candidate_def is_ruled_out_def fun_eq_iff)
  have fresh: "fresh_in_pool env ?ls2 = {c \<in> fresh_in_pool env ?w. text_of c ''id'' \<noteq> text_of m ''id''}"
    using two by (auto simp: fresh_in_pool_def)
  have "m \<in> fresh_in_pool env ?w" using clear w by (simp add: window_fresh_def)
  then have "text_of m ''id'' \<notin> set (ls_considered_ids ?w)" by (simp add: fresh_in_pool_def)
  moreover have "\<forall>c \<in> set rest. text_of c ''id'' \<noteq> text_of m ''id''"
    using clear w by (simp add: window_fresh_def) (metis image_eqI)
  ultimately have "window_fresh env ?ls2"
    using clear w two by (auto simp: window_fresh_def fresh)
  moreover have "window_clear env ?ls2"
    using clear w by (auto simp: window_clear_def nothing_better_def two fresh)
  ultimately show ?thesis using f(2) by (simp add: window_inv_def)
qed

text \<open>What a plan must promise the loop, and that the plans of the router promise it.\<close>

definition plan_fits :: "'w run_env \<Rightarrow> bool" where
  "plan_fits env \<longleftrightarrow> distinct (map (\<lambda>c. text_of c ''id'') (loop_pool env))
     \<and> distinct (map (\<lambda>c. text_of c ''id'') (ap_candidates (re_plan env)))
     \<and> set (ap_candidates (re_plan env)) \<subseteq> set (loop_pool env)
     \<and> (\<forall>c \<in> set (loop_pool env). \<not> is_ruled_out env (loop_start env) c)"

lemma reached_window_inv:
  assumes "reached env ls" "plan_fits env"
  shows "window_inv env ls"
  using assms(1)
proof (induction rule: reached.induct)
  case start
  from assms(2) show ?case
    by (auto simp: plan_fits_def window_inv_def window_fresh_def window_clear_def fresh_in_pool_def loop_start_def Let_def)
next
  case (step ls w ls' w')
  have ids: "distinct (map (\<lambda>c. text_of c ''id'') (loop_pool env))" using assms(2) by (simp add: plan_fits_def)
  have inv: "loop_inv env ls" by (rule reached_inv[OF step.hyps(1)])
  have post: "step_post env ls Next ls'" using pred_stateD[OF attempt_step_post step.hyps(2)] by simp
  have asked: "window_inv env ls'" if a: "asked_or_stopped env l Next ls'" "window_inv env l" "counts_ok env l"
      "ls_pending l \<noteq> [] \<or> ls_retry_same_model l \<noteq> None" for l
  proof -
    from a(1) obtain l1 where c: "chosen env l l1"
        and p: "attempt_post (count_candidate (ls_retry_same_model l \<noteq> None) l1) Next ls'"
        and k: "learns env (count_candidate (ls_retry_same_model l \<noteq> None) l1) ls'"
      unfolding asked_or_stopped_def by blast
    have "ls_considered l + length (ls_pending l) \<le> length (ap_candidates (re_plan env))" if "\<not> ls_pass_started l"
      using a(3) that by (simp add: counts_ok_def window_bound_def)
    then have "window_inv env (count_candidate (ls_retry_same_model l \<noteq> None) l1)"
      by (rule chosen_window_inv[OF a(2) c ids _ a(4)])
    then show ?thesis
      by (rule window_inv_learns[OF _ k]) (use p in \<open>simp_all add: attempt_post_def same_window_def\<close>)
  qed
  show ?case
  proof (cases "ls_pending ls = [] \<and> ls_retry_same_model ls = None")
    case False
    then show ?thesis
      using post asked[of ls] step.IH inv by (auto simp: step_post_def loop_inv_def)
  next
    case True
    with post obtain retried ls0 where r: "pass_result env ls retried ls0" "retried \<noteq> []"
        "asked_or_stopped env (ls0\<lparr>ls_pending := retried\<rparr>) Next ls'"
      by (auto simp: step_post_def)
    have "loop_inv env (ls0\<lparr>ls_pending := retried\<rparr>)" by (rule pass_inv[OF inv r(1,2)]) (use True in auto)
    moreover have "window_inv env (ls0\<lparr>ls_pending := retried\<rparr>)"
      using r(1,2) by (simp add: pass_result_def window_inv_def)
    ultimately show ?thesis using asked[OF r(3)] r(2) by (simp add: loop_inv_def)
  qed
qed

lemma larger_headroom: "1 \<le> f \<Longrightarrow> of_int n \<le> headroom n completion f"
proof -
  assume f: "1 \<le> f"
  have "real_of_int (max 0 (n - completion)) * 1 \<le> of_int (max 0 (n - completion)) * f"
    by (rule mult_left_mono[OF f]) simp
  moreover have "real_of_int (n - completion) \<le> of_int (max 0 (n - completion))" by simp
  ultimately have "real_of_int (n - completion) \<le> of_int (max 0 (n - completion)) * f" by (metis mult_1_right order_trans)
  then show ?thesis by (simp add: headroom_def)
qed

lemma safety_factor_ge_1: "1 \<le> safety_factor_of config"
  by (simp add: safety_factor_of_def Let_def DEFAULT_CONTEXT_ESTIMATE_SAFETY_FACTOR_def)

lemma planned_fits:
  assumes plan: "re_plan env = plan_attempts pp (re_config env) (re_body env) (re_requested env) cands"
    and ids: "distinct (map (\<lambda>c. text_of c ''id'') cands)"
    and completion: "0 \<le> requested_completion_tokens (ap_routed_body (re_plan env))"
  shows "plan_fits env \<and> set (loop_pool env) \<subseteq> set cands"
proof -
  let ?plan = "re_plan env"
  obtain comfortable tight where pool: "mset (ap_candidate_pool ?plan) = mset (filter (sendable pp (re_config env) (ap_routed_body ?plan)) cands)"
      and win: "ap_candidates ?plan = attempts_with_source_diversity (ap_candidate_pool ?plan)
        (max_attempts_for_request pp (re_requested env) (re_config env) (length cands)) (re_config env)"
    by (rule plan_pool[OF plan])
  have lp: "loop_pool env = ap_candidate_pool ?plan"
    using win by (auto simp: loop_pool_def attempts_with_source_diversity_def)
  have pids: "distinct (map (\<lambda>c. text_of c ''id'') (ap_candidate_pool ?plan))"
  proof -
    have "mset (ap_candidate_pool ?plan) \<subseteq># mset cands" using pool by simp
    from distinct_ids_mset[OF this ids] show ?thesis .
  qed
  have wids: "distinct (map (\<lambda>c. text_of c ''id'') (ap_candidates ?plan))"
  proof (cases "0 < max_attempts_for_request pp (re_requested env) (re_config env) (length cands)")
    case True
    from window_full[OF this win] pids distinct_ids_mset show ?thesis by blast
  qed (simp add: win attempts_with_source_diversity_def)
  have "set (ap_candidates ?plan) \<subseteq> set (ap_candidate_pool ?plan)" using window_sub win by metis
  moreover have spool: "set (ap_candidate_pool ?plan) = set (filter (sendable pp (re_config env) (ap_routed_body ?plan)) cands)"
    by (metis pool set_mset_mset)
  have "ap_context_exclusion_tokens_estimate ?plan = estimate_request_tokens_for_exclusion (ap_routed_body ?plan)
      + requested_completion_tokens (ap_routed_body ?plan)"
    unfolding plan plan_attempts_def Let_def by (simp split: prod.split)
  then have req: "ls_required_context (loop_start env) = estimate_request_tokens_for_exclusion (ap_routed_body ?plan)
      + requested_completion_tokens (ap_routed_body ?plan)"
    using completion exclusion_estimate_is_lower[of "ap_routed_body ?plan"] by (simp add: loop_start_def Let_def)
  have "\<not> is_ruled_out env (loop_start env) c" if "c \<in> set (ap_candidate_pool ?plan)" for c
  proof -
    have "context_fits c (headroom (ls_required_context (loop_start env)) (requested_completion_tokens (ap_routed_body ?plan))
        (safety_factor_of (re_config env)))"
      using that spool by (simp add: sendable_def Let_def req)
    then have "\<not> candidate_context_too_small c (of_int (ls_required_context (loop_start env)))"
      using larger_context larger_headroom[OF safety_factor_ge_1] by (metis candidate_context_too_small_def)
    then show ?thesis by (simp add: is_ruled_out_def) (simp add: loop_start_def Let_def)
  qed
  ultimately show ?thesis using pids wids lp spool by (auto simp: plan_fits_def)
qed

end
