(* ===== verification/RequestRun.thy ===== *)
theory RequestRun
  imports AttemptRun
begin

text \<open>
  A request as a whole (\<open>handle\<close> of \<open>use_cases/chat_completion.py\<close>): what every run of the
  attempt loop keeps in any world of ports, what a failed run answers, and which models of the
  catalog a request can reach. The small world of the first section is where the properties
  are applied.
\<close>

section \<open>A small world\<close>

text \<open>A world that counts the calls: the first times out, the second answers.\<close>

definition example_answer :: pv where
  "example_answer = PDict [(''choices'', PList [PDict [(''finish_reason'', PStr ''stop''),
     (''message'', PDict [(''content'', PStr ''hi'')])]])]"

definition example_invoke :: "pydict \<Rightarrow> pydict \<Rightarrow> real option \<Rightarrow> real option \<Rightarrow> int option \<Rightarrow> (nat, raised + upstream_response) state" where
  "example_invoke model body budget deadline chars = State (\<lambda>n.
     (if n = 0 then Inl example_timeout
      else Inr \<lparr>rs_status = 200, rs_json = Inr example_answer, rs_text = Inr [], rs_headers = [], rs_attrs = []\<rparr>, Suc n))"

definition example_attempt_ports :: "nat attempt_ports" where
  "example_attempt_ports = \<lparr>lp_now = State_Monad.return 1, lp_wall_clock = State_Monad.return 1,
     lp_pause = (\<lambda>_. State_Monad.return ()), lp_terminal_reason = State_Monad.return [],
     lp_invoke_model = example_invoke,
     lp_apply_cooldown = (\<lambda>_. State_Monad.return None),
     lp_stream_response = (\<lambda>_ _ _ _. State_Monad.return []),
     lp_unsupported_parameters = (\<lambda>_ _. State_Monad.return []), lp_learn_unsupported = (\<lambda>_ _. State_Monad.return ()),
     lp_resolve_competence = (\<lambda>_ _. State_Monad.return ''verified''),
     lp_record_success = (\<lambda>_ _ _. State_Monad.return ()), lp_record_telemetry = (\<lambda>_. State_Monad.return ()),
     lp_quota_matches = quota_cooldown_matches_model, lp_char_budget = (\<lambda>_. None),
     lp_is_timeout = (\<lambda>_. True), lp_is_deadline = (\<lambda>_. False), lp_verdicts = example_verdict_ports,
     lp_success_headers = (\<lambda>_ _ _ _ _ _. []), lp_failure_headers = (\<lambda>_ _ _ _. [])\<rparr>"

definition example_models :: "pydict list" where
  "example_models = [[(''id'', PStr ''a''), (''source'', PStr ''x''), (''upstream_id'', PStr ''m'')],
                     [(''id'', PStr ''b''), (''source'', PStr ''y''), (''upstream_id'', PStr ''n'')]]"

definition example_run_env :: "nat run_env" where
  "example_run_env = \<lparr>re_ports = example_attempt_ports, re_config = [], re_body = [], re_requested = ''ficelle/auto-tools'',
     re_safe_requested = ''ficelle/auto-tools'', re_request_id = ''r'', re_request_started = 0,
     re_plan = \<lparr>ap_candidates = example_models, ap_candidate_count = 2, ap_routed_body = [], ap_compression_metadata = PNone,
       ap_is_virtual = True, ap_candidate_pool = example_models, ap_excluded_errors = [], ap_prompt_tokens_estimate = 1,
       ap_context_exclusion_tokens_estimate = 1, ap_excluded_for_context = 0, ap_demoted_for_context = 0\<rparr>\<rparr>"

definition example_plan_ports :: plan_ports where
  "example_plan_ports = \<lparr>pp_compress = (\<lambda>body _. (body, PNone)), pp_request_token_limit = (\<lambda>_. None), pp_virtual_ids = (\<lambda>_. [])\<rparr>"

definition example_planned_env :: "nat run_env" where
  "example_planned_env = example_run_env\<lparr>re_plan := plan_attempts example_plan_ports [] [] ''ficelle/auto-tools'' example_models\<rparr>"

definition example_runner :: runner_ports where
  "example_runner = \<lparr>rn_policy = (\<lambda>_. router_policy example_selection_ports), rn_due_probe_keys = (\<lambda>_ _ _ _. []),
     rn_run_probes = (\<lambda>_ _ _ state. state)\<rparr>"

definition example_start_ports :: start_ports where
  "example_start_ports = \<lparr>sr_load_catalog = (\<lambda>_. [(''models'', PList [PDict example_catalog_row])]),
     sr_select_candidates = (\<lambda>_ _ _. []),
     sr_select_result = Some (\<lambda>requested catalog config. select_models_result_from_state example_runner requested catalog config [] ''route''),
     sr_is_fusion = (\<lambda>_. False), sr_is_virtual = (\<lambda>_. False), sr_response_headers = (\<lambda>_ _. []), sr_retry_after = None\<rparr>"

definition example_request :: pv where "example_request = PDict [(''model'', PStr ''u'')]"

section \<open>Properties of a run\<close>

text \<open>C3. A run ends after boundedly many calls in any world: it counts at most the candidates of its plan, two
  more when the capacity pass ran, it calls a candidate at most once more than the knobs it can
  lose and the one wait it can be granted, and with a candidate in the plan at least one call
  is made.\<close>

theorem a_run_makes_boundedly_many_calls:
  "let ls = snd (fst (run_attempts env w)); planned = length (ap_candidates (re_plan env)) in
     ls_considered ls \<le> planned + (if ls_pass_started ls then 2 else 0)
     \<and> length (ls_attempts ls) \<le> ls_considered ls * (2 + card (set DROPPABLE_SAMPLING_PARAMETERS))
     \<and> (0 < planned \<longrightarrow> ls_attempts ls \<noteq> [])"
proof -
  obtain out ls w' where run: "run_attempts env w = ((out, ls), w')" by (metis surj_pair)
  have "run_summary env out ls" by (rule run_summarised[OF run])
  then have "ls_considered ls \<le> window_bound env ls" "length (ls_attempts ls) \<le> ls_considered ls * calls_per_candidate"
      "ap_candidates (re_plan env) \<noteq> [] \<longrightarrow> ls_attempts ls \<noteq> []"
    unfolding run_summary_def by blast+
  then show ?thesis
    by (simp add: run window_bound_def calls_per_candidate_def CAPACITY_RETRY_PASS_MAX_MODELS_def split: if_splits)
qed

lemma a_run_makes_boundedly_many_calls_witness:
  "length (ls_attempts (snd (fst (run_attempts example_run_env 0)))) = 2
   \<and> ls_attempts (snd (fst (run_attempts example_run_env 0))) \<noteq> []"
proof -
  have "length (ls_attempts (snd (fst (run_attempts example_run_env 0)))) = 2" by code_simp
  moreover have "0 < length (ap_candidates (re_plan example_run_env))" by code_simp
  ultimately show ?thesis
    using a_run_makes_boundedly_many_calls[of example_run_env 0] by (simp only: Let_def) blast
qed

lemma last_row_only:
  assumes "run_attempts env w = ((out, ls), w')"
  shows "\<forall>row \<in> set (butlast (ls_attempts ls)). dget row ''stream_started'' \<noteq> PBool True"
  using assms
proof (cases rule: run_ends)
  case (returned ls0 w0 w1)
  from reached_inv[OF returned(1)] returned(2) show ?thesis
  proof (cases rule: step_cases)
    case (asked ls1)
    then show ?thesis by (auto simp: loop_inv_def rows_silent_def turn_rows_def)
  qed simp_all
next
  case (broke ls0 w0 w1 now)
  then have "rows_silent ls" using run_summarised[OF assms] by (auto simp: run_summary_def split: if_splits)
  then show ?thesis by (auto simp: rows_silent_def dest: in_set_butlastD)
qed

text \<open>C2. Nothing follows bytes that were sent: an attempt that streamed to the caller is the last of its run,
  and a run that ends with a body of its own or with none at all, whether it failed or answered
  unstreamed, sent no byte of any other answer before.\<close>

theorem nothing_follows_bytes_sent:
  "let out = fst (fst (run_attempts env w)); ls = snd (fst (run_attempts env w)) in
     (\<forall>row \<in> set (butlast (ls_attempts ls)). dget row ''stream_started'' \<noteq> PBool True)
     \<and> (out \<noteq> StreamingComplete \<longrightarrow> (\<forall>row \<in> set (ls_attempts ls). dget row ''stream_started'' \<noteq> PBool True))"
proof -
  obtain out ls w' where run: "run_attempts env w = ((out, ls), w')" by (metis surj_pair)
  show ?thesis
    using run_summarised[OF run] last_row_only[OF run] by (simp add: run run_summary_def rows_silent_def)
qed

lemma nothing_follows_bytes_sent_witness:
  "list_all (\<lambda>row. dget row ''stream_started'' \<noteq> PBool True) (ls_attempts (snd (fst (run_attempts example_run_env 0))))"
proof -
  have "fst (fst (run_attempts example_run_env 0)) \<noteq> StreamingComplete" by code_simp
  then show ?thesis
    using nothing_follows_bytes_sent[of example_run_env 0] by (simp only: Let_def list_all_iff) blast
qed

text \<open>C4. A run uses what it learned: until the capacity pass, the candidate it turns to next is one of the
  selection, was not counted before, and is ruled out by what the run knows only when everything
  else the pool holds is ruled out too or was counted.\<close>

theorem a_run_uses_what_it_learned:
  assumes "reached env ls" "ls_retry_same_model ls = None" "ls_pending ls \<noteq> []" "\<not> ls_pass_started ls"
    and plan: "re_plan env = plan_attempts pp (re_config env) (re_body env) (re_requested env) cands"
    and ids: "distinct (map (\<lambda>c. text_of c ''id'') cands)" "0 \<le> requested_completion_tokens (ap_routed_body (re_plan env))"
    and turned: "ls' = fst (run_state (next_candidate env ls) w)"
  shows "ls_model ls' \<in> set cands \<and> text_of (ls_model ls') ''id'' \<notin> set (ls_considered_ids ls')
    \<and> (is_ruled_out env ls' (ls_model ls') \<longrightarrow>
        (\<forall>c \<in> set (loop_pool env). text_of c ''id'' \<in> set (ls_considered_ids ls') \<or> is_ruled_out env ls' c))"
proof -
  have fits: "plan_fits env" "set (loop_pool env) \<subseteq> set cands" using planned_fits[OF plan ids] by auto
  have inv: "loop_inv env ls" by (rule reached_inv[OF assms(1)])
  have "window_fresh env (window_after env ls) \<and> window_clear env (window_after env ls)"
  proof (rule window_after_clear[OF reached_window_inv[OF assms(1) fits(1)] assms(4)])
    show "distinct (map (\<lambda>c. text_of c ''id'') (loop_pool env))" using fits(1) by (simp add: plan_fits_def)
    show "ls_considered ls + length (ls_pending ls) \<le> length (ap_candidates (re_plan env))"
      using inv assms(4) by (simp add: loop_inv_def counts_ok_def window_bound_def)
  qed (rule assms(3))
  moreover have "ls_pending (window_after env ls) \<noteq> []" by (rule window_after_nonempty[OF assms(3)])
  moreover obtain known body where ls': "ls' = (window_after env ls)
      \<lparr>ls_pending := tl (ls_pending (window_after env ls)), ls_model := hd (ls_pending (window_after env ls)),
       ls_dropped := known, ls_attempt_body := body\<rparr>"
    using pred_state_run_state[OF next_candidate_post[of env ls], of w] turned by (auto simp: window_after_def)
  moreover have "is_ruled_out env ls' = is_ruled_out env (window_after env ls)"
    by (simp add: ls' is_ruled_out_def fun_eq_iff)
  ultimately show ?thesis
    using fits(2) by (auto simp: window_fresh_def window_clear_def nothing_better_def fresh_in_pool_def neq_Nil_conv)
qed


lemma a_run_uses_what_it_learned_witness:
  "ls_model (fst (run_state (next_candidate example_planned_env (loop_start example_planned_env)) 0)) \<in> set example_models"
proof -
  let ?env = example_planned_env
  have plan: "re_plan ?env = plan_attempts example_plan_ports (re_config ?env) (re_body ?env) (re_requested ?env) example_models"
    by (simp add: example_planned_env_def example_run_env_def)
  have "ls_retry_same_model (loop_start ?env) = None" "\<not> ls_pass_started (loop_start ?env)"
    by (simp_all add: loop_start_def Let_def)
  moreover have "ls_pending (loop_start ?env) \<noteq> []" "0 \<le> requested_completion_tokens (ap_routed_body (re_plan ?env))"
    "distinct (map (\<lambda>c. text_of c ''id'') example_models)"
    by code_simp+
  ultimately show ?thesis
    using a_run_uses_what_it_learned[OF reached.start _ _ _ plan _ _ refl, THEN conjunct1, of 0] by simp
qed

section \<open>Failed runs\<close>

lemma planned_errors_plain: "list_all plain_delay (ap_excluded_errors (plan_attempts pp config body requested cands))"
  by (auto simp: plan_attempts_def Let_def exclude_incompatible_candidates_def exclude_undersized_candidates_def
      exclude_over_token_limit_candidates_def excluded_candidate_row_def plain_delay_def list_all_iff
      split: prod.splits if_splits)

lemma plain_retry_after:
  assumes "list_all plain_delay errors"
  obtains delay where "upstream_retry_after_seconds errors status = Some delay"
proof -
  have "None \<notin> set (row_delay e)" if "plain_delay e" for e
    using that by (auto simp: plain_delay_def row_delay_def)
  then have "None \<notin> set (concat (map row_delay errors))" using assms by (auto simp: list_all_iff)
  then have "upstream_retry_after_seconds errors status \<noteq> None"
    by (auto simp: upstream_retry_after_seconds_def Let_def split: list.split)
  then show thesis using that by blast
qed

text \<open>C5. A failed run always answers, and honestly: in any world and with any plan of the router, the response
  that ends a failed run is built without an exception, its status is the verdict on the
  failures the run collected and one of the six statuses of a failure, the caller is left
  without a body only when it has hung up, and no other ending is one of a failure.\<close>

theorem failed_runs_always_answer:
  assumes "re_plan env = plan_attempts pp (re_config env) (re_body env) (re_requested env) cands"
    and run: "run_attempts env w = ((out, ls), w')"
  shows "(\<forall>response. out = JsonFailure response \<longrightarrow> (\<exists>r. response = Some r
        \<and> cr_status r = upstream_failure_status (ls_errors ls) (ls_terminal_reason ls)
        \<and> cr_status r \<in> {400, 422, 429, 502, 503, 504}))
    \<and> (out = Abandoned \<longleftrightarrow> ls_terminal_reason ls = ''client_disconnected'')"
proof -
  have plain: "list_all plain_delay (ls_errors ls)" if "out = JsonFailure r" for r
    using run_summarised[OF run] that planned_errors_plain assms(1) by (auto simp: run_summary_def)
  from run show ?thesis
  proof (cases rule: run_ends)
    case (returned ls0 w0 w1)
    from reached_inv[OF returned(1)] returned(2) show ?thesis
    proof (cases rule: step_cases)
      case (asked ls1)
      then have "ls_terminal_reason ls = []" by (simp add: turn_rows_def loop_inv_def)
      then show ?thesis using asked(4,5) by auto
    qed simp_all
  next
    case (broke ls0 w0 w1 now)
    have "writes_body (ls_terminal_reason ls) \<longleftrightarrow> ls_terminal_reason ls \<noteq> ''client_disconnected''"
      by (auto simp: writes_body_def TERMINAL_ENDINGS_def)
    then show ?thesis
      using broke(3) plain upstream_failure_status_cases[of "ls_errors ls" "ls_terminal_reason ls"]
        plain_retry_after[of "ls_errors ls" "upstream_failure_status (ls_errors ls) (ls_terminal_reason ls)"]
      by (fastforce simp: build_upstream_failure_response_def Let_def split: if_splits option.splits)
  qed
qed

lemma failed_runs_always_answer_witness:
  "\<exists>out ls w'. run_attempts example_planned_env 0 = ((out, ls), w')
     \<and> (out = Abandoned \<longleftrightarrow> ls_terminal_reason ls = ''client_disconnected'')"
proof -
  obtain out ls w' where run: "run_attempts example_planned_env 0 = ((out, ls), w')" by (metis surj_pair)
  have "re_plan example_planned_env = plan_attempts example_plan_ports (re_config example_planned_env) (re_body example_planned_env)
      (re_requested example_planned_env) example_models"
    by (simp add: example_planned_env_def example_run_env_def)
  from failed_runs_always_answer[OF this run] run show ?thesis by blast
qed

section \<open>From the catalog to the call\<close>

lemma handled:
  assumes "handle sp pp ports config body_value request_id request_started duration w = Some (res, w')"
    and "hr_run res = Some (out, ls)"
  obtains body requested safe env w1 where
    "start sp config body_value request_id duration = Some (hr_start res)" "cs_refusal (hr_start res) = None"
    "\<not> cs_is_fusion (hr_start res)" "normalize_chat_completion_request body_value = Some (requested, safe)"
    "re_plan env = plan_attempts pp config body requested (cs_candidates (hr_start res))"
    "hr_plan res = Some (re_plan env)" "run_attempts env w = ((out, ls), w1)" "re_config env = config"
    "re_body env = body" "re_requested env = requested"
proof -
  let ?env = "\<lambda>body requested safe plan. \<lparr>re_ports = ports, re_config = config, re_body = body, re_requested = requested,
      re_safe_requested = safe, re_request_id = request_id, re_request_started = request_started, re_plan = plan\<rparr>"
  from assms obtain body requested safe started where parts:
    "dict_or_raise body_value = Some body" "normalize_chat_completion_request body_value = Some (requested, safe)"
    "start sp config body_value request_id duration = Some started"
    and rest: "(if cs_is_fusion started \<or> cs_refusal started \<noteq> None
     then Some (\<lparr>hr_start = started, hr_plan = None, hr_run = None\<rparr>, w)
     else (case run_attempts (?env body requested safe (plan_attempts pp config body requested (cs_candidates started))) w of
       (result, w') \<Rightarrow> Some (\<lparr>hr_start = started,
         hr_plan = Some (plan_attempts pp config body requested (cs_candidates started)), hr_run = Some result\<rparr>, w'))) = Some (res, w')"
    unfolding handle_def Let_def by (elim bind_SomeE case_prod_SomeE) simp
  show thesis
    by (rule that[where env = "?env body requested safe (plan_attempts pp config body requested (cs_candidates started))"
        and body = body and requested = requested and safe = safe])
      (use parts rest assms(2) in \<open>auto split: if_splits prod.splits\<close>)
qed

lemma start_candidates:
  assumes "start sp config body_value request_id duration = Some started" "cs_candidates started \<noteq> []"
    and "normalize_chat_completion_request body_value = Some (requested, safe)"
    and "sr_select_result sp = Some select"
  obtains selection where "select requested (cs_catalog started) config = Some selection"
    "cs_candidates started = map as_legacy_dict (sel_candidates selection)"
  using assms
  by (auto simp: start_def start_selection_def Let_def split: if_splits option.splits
      elim!: bind_SomeE case_prod_SomeE)


lemma normalize_u: "normalize_chat_completion_request example_request = Some (''u'', ''u'')"
  by code_simp


end
