(* ===== verification/SseText.thy ===== *)
theory SseText
  imports AttemptVerdict
begin

text \<open>
  How the relay reads a stream of server-sent events (the \<open>sse_\<close> helpers of \<open>router.py\<close>): the
  decoding of bytes, events and their lines, the JSON objects of their data, and the readings made
  of them, an error, an assistant answer, a finish reason, the usage. Bytes are characters below
  256. A decoded text keeps such code points and reads every other one, and every byte that is not
  valid UTF-8, as a question mark, which no reader below tells from another letter.
\<close>

section \<open>Bytes and text\<close>

abbreviation LF :: char where "LF \<equiv> CHR 0x0A"
abbreviation CR :: char where "CR \<equiv> CHR 0x0D"

definition is_continuation :: "char \<Rightarrow> bool" where
  "is_continuation b \<longleftrightarrow> 128 \<le> cpoint b \<and> cpoint b < 192"

text \<open>The first code point of a byte string and the number of bytes it takes, if they are valid UTF-8.\<close>

definition utf8_point :: "string \<Rightarrow> (char \<times> nat) option" where
  "utf8_point s =
     (case s of
        [] \<Rightarrow> None
      | b # r \<Rightarrow>
          (let p = cpoint b; more = (\<lambda>n. n \<le> length r \<and> list_all is_continuation (take n r));
               second = (case r of [] \<Rightarrow> 0 | c # _ \<Rightarrow> cpoint c)
           in if p < 128 then Some (b, 1)
              else if 194 \<le> p \<and> p < 224 \<and> more 1 then Some (char_of_point ((p - 192) * 64 + (second - 128)), 2)
              else if 224 \<le> p \<and> p < 240 \<and> more 2 \<and> (p = 224 \<longrightarrow> 160 \<le> second) \<and> (p = 237 \<longrightarrow> second < 160)
              then Some (CHR ''?'', 3)
              else if 240 \<le> p \<and> p < 245 \<and> more 3 \<and> (p = 240 \<longrightarrow> 144 \<le> second) \<and> (p = 244 \<longrightarrow> second < 144)
              then Some (CHR ''?'', 4)
              else None))"

text \<open>\<open>bytes.decode("utf-8", errors="replace")\<close> and the strict \<open>bytes.decode("utf-8")\<close>.\<close>

function decode_replace :: "string \<Rightarrow> string" where
  "decode_replace s =
     (case s of
        [] \<Rightarrow> []
      | _ # r \<Rightarrow>
          (case utf8_point s of
             None \<Rightarrow> CHR ''?'' # decode_replace r
           | Some (c, n) \<Rightarrow> c # decode_replace (drop (n - 1) r)))"
  by pat_completeness auto
termination by (relation "measure length") auto

declare decode_replace.simps [simp del]

function decode_strict :: "string \<Rightarrow> string option" where
  "decode_strict s =
     (case s of
        [] \<Rightarrow> Some []
      | _ # r \<Rightarrow>
          (case utf8_point s of
             None \<Rightarrow> None
           | Some (c, n) \<Rightarrow> map_option ((#) c) (decode_strict (drop (n - 1) r))))"
  by pat_completeness auto
termination by (relation "measure length") auto

declare decode_strict.simps [simp del]

text \<open>The whitespace \<open>bytes.strip\<close> removes, and both kinds of strip.\<close>

definition is_byte_space :: "char \<Rightarrow> bool" where
  "is_byte_space c \<longleftrightarrow> (9 \<le> cpoint c \<and> cpoint c \<le> 13) \<or> cpoint c = 32"

definition lstrip_by :: "(char \<Rightarrow> bool) \<Rightarrow> string \<Rightarrow> string" where
  "lstrip_by ws s = dropWhile ws s"

definition rstrip_by :: "(char \<Rightarrow> bool) \<Rightarrow> string \<Rightarrow> string" where
  "rstrip_by ws s = rev (dropWhile ws (rev s))"

definition strip_by :: "(char \<Rightarrow> bool) \<Rightarrow> string \<Rightarrow> string" where
  "strip_by ws s = rstrip_by ws (lstrip_by ws s)"

text \<open>\<open>s.replace("\r\n", "\n").replace("\r", "\n")\<close> in one pass.\<close>

fun normalize_newlines :: "string \<Rightarrow> string" where
  "normalize_newlines (c # d # r) =
     (if c = CR then LF # (if d = LF then normalize_newlines r else normalize_newlines (d # r))
      else c # normalize_newlines (d # r))"
| "normalize_newlines [c] = [if c = CR then LF else c]"
| "normalize_newlines [] = []"

text \<open>\<open>s.split("\n\n")\<close>, the first blank line and the last.\<close>

fun split_blank :: "string \<Rightarrow> string list" where
  "split_blank (c # d # r) =
     (if c = LF \<and> d = LF then [] # split_blank r
      else (case split_blank (d # r) of w # ws \<Rightarrow> (c # w) # ws | [] \<Rightarrow> [[c]]))"
| "split_blank s = [s]"

fun cut_blank :: "string \<Rightarrow> (string \<times> string) option" where
  "cut_blank (c # d # r) =
     (if c = LF \<and> d = LF then Some ([], r) else map_option (\<lambda>(a, b). (c # a, b)) (cut_blank (d # r)))"
| "cut_blank s = None"

definition rcut_blank :: "string \<Rightarrow> (string \<times> string) option" where
  "rcut_blank s = map_option (\<lambda>(a, b). (rev b, rev a)) (cut_blank (rev s))"

fun after_last :: "string \<Rightarrow> string \<Rightarrow> string option" where
  "after_last p [] = None"
| "after_last p (c # r) =
     (case after_last p r of
        Some t \<Rightarrow> Some t
      | None \<Rightarrow> if starts_with p (c # r) then Some (drop (length p) (c # r)) else None)"

section \<open>Events\<close>

text \<open>\<open>line.partition(":")\<close>: the field, whether there is a colon, the value.\<close>

definition partition_colon :: "string \<Rightarrow> string \<times> bool \<times> string" where
  "partition_colon line =
     (let field = takeWhile (\<lambda>c. c \<noteq> CHR '':'') line; rest = drop (length field) line
      in (field, rest \<noteq> [], drop 1 rest))"

text \<open>The lines of an event that are neither blank nor comments, as fields.\<close>

definition event_fields :: "(char \<Rightarrow> bool) \<Rightarrow> string \<Rightarrow> (string \<times> bool \<times> string) list" where
  "event_fields ws event =
     map partition_colon
       (filter (\<lambda>line. line \<noteq> [] \<and> \<not> starts_with '':'' line) (map (strip_by ws) (split_char LF event)))"

text \<open>The reading that ignores what it does not know: the data lines, joined.\<close>

definition lenient_data :: "string \<Rightarrow> string option" where
  "lenient_data event =
     (let values = List.map_filter (\<lambda>(field, delimiter, v). if field = ''data'' \<and> delimiter then Some (lstrip v) else None)
           (event_fields is_space event)
      in if values = [] then None else Some (strip (join [LF] values)))"

definition sse_data_objects :: "string \<Rightarrow> pydict list" where
  "sse_data_objects text =
     List.map_filter
       (\<lambda>event. case lenient_data event of
          None \<Rightarrow> None
        | Some payload \<Rightarrow>
            if payload = [] \<or> payload = ''[DONE]'' then None
            else (case json_loads payload of Some (PDict d) \<Rightarrow> Some d | _ \<Rightarrow> None))
       (split_blank (normalize_newlines text))"

text \<open>The strict reading: a field that is neither data, event, id nor retry makes the event unreadable. It
  gives the type of the event and its data lines.\<close>

definition strict_step ::
  "(char \<Rightarrow> bool) \<Rightarrow> string \<times> bool \<times> string \<Rightarrow> string \<times> string list \<Rightarrow> (string \<times> string list) option" where
  "strict_step ws line acc =
     (case line of (field, delimiter, v) \<Rightarrow> case acc of (event_type, values) \<Rightarrow>
        if field = ''event'' then Some (lower (strip_by ws v), values)
        else if field \<in> {''id'', ''retry''} then Some acc
        else if field \<noteq> ''data'' \<or> \<not> delimiter then None
        else Some (event_type, values @ [lstrip_by ws v]))"

fun strict_fields ::
  "(char \<Rightarrow> bool) \<Rightarrow> (string \<times> bool \<times> string) list \<Rightarrow> string \<times> string list \<Rightarrow> (string \<times> string list) option" where
  "strict_fields ws [] acc = Some acc"
| "strict_fields ws (line # lines) acc = Option.bind (strict_step ws line acc) (strict_fields ws lines)"

definition strict_event :: "(char \<Rightarrow> bool) \<Rightarrow> string \<Rightarrow> (string \<times> string list) option" where
  "strict_event ws event = strict_fields ws (event_fields ws event) ([], [])"

section \<open>Readings of an event\<close>

definition sse_event_content_chars :: "pydict \<Rightarrow> nat" where
  "sse_event_content_chars parsed =
     sum_list (map (\<lambda>choice. assistant_output_chars (dget (as_dict choice) ''delta'')) (as_list (dget parsed ''choices'')))"

text \<open>The characters of complete events; \<open>None\<close> when one of them cannot be measured.\<close>

definition event_chars :: "string \<Rightarrow> nat option" where
  "event_chars event =
     (case strict_event is_byte_space event of
        None \<Rightarrow> None
      | Some (_, values) \<Rightarrow>
          (let payload = strip_by is_byte_space (join [LF] values)
           in if values = [] \<or> payload = [] \<or> payload = ''[DONE]'' then Some 0
              else (case Option.bind (decode_strict payload) json_loads of
                      Some (PDict parsed) \<Rightarrow> Some (sse_event_content_chars parsed)
                    | _ \<Rightarrow> None)))"

definition complete_sse_events_content_chars :: "string \<Rightarrow> nat option" where
  "complete_sse_events_content_chars events = map_option sum_list (those (map event_chars (split_blank events)))"

definition ERROR_EVENT_TYPES :: "string list" where "ERROR_EVENT_TYPES = [''error'', ''stream_error'']"

definition payload_type :: "pydict \<Rightarrow> string" where
  "payload_type payload = lower (strip (text_of payload ''type''))"

definition structured_stream_error_payload :: "pydict \<Rightarrow> pydict option" where
  "structured_stream_error_payload payload =
     (case dget payload ''error'' of
        PDict error \<Rightarrow> Some error
      | PStr error \<Rightarrow> Some [(''message'', PStr error)]
      | _ \<Rightarrow> if payload_type payload \<in> set ERROR_EVENT_TYPES then Some payload else None)"

text \<open>The type the first \<open>event\<close> line of a text gives.\<close>

definition first_event_type :: "string \<Rightarrow> string" where
  "first_event_type text =
     (case filter (\<lambda>(field, delimiter, _). delimiter \<and> lower (strip field) = ''event'')
             (map partition_colon (split_char LF (normalize_newlines text))) of
        (_, _, v) # _ \<Rightarrow> lower (strip v) | [] \<Rightarrow> [])"

definition text_event_error :: "string \<Rightarrow> pydict option" where
  "text_event_error text =
     (let event_type = first_event_type text in
      if event_type \<in> set ERROR_EVENT_TYPES
      then Some [(''type'', PStr event_type), (''message'', PStr (''upstream SSE '' @ event_type @ '' event''))]
      else (case List.map_filter structured_stream_error_payload (sse_data_objects text) of
              error # _ \<Rightarrow> Some error | [] \<Rightarrow> None))"

definition sse_event_error_payload :: "string \<Rightarrow> pydict option" where
  "sse_event_error_payload event = text_event_error (decode_replace event)"

definition upstream_stream_error_payload :: "string \<Rightarrow> pydict option" where
  "upstream_stream_error_payload chunk =
     (let text = strip (decode_replace chunk) in
      if text = [] then None
      else if starts_with ''{'' text
      then (case json_loads text of Some (PDict bare) \<Rightarrow> structured_stream_error_payload bare | _ \<Rightarrow> None)
      else (case List.map_filter text_event_error (split_blank (normalize_newlines text)) of
              error # _ \<Rightarrow> Some error | [] \<Rightarrow> None))"

definition nonempty_text :: "pv \<Rightarrow> bool" where
  "nonempty_text v \<longleftrightarrow> (case v of PStr s \<Rightarrow> s \<noteq> [] | PList xs \<Rightarrow> xs \<noteq> [] | _ \<Rightarrow> False)"

definition holder_carries_output :: "bool \<Rightarrow> pydict \<Rightarrow> bool" where
  "holder_carries_output include_reasoning holder \<longleftrightarrow>
     nonempty_text (dget holder ''content'')
     \<or> (case dget holder ''refusal'' of PStr s \<Rightarrow> s \<noteq> [] | _ \<Rightarrow> False)
     \<or> truthy (dget holder ''tool_calls'') \<or> truthy (dget holder ''function_call'') \<or> truthy (dget holder ''audio'')
     \<or> include_reasoning \<and> (nonempty_text (dget holder ''reasoning'') \<or> nonempty_text (dget holder ''reasoning_content''))"

definition sse_payload_carries_assistant_output :: "pydict \<Rightarrow> bool \<Rightarrow> bool" where
  "sse_payload_carries_assistant_output payload include_reasoning \<longleftrightarrow>
     list_ex (\<lambda>choice. list_ex (\<lambda>key. holder_carries_output include_reasoning (section_of (as_dict choice) key))
                        [''delta'', ''message'']) (as_list (dget payload ''choices''))"

definition quoted :: "string \<Rightarrow> string" where
  "quoted field = [CHR 0x22] @ field @ [CHR 0x22]"

definition DELIVERABLE_FIELD_MARKERS :: "string list" where
  "DELIVERABLE_FIELD_MARKERS = map quoted [''content'', ''tool_calls'', ''refusal'', ''function_call'', ''audio'']"

definition sse_chunk_carries_deliverable :: "string \<Rightarrow> bool" where
  "sse_chunk_carries_deliverable chunk \<longleftrightarrow>
     list_ex (\<lambda>marker. contains marker chunk) DELIVERABLE_FIELD_MARKERS
     \<and> list_ex (\<lambda>parsed. sse_payload_carries_assistant_output parsed False) (sse_data_objects (decode_replace chunk))"

definition sse_chunk_carries_substantive_delta :: "string \<Rightarrow> bool" where
  "sse_chunk_carries_substantive_delta chunk \<longleftrightarrow>
     list_ex (\<lambda>marker. contains marker chunk) (DELIVERABLE_FIELD_MARKERS @ map quoted [''reasoning'', ''reasoning_content''])
     \<and> list_ex (\<lambda>parsed. sse_payload_carries_assistant_output parsed True) (sse_data_objects (decode_replace chunk))"

section \<open>What may be shown\<close>

datatype precommit_decision = Commit | Retry pydict | Wait

definition compression_stream_precommit_event_decision :: "string \<Rightarrow> precommit_decision" where
  "compression_stream_precommit_event_decision event =
     (case sse_event_error_payload event of
        Some error \<Rightarrow> Retry error
      | None \<Rightarrow>
          if list_ex (\<lambda>parsed. sse_payload_carries_assistant_output parsed True)
               (sse_data_objects (decode_replace (event @ [LF, LF])))
          then Commit else Wait)"

definition stream_precommit_event_decision :: "string \<Rightarrow> string \<Rightarrow> precommit_decision" where
  "stream_precommit_event_decision event stream_commit_policy =
     (case sse_event_error_payload event of
        Some error \<Rightarrow> Retry error
      | None \<Rightarrow>
          if stream_commit_policy = ''first_complete_event'' then Commit
          else compression_stream_precommit_event_decision event)"

section \<open>Pieces of a stream\<close>

text \<open>A carriage return at the end may be the first half of a line ending.\<close>

definition split_trailing_cr :: "string \<Rightarrow> string \<times> string" where
  "split_trailing_cr s = (if s \<noteq> [] \<and> last s = CR then (butlast s, [CR]) else (s, []))"

definition split_complete_sse_events :: "string \<Rightarrow> string \<Rightarrow> string \<times> string" where
  "split_complete_sse_events carry chunk =
     (case split_trailing_cr (carry @ chunk) of (buffered, trailing) \<Rightarrow>
        (let normalized = normalize_newlines buffered @ trailing
         in case rcut_blank normalized of Some parts \<Rightarrow> parts | None \<Rightarrow> ([], normalized)))"

definition normalize_incremental_sse_fragment :: "string \<Rightarrow> bool \<Rightarrow> string \<times> bool" where
  "normalize_incremental_sse_fragment chunk pending_cr =
     (case split_trailing_cr ((if pending_cr then [CR] else []) @ chunk) of (body, trailing) \<Rightarrow>
        (normalize_newlines body, trailing \<noteq> []))"

text \<open>Whether an event lets a missing \<open>[DONE]\<close> be supplied, and whether it announces a failure.\<close>

definition sse_event_normalization_verdict :: "string \<Rightarrow> bool \<times> bool" where
  "sse_event_normalization_verdict event =
     (case strict_event is_byte_space event of
        None \<Rightarrow> (False, False)
      | Some (event_type, values) \<Rightarrow>
          (let payload = strip_by is_byte_space (join [LF] values)
           in if event_type \<in> set ERROR_EVENT_TYPES then (False, True)
              else if values = [] then (True, False)
              else if payload = ''[DONE]'' \<or> payload = [] then (False, False)
              else (case Option.bind (decode_strict payload) json_loads of
                      Some (PDict parsed) \<Rightarrow>
                        (if structured_stream_error_payload parsed \<noteq> None then (False, True)
                         else (case dget parsed ''choices'' of
                                 PNone \<Rightarrow> (True, False)
                               | PList choices \<Rightarrow> (list_all is_dict choices, False)
                               | _ \<Rightarrow> (False, False)))
                    | _ \<Rightarrow> (False, False))))"

definition consume_sse_normalization_events :: "string \<Rightarrow> bool \<Rightarrow> bool \<times> string \<times> bool" where
  "consume_sse_normalization_events buffer final =
     (case (if final then (buffer, []) else split_trailing_cr buffer) of (body, trailing) \<Rightarrow>
        (let pieces = split_blank (normalize_newlines body @ trailing);
             verdicts = map sse_event_normalization_verdict (butlast pieces)
         in (list_all fst verdicts, last pieces, list_ex snd verdicts)))"

section \<open>The tail of a stream\<close>

definition SSE_TERMINAL_TAIL_BYTES :: nat where "SSE_TERMINAL_TAIL_BYTES = 4096"

definition choice_finish_reasons :: "pydict \<Rightarrow> string list" where
  "choice_finish_reasons parsed =
     List.map_filter (\<lambda>choice. case dget (as_dict choice) ''finish_reason'' of PStr s \<Rightarrow> Some s | _ \<Rightarrow> None)
       (as_list (dget parsed ''choices''))"

definition finish_reason_from_sse_tail :: "string \<Rightarrow> string" where
  "finish_reason_from_sse_tail tail =
     (if \<not> contains (quoted ''finish_reason'') tail then []
      else (case rev (concat (map choice_finish_reasons (sse_data_objects (decode_replace tail)))) of
              reason # _ \<Rightarrow> reason | [] \<Rightarrow> []))"

definition usage_from_sse_tail :: "string \<Rightarrow> pydict option" where
  "usage_from_sse_tail tail =
     (if \<not> contains (quoted ''usage'') tail then None
      else (case rev (List.map_filter (\<lambda>parsed. case dget parsed ''usage'' of PDict d \<Rightarrow> Some d | _ \<Rightarrow> None)
                       (sse_data_objects (decode_replace tail))) of
              usage # _ \<Rightarrow> Some usage | [] \<Rightarrow> None))"

definition sse_stream_ended_with_done :: "string \<Rightarrow> bool" where
  "sse_stream_ended_with_done tail \<longleftrightarrow>
     (case after_last ''data:'' (rstrip_by (\<lambda>c. c \<in> {CR, LF, CHR '' '', CHR 0x09}) (decode_replace tail)) of
        None \<Rightarrow> False | Some rest \<Rightarrow> strip rest = ''[DONE]'')"

text \<open>The finish reasons of a stream that ended without \<open>[DONE]\<close>: the choices seen and the last reason of
  each, or nothing when an event is not one of a complete answer.\<close>

definition FAILED_FINISH_REASONS :: "string list" where
  "FAILED_FINISH_REASONS =
     [''abort'', ''aborted'', ''canceled'', ''cancelled'', ''error'', ''failed'', ''failure'']"

type_synonym finish_state = "int list \<times> (int \<times> string) list"

definition choice_index :: "int \<Rightarrow> nat \<Rightarrow> nat \<Rightarrow> pydict \<Rightarrow> int" where
  "choice_index expected n position choice =
     (case dget choice ''index'' of
        PInt i \<Rightarrow> i
      | _ \<Rightarrow> if expected = 1 \<and> n = 1 then 0 else int position)"

definition finish_choice :: "int \<Rightarrow> nat \<Rightarrow> nat \<times> pv \<Rightarrow> finish_state \<Rightarrow> finish_state option" where
  "finish_choice expected n positioned st =
     (case positioned of (position, PDict choice) \<Rightarrow>
        (let i = choice_index expected n position choice; seen = i # fst st in
         if i < 0 \<or> expected \<le> i then None
         else (case dget choice ''finish_reason'' of
                 PStr s \<Rightarrow>
                   (if strip s = [] then Some (seen, AList.delete i (snd st))
                    else if lower (strip s) \<in> set FAILED_FINISH_REASONS then None
                    else Some (seen, AList.update i (strip s) (snd st)))
               | _ \<Rightarrow> Some (seen, AList.delete i (snd st))))
      | _ \<Rightarrow> None)"

fun finish_choices :: "int \<Rightarrow> nat \<Rightarrow> (nat \<times> pv) list \<Rightarrow> finish_state \<Rightarrow> finish_state option" where
  "finish_choices expected n [] st = Some st"
| "finish_choices expected n (c # cs) st = Option.bind (finish_choice expected n c st) (finish_choices expected n cs)"

definition finish_event :: "int \<Rightarrow> string \<Rightarrow> finish_state \<Rightarrow> finish_state option" where
  "finish_event expected event st =
     (case strict_event is_space event of
        None \<Rightarrow> None
      | Some (event_type, values) \<Rightarrow>
          (let payload = strip (join [LF] values)
           in if event_type = ''error'' then None
              else if values = [] then Some st
              else if payload = [] \<or> payload = ''[DONE]'' then None
              else (case json_loads payload of
                      Some (PDict parsed) \<Rightarrow>
                        (if structured_stream_error_payload parsed \<noteq> None then None
                         else (case dget parsed ''choices'' of
                                 PNone \<Rightarrow> Some st
                               | PList choices \<Rightarrow> finish_choices expected (length choices) (enumerate 0 choices) st
                               | _ \<Rightarrow> None))
                    | _ \<Rightarrow> None)))"

fun finish_events :: "int \<Rightarrow> string list \<Rightarrow> finish_state \<Rightarrow> finish_state option" where
  "finish_events expected [] st = Some st"
| "finish_events expected (event # events) st =
     (if event = [] then finish_events expected events st
      else Option.bind (finish_event expected event st) (finish_events expected events))"

text \<open>The retained tail may start inside an event, which is then dropped.\<close>

definition whole_events :: "string \<Rightarrow> bool \<Rightarrow> string option" where
  "whole_events tail tail_truncated =
     (let text = normalize_newlines (decode_replace tail);
          text' = (if tail_truncated \<and> starts_with [LF] text then dropWhile (\<lambda>c. c = LF) text else text)
      in if \<not> ends_with [LF, LF] text then None
         else if tail_truncated \<and> \<not> list_ex (\<lambda>p. starts_with p text') [''data:'', '':'', ''event:'', ''id:'', ''retry:'']
         then map_option snd (cut_blank text')
         else Some text')"

definition finished_reason :: "int \<Rightarrow> finish_state \<Rightarrow> string" where
  "finished_reason expected st =
     (let finished = sort_key fst (snd st) in
      if int (card (set (fst st))) \<noteq> expected \<or> set (map fst finished) \<noteq> set (fst st) then []
      else (case filter (\<lambda>(_, reason). lower (strip reason) \<in> set TRUNCATION_FINISH_REASONS) finished @ finished of
              (_, reason) # _ \<Rightarrow> reason | [] \<Rightarrow> []))"

definition finish_reason_from_clean_sse_eof :: "string \<Rightarrow> bool \<Rightarrow> int \<Rightarrow> string" where
  "finish_reason_from_clean_sse_eof tail tail_truncated expected_choice_count =
     (let expected = max 1 expected_choice_count in
      if \<not> contains (quoted ''finish_reason'') tail then []
      else (case Option.bind (whole_events tail tail_truncated) (\<lambda>text. finish_events expected (split_blank text) ([], [])) of
              Some st \<Rightarrow> finished_reason expected st | None \<Rightarrow> []))"

end
