(* ===== verification/StreamRelay.thy ===== *)
theory StreamRelay
  imports SseText RouteReport
begin

text \<open>
  The relay of a streamed answer (\<open>stream_chunks_to_writer\<close> of \<open>router.py\<close>): it reads chunks from the
  upstream, holds them until they may be shown, writes them to the client and reports what became
  of the attempt. The upstream is the list of what its iterator gives, chunks of bytes or the
  exception that ends it. The client is a function of the calls made so far, the last of them
  included, that says whether this call raises; the log of the calls is part of the state. The
  observers of the code that swallow their own exceptions cannot raise here.
\<close>

section \<open>The client and the state\<close>

datatype client_call = WriteChunk string | FlushCall | WriteTerminal string "string option"

record relay_ports =
  rp_answer :: "client_call list \<Rightarrow> raised option"
  rp_now :: "client_call list \<Rightarrow> real"
  rp_terminal_writer :: bool

record relay_options =
  ro_expect_done :: bool
  ro_choice_count :: int
  ro_policy :: string
  ro_started :: "real option"
  ro_max_chars :: "int option"

record relay_state =
  rl_calls :: "client_call list"
  rl_committed :: bool
  rl_writing :: bool
  rl_chunks :: nat
  rl_bytes :: nat
  rl_tail :: string
  rl_norm_carry :: string
  rl_norm_valid :: bool
  rl_error_seen :: bool
  rl_deliverable :: bool
  rl_deliverable_carry :: string
  rl_first_delta :: "real option"
  rl_chars :: int
  rl_char_carry :: string
  rl_runaway :: "string option"
  rl_pre_buffer :: string
  rl_pre_scan :: string
  rl_pre_cr :: bool

definition relay_start :: relay_state where
  "relay_start =
     \<lparr>rl_calls = [], rl_committed = False, rl_writing = False, rl_chunks = 0, rl_bytes = 0, rl_tail = [],
      rl_norm_carry = [], rl_norm_valid = True, rl_error_seen = False, rl_deliverable = False,
      rl_deliverable_carry = [], rl_first_delta = None, rl_chars = 0, rl_char_carry = [], rl_runaway = None,
      rl_pre_buffer = [], rl_pre_scan = [], rl_pre_cr = False\<rparr>"

definition STREAM_COMMIT_POLICIES :: "string list" where
  "STREAM_COMMIT_POLICIES = [''immediate'', ''first_complete_event'', ''first_substantive_delta'']"

definition MAX_UPSTREAM_RESPONSE_BYTES :: nat where "MAX_UPSTREAM_RESPONSE_BYTES = 268435456"
definition STREAM_PRECOMMIT_MAX_BYTES :: nat where "STREAM_PRECOMMIT_MAX_BYTES = 65536"

definition completion_budget_transport_limit :: "int \<Rightarrow> int" where
  "completion_budget_transport_limit max_completion_chars =
     min (int MAX_UPSTREAM_RESPONSE_BYTES) (max (64 * 1024) (max_completion_chars * 12 + 64 * 1024))"

definition call_client :: "relay_ports \<Rightarrow> client_call \<Rightarrow> relay_state \<Rightarrow> raised option \<times> relay_state" where
  "call_client p c st = (let calls = rl_calls st @ [c] in (rp_answer p calls, st\<lparr>rl_calls := calls\<rparr>))"

section \<open>Observers\<close>

definition mark_first_delta :: "relay_ports \<Rightarrow> relay_options \<Rightarrow> relay_state \<Rightarrow> relay_state" where
  "mark_first_delta p opts st =
     (case (rl_first_delta st, ro_started opts) of
        (None, Some started) \<Rightarrow> st\<lparr>rl_first_delta := Some (rp_now p (rl_calls st) - started)\<rparr>
      | _ \<Rightarrow> st)"

definition observe_deliverable :: "relay_ports \<Rightarrow> relay_options \<Rightarrow> string \<Rightarrow> relay_state \<Rightarrow> relay_state" where
  "observe_deliverable p opts chunk st =
     (if \<not> ro_expect_done opts \<or> rl_deliverable st then st
      else (case split_complete_sse_events (rl_deliverable_carry st) chunk of (scan, carry) \<Rightarrow>
        (let st1 = st\<lparr>rl_deliverable_carry := carry\<rparr> in
         if scan \<noteq> [] then
           (let st2 = (if sse_chunk_carries_substantive_delta scan then mark_first_delta p opts st1 else st1)
            in if sse_chunk_carries_deliverable scan then st2\<lparr>rl_deliverable := True\<rparr> else st2)
         else if SSE_TERMINAL_TAIL_BYTES < length carry
         then mark_first_delta p opts (st1\<lparr>rl_deliverable := True\<rparr>)
         else st1)))"

definition keep_tail :: "string \<Rightarrow> string" where
  "keep_tail s = drop (length s - SSE_TERMINAL_TAIL_BYTES) s"

definition observe_normalization :: "relay_options \<Rightarrow> string \<Rightarrow> relay_state \<Rightarrow> relay_state" where
  "observe_normalization opts chunk st =
     (if \<not> ro_expect_done opts \<or> \<not> rl_norm_valid st then st
      else (case consume_sse_normalization_events (rl_norm_carry st @ chunk) False of (valid, carry, carried_error) \<Rightarrow>
        (let valid' = (valid \<and> length carry \<le> SSE_TERMINAL_TAIL_BYTES)
         in st\<lparr>rl_norm_valid := valid', rl_error_seen := rl_error_seen st \<or> carried_error,
               rl_norm_carry := (if valid' then carry else [])\<rparr>)))"

definition unmeasured_detail :: "int \<Rightarrow> string" where
  "unmeasured_detail limit =
     ''upstream emitted an SSE event that could not be measured safely within the profile's '' @ show_int limit @ ''-char budget''"

definition unfinished_detail :: "int \<Rightarrow> string" where
  "unfinished_detail limit =
     ''upstream streamed one incomplete SSE event past the transport guard for the profile's '' @ show_int limit @ ''-char budget''"

definition over_budget_detail :: "int \<Rightarrow> int \<Rightarrow> string" where
  "over_budget_detail chars limit =
     ''upstream streamed '' @ show_int chars @ '' chars of output past the profile's '' @ show_int limit @ ''-char budget''"

definition count_event_chars :: "int \<Rightarrow> string \<Rightarrow> relay_state \<Rightarrow> relay_state" where
  "count_event_chars limit events st =
     (if events = [] then st
      else (case complete_sse_events_content_chars events of
              None \<Rightarrow> st\<lparr>rl_chars := max (rl_chars st) (limit + 1), rl_runaway := Some (unmeasured_detail limit)\<rparr>
            | Some n \<Rightarrow> st\<lparr>rl_chars := rl_chars st + int n\<rparr>))"

definition observe_budget :: "relay_options \<Rightarrow> string \<Rightarrow> relay_state \<Rightarrow> relay_state" where
  "observe_budget opts chunk st =
     (case (ro_expect_done opts, ro_max_chars opts) of
        (True, Some limit) \<Rightarrow>
          (case split_complete_sse_events (rl_char_carry st) chunk of (events, carry) \<Rightarrow>
            (let st1 = count_event_chars limit events (st\<lparr>rl_char_carry := carry\<rparr>);
                 st2 = (if completion_budget_transport_limit limit < int (length carry)
                        then st1\<lparr>rl_chars := max (rl_chars st1) (limit + 1), rl_runaway := Some (unfinished_detail limit)\<rparr>
                        else st1)
             in if rl_runaway st2 = None \<and> limit < rl_chars st2
                then st2\<lparr>rl_runaway := Some (over_budget_detail (rl_chars st2) limit)\<rparr> else st2))
      | _ \<Rightarrow> st)"

definition observe_chunk :: "relay_ports \<Rightarrow> relay_options \<Rightarrow> string \<Rightarrow> relay_state \<Rightarrow> relay_state" where
  "observe_chunk p opts chunk st =
     (let st1 = st\<lparr>rl_chunks := Suc (rl_chunks st), rl_bytes := rl_bytes st + length chunk\<rparr>;
          st2 = observe_deliverable p opts chunk st1;
          st3 = st2\<lparr>rl_tail := keep_tail (rl_tail st2 @ chunk)\<rparr>
      in observe_budget opts chunk (observe_normalization opts chunk st3))"

section \<open>Writing and holding back\<close>

definition relay_chunk :: "relay_ports \<Rightarrow> relay_options \<Rightarrow> string \<Rightarrow> relay_state \<Rightarrow> raised option \<times> relay_state" where
  "relay_chunk p opts chunk st =
     (case call_client p (WriteChunk chunk) (st\<lparr>rl_committed := True, rl_writing := True\<rparr>) of
        (Some exc, st1) \<Rightarrow> (Some exc, st1)
      | (None, st1) \<Rightarrow>
          (case call_client p FlushCall (observe_chunk p opts chunk st1) of
             (Some exc, st2) \<Rightarrow> (Some exc, st2)
           | (None, st2) \<Rightarrow> (None, st2\<lparr>rl_writing := False\<rparr>)))"

fun relay_chunks :: "relay_ports \<Rightarrow> relay_options \<Rightarrow> string list \<Rightarrow> relay_state \<Rightarrow> raised option \<times> relay_state" where
  "relay_chunks p opts [] st = (None, st)"
| "relay_chunks p opts (chunk # chunks) st =
     (case relay_chunk p opts chunk st of
        (Some exc, st1) \<Rightarrow> (Some exc, st1)
      | (None, st1) \<Rightarrow> relay_chunks p opts chunks st1)"

text \<open>What becomes of a chunk: refused for the error it carries, held, or released.\<close>

datatype release = Refused pydict | Held | Released "string list"

lemma cut_blank_shorter: "cut_blank s = Some (a, b) \<Longrightarrow> length a + 2 + length b = length s"
  by (induction s arbitrary: a rule: cut_blank.induct) (auto split: if_splits)

function scan_events :: "string \<Rightarrow> string \<Rightarrow> precommit_decision \<times> string" where
  "scan_events policy s =
     (case cut_blank s of
        None \<Rightarrow> (Wait, s)
      | Some (event, rest) \<Rightarrow>
          (case stream_precommit_event_decision event policy of
             Wait \<Rightarrow> scan_events policy rest
           | decision \<Rightarrow> (decision, rest)))"
  by pat_completeness auto
termination by (relation "measure (length \<circ> snd)") (auto dest: cut_blank_shorter)

declare scan_events.simps [simp del]

definition room_left :: "relay_state \<Rightarrow> nat" where
  "room_left st = STREAM_PRECOMMIT_MAX_BYTES - length (rl_pre_buffer st)"

text \<open>A chunk is added to what is held, as far as the bound allows, and the events it completes are read.\<close>

definition bare_error :: "string \<Rightarrow> relay_state \<Rightarrow> pydict option" where
  "bare_error chunk st =
     (if rl_pre_buffer st = [] \<and> starts_with ''{'' (lstrip_by is_byte_space (take 64 chunk))
      then upstream_stream_error_payload chunk else None)"

definition precommit_scan :: "relay_options \<Rightarrow> string \<Rightarrow> relay_state \<Rightarrow> precommit_decision \<times> relay_state" where
  "precommit_scan opts chunk st =
     (case normalize_incremental_sse_fragment (take (room_left st) chunk) (rl_pre_cr st) of (normalized, pending_cr) \<Rightarrow>
        (case (case bare_error chunk st of
                 Some error \<Rightarrow> (Retry error, rl_pre_scan st @ normalized)
               | None \<Rightarrow> scan_events (ro_policy opts) (rl_pre_scan st @ normalized)) of
           (decision, scan) \<Rightarrow>
             (decision,
              st\<lparr>rl_pre_buffer := (if length chunk \<le> room_left st then rl_pre_buffer st @ chunk else rl_pre_buffer st),
                 rl_pre_scan := scan, rl_pre_cr := pending_cr\<rparr>)))"

definition precommit :: "relay_options \<Rightarrow> string \<Rightarrow> relay_state \<Rightarrow> release \<times> relay_state" where
  "precommit opts chunk st =
     (case precommit_scan opts chunk st of (decision, st1) \<Rightarrow>
        (let fits = (length chunk \<le> room_left st); held = rl_pre_buffer st1
         in case decision of
              Retry error \<Rightarrow> (Refused error, st1)
            | _ \<Rightarrow>
                (if decision = Wait \<and> fits \<and> length held < STREAM_PRECOMMIT_MAX_BYTES then (Held, st1)
                 else (Released (if fits then [held] else (if held = [] then [] else [held]) @ [chunk]),
                       st1\<lparr>rl_pre_buffer := [], rl_pre_scan := []\<rparr>))))"

definition release_of :: "relay_options \<Rightarrow> string \<Rightarrow> relay_state \<Rightarrow> release \<times> relay_state" where
  "release_of opts chunk st =
     (if rl_committed st then (Released [chunk], st)
      else if ro_policy opts \<noteq> ''immediate'' \<and> ro_expect_done opts then precommit opts chunk st
      else (case upstream_stream_error_payload chunk of
              Some error \<Rightarrow> (Refused error, st)
            | None \<Rightarrow> (Released [chunk], st)))"

section \<open>Results\<close>

definition first_delta :: "relay_state \<Rightarrow> pv" where
  "first_delta st = (case rl_first_delta st of None \<Rightarrow> PNone | Some x \<Rightarrow> rounded4 x)"

definition counted_completion_chars :: "relay_options \<Rightarrow> relay_state \<Rightarrow> pv" where
  "counted_completion_chars opts st = (if ro_max_chars opts = None then PNone else PInt (rl_chars st))"

definition stream_fields :: "string \<Rightarrow> string \<Rightarrow> bool \<Rightarrow> nat \<Rightarrow> nat \<Rightarrow> pydict" where
  "stream_fields status reason started chunks bytes =
     [(''status'', PStr status), (''reason'', PStr reason), (''stream_started'', PBool started),
      (''chunk_count'', pint chunks), (''bytes_sent'', pint bytes)]"

definition error_fields :: "string \<Rightarrow> pv \<Rightarrow> pydict" where
  "error_fields error_type message = [(''error_type'', PStr error_type), (''message'', message)]"

text \<open>The fields of a failure after the response was committed.\<close>

definition committed_fields :: "relay_options \<Rightarrow> relay_state \<Rightarrow> pydict" where
  "committed_fields opts st =
     [(''completion_chars'', counted_completion_chars opts st), (''first_delta_seconds'', first_delta st)]"

definition upstream_error_result :: "pydict \<Rightarrow> pydict" where
  "upstream_error_result error =
     stream_fields ''error'' ''pre_stream_failure'' False 0 0
     @ error_fields (py_str (por (por (dget error ''type'') (dget error ''code'')) (PStr ''upstream_error'')))
         (opt_str (safe_detail (PStr (py_str (por (dget error ''message'') (PDict error))))))"

definition exception_chain_contains_timeout :: "raised \<Rightarrow> bool" where
  "exception_chain_contains_timeout exc \<longleftrightarrow>
     list_ex (\<lambda>a. let names = ex_mro (ra_heap exc ! a) in
                list_ex (\<lambda>name. name \<in> set names) [''TimeoutError'', ''Timeout'', ''RequestDeadlineExceeded'']
                \<or> take 1 names = [''ReadTimeoutError''])
       (walk_exception_chain (ra_heap exc) (ra_addr exc))"

definition timeout_fields :: "bool \<Rightarrow> pydict" where
  "timeout_fields timed_out = (if timed_out then [(''timeout_phase'', PStr ''response_body'')] else [])"

definition exception_detail :: "raised \<Rightarrow> pv" where
  "exception_detail exc = opt_str (safe_detail (PStr (ra_text exc)))"

text \<open>\<open>json.dumps\<close> with its default \<open>ensure_ascii\<close>: a character above 127 only occurs within a text.\<close>

definition ascii_escaped :: "string \<Rightarrow> string" where
  "ascii_escaped s =
     concat (map (\<lambda>c. if cpoint c < 128 then [c]
                      else [CHR 0x5C] @ ''u00'' @ [''0123456789abcdef'' ! nat (cpoint c div 16), ''0123456789abcdef'' ! nat (cpoint c mod 16)]) s)"

definition sse_error_event :: "string \<Rightarrow> pv \<Rightarrow> string" where
  "sse_error_event code detail =
     ''data: '' @ ascii_escaped (json_dumps (PDict [(''error'',
        PDict [(''message'', por detail (PStr code)), (''type'', PStr ''stream_error''), (''code'', PStr code)])])) @ [LF, LF]"

definition event_boundary :: "string \<Rightarrow> string" where
  "event_boundary tail = (if ends_with [LF, LF] tail then [] else if ends_with [LF] tail then [LF] else [LF, LF])"

definition terminal_call :: "relay_ports \<Rightarrow> string \<Rightarrow> pv \<Rightarrow> relay_state \<Rightarrow> client_call" where
  "terminal_call p reason detail st =
     (if rp_terminal_writer p
      then WriteTerminal reason (case detail of PStr s \<Rightarrow> Some s | _ \<Rightarrow> None)
      else WriteChunk (event_boundary (rl_tail st) @ sse_error_event reason detail))"

definition emit_terminal_error :: "relay_ports \<Rightarrow> string \<Rightarrow> pv \<Rightarrow> relay_state \<Rightarrow> relay_state" where
  "emit_terminal_error p reason detail st =
     (case call_client p (terminal_call p reason detail st) st of
        (Some _, st1) \<Rightarrow> st1
      | (None, st1) \<Rightarrow> snd (call_client p FlushCall st1))"

section \<open>The relay\<close>

datatype relay_end = Answered pydict | Broken raised | Finished

definition too_large :: raised where
  "too_large = \<lparr>ra_heap = [\<lparr>ex_errno = NoErrno, ex_mro = [''UpstreamResponseTooLarge'', ''Exception''],
       ex_cause = None, ex_context = None, ex_args = []\<rparr>],
     ra_addr = 0, ra_text = ''upstream streamed past the '' @ show_int (int MAX_UPSTREAM_RESPONSE_BYTES) @ ''-byte limit'',
     ra_attrs = [], ra_retry_after = 0\<rparr>"

definition relay_item :: "relay_ports \<Rightarrow> relay_options \<Rightarrow> string \<Rightarrow> relay_state \<Rightarrow> relay_end option \<times> relay_state" where
  "relay_item p opts chunk st =
     (if MAX_UPSTREAM_RESPONSE_BYTES < rl_bytes st + length (rl_pre_buffer st) + length chunk then (Some (Broken too_large), st)
      else (case release_of opts chunk st of
              (Refused error, st1) \<Rightarrow> (Some (Answered (upstream_error_result error)), st1)
            | (Held, st1) \<Rightarrow> (None, st1)
            | (Released chunks, st1) \<Rightarrow>
                (case relay_chunks p opts chunks st1 of
                   (Some exc, st2) \<Rightarrow> (Some (Broken exc), st2)
                 | (None, st2) \<Rightarrow> (if rl_runaway st2 \<noteq> None then Some Finished else None, st2))))"

fun relay_items :: "relay_ports \<Rightarrow> relay_options \<Rightarrow> (raised + string) list \<Rightarrow> relay_state \<Rightarrow> relay_end \<times> relay_state" where
  "relay_items p opts [] st = (Finished, st)"
| "relay_items p opts (Inl exc # items) st = (Broken exc, st)"
| "relay_items p opts (Inr chunk # items) st =
     (if chunk = [] then relay_items p opts items st
      else (case relay_item p opts chunk st of
              (Some ended, st1) \<Rightarrow> (ended, st1)
            | (None, st1) \<Rightarrow> relay_items p opts items st1))"

definition broken_result :: "relay_ports \<Rightarrow> relay_options \<Rightarrow> raised \<Rightarrow> relay_state \<Rightarrow> pydict \<times> relay_state" where
  "broken_result p opts exc st =
     (let reason = (if rl_writing st then ''client_disconnected''
                    else if rl_committed st then ''mid_stream_failure'' else ''pre_stream_failure'');
          detail = exception_detail exc;
          st1 = (if rl_committed st then emit_terminal_error p reason detail st else st)
      in (stream_fields ''fail'' reason (rl_committed st) (rl_chunks st) (rl_bytes st)
          @ error_fields (exception_type exc) detail
          @ (if rl_committed st
             then [(''first_delta_seconds'', first_delta st), (''completion_chars'', counted_completion_chars opts st)] else [])
          @ timeout_fields (\<not> rl_writing st \<and> exception_chain_contains_timeout exc), st1))"

text \<open>A failure found after the response was committed: it is told to the client, then reported.\<close>

definition told_failure :: "relay_ports \<Rightarrow> relay_options \<Rightarrow> string \<Rightarrow> string \<Rightarrow> string \<Rightarrow> relay_state \<Rightarrow> pydict \<times> relay_state" where
  "told_failure p opts reason error_type detail st =
     (stream_fields ''fail'' reason True (rl_chunks st) (rl_bytes st) @ error_fields error_type (PStr detail)
      @ committed_fields opts st,
      emit_terminal_error p reason (PStr detail) st)"

definition last_normalization :: "relay_options \<Rightarrow> relay_state \<Rightarrow> relay_state" where
  "last_normalization opts st =
     (if ro_expect_done opts \<and> rl_norm_valid st
      then (case consume_sse_normalization_events (rl_norm_carry st) True of (valid, carry, carried_error) \<Rightarrow>
              st\<lparr>rl_norm_valid := valid, rl_norm_carry := carry, rl_error_seen := rl_error_seen st \<or> carried_error\<rparr>)
      else st)"

definition stream_finish_reason :: "relay_options \<Rightarrow> relay_state \<Rightarrow> string" where
  "stream_finish_reason opts st =
     (if \<not> ro_expect_done opts \<or> sse_stream_ended_with_done (rl_tail st) then finish_reason_from_sse_tail (rl_tail st)
      else if rl_norm_valid st \<and> strip_by is_byte_space (rl_norm_carry st) = []
      then finish_reason_from_clean_sse_eof (rl_tail st) (length (rl_tail st) < rl_bytes st) (ro_choice_count opts)
      else [])"

definition ok_result :: "relay_options \<Rightarrow> string \<Rightarrow> bool \<Rightarrow> relay_state \<Rightarrow> pydict" where
  "ok_result opts finish_reason normalized_done st =
     stream_fields ''ok'' ''ok'' True (rl_chunks st) (rl_bytes st)
     @ [(''finish_reason'', PStr finish_reason),
        (''usage'', case usage_from_sse_tail (rl_tail st) of None \<Rightarrow> PNone | Some d \<Rightarrow> PDict d),
        (''first_delta_seconds'', first_delta st)]
     @ (if ro_expect_done opts
        then [(''completion_chars'', counted_completion_chars opts st), (''deliverable_sent'', PBool (rl_deliverable st))]
             @ (if normalized_done then [(''normalized_done'', PBool True)] else [])
        else [])"

definition DONE_EVENT :: string where
  "DONE_EVENT = ''data: [DONE]'' @ [LF, LF]"

definition supply_done :: "relay_ports \<Rightarrow> relay_options \<Rightarrow> string \<Rightarrow> relay_state \<Rightarrow> pydict \<times> relay_state" where
  "supply_done p opts finish_reason st =
     (let done_event = event_boundary (rl_tail st) @ DONE_EVENT;
          left = (\<lambda>exc st. (stream_fields ''fail'' ''client_disconnected'' True (rl_chunks st) (rl_bytes st)
                    @ error_fields (exception_type exc) (exception_detail exc) @ committed_fields opts st, st))
      in case call_client p (WriteChunk done_event) st of
           (Some exc, st1) \<Rightarrow> left exc st1
         | (None, st1) \<Rightarrow>
             (case call_client p FlushCall (st1\<lparr>rl_chunks := Suc (rl_chunks st1), rl_bytes := rl_bytes st1 + length done_event\<rparr>) of
                (Some exc, st2) \<Rightarrow> left exc st2
              | (None, st2) \<Rightarrow>
                  (let st3 = st2\<lparr>rl_tail := keep_tail (rl_tail st2 @ done_event)\<rparr>
                   in (ok_result opts finish_reason True st3, st3))))"

definition finish_relay :: "relay_ports \<Rightarrow> relay_options \<Rightarrow> relay_state \<Rightarrow> pydict \<times> relay_state" where
  "finish_relay p opts st =
     (case rl_runaway st of
        Some detail \<Rightarrow> told_failure p opts ''runaway_output'' ''RunawayOutput'' detail st
      | None \<Rightarrow>
          if \<not> rl_committed st then (stream_fields ''fail'' ''empty_stream'' False 0 0, st)
          else
            (let st1 = last_normalization opts st; finish_reason = stream_finish_reason opts st1 in
             if rl_error_seen st1
             then told_failure p opts ''mid_stream_failure'' ''upstream_error_after_content''
                    ''upstream sent an SSE error event after streaming content'' st1
             else if \<not> ro_expect_done opts \<or> sse_stream_ended_with_done (rl_tail st1)
             then (ok_result opts finish_reason False st1, st1)
             else if finish_reason \<noteq> [] then supply_done p opts finish_reason st1
             else told_failure p opts ''mid_stream_failure'' ''missing_done''
                    ''stream ended without a terminal [DONE] event or finish_reason'' st1))"

section \<open>A document instead of a stream\<close>

text \<open>A provider that ignores \<open>stream: true\<close> is buffered whole when the profile has a budget: the bytes and
  the size of the answer, or the result that refuses it.\<close>

fun buffer_json :: "int \<Rightarrow> (raised + string) list \<Rightarrow> string \<Rightarrow> pydict + string" where
  "buffer_json limit [] buffered = Inr buffered"
| "buffer_json limit (Inl exc # items) buffered =
     Inl (stream_fields ''fail'' ''pre_stream_failure'' False 0 0
       @ error_fields (exception_type exc) (exception_detail exc) @ timeout_fields (exception_chain_contains_timeout exc))"
| "buffer_json limit (Inr chunk # items) buffered =
     (if chunk \<noteq> [] \<and> completion_budget_transport_limit limit < int (length buffered + length chunk)
      then Inl (stream_fields ''fail'' ''runaway_output'' False 0 0
             @ error_fields ''RunawayOutput'' (PStr (''upstream JSON stream passed the transport guard for the profile's ''
                 @ show_int limit @ ''-char budget''))
             @ [(''completion_chars'', PInt (limit + 1))])
      else buffer_json limit items (buffered @ chunk))"

definition judge_json :: "int \<Rightarrow> string \<Rightarrow> pydict + int" where
  "judge_json limit buffered =
     (let invalid = (\<lambda>error_type. Inl (stream_fields ''fail'' ''pre_stream_failure'' False 0 0
            @ error_fields error_type (PStr ''upstream returned an invalid non-SSE stream body'')))
      in case decode_strict buffered of
           None \<Rightarrow> invalid ''UnicodeDecodeError''
         | Some text \<Rightarrow>
             (case json_loads text of
                None \<Rightarrow> invalid ''JSONDecodeError''
              | Some payload \<Rightarrow>
                  (let chars = int (non_streaming_completion_chars payload) in
                   if limit < chars
                   then Inl (stream_fields ''fail'' ''runaway_output'' False 0 0
                          @ error_fields ''RunawayOutput'' (PStr (''upstream produced '' @ show_int chars
                              @ '' chars of output past the profile's '' @ show_int limit @ ''-char budget''))
                          @ [(''completion_chars'', PInt chars)])
                   else Inr chars)))"

text \<open>What the relay reads: the stream itself, or the document as one chunk.\<close>

definition relay_source :: "relay_options \<Rightarrow> (raised + string) list \<Rightarrow> pydict + (raised + string) list \<times> int" where
  "relay_source opts items =
     (case (ro_expect_done opts, ro_max_chars opts) of
        (False, Some limit) \<Rightarrow>
          (case buffer_json limit items [] of
             Inl refused \<Rightarrow> Inl refused
           | Inr buffered \<Rightarrow>
               (if buffered = [] then Inr ([], 0)
                else (case judge_json limit buffered of
                        Inl refused \<Rightarrow> Inl refused
                      | Inr chars \<Rightarrow> Inr ([Inr buffered], chars))))
      | _ \<Rightarrow> Inr (items, 0))"

definition relay_run :: "relay_ports \<Rightarrow> relay_options \<Rightarrow> (raised + string) list \<Rightarrow> int \<Rightarrow> pydict \<times> relay_state" where
  "relay_run p opts items chars =
     (case relay_items p opts items (relay_start\<lparr>rl_chars := chars\<rparr>) of
        (Answered result, st) \<Rightarrow> (result, st)
      | (Broken exc, st) \<Rightarrow> broken_result p opts exc st
      | (Finished, st) \<Rightarrow> finish_relay p opts st)"

definition stream_chunks_to_writer ::
  "relay_ports \<Rightarrow> relay_options \<Rightarrow> (raised + string) list \<Rightarrow> (pydict \<times> relay_state) option" where
  "stream_chunks_to_writer p opts items =
     (if ro_policy opts \<notin> set STREAM_COMMIT_POLICIES then None
      else Some (case relay_source opts items of
                   Inl refused \<Rightarrow> (refused, relay_start)
                 | Inr (source, chars) \<Rightarrow> relay_run p opts source chars))"

end
