(* ===== verification/RelayFacts.thy ===== *)
theory RelayFacts
  imports StreamRelay
begin

text \<open>
  Facts about a run of the relay: what its helpers leave alone, the invariant that ties the bytes it
  read to those the client accepted and those it still holds, and what any ending leaves behind.
\<close>

section \<open>What the client accepted\<close>

text \<open>The bytes of the writes that did not raise, in order.\<close>

fun delivered_back :: "(client_call list \<Rightarrow> raised option) \<Rightarrow> client_call list \<Rightarrow> string" where
  "delivered_back answer [] = []"
| "delivered_back answer (c # past) =
     delivered_back answer past @
       (case c of WriteChunk s \<Rightarrow> if answer (rev (c # past)) = None then s else [] | _ \<Rightarrow> [])"

definition delivered :: "(client_call list \<Rightarrow> raised option) \<Rightarrow> client_call list \<Rightarrow> string" where
  "delivered answer calls = delivered_back answer (rev calls)"

lemma delivered_Nil [simp]: "delivered answer [] = []"
  by (simp add: delivered_def)

lemma delivered_snoc:
  "delivered answer (calls @ [c]) = delivered answer calls @
     (case c of WriteChunk s \<Rightarrow> if answer (calls @ [c]) = None then s else [] | _ \<Rightarrow> [])"
  by (simp add: delivered_def split: client_call.split)

lemma keep_tail_append: "keep_tail (keep_tail a @ b) = keep_tail (a @ b)"
proof (cases "length a \<le> SSE_TERMINAL_TAIL_BYTES")
  case False
  then have "length (drop (length a - SSE_TERMINAL_TAIL_BYTES) a) = SSE_TERMINAL_TAIL_BYTES" by simp
  then show ?thesis
    using False by (cases "length b \<le> SSE_TERMINAL_TAIL_BYTES") (simp_all add: keep_tail_def add.commute)
qed (simp add: keep_tail_def)

section \<open>Frames\<close>

definition same_relay :: "relay_state \<Rightarrow> relay_state \<Rightarrow> bool" where
  "same_relay st st' \<longleftrightarrow> rl_calls st' = rl_calls st \<and> rl_committed st' = rl_committed st \<and> rl_writing st' = rl_writing st
     \<and> rl_chunks st' = rl_chunks st \<and> rl_bytes st' = rl_bytes st \<and> rl_tail st' = rl_tail st
     \<and> rl_pre_buffer st' = rl_pre_buffer st \<and> rl_pre_scan st' = rl_pre_scan st \<and> rl_pre_cr st' = rl_pre_cr st"

lemma observers_frame:
  "same_relay st (mark_first_delta p opts st)" "same_relay st (observe_deliverable p opts chunk st)"
  "same_relay st (observe_normalization opts chunk st)" "same_relay st (observe_budget opts chunk st)"
  "same_relay st (last_normalization opts st)"
proof -
  show mark: "same_relay st (mark_first_delta p opts st)" for st
    by (simp add: same_relay_def mark_first_delta_def split: option.split)
  show "same_relay st (observe_deliverable p opts chunk st)"
    using mark by (auto simp: same_relay_def observe_deliverable_def Let_def split: prod.split)
  show "same_relay st (observe_normalization opts chunk st)" "same_relay st (last_normalization opts st)"
    by (auto simp: same_relay_def observe_normalization_def last_normalization_def Let_def split: prod.split)
  show "same_relay st (observe_budget opts chunk st)"
    by (auto simp: same_relay_def observe_budget_def count_event_chars_def Let_def split: prod.split option.split bool.split)
qed

lemma observe_chunk_frame:
  "rl_calls (observe_chunk p opts chunk st) = rl_calls st" "rl_committed (observe_chunk p opts chunk st) = rl_committed st"
  "rl_writing (observe_chunk p opts chunk st) = rl_writing st" "rl_bytes (observe_chunk p opts chunk st) = rl_bytes st + length chunk"
  "rl_tail (observe_chunk p opts chunk st) = keep_tail (rl_tail st @ chunk)"
  "rl_pre_buffer (observe_chunk p opts chunk st) = rl_pre_buffer st"
  using observers_frame(2)[where st = "st\<lparr>rl_chunks := Suc (rl_chunks st), rl_bytes := rl_bytes st + length chunk\<rparr>" and p = p and opts = opts and chunk = chunk]
    observers_frame(3)[where opts = opts and chunk = chunk] observers_frame(4)[where opts = opts and chunk = chunk]
  by (simp_all add: observe_chunk_def Let_def same_relay_def)

text \<open>What the relay has done with the bytes it read: some are delivered, the rest is held.\<close>

definition relayed :: "relay_ports \<Rightarrow> relay_options \<Rightarrow> string \<Rightarrow> relay_state \<Rightarrow> bool" where
  "relayed p opts s st \<longleftrightarrow> s = delivered (rp_answer p) (rl_calls st) @ rl_pre_buffer st
     \<and> (rl_committed st \<longleftrightarrow> rl_calls st \<noteq> []) \<and> (rl_committed st \<longrightarrow> rl_pre_buffer st = [])
     \<and> rl_tail st = keep_tail (delivered (rp_answer p) (rl_calls st))
     \<and> rl_bytes st = length (delivered (rp_answer p) (rl_calls st))
     \<and> length s \<le> MAX_UPSTREAM_RESPONSE_BYTES \<and> \<not> rl_writing st
     \<and> (ro_policy opts = ''immediate'' \<or> \<not> ro_expect_done opts \<longrightarrow> rl_pre_buffer st = [])"

text \<open>What is left when the relay breaks off: the delivered bytes are a prefix of those it read.\<close>

definition broken_off :: "relay_ports \<Rightarrow> string \<Rightarrow> relay_state \<Rightarrow> bool" where
  "broken_off p s st \<longleftrightarrow> prefix (delivered (rp_answer p) (rl_calls st)) s
     \<and> (rl_committed st \<longleftrightarrow> rl_calls st \<noteq> []) \<and> rl_bytes st = length (delivered (rp_answer p) (rl_calls st))
     \<and> rl_bytes st \<le> MAX_UPSTREAM_RESPONSE_BYTES \<and> rl_tail st = keep_tail (delivered (rp_answer p) (rl_calls st))"

lemma relayed_broken: "relayed p opts s st \<Longrightarrow> broken_off p (s @ t) st"
  by (auto simp: relayed_def broken_off_def)

lemma relay_start_relayed: "relayed p opts [] (relay_start\<lparr>rl_chars := n\<rparr>)"
  by (simp add: relayed_def relay_start_def keep_tail_def)

lemma relay_chunk_relayed:
  assumes "relayed p opts s st" "rl_pre_buffer st = []" "length (s @ chunk) \<le> MAX_UPSTREAM_RESPONSE_BYTES"
    and run: "relay_chunk p opts chunk st = (e, st')"
  shows "if e = None then relayed p opts (s @ chunk) st' \<and> rl_pre_buffer st' = [] \<and> rl_committed st'
         else broken_off p (s @ chunk) st' \<and> rl_committed st'"
proof -
  let ?c = "rl_calls st @ [WriteChunk chunk]"
  have d: "delivered (rp_answer p) (?c @ [FlushCall]) = delivered (rp_answer p) ?c"
    "delivered (rp_answer p) ?c = delivered (rp_answer p) (rl_calls st) @ (if rp_answer p ?c = None then chunk else [])"
    by (simp_all add: delivered_snoc del: append_assoc)
  have "relay_chunk p opts chunk st = (case rp_answer p ?c of
      Some exc \<Rightarrow> (Some exc, st\<lparr>rl_committed := True, rl_writing := True, rl_calls := ?c\<rparr>)
    | None \<Rightarrow> (let st1 = observe_chunk p opts chunk (st\<lparr>rl_committed := True, rl_writing := True, rl_calls := ?c\<rparr>)
               in case rp_answer p (?c @ [FlushCall]) of
                    Some exc \<Rightarrow> (Some exc, st1\<lparr>rl_calls := ?c @ [FlushCall]\<rparr>)
                  | None \<Rightarrow> (None, st1\<lparr>rl_calls := ?c @ [FlushCall], rl_writing := False\<rparr>)))"
    by (simp add: relay_chunk_def call_client_def Let_def observe_chunk_frame split: option.split)
  with run assms(1-3) d show ?thesis
    by (auto simp: relayed_def broken_off_def Let_def observe_chunk_frame keep_tail_append
        simp del: append_assoc split: option.splits if_splits)
qed

lemma relay_chunks_relayed:
  assumes "relayed p opts s st" "rl_pre_buffer st = []" "length (s @ concat chunks) \<le> MAX_UPSTREAM_RESPONSE_BYTES"
    and "relay_chunks p opts chunks st = (e, st')"
  shows "if e = None then relayed p opts (s @ concat chunks) st' \<and> rl_pre_buffer st' = [] \<and> (rl_committed st \<or> chunks \<noteq> [] \<longrightarrow> rl_committed st')
         else broken_off p (s @ concat chunks) st' \<and> rl_committed st'"
  using assms
proof (induction chunks arbitrary: s st)
  case (Cons chunk chunks)
  obtain e1 st1 where r: "relay_chunk p opts chunk st = (e1, st1)" by fastforce
  have l: "length (s @ chunk) \<le> MAX_UPSTREAM_RESPONSE_BYTES" using Cons.prems(3) by simp
  note one = relay_chunk_relayed[OF Cons.prems(1,2) l r]
  show ?case
  proof (cases e1)
    case None
    with one Cons.prems(3) have "relayed p opts (s @ chunk) st1" "rl_pre_buffer st1 = []" "rl_committed st1"
      "length ((s @ chunk) @ concat chunks) \<le> MAX_UPSTREAM_RESPONSE_BYTES"
      by simp_all
    then show ?thesis using Cons.IH[of "s @ chunk" st1] Cons.prems(4) r None by auto
  next
    case (Some exc)
    with one Cons.prems(4) r show ?thesis by (auto simp: broken_off_def intro: prefix_order.trans)
  qed
qed (auto simp: relayed_def)

section \<open>One chunk of the upstream\<close>

lemma precommit_scan_frame:
  assumes "precommit_scan opts chunk st = (d, st1)"
  shows "st1 = st\<lparr>rl_pre_buffer := (if length chunk \<le> room_left st then rl_pre_buffer st @ chunk else rl_pre_buffer st),
      rl_pre_scan := rl_pre_scan st1, rl_pre_cr := rl_pre_cr st1\<rparr>"
  using assms unfolding precommit_scan_def by (auto split: prod.splits)

lemma precommit_cases:
  assumes "precommit opts chunk st = (rel, st1)"
  obtains (refused) error where "rel = Refused error" "rl_calls st1 = rl_calls st"
    | (held) "rel = Held" "st1 = st\<lparr>rl_pre_buffer := rl_pre_buffer st @ chunk, rl_pre_scan := rl_pre_scan st1, rl_pre_cr := rl_pre_cr st1\<rparr>"
    | (released) chunks where "rel = Released chunks" "concat chunks = rl_pre_buffer st @ chunk" "chunk \<noteq> [] \<longrightarrow> chunks \<noteq> []"
      "st1 = st\<lparr>rl_pre_buffer := [], rl_pre_scan := [], rl_pre_cr := rl_pre_cr st1\<rparr>"
proof -
  obtain d st0 where scan: "precommit_scan opts chunk st = (d, st0)" by fastforce
  note f = precommit_scan_frame[OF scan]
  let ?fits = "length chunk \<le> room_left st"
  have b: "rl_pre_buffer st0 = (if ?fits then rl_pre_buffer st @ chunk else rl_pre_buffer st)"
    "rl_calls st0 = rl_calls st"
    by (subst f, simp)+
  note run = assms[unfolded precommit_def scan prod.case Let_def]
  show thesis
  proof (cases "\<exists>error. d = Retry error")
    case True
    then show thesis using run b by (auto intro: refused)
  next
    case other: False
    then have run': "(if d = Wait \<and> ?fits \<and> length (rl_pre_buffer st0) < STREAM_PRECOMMIT_MAX_BYTES then (Held, st0)
        else (Released (if ?fits then [rl_pre_buffer st0] else (if rl_pre_buffer st0 = [] then [] else [rl_pre_buffer st0]) @ [chunk]),
              st0\<lparr>rl_pre_buffer := [], rl_pre_scan := []\<rparr>)) = (rel, st1)"
      using run by (cases d) simp_all
    show thesis
    proof (cases "d = Wait \<and> ?fits \<and> length (rl_pre_buffer st0) < STREAM_PRECOMMIT_MAX_BYTES")
      case True
      then have "rel = Held" "st1 = st0" using run' by auto
      then show thesis using f True by (intro held) auto
    next
      case False
      then have r: "rel = Released (if ?fits then [rl_pre_buffer st0] else (if rl_pre_buffer st0 = [] then [] else [rl_pre_buffer st0]) @ [chunk])"
        "st1 = st0\<lparr>rl_pre_buffer := [], rl_pre_scan := []\<rparr>"
        using run' by auto
      have "st1 = st\<lparr>rl_pre_buffer := [], rl_pre_scan := [], rl_pre_cr := rl_pre_cr st1\<rparr>"
        unfolding r(2) by (subst f) simp
      then show thesis using r(1) b by (intro released) (auto split: if_splits)
    qed
  qed
qed

lemma release_cases:
  assumes "release_of opts chunk st = (rel, st1)" "relayed p opts s st"
  obtains (refused) error where "rel = Refused error" "\<not> rl_committed st" "rl_calls st1 = []"
    | (held) "rel = Held" "relayed p opts (s @ chunk) st1 \<or> MAX_UPSTREAM_RESPONSE_BYTES < length (s @ chunk)" "\<not> rl_committed st1"
    | (released) chunks s0 where "rel = Released chunks" "relayed p opts s0 st1" "rl_pre_buffer st1 = []" "s0 @ concat chunks = s @ chunk"
      "chunk \<noteq> [] \<longrightarrow> chunks \<noteq> []"
proof (cases "rl_committed st")
  case True
  then show thesis
    using assms by (intro released[of "[chunk]" s]) (auto simp: release_of_def relayed_def)
next
  case fresh: False
  then have none: "rl_calls st = []" using assms(2) by (simp add: relayed_def)
  show thesis
  proof (cases "ro_policy opts \<noteq> ''immediate'' \<and> ro_expect_done opts")
    case True
    with fresh assms(1) have "precommit opts chunk st = (rel, st1)" by (simp add: release_of_def)
    then show thesis
    proof (cases rule: precommit_cases)
      case (refused error)
      then show thesis using none fresh by (intro that(1)) auto
    next
      case held
      have "rl_calls st1 = []" "rl_pre_buffer st1 = rl_pre_buffer st @ chunk" "rl_committed st1 = rl_committed st"
        "rl_tail st1 = rl_tail st" "rl_bytes st1 = rl_bytes st" "rl_writing st1 = rl_writing st"
        by (subst held(2), simp add: none)+
      then show thesis using assms(2) none fresh held(1) True by (intro that(2)) (auto simp: relayed_def)
    next
      case (released chunks)
      have "rl_calls st1 = []" "rl_pre_buffer st1 = []" "rl_committed st1 = rl_committed st"
        "rl_tail st1 = rl_tail st" "rl_bytes st1 = rl_bytes st" "rl_writing st1 = rl_writing st"
        by (subst released(4), simp add: none)+
      then show thesis
        using assms(2) none fresh released(1-3) by (intro that(3)[of chunks "[]"]) (auto simp: relayed_def)
    qed
  next
    case False
    show thesis
    proof (cases "upstream_stream_error_payload chunk")
      case None
      then show thesis
        using assms fresh False by (intro that(3)[of "[chunk]" s]) (auto simp: release_of_def relayed_def)
    next
      case (Some error)
      then show thesis using assms(1) fresh False none by (intro that(1)) (auto simp: release_of_def)
    qed
  qed
qed

section \<open>The whole stream\<close>

definition bytes_of :: "(raised + string) list \<Rightarrow> string" where
  "bytes_of items = concat (map (case_sum (\<lambda>_. []) (\<lambda>chunk. chunk)) items)"

lemma bytes_of_simps [simp]:
  "bytes_of [] = []" "bytes_of (Inl exc # items) = bytes_of items" "bytes_of (Inr chunk # items) = chunk @ bytes_of items"
  by (simp_all add: bytes_of_def)

text \<open>How the loop over the upstream ends.\<close>

definition relay_post :: "relay_ports \<Rightarrow> relay_options \<Rightarrow> string \<Rightarrow> (raised + string) list \<Rightarrow> relay_end \<Rightarrow> relay_state \<Rightarrow> bool" where
  "relay_post p opts s items ended st \<longleftrightarrow>
     (case ended of
        Answered result \<Rightarrow> rl_calls st = [] \<and> (\<exists>error. result = upstream_error_result error)
      | Broken exc \<Rightarrow> broken_off p (s @ bytes_of items) st
      | Finished \<Rightarrow> (\<exists>read. relayed p opts read st \<and> prefix read (s @ bytes_of items)
          \<and> (rl_runaway st = None \<longrightarrow> read = s @ bytes_of items \<and> list_all (\<lambda>item. \<exists>chunk. item = Inr chunk) items)
          \<and> (rl_runaway st \<noteq> None \<longrightarrow> rl_committed st)))"

lemma broken_off_more: "broken_off p s st \<Longrightarrow> broken_off p (s @ t) st"
  by (simp add: broken_off_def)

lemma relay_item_post:
  assumes inv: "relayed p opts s st" and chunk: "chunk \<noteq> []" and run: "relay_item p opts chunk st = (ended, st')"
    and quiet: "rl_runaway st = None"
  shows "case ended of
      None \<Rightarrow> relayed p opts (s @ chunk) st' \<and> rl_runaway st' = None
    | Some (Answered result) \<Rightarrow> rl_calls st' = [] \<and> (\<exists>error. result = upstream_error_result error)
    | Some (Broken exc) \<Rightarrow> broken_off p (s @ chunk) st'
    | Some Finished \<Rightarrow> relayed p opts (s @ chunk) st' \<and> rl_runaway st' \<noteq> None \<and> rl_committed st'"
proof (cases "MAX_UPSTREAM_RESPONSE_BYTES < rl_bytes st + length (rl_pre_buffer st) + length chunk")
  case True
  then show ?thesis
    using run relayed_broken[OF inv] by (auto simp: relay_item_def)
next
  case False
  then have room: "length (s @ chunk) \<le> MAX_UPSTREAM_RESPONSE_BYTES" using inv by (simp add: relayed_def)
  obtain rel st1 where rel: "release_of opts chunk st = (rel, st1)" by fastforce
  from rel inv show ?thesis
  proof (cases rule: release_cases)
    case (refused error)
    then show ?thesis using run rel False by (auto simp: relay_item_def)
  next
    case held
    have "rl_runaway st1 = None"
    proof -
      have "precommit opts chunk st = (Held, st1)"
        using rel held(1) by (auto simp: release_of_def split: if_splits option.splits)
      then show ?thesis
      proof (cases rule: precommit_cases)
        case held
        show ?thesis by (subst held(2)) (simp add: quiet)
      qed simp_all
    qed
    then show ?thesis using run rel False held room by (auto simp: relay_item_def)
  next
    case (released chunks s0)
    obtain e st2 where w: "relay_chunks p opts chunks st1 = (e, st2)" by fastforce
    have "length (s0 @ concat chunks) \<le> MAX_UPSTREAM_RESPONSE_BYTES" using released(4) room by simp
    from relay_chunks_relayed[OF released(2,3) this w] show ?thesis
      using run rel False released(1,4,5) w chunk by (auto simp: relay_item_def split: if_splits option.splits)
  qed
qed

lemma relay_items_post:
  assumes "relayed p opts s st" "rl_runaway st = None" "relay_items p opts items st = (ended, st')"
  shows "relay_post p opts s items ended st'"
  using assms
proof (induction p opts items st arbitrary: s rule: relay_items.induct)
  case (1 p opts st)
  then show ?case by (auto simp: relay_post_def)
next
  case (2 p opts exc items st)
  then show ?case using relayed_broken[OF 2(1)] by (auto simp: relay_post_def)
next
  case (3 p opts chunk items st)
  show ?case
  proof (cases "chunk = []")
    case True
    with 3(1)[OF True] 3(3-5) have "relay_post p opts s items ended st'" by simp
    then show ?thesis using True by (simp add: relay_post_def split: relay_end.splits)
  next
    case False
    obtain e st1 where one: "relay_item p opts chunk st = (e, st1)" by fastforce
    note post = relay_item_post[OF 3(3) False one 3(4)]
    show ?thesis
    proof (cases e)
      case None
      with post have "relayed p opts (s @ chunk) st1" "rl_runaway st1 = None" by simp_all
      moreover have "relay_items p opts items st1 = (ended, st')" using 3(5) False one None by simp
      ultimately have "relay_post p opts (s @ chunk) items ended st'" using 3(2)[OF False one[symmetric] None] by simp
      then show ?thesis by (auto simp: relay_post_def split: relay_end.splits)
    next
      case (Some e')
      with 3(5) False one have "ended = e'" "st' = st1" by simp_all
      then show ?thesis
        using post Some broken_off_more[of p "s @ chunk" st1 "bytes_of items"]
        by (auto simp: relay_post_def split: relay_end.splits)
    qed
  qed
qed

text \<open>What the relay adds to the bytes of the upstream.\<close>

definition own_bytes :: "relay_state \<Rightarrow> string \<Rightarrow> bool" where
  "own_bytes st extra \<longleftrightarrow> extra = [] \<or> extra = event_boundary (rl_tail st) @ DONE_EVENT
     \<or> (\<exists>reason detail. extra = event_boundary (rl_tail st) @ sse_error_event reason detail)"

lemma emit_terminal_error_calls:
  obtains extra where
    "delivered (rp_answer p) (rl_calls (emit_terminal_error p reason detail st)) = delivered (rp_answer p) (rl_calls st) @ extra"
    "extra = [] \<or> extra = event_boundary (rl_tail st) @ sse_error_event reason detail"
    "rl_calls (emit_terminal_error p reason detail st) \<noteq> []"
proof (rule that[where extra = "if rp_terminal_writer p \<or> rp_answer p (rl_calls st @ [terminal_call p reason detail st]) \<noteq> None then []
      else event_boundary (rl_tail st) @ sse_error_event reason detail"])
  show "delivered (rp_answer p) (rl_calls (emit_terminal_error p reason detail st)) = delivered (rp_answer p) (rl_calls st) @
      (if rp_terminal_writer p \<or> rp_answer p (rl_calls st @ [terminal_call p reason detail st]) \<noteq> None then []
      else event_boundary (rl_tail st) @ sse_error_event reason detail)"
    by (auto simp: emit_terminal_error_def call_client_def Let_def terminal_call_def delivered_snoc
        simp del: append_assoc split: option.splits)
  show "rl_calls (emit_terminal_error p reason detail st) \<noteq> []"
    by (auto simp: emit_terminal_error_def call_client_def Let_def split: option.splits)
qed simp

lemma buffer_json_whole:
  "buffer_json limit items buffered = Inr b \<Longrightarrow>
     b = buffered @ bytes_of items \<and> list_all (\<lambda>item. \<exists>chunk. item = Inr chunk) items"
  by (induction limit items buffered rule: buffer_json.induct) (auto split: if_splits)

lemma relay_source_bytes:
  assumes "relay_source opts items = Inr (source, chars)"
  shows "bytes_of source = bytes_of items"
    "list_all (\<lambda>item. \<exists>chunk. item = Inr chunk) source \<Longrightarrow> list_all (\<lambda>item. \<exists>chunk. item = Inr chunk) items"
  using assms by (auto simp: relay_source_def split: bool.splits option.splits sum.splits if_splits dest!: buffer_json_whole)

text \<open>A source that is refused was never shown.\<close>

lemma relay_source_refused:
  "relay_source opts items = Inl result \<Longrightarrow>
     dget result ''stream_started'' = PBool False \<and> dget result ''status'' = PStr ''fail'' \<and> dget result ''bytes_sent'' = PInt 0"
proof -
  have "buffer_json limit items buffered = Inl result \<Longrightarrow>
     dget result ''stream_started'' = PBool False \<and> dget result ''status'' = PStr ''fail'' \<and> dget result ''bytes_sent'' = PInt 0" for limit buffered
    by (induction limit items buffered rule: buffer_json.induct) (auto simp: stream_fields_def pint_def dget_def split: if_splits)
  moreover have "judge_json limit b = Inl result \<Longrightarrow>
     dget result ''stream_started'' = PBool False \<and> dget result ''status'' = PStr ''fail'' \<and> dget result ''bytes_sent'' = PInt 0" for limit b
    by (auto simp: judge_json_def Let_def stream_fields_def pint_def dget_def split: option.splits if_splits)
  ultimately show "relay_source opts items = Inl result \<Longrightarrow>
     dget result ''stream_started'' = PBool False \<and> dget result ''status'' = PStr ''fail'' \<and> dget result ''bytes_sent'' = PInt 0"
    by (auto simp: relay_source_def split: bool.splits option.splits sum.splits if_splits)
qed

lemma last_normalization_same:
  "rl_calls (last_normalization opts st) = rl_calls st" "rl_tail (last_normalization opts st) = rl_tail st"
  "rl_bytes (last_normalization opts st) = rl_bytes st" "rl_committed (last_normalization opts st) = rl_committed st"
  using observers_frame(5)[of st opts] by (simp_all add: same_relay_def)

lemma stream_fields_get:
  "dget (stream_fields status reason started chunks bytes @ d) ''status'' = PStr status"
  "dget (stream_fields status reason started chunks bytes @ d) ''reason'' = PStr reason"
  "dget (stream_fields status reason started chunks bytes @ d) ''stream_started'' = PBool started"
  "dget (stream_fields status reason started chunks bytes @ d) ''bytes_sent'' = pint bytes"
  by (simp_all add: stream_fields_def dget_def)

lemma stream_fields_get0:
  "dget (stream_fields status reason started chunks bytes) ''status'' = PStr status"
  "dget (stream_fields status reason started chunks bytes) ''reason'' = PStr reason"
  "dget (stream_fields status reason started chunks bytes) ''stream_started'' = PBool started"
  "dget (stream_fields status reason started chunks bytes) ''bytes_sent'' = pint bytes"
  by (simp_all add: stream_fields_def dget_def)

text \<open>What a relay leaves behind, whatever its end.\<close>

definition relay_outcome :: "relay_ports \<Rightarrow> (raised + string) list \<Rightarrow> pydict \<Rightarrow> relay_state \<Rightarrow> bool" where
  "relay_outcome p items result st \<longleftrightarrow>
     dget result ''stream_started'' = PBool (rl_calls st \<noteq> [])
     \<and> (\<exists>shown extra. delivered (rp_answer p) (rl_calls st) = shown @ extra \<and> prefix shown (bytes_of items)
         \<and> length shown \<le> MAX_UPSTREAM_RESPONSE_BYTES
         \<and> (extra = [] \<or> (\<exists>reason detail. extra = event_boundary (keep_tail shown) @ sse_error_event reason detail)
            \<or> extra = event_boundary (keep_tail shown) @ DONE_EVENT
              \<and> (dget result ''status'' = PStr ''ok'' \<or> dget result ''reason'' = PStr ''client_disconnected''))
         \<and> (dget result ''status'' = PStr ''ok'' \<longrightarrow> shown = bytes_of items \<and> list_all (\<lambda>item. \<exists>chunk. item = Inr chunk) items
              \<and> (extra = [] \<or> extra = event_boundary (keep_tail shown) @ DONE_EVENT)))"

lemma relay_outcomeI:
  assumes "dget result ''stream_started'' = PBool (rl_calls st \<noteq> [])"
    and "delivered (rp_answer p) (rl_calls st) = shown @ extra" "prefix shown (bytes_of items)"
    and "length shown \<le> MAX_UPSTREAM_RESPONSE_BYTES"
    and "extra = [] \<or> (\<exists>reason detail. extra = event_boundary (keep_tail shown) @ sse_error_event reason detail)
            \<or> extra = event_boundary (keep_tail shown) @ DONE_EVENT
              \<and> (dget result ''status'' = PStr ''ok'' \<or> dget result ''reason'' = PStr ''client_disconnected'')"
    and "dget result ''status'' = PStr ''ok'' \<Longrightarrow> shown = bytes_of items \<and> list_all (\<lambda>item. \<exists>chunk. item = Inr chunk) items
              \<and> (extra = [] \<or> extra = event_boundary (keep_tail shown) @ DONE_EVENT)"
  shows "relay_outcome p items result st"
  unfolding relay_outcome_def using assms by blast

lemma told_outcome:
  assumes "delivered (rp_answer p) (rl_calls st) = shown" "prefix shown (bytes_of items)"
    "length shown \<le> MAX_UPSTREAM_RESPONSE_BYTES" "rl_tail st = keep_tail shown"
    and "told_failure p opts reason error_type detail st = (result, st')"
  shows "relay_outcome p items result st'"
proof -
  obtain extra where e: "delivered (rp_answer p) (rl_calls (emit_terminal_error p reason (PStr detail) st)) = shown @ extra"
    "extra = [] \<or> extra = event_boundary (rl_tail st) @ sse_error_event reason (PStr detail)"
    "rl_calls (emit_terminal_error p reason (PStr detail) st) \<noteq> []"
    using assms(1) emit_terminal_error_calls[of p reason "PStr detail" st] by metis
  show ?thesis
  proof (rule relay_outcomeI[where shown = shown and extra = extra])
    show "delivered (rp_answer p) (rl_calls st') = shown @ extra" using assms(5) e(1) by (auto simp: told_failure_def)
    show "extra = [] \<or> (\<exists>reason detail. extra = event_boundary (keep_tail shown) @ sse_error_event reason detail)
            \<or> extra = event_boundary (keep_tail shown) @ DONE_EVENT
              \<and> (dget result ''status'' = PStr ''ok'' \<or> dget result ''reason'' = PStr ''client_disconnected'')"
      using e(2) assms(4) by auto
  qed (use assms(2,3,5) e(3) in \<open>auto simp: told_failure_def stream_fields_get\<close>)
qed

lemma broken_outcome:
  assumes "broken_off p (bytes_of items) st" "broken_result p opts exc st = (result, st')"
  shows "relay_outcome p items result st'"
proof (cases "rl_committed st")
  case True
  let ?reason = "if rl_writing st then ''client_disconnected'' else ''mid_stream_failure''"
  obtain extra where e: "delivered (rp_answer p) (rl_calls (emit_terminal_error p ?reason (exception_detail exc) st))
        = delivered (rp_answer p) (rl_calls st) @ extra"
    "extra = [] \<or> extra = event_boundary (rl_tail st) @ sse_error_event ?reason (exception_detail exc)"
    "rl_calls (emit_terminal_error p ?reason (exception_detail exc) st) \<noteq> []"
    using emit_terminal_error_calls[of p ?reason "exception_detail exc" st] by metis
  have "st' = emit_terminal_error p ?reason (exception_detail exc) st" "dget result ''stream_started'' = PBool True"
    "dget result ''status'' = PStr ''fail''"
    using assms(2) True by (auto simp: broken_result_def Let_def stream_fields_get)
  then show ?thesis
    using assms(1) e
    by (intro relay_outcomeI[where shown = "delivered (rp_answer p) (rl_calls st)" and extra = extra]) (auto simp: broken_off_def)
next
  case False
  then have "rl_calls st = []" "st' = st" "dget result ''stream_started'' = PBool False" "dget result ''status'' = PStr ''fail''"
    using assms by (auto simp: broken_off_def broken_result_def Let_def stream_fields_get)
  then show ?thesis by (auto simp: relay_outcome_def)
qed

lemma supply_done_outcome:
  assumes "delivered (rp_answer p) (rl_calls st) = bytes_of items" "length (bytes_of items) \<le> MAX_UPSTREAM_RESPONSE_BYTES"
    and "rl_tail st = keep_tail (bytes_of items)" "list_all (\<lambda>item. \<exists>chunk. item = Inr chunk) items"
    and "supply_done p opts finish_reason st = (result, st')"
  shows "relay_outcome p items result st'
    \<and> (dget result ''status'' = PStr ''ok'' \<longrightarrow>
        delivered (rp_answer p) (rl_calls st') = bytes_of items @ event_boundary (rl_tail st) @ DONE_EVENT)"
proof -
  let ?e = "event_boundary (rl_tail st) @ DONE_EVENT"
  let ?c = "rl_calls st @ [WriteChunk ?e]"
  have d: "delivered (rp_answer p) ?c = bytes_of items @ (if rp_answer p ?c = None then ?e else [])"
    "delivered (rp_answer p) (?c @ [FlushCall]) = delivered (rp_answer p) ?c"
    using assms(1) by (simp_all add: delivered_snoc del: append_assoc)
  show ?thesis
  proof (cases "rp_answer p ?c")
    case (Some exc)
    then have "rl_calls st' = ?c" "dget result ''stream_started'' = PBool True" "dget result ''status'' = PStr ''fail''"
      using assms(5) by (auto simp: supply_done_def call_client_def Let_def stream_fields_get)
    then show ?thesis
      using d Some assms(2) by (auto intro!: relay_outcomeI[where shown = "bytes_of items" and extra = "[]"])
  next
    case None
    then have "rl_calls st' = ?c @ [FlushCall]" "dget result ''stream_started'' = PBool True"
        "dget result ''status'' = PStr ''ok'' \<or> dget result ''reason'' = PStr ''client_disconnected''"
      using assms(5) by (auto simp: supply_done_def call_client_def Let_def stream_fields_get ok_result_def split: option.splits)
    then show ?thesis
      using d None assms(2-4) by (auto intro!: relay_outcomeI[where shown = "bytes_of items" and extra = ?e])
  qed
qed

lemma finish_outcome:
  assumes rel: "relayed p opts read st" "prefix read (bytes_of items)" "rl_runaway st \<noteq> None \<longrightarrow> rl_committed st"
    and whole: "rl_runaway st = None \<longrightarrow> read = bytes_of items \<and> list_all (\<lambda>item. \<exists>chunk. item = Inr chunk) items"
    and run: "finish_relay p opts st = (result, st')"
  shows "relay_outcome p items result st'
    \<and> (dget result ''status'' = PStr ''ok'' \<and> ro_expect_done opts \<longrightarrow>
         sse_stream_ended_with_done (keep_tail (bytes_of items)) \<and> delivered (rp_answer p) (rl_calls st') = bytes_of items
         \<or> delivered (rp_answer p) (rl_calls st') = bytes_of items @ event_boundary (keep_tail (bytes_of items)) @ DONE_EVENT)"
proof (cases "rl_committed st")
  case False
  then have "rl_calls st = []" "rl_runaway st = None" using rel by (auto simp: relayed_def)
  with run False have "st' = st" "dget result ''stream_started'' = PBool False" "dget result ''status'' = PStr ''fail''"
    by (auto simp: finish_relay_def stream_fields_get0)
  then show ?thesis
    using \<open>rl_calls st = []\<close> by (auto intro!: relay_outcomeI[where shown = "[]" and extra = "[]"])
next
  case True
  then have shown: "delivered (rp_answer p) (rl_calls st) = read" "rl_tail st = keep_tail read" "length read \<le> MAX_UPSTREAM_RESPONSE_BYTES"
      "rl_calls st \<noteq> []"
    using rel by (auto simp: relayed_def)
  show ?thesis
  proof (cases "rl_runaway st")
    case (Some detail)
    with run have t: "told_failure p opts ''runaway_output'' ''RunawayOutput'' detail st = (result, st')" by (simp add: finish_relay_def)
    have "dget result ''status'' = PStr ''fail''" using t by (auto simp: told_failure_def stream_fields_get)
    then show ?thesis using told_outcome[OF shown(1) rel(2) shown(3,2) t] by simp
  next
    case None
    let ?st1 = "last_normalization opts st"
    have all: "read = bytes_of items" "list_all (\<lambda>item. \<exists>chunk. item = Inr chunk) items" using whole None by auto
    have s1: "delivered (rp_answer p) (rl_calls ?st1) = bytes_of items" "rl_tail ?st1 = keep_tail (bytes_of items)"
        "rl_calls ?st1 \<noteq> []"
      using shown all by (simp_all add: last_normalization_same)
    have told: "relay_outcome p items result st' \<and> dget result ''status'' = PStr ''fail''"
      if "told_failure p opts reason error_type detail ?st1 = (result, st')" for reason error_type detail
      using told_outcome[OF s1(1) prefix_order.refl _ s1(2) that] shown(3) all that
      by (auto simp: told_failure_def stream_fields_get)
    show ?thesis
    proof (cases "rl_error_seen ?st1")
      case True
      with run None \<open>rl_committed st\<close> have
        "told_failure p opts ''mid_stream_failure'' ''upstream_error_after_content''
           ''upstream sent an SSE error event after streaming content'' ?st1 = (result, st')"
        by (simp add: finish_relay_def Let_def)
      from told[OF this] show ?thesis by simp
    next
      case quiet: False
      show ?thesis
      proof (cases "\<not> ro_expect_done opts \<or> sse_stream_ended_with_done (rl_tail ?st1)")
        case True
        with run None \<open>rl_committed st\<close> quiet have "result = ok_result opts (stream_finish_reason opts ?st1) False ?st1" "st' = ?st1"
          by (auto simp: finish_relay_def Let_def)
        then show ?thesis
          using s1 True all shown(3)
          by (auto simp: ok_result_def stream_fields_get intro!: relay_outcomeI[where shown = "bytes_of items" and extra = "[]"])
      next
        case unended: False
        show ?thesis
        proof (cases "stream_finish_reason opts ?st1 = []")
          case True
          with run None \<open>rl_committed st\<close> quiet unended have
            "told_failure p opts ''mid_stream_failure'' ''missing_done''
               ''stream ended without a terminal [DONE] event or finish_reason'' ?st1 = (result, st')"
            by (simp add: finish_relay_def Let_def)
          from told[OF this] show ?thesis by simp
        next
          case False
          with run None \<open>rl_committed st\<close> quiet unended have
            "supply_done p opts (stream_finish_reason opts ?st1) ?st1 = (result, st')"
            by (simp add: finish_relay_def Let_def)
          from supply_done_outcome[OF s1(1) _ s1(2) all(2) this] shown(3) all(1) s1(2) show ?thesis by simp
        qed
      qed
    qed
  qed
qed

lemma relay_run_outcome:
  assumes "relay_run p opts items chars = (result, st)"
  shows "relay_outcome p items result st
    \<and> (dget result ''status'' = PStr ''ok'' \<and> ro_expect_done opts \<longrightarrow>
         sse_stream_ended_with_done (keep_tail (bytes_of items)) \<and> delivered (rp_answer p) (rl_calls st) = bytes_of items
         \<or> delivered (rp_answer p) (rl_calls st) = bytes_of items @ event_boundary (keep_tail (bytes_of items)) @ DONE_EVENT)"
proof -
  obtain ended st0 where run: "relay_items p opts items (relay_start\<lparr>rl_chars := chars\<rparr>) = (ended, st0)" by fastforce
  have post: "relay_post p opts [] items ended st0"
    by (rule relay_items_post[OF relay_start_relayed _ run]) (simp add: relay_start_def)
  show ?thesis
  proof (cases ended)
    case (Answered r)
    with post assms run have "rl_calls st = []" "\<exists>error. result = upstream_error_result error"
      by (auto simp: relay_post_def relay_run_def)
    then show ?thesis
      by (auto simp: upstream_error_result_def stream_fields_get intro!: relay_outcomeI[where shown = "[]" and extra = "[]"])
  next
    case (Broken exc)
    with post assms run have b: "broken_off p (bytes_of items) st0" "broken_result p opts exc st0 = (result, st)"
      by (auto simp: relay_post_def relay_run_def)
    have "dget result ''status'' = PStr ''fail''" using b(2) by (auto simp: broken_result_def Let_def stream_fields_get)
    then show ?thesis using broken_outcome[OF b] by simp
  next
    case Finished
    with post obtain read where r: "relayed p opts read st0" "prefix read (bytes_of items)"
        "rl_runaway st0 \<noteq> None \<longrightarrow> rl_committed st0"
        "rl_runaway st0 = None \<longrightarrow> read = bytes_of items \<and> list_all (\<lambda>item. \<exists>chunk. item = Inr chunk) items"
      by (auto simp: relay_post_def)
    from Finished assms run have "finish_relay p opts st0 = (result, st)" by (simp add: relay_run_def)
    from finish_outcome[OF r this] show ?thesis .
  qed
qed

lemma relay_outcome_source:
  assumes "relay_outcome p source result st" "bytes_of source = bytes_of items"
    and "list_all (\<lambda>item. \<exists>chunk. item = Inr chunk) source \<Longrightarrow> list_all (\<lambda>item. \<exists>chunk. item = Inr chunk) items"
  shows "relay_outcome p items result st"
  using assms(1) unfolding relay_outcome_def assms(2) by (elim conjE exE, intro conjI exI) (assumption | use assms(3) in blast)+

lemma stream_outcome:
  assumes "stream_chunks_to_writer p opts items = Some (result, st)"
  shows "relay_outcome p items result st
    \<and> (dget result ''status'' = PStr ''ok'' \<and> ro_expect_done opts \<longrightarrow>
         sse_stream_ended_with_done (keep_tail (bytes_of items)) \<and> delivered (rp_answer p) (rl_calls st) = bytes_of items
         \<or> delivered (rp_answer p) (rl_calls st) = bytes_of items @ event_boundary (keep_tail (bytes_of items)) @ DONE_EVENT)"
proof (cases "relay_source opts items")
  case (Inl refused)
  with assms have "result = refused" "st = relay_start" by (auto simp: stream_chunks_to_writer_def split: if_splits)
  then show ?thesis
    using relay_source_refused[OF Inl] by (auto simp: relay_start_def intro!: relay_outcomeI[where shown = "[]" and extra = "[]"])
next
  case (Inr source)
  obtain src chars where src: "source = (src, chars)" by fastforce
  with assms Inr have "relay_run p opts src chars = (result, st)" by (auto simp: stream_chunks_to_writer_def split: if_splits)
  from relay_run_outcome[OF this] relay_source_bytes[OF Inr[unfolded src]] show ?thesis
    using relay_outcome_source by auto
qed

end
