(* ===== verification/RelayCuts.thy ===== *)
theory RelayCuts
  imports RelayFacts
begin

text \<open>
  The stream may be cut into chunks anywhere. The normalisation of line ends and the scan of the events
  held back give the same reading however it is cut, so an error that comes before the answer is
  found before the client is called.
\<close>

section \<open>Reading does not depend on how the stream is cut\<close>

lemma normalize_newlines_append:
  "a = [] \<or> last a \<noteq> CR \<or> b = [] \<or> hd b \<noteq> LF \<Longrightarrow>
     normalize_newlines (a @ b) = normalize_newlines a @ normalize_newlines b"
proof (induction a rule: normalize_newlines.induct)
  case (1 c d r)
  then show ?case by (cases "r = []") auto
next
  case (2 c)
  then show ?case by (cases b) auto
qed auto

lemma split_trailing_cr_cases:
  obtains (cr) body where "s = body @ [CR]" "split_trailing_cr s = (body, [CR])"
    | (plain) "split_trailing_cr s = (s, [])" "s = [] \<or> last s \<noteq> CR"
proof (cases "s \<noteq> [] \<and> last s = CR")
  case True
  then have "s = butlast s @ [CR]" by (metis append_butlast_last_id)
  then show thesis using True by (intro cr[of "butlast s"]) (auto simp: split_trailing_cr_def)
qed (auto simp: split_trailing_cr_def intro: plain)

lemma split_trailing_cr_append:
  "y \<noteq> [] \<Longrightarrow> split_trailing_cr (x @ y) = (x @ fst (split_trailing_cr y), snd (split_trailing_cr y))"
  by (simp add: split_trailing_cr_def butlast_append)

lemma normalize_fragment_append:
  assumes "normalize_incremental_sse_fragment a pending = (na, pa)" "normalize_incremental_sse_fragment b pa = (nb, pb)"
  shows "normalize_incremental_sse_fragment (a @ b) pending = (na @ nb, pb)"
proof -
  let ?x = "(if pending then [CR] else []) @ a"
  show ?thesis
  proof (cases ?x rule: split_trailing_cr_cases)
    case (cr body)
    let ?y = "CR # b"
    have "((if pending then [CR] else []) @ (a @ b)) = body @ ?y" using cr(1) by (metis append_Cons append_Nil append_assoc)
    then have "normalize_incremental_sse_fragment (a @ b) pending =
        (normalize_newlines (body @ fst (split_trailing_cr ?y)), snd (split_trailing_cr ?y) \<noteq> [])"
      unfolding normalize_incremental_sse_fragment_def
      by (simp only: split_trailing_cr_append[OF list.distinct(2)] prod.case)
    also have "normalize_newlines (body @ fst (split_trailing_cr ?y))
        = normalize_newlines body @ normalize_newlines (fst (split_trailing_cr ?y))"
      by (rule normalize_newlines_append) (cases b; simp add: split_trailing_cr_def)
    finally show ?thesis
      using assms cr(2) by (auto simp: normalize_incremental_sse_fragment_def split: prod.splits)
  next
    case plain
    have na: "\<not> pa" "na = normalize_newlines ?x" using assms(1) plain(1) by (auto simp: normalize_incremental_sse_fragment_def)
    show ?thesis
    proof (cases "b = []")
      case True
      then show ?thesis using assms na by (auto simp: normalize_incremental_sse_fragment_def split_trailing_cr_def)
    next
      case False
      have "split_trailing_cr (?x @ b) = (?x @ fst (split_trailing_cr b), snd (split_trailing_cr b))"
        by (rule split_trailing_cr_append[OF False])
      moreover have "normalize_newlines (?x @ fst (split_trailing_cr b)) = na @ normalize_newlines (fst (split_trailing_cr b))"
        unfolding na(2) by (rule normalize_newlines_append) (use plain(2) in auto)
      ultimately show ?thesis
        using assms(2) na(1) by (auto simp: normalize_incremental_sse_fragment_def split: prod.splits)
    qed
  qed
qed

lemma cut_blank_append: "cut_blank s = Some (a, r) \<Longrightarrow> cut_blank (s @ t) = Some (a, r @ t)"
  by (induction s arbitrary: a rule: cut_blank.induct) (auto split: if_splits)

lemma scan_events_append:
  "scan_events policy s = (d, r) \<Longrightarrow>
     scan_events policy (s @ t) = (if d = Wait then scan_events policy (r @ t) else (d, r @ t))"
proof (induction policy s arbitrary: d r rule: scan_events.induct)
  case (1 policy s)
  show ?case
  proof (cases "cut_blank s")
    case None
    then show ?thesis using "1.prems" by (simp add: scan_events.simps[of policy s])
  next
    case (Some p)
    obtain event rest where p: "p = (event, rest)" by fastforce
    have whole: "scan_events policy (s @ t) = (case stream_precommit_event_decision event policy of
        Wait \<Rightarrow> scan_events policy (rest @ t) | decision \<Rightarrow> (decision, rest @ t))"
      using cut_blank_append[of s event rest t] Some p by (simp add: scan_events.simps[of policy "s @ t"])
    have first: "scan_events policy s = (case stream_precommit_event_decision event policy of
        Wait \<Rightarrow> scan_events policy rest | decision \<Rightarrow> (decision, rest))"
      using Some p by (simp add: scan_events.simps[of policy s])
    show ?thesis
    proof (cases "stream_precommit_event_decision event policy")
      case Wait
      then show ?thesis using "1.IH"[OF Some p[symmetric] Wait] "1.prems" whole first by simp
    next
      case Commit
      then have "d = Commit" "r = rest" using "1.prems" first by simp_all
      then show ?thesis using whole \<open>stream_precommit_event_decision event policy = Commit\<close> by simp
    next
      case (Retry error)
      then have "d = Retry error" "r = rest" using "1.prems" first by simp_all
      then show ?thesis using whole \<open>stream_precommit_event_decision event policy = Retry error\<close> by simp
    qed
  qed
qed

text \<open>The decision on what has been read so far, as if it had come in one piece.\<close>

definition precommit_verdict :: "string \<Rightarrow> string \<Rightarrow> precommit_decision" where
  "precommit_verdict policy s = fst (scan_events policy (fst (normalize_incremental_sse_fragment s False)))"

definition scanned :: "relay_options \<Rightarrow> string \<Rightarrow> relay_state \<Rightarrow> bool" where
  "scanned opts s st \<longleftrightarrow>
     scan_events (ro_policy opts) (fst (normalize_incremental_sse_fragment s False)) = (Wait, rl_pre_scan st)
     \<and> rl_pre_cr st = snd (normalize_incremental_sse_fragment s False)
     \<and> rl_pre_buffer st = s \<and> \<not> rl_committed st \<and> rl_calls st = [] \<and> rl_bytes st = 0"

lemma verdict_persists:
  assumes "precommit_verdict policy s \<noteq> Wait"
  shows "precommit_verdict policy (s @ t) = precommit_verdict policy s"
proof -
  obtain n c where a: "normalize_incremental_sse_fragment s False = (n, c)" by fastforce
  obtain n' c' where b: "normalize_incremental_sse_fragment t c = (n', c')" by fastforce
  obtain d r where d: "scan_events policy n = (d, r)" by fastforce
  show ?thesis
    using assms normalize_fragment_append[OF a b] scan_events_append[OF d, of n'] a d by (simp add: precommit_verdict_def)
qed

lemma opening_brace_append:
  assumes "starts_with ''{'' (lstrip_by is_byte_space (take n a))"
  shows "starts_with ''{'' (lstrip_by is_byte_space (a @ b))"
proof -
  have "dropWhile is_byte_space (take n a) \<noteq> []"
    using assms unfolding lstrip_by_def starts_with_def by (cases "dropWhile is_byte_space (take n a)") simp_all
  then have "dropWhile is_byte_space ((take n a) @ (drop n a @ b)) = dropWhile is_byte_space (take n a) @ drop n a @ b"
    by (metis dropWhile_eq_Nil_conv dropWhile_append)
  then have "dropWhile is_byte_space (a @ b) = dropWhile is_byte_space (take n a) @ drop n a @ b"
    by (simp flip: append_assoc)
  then show ?thesis using assms by (simp add: lstrip_by_def starts_with_def)
qed

lemma precommit_scanned:
  assumes inv: "scanned opts s st" and room: "length (s @ chunk) < STREAM_PRECOMMIT_MAX_BYTES"
    and plain: "\<not> starts_with ''{'' (lstrip_by is_byte_space (s @ chunk))"
    and run: "precommit opts chunk st = (rel, st')"
  shows "case precommit_verdict (ro_policy opts) (s @ chunk) of
      Wait \<Rightarrow> rel = Held \<and> scanned opts (s @ chunk) st' \<and> rl_runaway st' = rl_runaway st
    | Retry error \<Rightarrow> rel = Refused error \<and> rl_calls st' = []
    | Commit \<Rightarrow> True"
proof -
  let ?policy = "ro_policy opts"
  obtain n c where a: "normalize_incremental_sse_fragment s False = (n, c)" by fastforce
  obtain n' c' where b: "normalize_incremental_sse_fragment chunk c = (n', c')" by fastforce
  note ab = normalize_fragment_append[OF a b]
  have fits: "length chunk \<le> room_left st" "take (room_left st) chunk = chunk"
    using inv room by (auto simp: scanned_def room_left_def)
  have held: "scan_events ?policy n = (Wait, rl_pre_scan st)" "rl_pre_cr st = c" "rl_pre_buffer st = s"
    using inv a by (auto simp: scanned_def)
  have bare: "bare_error chunk st = None"
    using plain opening_brace_append[of 64 chunk "[]"] held(3) by (auto simp: bare_error_def)
  obtain d r where d: "scan_events ?policy (rl_pre_scan st @ n') = (d, r)" by fastforce
  have whole: "scan_events ?policy (n @ n') = (d, r)" using scan_events_append[OF held(1), of n'] d by simp
  then have verdict: "precommit_verdict ?policy (s @ chunk) = d" using ab by (simp add: precommit_verdict_def)
  have scan: "precommit_scan opts chunk st = (d, st\<lparr>rl_pre_buffer := s @ chunk, rl_pre_scan := r, rl_pre_cr := c'\<rparr>)"
    using b bare d fits held by (simp add: precommit_scan_def)
  show ?thesis
    using run scan fits room inv whole ab verdict
    by (cases d) (auto simp: precommit_def Let_def scanned_def)
qed

lemma relay_items_scanned:
  assumes "scanned opts s st" "rl_runaway st = None" "ro_expect_done opts" "ro_policy opts \<noteq> ''immediate''"
    and "length (s @ concat chunks) < STREAM_PRECOMMIT_MAX_BYTES"
    and "\<not> starts_with ''{'' (lstrip_by is_byte_space (s @ concat chunks))"
    and "precommit_verdict (ro_policy opts) (s @ concat chunks) = Retry error"
  shows "\<exists>st'. relay_items p opts (map Inr chunks @ later) st = (Answered (upstream_error_result error), st') \<and> rl_calls st' = []"
  using assms
proof (induction chunks arbitrary: s st)
  case Nil
  then show ?case by (auto simp: scanned_def precommit_verdict_def)
next
  case (Cons chunk chunks)
  show ?case
  proof (cases "chunk = []")
    case True
    then show ?thesis using Cons by simp
  next
    case False
    obtain rel st1 where r: "precommit opts chunk st = (rel, st1)" by fastforce
    have release: "release_of opts chunk st = (rel, st1)"
      using r Cons.prems(1,3,4) by (simp add: release_of_def scanned_def)
    have small: "\<not> MAX_UPSTREAM_RESPONSE_BYTES < rl_bytes st + length (rl_pre_buffer st) + length chunk"
      using Cons.prems(1,5) by (simp add: scanned_def MAX_UPSTREAM_RESPONSE_BYTES_def STREAM_PRECOMMIT_MAX_BYTES_def)
    have plain: "\<not> starts_with ''{'' (lstrip_by is_byte_space (s @ chunk))"
      using Cons.prems(6) opening_brace_append[of "length (s @ chunk)" "s @ chunk" "concat chunks"] by auto
    have room: "length (s @ chunk) < STREAM_PRECOMMIT_MAX_BYTES" using Cons.prems(5) by simp
    note one = precommit_scanned[OF Cons.prems(1) room plain r]
    let ?v = "precommit_verdict (ro_policy opts) (s @ chunk)"
    have persists: "?v = Wait \<or> ?v = Retry error"
    proof (cases "?v = Wait")
      case False
      from verdict_persists[OF this, of "concat chunks"] Cons.prems(7) show ?thesis by simp
    qed simp
    from persists show ?thesis
    proof
      assume "?v = Wait"
      with one have "rel = Held" "scanned opts (s @ chunk) st1" "rl_runaway st1 = None" using Cons.prems(2) by auto
      then show ?thesis
        using Cons.IH[of "s @ chunk" st1] Cons.prems(3-7) False release small by (simp add: relay_item_def)
    next
      assume "?v = Retry error"
      with one have "rel = Refused error" "rl_calls st1 = []" by auto
      then show ?thesis using False release small by (simp add: relay_item_def)
    qed
  qed
qed

lemma start_scanned: "scanned opts [] (relay_start\<lparr>rl_chars := n\<rparr>)"
  by (simp add: scanned_def relay_start_def normalize_incremental_sse_fragment_def split_trailing_cr_def scan_events.simps)

lemma early_error_refused:
  assumes "ro_policy opts \<in> set STREAM_COMMIT_POLICIES" "ro_policy opts \<noteq> ''immediate''" "ro_expect_done opts"
    and "length (concat chunks) < STREAM_PRECOMMIT_MAX_BYTES"
    and "\<not> starts_with ''{'' (lstrip_by is_byte_space (concat chunks))"
    and "precommit_verdict (ro_policy opts) (concat chunks) = Retry error"
  obtains st where "stream_chunks_to_writer p opts (map Inr chunks @ later) = Some (upstream_error_result error, st)" "rl_calls st = []"
proof -
  have "\<exists>st. relay_items p opts (map Inr chunks @ later) (relay_start\<lparr>rl_chars := 0\<rparr>) = (Answered (upstream_error_result error), st)
      \<and> rl_calls st = []"
    by (rule relay_items_scanned[OF start_scanned]) (use assms in \<open>simp_all add: relay_start_def\<close>)
  then show thesis
    using assms(1,3) that
    by (auto simp: stream_chunks_to_writer_def relay_source_def relay_run_def split: option.split)
qed

end
