(* ===== verification/RelayBudget.thy ===== *)
theory RelayBudget
  imports RelayCuts
begin

text \<open>
  The budget of a streamed answer: what the relay has counted stays within it as long as it goes on,
  and a run that passed it reads nothing further.
\<close>

section \<open>The budget\<close>

text \<open>As long as the relay goes on, what it counted is within the budget.\<close>

definition within_budget :: "relay_options \<Rightarrow> relay_state \<Rightarrow> bool" where
  "within_budget opts st \<longleftrightarrow>
     (\<forall>limit. ro_max_chars opts = Some limit \<longrightarrow> rl_runaway st = None \<longrightarrow> rl_chars st \<le> limit)"

lemma within_budget_cong:
  "rl_chars st' = rl_chars st \<Longrightarrow> rl_runaway st' = rl_runaway st \<Longrightarrow> within_budget opts st' = within_budget opts st"
  by (simp add: within_budget_def)

lemma observe_budget_within:
  "within_budget opts st \<Longrightarrow> within_budget opts (observe_budget opts chunk st)"
  by (auto simp: within_budget_def observe_budget_def Let_def split: bool.splits option.splits prod.splits)

lemma observers_budget:
  "rl_chars (mark_first_delta p opts st) = rl_chars st" "rl_runaway (mark_first_delta p opts st) = rl_runaway st"
  "rl_chars (observe_deliverable p opts chunk st) = rl_chars st" "rl_runaway (observe_deliverable p opts chunk st) = rl_runaway st"
  "rl_chars (observe_normalization opts chunk st) = rl_chars st" "rl_runaway (observe_normalization opts chunk st) = rl_runaway st"
  "rl_chars (last_normalization opts st) = rl_chars st" "rl_runaway (last_normalization opts st) = rl_runaway st"
proof -
  show mark: "rl_chars (mark_first_delta p opts st) = rl_chars st" "rl_runaway (mark_first_delta p opts st) = rl_runaway st" for st
    by (simp_all add: mark_first_delta_def split: option.split)
  show "rl_chars (observe_deliverable p opts chunk st) = rl_chars st" "rl_runaway (observe_deliverable p opts chunk st) = rl_runaway st"
    by (auto simp: observe_deliverable_def Let_def mark split: prod.split)
qed (auto simp: observe_normalization_def last_normalization_def Let_def split: prod.split)

lemma observe_chunk_within: "within_budget opts st \<Longrightarrow> within_budget opts (observe_chunk p opts chunk st)"
  unfolding observe_chunk_def Let_def
  by (intro observe_budget_within) (simp add: within_budget_def observers_budget)

lemma relay_chunk_within:
  assumes "within_budget opts st" "relay_chunk p opts chunk st = (None, st')"
  shows "within_budget opts st'"
proof -
  let ?st1 = "snd (call_client p (WriteChunk chunk) (st\<lparr>rl_committed := True, rl_writing := True\<rparr>))"
  have "within_budget opts (observe_chunk p opts chunk ?st1)"
    by (rule observe_chunk_within) (use assms(1) in \<open>simp add: within_budget_def call_client_def Let_def\<close>)
  moreover have "rl_chars st' = rl_chars (observe_chunk p opts chunk ?st1)" "rl_runaway st' = rl_runaway (observe_chunk p opts chunk ?st1)"
    using assms(2) by (auto simp: relay_chunk_def call_client_def Let_def split: option.splits)
  ultimately show ?thesis by (simp add: within_budget_def)
qed

lemma relay_chunks_within:
  "within_budget opts st \<Longrightarrow> relay_chunks p opts chunks st = (None, st') \<Longrightarrow> within_budget opts st'"
  by (induction chunks arbitrary: st) (auto split: prod.splits option.splits dest: relay_chunk_within)

lemma release_within:
  assumes "within_budget opts st" "release_of opts chunk st = (rel, st')"
  shows "within_budget opts st'"
proof -
  have scan: "rl_chars st1 = rl_chars st \<and> rl_runaway st1 = rl_runaway st" if "precommit_scan opts chunk st = (d, st1)" for d st1
    by (subst precommit_scan_frame[OF that], subst (2) precommit_scan_frame[OF that]) simp
  have "rl_chars st' = rl_chars st \<and> rl_runaway st' = rl_runaway st"
    using assms(2) by (auto simp: release_of_def precommit_def Let_def dest: scan split: if_splits prod.splits option.splits precommit_decision.splits)
  with assms(1) show ?thesis by (simp add: within_budget_def)
qed

lemma relay_items_within:
  "within_budget opts st \<Longrightarrow> relay_items p opts items st = (Finished, st') \<Longrightarrow> within_budget opts st'"
proof (induction items arbitrary: st)
  case (Cons item items)
  show ?case
  proof (cases item)
    case (Inr chunk)
    show ?thesis
    proof (cases "chunk = []")
      case False
      obtain ended st1 where one: "relay_item p opts chunk st = (ended, st1)" by fastforce
      have "within_budget opts st1" if "ended = None \<or> ended = Some Finished"
        using one that Cons.prems(1)
        by (auto simp: relay_item_def split: if_splits prod.splits release.splits option.splits
            dest: relay_chunks_within release_within)
      then show ?thesis using Cons.IH Cons.prems(2) one Inr False by (auto split: option.splits)
    qed (use Cons Inr in simp)
  qed (use Cons.prems in simp)
qed simp

lemma supply_done_counts:
  assumes "supply_done p opts finish_reason st = (result, st')" "dget result ''status'' = PStr ''ok''"
  shows "rl_chars st' = rl_chars st \<and> (\<exists>st'' reason. result = ok_result opts reason True st'' \<and> rl_chars st'' = rl_chars st)"
  using assms by (auto simp: supply_done_def call_client_def Let_def stream_fields_get split: option.splits)

lemma finish_within:
  assumes "finish_relay p opts st = (result, st')" "dget result ''status'' = PStr ''ok''"
  shows "rl_runaway st = None \<and> rl_chars st' = rl_chars st \<and> (\<exists>reason supplied st''. result = ok_result opts reason supplied st'' \<and> rl_chars st'' = rl_chars st)"
proof (cases "rl_runaway st")
  case (Some detail)
  then show ?thesis using assms by (auto simp: finish_relay_def told_failure_def stream_fields_get)
next
  case None
  let ?st1 = "last_normalization opts st"
  have counts: "rl_chars ?st1 = rl_chars st" by (simp add: observers_budget)
  show ?thesis
  proof (cases "rl_committed st")
    case False
    then show ?thesis using assms None by (auto simp: finish_relay_def stream_fields_get0)
  next
    case True
    note run = assms(1)[unfolded finish_relay_def None option.case Let_def]
    show ?thesis
    proof (cases "rl_error_seen ?st1")
      case True
      then show ?thesis using run assms(2) \<open>rl_committed st\<close> by (auto simp: told_failure_def stream_fields_get)
    next
      case quiet: False
      show ?thesis
      proof (cases "\<not> ro_expect_done opts \<or> sse_stream_ended_with_done (rl_tail ?st1)")
        case True
        then show ?thesis using run quiet \<open>rl_committed st\<close> None counts by auto
      next
        case ended: False
        show ?thesis
        proof (cases "stream_finish_reason opts ?st1 = []")
          case True
          then show ?thesis using run quiet ended assms(2) \<open>rl_committed st\<close> by (auto simp: told_failure_def stream_fields_get)
        next
          case False
          with run quiet ended \<open>rl_committed st\<close>
          have "supply_done p opts (stream_finish_reason opts ?st1) ?st1 = (result, st')" by simp
          from supply_done_counts[OF this assms(2)] None counts show ?thesis by fastforce
        qed
      qed
    qed
  qed
qed

text \<open>A run that ended because the budget was passed reads nothing further.\<close>

lemma relay_items_cut:
  "relay_items p opts items st = (Finished, st') \<Longrightarrow> rl_runaway st' \<noteq> None \<Longrightarrow> rl_runaway st = None \<Longrightarrow>
     relay_items p opts (items @ later) st = (Finished, st')"
proof (induction items arbitrary: st)
  case (Cons item items)
  show ?case
  proof (cases item)
    case (Inr chunk)
    show ?thesis
    proof (cases "chunk = []")
      case False
      obtain ended st1 where one: "relay_item p opts chunk st = (ended, st1)" by fastforce
      show ?thesis
      proof (cases ended)
        case None
        have "rl_runaway st1 = None"
        proof -
          have scan: "rl_runaway st1 = rl_runaway st" if "precommit_scan opts chunk st = (d, st1)" for d st1
            by (subst precommit_scan_frame[OF that]) simp
          have "rl_runaway st2 = rl_runaway st" if "release_of opts chunk st = (rel, st2)" for rel st2
            using that by (auto simp: release_of_def precommit_def Let_def dest: scan split: if_splits prod.splits option.splits precommit_decision.splits)
          then show ?thesis
            using one None Cons.prems(3) by (auto simp: relay_item_def split: if_splits prod.splits release.splits option.splits)
        qed
        then show ?thesis using Cons None one Inr False by simp
      next
        case (Some e)
        then show ?thesis using Cons.prems one Inr False by simp
      qed
    qed (use Cons Inr in simp)
  qed (use Cons.prems in simp)
qed simp

lemma finish_runaway:
  assumes "finish_relay p opts st = (result, st')" "dget result ''reason'' = PStr ''runaway_output''"
  shows "rl_runaway st \<noteq> None"
proof
  assume quiet: "rl_runaway st = None"
  have supplied: "dget result ''reason'' = PStr ''ok'' \<or> dget result ''reason'' = PStr ''client_disconnected''"
    if "supply_done p opts finish_reason st1 = (result, st')" for finish_reason st1
    using that by (auto simp: supply_done_def call_client_def Let_def stream_fields_get ok_result_def split: option.splits)
  show False
    using assms quiet supplied
    by (auto simp: finish_relay_def Let_def told_failure_def stream_fields_get stream_fields_get0 ok_result_def split: if_splits)
qed

lemma relay_run_cut:
  assumes "relay_run p opts items chars = (result, st)" "dget result ''reason'' = PStr ''runaway_output''"
  shows "relay_run p opts (items @ later) chars = (result, st)"
proof -
  obtain ended st0 where run: "relay_items p opts items (relay_start\<lparr>rl_chars := chars\<rparr>) = (ended, st0)" by fastforce
  have answered: "result \<noteq> r" if "relay_items p opts items (relay_start\<lparr>rl_chars := chars\<rparr>) = (Answered r, st0)" for r
    using relay_items_post[OF relay_start_relayed _ that] assms(2)
    by (auto simp: relay_post_def relay_start_def upstream_error_result_def stream_fields_get)
  show ?thesis
  proof (cases ended)
    case (Answered r)
    then show ?thesis using answered run assms(1) by (auto simp: relay_run_def)
  next
    case (Broken exc)
    then show ?thesis using run assms by (auto simp: relay_run_def broken_result_def Let_def stream_fields_get split: if_splits)
  next
    case Finished
    with run assms(1) have fin: "finish_relay p opts st0 = (result, st)" by (simp add: relay_run_def)
    have "relay_items p opts (items @ later) (relay_start\<lparr>rl_chars := chars\<rparr>) = (Finished, st0)"
      by (rule relay_items_cut) (use run Finished finish_runaway[OF fin assms(2)] in \<open>simp_all add: relay_start_def\<close>)
    then show ?thesis using fin by (simp add: relay_run_def)
  qed
qed

end
