(* ===== verification/RelayCount.thy ===== *)
theory RelayCount
  imports RelayBudget
begin

text \<open>
  What the observer of the budget counts does not depend on how the stream is cut: it is the count of
  the complete events of the whole stream. The count of a text by the events between its blank lines
  is first shown to be a count by paragraphs of lines, which splits at any blank line.
\<close>

section \<open>The characters of a text, paragraph by paragraph\<close>

lemma split_char_append: "split_char c (a @ c # b) = split_char c a @ split_char c b"
  by (induction a) (auto split: list.split)

lemma split_char_snoc: "x \<noteq> c \<Longrightarrow> split_char c (s @ [x]) = butlast (split_char c s) @ [last (split_char c s) @ [x]]"
proof (induction s)
  case (Cons y s)
  then show ?case by (cases "split_char c s") (auto split: list.split)
qed simp

lemma split_char_last:
  "split_char c (last (split_char c p) @ s) = (case split_char c s of w # ws \<Rightarrow> (last (split_char c p) @ w) # ws | [] \<Rightarrow> [])"
proof -
  have "split_char c (q @ s) = (case split_char c s of w # ws \<Rightarrow> (q @ w) # ws | [] \<Rightarrow> [])" if "c \<notin> set q" for q
    using that by (induction q) (auto split: list.split)
  moreover have "c \<notin> set (last (split_char c p))"
    by (induction p) (auto split: list.split)
  ultimately show ?thesis by blast
qed

definition solid :: "string list \<Rightarrow> string list" where
  "solid = filter (\<lambda>line. line \<noteq> [])"

text \<open>The characters of the lines of one event.\<close>

definition lines_chars :: "string list \<Rightarrow> nat option" where
  "lines_chars lines = event_chars (join [LF] lines)"

fun paragraph_chars :: "string list \<Rightarrow> string list \<Rightarrow> nat option list" where
  "paragraph_chars acc [] = [lines_chars acc]"
| "paragraph_chars acc (line # lines) =
     (if line = [] then lines_chars acc # paragraph_chars [] lines else paragraph_chars (acc @ [line]) lines)"

definition sum_counts :: "nat option list \<Rightarrow> nat option" where
  "sum_counts counts = map_option sum_list (those counts)"

definition text_chars :: "string \<Rightarrow> nat option" where
  "text_chars s = sum_counts (paragraph_chars [] (split_char LF s))"

lemma sum_counts_simps [simp]:
  "sum_counts [] = Some 0" "sum_counts (None # counts) = None" "sum_counts (Some n # counts) = map_option ((+) n) (sum_counts counts)"
  by (simp_all add: sum_counts_def option.map_comp comp_def)

lemma sum_counts_append: "sum_counts (xs @ ys) = (case sum_counts xs of None \<Rightarrow> None | Some n \<Rightarrow> map_option ((+) n) (sum_counts ys))"
proof (induction xs)
  case Nil
  show ?case by (cases "sum_counts ys") simp_all
next
  case (Cons x xs)
  then show ?case by (cases x; cases "sum_counts xs"; cases "sum_counts ys") (simp_all add: add.assoc)
qed

text \<open>Empty lines do not count.\<close>

lemma event_chars_fields:
  "event_fields is_byte_space e = event_fields is_byte_space e' \<Longrightarrow> event_chars e = event_chars e'"
  by (simp add: event_chars_def strict_event_def)

lemma fields_solid:
  "event_fields ws e = map partition_colon (filter (\<lambda>line. line \<noteq> [] \<and> \<not> starts_with '':'' line) (map (strip_by ws) (solid (split_char LF e))))"
proof -
  have "strip_by ws [] = []" by (simp add: strip_by_def lstrip_by_def rstrip_by_def)
  then have "filter (\<lambda>line. line \<noteq> [] \<and> \<not> starts_with '':'' line) (map (strip_by ws) lines)
      = filter (\<lambda>line. line \<noteq> [] \<and> \<not> starts_with '':'' line) (map (strip_by ws) (solid lines))" for lines
    by (induction lines) (auto simp: solid_def)
  then show ?thesis by (simp add: event_fields_def)
qed

lemma event_chars_solid: "solid (split_char LF e) = solid (split_char LF e') \<Longrightarrow> event_chars e = event_chars e'"
  by (rule event_chars_fields) (simp add: fields_solid)

lemma split_join:
  "list_all (\<lambda>line. LF \<notin> set line) lines \<Longrightarrow> lines \<noteq> [] \<Longrightarrow> split_char LF (join [LF] lines) = lines"
proof (induction lines)
  case (Cons w ws)
  have plain: "split_char LF w = [w]" if "LF \<notin> set w" for w using that by (induction w) auto
  show ?case
  proof (cases ws)
    case Nil
    then show ?thesis using Cons.prems plain by (simp add: join_def)
  next
    case (Cons v vs)
    then have "join [LF] (w # ws) = w @ LF # join [LF] ws" by (simp add: join_def)
    then show ?thesis using Cons.prems Cons.IH Cons plain by (simp add: split_char_append)
  qed
qed simp

lemma lines_no_lf: "list_all (\<lambda>line. LF \<notin> set line) (split_char LF s)"
  by (induction s) (auto split: list.split)

lemma lines_chars_solid:
  assumes "list_all (\<lambda>line. LF \<notin> set line) lines" "solid (split_char LF e) = solid lines"
  shows "lines_chars lines = event_chars e"
proof -
  have "solid (split_char LF (join [LF] lines)) = solid lines"
    using split_join[OF assms(1)] by (cases "lines = []") (auto simp: join_def solid_def)
  with assms(2) show ?thesis unfolding lines_chars_def by (intro event_chars_solid) simp
qed

lemma event_chars_Nil [simp]: "event_chars [] = Some 0"
  by code_simp

text \<open>Splitting at blank lines, from the left and in pairs, counts what counting by lines counts.\<close>

lemma add_nothing [simp]: "map_option ((+) (0::nat)) x = x"
  by (cases x) simp_all

definition prepend :: "string \<Rightarrow> string list \<Rightarrow> string list" where
  "prepend p pieces = (case pieces of [] \<Rightarrow> [] | w # ws \<Rightarrow> (p @ w) # ws)"

lemma split_blank_nonempty [simp]: "split_blank s \<noteq> []"
  by (induction s rule: split_blank.induct) (auto split: list.split)

lemma prepend_step: "\<not> (c = LF \<and> d = LF) \<Longrightarrow> prepend p (split_blank (c # d # r)) = prepend (p @ [c]) (split_blank (d # r))"
  by (cases "split_blank (d # r)") (auto simp: prepend_def)

lemma solid_simps [simp]: "solid [] = []" "solid (l # ls) = (if l = [] then solid ls else l # solid ls)" "solid (xs @ ys) = solid xs @ solid ys"
  by (simp_all add: solid_def)

lemma lines_split: "split_char LF p = butlast (split_char LF p) @ [last (split_char LF p)]"
  by simp

lemma last_line_empty: "last (split_char LF p) = [] \<longleftrightarrow> p = [] \<or> last p = LF"
proof (cases p rule: rev_cases)
  case (snoc q x)
  then show ?thesis using split_char_append[of LF q "[]"] split_char_snoc[of x LF q] by (cases "x = LF") auto
qed simp

lemma line_of_last: "LF \<notin> set (last (split_char LF p))"
  using lines_no_lf[of p] by (simp add: list_all_iff)

lemma solid_no_lf: "list_all (\<lambda>line. LF \<notin> set line) (solid (butlast (split_char LF p)))"
  using lines_no_lf[of p] by (auto simp: list_all_iff solid_def dest: in_set_butlastD)

lemma closed_piece:
  assumes "acc = solid (butlast (split_char LF p))" "q = last (split_char LF p)"
  shows "lines_chars (acc @ [q]) = event_chars p" "q = [] \<Longrightarrow> lines_chars acc = event_chars p"
    "lines_chars (acc @ [q]) = event_chars (p @ [LF])"
proof -
  have s: "solid (split_char LF p) = acc @ solid [q]" using assms lines_split[of p] by (metis solid_simps(3))
  have n: "list_all (\<lambda>line. LF \<notin> set line) acc" "LF \<notin> set q" using assms solid_no_lf line_of_last by auto
  have a: "solid acc = acc" by (simp add: assms(1) solid_def)
  show "lines_chars (acc @ [q]) = event_chars p"
    by (rule lines_chars_solid) (use n s a in auto)
  show "lines_chars acc = event_chars p" if "q = []"
    by (rule lines_chars_solid) (use n s a that in auto)
  show "lines_chars (acc @ [q]) = event_chars (p @ [LF])"
    by (rule lines_chars_solid) (use n s a split_char_append[of LF p "[]"] in auto)
qed

lemma lines_chars_Nil [simp]: "lines_chars [] = Some 0"
  by (simp add: lines_chars_def join_def)

lemma split_counts:
  assumes "p = [] \<or> last p \<noteq> LF \<or> s = [] \<or> hd s \<noteq> LF"
  shows "sum_counts (map event_chars (prepend p (split_blank s)))
    = sum_counts (paragraph_chars (solid (butlast (split_char LF p))) (split_char LF (last (split_char LF p) @ s)))"
  using assms
proof (induction s arbitrary: p rule: split_blank.induct[case_names Step Empty Single])
  case (Step c d r)
  let ?acc = "solid (butlast (split_char LF p))" and ?q = "last (split_char LF p)"
  show ?case
  proof (cases "c = LF \<and> d = LF")
    case True
    then have q: "?q = [] \<longrightarrow> p = []" using Step.prems by (auto simp: last_line_empty)
    have lines: "split_char LF (?q @ c # d # r) = ?q # [] # split_char LF r"
      using True split_char_append[of LF ?q "LF # r"] line_of_last[of p] by (simp add: split_char_last)
    have ih: "sum_counts (map event_chars (split_blank r)) = sum_counts (paragraph_chars [] (split_char LF r))"
      using Step.IH(1)[OF True, of "[]"] by (cases "split_blank r") (auto simp: prepend_def)
    have pieces: "prepend p (split_blank (c # d # r)) = p # split_blank r" using True by (simp add: prepend_def)
    show ?thesis
    proof (cases "?q = []")
      case True
      then show ?thesis using q lines pieces ih by simp
    next
      case False
      then show ?thesis using lines pieces ih closed_piece(1)[of ?acc p ?q]
        by (cases "event_chars p") simp_all
    qed
  next
    case False
    have inv: "p @ [c] = [] \<or> last (p @ [c]) \<noteq> LF \<or> d # r = [] \<or> hd (d # r) \<noteq> LF" using False by auto
    have "sum_counts (map event_chars (prepend p (split_blank (c # d # r)))) = sum_counts (map event_chars (prepend (p @ [c]) (split_blank (d # r))))"
      using prepend_step[OF False] by simp
    also have "\<dots> = sum_counts (paragraph_chars (solid (butlast (split_char LF (p @ [c])))) (split_char LF (last (split_char LF (p @ [c])) @ d # r)))"
      using Step.IH(2)[OF False inv] .
    also have "\<dots> = sum_counts (paragraph_chars ?acc (split_char LF (?q @ c # d # r)))"
    proof (cases "c = LF")
      case True
      have l: "split_char LF (p @ [LF]) = split_char LF p @ [[]]" using split_char_append[of LF p "[]"] by simp
      have r: "split_char LF (?q @ LF # d # r) = ?q # split_char LF (d # r)"
        using split_char_append[of LF ?q "d # r"] split_char_last[of LF p "[]"] by simp
      have acc: "solid (split_char LF p) = ?acc @ solid [?q]" using lines_split[of p] by (metis solid_simps(3))
      show ?thesis
      proof (cases "?q = []")
        case True
        then have "p = []" using Step.prems \<open>c = LF\<close> by (auto simp: last_line_empty)
        then show ?thesis using \<open>c = LF\<close> by simp
      next
        case False
        then show ?thesis using \<open>c = LF\<close> l r acc by simp
      qed
    next
      case False
      then show ?thesis by (simp add: split_char_snoc butlast_append)
    qed
    finally show ?thesis .
  qed
next
  case (Empty p)
  let ?acc = "solid (butlast (split_char LF p))" and ?q = "last (split_char LF p)"
  have "split_char LF ?q = [?q]" using split_char_last[of LF p "[]"] by simp
  then show ?case
    using closed_piece[of ?acc p ?q] by (cases "event_chars p") (auto simp: prepend_def)
next
  case (Single c p)
  let ?acc = "solid (butlast (split_char LF p))" and ?q = "last (split_char LF p)"
  show ?case
  proof (cases "c = LF")
    case True
    then have q: "?q = [] \<longrightarrow> p = []" using Single.prems by (auto simp: last_line_empty)
    have "split_char LF (?q @ [LF]) = [?q, []]"
      using split_char_append[of LF ?q "[]"] split_char_last[of LF p "[]"] by simp
    moreover have "event_chars [LF] = Some 0" by code_simp
    ultimately show ?thesis
      using True q closed_piece(3)[of ?acc p ?q] by (cases "event_chars (p @ [LF])") (auto simp: prepend_def)
  next
    case False
    have l: "split_char LF (p @ [c]) = butlast (split_char LF p) @ [?q @ [c]]" by (rule split_char_snoc[OF False])
    have "split_char LF [c] = [[c]]" using False by simp
    with split_char_last[of LF p "[c]"] have "split_char LF (?q @ [c]) = [?q @ [c]]" by (simp only: list.case)
    then have "paragraph_chars ?acc (split_char LF (?q @ [c])) = [lines_chars (?acc @ [?q @ [c]])]" by simp
    moreover have "lines_chars (?acc @ [?q @ [c]]) = event_chars (p @ [c])"
      by (rule closed_piece(1)) (simp_all only: l butlast_snoc last_snoc)
    moreover have "prepend p (split_blank [c]) = [p @ [c]]" by (simp add: prepend_def)
    ultimately show ?thesis by (simp only: list.map)
  qed
qed

lemma complete_chars_text: "complete_sse_events_content_chars s = text_chars s"
proof -
  have "prepend [] (split_blank s) = split_blank s" by (cases "split_blank s") (simp_all add: prepend_def)
  then show ?thesis
    using split_counts[of "[]" s] by (simp add: complete_sse_events_content_chars_def text_chars_def sum_counts_def)
qed

lemma paragraphs_append: "paragraph_chars acc (xs @ [] # ys) = paragraph_chars acc xs @ paragraph_chars [] ys"
  by (induction xs arbitrary: acc) auto

lemma text_chars_append:
  "text_chars (a @ LF # LF # b) = (case text_chars a of None \<Rightarrow> None | Some n \<Rightarrow> map_option ((+) n) (text_chars b))"
  using split_char_append[of LF a "LF # b"]
  by (cases "text_chars a") (simp_all add: text_chars_def paragraphs_append sum_counts_append)

lemma text_chars_Nil [simp]: "text_chars [] = Some 0"
  by (simp add: text_chars_def)

lemma text_chars_lf: "text_chars (a @ [LF]) = text_chars a"
proof -
  have "paragraph_chars [] (split_char LF a @ [[]]) = paragraph_chars [] (split_char LF a) @ [lines_chars []]"
    using paragraphs_append[of "[]" "split_char LF a" "[]"] by simp
  then show ?thesis
    using split_char_append[of LF a "[]"] by (simp add: text_chars_def sum_counts_append split: option.split)
qed

section \<open>Blank lines\<close>

definition has_blank :: "string \<Rightarrow> bool" where
  "has_blank s \<longleftrightarrow> (\<exists>a b. s = a @ LF # LF # b)"

lemma has_blankI: "has_blank (a @ LF # LF # b)"
  by (auto simp: has_blank_def)

lemma has_blank_append: "has_blank b \<Longrightarrow> has_blank (a @ b)" "has_blank a \<Longrightarrow> has_blank (a @ b)"
  by (auto simp: has_blank_def) (metis append.assoc, metis append.assoc append_Cons)

lemma has_blank_rev: "has_blank (rev s) \<longleftrightarrow> has_blank s"
proof -
  have "has_blank (rev s)" if "has_blank s" for s
    using that has_blankI[of "rev b" "rev a" for a b] by (auto simp: has_blank_def)
  from this[of s] this[of "rev s"] show ?thesis by auto
qed

lemma has_blank_Cons: "has_blank (c # s) \<longleftrightarrow> has_blank s \<or> c = LF \<and> (\<exists>r. s = LF # r)"
proof
  assume "has_blank (c # s)"
  then obtain a b where "c # s = a @ LF # LF # b" by (auto simp: has_blank_def)
  then show "has_blank s \<or> c = LF \<and> (\<exists>r. s = LF # r)"
    by (cases a) (auto simp: has_blank_def)
next
  assume "has_blank s \<or> c = LF \<and> (\<exists>r. s = LF # r)"
  then show "has_blank (c # s)" using has_blank_append(1)[of s "[c]"] has_blankI[of "[]"] by auto
qed

lemma cut_blank_None: "cut_blank s = None \<longleftrightarrow> \<not> has_blank s"
proof (induction s rule: cut_blank.induct)
  case (1 c d r)
  then show ?case by (auto simp: has_blank_Cons[of c])
qed (auto simp: has_blank_def append_eq_Cons_conv Cons_eq_append_conv)

lemma cut_blank_Some: "cut_blank s = Some (a, b) \<Longrightarrow> s = a @ LF # LF # b \<and> \<not> has_blank (a @ [LF])"
proof (induction s arbitrary: a rule: cut_blank.induct)
  case (1 c d r)
  show ?case
  proof (cases "c = LF \<and> d = LF")
    case True
    then show ?thesis using "1.prems" by (auto simp: has_blank_def Cons_eq_append_conv)
  next
    case False
    with "1.prems" obtain a' where a: "a = c # a'" "cut_blank (d # r) = Some (a', b)" by auto
    with "1.IH"[OF False] have ih: "d # r = a' @ LF # LF # b" "\<not> has_blank (a' @ [LF])" by auto
    have "\<not> (c = LF \<and> (\<exists>t. a' @ [LF] = LF # t))"
    proof
      assume "c = LF \<and> (\<exists>t. a' @ [LF] = LF # t)"
      with False ih(1) show False by (cases a') auto
    qed
    with ih a(1) show ?thesis by (simp add: has_blank_Cons[of c])
  qed
qed simp_all

lemma rcut_blank_None: "rcut_blank s = None \<Longrightarrow> \<not> has_blank s"
  by (simp add: rcut_blank_def cut_blank_None has_blank_rev)

lemma rcut_blank_Some: "rcut_blank s = Some (a, b) \<Longrightarrow> s = a @ LF # LF # b \<and> \<not> has_blank (LF # b)"
proof -
  assume "rcut_blank s = Some (a, b)"
  then have "cut_blank (rev s) = Some (rev b, rev a)" by (auto simp: rcut_blank_def)
  from cut_blank_Some[OF this] have "rev s = rev b @ LF # LF # rev a" "\<not> has_blank (rev (LF # b))" by simp_all
  then show ?thesis unfolding has_blank_rev by (metis append.assoc append_Cons append_Nil rev.simps(2) rev_append rev_rev_ident)
qed

lemma same_cut:
  assumes eq: "e @ LF # LF # x = a @ LF # LF # b" and "\<not> has_blank x" "\<not> has_blank (LF # b)"
  shows "a = e \<or> a = e @ [LF]"
proof -
  from eq consider us where "e @ us = a" "LF # LF # x = us @ LF # LF # b" | us where "e = a @ us" "us @ LF # LF # x = LF # LF # b"
    by (auto simp: append_eq_append_conv2)
  then show ?thesis
  proof cases
    case 1
    then show ?thesis using assms(2) by (cases us rule: remdups_adj.cases) (auto simp: has_blankI)
  next
    case 2
    then show ?thesis using assms(3) by (cases us rule: remdups_adj.cases) (auto simp: has_blankI has_blank_Cons)
  qed
qed

section \<open>Counting as the stream comes in\<close>

lemma no_cr: "CR \<notin> set (normalize_newlines s)"
  by (induction s rule: normalize_newlines.induct) auto

lemma normalize_plain: "CR \<notin> set a \<Longrightarrow> normalize_newlines (a @ b) = a @ normalize_newlines b"
proof -
  assume a: "CR \<notin> set a"
  then have "normalize_newlines a = a" by (induction a rule: normalize_newlines.induct) auto
  moreover have "a = [] \<or> last a \<noteq> CR" using a by (metis last_in_set)
  ultimately show ?thesis using normalize_newlines_append[of a b] by auto
qed

definition cr_text :: "bool \<Rightarrow> string" where
  "cr_text pending = (if pending then [CR] else [])"

text \<open>What the observer of the budget knows after some bytes: the events it counted and what it carries.\<close>

definition counted_upto :: "string \<Rightarrow> string \<Rightarrow> nat \<Rightarrow> bool" where
  "counted_upto s carry k \<longleftrightarrow>
     (\<exists>seen rest. fst (normalize_incremental_sse_fragment s False) = seen @ rest
        \<and> (seen = [] \<or> (\<exists>e. seen = e @ [LF, LF])) \<and> \<not> has_blank rest \<and> text_chars seen = Some k
        \<and> carry = rest @ cr_text (snd (normalize_incremental_sse_fragment s False)))"

lemma counted_nothing: "counted_upto [] [] 0"
  by (simp add: counted_upto_def normalize_incremental_sse_fragment_def split_trailing_cr_def cr_text_def has_blank_def)

lemma fragment_split:
  assumes "normalize_incremental_sse_fragment chunk pending = (n, cr)" "CR \<notin> set rest"
  shows "(case split_trailing_cr (rest @ cr_text pending @ chunk) of (body, trailing) \<Rightarrow> normalize_newlines body @ trailing)
    = rest @ n @ cr_text cr"
proof -
  let ?x = "cr_text pending @ chunk"
  obtain body trailing where x: "split_trailing_cr ?x = (body, trailing)" by fastforce
  have n: "n = normalize_newlines body" "cr = (trailing \<noteq> [])" "trailing = cr_text cr"
    using assms(1) x by (auto simp: normalize_incremental_sse_fragment_def cr_text_def split_trailing_cr_def split: if_splits)
  have split: "split_trailing_cr (rest @ ?x) = (rest @ body, trailing)"
  proof (cases "?x = []")
    case True
    then have "rest = [] \<or> last rest \<noteq> CR" using assms(2) by (metis last_in_set)
    then show ?thesis using True x by (auto simp: split_trailing_cr_def)
  next
    case False
    from split_trailing_cr_append[OF this, of rest] x show ?thesis by simp
  qed
  show ?thesis unfolding split prod.case normalize_plain[OF assms(2)] n(1) n(3)[symmetric] by (rule append_assoc)
qed

lemma split_complete:
  "split_complete_sse_events carry chunk =
     (let buffered = (case split_trailing_cr (carry @ chunk) of (body, trailing) \<Rightarrow> normalize_newlines body @ trailing)
      in case rcut_blank buffered of Some parts \<Rightarrow> parts | None \<Rightarrow> ([], buffered))"
  by (simp add: split_complete_sse_events_def Let_def split: prod.split)

lemma blank_before_cr: "x @ cr_text cr = a @ LF # LF # b \<Longrightarrow> \<exists>b'. b = b' @ cr_text cr \<and> x = a @ LF # LF # b'"
proof (cases cr)
  case True
  assume eq: "x @ cr_text cr = a @ LF # LF # b"
  with True have "b \<noteq> [] \<and> last b = CR"
    by (cases b rule: rev_cases) (auto simp: cr_text_def append_eq_append_conv2 append_eq_Cons_conv)
  then obtain b' where "b = b' @ [CR]" by (metis append_butlast_last_id)
  with eq True show ?thesis by (auto simp: cr_text_def)
qed (auto simp: cr_text_def)

lemma text_chars_seen:
  assumes "seen = [] \<or> (\<exists>e. seen = e @ [LF, LF])" "text_chars seen = Some k"
  shows "text_chars (seen @ t) = map_option ((+) k) (text_chars t)"
proof (cases "seen = []")
  case False
  with assms(1) obtain e where e: "seen = e @ [LF, LF]" by blast
  then have "text_chars e = Some k"
    using assms(2) text_chars_append[of e "[]"] by (cases "text_chars e") auto
  then show ?thesis using e text_chars_append[of e t] by simp
qed (use assms in simp)

lemma counted_step:
  assumes inv: "counted_upto s carry k" and run: "split_complete_sse_events carry chunk = (events, carry')"
    and chars: "complete_sse_events_content_chars events = Some m"
  shows "counted_upto (s @ chunk) carry' (k + m)"
proof -
  obtain n cr where s: "normalize_incremental_sse_fragment s False = (n, cr)" by fastforce
  obtain n' cr' where c: "normalize_incremental_sse_fragment chunk cr = (n', cr')" by fastforce
  note whole = normalize_fragment_append[OF s c]
  from inv s obtain seen rest where i: "n = seen @ rest" "seen = [] \<or> (\<exists>e. seen = e @ [LF, LF])" "\<not> has_blank rest"
    "text_chars seen = Some k" "carry = rest @ cr_text cr"
    by (auto simp: counted_upto_def)
  have "CR \<notin> set n" using s no_cr by (auto simp: normalize_incremental_sse_fragment_def split: prod.splits)
  then have plain: "CR \<notin> set rest" using i(1) by simp
  have norm: "(case split_trailing_cr (carry @ chunk) of (body, trailing) \<Rightarrow> normalize_newlines body @ trailing) = (rest @ n') @ cr_text cr'"
    using fragment_split[OF c plain] i(5) by simp
  note run' = run[unfolded split_complete norm Let_def]
  show ?thesis
  proof (cases "rcut_blank ((rest @ n') @ cr_text cr')")
    case None
    then have "events = []" "carry' = (rest @ n') @ cr_text cr'" using run' by auto
    moreover have "\<not> has_blank (rest @ n')" using rcut_blank_None[OF None] has_blank_append(2) by blast
    moreover have "m = 0" using chars \<open>events = []\<close> complete_chars_text[of "[]"] by simp
    ultimately show ?thesis using whole i by (auto simp: counted_upto_def intro!: exI[of _ seen])
  next
    case (Some parts)
    then have parts: "rcut_blank ((rest @ n') @ cr_text cr') = Some (events, carry')" using run' by simp
    note cut = rcut_blank_Some[OF parts]
    from blank_before_cr[OF conjunct1[OF cut]] obtain rest' where r: "carry' = rest' @ cr_text cr'" "rest @ n' = events @ LF # LF # rest'"
      by blast
    have "\<not> has_blank rest'" using cut r(1) has_blank_append[of rest' "LF # []"] has_blank_append(2)[of rest' "cr_text cr'"]
      by (auto simp: has_blank_Cons)
    moreover have "text_chars (seen @ events @ [LF, LF]) = Some (k + m)"
      using text_chars_seen[OF i(2,4), of "events @ [LF, LF]"] text_chars_append[of events "[]"] chars
      by (simp add: complete_chars_text)
    moreover have "n @ n' = (seen @ events @ [LF, LF]) @ rest'" using i(1) r(2) by simp
    ultimately show ?thesis
      unfolding counted_upto_def whole fst_conv snd_conv using r(1) by (metis append.assoc)
  qed
qed

text \<open>Whatever the cuts, the count is that of the stream in one piece.\<close>

lemma counted_whole:
  assumes "counted_upto s carry k"
  shows "complete_sse_events_content_chars (fst (split_complete_sse_events [] s)) = Some k"
proof -
  obtain n cr where s: "normalize_incremental_sse_fragment s False = (n, cr)" by fastforce
  with assms obtain seen rest where i: "n = seen @ rest" "seen = [] \<or> (\<exists>e. seen = e @ [LF, LF])" "\<not> has_blank rest"
    "text_chars seen = Some k"
    by (auto simp: counted_upto_def)
  have norm: "(case split_trailing_cr ([] @ s) of (body, trailing) \<Rightarrow> normalize_newlines body @ trailing) = n @ cr_text cr"
    using fragment_split[OF s, of "[]"] by (simp add: cr_text_def)
  have blank_rest: "\<not> has_blank (rest @ cr_text cr)"
    using i(3) blank_before_cr by (metis has_blank_def)
  show ?thesis
  proof (cases "rcut_blank (n @ cr_text cr)")
    case None
    have "seen = []"
    proof (rule ccontr)
      assume "seen \<noteq> []"
      with i(2) obtain e where "seen = e @ [LF, LF]" by blast
      with i(1) rcut_blank_None[OF None] show False by (simp add: has_blankI)
    qed
    then have "k = 0" using i(4) by simp
    then show ?thesis using None norm complete_chars_text[of "[]"] by (simp add: split_complete)
  next
    case (Some parts)
    obtain a b where parts: "parts = (a, b)" by fastforce
    note cut = rcut_blank_Some[OF Some[unfolded parts]]
    have "seen \<noteq> []"
      using cut i(1) blank_rest has_blankI[of a b] by auto
    with i(2) obtain e where e: "seen = e @ [LF, LF]" by blast
    have "e @ LF # LF # (rest @ cr_text cr) = a @ LF # LF # b" using cut i(1) e by simp
    from same_cut[OF this blank_rest conjunct2[OF cut]] have "text_chars a = text_chars e"
      using text_chars_lf[of e] by auto
    moreover have "text_chars e = Some k"
      using i(4) e text_chars_append[of e "[]"] by (cases "text_chars e") auto
    ultimately show ?thesis using Some parts norm by (simp add: split_complete complete_chars_text)
  qed
qed

section \<open>The count of a relayed stream\<close>

definition relay_counted :: "relay_ports \<Rightarrow> relay_state \<Rightarrow> bool" where
  "relay_counted p st \<longleftrightarrow> (rl_runaway st = None \<longrightarrow> 0 \<le> rl_chars st
     \<and> counted_upto (delivered (rp_answer p) (rl_calls st)) (rl_char_carry st) (nat (rl_chars st)))"

definition same_count :: "relay_state \<Rightarrow> relay_state \<Rightarrow> bool" where
  "same_count st st' \<longleftrightarrow> rl_calls st' = rl_calls st \<and> rl_chars st' = rl_chars st \<and> rl_char_carry st' = rl_char_carry st
     \<and> rl_runaway st' = rl_runaway st"

lemma counted_cong: "same_count st st' \<Longrightarrow> relay_counted p st' = relay_counted p st"
  by (simp add: relay_counted_def same_count_def)

lemma observers_count:
  "same_count st (observe_deliverable p opts chunk st)" "same_count st (observe_normalization opts chunk st)"
proof -
  have mark: "same_count st (mark_first_delta p opts st)" for st
    by (simp add: mark_first_delta_def same_count_def split: option.split)
  then show "same_count st (observe_deliverable p opts chunk st)"
    by (auto simp: observe_deliverable_def Let_def same_count_def split: prod.split)
qed (auto simp: observe_normalization_def same_count_def Let_def split: prod.split)

lemma observe_budget_counted:
  assumes "ro_expect_done opts" "ro_max_chars opts = Some limit" "rl_runaway (observe_budget opts chunk st) = None"
    and "rl_runaway st = None \<Longrightarrow> 0 \<le> rl_chars st \<and> counted_upto s (rl_char_carry st) (nat (rl_chars st))"
  shows "0 \<le> rl_chars (observe_budget opts chunk st)
    \<and> counted_upto (s @ chunk) (rl_char_carry (observe_budget opts chunk st)) (nat (rl_chars (observe_budget opts chunk st)))"
proof -
  obtain events carry where split: "split_complete_sse_events (rl_char_carry st) chunk = (events, carry)" by fastforce
  let ?st1 = "count_event_chars limit events (st\<lparr>rl_char_carry := carry\<rparr>)"
  have quiet: "rl_runaway ?st1 = None" "rl_chars (observe_budget opts chunk st) = rl_chars ?st1"
    "rl_char_carry (observe_budget opts chunk st) = rl_char_carry ?st1"
    using assms(1-3) split by (auto simp: observe_budget_def Let_def split: if_splits)
  have chars: "complete_sse_events_content_chars [] = Some 0" by (simp add: complete_chars_text)
  obtain m where m: "complete_sse_events_content_chars events = Some m" "rl_chars ?st1 = rl_chars st + int m"
    "rl_char_carry ?st1 = carry" "rl_runaway st = None"
    using quiet(1) chars by (auto simp: count_event_chars_def split: if_splits option.splits)
  from assms(4)[OF m(4)] have inv: "0 \<le> rl_chars st" "counted_upto s (rl_char_carry st) (nat (rl_chars st))" by auto
  then show ?thesis
    using counted_step[OF inv(2) split m(1)] m quiet by (simp add: nat_add_distrib)
qed

lemma relay_chunk_counted:
  assumes "ro_expect_done opts" "ro_max_chars opts = Some limit" "relay_counted p st" "relay_chunk p opts chunk st = (None, st')"
  shows "relay_counted p st'"
proof -
  let ?c = "rl_calls st @ [WriteChunk chunk]"
  let ?st1 = "st\<lparr>rl_committed := True, rl_writing := True, rl_calls := ?c\<rparr>"
  let ?seen = "observe_chunk p opts chunk ?st1"
  have run: "rp_answer p ?c = None" "st' = ?seen\<lparr>rl_calls := ?c @ [FlushCall], rl_writing := False\<rparr>"
    using assms(4) by (auto simp: relay_chunk_def call_client_def Let_def observe_chunk_frame split: option.splits)
  have d: "delivered (rp_answer p) (?c @ [FlushCall]) = delivered (rp_answer p) (rl_calls st) @ chunk"
    using run(1) by (simp add: delivered_snoc del: append_assoc)
  define st2 where "st2 = ?st1\<lparr>rl_chunks := Suc (rl_chunks ?st1), rl_bytes := rl_bytes ?st1 + length chunk\<rparr>"
  define st3 where "st3 = (observe_deliverable p opts chunk st2)\<lparr>rl_tail := keep_tail (rl_tail (observe_deliverable p opts chunk st2) @ chunk)\<rparr>"
  define st4 where "st4 = observe_normalization opts chunk st3"
  have seen: "?seen = observe_budget opts chunk st4"
    by (simp add: observe_chunk_def Let_def st2_def st3_def st4_def)
  have "rl_chars st4 = rl_chars st \<and> rl_char_carry st4 = rl_char_carry st \<and> rl_runaway st4 = rl_runaway st"
    using observers_count(1)[of st2 p opts chunk] observers_count(2)[of st3 opts chunk]
    by (simp add: st2_def st3_def st4_def same_count_def)
  then have "rl_runaway ?seen = None \<longrightarrow> 0 \<le> rl_chars ?seen
      \<and> counted_upto (delivered (rp_answer p) (rl_calls st) @ chunk) (rl_char_carry ?seen) (nat (rl_chars ?seen))"
    unfolding seen using observe_budget_counted[OF assms(1,2), of chunk st4 "delivered (rp_answer p) (rl_calls st)"] assms(3)
    by (simp add: relay_counted_def)
  then show ?thesis unfolding run(2) relay_counted_def by (simp add: d del: append_assoc)
qed

lemma relay_chunks_counted:
  "ro_expect_done opts \<Longrightarrow> ro_max_chars opts = Some limit \<Longrightarrow> relay_counted p st \<Longrightarrow> relay_chunks p opts chunks st = (None, st') \<Longrightarrow>
     relay_counted p st'"
  by (induction chunks arbitrary: st) (auto split: prod.splits option.splits dest: relay_chunk_counted)

lemma release_same_count: "release_of opts chunk st = (rel, st') \<Longrightarrow> same_count st st'"
proof -
  have scan: "same_count st st1" if "precommit_scan opts chunk st = (d, st1)" for d st1
    by (subst precommit_scan_frame[OF that]) (simp add: same_count_def)
  show "release_of opts chunk st = (rel, st') \<Longrightarrow> same_count st st'"
    by (auto simp: release_of_def precommit_def Let_def same_count_def dest!: scan split: if_splits prod.splits option.splits precommit_decision.splits)
qed

lemma relay_items_counted:
  "ro_expect_done opts \<Longrightarrow> ro_max_chars opts = Some limit \<Longrightarrow> relay_counted p st \<Longrightarrow> relay_items p opts items st = (Finished, st') \<Longrightarrow>
     relay_counted p st'"
proof (induction items arbitrary: st)
  case (Cons item items)
  show ?case
  proof (cases item)
    case (Inr chunk)
    show ?thesis
    proof (cases "chunk = []")
      case False
      obtain ended st1 where one: "relay_item p opts chunk st = (ended, st1)" by fastforce
      have chunks: "relay_counted p st1"
        if "release_of opts chunk st = (rel, st2)" "relay_chunks p opts cs st2 = (None, st1)" for rel st2 cs
        using relay_chunks_counted[OF Cons.prems(1,2) _ that(2)] counted_cong[OF release_same_count[OF that(1)]] Cons.prems(3) by simp
      have "relay_counted p st1" if "ended = None \<or> ended = Some Finished"
        using one that Cons.prems(3) counted_cong[OF release_same_count] chunks
        by (auto simp: relay_item_def split: if_splits prod.splits release.splits option.splits)
      then show ?thesis using Cons.IH Cons.prems one Inr False by (auto split: option.splits)
    qed (use Cons Inr in simp)
  qed (use Cons.prems in simp)
qed simp

lemma ok_run_counted:
  assumes "relay_run p opts items 0 = (result, st)" "dget result ''status'' = PStr ''ok''"
    and "ro_expect_done opts" "ro_max_chars opts = Some limit"
  shows "complete_sse_events_content_chars (fst (split_complete_sse_events [] (bytes_of items))) = Some (nat (rl_chars st))
    \<and> 0 \<le> rl_chars st"
proof -
  obtain ended st0 where run: "relay_items p opts items (relay_start\<lparr>rl_chars := 0\<rparr>) = (ended, st0)" by fastforce
  have post: "relay_post p opts [] items ended st0"
    by (rule relay_items_post[OF relay_start_relayed _ run]) (simp add: relay_start_def)
  show ?thesis
  proof (cases ended)
    case (Answered r)
    then show ?thesis
      using post run assms(1,2) by (auto simp: relay_post_def relay_run_def upstream_error_result_def stream_fields_get)
  next
    case (Broken exc)
    then show ?thesis using run assms(1,2) by (auto simp: relay_run_def broken_result_def Let_def stream_fields_get)
  next
    case Finished
    have counts: "relay_counted p st0"
      by (rule relay_items_counted[OF assms(3,4) _ run[unfolded Finished]])
        (use counted_nothing in \<open>simp add: relay_counted_def relay_start_def\<close>)
    have fin: "finish_relay p opts st0 = (result, st)" using run Finished assms(1) by (simp add: relay_run_def)
    have committed: "rl_committed st0"
      using fin assms(2) by (auto simp: finish_relay_def told_failure_def stream_fields_get stream_fields_get0 split: option.splits if_splits)
    have f: "rl_runaway st0 = None" "rl_chars st = rl_chars st0"
      using finish_within[OF fin assms(2)] by auto
    have "delivered (rp_answer p) (rl_calls st0) = bytes_of items"
      using post Finished committed f(1) by (auto simp: relay_post_def relayed_def)
    with counts f(1) have "0 \<le> rl_chars st0" "counted_upto (bytes_of items) (rl_char_carry st0) (nat (rl_chars st0))"
      by (simp_all add: relay_counted_def)
    then show ?thesis using counted_whole f(2) by simp
  qed
qed

end
