(* ===== verification/StreamContract.thy ===== *)
theory StreamContract
  imports RelayCount
begin

text \<open>
  What the router and its client may rely on about a streamed answer.
\<close>

section \<open>Examples\<close>

definition example_relay :: relay_ports where
  "example_relay = \<lparr>rp_answer = (\<lambda>_. None), rp_now = (\<lambda>_. 0), rp_terminal_writer = False\<rparr>"

definition example_options :: "string \<Rightarrow> int option \<Rightarrow> relay_options" where
  "example_options policy budget =
     \<lparr>ro_expect_done = True, ro_choice_count = 1, ro_policy = policy, ro_started = None, ro_max_chars = budget\<rparr>"

definition example_event :: "string \<Rightarrow> string" where
  "example_event content =
     ''data: '' @ json_dumps (PDict [(''choices'', PList [PDict [(''index'', PInt 0),
        (''delta'', PDict [(''content'', PStr content)]), (''finish_reason'', PNone)]])]) @ [LF, LF]"

definition example_error_event :: string where
  "example_error_event = ''event: error'' @ [LF] @ ''data: {}'' @ [LF, LF]"

lemma ok_run_within:
  assumes "relay_run p opts items chars = (result, st)" "dget result ''status'' = PStr ''ok''" "ro_max_chars opts = Some limit"
    and "chars \<le> limit"
  shows "rl_chars st \<le> limit \<and> (ro_expect_done opts \<longrightarrow> dget result ''completion_chars'' = PInt (rl_chars st))"
proof -
  obtain ended st0 where run: "relay_items p opts items (relay_start\<lparr>rl_chars := chars\<rparr>) = (ended, st0)" by fastforce
  show ?thesis
  proof (cases ended)
    case (Answered r)
    then have "\<exists>error. result = upstream_error_result error"
      using relay_items_post[OF relay_start_relayed _ run] run assms(1) by (auto simp: relay_post_def relay_run_def relay_start_def)
    then show ?thesis using assms(2) by (auto simp: upstream_error_result_def stream_fields_get)
  next
    case (Broken exc)
    then show ?thesis using run assms(1,2) by (auto simp: relay_run_def broken_result_def Let_def stream_fields_get)
  next
    case Finished
    have within: "within_budget opts st0"
      by (rule relay_items_within[OF _ run[unfolded Finished]]) (use assms(3,4) in \<open>simp add: within_budget_def\<close>)
    have "finish_relay p opts st0 = (result, st)" using run Finished assms(1) by (simp add: relay_run_def)
    from finish_within[OF this assms(2)] show ?thesis
      using within assms(3)
      by (auto simp: within_budget_def ok_result_def stream_fields_def dget_def counted_completion_chars_def)
  qed
qed

section \<open>What the router may rely on\<close>

lemma started_outcome:
  assumes "truthy (dget sr ''stream_started'')"
  shows "de_outcome (evaluate_streaming_result vp sr model status latency is_virtual) = Success
    \<or> de_outcome (evaluate_streaming_result vp sr model status latency is_virtual) = MidStreamFailure"
  using assms by (simp add: evaluate_streaming_result_def Let_def stream_end_def success_decision_def)

lemma example_done_run:
  assumes "budget = None \<or> budget = Some 1"
  obtains result st where
    "stream_chunks_to_writer example_relay (example_options ''immediate'' budget) [Inr DONE_EVENT] = Some (result, st)"
    "dget result ''status'' = PStr ''ok''"
proof -
  let ?opts = "example_options ''immediate'' budget"
  have reads: "upstream_stream_error_payload DONE_EVENT = None"
    "consume_sse_normalization_events DONE_EVENT False = (False, [], False)" "sse_stream_ended_with_done DONE_EVENT"
    "split_complete_sse_events [] DONE_EVENT = (''data: [DONE]'', [])" "complete_sse_events_content_chars ''data: [DONE]'' = Some 0"
    "\<not> sse_chunk_carries_deliverable ''data: [DONE]''" "\<not> sse_chunk_carries_substantive_delta ''data: [DONE]''"
    by code_simp+
  have tail: "keep_tail DONE_EVENT = DONE_EVENT" by (simp add: keep_tail_def DONE_EVENT_def SSE_TERMINAL_TAIL_BYTES_def)
  have room: "0 \<le> completion_budget_transport_limit 1"
    by (simp add: completion_budget_transport_limit_def MAX_UPSTREAM_RESPONSE_BYTES_def)
  let ?st0 = "relay_start\<lparr>rl_committed := True, rl_writing := True, rl_calls := [WriteChunk DONE_EVENT]\<rparr>"
  let ?seen = "observe_chunk example_relay ?opts DONE_EVENT ?st0"
  have seen: "rl_runaway ?seen = None" "rl_error_seen ?seen = False" "rl_norm_valid ?seen = False" "rl_tail ?seen = DONE_EVENT"
    "rl_committed ?seen"
    using reads tail room assms
    by (auto simp: observe_chunk_frame relay_start_def example_options_def observe_chunk_def observe_budget_def count_event_chars_def
        observe_normalization_def observe_deliverable_def mark_first_delta_def Let_def split: prod.split)
  have "relay_items example_relay ?opts [Inr DONE_EVENT] (relay_start\<lparr>rl_chars := 0\<rparr>)
      = (Finished, ?seen\<lparr>rl_calls := [WriteChunk DONE_EVENT, FlushCall], rl_writing := False\<rparr>)"
    using reads(1) seen(1)
    by (simp add: example_options_def example_relay_def relay_item_def release_of_def relay_chunk_def call_client_def Let_def
        observe_chunk_frame relay_start_def MAX_UPSTREAM_RESPONSE_BYTES_def DONE_EVENT_def)
  then have "\<exists>result st. stream_chunks_to_writer example_relay ?opts [Inr DONE_EVENT] = Some (result, st) \<and> dget result ''status'' = PStr ''ok''"
    using seen reads
    by (auto simp: stream_chunks_to_writer_def relay_source_def relay_run_def finish_relay_def last_normalization_def
        ok_result_def stream_fields_get Let_def example_options_def STREAM_COMMIT_POLICIES_def)
  then show thesis using that by blast
qed

definition example_error :: pydict where
  "example_error = [(''type'', PStr ''error''), (''message'', PStr ''upstream SSE error event'')]"

lemma example_verdict: "precommit_verdict ''first_complete_event'' example_error_event = Retry example_error"
  by code_simp

lemma example_error_event_plain:
  "\<not> starts_with ''{'' (lstrip_by is_byte_space example_error_event)" "length example_error_event < STREAM_PRECOMMIT_MAX_BYTES"
  by (simp_all add: example_error_event_def starts_with_def lstrip_by_def is_byte_space_def STREAM_PRECOMMIT_MAX_BYTES_def)

lemma example_refused:
  obtains st where "stream_chunks_to_writer example_relay (example_options ''first_complete_event'' None) [Inr example_error_event]
      = Some (upstream_error_result example_error, st)"
  using early_error_refused[of "example_options ''first_complete_event'' None" "[example_error_event]" example_error example_relay "[]"]
    example_verdict example_error_event_plain
  by (auto simp: example_options_def STREAM_COMMIT_POLICIES_def)

text \<open>C6. Failover is invisible to the client. Whatever the upstream sends and however the client answers, a stream that
  is retried with another model has made no call to the client; one that has called it ends the
  request, as a success or as a failure in mid-stream.\<close>

theorem failover_is_invisible_to_the_client:
  assumes "stream_chunks_to_writer p opts items = Some (result, st)"
  shows "(de_outcome (evaluate_streaming_result vp result model status latency is_virtual) = RetryableFailure \<longrightarrow> rl_calls st = [])
    \<and> (rl_calls st \<noteq> [] \<longrightarrow>
         de_outcome (evaluate_streaming_result vp result model status latency is_virtual) \<in> {Success, MidStreamFailure})"
proof -
  have "dget result ''stream_started'' = PBool (rl_calls st \<noteq> [])"
    using stream_outcome[OF assms] by (simp add: relay_outcome_def)
  then have started: "truthy (dget result ''stream_started'') \<longleftrightarrow> rl_calls st \<noteq> []" by simp
  show ?thesis
    using stream_retry[of vp result model status latency is_virtual] started_outcome[of result vp model status latency is_virtual]
    unfolding started by blast
qed

lemma failover_is_invisible_to_the_client_witness:
  "\<exists>result st. stream_chunks_to_writer example_relay (example_options ''first_complete_event'' None) [Inr example_error_event] = Some (result, st)
     \<and> de_outcome (evaluate_streaming_result example_verdict_ports result [] 200 1 True) = RetryableFailure \<and> rl_calls st = []"
proof -
  obtain st where r: "stream_chunks_to_writer example_relay (example_options ''first_complete_event'' None) [Inr example_error_event]
      = Some (upstream_error_result example_error, st)"
    by (rule example_refused)
  have "de_outcome (evaluate_streaming_result example_verdict_ports (upstream_error_result example_error) [] 200 1 True) = RetryableFailure"
    by code_simp
  then show ?thesis using r failover_is_invisible_to_the_client[OF r] by blast
qed

text \<open>C7. The client reads the upstream's bytes in order and unchanged, at most the size bound, followed by
  nothing, by one error event, or by the \<open>[DONE]\<close> the upstream left out; a stream reported ok delivered
  all of them and, where one is expected, ends with \<open>[DONE]\<close>, which no failed stream is given unless
  the client left while it was written.\<close>

theorem the_client_gets_the_upstream_and_a_true_ending:
  assumes "stream_chunks_to_writer p opts items = Some (result, st)"
  shows "\<exists>shown extra. delivered (rp_answer p) (rl_calls st) = shown @ extra \<and> prefix shown (bytes_of items)
    \<and> length shown \<le> MAX_UPSTREAM_RESPONSE_BYTES
    \<and> (extra = [] \<or> (\<exists>reason detail. extra = event_boundary (keep_tail shown) @ sse_error_event reason detail)
       \<or> extra = event_boundary (keep_tail shown) @ DONE_EVENT
         \<and> (dget result ''status'' = PStr ''ok'' \<or> dget result ''reason'' = PStr ''client_disconnected''))
    \<and> (dget result ''status'' = PStr ''ok'' \<longrightarrow>
         shown = bytes_of items \<and> list_all (\<lambda>item. \<exists>chunk. item = Inr chunk) items
         \<and> (extra = [] \<or> extra = event_boundary (keep_tail shown) @ DONE_EVENT)
         \<and> (ro_expect_done opts \<longrightarrow> extra = [] \<longrightarrow> sse_stream_ended_with_done (keep_tail shown)))"
proof -
  from stream_outcome[OF assms] obtain shown extra where o:
    "delivered (rp_answer p) (rl_calls st) = shown @ extra" "prefix shown (bytes_of items)"
    "length shown \<le> MAX_UPSTREAM_RESPONSE_BYTES"
    "extra = [] \<or> (\<exists>reason detail. extra = event_boundary (keep_tail shown) @ sse_error_event reason detail)
       \<or> extra = event_boundary (keep_tail shown) @ DONE_EVENT
         \<and> (dget result ''status'' = PStr ''ok'' \<or> dget result ''reason'' = PStr ''client_disconnected'')"
    "dget result ''status'' = PStr ''ok'' \<longrightarrow> shown = bytes_of items \<and> list_all (\<lambda>item. \<exists>chunk. item = Inr chunk) items
         \<and> (extra = [] \<or> extra = event_boundary (keep_tail shown) @ DONE_EVENT)"
    unfolding relay_outcome_def by (elim conjE exE)
  have ended: "sse_stream_ended_with_done (keep_tail shown)"
    if "dget result ''status'' = PStr ''ok''" "ro_expect_done opts" "extra = []"
    using stream_outcome[OF assms] that o(1,5) by (simp add: DONE_EVENT_def)
  show ?thesis
    by (rule exI[of _ shown], rule exI[of _ extra]) (use o ended in blast)
qed

lemma the_client_gets_the_upstream_and_a_true_ending_witness:
  "\<exists>result st. stream_chunks_to_writer example_relay (example_options ''immediate'' None) [Inr DONE_EVENT] = Some (result, st)
     \<and> dget result ''status'' = PStr ''ok'' \<and> prefix DONE_EVENT (delivered (rp_answer example_relay) (rl_calls st))"
proof -
  obtain result st where r: "stream_chunks_to_writer example_relay (example_options ''immediate'' None) [Inr DONE_EVENT] = Some (result, st)"
    "dget result ''status'' = PStr ''ok''"
    by (rule example_done_run[of None]) simp_all
  then show ?thesis using the_client_gets_the_upstream_and_a_true_ending[OF r(1)] by auto
qed

text \<open>C8. An error the upstream announces before its answer is never shown. Under a policy that holds bytes
  back, when the first telling event of what the upstream sends within the bound is an error, the
  attempt fails with that error and the client is not called, however the bytes were cut into chunks
  and whatever follows them.\<close>

theorem an_early_error_is_never_shown:
  assumes "ro_policy opts \<in> set STREAM_COMMIT_POLICIES" "ro_policy opts \<noteq> ''immediate''" "ro_expect_done opts"
    and "length (concat chunks) < STREAM_PRECOMMIT_MAX_BYTES"
    and "\<not> starts_with ''{'' (lstrip_by is_byte_space (concat chunks))"
    and "precommit_verdict (ro_policy opts) (concat chunks) = Retry error"
  shows "\<exists>st. stream_chunks_to_writer p opts (map Inr chunks @ later) = Some (upstream_error_result error, st) \<and> rl_calls st = []"
proof -
  from early_error_refused[OF assms, of p later] obtain st where
    "stream_chunks_to_writer p opts (map Inr chunks @ later) = Some (upstream_error_result error, st)" "rl_calls st = []" .
  then show ?thesis by blast
qed

lemma an_early_error_is_never_shown_witness:
  "\<exists>st. stream_chunks_to_writer example_relay (example_options ''first_complete_event'' None)
      [Inr (take 12 example_error_event), Inr (drop 12 example_error_event), Inr DONE_EVENT] = Some (upstream_error_result example_error, st)
     \<and> rl_calls st = []"
  using an_early_error_is_never_shown[of "example_options ''first_complete_event'' None"
      "[take 12 example_error_event, drop 12 example_error_event]" example_error example_relay "[Inr DONE_EVENT]"]
    example_verdict example_error_event_plain
  by (simp add: example_options_def STREAM_COMMIT_POLICIES_def)

text \<open>C9. A stream that is reported ok stayed within the budget of its profile: the figure reported with it is
  the number of characters in its complete events, however the bytes were cut, and at most the
  budget. A stream that passed the budget is cut there, so nothing the upstream would send after
  changes what the client was sent or what is reported.\<close>

theorem a_stream_over_budget_is_cut:
  assumes "stream_chunks_to_writer p opts items = Some (result, st)" "ro_max_chars opts = Some limit" "0 \<le> limit"
    and "ro_expect_done opts"
  shows "(dget result ''status'' = PStr ''ok'' \<longrightarrow>
      (\<exists>n. dget result ''completion_chars'' = PInt (int n) \<and> int n \<le> limit
         \<and> complete_sse_events_content_chars (fst (split_complete_sse_events [] (bytes_of items))) = Some n))
    \<and> (dget result ''reason'' = PStr ''runaway_output'' \<longrightarrow>
      stream_chunks_to_writer p opts (items @ later) = Some (result, st))"
proof -
  have run: "relay_run p opts items 0 = (result, st)"
    using assms(1,4) by (auto simp: stream_chunks_to_writer_def relay_source_def split: if_splits)
  have "\<exists>n. dget result ''completion_chars'' = PInt (int n) \<and> int n \<le> limit
      \<and> complete_sse_events_content_chars (fst (split_complete_sse_events [] (bytes_of items))) = Some n"
    if ok: "dget result ''status'' = PStr ''ok''"
    using ok_run_within[OF run ok assms(2,3)] ok_run_counted[OF run ok assms(4,2)] assms(4)
    by (intro exI[of _ "nat (rl_chars st)"]) simp
  moreover have "stream_chunks_to_writer p opts (items @ later) = Some (result, st)"
    if "dget result ''reason'' = PStr ''runaway_output''"
    using assms(1,4) relay_run_cut[OF run that, of later]
    by (auto simp: stream_chunks_to_writer_def relay_source_def split: if_splits)
  ultimately show ?thesis by blast
qed

lemma a_stream_over_budget_is_cut_witness:
  "\<exists>result st. stream_chunks_to_writer example_relay (example_options ''immediate'' (Some 1)) [Inr DONE_EVENT] = Some (result, st)
     \<and> dget result ''status'' = PStr ''ok'' \<and> (\<exists>n. dget result ''completion_chars'' = PInt (int n) \<and> int n \<le> 1)"
proof -
  obtain result st where r: "stream_chunks_to_writer example_relay (example_options ''immediate'' (Some 1)) [Inr DONE_EVENT] = Some (result, st)"
    "dget result ''status'' = PStr ''ok''"
    by (rule example_done_run[of "Some 1"]) simp_all
  then show ?thesis using a_stream_over_budget_is_cut[OF r(1), of 1] by (auto simp: example_options_def)
qed

end
