(* ===== verification/AnthropicStream.thy ===== *)
theory AnthropicStream
  imports SseText
begin

text \<open>
  The stream of an Anthropic client (\<open>anthropic_messages.py\<close>): the translator that reads the events of
  a chat completion as they come and gives the events of an Anthropic message. An event is its name
  and its data; the bytes of the code are its encoding. The request id, the routed model and the stop
  sequences are the arguments of the translator. A call that raises gives \<open>None\<close>.
\<close>

section \<open>Events\<close>

type_synonym sse_event = "string \<times> pv"

text \<open>\<open>json.dumps(value, ensure_ascii=False, separators=(",", ":"))\<close> and \<open>text.encode("utf-8")\<close>.\<close>

fun json_compact :: "pv \<Rightarrow> string" where
  "json_compact (PList xs) = ''['' @ join '','' (map json_compact xs) @ '']''"
| "json_compact (PDict d) = ''{'' @ join '','' (map (\<lambda>(k, v). json_text k @ '':'' @ json_compact v) d) @ ''}''"
| "json_compact v = json_dumps v"

definition utf8_bytes :: "string \<Rightarrow> string" where
  "utf8_bytes s =
     concat (map (\<lambda>c. if cpoint c < 128 then [c]
                      else [char_of_point (192 + cpoint c div 64), char_of_point (128 + cpoint c mod 64)]) s)"

definition encode_anthropic_sse_event :: "sse_event \<Rightarrow> string" where
  "encode_anthropic_sse_event e =
     utf8_bytes (''event: '' @ fst e @ [LF] @ ''data: ''
       @ (case snd e of PStr s \<Rightarrow> s | data \<Rightarrow> json_compact data) @ [LF, LF])"

definition typed_event :: "string \<Rightarrow> pydict \<Rightarrow> sse_event" where
  "typed_event name data = (name, PDict ((''type'', PStr name) # data))"

definition anthropic_sse_error_event :: "string \<Rightarrow> string option \<Rightarrow> sse_event" where
  "anthropic_sse_error_event code detail =
     typed_event ''error'' [(''error'', PDict [(''type'', PStr ''api_error''),
       (''message'', por (opt_str detail) (PStr code)), (''ficelle_code'', PStr code)])]"

definition message_id :: "string \<Rightarrow> string" where
  "message_id request_id =
     (let clean = filter (\<lambda>c. is_ascii_alnum c \<or> c = CHR ''_'' \<or> c = CHR ''-'') request_id
      in ''msg_'' @ (if clean = [] then ''request'' else clean))"

section \<open>The reason a message stopped\<close>

text \<open>A list or a dictionary as the finish reason cannot be looked up in a set, which raises.\<close>

definition stop_reason :: "pv \<Rightarrow> string \<Rightarrow> string list \<Rightarrow> pv \<Rightarrow> (string \<times> string option) option" where
  "stop_reason finish_reason text stop_sequences explicit =
     (case finish_reason of
        PList _ \<Rightarrow> None
      | PDict _ \<Rightarrow> None
      | _ \<Rightarrow> Some (
          if finish_reason \<in> {PStr ''length'', PStr ''max_tokens''} then (''max_tokens'', None)
          else if finish_reason \<in> {PStr ''tool_calls'', PStr ''function_call'', PStr ''tool_use''} then (''tool_use'', None)
          else if finish_reason \<in> {PStr ''stop'', PStr ''end_turn'', PNone} then
            (case (case explicit of PStr s \<Rightarrow> if s \<in> set stop_sequences then Some s else None | _ \<Rightarrow> None) of
               Some s \<Rightarrow> (''stop_sequence'', Some s)
             | None \<Rightarrow>
                 (case filter (\<lambda>s. s \<noteq> [] \<and> ends_with s text) stop_sequences of
                    s # _ \<Rightarrow> (''stop_sequence'', Some s)
                  | [] \<Rightarrow>
                      (case stop_sequences of
                         [s] \<Rightarrow> if finish_reason = PStr ''stop'' then (''stop_sequence'', Some s) else (''end_turn'', None)
                       | _ \<Rightarrow> (''end_turn'', None))))
          else (''end_turn'', None)))"

section \<open>The translator\<close>

record anthropic_call =
  ac_request_id :: string
  ac_routed_model :: string
  ac_stop_sequences :: "string list"

record tool_state =
  tl_id :: string
  tl_name :: string
  tl_fragments :: "string list"

record translator_state =
  tr_buffer :: string
  tr_started :: bool
  tr_closed :: bool
  tr_failed :: bool
  tr_error :: "(string \<times> string) option"
  tr_text :: string
  tr_finish :: "string option"
  tr_usage :: pydict
  tr_stop :: "string option"
  tr_text_open :: bool
  tr_tools :: "(int \<times> tool_state) list"

definition translator_start :: translator_state where
  "translator_start =
     \<lparr>tr_buffer = [], tr_started = False, tr_closed = False, tr_failed = False, tr_error = None, tr_text = [],
      tr_finish = None, tr_usage = [], tr_stop = None, tr_text_open = False, tr_tools = []\<rparr>"

definition usage_data :: "int \<Rightarrow> int \<Rightarrow> pv" where
  "usage_data input output = PDict [(''input_tokens'', PInt input), (''output_tokens'', PInt output)]"

definition start_events :: "anthropic_call \<Rightarrow> sse_event list" where
  "start_events call =
     [typed_event ''message_start'' [(''message'', PDict
        [(''id'', PStr (message_id (ac_request_id call))), (''type'', PStr ''message''), (''role'', PStr ''assistant''),
         (''content'', PList []), (''model'', PStr (ac_routed_model call)), (''stop_reason'', PNone),
         (''stop_sequence'', PNone), (''usage'', usage_data 0 0)])],
      typed_event ''ping'' []]"

definition fail_stream :: "string \<Rightarrow> string \<Rightarrow> translator_state \<Rightarrow> sse_event list \<times> translator_state" where
  "fail_stream detail code st =
     ([anthropic_sse_error_event code (Some (take 2000 detail))],
      st\<lparr>tr_failed := True, tr_error := Some (code, take 2000 detail)\<rparr>)"

definition block_start :: "int \<Rightarrow> pydict \<Rightarrow> sse_event" where
  "block_start i block = typed_event ''content_block_start'' [(''index'', PInt i), (''content_block'', PDict block)]"

definition block_delta :: "int \<Rightarrow> pydict \<Rightarrow> sse_event" where
  "block_delta i delta = typed_event ''content_block_delta'' [(''index'', PInt i), (''delta'', PDict delta)]"

definition block_stop :: "int \<Rightarrow> sse_event" where
  "block_stop i = typed_event ''content_block_stop'' [(''index'', PInt i)]"

definition text_delta :: "string \<Rightarrow> pydict" where
  "text_delta s = [(''type'', PStr ''text_delta''), (''text'', PStr s)]"

definition json_delta :: "string \<Rightarrow> pydict" where
  "json_delta s = [(''type'', PStr ''input_json_delta''), (''partial_json'', PStr s)]"

subsection \<open>One chunk of the upstream\<close>

text \<open>A step that fails ends the chunk (\<open>Inl\<close>); otherwise the next step goes on (\<open>Inr\<close>).\<close>

type_synonym chunk_step = "sse_event list \<times> translator_state + sse_event list \<times> translator_state"

definition write_text :: "string \<Rightarrow> translator_state \<Rightarrow> sse_event list \<times> translator_state" where
  "write_text content st =
     ((if tr_text_open st then [] else [block_start 0 [(''type'', PStr ''text''), (''text'', PStr [])]])
        @ [block_delta 0 (text_delta content)],
      st\<lparr>tr_text_open := True, tr_text := tr_text st @ content\<rparr>)"

definition delta_of :: "pydict \<Rightarrow> pydict" where
  "delta_of choice = (case dget choice ''delta'' of PDict d \<Rightarrow> d | _ \<Rightarrow> section_of choice ''message'')"

definition delta_content :: "pydict \<Rightarrow> pv" where
  "delta_content delta =
     (let content = dget delta ''content''
      in case dget delta ''refusal'' of PStr refusal \<Rightarrow> if truthy content then content else PStr refusal | _ \<Rightarrow> content)"

definition read_content :: "pydict \<Rightarrow> translator_state \<Rightarrow> chunk_step" where
  "read_content delta st =
     (case delta_content delta of
        PNone \<Rightarrow> Inr ([], st)
      | PStr s \<Rightarrow> Inr (if s = [] then ([], st) else write_text s st)
      | _ \<Rightarrow> Inl (fail_stream ''upstream stream contains unsupported content blocks'' ''unsupported_stream_content'' st))"

definition refuse_other_content :: "pydict \<Rightarrow> translator_state \<Rightarrow> chunk_step" where
  "refuse_other_content delta st =
     (if dget delta ''audio'' \<noteq> PNone
      then Inl (fail_stream ''upstream audio output cannot be represented as Anthropic content'' ''unsupported_stream_content'' st)
      else if dget delta ''function_call'' \<noteq> PNone
      then Inl (fail_stream ''legacy upstream function_call has no tool-call id to preserve'' ''unsupported_function_call'' st)
      else Inr ([], st))"

definition new_tool :: tool_state where
  "new_tool = \<lparr>tl_id = [], tl_name = [], tl_fragments = []\<rparr>"

definition call_index :: "pydict \<Rightarrow> int" where
  "call_index call = (case dget call ''index'' of PInt i \<Rightarrow> i | _ \<Rightarrow> 0)"

definition updated_tool :: "pydict \<Rightarrow> tool_state \<Rightarrow> tool_state" where
  "updated_tool call tool =
     (let function = section_of call ''function'' in
      \<lparr>tl_id = (case dget call ''id'' of PStr s \<Rightarrow> if s = [] then tl_id tool else s | _ \<Rightarrow> tl_id tool),
       tl_name = (case dget function ''name'' of PStr s \<Rightarrow> if s = [] then tl_name tool else s | _ \<Rightarrow> tl_name tool),
       tl_fragments = tl_fragments tool @ (case dget function ''arguments'' of PStr s \<Rightarrow> if s = [] then [] else [s] | _ \<Rightarrow> [])\<rparr>)"

definition read_call :: "pv \<Rightarrow> translator_state \<Rightarrow> translator_state" where
  "read_call call st =
     (case call of
        PDict d \<Rightarrow>
          (let i = call_index d; tool = (case map_of (tr_tools st) i of Some tool \<Rightarrow> tool | None \<Rightarrow> new_tool)
           in st\<lparr>tr_tools := AList.update i (updated_tool d tool) (tr_tools st)\<rparr>)
      | _ \<Rightarrow> st)"

definition read_finish :: "pydict \<Rightarrow> translator_state \<Rightarrow> chunk_step" where
  "read_finish choice st =
     (case dget choice ''finish_reason'' of
        PStr s \<Rightarrow>
          (if lower (strip s) = ''error''
           then Inl (fail_stream ''upstream response ended with an error finish reason'' ''upstream_finish_error'' st)
           else Inr ([], st\<lparr>tr_finish := Some s\<rparr>))
      | _ \<Rightarrow> Inr ([], st))"

definition read_stop :: "pydict \<Rightarrow> translator_state \<Rightarrow> translator_state" where
  "read_stop choice st =
     (case por (dget choice ''stop_sequence'') (dget choice ''matched_stop'') of
        PStr s \<Rightarrow> st\<lparr>tr_stop := Some s\<rparr> | _ \<Rightarrow> st)"

definition and_then :: "chunk_step \<Rightarrow> (translator_state \<Rightarrow> chunk_step) \<Rightarrow> chunk_step" where
  "and_then step next_step =
     (case step of
        Inl (out, st) \<Rightarrow> Inl (out, st)
      | Inr (out, st) \<Rightarrow>
          (case next_step st of Inl (later, st') \<Rightarrow> Inl (out @ later, st') | Inr (later, st') \<Rightarrow> Inr (out @ later, st')))"

definition read_choice :: "pv \<Rightarrow> translator_state \<Rightarrow> chunk_step" where
  "read_choice choice st =
     (case choice of
        PDict d \<Rightarrow>
          (let delta = delta_of d in
           and_then (and_then (and_then (read_content delta st) (refuse_other_content delta))
               (\<lambda>st. read_finish d (fold read_call (as_list (dget delta ''tool_calls'')) st)))
             (\<lambda>st. Inr ([], read_stop d st)))
      | _ \<Rightarrow> Inr ([], st))"

fun read_choices :: "pv list \<Rightarrow> translator_state \<Rightarrow> chunk_step" where
  "read_choices [] st = Inr ([], st)"
| "read_choices (choice # choices) st = and_then (read_choice choice st) (read_choices choices)"

definition read_chunk :: "pydict \<Rightarrow> translator_state \<Rightarrow> sse_event list \<times> translator_state" where
  "read_chunk payload st =
     (let st1 = (case dget payload ''usage'' of PDict usage \<Rightarrow> st\<lparr>tr_usage := usage\<rparr> | _ \<Rightarrow> st)
      in case read_choices (as_list (dget payload ''choices'')) st1 of Inl done_early \<Rightarrow> done_early | Inr all_read \<Rightarrow> all_read)"

subsection \<open>The end of the upstream\<close>

definition tool_fault :: "tool_state \<Rightarrow> string option" where
  "tool_fault tool =
     (if tl_id tool = [] \<or> tl_name tool = [] then Some ''tool call ended without an id and name''
      else (let arguments = concat (tl_fragments tool)
            in case json_loads (if arguments = [] then ''{}'' else arguments) of
                 None \<Rightarrow> Some ''tool arguments ended before a complete JSON object was received''
               | Some (PDict _) \<Rightarrow> None
               | Some _ \<Rightarrow> Some ''tool arguments must be a JSON object''))"

definition tool_events :: "int \<Rightarrow> tool_state \<Rightarrow> sse_event list" where
  "tool_events i tool =
     block_start i [(''type'', PStr ''tool_use''), (''id'', PStr (tl_id tool)), (''name'', PStr (tl_name tool)), (''input'', PDict [])]
     # map (\<lambda>fragment. block_delta i (json_delta fragment)) (tl_fragments tool)
     @ [block_stop i]"

definition sorted_tools :: "translator_state \<Rightarrow> tool_state list" where
  "sorted_tools st = map snd (sort_key fst (tr_tools st))"

definition blocks_events :: "translator_state \<Rightarrow> sse_event list" where
  "blocks_events st =
     (let first = (if tr_text_open st then 1 else 0)
      in (if tr_text_open st then [block_stop 0] else [])
         @ concat (map (\<lambda>(offset, tool). tool_events (first + int offset) tool) (enumerate 0 (sorted_tools st))))"

definition usage_count :: "pydict \<Rightarrow> string \<Rightarrow> int option" where
  "usage_count usage key = py_int (por (dget_or usage key (PInt 0)) (PInt 0))"

definition end_events :: "string \<times> string option \<Rightarrow> int \<Rightarrow> int \<Rightarrow> sse_event list" where
  "end_events reason input output =
     [typed_event ''message_delta'' [(''delta'', PDict [(''stop_reason'', PStr (fst reason)), (''stop_sequence'', opt_str (snd reason))]),
        (''usage'', usage_data input output)],
      typed_event ''message_stop'' []]"

definition finish_message :: "anthropic_call \<Rightarrow> translator_state \<Rightarrow> (sse_event list \<times> translator_state) option" where
  "finish_message call st =
     (if tr_closed st \<or> tr_failed st then Some ([], st)
      else (case List.map_filter (\<lambda>(_, tool). tool_fault tool) (tr_tools st) of
              fault # _ \<Rightarrow> Some (fail_stream fault ''invalid_tool_arguments'' st)
            | [] \<Rightarrow> do {
                reason \<leftarrow> stop_reason (opt_str (tr_finish st)) (tr_text st) (ac_stop_sequences call) (opt_str (tr_stop st));
                input \<leftarrow> usage_count (tr_usage st) ''prompt_tokens'';
                output \<leftarrow> usage_count (tr_usage st) ''completion_tokens'';
                Some (blocks_events st @ end_events reason input output, st\<lparr>tr_closed := True\<rparr>)
              }))"

subsection \<open>Events of the upstream\<close>

definition event_data :: "string \<Rightarrow> string" where
  "event_data raw =
     join [LF] (map (\<lambda>line. lstrip (drop 5 line))
       (filter (starts_with ''data:'') (split_char LF (normalize_newlines (decode_replace raw)))))"

definition read_event :: "anthropic_call \<Rightarrow> string \<Rightarrow> translator_state \<Rightarrow> (sse_event list \<times> translator_state) option" where
  "read_event call raw st =
     (let data = event_data raw in
      if data = [] then Some ([], st)
      else if strip data = ''[DONE]'' then finish_message call st
      else (case json_loads data of
              None \<Rightarrow> Some (fail_stream ''upstream returned malformed SSE JSON'' ''invalid_sse'' st)
            | Some (PDict payload) \<Rightarrow>
                Some (case dget payload ''error'' of
                        PDict error \<Rightarrow>
                          ([], st\<lparr>tr_failed := True, tr_error := Some (''upstream_stream_error'',
                             take 2000 (py_str (por (dget error ''message'') (PStr ''upstream stream failed''))))\<rparr>)
                      | _ \<Rightarrow> read_chunk payload st)
            | Some _ \<Rightarrow> Some ([], st)))"

text \<open>The first event of a buffer, ended by \<open>\n\n\<close> or \<open>\r\n\r\n\<close>, and what follows.\<close>

fun cut_event :: "string \<Rightarrow> (string \<times> string) option" where
  "cut_event [] = None"
| "cut_event (c # s) =
     (if starts_with [LF, LF] (c # s) then Some ([], drop 1 s)
      else if starts_with [CR, LF, CR, LF] (c # s) then Some ([], drop 3 s)
      else map_option (\<lambda>(event, rest). (c # event, rest)) (cut_event s))"

lemma cut_event_shorter: "cut_event s = Some (event, rest) \<Longrightarrow> length rest < length s"
  by (induction s arbitrary: event) (auto split: if_splits)

function read_events :: "anthropic_call \<Rightarrow> string \<Rightarrow> translator_state \<Rightarrow> (sse_event list \<times> translator_state) option" where
  "read_events call buffer st =
     (case cut_event buffer of
        None \<Rightarrow> Some ([], st\<lparr>tr_buffer := buffer\<rparr>)
      | Some (raw, rest) \<Rightarrow>
          Option.bind (read_event call raw st) (\<lambda>(out, st1).
            map_option (\<lambda>(later, st2). (out @ later, st2)) (read_events call rest st1)))"
  by pat_completeness auto
termination by (relation "measure (\<lambda>(_, buffer, _). length buffer)") (auto dest: cut_event_shorter)

declare read_events.simps [simp del]

definition feed :: "anthropic_call \<Rightarrow> string \<Rightarrow> translator_state \<Rightarrow> (sse_event list \<times> translator_state) option" where
  "feed call chunk st =
     (if tr_closed st \<or> tr_failed st then Some ([], st)
      else (let (out, st1) = (if chunk \<noteq> [] \<and> \<not> tr_started st then (start_events call, st\<lparr>tr_started := True\<rparr>) else ([], st))
            in map_option (\<lambda>(later, st2). (out @ later, st2)) (read_events call (tr_buffer st1 @ chunk) st1)))"

fun feed_all :: "anthropic_call \<Rightarrow> string list \<Rightarrow> translator_state \<Rightarrow> (sse_event list \<times> translator_state) option" where
  "feed_all call [] st = Some ([], st)"
| "feed_all call (chunk # chunks) st =
     Option.bind (feed call chunk st) (\<lambda>(out, st1).
       map_option (\<lambda>(later, st2). (out @ later, st2)) (feed_all call chunks st1))"

end
