(* ===== verification/AnthropicFacts.thy ===== *)
theory AnthropicFacts
  imports AnthropicStream
begin

text \<open>
  What an Anthropic client may rely on about the events of the translator: their order, the text they
  carry and the tool calls they show.
\<close>

section \<open>The order of the events of a message\<close>

datatype phase = Waiting | Between int | Within int | Described | Over

definition event_index :: "sse_event \<Rightarrow> pv" where
  "event_index e = dget (as_dict (snd e)) ''index''"

definition is_end :: "sse_event \<Rightarrow> bool" where
  "is_end e \<longleftrightarrow> fst e \<in> {''error'', ''message_stop''}"

fun phase_step :: "phase \<Rightarrow> sse_event \<Rightarrow> phase option" where
  "phase_step Waiting e = (if fst e = ''message_start'' then Some (Between 0) else None)"
| "phase_step (Between n) e =
     (if fst e = ''ping'' then Some (Between n)
      else if fst e = ''content_block_start'' \<and> event_index e = PInt n then Some (Within n)
      else if fst e = ''message_delta'' then Some Described
      else if fst e = ''error'' then Some Over else None)"
| "phase_step (Within n) e =
     (if fst e = ''content_block_delta'' \<and> event_index e = PInt n then Some (Within n)
      else if fst e = ''content_block_stop'' \<and> event_index e = PInt n then Some (Between (n + 1))
      else if fst e = ''error'' then Some Over else None)"
| "phase_step Described e = (if fst e = ''message_stop'' then Some Over else None)"
| "phase_step Over e = None"

fun phases :: "phase \<Rightarrow> sse_event list \<Rightarrow> phase option" where
  "phases ph [] = Some ph"
| "phases ph (e # es) = Option.bind (phase_step ph e) (\<lambda>ph'. phases ph' es)"

text \<open>The events up to the first that ends the message.\<close>

fun up_to_end :: "sse_event list \<Rightarrow> sse_event list" where
  "up_to_end [] = []"
| "up_to_end (e # es) = e # (if is_end e then [] else up_to_end es)"

text \<open>The same run that forgives whatever follows the end.\<close>

fun lenient :: "phase \<Rightarrow> sse_event list \<Rightarrow> phase option" where
  "lenient ph [] = Some ph"
| "lenient ph (e # es) = (if ph = Over then Some Over else Option.bind (phase_step ph e) (\<lambda>ph'. lenient ph' es))"

lemma lenient_Over [simp]: "lenient Over es = Some Over"
  by (cases es) simp_all

lemma lenient_append: "lenient ph (a @ b) = Option.bind (lenient ph a) (\<lambda>ph'. lenient ph' b)"
proof (induction a arbitrary: ph)
  case (Cons e a)
  then show ?case by (cases "phase_step ph e") simp_all
qed simp

lemma phase_step_end: "phase_step ph e = Some ph' \<Longrightarrow> ph' = Over \<longleftrightarrow> is_end e"
  by (cases ph) (auto simp: is_end_def split: if_splits)

lemma lenient_strict:
  "lenient ph es = Some ph' \<Longrightarrow> ph \<noteq> Over \<Longrightarrow> phases ph (up_to_end es) = Some ph' \<and> (ph' = Over \<longleftrightarrow> list_ex is_end es)"
proof (induction es arbitrary: ph)
  case (Cons e es)
  from Cons.prems obtain ph1 where s: "phase_step ph e = Some ph1" "lenient ph1 es = Some ph'"
    by (cases "phase_step ph e") auto
  show ?case
  proof (cases "ph1 = Over")
    case True
    then have "is_end e" "ph' = Over" using phase_step_end[OF s(1)] s(2) by auto
    then show ?thesis using s(1) True by simp
  next
    case False
    then have "\<not> is_end e" using phase_step_end[OF s(1)] by simp
    then show ?thesis using Cons.IH[OF s(2) False] s(1) by simp
  qed
qed simp

section \<open>What the events show\<close>

definition event_text :: "sse_event \<Rightarrow> string" where
  "event_text e = (case dget (section_of (as_dict (snd e)) ''delta'') ''text'' of PStr s \<Rightarrow> s | _ \<Rightarrow> [])"

definition shown_text :: "sse_event list \<Rightarrow> string" where
  "shown_text es = concat (map event_text es)"

text \<open>The tool calls shown: id, name and the text of the arguments.\<close>

definition collect_tool :: "sse_event \<Rightarrow> (string \<times> string \<times> string) list \<Rightarrow> (string \<times> string \<times> string) list" where
  "collect_tool e acc =
     (let d = as_dict (snd e); block = section_of d ''content_block'' in
      if fst e = ''content_block_start'' \<and> dget block ''type'' = PStr ''tool_use''
      then acc @ [(py_str (dget block ''id''), py_str (dget block ''name''), [])]
      else (case dget (section_of d ''delta'') ''partial_json'' of
              PStr s \<Rightarrow> if acc = [] then [] else butlast acc @ [(fst (last acc), fst (snd (last acc)), snd (snd (last acc)) @ s)]
            | _ \<Rightarrow> acc))"

definition shown_tools :: "sse_event list \<Rightarrow> (string \<times> string \<times> string) list" where
  "shown_tools es = fold collect_tool es []"

definition whole_tool :: "string \<times> string \<times> string \<Rightarrow> bool" where
  "whole_tool t \<longleftrightarrow> (case t of (tool_id, name, arguments) \<Rightarrow>
     tool_id \<noteq> [] \<and> name \<noteq> [] \<and> (\<exists>d. json_loads (if arguments = [] then ''{}'' else arguments) = Some (PDict d)))"

text \<open>What a step of the translator may do.\<close>

definition phase_inv :: "translator_state \<Rightarrow> phase \<Rightarrow> bool" where
  "phase_inv st ph \<longleftrightarrow> ph = Over \<or> \<not> tr_closed st \<and> ph = (if tr_text_open st then Within 0 else Between 0)"

definition transition :: "translator_state \<Rightarrow> sse_event list \<Rightarrow> translator_state \<Rightarrow> bool" where
  "transition st out st' \<longleftrightarrow>
     (\<forall>ph. phase_inv st ph \<longrightarrow> (\<exists>ph'. lenient ph out = Some ph' \<and> phase_inv st' ph'))
     \<and> (\<forall>acc. \<exists>new. fold collect_tool out acc = acc @ new \<and> list_all whole_tool new)
     \<and> tr_text st' = tr_text st @ shown_text out \<and> tr_started st' = tr_started st"

lemma transition_trans:
  assumes "transition st a st1" "transition st1 b st2"
  shows "transition st (a @ b) st2"
proof -
  have "\<exists>ph'. lenient ph (a @ b) = Some ph' \<and> phase_inv st2 ph'" if "phase_inv st ph" for ph
    using assms that unfolding transition_def lenient_append by (metis Option.bind.bind_lunit)
  moreover have "\<exists>new. fold collect_tool (a @ b) acc = acc @ new \<and> list_all whole_tool new" for acc
  proof -
    obtain x where x: "fold collect_tool a acc = acc @ x" "list_all whole_tool x" using assms(1) unfolding transition_def by blast
    obtain y where y: "fold collect_tool b (acc @ x) = (acc @ x) @ y" "list_all whole_tool y"
      using assms(2) unfolding transition_def by blast
    show ?thesis using x y by (intro exI[of _ "x @ y"]) simp
  qed
  ultimately show ?thesis using assms by (auto simp: transition_def shown_text_def)
qed

lemma transition_silent:
  assumes "tr_closed st' = tr_closed st" "tr_text_open st' = tr_text_open st" "tr_text st' = tr_text st" "tr_started st' = tr_started st"
  shows "transition st [] st'"
  using assms by (auto simp: transition_def phase_inv_def shown_text_def)

lemmas event_simps = typed_event_def block_start_def block_delta_def block_stop_def text_delta_def json_delta_def
  anthropic_sse_error_event_def event_index_def dget_def section_of_def

lemma fail_transition: "transition st (fst (fail_stream detail code st)) (snd (fail_stream detail code st))"
  by (auto simp: transition_def fail_stream_def phase_inv_def shown_text_def event_text_def collect_tool_def event_simps split: if_splits)

lemma write_text_transition: "transition st (fst (write_text content st)) (snd (write_text content st))"
  by (auto simp: transition_def write_text_def phase_inv_def shown_text_def event_text_def collect_tool_def event_simps split: if_splits)

text \<open>A step of a chunk, either way it goes.\<close>

definition step_ok :: "translator_state \<Rightarrow> chunk_step \<Rightarrow> bool" where
  "step_ok st step \<longleftrightarrow> (case step of Inl (out, st') \<Rightarrow> transition st out st' | Inr (out, st') \<Rightarrow> transition st out st')"

lemma step_okI [intro]:
  "transition st (fst p) (snd p) \<Longrightarrow> step_ok st (Inl p)" "transition st (fst p) (snd p) \<Longrightarrow> step_ok st (Inr p)"
  by (auto simp: step_ok_def split: prod.split)

lemma and_then_ok:
  assumes "step_ok st step" "\<And>st'. step_ok st' (next_step st')"
  shows "step_ok st (and_then step next_step)"
proof (cases step)
  case (Inl p)
  then show ?thesis using assms(1) by (cases p) (simp add: and_then_def)
next
  case (Inr p)
  then obtain out st1 where p: "step = Inr (out, st1)" by (cases p) auto
  then have "transition st out st1" using assms(1) by (simp add: step_ok_def)
  moreover have "step_ok st1 (next_step st1)" by (rule assms(2))
  ultimately show ?thesis
    using p by (auto simp: and_then_def step_ok_def intro: transition_trans split: sum.splits)
qed

lemma silent_ok: "transition st [] st' \<Longrightarrow> step_ok st (Inr ([], st'))"
  by (rule step_okI) simp

lemma nothing_ok [simp]: "step_ok st (Inr ([], st))"
  by (intro silent_ok transition_silent) simp_all

lemma read_content_ok: "step_ok st (read_content delta st)"
  by (auto simp: read_content_def intro: fail_transition write_text_transition split: pv.split)

lemma refuse_other_ok: "step_ok st (refuse_other_content delta st)"
  by (auto simp: refuse_other_content_def intro: fail_transition)

lemma read_finish_ok: "step_ok st (read_finish choice st)"
  by (auto simp: read_finish_def intro: fail_transition intro!: silent_ok transition_silent split: pv.split)

lemma read_calls_silent: "transition st [] (fold read_call calls st)"
proof (induction calls arbitrary: st)
  case (Cons call calls)
  have "transition st [] (read_call call st)"
    by (rule transition_silent) (auto simp: read_call_def Let_def split: pv.split)
  from transition_trans[OF this Cons.IH] show ?case by simp
qed (simp add: transition_silent)

lemma read_choice_ok: "step_ok st (read_choice choice st)"
proof -
  have finish: "step_ok st (read_finish d (fold read_call calls st))" for d calls st
    using transition_trans[OF read_calls_silent[of st calls]] read_finish_ok[of "fold read_call calls st" d]
    by (auto simp: step_ok_def split: sum.splits)
  have stop: "step_ok st (Inr ([], read_stop d st))" for d st
    by (intro silent_ok transition_silent) (auto simp: read_stop_def split: pv.split)
  show ?thesis
    by (auto simp: read_choice_def Let_def intro!: and_then_ok read_content_ok refuse_other_ok finish stop split: pv.split)
qed

lemma read_choices_ok: "step_ok st (read_choices choices st)"
  by (induction choices arbitrary: st) (auto intro!: and_then_ok read_choice_ok)

lemma read_chunk_transition: "read_chunk payload st = (out, st') \<Longrightarrow> transition st out st'"
proof -
  assume run: "read_chunk payload st = (out, st')"
  let ?st1 = "case dget payload ''usage'' of PDict usage \<Rightarrow> st\<lparr>tr_usage := usage\<rparr> | _ \<Rightarrow> st"
  have "transition st [] ?st1" by (rule transition_silent) (auto split: pv.split)
  moreover have "transition ?st1 out st'"
    using run read_choices_ok[of ?st1 "as_list (dget payload ''choices'')"]
    by (auto simp: read_chunk_def Let_def step_ok_def split: sum.splits)
  ultimately show ?thesis using transition_trans[of st "[]"] by simp
qed

section \<open>The end\<close>

lemma collect_fragments:
  "fold collect_tool (map (\<lambda>f. block_delta i (json_delta f)) fragments) (acc @ [(tool_id, name, args)])
    = acc @ [(tool_id, name, args @ concat fragments)]"
  by (induction fragments arbitrary: args) (simp_all add: collect_tool_def event_simps)

lemma collect_tool_events:
  "fold collect_tool (tool_events i tool) acc = acc @ [(tl_id tool, tl_name tool, concat (tl_fragments tool))]"
proof -
  have "collect_tool (block_start i [(''type'', PStr ''tool_use''), (''id'', PStr (tl_id tool)), (''name'', PStr (tl_name tool)), (''input'', PDict [])]) acc
      = acc @ [(tl_id tool, tl_name tool, [])]"
    by (simp add: collect_tool_def event_simps py_str_def)
  moreover have "collect_tool (block_stop i) x = x" for x by (simp add: collect_tool_def event_simps)
  ultimately show ?thesis by (simp add: tool_events_def collect_fragments)
qed

lemma tool_events_phase: "lenient (Between i) (tool_events i tool) = Some (Between (i + 1))"
proof -
  have "lenient (Within i) (map (\<lambda>f. block_delta i (json_delta f)) fragments @ [block_stop i]) = Some (Between (i + 1))" for fragments
    by (induction fragments) (simp_all add: event_simps)
  then show ?thesis by (simp add: tool_events_def event_simps)
qed

definition tools_events :: "int \<Rightarrow> nat \<Rightarrow> tool_state list \<Rightarrow> sse_event list" where
  "tools_events first k tools = concat (map (\<lambda>(offset, tool). tool_events (first + int offset) tool) (enumerate k tools))"

lemma tools_events_run:
  "lenient (Between (first + int k)) (tools_events first k tools) = Some (Between (first + int (k + length tools)))"
  "fold collect_tool (tools_events first k tools) acc = acc @ map (\<lambda>t. (tl_id t, tl_name t, concat (tl_fragments t))) tools"
  "shown_text (tools_events first k tools) = []"
proof (induction tools arbitrary: k acc)
  case (Cons tool tools)
  have step: "tools_events first k (tool # tools) = tool_events (first + int k) tool @ tools_events first (Suc k) tools" for k
    by (simp add: tools_events_def)
  {
    case 1
    show ?case using Cons.IH(1)[of "Suc k"] tool_events_phase[of "first + int k" tool] by (simp add: step lenient_append add_ac)
  next
    case 2
    show ?case using Cons.IH(2)[of "Suc k"] by (simp add: step collect_tool_events)
  next
    case 3
    have "shown_text (tool_events i tool) = []" for i
      by (auto simp: shown_text_def tool_events_def event_text_def event_simps)
    then show ?case using Cons.IH(3)[of "Suc k"] by (simp add: step shown_text_def)
  }
qed (simp_all add: tools_events_def shown_text_def)

lemma whole_tools:
  assumes "List.map_filter (\<lambda>(_, tool). tool_fault tool) tools = []"
  shows "list_all (\<lambda>tool. whole_tool (tl_id tool, tl_name tool, concat (tl_fragments tool))) (map snd (sort_key fst tools))"
proof -
  have "whole_tool (tl_id tool, tl_name tool, concat (tl_fragments tool))" if "tool_fault tool = None" for tool
    using that by (auto simp: tool_fault_def whole_tool_def Let_def split: if_splits option.splits pv.splits)
  moreover have "tool_fault tool = None" if "(i, tool) \<in> set tools" for i tool
    using assms that by (auto simp: List.map_filter_def filter_empty_conv)
  ultimately show ?thesis by (force simp: list_all_iff)
qed

lemma finish_transition:
  assumes "finish_message call st = Some (out, st')"
  shows "transition st out st'"
proof (cases "tr_closed st \<or> tr_failed st")
  case True
  then show ?thesis using assms by (auto simp: finish_message_def intro: transition_silent)
next
  case open_message: False
  show ?thesis
  proof (cases "List.map_filter (\<lambda>(_, tool). tool_fault tool) (tr_tools st)")
    case (Cons fault faults)
    then show ?thesis
      using assms open_message fail_transition[of st fault "''invalid_tool_arguments''"] by (auto simp: finish_message_def)
  next
    case Nil
    let ?first = "if tr_text_open st then 1 else (0 :: int)"
    from Nil assms open_message obtain reason spent_in spent_out where
      e: "out = blocks_events st @ end_events reason spent_in spent_out" "st' = st\<lparr>tr_closed := True\<rparr>"
      by (auto simp: finish_message_def split: Option.bind_splits)
    have blocks: "blocks_events st = (if tr_text_open st then [block_stop 0] else []) @ tools_events ?first 0 (sorted_tools st)"
      by (simp add: blocks_events_def tools_events_def Let_def)
    have run: "lenient (if tr_text_open st then Within 0 else Between 0) out = Some Over"
      using tools_events_run(1)[of ?first 0 "sorted_tools st"]
      by (auto simp: e(1) blocks lenient_append end_events_def event_simps)
    have "fold collect_tool out acc = acc @ map (\<lambda>t. (tl_id t, tl_name t, concat (tl_fragments t))) (sorted_tools st)" for acc
      by (simp add: e(1) blocks tools_events_run(2) end_events_def collect_tool_def event_simps)
    moreover have "list_all whole_tool (map (\<lambda>t. (tl_id t, tl_name t, concat (tl_fragments t))) (sorted_tools st))"
      using whole_tools[OF Nil] by (simp add: sorted_tools_def list.pred_map comp_def)
    moreover have "shown_text out = []"
      using tools_events_run(3)[of ?first 0 "sorted_tools st"]
      by (auto simp: e(1) blocks shown_text_def end_events_def event_text_def event_simps)
    ultimately show ?thesis using run e(2) open_message by (auto simp: transition_def phase_inv_def)
  qed
qed

lemma read_event_transition: "read_event call raw st = Some (out, st') \<Longrightarrow> transition st out st'"
proof -
  assume run: "read_event call raw st = Some (out, st')"
  let ?data = "event_data raw"
  show ?thesis
  proof (cases "?data = [] \<or> strip ?data = ''[DONE]''")
    case True
    then show ?thesis
      using run finish_transition by (auto simp: read_event_def Let_def intro: transition_silent split: if_splits)
  next
    case False
    show ?thesis
    proof (cases "json_loads ?data")
      case None
      then show ?thesis
        using run False fail_transition[of st "''upstream returned malformed SSE JSON''" "''invalid_sse''"]
        by (simp add: read_event_def Let_def)
    next
      case (Some v)
      show ?thesis
      proof (cases v)
        case (PDict payload)
        show ?thesis
        proof (cases "is_dict (dget payload ''error'')")
          case True
          then obtain error where "dget payload ''error'' = PDict error" by (cases "dget payload ''error''") auto
          then show ?thesis
            using run False Some PDict by (auto simp: read_event_def Let_def intro!: transition_silent)
        next
          case other: False
          then have "read_chunk payload st = (out, st')"
            using run False Some PDict by (cases "dget payload ''error''") (auto simp: read_event_def Let_def)
          then show ?thesis by (rule read_chunk_transition)
        qed
      qed (use run False Some in \<open>auto simp: read_event_def Let_def intro: transition_silent\<close>)
    qed
  qed
qed

lemma read_events_transition: "read_events call buffer st = Some (out, st') \<Longrightarrow> transition st out st'"
proof (induction call buffer st arbitrary: out rule: read_events.induct)
  case (1 call buffer st)
  show ?case
  proof (cases "cut_event buffer")
    case None
    then show ?thesis using "1.prems" by (auto simp: read_events.simps[of call buffer] intro: transition_silent)
  next
    case (Some p)
    obtain raw rest where p: "p = (raw, rest)" by fastforce
    with Some "1.prems" obtain out1 st1 out2 where r: "read_event call raw st = Some (out1, st1)"
      "read_events call rest st1 = Some (out2, st')" "out = out1 @ out2"
      by (auto simp: read_events.simps[of call buffer] split: Option.bind_splits)
    show ?thesis
      unfolding r(3) using transition_trans[OF read_event_transition[OF r(1)]] "1.IH"[OF Some p[symmetric] r(1) refl r(2)] by blast
  qed
qed

text \<open>Before its first bytes a translator has said nothing.\<close>

definition feed_inv :: "translator_state \<Rightarrow> sse_event list \<Rightarrow> bool" where
  "feed_inv st out \<longleftrightarrow> shown_text out = tr_text st \<and> list_all whole_tool (shown_tools out)
     \<and> (\<exists>ph. lenient Waiting out = Some ph \<and>
          (if tr_started st then phase_inv st ph else ph = Waiting \<and> out = [] \<and> tr_buffer st = [] \<and> \<not> tr_text_open st \<and> \<not> tr_closed st))"

end
