(* ===== verification/AnthropicRun.thy ===== *)
theory AnthropicRun
  imports AnthropicFacts
begin

section \<open>Nothing after the end\<close>

definition quiet :: "sse_event list \<Rightarrow> bool" where
  "quiet es \<longleftrightarrow> list_all (\<lambda>e. \<not> is_end e) es"

lemma quiet_simps [simp]: "quiet []" "quiet (e # es) \<longleftrightarrow> \<not> is_end e \<and> quiet es" "quiet (a @ b) \<longleftrightarrow> quiet a \<and> quiet b"
  by (simp_all add: quiet_def)

lemma quiet_up_to_end: "quiet es \<Longrightarrow> up_to_end (es @ rest) = es @ up_to_end rest"
  by (induction es) auto

text \<open>A step that leaves the translator running says no last word; one that ends it says it last.\<close>

definition running :: "translator_state \<Rightarrow> bool" where
  "running st \<longleftrightarrow> \<not> tr_closed st \<and> \<not> tr_failed st"

definition orderly :: "translator_state \<Rightarrow> sse_event list \<Rightarrow> translator_state \<Rightarrow> bool" where
  "orderly st out st' \<longleftrightarrow> (quiet out \<or> (\<exists>said last_word. out = said @ [last_word] \<and> quiet said \<and> \<not> running st'))
     \<and> (running st' \<longrightarrow> running st)"

definition step_orderly :: "translator_state \<Rightarrow> chunk_step \<Rightarrow> bool" where
  "step_orderly st step \<longleftrightarrow>
     (case step of
        Inl (out, st') \<Rightarrow> \<not> running st' \<and> (\<exists>said last_word. out = said @ [last_word] \<and> quiet said)
      | Inr (out, st') \<Rightarrow> quiet out \<and> running st' = running st)"

lemma fail_orderly: "step_orderly st (Inl (fail_stream detail code st))"
  by (auto simp: step_orderly_def fail_stream_def running_def intro: exI[of _ "[]"])

lemma silent_orderly: "running st' = running st \<Longrightarrow> step_orderly st (Inr ([], st'))"
  by (simp add: step_orderly_def)

lemma and_then_orderly:
  assumes "step_orderly st step" "\<And>st'. step_orderly st' (next_step st')"
  shows "step_orderly st (and_then step next_step)"
proof (cases step)
  case (Inl p)
  then show ?thesis using assms(1) by (cases p) (simp add: and_then_def)
next
  case (Inr p)
  then obtain out st1 where p: "step = Inr (out, st1)" by (cases p) auto
  then have one: "quiet out" "running st1 = running st" using assms(1) by (auto simp: step_orderly_def)
  show ?thesis
  proof (cases "next_step st1")
    case (Inl q)
    then obtain later st2 where q: "next_step st1 = Inl (later, st2)" by (cases q) auto
    from assms(2)[of st1] obtain said last_word where "\<not> running st2" "later = said @ [last_word]" "quiet said"
      by (auto simp: q step_orderly_def)
    then show ?thesis using one p q by (auto simp: and_then_def step_orderly_def intro!: exI[of _ "out @ said"])
  next
    case (Inr q)
    then show ?thesis using one p assms(2)[of st1] by (cases q) (simp add: and_then_def step_orderly_def)
  qed
qed

lemma write_text_orderly: "step_orderly st (Inr (write_text content st))"
  by (simp add: step_orderly_def write_text_def running_def is_end_def block_start_def block_delta_def typed_event_def)

lemma read_choice_orderly: "step_orderly st (read_choice choice st)"
proof -
  have calls: "running (fold read_call calls st) = running st" for calls st
    by (induction calls arbitrary: st) (auto simp: read_call_def Let_def running_def split: pv.split)
  have finish: "step_orderly st (read_finish d (fold read_call calls st))" for d calls st
    using calls[of calls st]
    by (auto simp: read_finish_def step_orderly_def fail_stream_def running_def intro!: exI[of _ "[]"] split: pv.split)
  have stop: "step_orderly st (Inr ([], read_stop d st))" for d st
    by (rule silent_orderly) (auto simp: read_stop_def running_def split: pv.split)
  have content: "step_orderly st (read_content delta st)" for delta st
    by (auto simp: read_content_def intro!: fail_orderly write_text_orderly silent_orderly split: pv.split)
  have other: "step_orderly st (refuse_other_content delta st)" for delta st
    by (auto simp: refuse_other_content_def intro!: fail_orderly silent_orderly)
  show ?thesis
    by (auto simp: read_choice_def Let_def intro!: and_then_orderly content other finish stop silent_orderly split: pv.split)
qed

lemma read_choices_orderly: "step_orderly st (read_choices choices st)"
  by (induction choices arbitrary: st) (auto intro!: and_then_orderly read_choice_orderly silent_orderly)

lemma read_chunk_orderly: "read_chunk payload st = (out, st') \<Longrightarrow> orderly st out st'"
proof -
  assume run: "read_chunk payload st = (out, st')"
  let ?st1 = "case dget payload ''usage'' of PDict usage \<Rightarrow> st\<lparr>tr_usage := usage\<rparr> | _ \<Rightarrow> st"
  have "running ?st1 = running st" by (auto simp: running_def split: pv.split)
  then show ?thesis
    using run read_choices_orderly[of ?st1 "as_list (dget payload ''choices'')"]
    by (auto simp: read_chunk_def Let_def step_orderly_def orderly_def split: sum.splits)
qed

lemma finish_orderly:
  assumes "finish_message call st = Some (out, st')" "running st"
  shows "orderly st out st'"
proof (cases "List.map_filter (\<lambda>(_, tool). tool_fault tool) (tr_tools st)")
  case (Cons fault faults)
  then have "(out, st') = fail_stream fault ''invalid_tool_arguments'' st"
    using assms by (simp add: finish_message_def running_def)
  then show ?thesis by (auto simp: orderly_def fail_stream_def running_def intro: exI[of _ "[]"])
next
  case Nil
  from Nil assms obtain reason spent_in spent_out where
    e: "out = blocks_events st @ end_events reason spent_in spent_out" "st' = st\<lparr>tr_closed := True\<rparr>"
    by (auto simp: finish_message_def running_def split: Option.bind_splits)
  have tools: "quiet (tool_events i tool)" for i tool
    by (auto simp: quiet_def tool_events_def is_end_def block_start_def block_delta_def block_stop_def typed_event_def list_all_iff)
  have "quiet (concat (map (\<lambda>(offset, tool). tool_events (first + int offset) tool) xs))" for first xs
    using tools by (induction xs) auto
  then have "quiet (blocks_events st)" by (simp add: blocks_events_def Let_def is_end_def block_stop_def typed_event_def)
  then show ?thesis
    using e assms(2)
    by (auto simp: orderly_def end_events_def is_end_def typed_event_def running_def
        intro!: exI[of _ "blocks_events st @ [typed_event ''message_delta'' x]" for x])
qed

lemma read_event_orderly:
  assumes "read_event call raw st = Some (out, st')" "running st"
  shows "orderly st out st'"
proof -
  let ?data = "event_data raw"
  have still: "orderly st [] st" by (simp add: orderly_def)
  consider "?data = []" | "?data \<noteq> []" "strip ?data = ''[DONE]''" | "?data \<noteq> []" "strip ?data \<noteq> ''[DONE]''" by blast
  then show ?thesis
  proof cases
    case 1
    then show ?thesis using assms still by (simp add: read_event_def)
  next
    case 2
    then show ?thesis using assms finish_orderly by (simp add: read_event_def)
  next
    case 3
    show ?thesis
    proof (cases "json_loads ?data")
      case None
      then show ?thesis using assms 3 by (auto simp: read_event_def orderly_def fail_stream_def running_def intro: exI[of _ "[]"])
    next
      case (Some v)
      show ?thesis
      proof (cases v)
        case (PDict payload)
        show ?thesis
        proof (cases "is_dict (dget payload ''error'')")
          case True
          then obtain error where "dget payload ''error'' = PDict error" by (cases "dget payload ''error''") auto
          then show ?thesis using assms 3 Some PDict by (auto simp: read_event_def orderly_def running_def)
        next
          case other: False
          then have "read_chunk payload st = (out, st')"
            using assms 3 Some PDict by (cases "dget payload ''error''") (auto simp: read_event_def Let_def)
          then show ?thesis by (rule read_chunk_orderly)
        qed
      qed (use assms 3 Some still in \<open>simp_all add: read_event_def\<close>)
    qed
  qed
qed

text \<open>Chunks that complete at most one event each.\<close>

fun one_at_a_time :: "string \<Rightarrow> string list \<Rightarrow> bool" where
  "one_at_a_time buffer [] = True"
| "one_at_a_time buffer (chunk # chunks) =
     (case cut_event (buffer @ chunk) of
        None \<Rightarrow> one_at_a_time (buffer @ chunk) chunks
      | Some (_, rest) \<Rightarrow> cut_event rest = None \<and> one_at_a_time rest chunks)"

lemma feed_all_over: "\<not> running st \<Longrightarrow> feed_all call chunks st = Some ([], st)"
  by (induction chunks) (auto simp: feed_def running_def)

lemma start_events_quiet: "quiet (start_events call)"
  by (simp add: start_events_def is_end_def typed_event_def)

lemma feed_all_orderly:
  "feed_all call chunks st = Some (out, st') \<Longrightarrow> running st \<Longrightarrow> one_at_a_time (tr_buffer st) chunks \<Longrightarrow> up_to_end out = out"
proof (induction chunks arbitrary: st out)
  case (Cons chunk chunks)
  let ?hello = "if chunk \<noteq> [] \<and> \<not> tr_started st then start_events call else []"
  let ?st0 = "if chunk \<noteq> [] \<and> \<not> tr_started st then st\<lparr>tr_started := True\<rparr> else st"
  have hello: "quiet ?hello" by (simp add: start_events_quiet)
  have st0: "running ?st0" "tr_buffer ?st0 = tr_buffer st" using Cons.prems(2) by (simp_all add: running_def)
  from Cons.prems(1,2) obtain out1 st1 out2 where r: "read_events call (tr_buffer st @ chunk) ?st0 = Some (out1, st1)"
    "feed_all call chunks st1 = Some (out2, st')" "out = (?hello @ out1) @ out2"
    by (auto simp: feed_def running_def split: Option.bind_splits if_splits)
  show ?case
  proof (cases "cut_event (tr_buffer st @ chunk)")
    case None
    then have "out1 = []" "st1 = ?st0\<lparr>tr_buffer := tr_buffer st @ chunk\<rparr>" using r(1) by (auto simp: read_events.simps)
    moreover from this st0 have "running st1" "tr_buffer st1 = tr_buffer st @ chunk" by (simp_all add: running_def)
    ultimately show ?thesis using Cons.IH[OF r(2)] Cons.prems(3) None r(3) hello by (simp add: quiet_up_to_end)
  next
    case (Some p)
    obtain raw rest where p: "p = (raw, rest)" by fastforce
    with Some Cons.prems(3) have rest: "cut_event rest = None" "one_at_a_time rest chunks" by auto
    with r(1) Some p obtain st2 where e: "read_event call raw ?st0 = Some (out1, st2)" "st1 = st2\<lparr>tr_buffer := rest\<rparr>"
      by (auto simp: read_events.simps[of call "tr_buffer st @ chunk"] read_events.simps[of call rest] split: Option.bind_splits)
    have o: "orderly ?st0 out1 st2" by (rule read_event_orderly[OF e(1) st0(1)])
    show ?thesis
    proof (cases "running st2")
      case True
      then have "quiet out1" "running st1" "tr_buffer st1 = rest" using o e(2) by (auto simp: orderly_def running_def)
      then show ?thesis using Cons.IH[OF r(2)] rest(2) r(3) hello by (simp add: quiet_up_to_end)
    next
      case False
      then have "out2 = []" using feed_all_over[of st1 call chunks] r(2) e(2) by (simp add: running_def)
      moreover have "up_to_end (?hello @ out1) = ?hello @ out1"
        using o hello quiet_up_to_end[of out1 "[]"] by (auto simp: orderly_def quiet_up_to_end)
      ultimately show ?thesis using r(3) by simp
    qed
  qed
qed simp

section \<open>A whole run\<close>

lemma feed_run:
  assumes "feed_inv st out" "feed call chunk st = Some (later, st')"
  shows "feed_inv st' (out @ later)"
proof (cases "tr_closed st \<or> tr_failed st")
  case True
  then show ?thesis using assms by (simp add: feed_def)
next
  case False
  let ?fresh = "chunk \<noteq> [] \<and> \<not> tr_started st"
  let ?hello = "if ?fresh then start_events call else []"
  let ?st0 = "if ?fresh then st\<lparr>tr_started := True\<rparr> else st"
  from assms(2) False obtain out1 where r: "read_events call (tr_buffer st @ chunk) ?st0 = Some (out1, st')" "later = ?hello @ out1"
    by (auto simp: feed_def split: if_splits)
  have inv: "shown_text out = tr_text st" "list_all whole_tool (shown_tools out)" using assms(1) by (simp_all add: feed_inv_def)
  have hello: "shown_text ?hello = []" "fold collect_tool ?hello acc = acc" for acc
    by (auto simp: start_events_def shown_text_def event_text_def collect_tool_def event_simps)
  have t: "transition ?st0 out1 st'" by (rule read_events_transition[OF r(1)])
  then obtain new where new: "fold collect_tool out1 (shown_tools out) = shown_tools out @ new" "list_all whole_tool new"
    by (auto simp: transition_def)
  have shown: "shown_text (out @ later) = tr_text st'"
    using inv(1) t r(2) hello(1) by (auto simp: transition_def shown_text_def split: if_splits)
  have tools: "list_all whole_tool (shown_tools (out @ later))"
    using inv(2) new r(2) hello(2) by (simp add: shown_tools_def)
  show ?thesis
  proof (cases "tr_started ?st0")
    case True
    have "\<exists>ph. lenient Waiting (out @ ?hello) = Some ph \<and> phase_inv ?st0 ph"
      using assms(1) True by (auto simp: feed_inv_def start_events_def phase_inv_def event_simps split: if_splits)
    then obtain ph where "lenient Waiting (out @ ?hello) = Some ph" "phase_inv ?st0 ph" by blast
    moreover from this t obtain ph' where "lenient ph out1 = Some ph'" "phase_inv st' ph'" by (auto simp: transition_def)
    moreover have "tr_started st'" using t True by (simp add: transition_def)
    ultimately show ?thesis using shown tools r(2) by (simp add: feed_inv_def lenient_append flip: append_assoc)
  next
    case idle: False
    then have "chunk = []" "\<not> tr_started st" by (auto split: if_splits)
    moreover from this assms(1) have "tr_buffer st = []" by (simp add: feed_inv_def)
    ultimately have "later = []" "st' = st" using r by (auto simp: read_events.simps)
    then show ?thesis using assms(1) by simp
  qed
qed

lemma feed_all_run:
  "feed_inv st out \<Longrightarrow> feed_all call chunks st = Some (later, st') \<Longrightarrow> feed_inv st' (out @ later)"
proof (induction chunks arbitrary: st out later)
  case (Cons chunk chunks)
  from Cons.prems(2) obtain out1 st1 out2 where r: "feed call chunk st = Some (out1, st1)" "feed_all call chunks st1 = Some (out2, st')"
    "later = out1 @ out2"
    by (auto split: Option.bind_splits)
  from Cons.IH[OF feed_run[OF Cons.prems(1) r(1)] r(2)] r(3) show ?case by simp
qed simp

lemma translator_start_inv: "feed_inv translator_start []"
  by (simp add: feed_inv_def translator_start_def shown_text_def shown_tools_def)

definition example_call :: anthropic_call where
  "example_call = \<lparr>ac_request_id = ''r1'', ac_routed_model = ''ficelle/auto-fast'', ac_stop_sequences = []\<rparr>"

definition example_upstream :: "string \<Rightarrow> string" where
  "example_upstream content =
     ''data: '' @ json_compact (PDict [(''choices'', PList [PDict [(''delta'', PDict [(''content'', PStr content)])]])]) @ [LF, LF]"

text \<open>C10. The events an Anthropic client reads up to the end are those of one message in order: it starts once,
  blocks are numbered and never overlap, an error or the stop comes last, and a message is closed only
  by its stop. When no chunk completes two events, nothing follows the end.\<close>

theorem anthropic_messages_are_well_formed:
  assumes "feed_all call chunks translator_start = Some (out, st)"
  shows "\<exists>ph. phases Waiting (up_to_end out) = Some ph \<and> (ph = Over \<longleftrightarrow> list_ex is_end out)
    \<and> (tr_closed st \<longrightarrow> ph = Over) \<and> (one_at_a_time [] chunks \<longrightarrow> up_to_end out = out)"
proof -
  have inv: "feed_inv st out" using feed_all_run[OF translator_start_inv assms] by simp
  then obtain ph where ph: "lenient Waiting out = Some ph" "tr_closed st \<longrightarrow> ph = Over"
    by (auto simp: feed_inv_def phase_inv_def split: if_splits)
  moreover have "one_at_a_time [] chunks \<longrightarrow> up_to_end out = out"
    using feed_all_orderly[OF assms] by (simp add: running_def translator_start_def)
  ultimately show ?thesis using lenient_strict[OF ph(1)] by auto
qed

definition example_done :: string where
  "example_done = ''data: [DONE]'' @ [LF, LF]"

theorem anthropic_messages_are_well_formed_witness:
  "\<exists>out st. feed_all example_call [example_upstream ''hi'', example_done] translator_start = Some (out, st)
     \<and> tr_closed st \<and> phases Waiting out = Some Over"
proof -
  obtain out st where run: "feed_all example_call [example_upstream ''hi'', example_done] translator_start = Some (out, st)"
    and whole: "tr_closed st" "one_at_a_time [] [example_upstream ''hi'', example_done]"
  proof -
    have "one_at_a_time [] [example_upstream ''hi'', example_done]" by code_simp
    moreover have "map_option (\<lambda>(out, st). tr_closed st)
      (feed_all example_call [example_upstream ''hi'', example_done] translator_start) = Some True" by code_simp
    ultimately show thesis using that by (auto simp del: feed_all.simps)
  qed
  from anthropic_messages_are_well_formed[OF run] run whole show ?thesis by (auto simp del: feed_all.simps)
qed




end
