(* ===== verification/AnthropicMessages.thy ===== *)
theory AnthropicMessages
  imports AnthropicStream
begin

text \<open>
  The requests and answers of an Anthropic client (\<open>anthropic_messages.py\<close>): an Anthropic request as
  a chat request, a chat completion as an Anthropic message, an error, and a message as a stream. A
  request is refused with the message the client reads (\<open>Invalid\<close>); a value of a type the code does
  not expect may raise something else (\<open>TypeFault\<close>). The names of ignored fields are a list read as a
  set. The body is a JSON value; the bytes the code also accepts are read by the handler before.
\<close>

datatype fault = Invalid string | TypeFault

definition sbind :: "'e + 'a \<Rightarrow> ('a \<Rightarrow> 'e + 'b) \<Rightarrow> 'e + 'b" where
  "sbind x f = (case x of Inl e \<Rightarrow> Inl e | Inr a \<Rightarrow> f a)"

lemma sbind_simps [simp]: "sbind (Inl e) f = Inl e" "sbind (Inr a) f = f a"
  by (simp_all add: sbind_def)

lemma sbind_Inr [simp]: "sbind x f = Inr b \<longleftrightarrow> (\<exists>a. x = Inr a \<and> f a = Inr b)"
  by (cases x) simp_all

lemma sbind_cong [fundef_cong]: "x = y \<Longrightarrow> (\<And>a. y = Inr a \<Longrightarrow> f a = g a) \<Longrightarrow> sbind x f = sbind y g"
  by (cases y) simp_all

text \<open>\<open>v in {"a", "b"}\<close>, which raises when \<open>v\<close> cannot be hashed.\<close>

definition in_names :: "pv \<Rightarrow> string list \<Rightarrow> fault + bool" where
  "in_names v names =
     (case v of PList _ \<Rightarrow> Inl TypeFault | PDict _ \<Rightarrow> Inl TypeFault | _ \<Rightarrow> Inr (v \<in> PStr ` set names))"

definition at_index :: "string \<Rightarrow> nat \<Rightarrow> string" where
  "at_index path i = path @ ''['' @ show_int (int i) @ '']''"

text \<open>The name recorded when a mapping has a field that is not one of those allowed, and the mark of a
  cache hint.\<close>

definition unknown_fields :: "pydict \<Rightarrow> string list \<Rightarrow> string \<Rightarrow> string list" where
  "unknown_fields value allowed label = (if list_ex (\<lambda>field. field \<notin> set allowed) (dkeys value) then [label] else [])"

definition cache_hint :: "pydict \<Rightarrow> string list" where
  "cache_hint block = (if dhas ''cache_control'' block then [''cache_control''] else [])"

section \<open>The content of a request\<close>

definition text_block :: "string \<Rightarrow> string \<Rightarrow> nat \<Rightarrow> pv \<Rightarrow> fault + string \<times> string list" where
  "text_block path label i block =
     (case block of
        PDict d \<Rightarrow>
          (if dget d ''type'' = PStr ''text''
           then (case dget d ''text'' of
                   PStr s \<Rightarrow> Inr (s, unknown_fields d [''type'', ''text'', ''cache_control''] label @ cache_hint d)
                 | _ \<Rightarrow> Inl (Invalid (at_index path i @ ''.text must be a string'')))
           else sbind (in_names (dget d ''type'') [''thinking'', ''redacted_thinking'']) (\<lambda>thinking.
             if thinking then Inr ([], ''thinking'' # cache_hint d)
             else Inl (Invalid (''unsupported content block type: '' @ py_repr (dget d ''type'')))))
      | _ \<Rightarrow> Inl (Invalid (at_index path i @ '' must be an object'')))"

fun text_parts_from :: "string \<Rightarrow> nat \<Rightarrow> pv list \<Rightarrow> fault + string \<times> string list" where
  "text_parts_from path i [] = Inr ([], [])"
| "text_parts_from path i (block # blocks) =
     sbind (text_block path ''system_block_fields'' i block) (\<lambda>(s, ignored).
       sbind (text_parts_from path (Suc i) blocks) (\<lambda>(rest, later). Inr (s @ rest, ignored @ later)))"

definition text_from_blocks :: "string \<Rightarrow> pv \<Rightarrow> fault + string \<times> string list" where
  "text_from_blocks path blocks =
     (case blocks of
        PStr s \<Rightarrow> Inr (s, [])
      | PList xs \<Rightarrow> text_parts_from path 0 xs
      | _ \<Rightarrow> Inl (Invalid (path @ '' must be a string or content-block array'')))"

definition image_part :: "pydict \<Rightarrow> string \<Rightarrow> fault + pv" where
  "image_part block path =
     (case dget block ''source'' of
        PDict source \<Rightarrow>
          sbind (if dget source ''type'' = PStr ''base64'' then
                   (if list_ex (\<lambda>field. field \<notin> {''type'', ''media_type'', ''data''}) (dkeys source)
                    then Inl (Invalid (path @ ''.source contains unsupported fields''))
                    else (case (dget source ''media_type'', dget source ''data'') of
                            (PStr media_type, PStr data) \<Rightarrow> Inr (''data:'' @ media_type @ '';base64,'' @ data)
                          | _ \<Rightarrow> Inl (Invalid (path @ ''.source base64 image is incomplete''))))
                 else if dget source ''type'' = PStr ''url'' then
                   (if list_ex (\<lambda>field. field \<notin> {''type'', ''url''}) (dkeys source)
                    then Inl (Invalid (path @ ''.source contains unsupported fields''))
                    else (case dget source ''url'' of
                            PStr url \<Rightarrow> if url = [] then Inl (Invalid (path @ ''.source.url must be a URL'')) else Inr url
                          | _ \<Rightarrow> Inl (Invalid (path @ ''.source.url must be a URL''))))
                 else Inl (Invalid (''unsupported image source type: '' @ py_repr (dget source ''type''))))
            (\<lambda>url. Inr (PDict [(''type'', PStr ''image_url''), (''image_url'', PDict [(''url'', PStr url)])]))
      | _ \<Rightarrow> Inl (Invalid (path @ ''.source must be an object'')))"

definition text_part :: "string \<Rightarrow> pv" where
  "text_part s = PDict [(''type'', PStr ''text''), (''text'', PStr s)]"

text \<open>The pieces of a tool result, texts and images.\<close>

definition other_result_piece :: "string \<Rightarrow> pydict \<Rightarrow> fault + (string + pv) list \<times> string list" where
  "other_result_piece path d =
     (if dget d ''type'' = PStr ''image''
      then sbind (image_part d path) (\<lambda>image.
        Inr ([Inr image], unknown_fields d [''type'', ''source'', ''cache_control''] ''tool_result_block_fields'' @ cache_hint d))
      else sbind (in_names (dget d ''type'') [''thinking'', ''redacted_thinking'']) (\<lambda>thinking.
        if thinking then Inr ([], ''thinking'' # cache_hint d)
        else Inl (Invalid (''unsupported tool_result block type: '' @ py_repr (dget d ''type'')))))"

definition result_piece :: "string \<Rightarrow> pv \<Rightarrow> fault + (string + pv) list \<times> string list" where
  "result_piece path block =
     (case block of
        PDict d \<Rightarrow>
          (if dget d ''type'' = PStr ''text'' \<and> is_str (dget d ''text'')
           then Inr ([Inl (py_str (dget d ''text''))],
                     unknown_fields d [''type'', ''text'', ''cache_control''] ''tool_result_block_fields'' @ cache_hint d)
           else other_result_piece path d)
      | _ \<Rightarrow> Inl (Invalid (path @ '' must be an object'')))"

fun result_pieces :: "string \<Rightarrow> nat \<Rightarrow> pv list \<Rightarrow> fault + (string + pv) list \<times> string list" where
  "result_pieces path i [] = Inr ([], [])"
| "result_pieces path i (block # blocks) =
     sbind (result_piece (at_index path i) block) (\<lambda>(pieces, ignored).
       sbind (result_pieces path (Suc i) blocks) (\<lambda>(rest, later). Inr (pieces @ rest, ignored @ later)))"

definition tool_result_content :: "pv \<Rightarrow> string \<Rightarrow> fault + pv \<times> string list" where
  "tool_result_content content path =
     (case content of
        PStr s \<Rightarrow> Inr (PStr s, [])
      | PNone \<Rightarrow> Inr (PStr [], [])
      | PList xs \<Rightarrow>
          sbind (result_pieces path 0 xs) (\<lambda>(pieces, ignored).
            Inr (if list_ex (\<lambda>piece. case piece of Inl _ \<Rightarrow> False | Inr _ \<Rightarrow> True) pieces
                 then PList (map (case_sum text_part (\<lambda>image. image)) pieces)
                 else PStr (concat (map (case_sum (\<lambda>s. s) py_str) pieces)), ignored))
      | _ \<Rightarrow> Inr (PStr (json_compact content), []))"

section \<open>A message\<close>

text \<open>What the blocks of a message give: parts of the content, tool calls, messages of tool results, and
  the ignored names.\<close>

record message_parts =
  mp_regular :: "pv list"
  mp_calls :: "pv list"
  mp_results :: "pv list"
  mp_ignored :: "string list"

definition no_parts :: message_parts where
  "no_parts = \<lparr>mp_regular = [], mp_calls = [], mp_results = [], mp_ignored = []\<rparr>"

definition content_fields :: "pydict \<Rightarrow> string list \<Rightarrow> string list" where
  "content_fields d allowed = unknown_fields d (''type'' # allowed @ [''cache_control'']) ''content_block_fields''"

definition text_content :: "pydict \<Rightarrow> string \<Rightarrow> fault + message_parts" where
  "text_content d path =
     (case dget d ''text'' of
        PStr s \<Rightarrow> Inr (no_parts\<lparr>mp_regular := [text_part s], mp_ignored := content_fields d [''text''] @ cache_hint d\<rparr>)
      | _ \<Rightarrow> Inl (Invalid (path @ ''.text must be a string'')))"

definition image_content :: "pydict \<Rightarrow> string \<Rightarrow> string \<Rightarrow> fault + message_parts" where
  "image_content d role path =
     (if role \<noteq> ''user'' then Inl (Invalid ''image blocks are only valid in user messages'')
      else sbind (image_part d path) (\<lambda>image.
        Inr (no_parts\<lparr>mp_regular := [image], mp_ignored := content_fields d [''source''] @ cache_hint d\<rparr>)))"

definition tool_use_content :: "pydict \<Rightarrow> string \<Rightarrow> string \<Rightarrow> fault + message_parts" where
  "tool_use_content d role path =
     (if role \<noteq> ''assistant'' then Inl (Invalid ''tool_use blocks are only valid in assistant messages'')
      else (case (dget d ''id'', dget d ''name'') of
              (PStr tool_id, PStr name) \<Rightarrow>
                (if tool_id = [] \<or> name = [] then Inl (Invalid (path @ '' tool_use requires id and name''))
                 else (case dget_or d ''input'' (PDict []) of
                         PDict arguments \<Rightarrow>
                           Inr (no_parts\<lparr>mp_calls := [PDict [(''id'', PStr tool_id), (''type'', PStr ''function''),
                                  (''function'', PDict [(''name'', PStr name), (''arguments'', PStr (json_compact (PDict arguments)))])]],
                                mp_ignored := content_fields d [''id'', ''name'', ''input''] @ cache_hint d\<rparr>)
                       | _ \<Rightarrow> Inl (Invalid (path @ ''.input must be an object''))))
            | _ \<Rightarrow> Inl (Invalid (path @ '' tool_use requires id and name''))))"

definition tool_result_message :: "pydict \<Rightarrow> string \<Rightarrow> string \<Rightarrow> fault + message_parts" where
  "tool_result_message d role path =
     (if role \<noteq> ''user'' then Inl (Invalid ''tool_result blocks are only valid in user messages'')
      else (case dget d ''tool_use_id'' of
              PStr tool_id \<Rightarrow>
                (if tool_id = [] then Inl (Invalid (path @ ''.tool_use_id is required''))
                 else if dhas ''is_error'' d \<and> (case dget d ''is_error'' of PBool _ \<Rightarrow> False | _ \<Rightarrow> True)
                 then Inl (Invalid (path @ ''.is_error must be a boolean''))
                 else sbind (tool_result_content (dget_or d ''content'' (PStr [])) path) (\<lambda>(content, ignored).
                   Inr (no_parts\<lparr>mp_results := [PDict [(''role'', PStr ''tool''), (''tool_call_id'', PStr tool_id), (''content'', content)]],
                     mp_ignored := content_fields d [''tool_use_id'', ''content'', ''is_error'']
                       @ (if dhas ''is_error'' d then [''tool_result.is_error''] else []) @ ignored @ cache_hint d\<rparr>)))
            | _ \<Rightarrow> Inl (Invalid (path @ ''.tool_use_id is required''))))"

definition message_block :: "string \<Rightarrow> string \<Rightarrow> pv \<Rightarrow> fault + message_parts" where
  "message_block role path block =
     (case block of
        PDict d \<Rightarrow>
          (let kind = dget d ''type'' in
           if kind = PStr ''text'' then text_content d path
           else if kind = PStr ''image'' then image_content d role path
           else if kind = PStr ''thinking'' \<or> kind = PStr ''redacted_thinking''
           then Inr (no_parts\<lparr>mp_ignored := ''thinking'' # cache_hint d\<rparr>)
           else if kind = PStr ''tool_use'' then tool_use_content d role path
           else if kind = PStr ''tool_result'' then tool_result_message d role path
           else Inl (Invalid (''unsupported content block type: '' @ py_repr kind)))
      | _ \<Rightarrow> Inl (Invalid (path @ '' must be an object'')))"

definition join_parts :: "message_parts \<Rightarrow> message_parts \<Rightarrow> message_parts" where
  "join_parts a b =
     \<lparr>mp_regular = mp_regular a @ mp_regular b, mp_calls = mp_calls a @ mp_calls b,
      mp_results = mp_results a @ mp_results b, mp_ignored = mp_ignored a @ mp_ignored b\<rparr>"

fun message_blocks :: "string \<Rightarrow> string \<Rightarrow> nat \<Rightarrow> pv list \<Rightarrow> fault + message_parts" where
  "message_blocks role path i [] = Inr no_parts"
| "message_blocks role path i (block # blocks) =
     sbind (message_block role (at_index (path @ ''.content'') i) block) (\<lambda>parts.
       sbind (message_blocks role path (Suc i) blocks) (\<lambda>rest. Inr (join_parts parts rest)))"

definition is_text_part :: "pv \<Rightarrow> bool" where
  "is_text_part part \<longleftrightarrow> dget (as_dict part) ''type'' = PStr ''text''"

text \<open>The messages of the blocks: the results of tools come before the text of the same turn.\<close>

definition turn_entry :: "string \<Rightarrow> message_parts \<Rightarrow> pv" where
  "turn_entry role parts =
     PDict ([(''role'', PStr role),
        (''content'',
          if mp_regular parts = [] then PNone
          else if list_all is_text_part (mp_regular parts)
          then PStr (concat (map (\<lambda>part. py_str (dget (as_dict part) ''text'')) (mp_regular parts)))
          else PList (mp_regular parts))]
      @ (if mp_calls parts = [] then [] else [(''tool_calls'', PList (mp_calls parts))]))"

definition turn_messages :: "string \<Rightarrow> message_parts \<Rightarrow> pv list" where
  "turn_messages role parts =
     (if mp_regular parts = [] \<and> mp_calls parts = [] then mp_results parts
      else if role = ''user'' \<and> mp_results parts \<noteq> [] then mp_results parts @ [turn_entry role parts]
      else turn_entry role parts # mp_results parts)"

definition translate_message :: "pv \<Rightarrow> nat \<Rightarrow> fault + pv list \<times> string list" where
  "translate_message message i =
     (let path = at_index ''messages'' i in
      case message of
        PDict d \<Rightarrow>
          sbind (in_names (dget d ''role'') [''user'', ''assistant'']) (\<lambda>known.
            if \<not> known then Inl (Invalid (path @ ''.role must be user or assistant''))
            else (let role = py_str (dget d ''role''); ignored = unknown_fields d [''role'', ''content''] ''message_fields'' in
                  case dget_or d ''content'' (PStr []) of
                    PStr s \<Rightarrow> Inr ([PDict [(''role'', PStr role), (''content'', PStr s)]], ignored)
                  | PList blocks \<Rightarrow>
                      sbind (message_blocks role path 0 blocks) (\<lambda>parts.
                        Inr (turn_messages role parts, ignored @ mp_ignored parts))
                  | _ \<Rightarrow> Inl (Invalid (path @ ''.content must be a string or content-block array''))))
      | _ \<Rightarrow> Inl (Invalid (path @ '' must be an object'')))"

fun translate_messages :: "nat \<Rightarrow> pv list \<Rightarrow> fault + pv list \<times> string list" where
  "translate_messages i [] = Inr ([], [])"
| "translate_messages i (message # messages) =
     sbind (translate_message message i) (\<lambda>(turn, ignored).
       sbind (translate_messages (Suc i) messages) (\<lambda>(rest, later). Inr (turn @ rest, ignored @ later)))"

section \<open>The model a request is routed to\<close>

text \<open>\<open>fnmatch.fnmatchcase\<close>: the characters of a class \<open>[...]\<close>, and the pattern.\<close>

fun in_class :: "char \<Rightarrow> string \<Rightarrow> bool" where
  "in_class c (a # d # b # r) =
     (if d = CHR ''-'' then cpoint a \<le> cpoint c \<and> cpoint c \<le> cpoint b \<or> in_class c r
      else c = a \<or> in_class c (d # b # r))"
| "in_class c s \<longleftrightarrow> c \<in> set s"

text \<open>The body of a class and the pattern after it; the first character of the body may be its closing
  bracket.\<close>

definition class_body :: "string \<Rightarrow> (bool \<times> string \<times> string) option" where
  "class_body s =
     (let negated = starts_with ''!'' s; t = (if negated then drop 1 s else s);
          first = take (if starts_with '']'' t then 1 else 0) t; rest = drop (length first) t;
          inner = takeWhile (\<lambda>c. c \<noteq> CHR '']'') rest
      in if length inner < length rest then Some (negated, first @ inner, drop (Suc (length inner)) rest) else None)"

lemma class_body_shorter: "class_body s = Some (negated, body, rest) \<Longrightarrow> length rest < length s"
  by (auto simp: class_body_def Let_def split: if_splits)

function fnmatchcase :: "string \<Rightarrow> string \<Rightarrow> bool" where
  "fnmatchcase s [] \<longleftrightarrow> s = []"
| "fnmatchcase s (p # ps) =
     (if p = CHR ''*'' then fnmatchcase s ps \<or> (case s of [] \<Rightarrow> False | _ # r \<Rightarrow> fnmatchcase r (p # ps))
      else (case s of
              [] \<Rightarrow> False
            | c # r \<Rightarrow>
                (case (if p = CHR ''['' then class_body ps else None) of
                   Some (negated, body, rest) \<Rightarrow> (in_class c body \<noteq> negated) \<and> fnmatchcase r rest
                 | None \<Rightarrow> (p = CHR ''?'' \<or> c = p) \<and> fnmatchcase r ps)))"
  by pat_completeness auto
termination by (relation "measure (\<lambda>(s, p). length s + length p)") (auto dest: class_body_shorter split: if_splits)

definition PROFILE_PREFIX :: string where "PROFILE_PREFIX = ''ficelle/''"

definition DEFAULT_ANTHROPIC_MODEL_MAPPING :: pydict where
  "DEFAULT_ANTHROPIC_MODEL_MAPPING = map (\<lambda>(name, profile). (name, PStr (PROFILE_PREFIX @ profile)))
     [(''claude-code'', ''auto-coding''), (''claude-code/haiku*'', ''auto-fast''), (''claude-code/sonnet*'', ''auto-coding''),
      (''claude-code/opus*'', ''auto-orchestrator''), (''*haiku*'', ''auto-fast''), (''*sonnet*'', ''auto-coding''),
      (''*opus*'', ''auto-orchestrator''), (''*fable*'', ''auto-orchestrator''), (''claude-code*'', ''auto-coding''),
      (''claude*'', ''auto-coding'')]"

definition matching_entry :: "string \<Rightarrow> string \<times> pv \<Rightarrow> string option" where
  "matching_entry model entry =
     (case entry of (key, v) \<Rightarrow>
        case v of
          PStr profile \<Rightarrow>
            if CHR ''*'' \<in> set key \<and> fnmatchcase (lower model) (lower key) \<and> profile \<noteq> [] then Some profile else None
        | _ \<Rightarrow> None)"

definition mapped_model :: "string \<Rightarrow> pydict \<Rightarrow> fault + string" where
  "mapped_model model mapping =
     (if starts_with PROFILE_PREFIX model then Inr model
      else (case (case dget mapping model of PStr s \<Rightarrow> if s = [] then None else Some s | _ \<Rightarrow> None) of
              Some s \<Rightarrow> Inr s
            | None \<Rightarrow>
                (case List.map_filter (matching_entry model) mapping of
                   profile # _ \<Rightarrow> Inr profile
                 | [] \<Rightarrow> Inl (Invalid (''model '' @ py_repr (PStr model)
                     @ '' has no Ficelle profile mapping; configure anthropic_model_mapping'')))))"

definition usable_mapping :: "pv option \<Rightarrow> fault + pydict" where
  "usable_mapping model_mapping =
     (case (case model_mapping of None \<Rightarrow> PDict DEFAULT_ANTHROPIC_MODEL_MAPPING | Some v \<Rightarrow> v) of
        PDict mapping \<Rightarrow>
          (if list_ex (\<lambda>(key, v). key = [] \<or> (case v of PStr s \<Rightarrow> \<not> starts_with PROFILE_PREFIX s | _ \<Rightarrow> True)) mapping
           then Inl (Invalid ''anthropic_model_mapping entries must map non-empty names to Ficelle profiles'')
           else Inr mapping)
      | _ \<Rightarrow> Inl (Invalid ''anthropic_model_mapping must be an object''))"

section \<open>A request\<close>

definition SUPPORTED_REQUEST_FIELDS :: "string list" where
  "SUPPORTED_REQUEST_FIELDS =
     [''cache_control'', ''max_tokens'', ''messages'', ''metadata'', ''model'', ''stop_sequences'', ''stream'', ''system'',
      ''temperature'', ''thinking'', ''tool_choice'', ''tools'', ''top_p'']"

definition safe_name :: "string \<Rightarrow> bool" where
  "safe_name field \<longleftrightarrow> 1 \<le> length field \<and> length field \<le> 80
     \<and> list_all (\<lambda>c. is_ascii_alnum c \<or> c \<in> {CHR ''_'', CHR ''.'', CHR ''-''}) field"

definition ignored_request_fields :: "pydict \<Rightarrow> fault + string list" where
  "ignored_request_fields source =
     (let unknown = filter (\<lambda>field. field \<notin> set SUPPORTED_REQUEST_FIELDS) (dkeys source)
      in if 32 < length unknown then Inl (Invalid ''request contains too many unsupported fields'')
         else if \<not> list_all safe_name unknown then Inl (Invalid ''unsupported field names must use safe ASCII identifiers'')
         else Inr unknown)"

definition system_messages :: "pydict \<Rightarrow> fault + pv list \<times> string list" where
  "system_messages source =
     (case map_of source ''system'' of
        None \<Rightarrow> Inr ([], [])
      | Some system \<Rightarrow>
          sbind (text_from_blocks ''system'' system) (\<lambda>(s, ignored).
            Inr (if s = [] then [] else [PDict [(''role'', PStr ''system''), (''content'', PStr s)]], ignored)))"

definition stop_list :: "pydict \<Rightarrow> fault + string list" where
  "stop_list source =
     (case dget source ''stop_sequences'' of
        PNone \<Rightarrow> Inr []
      | PList xs \<Rightarrow>
          (if list_all is_str xs then Inr (map py_str xs) else Inl (Invalid ''stop_sequences must be an array of strings''))
      | _ \<Rightarrow> Inl (Invalid ''stop_sequences must be an array of strings''))"

definition sampling_field :: "pydict \<Rightarrow> string \<Rightarrow> fault + pydict" where
  "sampling_field source field =
     (case map_of source field of
        None \<Rightarrow> Inr []
      | Some v \<Rightarrow>
          (let ranged = (\<lambda>ok. if ok then Inr [(field, v)] else Inl (Invalid (field @ '' must be between 0 and 1''))) in
           case v of
             PInt i \<Rightarrow> ranged (0 \<le> i \<and> i \<le> 1)
           | PFloat (Fin r) \<Rightarrow> ranged (0 \<le> r \<and> r \<le> 1)
           | PFloat _ \<Rightarrow> ranged False
           | _ \<Rightarrow> Inl (Invalid (field @ '' must be a number''))))"

definition stream_field :: "pydict \<Rightarrow> fault + pydict" where
  "stream_field source =
     (case dget source ''stream'' of
        PNone \<Rightarrow> Inr []
      | PBool b \<Rightarrow> Inr [(''stream'', PBool b)]
      | _ \<Rightarrow> Inl (Invalid ''stream must be a boolean''))"

definition named_choice :: "pydict \<Rightarrow> fault + pv" where
  "named_choice choice =
     sbind (in_names (dget choice ''type'') [''auto'', ''none'']) (\<lambda>plain.
       if plain then Inr (dget choice ''type'')
       else if dget choice ''type'' = PStr ''any'' then Inr (PStr ''required'')
       else (case dget choice ''name'' of
               PStr name \<Rightarrow>
                 if dget choice ''type'' = PStr ''tool'' \<and> name \<noteq> []
                 then Inr (PDict [(''type'', PStr ''function''), (''function'', PDict [(''name'', PStr name)])])
                 else Inl (Invalid ''tool_choice must be auto, any, none, or a named tool'')
             | _ \<Rightarrow> Inl (Invalid ''tool_choice must be auto, any, none, or a named tool'')))"

definition tool_choice_fields :: "pydict \<Rightarrow> fault + pydict \<times> string list" where
  "tool_choice_fields source =
     (case dget source ''tool_choice'' of
        PNone \<Rightarrow> Inr ([], [])
      | PDict choice \<Rightarrow>
          sbind (named_choice choice) (\<lambda>named.
            sbind (case map_of choice ''disable_parallel_tool_use'' of
                     None \<Rightarrow> Inr []
                   | Some (PBool b) \<Rightarrow> Inr [(''parallel_tool_calls'', PBool (\<not> b))]
                   | Some _ \<Rightarrow> Inl (Invalid ''tool_choice.disable_parallel_tool_use must be a boolean''))
              (\<lambda>parallel. Inr ((''tool_choice'', named) # parallel,
                 unknown_fields choice [''type'', ''name'', ''disable_parallel_tool_use''] ''tool_choice_fields'')))
      | _ \<Rightarrow> Inl (Invalid ''tool_choice must be an object''))"

definition translate_tool :: "nat \<Rightarrow> pv \<Rightarrow> fault + pv \<times> string list" where
  "translate_tool i tool =
     (case (as_dict tool, dget (as_dict tool) ''name'') of
        (d, PStr name) \<Rightarrow>
          (if name = [] then Inl (Invalid (at_index ''tools'' i @ '' requires a name''))
           else (case dget d ''input_schema'' of
                   PDict schema \<Rightarrow>
                     Inr (PDict [(''type'', PStr ''function''), (''function'', PDict ([(''name'', PStr name), (''parameters'', PDict schema)]
                            @ (case dget d ''description'' of PStr s \<Rightarrow> [(''description'', PStr s)] | _ \<Rightarrow> [])))],
                          unknown_fields d [''name'', ''description'', ''input_schema'', ''cache_control''] ''tool_fields'' @ cache_hint d)
                 | _ \<Rightarrow> Inl (Invalid (at_index ''tools'' i @ ''.input_schema must be an object''))))
      | _ \<Rightarrow> Inl (Invalid (at_index ''tools'' i @ '' requires a name'')))"

fun translate_tools :: "nat \<Rightarrow> pv list \<Rightarrow> fault + pv list \<times> string list" where
  "translate_tools i [] = Inr ([], [])"
| "translate_tools i (tool # tools) =
     sbind (translate_tool i tool) (\<lambda>(t, ignored).
       sbind (translate_tools (Suc i) tools) (\<lambda>(rest, later). Inr (t # rest, ignored @ later)))"

definition tools_field :: "pydict \<Rightarrow> fault + pydict \<times> string list" where
  "tools_field source =
     (case dget source ''tools'' of
        PNone \<Rightarrow> Inr ([], [])
      | PList xs \<Rightarrow> sbind (translate_tools 0 xs) (\<lambda>(tools, ignored). Inr ([(''tools'', PList tools)], ignored))
      | _ \<Rightarrow> Inl (Invalid ''tools must be an array''))"

record request_translation =
  rq_body :: pydict
  rq_requested :: string
  rq_routed :: string
  rq_ignored :: "string list"
  rq_stops :: "string list"

definition required_fields :: "pydict \<Rightarrow> fault + string \<times> int \<times> pv list" where
  "required_fields source =
     (case dget source ''model'' of
        PStr model \<Rightarrow>
          (if model = [] then Inl (Invalid ''model is required'')
           else (case dget source ''max_tokens'' of
                   PInt n \<Rightarrow>
                     (if n \<le> 0 then Inl (Invalid ''max_tokens is required and must be a positive integer'')
                      else (case dget source ''messages'' of
                              PList messages \<Rightarrow> Inr (model, n, messages)
                            | _ \<Rightarrow> Inl (Invalid ''messages must be an array'')))
                 | _ \<Rightarrow> Inl (Invalid ''max_tokens is required and must be a positive integer'')))
      | _ \<Rightarrow> Inl (Invalid ''model is required''))"

definition metadata_field :: "pydict \<Rightarrow> fault + pydict" where
  "metadata_field source =
     (case dget source ''metadata'' of
        PNone \<Rightarrow> Inr []
      | PDict d \<Rightarrow> Inr [(''metadata'', PDict d)]
      | _ \<Rightarrow> Inl (Invalid ''metadata must be an object''))"

definition translate_anthropic_request :: "pv \<Rightarrow> pv option \<Rightarrow> fault + request_translation" where
  "translate_anthropic_request body model_mapping =
     (case body of
        PDict source \<Rightarrow>
          sbind (required_fields source) (\<lambda>(requested, max_tokens, messages).
          sbind (ignored_request_fields source) (\<lambda>unknown.
          sbind (metadata_field source) (\<lambda>metadata.
          sbind (system_messages source) (\<lambda>(system, system_ignored).
          sbind (translate_messages 0 messages) (\<lambda>(turns, turns_ignored).
          sbind (stop_list source) (\<lambda>stops.
          sbind (usable_mapping model_mapping) (\<lambda>mapping.
          sbind (mapped_model requested mapping) (\<lambda>routed.
          sbind (sampling_field source ''temperature'') (\<lambda>temperature.
          sbind (sampling_field source ''top_p'') (\<lambda>top_p.
          sbind (stream_field source) (\<lambda>stream.
          sbind (tool_choice_fields source) (\<lambda>(choice, choice_ignored).
          sbind (tools_field source) (\<lambda>(tools, tools_ignored).
            Inr \<lparr>rq_body = [(''model'', PStr routed), (''messages'', PList (system @ turns)), (''max_tokens'', PInt max_tokens)]
                   @ temperature @ top_p @ (if stops = [] then [] else [(''stop'', PList (map PStr stops))])
                   @ stream @ metadata @ choice @ tools,
                 rq_requested = requested, rq_routed = routed,
                 rq_ignored = sort (remdups (unknown @ (if dhas ''thinking'' source then [''thinking''] else [])
                   @ cache_hint source @ system_ignored @ turns_ignored @ choice_ignored @ tools_ignored)),
                 rq_stops = stops\<rparr>)))))))))))))
      | _ \<Rightarrow> Inl (Invalid ''request body must be a JSON object''))"

section \<open>An answer\<close>

definition answer_text :: "pv \<Rightarrow> fault + string list" where
  "answer_text content =
     (case content of
        PNone \<Rightarrow> Inr []
      | PStr s \<Rightarrow> Inr (if s = [] then [] else [s])
      | PList blocks \<Rightarrow>
          (if list_all (\<lambda>block. is_text_part block \<and> is_str (dget (as_dict block) ''text'')) blocks
           then Inr (map (\<lambda>block. py_str (dget (as_dict block) ''text'')) blocks)
           else Inl (Invalid ''upstream response contains an unsupported content block''))
      | _ \<Rightarrow> Inl (Invalid ''upstream response content has an unsupported shape''))"

definition answer_texts :: "pydict \<Rightarrow> fault + string list" where
  "answer_texts message =
     sbind (answer_text (dget message ''content'')) (\<lambda>texts.
       Inr (case dget message ''refusal'' of
              PStr refusal \<Rightarrow> if concat texts = [] \<and> refusal \<noteq> [] then texts @ [refusal] else texts
            | _ \<Rightarrow> texts))"

definition call_arguments :: "string \<Rightarrow> pydict \<Rightarrow> fault + pydict" where
  "call_arguments call_id function =
     (let not_object = Inl (Invalid (''tool arguments for '' @ call_id @ '' must be a JSON object'')) in
      case dget_or function ''arguments'' (PStr ''{}'') of
        PStr raw \<Rightarrow>
          (case json_loads raw of
             None \<Rightarrow> Inl (Invalid (''tool arguments for '' @ call_id @ '' are not valid JSON''))
           | Some (PDict d) \<Rightarrow> Inr d
           | Some _ \<Rightarrow> not_object)
      | PDict d \<Rightarrow> Inr d
      | _ \<Rightarrow> not_object)"

definition answer_call :: "pv \<Rightarrow> fault + string \<times> string \<times> pydict" where
  "answer_call call =
     (case call of
        PDict d \<Rightarrow>
          (case dget d ''function'' of
             PDict function \<Rightarrow>
               (case (dget d ''id'', dget function ''name'') of
                  (PStr call_id, PStr name) \<Rightarrow>
                    (if call_id = [] \<or> name = [] then Inl (Invalid ''upstream tool call is missing its id or name'')
                     else sbind (call_arguments call_id function) (\<lambda>arguments. Inr (call_id, name, arguments)))
                | _ \<Rightarrow> Inl (Invalid ''upstream tool call is missing its id or name''))
           | _ \<Rightarrow> Inl (Invalid ''upstream tool call is missing its function''))
      | _ \<Rightarrow> Inl (Invalid ''upstream tool call must be an object''))"

fun answer_call_list :: "pv list \<Rightarrow> fault + (string \<times> string \<times> pydict) list" where
  "answer_call_list [] = Inr []"
| "answer_call_list (call # calls) =
     sbind (answer_call call) (\<lambda>c. sbind (answer_call_list calls) (\<lambda>cs. Inr (c # cs)))"

definition answer_calls :: "pydict \<Rightarrow> fault + (string \<times> string \<times> pydict) list" where
  "answer_calls message =
     (if dget message ''audio'' \<noteq> PNone
      then Inl (Invalid ''upstream audio output cannot be represented as Anthropic content'')
      else if dget message ''function_call'' \<noteq> PNone
      then Inl (Invalid ''legacy upstream function_call has no tool-call id to preserve'')
      else (case dget message ''tool_calls'' of
              PNone \<Rightarrow> Inr []
            | PList calls \<Rightarrow> answer_call_list calls
            | _ \<Rightarrow> Inl (Invalid ''upstream tool_calls must be an array'')))"

definition or_fault :: "'a option \<Rightarrow> fault + 'a" where
  "or_fault x = (case x of None \<Rightarrow> Inl TypeFault | Some a \<Rightarrow> Inr a)"

definition tool_use_block :: "string \<times> string \<times> pydict \<Rightarrow> pv" where
  "tool_use_block c =
     (case c of (call_id, name, arguments) \<Rightarrow>
        PDict [(''type'', PStr ''tool_use''), (''id'', PStr call_id), (''name'', PStr name), (''input'', PDict arguments)])"

definition first_choice_of :: "pydict \<Rightarrow> pydict" where
  "first_choice_of payload = (case as_list (dget payload ''choices'') of choice # _ \<Rightarrow> as_dict choice | [] \<Rightarrow> [])"

definition translate_openai_response :: "anthropic_call \<Rightarrow> pv \<Rightarrow> fault + pydict" where
  "translate_openai_response call payload =
     (case payload of
        PDict d \<Rightarrow>
          (let choice = first_choice_of d; message = section_of choice ''message''; usage = section_of d ''usage'' in
           sbind (answer_texts message) (\<lambda>texts.
           sbind (answer_calls message) (\<lambda>calls.
           sbind (or_fault (stop_reason (dget choice ''finish_reason'') (concat texts) (ac_stop_sequences call)
                    (por (dget choice ''stop_sequence'') (dget choice ''matched_stop'')))) (\<lambda>(reason, stop_sequence).
           sbind (or_fault (usage_count usage ''prompt_tokens'')) (\<lambda>spent_in.
           sbind (or_fault (usage_count usage ''completion_tokens'')) (\<lambda>spent_out.
             Inr [(''id'', PStr (message_id (ac_request_id call))), (''type'', PStr ''message''), (''role'', PStr ''assistant''),
                  (''model'', PStr (ac_routed_model call)),
                  (''content'', PList (map text_part texts @ map tool_use_block calls)),
                  (''stop_reason'', PStr reason), (''stop_sequence'', opt_str stop_sequence),
                  (''usage'', usage_data spent_in spent_out)]))))))
      | _ \<Rightarrow> Inl TypeFault)"

section \<open>An error\<close>

definition ERROR_TYPES :: "(int \<times> string) list" where
  "ERROR_TYPES =
     [(400, ''invalid_request_error''), (401, ''authentication_error''), (402, ''billing_error''), (403, ''permission_error''),
      (404, ''not_found_error''), (408, ''api_error''), (409, ''api_error''), (413, ''request_too_large''),
      (429, ''rate_limit_error''), (500, ''api_error''), (502, ''api_error''), (503, ''overloaded_error''),
      (504, ''api_error''), (529, ''overloaded_error'')]"

definition safe_error_field :: "pydict \<Rightarrow> string \<Rightarrow> pydict" where
  "safe_error_field source key =
     (case map_of source key of
        None \<Rightarrow> []
      | Some v \<Rightarrow>
          (case v of
             PStr s \<Rightarrow> if key \<in> {''code'', ''requested_model''} then [(key, PStr (take 250 s))] else []
           | PInt i \<Rightarrow> if key \<in> {''candidate_count'', ''attempt_count''} then [(key, PInt i)] else []
           | PList xs \<Rightarrow> if key \<in> {''reasons'', ''last_error'', ''details'', ''actions''} then [(key, v)] else []
           | PDict e \<Rightarrow> if key \<in> {''reasons'', ''last_error'', ''details'', ''actions''} then [(key, v)] else []
           | _ \<Rightarrow> []))"

definition translate_openai_error :: "int \<Rightarrow> pv \<Rightarrow> string \<Rightarrow> pydict" where
  "translate_openai_error status payload request_id =
     (let source = section_of (as_dict payload) ''error'' in
      [(''type'', PStr ''error''),
       (''error'', PDict ([(''type'', PStr (case map_of ERROR_TYPES status of
                                  Some error_type \<Rightarrow> error_type
                                | None \<Rightarrow> if 500 \<le> status then ''api_error'' else ''invalid_request_error'')),
          (''message'', PStr (case dget source ''message'' of
                                  PStr s \<Rightarrow> if s = [] then ''request failed'' else take 2000 s
                                | _ \<Rightarrow> ''request failed''))]
          @ concat (map (safe_error_field source) [''code'', ''requested_model'', ''candidate_count'', ''attempt_count'',
                ''reasons'', ''last_error'', ''details'', ''actions'']))),
       (''request_id'', PStr request_id)])"

section \<open>A message as a stream\<close>

definition message_block_events :: "int \<Rightarrow> pv \<Rightarrow> fault + sse_event list" where
  "message_block_events i block =
     (case block of
        PDict d \<Rightarrow>
          (if dget d ''type'' = PStr ''text''
           then Inr [block_start i [(''type'', PStr ''text''), (''text'', PStr [])],
                     block_delta i [(''type'', PStr ''text_delta''), (''text'', dget_or d ''text'' (PStr []))], block_stop i]
           else if dget d ''type'' = PStr ''tool_use''
           then Inr [block_start i [(''type'', PStr ''tool_use''), (''id'', dget d ''id''), (''name'', dget d ''name''), (''input'', PDict [])],
                     block_delta i (json_delta (json_compact (dget_or d ''input'' (PDict [])))), block_stop i]
           else Inl (Invalid ''translated Anthropic content block is unsupported''))
      | _ \<Rightarrow> Inl (Invalid ''translated Anthropic content block must be an object''))"

fun message_blocks_events :: "int \<Rightarrow> pv list \<Rightarrow> fault + sse_event list" where
  "message_blocks_events i [] = Inr []"
| "message_blocks_events i (block # blocks) =
     sbind (message_block_events i block) (\<lambda>es. sbind (message_blocks_events (i + 1) blocks) (\<lambda>rest. Inr (es @ rest)))"

definition encode_anthropic_message_stream :: "pydict \<Rightarrow> fault + sse_event list" where
  "encode_anthropic_message_stream message =
     (let usage = section_of message ''usage'' in
      sbind (or_fault (usage_count usage ''input_tokens'')) (\<lambda>spent_in.
      sbind (case dget message ''content'' of
               PList blocks \<Rightarrow> message_blocks_events 0 blocks
             | _ \<Rightarrow> Inl (Invalid ''translated Anthropic content must be an array'')) (\<lambda>blocks.
      sbind (or_fault (usage_count usage ''output_tokens'')) (\<lambda>spent_out.
        Inr ([typed_event ''message_start'' [(''message'', PDict
                [(''id'', dget message ''id''), (''type'', PStr ''message''), (''role'', PStr ''assistant''), (''content'', PList []),
                 (''model'', dget message ''model''), (''stop_reason'', PNone), (''stop_sequence'', PNone), (''usage'', usage_data spent_in 0)])],
              typed_event ''ping'' []] @ blocks
             @ [typed_event ''message_delta'' [(''delta'', PDict [(''stop_reason'', dget message ''stop_reason''),
                  (''stop_sequence'', dget message ''stop_sequence'')]), (''usage'', usage_data spent_in spent_out)],
                typed_event ''message_stop'' []])))))"

end
