(* ===== verification/AnthropicContract.thy ===== *)
theory AnthropicContract
  imports AnthropicRun AnthropicMessages
begin

text \<open>What the router and an Anthropic client may rely on about translated requests and answers.\<close>

section \<open>The turns of a request\<close>

definition role_of :: "pv \<Rightarrow> pv" where
  "role_of message = dget (as_dict message) ''role''"

definition is_tool_message :: "pv \<Rightarrow> bool" where
  "is_tool_message message \<longleftrightarrow> role_of message = PStr ''tool''
     \<and> (\<exists>tool_id. dget (as_dict message) ''tool_call_id'' = PStr tool_id \<and> tool_id \<noteq> [])"

text \<open>A message of a user or an assistant, tool calls only from the latter.\<close>

definition is_speaker_message :: "string \<Rightarrow> pv \<Rightarrow> bool" where
  "is_speaker_message role message \<longleftrightarrow> role_of message = PStr role
     \<and> (dhas ''tool_calls'' (as_dict message) \<longrightarrow> role = ''assistant'')"

text \<open>One turn: a user answers tool calls before anything else, an assistant answers none.\<close>

definition well_formed_turn :: "pv list \<Rightarrow> bool" where
  "well_formed_turn turn \<longleftrightarrow>
     (\<exists>results speech. turn = results @ speech \<and> list_all is_tool_message results \<and> length speech \<le> 1
        \<and> (list_all (is_speaker_message ''user'') speech \<or> results = [] \<and> list_all (is_speaker_message ''assistant'') speech))"

definition parts_ok :: "string \<Rightarrow> message_parts \<Rightarrow> bool" where
  "parts_ok role parts \<longleftrightarrow> list_all is_tool_message (mp_results parts)
     \<and> (mp_calls parts \<noteq> [] \<longrightarrow> role = ''assistant'') \<and> (mp_results parts \<noteq> [] \<longrightarrow> role = ''user'')"

lemma message_block_ok: "message_block role path block = Inr parts \<Longrightarrow> parts_ok role parts"
  by (auto simp: message_block_def Let_def text_content_def image_content_def tool_use_content_def tool_result_message_def
      parts_ok_def no_parts_def is_tool_message_def role_of_def dget_def split: pv.splits if_splits)

lemma message_blocks_ok: "message_blocks role path i blocks = Inr parts \<Longrightarrow> parts_ok role parts"
proof (induction role path i blocks arbitrary: parts rule: message_blocks.induct)
  case (2 role path i block blocks)
  then obtain a b where "message_block role (at_index (path @ ''.content'') i) block = Inr a"
    "message_blocks role path (Suc i) blocks = Inr b" "parts = join_parts a b" by auto
  then show ?case using message_block_ok "2.IH" by (fastforce simp: parts_ok_def join_parts_def)
qed (auto simp: parts_ok_def no_parts_def)

lemma single_turn:
  "is_speaker_message role message \<Longrightarrow> role = ''user'' \<or> role = ''assistant'' \<Longrightarrow> well_formed_turn [message]"
  unfolding well_formed_turn_def by (rule exI[of _ "[]"], rule exI[of _ "[message]"]) auto

lemma turn_ok:
  assumes "parts_ok role parts" "role = ''user'' \<or> role = ''assistant''"
  shows "well_formed_turn (turn_messages role parts)"
proof -
  have speech: "is_speaker_message role (turn_entry role parts)"
    using assms(1) unfolding parts_ok_def is_speaker_message_def role_of_def turn_entry_def
    by (cases "mp_calls parts = []") (simp_all add: dget_def dhas_def)
  have results: "list_all is_tool_message (mp_results parts)" "mp_results parts \<noteq> [] \<Longrightarrow> role = ''user''"
    using assms(1) by (simp_all add: parts_ok_def)
  show ?thesis
  proof (cases "mp_regular parts = [] \<and> mp_calls parts = []")
    case True
    then have "turn_messages role parts = mp_results parts" by (simp add: turn_messages_def)
    then show ?thesis
      unfolding well_formed_turn_def using results(1) by (intro exI[of _ "mp_results parts"] exI[of _ "[]"]) simp
  next
    case spoken: False
    show ?thesis
    proof (cases "mp_results parts = []")
      case True
      then have "turn_messages role parts = [turn_entry role parts]" using spoken by (simp add: turn_messages_def)
      then show ?thesis using single_turn[OF speech assms(2)] by simp
    next
      case False
      with results(2) have user: "role = ''user''" by blast
      with spoken False have "turn_messages role parts = mp_results parts @ [turn_entry role parts]"
        unfolding turn_messages_def by (simp only: if_False if_True simp_thms)
      then show ?thesis
        unfolding well_formed_turn_def using results(1) speech user
        by - (rule exI[of _ "mp_results parts"], rule exI[of _ "[turn_entry role parts]"], simp)
    qed
  qed
qed

lemma translate_message_ok:
  assumes "translate_message message i = Inr (turn, ignored)"
  shows "well_formed_turn turn"
proof -
  from assms obtain d where d: "message = PDict d" by (auto simp: translate_message_def Let_def split: pv.splits)
  with assms have known: "in_names (dget d ''role'') [''user'', ''assistant''] = Inr True"
    by (auto simp: translate_message_def Let_def split: if_splits)
  then have role: "py_str (dget d ''role'') = ''user'' \<or> py_str (dget d ''role'') = ''assistant''"
    by (auto simp: in_names_def py_str_def split: pv.splits)
  show ?thesis
  proof (cases "dget_or d ''content'' (PStr [])")
    case (PStr s)
    then have "turn = [PDict [(''role'', PStr (py_str (dget d ''role''))), (''content'', PStr s)]]"
      using assms d known by (auto simp: translate_message_def Let_def)
    moreover have "is_speaker_message (py_str (dget d ''role'')) (PDict [(''role'', PStr (py_str (dget d ''role''))), (''content'', PStr s)])"
      by (simp add: is_speaker_message_def role_of_def dget_def dhas_def)
    ultimately show ?thesis using single_turn role by blast
  next
    case (PList blocks)
    then obtain parts where "message_blocks (py_str (dget d ''role'')) (at_index ''messages'' i) 0 blocks = Inr parts"
      "turn = turn_messages (py_str (dget d ''role'')) parts"
      using assms d known by (auto simp: translate_message_def Let_def)
    then show ?thesis using turn_ok[OF message_blocks_ok role] by simp
  qed (use assms d known in \<open>auto simp: translate_message_def Let_def\<close>)
qed

lemma translate_messages_ok:
  "translate_messages i messages = Inr (turns, ignored) \<Longrightarrow>
     \<exists>ts. turns = concat ts \<and> length ts = length messages \<and> list_all well_formed_turn ts"
proof (induction i messages arbitrary: turns ignored rule: translate_messages.induct)
  case (2 i message messages)
  then obtain turn ig rest ig' where r: "translate_message message i = Inr (turn, ig)"
    "translate_messages (Suc i) messages = Inr (rest, ig')" "turns = turn @ rest"
    by auto
  from "2.IH"[OF r(1) refl r(2)] obtain ts where "rest = concat ts" "length ts = length messages" "list_all well_formed_turn ts" by blast
  then show ?case using r translate_message_ok[OF r(1)] by (intro exI[of _ "turn # ts"]) simp
qed simp

lemma mapped_model_profile:
  assumes "usable_mapping model_mapping = Inr mapping" "mapped_model model mapping = Inr routed"
  shows "starts_with PROFILE_PREFIX routed"
proof -
  have entry: "starts_with PROFILE_PREFIX s" if "(key, PStr s) \<in> set mapping" for key s
    using assms(1) that by (fastforce simp: usable_mapping_def list_ex_iff split: option.splits pv.splits if_splits)
  have "starts_with PROFILE_PREFIX s" if "dget mapping model = PStr s" for s
    using that entry by (auto simp: dget_def split: option.splits dest: map_of_SomeD)
  moreover have "starts_with PROFILE_PREFIX s" if "s # rest = List.map_filter (matching_entry model) mapping" for s rest
  proof -
    have "s \<in> set (List.map_filter (matching_entry model) mapping)" using that by (metis list.set_intros(1))
    then obtain key v where "(key, v) \<in> set mapping" "matching_entry model (key, v) = Some s"
      by (force simp: List.map_filter_def)
    then show ?thesis using entry by (auto simp: matching_entry_def split: pv.splits if_splits)
  qed
  ultimately show ?thesis
    using assms(2) by (auto simp: mapped_model_def split: if_splits pv.splits list.splits)
qed

definition request_fields_kept :: "pydict \<Rightarrow> request_translation \<Rightarrow> bool" where
  "request_fields_kept source t \<longleftrightarrow>
     list_all (\<lambda>field. field \<in> set SUPPORTED_REQUEST_FIELDS \<or> field \<in> set (rq_ignored t)) (dkeys source)"

section \<open>An answer as a stream\<close>

lemma usage_count_data: "usage_count (section_of [(''usage'', usage_data a b)] ''usage'') ''input_tokens'' = Some a"
  by (auto simp: usage_count_def usage_data_def section_of_def dget_def dget_or_def por_def)

text \<open>The events of blocks that are texts and then tool calls.\<close>

definition displays :: "int \<Rightarrow> sse_event list \<Rightarrow> nat \<Rightarrow> string \<Rightarrow> (string \<times> string \<times> string) list \<Rightarrow> bool" where
  "displays i es n said tools \<longleftrightarrow> phases (Between i) es = Some (Between (i + int n)) \<and> shown_text es = said
     \<and> (\<forall>acc. fold collect_tool es acc = acc @ tools)"

lemma phases_append: "phases ph (a @ b) = Option.bind (phases ph a) (\<lambda>ph'. phases ph' b)"
  by (induction a arbitrary: ph) (simp_all split: Option.bind_split)

lemma displays_append: "displays i a n s t \<Longrightarrow> displays (i + int n) b m s' t' \<Longrightarrow> displays i (a @ b) (n + m) (s @ s') (t @ t')"
  by (simp add: displays_def phases_append shown_text_def add.assoc)

lemma message_blocks_append:
  "message_blocks_events i (xs @ ys) =
     sbind (message_blocks_events i xs) (\<lambda>a. sbind (message_blocks_events (i + int (length xs)) ys) (\<lambda>b. Inr (a @ b)))"
proof (induction xs arbitrary: i)
  case Nil
  show ?case by (cases "message_blocks_events i ys") simp_all
next
  case (Cons x xs)
  show ?case
    by (cases "message_block_events i x"; cases "message_blocks_events (i + 1) xs"; cases "message_blocks_events (i + 1 + int (length xs)) ys")
      (simp_all add: Cons.IH add.assoc)
qed

lemma text_blocks_shown:
  "\<exists>es. message_blocks_events i (map text_part texts) = Inr es \<and> displays i es (length texts) (concat texts) []"
proof (induction texts arbitrary: i)
  case (Cons s texts)
  obtain es where es: "message_blocks_events (i + 1) (map text_part texts) = Inr es" "displays (i + 1) es (length texts) (concat texts) []"
    using Cons.IH by blast
  let ?one = "[block_start i [(''type'', PStr ''text''), (''text'', PStr [])], block_delta i (text_delta s), block_stop i]"
  have one: "message_block_events i (text_part s) = Inr ?one"
    by (simp add: message_block_events_def text_part_def dget_def dget_or_def text_delta_def)
  have "displays i ?one 1 s []"
    by (simp add: displays_def shown_text_def event_text_def collect_tool_def event_simps)
  from displays_append[OF this, of es "length texts" "concat texts" "[]"] es one show ?case by auto
qed (simp add: displays_def shown_text_def)

lemma tool_blocks_shown:
  "\<exists>es. message_blocks_events i (map tool_use_block calls) = Inr es
     \<and> displays i es (length calls) [] (map (\<lambda>(call_id, name, arguments). (call_id, name, json_compact (PDict arguments))) calls)"
proof (induction calls arbitrary: i)
  case (Cons c calls)
  obtain call_id name arguments where c: "c = (call_id, name, arguments)" by (metis prod_cases3)
  obtain es where es: "message_blocks_events (i + 1) (map tool_use_block calls) = Inr es"
    "displays (i + 1) es (length calls) [] (map (\<lambda>(call_id, name, arguments). (call_id, name, json_compact (PDict arguments))) calls)"
    using Cons.IH by blast
  let ?one = "[block_start i [(''type'', PStr ''tool_use''), (''id'', PStr call_id), (''name'', PStr name), (''input'', PDict [])],
      block_delta i (json_delta (json_compact (PDict arguments))), block_stop i]"
  have one: "message_block_events i (tool_use_block c) = Inr ?one"
    by (simp add: message_block_events_def tool_use_block_def c dget_def dget_or_def)
  have "displays i ?one 1 [] [(call_id, name, json_compact (PDict arguments))]"
    by (simp add: displays_def shown_text_def event_text_def collect_tool_def event_simps py_str_def del: json_compact.simps)
  from displays_append[OF this, of es "length calls" "[]"] es one c show ?case by (auto simp del: json_compact.simps)
qed (simp add: displays_def shown_text_def)

lemma answer_stream:
  assumes "translate_openai_response call payload = Inr message"
  obtains d texts calls out where "payload = PDict d" "answer_texts (section_of (first_choice_of d) ''message'') = Inr texts"
    "answer_calls (section_of (first_choice_of d) ''message'') = Inr calls"
    "encode_anthropic_message_stream message = Inr out" "phases Waiting out = Some Over"
    "shown_text out = concat texts"
    "shown_tools out = map (\<lambda>(call_id, name, arguments). (call_id, name, json_compact (PDict arguments))) calls"
proof -
  from assms obtain d where d: "payload = PDict d" by (auto simp: translate_openai_response_def split: pv.splits)
  with assms obtain texts calls reason stop_sequence spent_in spent_out where r:
    "answer_texts (section_of (first_choice_of d) ''message'') = Inr texts"
    "answer_calls (section_of (first_choice_of d) ''message'') = Inr calls"
    "message = [(''id'', PStr (message_id (ac_request_id call))), (''type'', PStr ''message''), (''role'', PStr ''assistant''),
                  (''model'', PStr (ac_routed_model call)),
                  (''content'', PList (map text_part texts @ map tool_use_block calls)),
                  (''stop_reason'', PStr reason), (''stop_sequence'', stop_sequence),
                  (''usage'', usage_data spent_in spent_out)]"
    by (auto simp: translate_openai_response_def Let_def)
  let ?tools = "map (\<lambda>(call_id, name, arguments). (call_id, name, json_compact (PDict arguments))) calls"
  obtain a where a: "message_blocks_events 0 (map text_part texts) = Inr a" "displays 0 a (length texts) (concat texts) []"
    using text_blocks_shown by blast
  obtain b where b: "message_blocks_events (int (length texts)) (map tool_use_block calls) = Inr b"
    "displays (0 + int (length texts)) b (length calls) [] ?tools"
    using tool_blocks_shown[of "int (length texts)" calls] by auto
  define c where "c = a @ b"
  have blocks: "message_blocks_events 0 (map text_part texts @ map tool_use_block calls) = Inr c"
    using a(1) b(1) by (simp add: message_blocks_append c_def)
  have parts: "displays 0 c (length texts + length calls) (concat texts) ?tools"
    using displays_append[OF a(2) b(2)] by (simp add: c_def)
  have usage: "section_of message ''usage'' = [(''input_tokens'', PInt spent_in), (''output_tokens'', PInt spent_out)]"
    by (simp add: r(3) section_of_def dget_def usage_data_def)
  have counts: "usage_count (section_of message ''usage'') ''input_tokens'' = Some spent_in"
    "usage_count (section_of message ''usage'') ''output_tokens'' = Some spent_out"
    by (auto simp: usage usage_count_def dget_or_def por_def)
  have content: "dget message ''content'' = PList (map text_part texts @ map tool_use_block calls)" by (simp add: r(3) dget_def)
  obtain start finish where out: "encode_anthropic_message_stream message
      = Inr ([typed_event ''message_start'' start, typed_event ''ping'' []] @ c
          @ [typed_event ''message_delta'' [(''delta'', PDict [(''stop_reason'', PStr reason), (''stop_sequence'', stop_sequence)]), finish],
             typed_event ''message_stop'' []])"
    and start: "start = [(''message'', dget (start @ []) ''message'')]"
  proof (rule that)
    show "encode_anthropic_message_stream message
      = Inr ([typed_event ''message_start'' [(''message'', PDict
                [(''id'', dget message ''id''), (''type'', PStr ''message''), (''role'', PStr ''assistant''), (''content'', PList []),
                 (''model'', dget message ''model''), (''stop_reason'', PNone), (''stop_sequence'', PNone), (''usage'', usage_data spent_in 0)])],
              typed_event ''ping'' []] @ c
          @ [typed_event ''message_delta'' [(''delta'', PDict [(''stop_reason'', PStr reason), (''stop_sequence'', stop_sequence)]),
               (''usage'', usage_data spent_in spent_out)],
             typed_event ''message_stop'' []])"
      unfolding encode_anthropic_message_stream_def Let_def counts content
      by (simp add: or_fault_def blocks) (simp add: r(3) dget_def)
  qed (simp add: dget_def)
  show thesis
  proof (rule that[OF d r(1,2) out])
    show "phases Waiting ([typed_event ''message_start'' start, typed_event ''ping'' []] @ c
          @ [typed_event ''message_delta'' [(''delta'', PDict [(''stop_reason'', PStr reason), (''stop_sequence'', stop_sequence)]), finish],
             typed_event ''message_stop'' []]) = Some Over"
      using parts by (simp add: displays_def phases_append typed_event_def)
    show "shown_text ([typed_event ''message_start'' start, typed_event ''ping'' []] @ c
          @ [typed_event ''message_delta'' [(''delta'', PDict [(''stop_reason'', PStr reason), (''stop_sequence'', stop_sequence)]), finish],
             typed_event ''message_stop'' []]) = concat texts"
      using parts by (subst start) (simp add: displays_def shown_text_def event_text_def event_simps)
    show "shown_tools ([typed_event ''message_start'' start, typed_event ''ping'' []] @ c
          @ [typed_event ''message_delta'' [(''delta'', PDict [(''stop_reason'', PStr reason), (''stop_sequence'', stop_sequence)]), finish],
             typed_event ''message_stop'' []]) = ?tools"
      using parts by (subst start) (simp add: displays_def shown_tools_def collect_tool_def event_simps)
  qed
qed

section \<open>The request and answer properties\<close>

definition one_turn_per_message :: "pydict \<Rightarrow> pydict \<Rightarrow> bool" where
  "one_turn_per_message source body \<longleftrightarrow>
     (\<exists>messages system turns. dget source ''messages'' = PList messages
        \<and> dget body ''messages'' = PList (system @ concat turns) \<and> length turns = length messages
        \<and> list_all well_formed_turn turns \<and> length system \<le> 1 \<and> list_all (\<lambda>m. role_of m = PStr ''system'') system)"

definition has_a_limit :: "pydict \<Rightarrow> bool" where
  "has_a_limit body \<longleftrightarrow> (\<exists>n. dget body ''max_tokens'' = PInt n \<and> 0 < n)"

lemma system_messages_ok:
  "system_messages source = Inr (system, ignored) \<Longrightarrow> length system \<le> 1 \<and> list_all (\<lambda>m. role_of m = PStr ''system'') system"
  by (auto simp: system_messages_def role_of_def dget_def split: option.splits)

lemma required_fields_ok:
  "required_fields source = Inr (model, n, messages) \<Longrightarrow> dget source ''model'' = PStr model \<and> 0 < n
     \<and> dget source ''messages'' = PList messages"
  by (auto simp: required_fields_def split: pv.splits if_splits)

lemma ignored_fields_ok:
  "ignored_request_fields source = Inr unknown \<Longrightarrow>
     \<forall>field\<in>set (dkeys source). field \<in> set SUPPORTED_REQUEST_FIELDS \<or> field \<in> set unknown"
proof
  fix field assume "ignored_request_fields source = Inr unknown" "field \<in> set (dkeys source)"
  moreover from this(1) have "unknown = filter (\<lambda>f. f \<notin> set SUPPORTED_REQUEST_FIELDS) (dkeys source)"
    by (simp add: ignored_request_fields_def Let_def split: if_splits)
  ultimately show "field \<in> set SUPPORTED_REQUEST_FIELDS \<or> field \<in> set unknown" by (simp only: set_filter) blast
qed


definition example_request :: pv where
  "example_request = PDict
     [(''model'', PStr ''claude-3-5-haiku''), (''max_tokens'', PInt 16), (''top_k'', PInt 4),
      (''messages'', PList [PDict [(''role'', PStr ''user''), (''content'', PList
         [PDict [(''type'', PStr ''text''), (''text'', PStr ''go on'')],
          PDict [(''type'', PStr ''tool_result''), (''tool_use_id'', PStr ''t1''), (''content'', PStr ''42'')]])]])]"

definition example_translation :: request_translation where
  "example_translation =
     \<lparr>rq_body = [(''model'', PStr ''ficelle/auto-fast''),
        (''messages'', PList [PDict [(''role'', PStr ''tool''), (''tool_call_id'', PStr ''t1''), (''content'', PStr ''42'')],
                               PDict [(''role'', PStr ''user''), (''content'', PStr ''go on'')]]),
        (''max_tokens'', PInt 16)],
      rq_requested = ''claude-3-5-haiku'', rq_routed = ''ficelle/auto-fast'', rq_ignored = [''top_k''], rq_stops = []\<rparr>"

lemma example_request_translated: "translate_anthropic_request example_request None = Inr example_translation"
  by code_simp


text \<open>C13. An answer that is translated can be streamed: the events are those of one whole message, and they show the
  texts of the answer and each of its tool calls with its arguments, in order.\<close>

theorem answers_are_streamed_whole:
  assumes "translate_openai_response call payload = Inr message"
  shows "\<exists>texts calls out. answer_texts (section_of (first_choice_of (as_dict payload)) ''message'') = Inr texts
    \<and> answer_calls (section_of (first_choice_of (as_dict payload)) ''message'') = Inr calls
    \<and> encode_anthropic_message_stream message = Inr out \<and> phases Waiting out = Some Over
    \<and> shown_text out = concat texts
    \<and> shown_tools out = map (\<lambda>(call_id, name, arguments). (call_id, name, json_compact (PDict arguments))) calls"
proof (rule answer_stream[OF assms])
  fix d texts calls out
  assume "payload = PDict d" "answer_texts (section_of (first_choice_of d) ''message'') = Inr texts"
    "answer_calls (section_of (first_choice_of d) ''message'') = Inr calls"
    "encode_anthropic_message_stream message = Inr out" "phases Waiting out = Some Over" "shown_text out = concat texts"
    "shown_tools out = map (\<lambda>(call_id, name, arguments). (call_id, name, json_compact (PDict arguments))) calls"
  then show ?thesis by (intro exI[of _ texts] exI[of _ calls] exI[of _ out]) (simp only: as_dict.simps simp_thms)
qed

definition example_answer :: pv where
  "example_answer = PDict
     [(''choices'', PList [PDict [(''finish_reason'', PStr ''tool_calls''), (''message'', PDict
        [(''content'', PStr ''hi''), (''tool_calls'', PList [PDict [(''id'', PStr ''t1''),
            (''function'', PDict [(''name'', PStr ''f''), (''arguments'', PStr ''{}'')])]])])]])]"

definition example_message :: pydict where
  "example_message =
     [(''id'', PStr ''msg_r1''), (''type'', PStr ''message''), (''role'', PStr ''assistant''), (''model'', PStr ''ficelle/auto-fast''),
      (''content'', PList [text_part ''hi'', tool_use_block (''t1'', ''f'', [])]), (''stop_reason'', PStr ''tool_use''),
      (''stop_sequence'', PNone), (''usage'', usage_data 0 0)]"

lemma example_answer_translated: "translate_openai_response example_call example_answer = Inr example_message"
  by code_simp

theorem answers_are_streamed_whole_witness:
  "\<exists>out. encode_anthropic_message_stream example_message = Inr out \<and> phases Waiting out = Some Over"
  using answers_are_streamed_whole[OF example_answer_translated] by auto

end
