(* ===== verification/ReasoningReplay.thy ===== *)
theory ReasoningReplay
  imports SseText
begin

text \<open>
  The replay of reasoning traces (\<open>reasoning_replay.py\<close>): the bounded store of the traces models gave
  with their tool calls, what is learned from a complete answer and from a streamed one, and the
  request body in which the traces a client could not send back are restored. A call of the store
  runs under its lock and is one step; \<open>replay_into_body\<close> and the two recorders are run here without
  another thread in between.
\<close>

definition MAX_CACHED_TRACES :: nat where "MAX_CACHED_TRACES = 512"
definition TRACE_TTL_SECONDS :: real where "TRACE_TTL_SECONDS = 2 * 3600"
definition MAX_TRACE_CHARS :: nat where "MAX_TRACE_CHARS = 32768"
definition MAX_SIGNATURE_ARG_CHARS :: nat where "MAX_SIGNATURE_ARG_CHARS = 512"

definition FALLBACK_WITHOUT_NAMES :: string where
  "FALLBACK_WITHOUT_NAMES = ''Continuing from the previous tool call.''"

definition REASONING_KEYS :: "string list" where
  "REASONING_KEYS = [''reasoning_content'', ''reasoning'']"

section \<open>Traces and the calls of a turn\<close>

definition block_text :: "pv \<Rightarrow> string option" where
  "block_text item = (case dget (as_dict item) ''text'' of PStr s \<Rightarrow> Some s | _ \<Rightarrow> None)"

definition clean_trace :: "bool \<Rightarrow> pv \<Rightarrow> string" where
  "clean_trace stripped v =
     (let shape = (if stripped then strip else (\<lambda>s. s)) in
      case v of
        PStr s \<Rightarrow> shape s
      | PList xs \<Rightarrow> shape (join [LF] (List.map_filter block_text xs))
      | _ \<Rightarrow> [])"

text \<open>The first trace under one of the keys a provider uses.\<close>

definition first_trace :: "bool \<Rightarrow> pydict \<Rightarrow> string" where
  "first_trace stripped d =
     (case filter (\<lambda>trace. trace \<noteq> []) (map (\<lambda>key. clean_trace stripped (dget d key)) REASONING_KEYS) of
        trace # _ \<Rightarrow> trace | [] \<Rightarrow> [])"

definition nonblank :: "pv \<Rightarrow> string option" where
  "nonblank v = (case v of PStr s \<Rightarrow> if strip s = [] then None else Some (strip s) | _ \<Rightarrow> None)"

definition call_function :: "pv \<Rightarrow> pydict" where
  "call_function tool_call = section_of (as_dict tool_call) ''function''"

definition tool_call_ids :: "pv \<Rightarrow> string list" where
  "tool_call_ids tool_calls =
     List.map_filter (\<lambda>tool_call. nonblank (dget (as_dict tool_call) ''id'')) (as_list tool_calls)"

definition tool_call_names :: "pv \<Rightarrow> string list" where
  "tool_call_names tool_calls =
     List.map_filter (\<lambda>tool_call. nonblank (dget (call_function tool_call) ''name'')) (as_list tool_calls)"

definition call_signature :: "string \<Rightarrow> string \<Rightarrow> string" where
  "call_signature name arguments = name @ ''('' @ take MAX_SIGNATURE_ARG_CHARS (strip arguments) @ '')''"

definition tool_call_signature :: "pv \<Rightarrow> string option" where
  "tool_call_signature tool_call =
     map_option (\<lambda>name. call_signature name (case dget (call_function tool_call) ''arguments'' of PStr raw \<Rightarrow> raw | _ \<Rightarrow> []))
       (nonblank (dget (call_function tool_call) ''name''))"

definition tool_call_signatures :: "pv \<Rightarrow> string list" where
  "tool_call_signatures tool_calls = List.map_filter tool_call_signature (as_list tool_calls)"

definition fallback_trace :: "pv \<Rightarrow> string" where
  "fallback_trace tool_calls =
     (let names = tool_call_names tool_calls in
      if names = [] then FALLBACK_WITHOUT_NAMES
      else ''Calling '' @ join '', '' (rev (remdups (rev names))) @ '' to answer the request.'')"

section \<open>The store\<close>

text \<open>The traces are in the order of their last write; each has the time it was stored and the calls it
  came with. The thinking models are a list read as a set.\<close>

type_synonym trace_entry = "real \<times> string \<times> string list"

record replay_store =
  rs_max_entries :: nat
  rs_ttl_seconds :: real
  rs_traces :: "(string \<times> trace_entry) list"
  rs_thinking_models :: "string list"

definition new_replay_store :: "nat \<Rightarrow> real \<Rightarrow> replay_store" where
  "new_replay_store max_entries ttl_seconds =
     \<lparr>rs_max_entries = max_entries, rs_ttl_seconds = ttl_seconds, rs_traces = [], rs_thinking_models = []\<rparr>"

definition evict :: "real \<Rightarrow> replay_store \<Rightarrow> replay_store" where
  "evict now st =
     (let kept = filter (\<lambda>(_, stored_at, _). \<not> rs_ttl_seconds st < now - stored_at) (rs_traces st)
      in st\<lparr>rs_traces := drop (length kept - rs_max_entries st) kept\<rparr>)"

definition put_trace :: "string \<Rightarrow> trace_entry \<Rightarrow> (string \<times> trace_entry) list \<Rightarrow> (string \<times> trace_entry) list" where
  "put_trace call_id entry traces = dpop call_id traces @ [(call_id, entry)]"

definition turn_calls :: "string list \<Rightarrow> string list" where
  "turn_calls call_signatures = sort (remdups call_signatures)"

definition observe_trace :: "string \<Rightarrow> string \<Rightarrow> string list \<Rightarrow> string list \<Rightarrow> real \<Rightarrow> replay_store \<Rightarrow> replay_store" where
  "observe_trace model_id trace call_ids call_signatures now st =
     (let cleaned = take MAX_TRACE_CHARS (strip trace); model_key = strip model_id in
      if cleaned = [] then st
      else evict now
        (st\<lparr>rs_thinking_models := (if model_key = [] then [] else [model_key]) @ rs_thinking_models st,
            rs_traces := fold (\<lambda>call_id. put_trace call_id (now, cleaned, turn_calls call_signatures)) call_ids (rs_traces st)\<rparr>))"

fun find_trace :: "string list \<Rightarrow> string list \<Rightarrow> real \<Rightarrow> replay_store \<Rightarrow> string \<times> replay_store" where
  "find_trace [] wanted now st = ([], st)"
| "find_trace (call_id # call_ids) wanted now st =
     (case map_of (rs_traces st) call_id of
        None \<Rightarrow> find_trace call_ids wanted now st
      | Some (stored_at, trace, calls) \<Rightarrow>
          (if rs_ttl_seconds st < now - stored_at
           then find_trace call_ids wanted now (st\<lparr>rs_traces := dpop call_id (rs_traces st)\<rparr>)
           else if calls \<noteq> [] \<and> wanted \<noteq> [] \<and> calls \<noteq> wanted then find_trace call_ids wanted now st
           else (trace, st)))"

definition trace_for :: "string list \<Rightarrow> string list \<Rightarrow> real \<Rightarrow> replay_store \<Rightarrow> string \<times> replay_store" where
  "trace_for call_ids call_signatures = find_trace call_ids (turn_calls call_signatures)"

definition is_thinking_model :: "string \<Rightarrow> replay_store \<Rightarrow> bool" where
  "is_thinking_model model_id st \<longleftrightarrow> strip model_id \<in> set (rs_thinking_models st)"

section \<open>A request\<close>

text \<open>A message that lost its trace: an assistant called tools and no key holds a trace.\<close>

definition lost_its_trace :: "pv \<Rightarrow> bool" where
  "lost_its_trace message \<longleftrightarrow>
     dget (as_dict message) ''role'' = PStr ''assistant'' \<and> as_list (dget (as_dict message) ''tool_calls'') \<noteq> []
       \<and> first_trace True (as_dict message) = []"

definition replay_message :: "bool \<Rightarrow> real \<Rightarrow> pv \<Rightarrow> replay_store \<Rightarrow> pv option \<times> replay_store" where
  "replay_message known_thinking now message st =
     (if \<not> lost_its_trace message then (None, st)
      else (let d = as_dict message; tool_calls = dget d ''tool_calls'';
                (found, st1) = trace_for (tool_call_ids tool_calls) (tool_call_signatures tool_calls) now st in
            if found = [] \<and> \<not> known_thinking then (None, st1)
            else (Some (PDict (dset ''reasoning_content''
                    (PStr (if found = [] then fallback_trace tool_calls else found)) d)), st1)))"

fun replay_messages :: "bool \<Rightarrow> real \<Rightarrow> pv list \<Rightarrow> replay_store \<Rightarrow> pv option list \<times> replay_store" where
  "replay_messages known_thinking now [] st = ([], st)"
| "replay_messages known_thinking now (message # messages) st =
     (let (r, st1) = replay_message known_thinking now message st;
          (rs, st2) = replay_messages known_thinking now messages st1
      in (r # rs, st2))"

definition rewritten_messages :: "pv list \<Rightarrow> pv option list \<Rightarrow> pv list" where
  "rewritten_messages messages rs =
     map (\<lambda>(message, r). case r of None \<Rightarrow> message | Some rewritten \<Rightarrow> rewritten) (zip messages rs)"

definition replay_into_body :: "string \<Rightarrow> pv \<Rightarrow> real \<Rightarrow> replay_store \<Rightarrow> pv \<times> replay_store" where
  "replay_into_body model_id body now st =
     (case body of
        PDict d \<Rightarrow>
          (case dget d ''messages'' of
             PList messages \<Rightarrow>
               (let (rs, st1) = replay_messages (is_thinking_model model_id st) now messages st
                in (if list_all (\<lambda>r. r = None) rs then body
                    else PDict (dset ''messages'' (PList (rewritten_messages messages rs)) d), st1))
           | _ \<Rightarrow> (body, st))
      | _ \<Rightarrow> (body, st))"

section \<open>Learning from a complete answer\<close>

definition record_choice :: "string \<Rightarrow> real \<Rightarrow> pv \<Rightarrow> replay_store \<Rightarrow> replay_store" where
  "record_choice model_id now choice st =
     (let message = section_of (as_dict choice) ''message''; tool_calls = dget message ''tool_calls'';
          call_ids = tool_call_ids tool_calls; trace = first_trace True message in
      if call_ids = [] \<or> trace = [] then st
      else observe_trace model_id trace call_ids (tool_call_signatures tool_calls) now st)"

definition record_completion_payload :: "string \<Rightarrow> pv \<Rightarrow> real \<Rightarrow> replay_store \<Rightarrow> replay_store" where
  "record_completion_payload model_id payload now st =
     fold (record_choice model_id now) (as_list (dget (as_dict payload) ''choices'')) st"

section \<open>Learning from a stream\<close>

record streamed_call =
  sk_id :: string
  sk_name :: string
  sk_arguments :: string

record streamed_choice =
  sc_parts :: "string list"
  sc_chars :: nat
  sc_calls :: "(int \<times> streamed_call) list"

definition new_streamed_call :: streamed_call where
  "new_streamed_call = \<lparr>sk_id = [], sk_name = [], sk_arguments = []\<rparr>"

definition new_streamed_choice :: streamed_choice where
  "new_streamed_choice = \<lparr>sc_parts = [], sc_chars = 0, sc_calls = []\<rparr>"

text \<open>An index that is an integer, as booleans are, or the position.\<close>

definition index_or :: "pv \<Rightarrow> nat \<Rightarrow> int" where
  "index_or v position = (case v of PInt i \<Rightarrow> i | PBool b \<Rightarrow> if b then 1 else 0 | _ \<Rightarrow> int position)"

definition text_fragment :: "pydict \<Rightarrow> string \<Rightarrow> string" where
  "text_fragment d key = (case dget d key of PStr s \<Rightarrow> s | _ \<Rightarrow> [])"

definition absorb_call :: "pydict \<Rightarrow> streamed_call \<Rightarrow> streamed_call" where
  "absorb_call d call =
     (let function = section_of d ''function'' in
      \<lparr>sk_id = (case nonblank (dget d ''id'') of Some call_id \<Rightarrow> call_id | None \<Rightarrow> sk_id call),
       sk_name = sk_name call @ text_fragment function ''name'',
       sk_arguments = sk_arguments call
         @ (if length (sk_arguments call) < MAX_SIGNATURE_ARG_CHARS then text_fragment function ''arguments'' else [])\<rparr>)"

definition absorb_tool_call :: "nat \<times> pv \<Rightarrow> (int \<times> streamed_call) list \<Rightarrow> (int \<times> streamed_call) list" where
  "absorb_tool_call entry calls =
     (case snd entry of
        PDict d \<Rightarrow>
          (let index = index_or (dget d ''index'') (fst entry);
               call = (case map_of calls index of Some call \<Rightarrow> call | None \<Rightarrow> new_streamed_call)
           in AList.update index (absorb_call d call) calls)
      | _ \<Rightarrow> calls)"

definition absorb_tool_calls :: "pv \<Rightarrow> (int \<times> streamed_call) list \<Rightarrow> (int \<times> streamed_call) list" where
  "absorb_tool_calls tool_calls = fold absorb_tool_call (enumerate 0 (as_list tool_calls))"

definition usable_calls :: "(int \<times> streamed_call) list \<Rightarrow> streamed_call list" where
  "usable_calls calls = filter (\<lambda>call. sk_id call \<noteq> [] \<and> strip (sk_name call) \<noteq> []) (map snd (sort_key fst calls))"

definition resolved_calls :: "(int \<times> streamed_call) list \<Rightarrow> string list \<times> string list" where
  "resolved_calls calls =
     (map sk_id (usable_calls calls), map (\<lambda>call. call_signature (strip (sk_name call)) (sk_arguments call)) (usable_calls calls))"

definition absorb_part :: "string \<Rightarrow> streamed_choice \<Rightarrow> streamed_choice" where
  "absorb_part part choice =
     (if part = [] then choice
      else choice\<lparr>sc_parts := sc_parts choice
                    @ (if sc_chars choice < MAX_TRACE_CHARS then [take (MAX_TRACE_CHARS - sc_chars choice) part] else []),
                  sc_chars := sc_chars choice + length part\<rparr>)"

definition absorb_delta :: "pydict \<Rightarrow> streamed_choice \<Rightarrow> streamed_choice" where
  "absorb_delta delta choice =
     (let choice1 = absorb_part (first_trace False delta) choice
      in choice1\<lparr>sc_calls := absorb_tool_calls (dget delta ''tool_calls'') (sc_calls choice1)\<rparr>)"

definition consume_delta :: "int \<Rightarrow> pydict \<Rightarrow> (int \<times> streamed_choice) list \<Rightarrow> (int \<times> streamed_choice) list" where
  "consume_delta position delta choices =
     AList.update position
       (absorb_delta delta (case map_of choices position of Some choice \<Rightarrow> choice | None \<Rightarrow> new_streamed_choice)) choices"

definition consume_choice :: "nat \<times> pv \<Rightarrow> (int \<times> streamed_choice) list \<Rightarrow> (int \<times> streamed_choice) list" where
  "consume_choice entry choices =
     (case dget (as_dict (snd entry)) ''delta'' of
        PDict delta \<Rightarrow> consume_delta (index_or (dget (as_dict (snd entry)) ''index'') (fst entry)) delta choices
      | _ \<Rightarrow> choices)"

text \<open>The choices of the event on a line; any other line has none.\<close>

definition line_choices :: "string \<Rightarrow> pv list" where
  "line_choices line =
     (let stripped = strip_by is_byte_space line; data = strip_by is_byte_space (drop 5 stripped) in
      if \<not> starts_with ''data:'' stripped \<or> data = [] \<or> data = ''[DONE]'' then []
      else (case Option.bind (decode_strict data) json_loads of
              Some event \<Rightarrow> as_list (dget (as_dict event) ''choices'')
            | None \<Rightarrow> []))"

definition consume_line :: "string \<Rightarrow> (int \<times> streamed_choice) list \<Rightarrow> (int \<times> streamed_choice) list" where
  "consume_line line = fold consume_choice (enumerate 0 (line_choices line))"

record stream_observer =
  ob_buffer :: string
  ob_choices :: "(int \<times> streamed_choice) list"
  ob_done :: bool

definition new_stream_observer :: stream_observer where
  "new_stream_observer = \<lparr>ob_buffer = [], ob_choices = [], ob_done = False\<rparr>"

definition give_up :: stream_observer where
  "give_up = \<lparr>ob_buffer = [], ob_choices = [], ob_done = True\<rparr>"

definition observer_feed :: "string \<Rightarrow> stream_observer \<Rightarrow> stream_observer" where
  "observer_feed chunk ob =
     (if ob_done ob then ob
      else (let lines = split_char LF (ob_buffer ob @ chunk); choices = fold consume_line (butlast lines) (ob_choices ob) in
            if MAX_TRACE_CHARS < length (last lines) \<or> list_ex (\<lambda>(_, choice). MAX_TRACE_CHARS \<le> sc_chars choice) choices
            then give_up
            else ob\<lparr>ob_buffer := last lines, ob_choices := choices\<rparr>))"

definition record_streamed :: "string \<Rightarrow> real \<Rightarrow> streamed_choice \<Rightarrow> replay_store \<Rightarrow> replay_store" where
  "record_streamed model_id now choice st =
     (let (call_ids, call_signatures) = resolved_calls (sc_calls choice); trace = strip (concat (sc_parts choice)) in
      if call_ids = [] \<or> trace = [] then st
      else observe_trace model_id trace call_ids call_signatures now st)"

definition observer_finish :: "string \<Rightarrow> real \<Rightarrow> stream_observer \<Rightarrow> replay_store \<Rightarrow> replay_store" where
  "observer_finish model_id now ob st =
     (let choices = (if strip_by is_byte_space (ob_buffer ob) = [] then ob_choices ob
                     else consume_line (ob_buffer ob) (ob_choices ob))
      in fold (\<lambda>(_, choice). record_streamed model_id now choice) choices st)"

text \<open>The relay asks for \<open>asked\<close> chunks and is then closed. A chunk is read once the next is asked for;
  a relay that asks for none never starts.\<close>

definition observe_stream_chunks :: "string \<Rightarrow> string list \<Rightarrow> nat \<Rightarrow> real \<Rightarrow> replay_store \<Rightarrow> string list \<times> replay_store" where
  "observe_stream_chunks model_id chunks asked now st =
     (take asked chunks,
      if asked = 0 then st
      else observer_finish model_id now (fold observer_feed (take (asked - 1) chunks) new_stream_observer) st)"

end
