(* ===== verification/ReplayContract.thy ===== *)
theory ReplayContract
  imports ReasoningReplay
begin

text \<open>What the router may rely on about reasoning traces: the store is bounded, a turn gets its own trace
  back and a request is touched only where a trace was lost.\<close>

section \<open>The store is bounded\<close>

interpretation trace_store: keyed_store map_of put_trace dpop
  by unfold_locales (auto simp: put_trace_def map_add_def split: option.split)

definition trace_ok :: "string \<times> trace_entry \<Rightarrow> bool" where
  "trace_ok e \<longleftrightarrow> (case e of (_, _, trace, _) \<Rightarrow> trace \<noteq> [] \<and> length trace \<le> MAX_TRACE_CHARS)"

definition replay_ok :: "nat \<Rightarrow> real \<Rightarrow> replay_store \<Rightarrow> bool" where
  "replay_ok max_entries ttl st \<longleftrightarrow> rs_max_entries st = max_entries \<and> rs_ttl_seconds st = ttl
     \<and> length (rs_traces st) \<le> max_entries \<and> wf_dict (rs_traces st) \<and> list_all trace_ok (rs_traces st)"

text \<open>The states a store reaches, whatever the answers, the streams and the requests.\<close>

inductive replay_reachable :: "nat \<Rightarrow> real \<Rightarrow> replay_store \<Rightarrow> bool" for max_entries ttl where
  start: "replay_reachable max_entries ttl (new_replay_store max_entries ttl)"
| completed: "replay_reachable max_entries ttl st \<Longrightarrow> replay_reachable max_entries ttl (record_completion_payload model_id payload now st)"
| streamed: "replay_reachable max_entries ttl st \<Longrightarrow> replay_reachable max_entries ttl (snd (observe_stream_chunks model_id chunks asked now st))"
| requested: "replay_reachable max_entries ttl st \<Longrightarrow> replay_reachable max_entries ttl (snd (replay_into_body model_id body now st))"

lemma dpop_ok: "wf_dict traces \<Longrightarrow> list_all trace_ok traces \<Longrightarrow> wf_dict (dpop key traces) \<and> list_all trace_ok (dpop key traces)"
  by (auto simp: list_all_iff AList.delete_eq)

lemma put_trace_ok:
  "trace_ok (key, entry) \<Longrightarrow> wf_dict traces \<Longrightarrow> list_all trace_ok traces \<Longrightarrow>
     wf_dict (put_trace key entry traces) \<and> list_all trace_ok (put_trace key entry traces)"
  using dpop_ok[of traces key] by (auto simp: put_trace_def AList.delete_eq)

lemma put_traces_ok:
  "(\<And>key. trace_ok (key, entry)) \<Longrightarrow> wf_dict traces \<Longrightarrow> list_all trace_ok traces \<Longrightarrow>
     wf_dict (fold (\<lambda>key. put_trace key entry) keys traces) \<and> list_all trace_ok (fold (\<lambda>key. put_trace key entry) keys traces)"
  by (induction keys arbitrary: traces) (simp_all add: put_trace_ok)

lemma evict_ok:
  "wf_dict (rs_traces st) \<Longrightarrow> list_all trace_ok (rs_traces st) \<Longrightarrow> replay_ok (rs_max_entries st) (rs_ttl_seconds st) (evict now st)"
  by (auto simp: evict_def Let_def replay_ok_def list_all_iff drop_map[symmetric] dest: in_set_dropD intro!: distinct_drop)

lemma observe_ok:
  assumes "replay_ok m ttl st"
  shows "replay_ok m ttl (observe_trace model_id trace call_ids sigs now st)"
proof (cases "take MAX_TRACE_CHARS (strip trace) = []")
  case False
  let ?e = "(now, take MAX_TRACE_CHARS (strip trace), turn_calls sigs)"
  have "trace_ok (key, ?e)" for key using False by (simp add: trace_ok_def)
  then have "wf_dict (fold (\<lambda>key. put_trace key ?e) call_ids (rs_traces st)) \<and> list_all trace_ok (fold (\<lambda>key. put_trace key ?e) call_ids (rs_traces st))"
    using assms by (intro put_traces_ok) (auto simp: replay_ok_def)
  then show ?thesis
    using evict_ok[of "st\<lparr>rs_thinking_models := _, rs_traces := fold (\<lambda>key. put_trace key ?e) call_ids (rs_traces st)\<rparr>" now] assms False
    by (simp add: observe_trace_def Let_def replay_ok_def del: take_eq_Nil)
qed (use assms in \<open>simp add: observe_trace_def Let_def del: take_eq_Nil\<close>)

lemma find_ok: "replay_ok m ttl st \<Longrightarrow> replay_ok m ttl (snd (find_trace call_ids wanted now st))"
proof (induction call_ids wanted now st rule: find_trace.induct)
  case (2 call_id call_ids wanted now st)
  have "replay_ok m ttl (st\<lparr>rs_traces := dpop call_id (rs_traces st)\<rparr>)"
    using "2.prems" dpop_ok[of "rs_traces st" call_id] length_delete_le[of call_id "rs_traces st"] by (auto simp: replay_ok_def)
  then show ?case using "2.IH" "2.prems" by (auto split: option.splits)
qed simp

lemma replay_message_ok: "replay_ok m ttl st \<Longrightarrow> replay_ok m ttl (snd (replay_message known now message st))"
  by (auto simp: replay_message_def Let_def trace_for_def split: prod.splits dest: find_ok[THEN subst[of _ _ "\<lambda>p. replay_ok m ttl (snd p)", rotated]])

lemma replay_messages_ok: "replay_ok m ttl st \<Longrightarrow> replay_ok m ttl (snd (replay_messages known now messages st))"
  by (induction messages arbitrary: st) (auto split: prod.splits, metis replay_message_ok snd_conv)

lemma replay_into_body_ok: "replay_ok m ttl st \<Longrightarrow> replay_ok m ttl (snd (replay_into_body model_id body now st))"
  using replay_messages_ok[of m ttl st] by (auto simp: replay_into_body_def case_prod_unfold Let_def split: pv.splits)

lemma fold_ok: "(\<And>x st. replay_ok m ttl st \<Longrightarrow> replay_ok m ttl (f x st)) \<Longrightarrow> replay_ok m ttl st \<Longrightarrow> replay_ok m ttl (fold f xs st)"
  by (induction xs arbitrary: st) simp_all

lemma record_completion_ok: "replay_ok m ttl st \<Longrightarrow> replay_ok m ttl (record_completion_payload model_id payload now st)"
  unfolding record_completion_payload_def by (rule fold_ok) (auto simp: record_choice_def Let_def intro: observe_ok)

lemma record_streamed_ok: "replay_ok m ttl st \<Longrightarrow> replay_ok m ttl (record_streamed model_id now choice st)"
  by (auto simp: record_streamed_def Let_def intro: observe_ok split: prod.splits)

lemma observer_finish_ok: "replay_ok m ttl st \<Longrightarrow> replay_ok m ttl (observer_finish model_id now ob st)"
  unfolding observer_finish_def Let_def by (rule fold_ok) (auto intro: record_streamed_ok)

lemma reachable_ok: "replay_reachable max_entries ttl st \<Longrightarrow> replay_ok max_entries ttl st"
proof (induction rule: replay_reachable.induct)
  case start
  show ?case by (simp add: replay_ok_def new_replay_store_def)
next
  case streamed
  then show ?case by (simp add: observe_stream_chunks_def observer_finish_ok)
qed (simp_all add: record_completion_ok replay_into_body_ok)

section \<open>What a request is given\<close>

text \<open>A trace on file that has not expired, with the calls it came with; the first that fits a turn; and the
  message a lost trace is restored on. The traces that expire on the way out are never seen.\<close>

definition live_trace :: "real \<Rightarrow> replay_store \<Rightarrow> string \<Rightarrow> (string \<times> string list) option" where
  "live_trace now st call_id =
     (case map_of (rs_traces st) call_id of
        Some (stored_at, trace, calls) \<Rightarrow> if rs_ttl_seconds st < now - stored_at then None else Some (trace, calls)
      | None \<Rightarrow> None)"

definition fitting_trace :: "(string \<Rightarrow> (string \<times> string list) option) \<Rightarrow> string list \<Rightarrow> string \<Rightarrow> string option" where
  "fitting_trace live wanted call_id =
     (case live call_id of
        Some (trace, calls) \<Rightarrow> if calls \<noteq> [] \<and> wanted \<noteq> [] \<and> calls \<noteq> wanted then None else Some trace
      | None \<Rightarrow> None)"

definition filed_trace :: "(string \<Rightarrow> (string \<times> string list) option) \<Rightarrow> pv \<Rightarrow> string" where
  "filed_trace live tool_calls =
     (case List.map_filter (fitting_trace live (turn_calls (tool_call_signatures tool_calls))) (tool_call_ids tool_calls) of
        trace # _ \<Rightarrow> trace | [] \<Rightarrow> [])"

definition restored_message :: "(string \<Rightarrow> (string \<times> string list) option) \<Rightarrow> bool \<Rightarrow> pv \<Rightarrow> pv option" where
  "restored_message live known_thinking message =
     (let d = as_dict message; tool_calls = dget d ''tool_calls''; found = filed_trace live tool_calls in
      if \<not> lost_its_trace message \<or> found = [] \<and> \<not> known_thinking then None
      else Some (PDict (dset ''reasoning_content'' (PStr (if found = [] then fallback_trace tool_calls else found)) d)))"

lemma find_trace_live:
  "live_trace now (snd (find_trace ids wanted now st)) = live_trace now st
   \<and> fst (find_trace ids wanted now st)
      = (case List.map_filter (fitting_trace (live_trace now st) wanted) ids of trace # _ \<Rightarrow> trace | [] \<Rightarrow> [])"
proof (induction ids wanted now st rule: find_trace.induct)
  case (2 call_id call_ids wanted now st)
  show ?case
  proof (cases "map_of (rs_traces st) call_id")
    case None
    then show ?thesis using "2.IH"(1) by (simp add: fitting_trace_def live_trace_def List.map_filter_simps)
  next
    case (Some e)
    obtain stored_at trace calls where e: "e = (stored_at, trace, calls)" by (metis prod_cases3)
    show ?thesis
    proof (cases "rs_ttl_seconds st < now - stored_at")
      case True
      have same: "live_trace now (st\<lparr>rs_traces := dpop call_id (rs_traces st)\<rparr>) = live_trace now st"
        using Some e True by (intro ext) (auto simp: live_trace_def split: option.splits)
      have none: "live_trace now st call_id = None" using Some e True by (simp add: live_trace_def)
      show ?thesis
        using "2.IH"(2)[OF Some[unfolded e] refl refl True] same none Some e True
        by (simp add: fitting_trace_def[of _ _ call_id] List.map_filter_simps)
    next
      case False
      then have "live_trace now st call_id = Some (trace, calls)" using Some e by (simp add: live_trace_def)
      then show ?thesis
        using "2.IH"(3)[OF Some[unfolded e] refl refl False] Some e False
        by (simp add: fitting_trace_def[of _ _ call_id] List.map_filter_simps)
    qed
  qed
qed (simp add: List.map_filter_simps)

lemma replay_message_live:
  "live_trace now (snd (replay_message known now message st)) = live_trace now st
   \<and> fst (replay_message known now message st) = restored_message (live_trace now st) known message"
proof -
  let ?calls = "dget (as_dict message) ''tool_calls''"
  have "live_trace now (snd (trace_for (tool_call_ids ?calls) (tool_call_signatures ?calls) now st)) = live_trace now st"
    "fst (trace_for (tool_call_ids ?calls) (tool_call_signatures ?calls) now st) = filed_trace (live_trace now st) ?calls"
    by (simp_all add: trace_for_def find_trace_live filed_trace_def)
  then show ?thesis
    by (simp add: replay_message_def restored_message_def case_prod_unfold Let_def)
qed

lemma replay_messages_live:
  "fst (replay_messages known now messages st) = map (restored_message (live_trace now st) known) messages"
  by (induction messages arbitrary: st) (simp_all add: case_prod_unfold Let_def replay_message_live)

lemma replayed_body:
  assumes "dget d ''messages'' = PList messages"
  shows "fst (replay_into_body model_id (PDict d) now st) =
    (let rs = map (restored_message (live_trace now st) (is_thinking_model model_id st)) messages
     in if list_all (\<lambda>r. r = None) rs then PDict d else PDict (dset ''messages'' (PList (rewritten_messages messages rs)) d))"
  using assms by (simp add: replay_into_body_def case_prod_unfold Let_def replay_messages_live)

lemma rewritten_messages_map:
  "rewritten_messages messages (map f messages) = map (\<lambda>m. case f m of None \<Rightarrow> m | Some m' \<Rightarrow> m') messages"
  by (simp add: rewritten_messages_def zip_map2 zip_same_conv_map)

section \<open>A request is touched only where a trace was lost\<close>

text \<open>A trace may stand for a turn when it was stored for one of its calls, has not expired and was given for
  the same calls, as far as both name any.\<close>

definition on_file :: "real \<Rightarrow> replay_store \<Rightarrow> pv \<Rightarrow> string \<Rightarrow> bool" where
  "on_file now st tool_calls trace \<longleftrightarrow>
     (\<exists>call_id stored_at calls. call_id \<in> set (tool_call_ids tool_calls)
        \<and> map_of (rs_traces st) call_id = Some (stored_at, trace, calls) \<and> now - stored_at \<le> rs_ttl_seconds st
        \<and> (calls = [] \<or> tool_call_signatures tool_calls = [] \<or> calls = turn_calls (tool_call_signatures tool_calls)))"

definition truly_restored :: "string \<Rightarrow> real \<Rightarrow> replay_store \<Rightarrow> pv \<Rightarrow> pv \<Rightarrow> bool" where
  "truly_restored model_id now st message message' \<longleftrightarrow> message' = message \<or>
     (lost_its_trace message
      \<and> (\<exists>trace. trace \<noteq> [] \<and> message' = PDict (dset ''reasoning_content'' (PStr trace) (as_dict message))
          \<and> (on_file now st (dget (as_dict message) ''tool_calls'') trace
             \<or> is_thinking_model model_id st \<and> trace = fallback_trace (dget (as_dict message) ''tool_calls''))))"

definition truly_replayed :: "string \<Rightarrow> real \<Rightarrow> replay_store \<Rightarrow> pv \<Rightarrow> pv \<Rightarrow> bool" where
  "truly_replayed model_id now st body body' \<longleftrightarrow> body' = body \<or>
     (\<exists>messages messages'. dget (as_dict body) ''messages'' = PList messages
        \<and> body' = PDict (dset ''messages'' (PList messages') (as_dict body))
        \<and> list_all2 (truly_restored model_id now st) messages messages')"

lemma turn_calls_Nil [simp]: "turn_calls sigs = [] \<longleftrightarrow> sigs = []"
  unfolding turn_calls_def by (metis set_sort set_empty set_remdups)

lemma filed_on_file:
  assumes "filed_trace (live_trace now st) tool_calls \<noteq> []"
  shows "on_file now st tool_calls (filed_trace (live_trace now st) tool_calls)"
proof -
  let ?fits = "fitting_trace (live_trace now st) (turn_calls (tool_call_signatures tool_calls))"
  from assms obtain rest where "List.map_filter ?fits (tool_call_ids tool_calls) = filed_trace (live_trace now st) tool_calls # rest"
    by (auto simp: filed_trace_def split: list.splits)
  then have "filed_trace (live_trace now st) tool_calls \<in> set (List.map_filter ?fits (tool_call_ids tool_calls))"
    by (metis list.set_intros(1))
  then obtain call_id where "call_id \<in> set (tool_call_ids tool_calls)" "?fits call_id = Some (filed_trace (live_trace now st) tool_calls)"
    by (auto simp: List.map_filter_def)
  then show ?thesis
    unfolding on_file_def fitting_trace_def live_trace_def by (fastforce split: option.splits prod.splits if_splits)
qed

lemma fallback_nonempty: "fallback_trace tool_calls \<noteq> []"
  by (simp add: fallback_trace_def FALLBACK_WITHOUT_NAMES_def Let_def)

lemma restored_truly:
  "truly_restored model_id now st message
     (case restored_message (live_trace now st) (is_thinking_model model_id st) message of None \<Rightarrow> message | Some m \<Rightarrow> m)"
proof (cases "restored_message (live_trace now st) (is_thinking_model model_id st) message")
  case (Some m)
  let ?calls = "dget (as_dict message) ''tool_calls''"
  define trace where "trace = (if filed_trace (live_trace now st) ?calls = [] then fallback_trace ?calls else filed_trace (live_trace now st) ?calls)"
  have "lost_its_trace message" "m = PDict (dset ''reasoning_content'' (PStr trace) (as_dict message))" "trace \<noteq> []"
    "on_file now st ?calls trace \<or> is_thinking_model model_id st \<and> trace = fallback_trace ?calls"
    using Some filed_on_file[of now st ?calls] fallback_nonempty[of ?calls]
    by (auto simp: restored_message_def Let_def trace_def split: if_splits)
  then show ?thesis using Some unfolding truly_restored_def by auto
qed (simp add: truly_restored_def)

text \<open>C17. Before a request is sent nothing of it changes but the traces restored on assistant turns that called tools
  and hold none: one stored for these very calls and still fresh, or, for a model known to give traces,
  the line that names the calls.\<close>

theorem replay_touches_only_lost_traces:
  "truly_replayed model_id now st body (fst (replay_into_body model_id body now st))"
proof (cases body)
  case (PDict d)
  show ?thesis
  proof (cases "dget d ''messages''")
    case (PList messages)
    let ?f = "\<lambda>m. case restored_message (live_trace now st) (is_thinking_model model_id st) m of None \<Rightarrow> m | Some m' \<Rightarrow> m'"
    have "list_all2 (truly_restored model_id now st) messages (map ?f messages)"
      by (simp add: list_all2_conv_all_nth restored_truly)
    then show ?thesis
      using PDict PList by (auto simp: truly_replayed_def replayed_body[OF PList] Let_def rewritten_messages_map)
  qed (simp_all add: PDict truly_replayed_def replay_into_body_def)
qed (simp_all add: truly_replayed_def replay_into_body_def)

section \<open>A lost trace is restored\<close>

lemma put_traces_lookup:
  "map_of (fold (\<lambda>key. put_trace key entry) keys traces) key = (if key \<in> set keys then Some entry else map_of traces key)"
  by (induction keys arbitrary: traces) (auto simp: trace_store.get_put)

lemma put_traces_last:
  "keys \<noteq> [] \<Longrightarrow> \<exists>older. fold (\<lambda>key. put_trace key entry) keys traces = older @ [(last keys, entry)]"
  by (induction keys rule: rev_induct) (simp_all add: put_trace_def)

lemma map_of_drop: "wf_dict xs \<Longrightarrow> map_of (drop n xs) key = Some v \<Longrightarrow> map_of xs key = Some v"
  by (metis distinct_drop drop_map in_set_dropD map_of_SomeD map_of_is_SomeI)

lemma evict_lookup:
  assumes "wf_dict (rs_traces st)" "map_of (rs_traces (evict now st)) key = Some e"
  shows "map_of (rs_traces st) key = Some e"
proof -
  let ?kept = "filter (\<lambda>(_, stored_at, _). \<not> rs_ttl_seconds st < now - stored_at) (rs_traces st)"
  have "map_of ?kept key = Some e"
    using assms by (intro map_of_drop[of ?kept]) (simp_all add: evict_def Let_def)
  then have "(key, e) \<in> set (rs_traces st)" by (auto dest: map_of_SomeD)
  then show ?thesis using assms(1) by simp
qed

lemma evict_keeps_last:
  assumes "rs_traces st = older @ [(key, e)]" "wf_dict (rs_traces st)" "\<not> rs_ttl_seconds st < now - fst e" "0 < rs_max_entries st"
  shows "map_of (rs_traces (evict now st)) key = Some e"
proof -
  let ?kept = "filter (\<lambda>(_, stored_at, _). \<not> rs_ttl_seconds st < now - stored_at) (rs_traces st)"
  obtain kept where kept: "?kept = kept @ [(key, e)]" using assms(1,3) by (cases e) auto
  then have "(key, e) \<in> set (drop (length ?kept - rs_max_entries st) ?kept)"
    using assms(4) by (auto simp: drop_append)
  moreover have "wf_dict (drop (length ?kept - rs_max_entries st) ?kept)"
    using distinct_drop[OF wf_dict_filter[OF assms(2)]] by (simp only: drop_map)
  ultimately show ?thesis by (simp add: evict_def Let_def)
qed

lemma observed_live:
  fixes model_id :: string and sigs :: "string list"
  assumes "replay_ok m ttl st" "0 < m" "0 \<le> ttl" "later - now \<le> ttl" "ids \<noteq> []" "take MAX_TRACE_CHARS (strip trace) \<noteq> []"
  defines "st' \<equiv> observe_trace model_id trace ids sigs now st"
  shows "live_trace later st' (last ids) = Some (take MAX_TRACE_CHARS (strip trace), turn_calls sigs)"
    and "call_id \<in> set ids \<Longrightarrow> live_trace later st' call_id \<in> {None, Some (take MAX_TRACE_CHARS (strip trace), turn_calls sigs)}"
proof -
  let ?e = "(now, take MAX_TRACE_CHARS (strip trace), turn_calls sigs)"
  let ?traces = "fold (\<lambda>key. put_trace key ?e) ids (rs_traces st)"
  let ?st = "st\<lparr>rs_thinking_models := (if strip model_id = [] then [] else [strip model_id]) @ rs_thinking_models st, rs_traces := ?traces\<rparr>"
  have st': "st' = evict now ?st" using assms(6) by (simp add: st'_def observe_trace_def Let_def del: take_eq_Nil)
  have "trace_ok (key, ?e)" for key using assms(6) by (simp add: trace_ok_def)
  then have wf: "wf_dict ?traces" using put_traces_ok[of ?e "rs_traces st" ids] assms(1) by (simp add: replay_ok_def)
  have ttl: "rs_ttl_seconds st' = ttl" using assms(1) by (simp add: st' evict_def Let_def replay_ok_def)
  obtain older where "?traces = older @ [(last ids, ?e)]" using put_traces_last[OF assms(5)] by blast
  then have "map_of (rs_traces st') (last ids) = Some ?e"
    unfolding st' using wf assms(1-3) by (intro evict_keeps_last) (auto simp: replay_ok_def)
  then show "live_trace later st' (last ids) = Some (take MAX_TRACE_CHARS (strip trace), turn_calls sigs)"
    using ttl assms(4) by (simp add: live_trace_def)
  assume "call_id \<in> set ids"
  then have "map_of (rs_traces st') call_id \<in> {None, Some ?e}"
    using evict_lookup[of ?st now call_id] wf by (cases "map_of (rs_traces st') call_id") (auto simp: st' put_traces_lookup)
  then show "live_trace later st' call_id \<in> {None, Some (take MAX_TRACE_CHARS (strip trace), turn_calls sigs)}"
    using ttl assms(4) by (auto simp: live_trace_def)
qed

lemma first_trace_clean: "strip (first_trace True d) = first_trace True d"
proof -
  have blank: "strip [] = []" by (simp add: strip_def lstrip_def)
  have one: "strip (clean_trace True v) = clean_trace True v" for v
    by (cases v) (simp_all add: clean_trace_def Let_def blank)
  show ?thesis
  proof (cases "filter (\<lambda>trace. trace \<noteq> []) (map (\<lambda>key. clean_trace True (dget d key)) REASONING_KEYS)")
    case Nil
    then show ?thesis by (simp add: first_trace_def blank)
  next
    case (Cons trace rest)
    then have "trace \<in> set (filter (\<lambda>trace. trace \<noteq> []) (map (\<lambda>key. clean_trace True (dget d key)) REASONING_KEYS))" by simp
    then have "strip trace = trace" using one by auto
    then show ?thesis using Cons by (simp add: first_trace_def)
  qed
qed

lemma mem_map_filter: "y \<in> set (List.map_filter f xs) \<longleftrightarrow> (\<exists>x\<in>set xs. f x = Some y)"
  by (induction xs) (auto simp: List.map_filter_simps split: option.split)

lemma filed_observed:
  assumes "tool_call_ids tool_calls \<noteq> []"
    and "live (last (tool_call_ids tool_calls)) = Some (trace, turn_calls (tool_call_signatures tool_calls))"
    and "\<And>call_id. call_id \<in> set (tool_call_ids tool_calls) \<Longrightarrow> live call_id \<in> {None, Some (trace, turn_calls (tool_call_signatures tool_calls))}"
  shows "filed_trace live tool_calls = trace"
proof -
  let ?fits = "fitting_trace live (turn_calls (tool_call_signatures tool_calls))"
  have "?fits (last (tool_call_ids tool_calls)) = Some trace" using assms(2) by (simp add: fitting_trace_def)
  then have "trace \<in> set (List.map_filter ?fits (tool_call_ids tool_calls))"
    using assms(1) unfolding mem_map_filter by (intro bexI[of _ "last (tool_call_ids tool_calls)"]) simp_all
  moreover have "x = trace" if "x \<in> set (List.map_filter ?fits (tool_call_ids tool_calls))" for x
  proof -
    from that obtain call_id where c: "call_id \<in> set (tool_call_ids tool_calls)" "?fits call_id = Some x"
      unfolding mem_map_filter by blast
    with assms(3)[OF c(1)] show ?thesis by (auto simp: fitting_trace_def split: if_splits)
  qed
  ultimately obtain rest where "List.map_filter ?fits (tool_call_ids tool_calls) = trace # rest"
    by (metis list.set_cases list.set_intros(1))
  then show ?thesis by (simp add: filed_trace_def)
qed

text \<open>C15. What a model gave with its tool calls comes back on the turn: once a complete answer is learned, a request
  sent within the time to live that holds the turn without its trace is sent with it, whichever model it
  goes to.\<close>

theorem a_lost_trace_is_restored:
  assumes "replay_reachable max_entries ttl st" "0 < max_entries" "0 \<le> ttl" "later - now \<le> ttl"
    and "as_list (dget (as_dict payload) ''choices'') = [PDict [(''message'', PDict answer)]]"
    and "first_trace True answer \<noteq> []" "tool_call_ids (dget answer ''tool_calls'') \<noteq> []"
    and "dget d ''messages'' = PList messages" "i < length messages" "lost_its_trace (messages ! i)"
    and "dget (as_dict (messages ! i)) ''tool_calls'' = dget answer ''tool_calls''"
  shows "\<exists>sent. fst (replay_into_body other_model (PDict d) later (record_completion_payload model_id payload now st))
      = PDict (dset ''messages'' (PList sent) d)
    \<and> sent ! i = PDict (dset ''reasoning_content'' (PStr (take MAX_TRACE_CHARS (first_trace True answer))) (as_dict (messages ! i)))"
proof -
  let ?calls = "dget answer ''tool_calls''"
  let ?st = "observe_trace model_id (first_trace True answer) (tool_call_ids ?calls) (tool_call_signatures ?calls) now st"
  let ?trace = "take MAX_TRACE_CHARS (first_trace True answer)"
  have learned: "record_completion_payload model_id payload now st = ?st"
    using assms(5-7) by (simp add: record_completion_payload_def record_choice_def Let_def section_of_def dget_def)
  have clean: "strip (first_trace True answer) = first_trace True answer" by (rule first_trace_clean)
  have trace: "?trace \<noteq> []" using assms(6) by (simp add: MAX_TRACE_CHARS_def)
  note ok = reachable_ok[OF assms(1)]
  have cleaned: "take MAX_TRACE_CHARS (strip (first_trace True answer)) \<noteq> []" unfolding clean by (rule trace)
  note live = observed_live[OF ok assms(2-4,7) cleaned, where sigs = "tool_call_signatures ?calls" and model_id = model_id, unfolded clean]
  have "filed_trace (live_trace later ?st) ?calls = ?trace"
    by (rule filed_observed[of ?calls "live_trace later ?st", OF assms(7) live])
  then have restored: "restored_message (live_trace later ?st) known (messages ! i)
      = Some (PDict (dset ''reasoning_content'' (PStr ?trace) (as_dict (messages ! i))))" for known
    using assms(10,11) trace by (simp add: restored_message_def Let_def)
  let ?f = "restored_message (live_trace later ?st) (is_thinking_model other_model ?st)"
  have "\<not> list_all (\<lambda>r. r = None) (map ?f messages)"
    using restored assms(9) nth_mem[OF assms(9)] by (auto simp: list_all_iff intro!: bexI[of _ "messages ! i"])
  then have body: "fst (replay_into_body other_model (PDict d) later (record_completion_payload model_id payload now st))
      = PDict (dset ''messages'' (PList (map (\<lambda>m. case ?f m of None \<Rightarrow> m | Some m' \<Rightarrow> m') messages)) d)"
    by (simp add: learned replayed_body[OF assms(8)] Let_def rewritten_messages_map)
  show ?thesis
    by (rule exI, rule conjI, rule body) (use restored assms(9) in simp)
qed

definition example_tool_calls :: pv where
  "example_tool_calls = PList [PDict [(''id'', PStr ''c1''),
     (''function'', PDict [(''name'', PStr ''search''), (''arguments'', PStr ''{}'')])]]"

definition example_thinking_answer :: pydict where
  "example_thinking_answer = [(''reasoning_content'', PStr ''look it up''), (''tool_calls'', example_tool_calls)]"

definition example_completion :: pv where
  "example_completion = PDict [(''choices'', PList [PDict [(''message'', PDict example_thinking_answer)]])]"

definition example_turn :: pv where
  "example_turn = PDict [(''role'', PStr ''assistant''), (''content'', PNone), (''tool_calls'', example_tool_calls)]"

lemma example_turn_facts:
  "as_list (dget (as_dict example_completion) ''choices'') = [PDict [(''message'', PDict example_thinking_answer)]]"
  "first_trace True example_thinking_answer = ''look it up''" "lost_its_trace example_turn"
  "tool_call_ids (dget example_thinking_answer ''tool_calls'') = [''c1'']"
  "dget (as_dict example_turn) ''tool_calls'' = dget example_thinking_answer ''tool_calls''"
  "take MAX_TRACE_CHARS ''look it up'' = ''look it up''"
  by (code_simp, code_simp, code_simp, code_simp, code_simp, simp add: MAX_TRACE_CHARS_def)

theorem a_lost_trace_is_restored_witness:
  "\<exists>sent. fst (replay_into_body ''other'' (PDict [(''messages'', PList [example_turn])]) 60
        (record_completion_payload ''thinker'' example_completion 0 (new_replay_store 1 100)))
      = PDict [(''messages'', PList sent)]
    \<and> sent ! 0 = PDict (dset ''reasoning_content'' (PStr ''look it up'') (as_dict example_turn))"
  using a_lost_trace_is_restored[OF replay_reachable.start[of 1 100], of 60 0 example_completion example_thinking_answer
      "[(''messages'', PList [example_turn])]" "[example_turn]" 0 "''other''" "''thinker''"]
  by (simp add: example_turn_facts dget_Cons)

text \<open>C18. However many answers, streams and requests a store has seen, it holds at most its number of traces, one
  per call id, each non-empty and no longer than the cap.\<close>

theorem replay_store_stays_bounded:
  assumes "replay_reachable max_entries ttl st"
  shows "replay_ok max_entries ttl st"
  using assms by (rule reachable_ok)

theorem replay_store_stays_bounded_witness:
  "length (rs_traces (record_completion_payload ''thinker'' example_completion 0 (new_replay_store 1 100))) \<le> 1"
  using replay_store_stays_bounded[OF replay_reachable.completed[OF replay_reachable.start]] by (simp add: replay_ok_def)

end
