(* ===== verification/ReplayStream.thy ===== *)
theory ReplayStream
  imports ReplayContract RelayCount
begin

text \<open>What is learned from a streamed turn (\<open>ReasoningStreamObserver\<close>): what the complete answer it spells out
  would teach, however it was cut into chunks, and where the two differ.\<close>

section \<open>A stream teaches what the complete answer would\<close>

lemma split_joined:
  "split_char c (p @ s) = butlast (split_char c p)
     @ (case split_char c s of w # ws \<Rightarrow> (last (split_char c p) @ w) # ws | [] \<Rightarrow> [])"
proof (induction p)
  case Nil
  show ?case by (cases "split_char c s") simp_all
next
  case (Cons x p)
  obtain w ws where "split_char c s = w # ws" using split_char_nonempty by (meson list.exhaust)
  moreover obtain v vs where "split_char c p = v # vs" using split_char_nonempty by (meson list.exhaust)
  ultimately show ?case using Cons.IH by (cases vs) simp_all
qed

lemma last_split_append:
  "split_char c (p @ s) = butlast (split_char c p) @ split_char c (last (split_char c p) @ s)"
  by (subst split_joined) (simp only: split_char_last)

lemma feed_done: "ob_done ob \<Longrightarrow> observer_feed chunk ob = ob"
  by (simp add: observer_feed_def)

lemma feed_running:
  "\<not> ob_done ob \<Longrightarrow> \<not> ob_done (observer_feed chunk ob) \<Longrightarrow>
     observer_feed chunk ob = ob\<lparr>ob_buffer := last (split_char LF (ob_buffer ob @ chunk)),
       ob_choices := fold consume_line (butlast (split_char LF (ob_buffer ob @ chunk))) (ob_choices ob)\<rparr>"
  by (auto simp: observer_feed_def Let_def give_up_def split: if_splits)

lemma observer_state:
  "\<not> ob_done (fold observer_feed chunks new_stream_observer) \<Longrightarrow>
     fold observer_feed chunks new_stream_observer
       = \<lparr>ob_buffer = last (split_char LF (concat chunks)),
          ob_choices = fold consume_line (butlast (split_char LF (concat chunks))) [], ob_done = False\<rparr>"
proof (induction chunks rule: rev_induct)
  case Nil
  show ?case by (simp add: new_stream_observer_def)
next
  case (snoc chunk chunks)
  let ?ob = "fold observer_feed chunks new_stream_observer" and ?seen = "concat chunks"
  have running: "\<not> ob_done ?ob" using snoc.prems by (auto simp: feed_done)
  have step: "observer_feed chunk ?ob = ?ob\<lparr>ob_buffer := last (split_char LF (ob_buffer ?ob @ chunk)),
       ob_choices := fold consume_line (butlast (split_char LF (ob_buffer ?ob @ chunk))) (ob_choices ?ob)\<rparr>"
    by (rule feed_running[OF running]) (use snoc.prems in simp)
  have "split_char LF (?seen @ chunk) = butlast (split_char LF ?seen) @ split_char LF (last (split_char LF ?seen) @ chunk)"
    by (rule last_split_append)
  then show ?case
    using step by (simp add: snoc.IH[OF running] butlast_append)
qed

lemma blank_line: "strip_by is_byte_space line = [] \<Longrightarrow> consume_line line choices = choices"
  by (simp add: consume_line_def line_choices_def starts_with_def)

text \<open>However a stream was cut into chunks, what is learned from it is read from its lines.\<close>

lemma finish_reads_lines:
  assumes "\<not> ob_done (fold observer_feed chunks new_stream_observer)"
  shows "observer_finish model_id now (fold observer_feed chunks new_stream_observer) st
    = fold (\<lambda>(_, choice). record_streamed model_id now choice) (fold consume_line (split_char LF (concat chunks)) []) st"
proof -
  let ?lines = "split_char LF (concat chunks)"
  have "fold consume_line ?lines [] = consume_line (last ?lines) (fold consume_line (butlast ?lines) [])"
    using append_butlast_last_id[OF split_char_nonempty, of LF "concat chunks"]
    by (metis comp_apply fold_append fold_simps)
  then show ?thesis
    by (simp add: observer_state[OF assms] observer_finish_def blank_line)
qed

subsection \<open>The answer a stream spells out\<close>

text \<open>The pieces of a stream, each with its index: the deltas of its choices and, within a choice, the pieces
  of its tool calls. The answer they spell out joins the pieces of each index.\<close>

definition indexed_piece :: "string \<Rightarrow> nat \<times> pv \<Rightarrow> (int \<times> pydict) option" where
  "indexed_piece part entry =
     (let d = as_dict (snd entry); index = index_or (dget d ''index'') (fst entry) in
      if part = [] then (if is_dict (snd entry) then Some (index, d) else None)
      else (case dget d part of PDict delta \<Rightarrow> Some (index, delta) | _ \<Rightarrow> None))"

definition pieces_of :: "int \<Rightarrow> (int \<times> pydict) list \<Rightarrow> pydict list" where
  "pieces_of i ps = map snd (filter (\<lambda>(j, _). j = i) ps)"

definition firsts :: "int list \<Rightarrow> int list" where
  "firsts xs = rev (remdups (rev xs))"

definition stream_pieces :: "string \<Rightarrow> (int \<times> pydict) list" where
  "stream_pieces text =
     concat (map (\<lambda>line. List.map_filter (indexed_piece ''delta'') (enumerate 0 (line_choices line))) (split_char LF text))"

definition call_pieces :: "pydict list \<Rightarrow> (int \<times> pydict) list" where
  "call_pieces deltas =
     concat (map (\<lambda>delta. List.map_filter (indexed_piece []) (enumerate 0 (as_list (dget delta ''tool_calls'')))) deltas)"

definition spelled :: "string \<Rightarrow> pydict list \<Rightarrow> string" where
  "spelled key ds = concat (map (\<lambda>d. text_fragment (section_of d ''function'') key) ds)"

definition last_id :: "pydict list \<Rightarrow> string" where
  "last_id ds = (case rev (List.map_filter (\<lambda>d. nonblank (dget d ''id'')) ds) of call_id # _ \<Rightarrow> call_id | [] \<Rightarrow> [])"

definition spelled_call :: "pydict list \<Rightarrow> pv" where
  "spelled_call ds = PDict [(''id'', PStr (last_id ds)),
     (''function'', PDict [(''name'', PStr (spelled ''name'' ds)), (''arguments'', PStr (spelled ''arguments'' ds))])]"

definition spelled_trace :: "pydict list \<Rightarrow> string" where
  "spelled_trace deltas = concat (map (first_trace False) deltas)"

definition spelled_message :: "pydict list \<Rightarrow> pydict" where
  "spelled_message deltas =
     (let ps = call_pieces deltas in
      [(''reasoning_content'', PStr (spelled_trace deltas)),
       (''tool_calls'', PList (map (\<lambda>i. spelled_call (pieces_of i ps)) (sort (remdups (map fst ps)))))])"

definition spelled_answer :: "string \<Rightarrow> pv" where
  "spelled_answer text =
     (let ps = stream_pieces text in
      PDict [(''choices'', PList (map (\<lambda>i. PDict [(''message'', PDict (spelled_message (pieces_of i ps)))]) (firsts (map fst ps))))])"

text \<open>A turn whose trace is within the cap and whose calls have an id, a name and arguments that are compared
  in full.\<close>

definition within_caps :: "pydict list \<Rightarrow> bool" where
  "within_caps deltas \<longleftrightarrow> length (spelled_trace deltas) \<le> MAX_TRACE_CHARS
     \<and> list_all (\<lambda>(i, _). let ds = pieces_of i (call_pieces deltas) in
          last_id ds \<noteq> [] \<and> strip (spelled ''name'' ds) \<noteq> [] \<and> length (spelled ''arguments'' ds) \<le> MAX_SIGNATURE_ARG_CHARS)
        (call_pieces deltas)"

lemma pieces_of_snoc: "pieces_of i (ps @ [(j, d)]) = pieces_of i ps @ (if j = i then [d] else [])"
  by (simp add: pieces_of_def)

lemma firsts_snoc: "firsts (xs @ [x]) = firsts xs @ (if x \<in> set xs then [] else [x])"
proof -
  have "remdups (x # rev xs) = (if x \<in> set xs then remdups (rev xs) else x # remdups (rev xs))" by simp
  then show ?thesis by (simp add: firsts_def)
qed

lemma set_firsts [simp]: "set (firsts xs) = set xs" and distinct_firsts [simp]: "distinct (firsts xs)"
  by (simp_all add: firsts_def)

lemma map_of_map_key: "map_of (map (\<lambda>i. (i, g i)) ks) k = (if k \<in> set ks then Some (g k) else None)"
  by (induction ks) auto

lemma update_map_key:
  "distinct ks \<Longrightarrow> AList.update k v (map (\<lambda>i. (i, g i)) ks)
     = map (\<lambda>i. (i, if i = k then v else g i)) ks @ (if k \<in> set ks then [] else [(k, v)])"
  by (induction ks) auto

text \<open>Pieces absorbed one by one are grouped by their index.\<close>

lemma grouped:
  "fold (\<lambda>(i, d) al. AList.update i (f d (case map_of al i of Some x \<Rightarrow> x | None \<Rightarrow> new)) al) ps []
     = map (\<lambda>i. (i, fold f (pieces_of i ps) new)) (firsts (map fst ps))"
proof (induction ps rule: rev_induct)
  case Nil
  show ?case by (simp add: firsts_def)
next
  case (snoc p ps)
  obtain j d where p: "p = (j, d)" by fastforce
  have none: "pieces_of j ps = []" if "j \<notin> fst ` set ps"
    using that by (force simp: pieces_of_def filter_empty_conv)
  let ?g = "\<lambda>i. fold f (pieces_of i ps) new"
  have "(case map_of (map (\<lambda>i. (i, ?g i)) (firsts (map fst ps))) j of Some x \<Rightarrow> x | None \<Rightarrow> new) = ?g j"
    using none by (simp add: map_of_map_key)
  then show ?case
    using none by (simp add: p snoc update_map_key firsts_snoc pieces_of_snoc)
qed

lemma fold_pieces:
  assumes "\<And>e acc. step e acc = (case piece e of Some x \<Rightarrow> add x acc | None \<Rightarrow> acc)"
  shows "fold step es acc = fold add (List.map_filter piece es) acc"
  using assms by (induction es arbitrary: acc) (simp_all add: List.map_filter_simps split: option.split)

lemma fold_concat: "fold (\<lambda>x. fold f (g x)) xs acc = fold f (concat (map g xs)) acc"
  by (induction xs arbitrary: acc) simp_all

lemma stream_choices:
  "fold consume_line (split_char LF text) []
     = map (\<lambda>i. (i, fold absorb_delta (pieces_of i (stream_pieces text)) new_streamed_choice)) (firsts (map fst (stream_pieces text)))"
proof -
  have step: "consume_choice e choices
      = (case indexed_piece ''delta'' e of Some x \<Rightarrow> (\<lambda>(i, d). consume_delta i d) x choices | None \<Rightarrow> choices)" for e choices
    by (simp add: consume_choice_def indexed_piece_def Let_def split: pv.split)
  have line: "consume_line line = fold (\<lambda>(i, d). consume_delta i d) (List.map_filter (indexed_piece ''delta'') (enumerate 0 (line_choices line)))" for line
    unfolding consume_line_def by (rule ext, rule fold_pieces) (rule step)
  show ?thesis
    unfolding line fold_concat stream_pieces_def[symmetric]
    using grouped[of absorb_delta new_streamed_choice "stream_pieces text"] by (simp add: consume_delta_def[abs_def])
qed

lemma streamed_calls:
  "sc_calls (fold absorb_delta deltas choice) = fold (\<lambda>(i, d) al. AList.update i (absorb_call d (case map_of al i of Some x \<Rightarrow> x | None \<Rightarrow> new_streamed_call)) al)
     (call_pieces deltas) (sc_calls choice)"
proof -
  have step: "absorb_tool_call e calls = (case indexed_piece [] e of
      Some x \<Rightarrow> (\<lambda>(i, d) al. AList.update i (absorb_call d (case map_of al i of Some x \<Rightarrow> x | None \<Rightarrow> new_streamed_call)) al) x calls | None \<Rightarrow> calls)" for e calls
    by (simp add: absorb_tool_call_def indexed_piece_def Let_def split: pv.split)
  show ?thesis
  proof (induction deltas arbitrary: choice)
    case Nil
    show ?case by (simp add: call_pieces_def)
  next
    case (Cons delta deltas)
    have "sc_calls (absorb_delta delta choice) = absorb_tool_calls (dget delta ''tool_calls'') (sc_calls choice)"
      by (simp add: absorb_delta_def Let_def absorb_part_def)
    also have "\<dots> = fold (\<lambda>(i, d) al. AList.update i (absorb_call d (case map_of al i of Some x \<Rightarrow> x | None \<Rightarrow> new_streamed_call)) al)
        (List.map_filter (indexed_piece []) (enumerate 0 (as_list (dget delta ''tool_calls'')))) (sc_calls choice)"
      unfolding absorb_tool_calls_def by (rule fold_pieces) (rule step)
    finally show ?case by (simp add: Cons.IH call_pieces_def)
  qed
qed

lemma nonblank_Some: "nonblank v = Some s \<Longrightarrow> s \<noteq> [] \<and> strip s = s"
  by (auto simp: nonblank_def split: pv.splits if_splits)

lemma last_id_snoc: "last_id (ds @ [d]) = (case nonblank (dget d ''id'') of Some call_id \<Rightarrow> call_id | None \<Rightarrow> last_id ds)"
  by (cases "nonblank (dget d ''id'')") (simp_all add: last_id_def List.map_filter_def)

lemma last_id_stripped: "last_id ds \<noteq> [] \<Longrightarrow> nonblank (PStr (last_id ds)) = Some (last_id ds)"
proof (induction ds rule: rev_induct)
  case (snoc d ds)
  then show ?case
    by (cases "nonblank (dget d ''id'')") (auto simp: last_id_snoc nonblank_def[of "PStr _"] dest: nonblank_Some)
qed (simp add: last_id_def List.map_filter_simps)

lemma spelled_snoc: "spelled key (ds @ [d]) = spelled key ds @ text_fragment (section_of d ''function'') key"
  by (simp add: spelled_def)

lemma absorbed_call:
  "length (spelled ''arguments'' ds) \<le> MAX_SIGNATURE_ARG_CHARS \<Longrightarrow>
     fold absorb_call ds new_streamed_call
       = \<lparr>sk_id = last_id ds, sk_name = spelled ''name'' ds, sk_arguments = spelled ''arguments'' ds\<rparr>"
proof (induction ds rule: rev_induct)
  case Nil
  show ?case by (simp add: new_streamed_call_def last_id_def spelled_def List.map_filter_simps)
next
  case (snoc d ds)
  let ?more = "text_fragment (section_of d ''function'') ''arguments''"
  from snoc.prems have fits: "length (spelled ''arguments'' ds) + length ?more \<le> MAX_SIGNATURE_ARG_CHARS" by (simp add: spelled_snoc)
  then have "?more = []" if "\<not> length (spelled ''arguments'' ds) < MAX_SIGNATURE_ARG_CHARS"
    using that unfolding length_0_conv[symmetric] by linarith
  with fits show ?case
    using snoc.IH by (auto simp: absorb_call_def Let_def last_id_snoc spelled_snoc split: option.split)
qed

lemma absorbed_trace:
  "length (spelled_trace deltas) \<le> MAX_TRACE_CHARS \<Longrightarrow>
     concat (sc_parts (fold absorb_delta deltas new_streamed_choice)) = spelled_trace deltas
       \<and> sc_chars (fold absorb_delta deltas new_streamed_choice) = length (spelled_trace deltas)"
proof (induction deltas rule: rev_induct)
  case (snoc d ds)
  let ?choice = "fold absorb_delta ds new_streamed_choice"
  have joined: "spelled_trace (ds @ [d]) = spelled_trace ds @ first_trace False d" by (simp add: spelled_trace_def)
  have fits: "length (spelled_trace ds) + length (first_trace False d) \<le> MAX_TRACE_CHARS" using snoc.prems by (simp add: joined)
  then have choice: "concat (sc_parts ?choice) = spelled_trace ds" "sc_chars ?choice = length (spelled_trace ds)"
    using snoc.IH by simp_all
  have "first_trace False d = []" if "\<not> length (spelled_trace ds) < MAX_TRACE_CHARS"
    using that fits unfolding length_0_conv[symmetric] by linarith
  then have "concat (sc_parts (absorb_part (first_trace False d) ?choice)) = spelled_trace ds @ first_trace False d
      \<and> sc_chars (absorb_part (first_trace False d) ?choice) = length (spelled_trace ds) + length (first_trace False d)"
    using fits by (simp add: absorb_part_def choice)
  then show ?case by (simp add: joined absorb_delta_def[of d] Let_def)
qed (simp add: new_streamed_choice_def spelled_trace_def)

lemma insort_key_map: "insort_key f (g x) (map g xs) = map g (insort_key (\<lambda>x. f (g x)) x xs)"
  by (induction xs) simp_all

lemma sort_key_map: "sort_key f (map g xs) = map g (sort_key (\<lambda>x. f (g x)) xs)"
  by (induction xs) (simp_all add: insort_key_map)

lemma sort_firsts: "sort (firsts xs) = sort (remdups xs)"
  by (rule sorted_distinct_set_unique) simp_all

lemma map_filter_all: "(\<And>x. x \<in> set xs \<Longrightarrow> f (g x) = Some (h x)) \<Longrightarrow> List.map_filter f (map g xs) = map h xs"
  by (induction xs) (simp_all add: List.map_filter_simps)

lemma learned_choice:
  assumes "within_caps deltas"
  shows "record_streamed model_id now (fold absorb_delta deltas new_streamed_choice) st
    = record_choice model_id now (PDict [(''message'', PDict (spelled_message deltas))]) st"
proof -
  let ?ps = "call_pieces deltas"
  let ?ds = "\<lambda>i. pieces_of i ?ps"
  let ?is = "sort (remdups (map fst ?ps))"
  have caps: "last_id (?ds i) \<noteq> []" "strip (spelled ''name'' (?ds i)) \<noteq> []" "length (spelled ''arguments'' (?ds i)) \<le> MAX_SIGNATURE_ARG_CHARS"
    if "i \<in> set ?is" for i
    using assms that by (auto simp: within_caps_def list_all_iff Let_def)
  have calls: "sc_calls (fold absorb_delta deltas new_streamed_choice) = map (\<lambda>i. (i, fold absorb_call (?ds i) new_streamed_call)) (firsts (map fst ?ps))"
    using grouped[of absorb_call new_streamed_call ?ps] by (simp add: streamed_calls new_streamed_choice_def)
  have sorted: "map snd (sort_key fst (sc_calls (fold absorb_delta deltas new_streamed_choice)))
      = map (\<lambda>i. \<lparr>sk_id = last_id (?ds i), sk_name = spelled ''name'' (?ds i), sk_arguments = spelled ''arguments'' (?ds i)\<rparr>) ?is"
    using caps(3) by (simp add: calls sort_key_map sort_firsts absorbed_call)
  have usable: "usable_calls (sc_calls (fold absorb_delta deltas new_streamed_choice))
      = map (\<lambda>i. \<lparr>sk_id = last_id (?ds i), sk_name = spelled ''name'' (?ds i), sk_arguments = spelled ''arguments'' (?ds i)\<rparr>) ?is"
    unfolding usable_calls_def sorted using caps(1,2) by (intro filter_True) auto
  have message: "dget (spelled_message deltas) ''tool_calls'' = PList (map (\<lambda>i. spelled_call (?ds i)) ?is)"
    by (simp add: spelled_message_def Let_def)
  have ids: "tool_call_ids (dget (spelled_message deltas) ''tool_calls'') = map (\<lambda>i. last_id (?ds i)) ?is"
    unfolding message tool_call_ids_def as_list.simps
    by (rule map_filter_all) (simp add: spelled_call_def last_id_stripped caps(1) del: set_sort)
  have signatures: "tool_call_signatures (dget (spelled_message deltas) ''tool_calls'')
      = map (\<lambda>i. call_signature (strip (spelled ''name'' (?ds i))) (spelled ''arguments'' (?ds i))) ?is"
    unfolding message tool_call_signatures_def as_list.simps
    by (rule map_filter_all)
      (simp add: spelled_call_def tool_call_signature_def call_function_def section_of_def nonblank_def caps(2) del: set_sort)
  have trace: "first_trace True (spelled_message deltas) = strip (spelled_trace deltas)"
    by (simp add: first_trace_def REASONING_KEYS_def spelled_message_def Let_def clean_trace_def)
  have "concat (sc_parts (fold absorb_delta deltas new_streamed_choice)) = spelled_trace deltas"
    using absorbed_trace assms by (simp add: within_caps_def)
  then show ?thesis
    by (simp add: record_streamed_def record_choice_def resolved_calls_def usable ids signatures trace section_of_def Let_def o_def)
qed

lemma fold_cong_list: "(\<And>x acc. x \<in> set xs \<Longrightarrow> f x acc = g x acc) \<Longrightarrow> fold f xs acc = fold g xs acc"
  by (induction xs arbitrary: acc) simp_all

text \<open>C16. A streamed turn is relayed as it came and teaches what the complete answer it spells out would, however
  it was cut into chunks, as long as the relay reads it to the end, the observer did not give it up and
  the turn is within the caps.\<close>

theorem streamed_turns_teach_what_complete_ones_do:
  assumes "\<not> ob_done (fold observer_feed chunks new_stream_observer)" "length chunks < asked"
    and "list_all (\<lambda>(i, _). within_caps (pieces_of i (stream_pieces (concat chunks)))) (stream_pieces (concat chunks))"
  shows "observe_stream_chunks model_id chunks asked now st
    = (chunks, record_completion_payload model_id (spelled_answer (concat chunks)) now st)"
proof -
  let ?ps = "stream_pieces (concat chunks)"
  have caps: "within_caps (pieces_of i ?ps)" if "i \<in> set (firsts (map fst ?ps))" for i
    using assms(3) that by (auto simp: list_all_iff)
  have "observe_stream_chunks model_id chunks asked now st
      = (chunks, observer_finish model_id now (fold observer_feed chunks new_stream_observer) st)"
    using assms(2) by (simp add: observe_stream_chunks_def)
  also have "observer_finish model_id now (fold observer_feed chunks new_stream_observer) st
      = fold (\<lambda>i. record_streamed model_id now (fold absorb_delta (pieces_of i ?ps) new_streamed_choice)) (firsts (map fst ?ps)) st"
    by (simp add: finish_reads_lines[OF assms(1)] stream_choices fold_map o_def)
  also have "\<dots> = fold (\<lambda>i. record_choice model_id now (PDict [(''message'', PDict (spelled_message (pieces_of i ?ps)))])) (firsts (map fst ?ps)) st"
    by (rule fold_cong_list) (simp add: learned_choice[OF caps])
  also have "\<dots> = record_completion_payload model_id (spelled_answer (concat chunks)) now st"
    by (simp add: record_completion_payload_def spelled_answer_def Let_def fold_map o_def)
  finally show ?thesis .
qed

section \<open>Where a stream and a complete answer differ\<close>

lemma strip_solid: "s \<noteq> [] \<Longrightarrow> \<not> is_space (hd s) \<Longrightarrow> \<not> is_space (last s) \<Longrightarrow> strip s = s"
  by (simp add: strip_def lstrip_eq_self[THEN iffD2] dropWhile_eq_self_iff hd_rev)

lemma strip_trailing_space:
  assumes "s \<noteq> []" "\<not> is_space (hd s)" "\<not> is_space (last s)"
  shows "strip (s @ '' '') = s"
proof -
  have "is_space (CHR '' '')" by code_simp
  moreover have "dropWhile is_space (s @ '' '') = s @ '' ''" "dropWhile is_space (rev s) = rev s"
    using assms by (simp_all add: dropWhile_eq_self_iff hd_rev)
  ultimately show ?thesis unfolding strip_def lstrip_def by simp
qed

lemma example_letters: "\<not> is_space (CHR ''a'')" "\<not> is_space (CHR ''b'')" "is_space CHR '' ''" "strip ''f'' = ''f''" "strip ''c1'' = ''c1''"
   "strip ''hmhm'' = ''hmhm''"
  by code_simp+

definition example_piece :: "string \<Rightarrow> string \<Rightarrow> pydict" where
  "example_piece name arguments = [(''index'', PInt 0), (''id'', PStr ''c1''),
     (''function'', PDict [(''name'', PStr name), (''arguments'', PStr arguments)])]"

definition example_delta :: "string \<Rightarrow> string \<Rightarrow> pydict" where
  "example_delta name arguments =
     [(''reasoning_content'', PStr ''hm''), (''tool_calls'', PList [PDict (example_piece name arguments)])]"

definition example_deltas :: "pydict list" where
  "example_deltas = [example_delta ''f'' (replicate 511 (CHR ''a'') @ '' ''), example_delta [] ''b'']"

lemma example_call_pieces:
  "call_pieces example_deltas = [(0, example_piece ''f'' (replicate 511 (CHR ''a'') @ '' '')), (0, example_piece [] ''b'')]"
proof -
  have "index_or (dget (example_piece name arguments) ''index'') 0 = 0" for name arguments
    by (simp add: example_piece_def index_or_def)
  then show ?thesis
    by (simp add: call_pieces_def example_deltas_def example_delta_def List.map_filter_simps indexed_piece_def)
qed

lemma example_streamed_signature:
  "resolved_calls (sc_calls (fold absorb_delta example_deltas new_streamed_choice))
    = ([''c1''], [''f('' @ replicate 511 (CHR ''a'') @ '')''])"
proof -
  let ?long = "replicate 511 (CHR ''a'')"
  have args: "strip (?long @ '' '') = ?long" by (rule strip_trailing_space) (simp_all add: example_letters)
  have "sc_calls (fold absorb_delta example_deltas new_streamed_choice)
      = [(0, \<lparr>sk_id = ''c1'', sk_name = ''f'', sk_arguments = ?long @ '' ''\<rparr>)]"
    unfolding streamed_calls example_call_pieces
    by (simp add: example_piece_def absorb_call_def new_streamed_choice_def new_streamed_call_def
        Let_def section_of_def text_fragment_def nonblank_def example_letters MAX_SIGNATURE_ARG_CHARS_def)
  then show ?thesis
    by (simp add: resolved_calls_def usable_calls_def example_letters call_signature_def args MAX_SIGNATURE_ARG_CHARS_def)
qed

lemma example_complete_signature:
  "tool_call_signatures (dget (spelled_message example_deltas) ''tool_calls'') = [''f('' @ replicate 511 (CHR ''a'') @ '' )'']"
  "tool_call_ids (dget (spelled_message example_deltas) ''tool_calls'') = [''c1'']"
proof -
  let ?long = "replicate 511 (CHR ''a'')"
  have args: "strip (?long @ '' b'') = ?long @ '' b''" by (rule strip_solid) (simp_all add: example_letters)
  have calls: "dget (spelled_message example_deltas) ''tool_calls'' = PList [PDict [(''id'', PStr ''c1''),
     (''function'', PDict [(''name'', PStr ''f''), (''arguments'', PStr (?long @ '' b''))])]]"
    unfolding spelled_message_def Let_def example_call_pieces
    by (simp add: example_piece_def pieces_of_def spelled_call_def last_id_def spelled_def
        List.map_filter_simps nonblank_def example_letters section_of_def text_fragment_def)
  show "tool_call_signatures (dget (spelled_message example_deltas) ''tool_calls'') = [''f('' @ ?long @ '' )'']"
    by (simp add: calls tool_call_signatures_def List.map_filter_simps tool_call_signature_def call_function_def section_of_def
        nonblank_def example_letters call_signature_def args MAX_SIGNATURE_ARG_CHARS_def)
  show "tool_call_ids (dget (spelled_message example_deltas) ''tool_calls'') = [''c1'']"
    by (simp add: calls tool_call_ids_def List.map_filter_simps nonblank_def example_letters)
qed

text \<open>C19. A stream whose arguments reach the cap at a space loses its trace: the streamed call is stripped after the
  cut and the complete one before it, so the turn the client sends back does not fit the call on file.\<close>

theorem a_cut_at_a_space_loses_the_trace:
  "fst (trace_for (tool_call_ids (dget (spelled_message example_deltas) ''tool_calls''))
      (tool_call_signatures (dget (spelled_message example_deltas) ''tool_calls'')) 0
      (record_streamed model_id 0 (fold absorb_delta example_deltas new_streamed_choice) (new_replay_store 512 7200))) = []
   \<and> fst (trace_for (tool_call_ids (dget (spelled_message example_deltas) ''tool_calls''))
      (tool_call_signatures (dget (spelled_message example_deltas) ''tool_calls'')) 0
      (record_choice model_id 0 (PDict [(''message'', PDict (spelled_message example_deltas))]) (new_replay_store 512 7200))) = ''hmhm''"
proof -
  have trace: "strip (concat (sc_parts (fold absorb_delta example_deltas new_streamed_choice))) = ''hmhm''"
    "first_trace True (spelled_message example_deltas) = ''hmhm''"
    by (simp_all add: example_deltas_def example_delta_def absorb_delta_def absorb_part_def first_trace_def REASONING_KEYS_def clean_trace_def
        Let_def new_streamed_choice_def MAX_TRACE_CHARS_def example_letters spelled_message_def spelled_trace_def)
  show ?thesis
    by (simp add: record_streamed_def record_choice_def section_of_def example_streamed_signature example_complete_signature trace trace_for_def
        Let_def observe_trace_def evict_def new_replay_store_def turn_calls_def put_trace_def example_letters MAX_TRACE_CHARS_def)
qed

definition example_line :: string where
  "example_line = ''data: '' @ json_dumps (PDict [(''choices'', PList [PDict [(''delta'', PDict
     [(''reasoning_content'', PStr ''hm''), (''tool_calls'', PList [PDict (example_piece ''f'' ''{}'')])])]])])"

lemma example_line_facts:
  "line_choices example_line = [PDict [(''delta'', PDict
     [(''reasoning_content'', PStr ''hm''), (''tool_calls'', PList [PDict (example_piece ''f'' ''{}'')])])]]"
  "line_choices [] = []" "split_char LF (example_line @ [LF]) = [example_line, []]"
  "length example_line \<le> 200"
  by (code_simp, code_simp, code_simp, code_simp)

lemma example_line_pieces:
  "stream_pieces (example_line @ [LF]) = [(0, [(''reasoning_content'', PStr ''hm''), (''tool_calls'', PList [PDict (example_piece ''f'' ''{}'')])])]"
  by (simp add: stream_pieces_def example_line_facts List.map_filter_simps indexed_piece_def index_or_def)

theorem streamed_turns_teach_what_complete_ones_do_witness:
  "snd (observe_stream_chunks ''thinker'' [example_line, [LF]] 3 0 (new_replay_store 1 100))
     = record_completion_payload ''thinker'' (spelled_answer (example_line @ [LF])) 0 (new_replay_store 1 100)"
proof -
  have caps: "list_all (\<lambda>(i, _). within_caps (pieces_of i (stream_pieces (concat [example_line, [LF]])))) (stream_pieces (concat [example_line, [LF]]))"
    by (simp add: example_line_pieces) code_simp
  have running: "\<not> ob_done (fold observer_feed [example_line, [LF]] new_stream_observer)"
  proof -
    let ?delta = "[(''reasoning_content'', PStr ''hm''), (''tool_calls'', PList [PDict (example_piece ''f'' ''{}'')])]"
    have "split_char LF example_line = [example_line]" by code_simp
    then have first: "observer_feed example_line new_stream_observer = new_stream_observer\<lparr>ob_buffer := example_line\<rparr>"
      using example_line_facts(4) by (simp add: observer_feed_def new_stream_observer_def MAX_TRACE_CHARS_def)
    have "consume_line example_line [] = [(0, absorb_delta ?delta new_streamed_choice)]"
      by (simp add: consume_line_def example_line_facts consume_choice_def consume_delta_def index_or_def)
    moreover have "sc_chars (absorb_delta ?delta new_streamed_choice) = 2"
      by (simp add: absorb_delta_def absorb_part_def first_trace_def REASONING_KEYS_def clean_trace_def new_streamed_choice_def Let_def)
    ultimately show ?thesis
      by (simp add: first) (simp add: observer_feed_def new_stream_observer_def example_line_facts MAX_TRACE_CHARS_def)
  qed
  show ?thesis using streamed_turns_teach_what_complete_ones_do[OF running _ caps, of 3] by simp
qed

end
