(* ===== verification/Spec2Isabelle.thy ===== *)
theory Spec2Isabelle
  imports ExceptionChain CooldownState RoutingPolicy StateStore CatalogModel QualityFeedback Evidence
    ModelScoring Selection AttemptVerdict ProviderAdmission RequestRun StreamContract AnthropicContract ReplayStream
begin

text \<open>Root of the development: what is modelled and where.\<close>

end
